(* ===== verification/Drpd_Prelude.thy ===== *)
theory Drpd_Prelude
  imports "HOL-Library.Word"
begin

text \<open>
  Shared vocabulary of the development: the integer view of the JavaScript number operators the
  frontend uses on bit fields, byte arrays (\<open>Uint8Array\<close>) and their slices, results that are
  either a thrown error or a value, and the bit-field library (\<open>pack\<close>, \<open>unpack\<close>) the decoder
  theorems use to say that decoded fields account for every bit of the raw word.
\<close>

unbundle bit_operations_syntax

section \<open>Collections of facts\<close>

named_theorems js_ops \<open>definitions of the JavaScript operators\<close>
named_theorems bit_fields \<open>arithmetic reading of bit extractions\<close>

section \<open>JavaScript numbers used as integers\<close>

text \<open>
  A JavaScript number that holds an integer is an \<open>int\<close>. The bitwise operators convert their
  operands to 32 bits first (ECMAScript ToInt32 and ToUint32), take the shift count modulo 32, and
  all but the unsigned right shift return a signed result.
\<close>

definition to_int32 :: "int \<Rightarrow> int" where
  [js_ops]: "to_int32 x = signed_take_bit 31 x"

definition to_uint32 :: "int \<Rightarrow> int" where
  [js_ops]: "to_uint32 x = take_bit 32 x"

definition js_and :: "int \<Rightarrow> int \<Rightarrow> int" where
  [js_ops]: "js_and a b = to_int32 a AND to_int32 b"

definition js_or :: "int \<Rightarrow> int \<Rightarrow> int" where
  [js_ops]: "js_or a b = to_int32 a OR to_int32 b"

definition js_xor :: "int \<Rightarrow> int \<Rightarrow> int" where
  [js_ops]: "js_xor a b = to_int32 a XOR to_int32 b"

definition js_not :: "int \<Rightarrow> int" where
  [js_ops]: "js_not a = NOT (to_int32 a)"

definition js_shl :: "int \<Rightarrow> int \<Rightarrow> int" where
  [js_ops]: "js_shl a n = to_int32 (push_bit (nat (n mod 32)) (to_int32 a))"

definition js_sar :: "int \<Rightarrow> int \<Rightarrow> int" where
  [js_ops]: "js_sar a n = drop_bit (nat (n mod 32)) (to_int32 a)"

definition js_ushr :: "int \<Rightarrow> int \<Rightarrow> int" where
  [js_ops]: "js_ushr a n = drop_bit (nat (n mod 32)) (to_uint32 a)"

lemma to_uint32_bounds: "0 \<le> to_uint32 x" "to_uint32 x < 2 ^ 32"
  using take_bit_int_less_exp[of 32 x] by (simp_all add: to_uint32_def)

lemma to_uint32_id: "0 \<le> x \<Longrightarrow> x < 2 ^ 32 \<Longrightarrow> to_uint32 x = x"
  by (simp add: to_uint32_def take_bit_int_eq_self)

lemma to_int32_id: "- (2 ^ 31) \<le> x \<Longrightarrow> x < 2 ^ 31 \<Longrightarrow> to_int32 x = x"
  by (simp add: to_int32_def signed_take_bit_int_eq_self)

lemma take_bit_to_int32: "n \<le> 32 \<Longrightarrow> take_bit n (to_int32 x) = take_bit n x"
proof (rule bit_eqI)
  fix k
  assume "n \<le> 32"
  then have "k < n \<Longrightarrow> min k 31 = k"
    by simp
  then show "bit (take_bit n (to_int32 x)) k \<longleftrightarrow> bit (take_bit n x) k"
    by (auto simp: to_int32_def bit_simps)
qed

lemma to_uint32_to_int32: "to_uint32 (to_int32 x) = to_uint32 x"
  by (simp add: to_uint32_def take_bit_to_int32)

lemma to_int32_idem: "to_int32 (to_int32 x) = to_int32 x"
  by (simp add: to_int32_def)

lemma js_and_cong: "to_int32 a = to_int32 b \<Longrightarrow> js_and x a = js_and x b"
  by (simp add: js_and_def)

lemma js_and_mask:
  assumes "w \<le> 31"
  shows "js_and x (2 ^ w - 1) = take_bit w x"
proof -
  have "(2::int) ^ w \<le> 2 ^ 31"
    using assms by (intro power_increasing) auto
  moreover have "(0::int) < 2 ^ w"
    by simp
  ultimately have "to_int32 (2 ^ w - 1) = 2 ^ w - 1"
    by (intro to_int32_id) linarith+
  then have "js_and x (2 ^ w - 1) = take_bit w (to_int32 x)"
    by (simp add: js_and_def take_bit_eq_mask mask_eq_exp_minus_1)
  then show ?thesis
    using assms by (simp add: take_bit_to_int32)
qed

lemma js_and_1: "js_and x 1 = x mod 2"
  using js_and_mask[of 1 x] by (simp add: take_bit_eq_mod)

lemma js_and_bounds:
  assumes "0 \<le> m" "m < 2 ^ 31"
  shows "0 \<le> js_and x m" "js_and x m \<le> m"
proof -
  have "to_int32 m = m"
    using assms by (intro to_int32_id) auto
  then show "0 \<le> js_and x m" "js_and x m \<le> m"
    using assms by (simp_all add: js_and_def AND_upper2)
qed

lemma js_sar_nonneg:
  assumes "0 \<le> x" "x < 2 ^ 31" "n < 32"
  shows "js_sar x (int n) = x div 2 ^ n"
  using assms to_int32_id[of x] by (simp add: js_sar_def drop_bit_eq_div)

lemma js_ushr_nonneg:
  assumes "0 \<le> x" "x < 2 ^ 32" "n < 32"
  shows "js_ushr x (int n) = x div 2 ^ n"
  using assms to_uint32_id[of x] by (simp add: js_ushr_def drop_bit_eq_div)

lemma js_sar_numeral:
  "0 \<le> x \<Longrightarrow> x < 2 ^ 31 \<Longrightarrow> numeral n < (32 :: nat) \<Longrightarrow>
   js_sar x (numeral n) = x div 2 ^ numeral n"
  using js_sar_nonneg[of x "numeral n"] by simp

lemma js_ushr_numeral:
  "0 \<le> x \<Longrightarrow> x < 2 ^ 32 \<Longrightarrow> numeral n < (32 :: nat) \<Longrightarrow>
   js_ushr x (numeral n) = x div 2 ^ numeral n"
  using js_ushr_nonneg[of x "numeral n"] by simp

lemma to_uint32_js_or: "to_uint32 (js_or a b) = to_uint32 a OR to_uint32 b"
  by (simp add: js_or_def to_uint32_def take_bit_or take_bit_to_int32)

lemma to_uint32_js_shl:
  "0 \<le> n \<Longrightarrow> n < 32 \<Longrightarrow> to_uint32 (js_shl a n) = take_bit 32 (push_bit (nat n) a)"
  by (simp add: js_shl_def to_uint32_def take_bit_to_int32 take_bit_push_bit)

lemma take_drop_take_bit:
  "l + w \<le> n \<Longrightarrow> take_bit w (drop_bit l (take_bit n v)) = take_bit w (drop_bit l (v :: int))"
  by (rule bit_eqI) (auto simp: bit_simps)

lemma or_push_bit_add:
  assumes "0 \<le> a" "a < 2 ^ k"
  shows "a OR push_bit k b = a + 2 ^ k * (b :: int)"
proof -
  have "take_bit k a = a"
    using assms by (simp add: take_bit_int_eq_self)
  then have "\<not> bit a n" if "k \<le> n" for n
    using that by (metis bit_take_bit_iff not_le)
  then have "a AND push_bit k b = 0"
    by (intro bit_eqI) (auto simp: bit_simps)
  then have "a OR push_bit k b = a + push_bit k b"
    by (rule disjunctive_add_eq_or [symmetric])
  then show ?thesis
    by (simp add: push_bit_eq_mult mult.commute)
qed

lemma js_or_shl_8:
  assumes "0 \<le> a" "a < 256" "0 \<le> b" "b < 256"
  shows "js_or a (js_shl b 8) = a + 256 * b"
proof -
  have b: "to_int32 b = b" "to_int32 a = a" "to_int32 (b * 256) = b * 256"
    using assms by (auto intro!: to_int32_id)
  have "js_shl b 8 = push_bit 8 b"
    using b by (simp add: js_shl_def push_bit_eq_mult)
  moreover have "to_int32 (push_bit 8 b) = push_bit 8 b"
    using b by (simp add: push_bit_eq_mult)
  ultimately show ?thesis
    using or_push_bit_add[of a 8 b] assms b by (simp add: js_or_def)
qed

section \<open>Results of code that may throw\<close>

text \<open>A computation that may throw is a sum: \<open>Inl\<close> the error, \<open>Inr\<close> the value.\<close>

fun res_bind :: "'e + 'a \<Rightarrow> ('a \<Rightarrow> 'e + 'b) \<Rightarrow> 'e + 'b" where
  "res_bind (Inl e) f = Inl e"
| "res_bind (Inr x) f = f x"

lemma res_bind_Inr_iff: "res_bind r f = Inr y \<longleftrightarrow> (\<exists>x. r = Inr x \<and> f x = Inr y)"
  by (cases r) auto

lemma res_bind_Inl_iff:
  "res_bind r f = Inl e \<longleftrightarrow> r = Inl e \<or> (\<exists>x. r = Inr x \<and> f x = Inl e)"
  by (cases r) auto

section \<open>Byte arrays\<close>

type_synonym byte = "8 word"
type_synonym bytes = "8 word list"

text \<open>
  An element of a byte array read as a number; \<open>None\<close> is JavaScript's \<open>undefined\<close> for an index
  past the end. \<open>sub_array\<close> is \<open>subarray(first, past)\<close> on indices that are not negative: both are
  clamped to the length and a reversed range is empty.
\<close>

definition byte_at :: "bytes \<Rightarrow> nat \<Rightarrow> int" where
  "byte_at bs i = (if i < length bs then uint (bs ! i) else 0)"

definition byte_opt :: "bytes \<Rightarrow> nat \<Rightarrow> int option" where
  "byte_opt bs i = (if i < length bs then Some (uint (bs ! i)) else None)"

definition sub_array :: "'a list \<Rightarrow> nat \<Rightarrow> nat \<Rightarrow> 'a list" where
  "sub_array xs a b = take (b - a) (drop a xs)"

lemma uint_byte_bounds: "0 \<le> uint (b :: byte)" "uint (b :: byte) < 256" "uint (b :: byte) \<le> 255"
  using uint_lt2p[of b] by simp_all

lemma byte_at_bounds [simp]: "0 \<le> byte_at bs i" "byte_at bs i < 256" "byte_at bs i \<le> 255"
  using uint_byte_bounds[of "bs ! i"] by (simp_all add: byte_at_def)

lemma byte_at_append1: "i < length xs \<Longrightarrow> byte_at (xs @ ys) i = byte_at xs i"
  by (simp add: byte_at_def nth_append)

lemma byte_at_append2: "byte_at (xs @ ys) (length xs + i) = byte_at ys i"
  by (simp add: byte_at_def nth_append)

lemma length_sub_array [simp]: "length (sub_array xs a b) = min (b - a) (length xs - a)"
  by (simp add: sub_array_def)

lemma sub_array_all [simp]: "sub_array xs 0 (length xs) = xs"
  by (simp add: sub_array_def)

lemma sub_array_append_drop:
  "a \<le> b \<Longrightarrow> b \<le> c \<Longrightarrow> sub_array xs a b @ sub_array xs b c = sub_array xs a c"
  by (auto simp: sub_array_def take_add le_iff_add add.commute)

lemma byte_at_sub_array:
  "a + i < b \<Longrightarrow> b \<le> length xs \<Longrightarrow> byte_at (sub_array xs a b) i = byte_at xs (a + i)"
  by (auto simp: byte_at_def sub_array_def)

subsection \<open>Little-endian values\<close>

fun le_val :: "bytes \<Rightarrow> int" where
  "le_val [] = 0"
| "le_val (b # bs) = uint b + 256 * le_val bs"

fun le_bytes :: "nat \<Rightarrow> int \<Rightarrow> bytes" where
  "le_bytes 0 v = []"
| "le_bytes (Suc n) v = word_of_int (v mod 256) # le_bytes n (v div 256)"

lemma length_le_bytes [simp]: "length (le_bytes n v) = n"
  by (induction n arbitrary: v) auto

lemma le_val_bounds: "0 \<le> le_val bs \<and> le_val bs < 256 ^ length bs"
proof (induction bs)
  case (Cons b bs)
  then have "le_val bs + 1 \<le> 256 ^ length bs"
    by simp
  then have "256 * (le_val bs + 1) \<le> 256 * 256 ^ length bs"
    by simp
  then show ?case
    using Cons uint_byte_bounds[of b] by simp
qed simp

lemma uint_byte_of_int [simp]: "uint (word_of_int (v mod 256) :: byte) = v mod 256"
  using take_bit_eq_mod[of 8 "v mod 256"] by (simp add: uint_word_of_int_eq)

lemma le_val_le_bytes: "le_val (le_bytes n v) = v mod 256 ^ n"
proof (induction n arbitrary: v)
  case (Suc n)
  have "v mod (256 * 256 ^ n) = 256 * (v div 256 mod 256 ^ n) + v mod 256"
    by (rule mod_mult2_eq'[of v 256 "256 ^ n", simplified]) 
  with Suc show ?case
    by simp
qed simp

lemma le_bytes_le_val: "le_bytes (length bs) (le_val bs) = bs"
proof (induction bs)
  case (Cons b bs)
  have "(uint b + 256 * le_val bs) mod 256 = uint b"
       "(uint b + 256 * le_val bs) div 256 = le_val bs"
    using uint_byte_bounds[of b] by auto
  with Cons show ?case
    by simp
qed simp

lemma le_val_append: "le_val (xs @ ys) = le_val xs + 256 ^ length xs * le_val ys"
  by (induction xs) (simp_all add: algebra_simps)

section \<open>Bit fields\<close>

text \<open>
  \<open>pack\<close> lays fields of given widths side by side, the lowest bits first; \<open>unpack\<close> cuts a number
  into fields. A decoder whose fields \<open>pack\<close> to the raw word has read every bit of it exactly once.
\<close>

fun pack :: "(nat \<times> int) list \<Rightarrow> int" where
  "pack [] = 0"
| "pack ((w, x) # fs) = x mod 2 ^ w + 2 ^ w * pack fs"

fun unpack :: "nat list \<Rightarrow> int \<Rightarrow> int list" where
  "unpack [] v = []"
| "unpack (w # ws) v = v mod 2 ^ w # unpack ws (v div 2 ^ w)"

lemma length_unpack [simp]: "length (unpack ws v) = length ws"
  by (induction ws arbitrary: v) auto

lemma pack_unpack: "pack (zip ws (unpack ws v)) = v mod 2 ^ sum_list ws"
proof (induction ws arbitrary: v)
  case (Cons w ws)
  have "v mod (2 ^ w * 2 ^ sum_list ws) = 2 ^ w * (v div 2 ^ w mod 2 ^ sum_list ws) + v mod 2 ^ w"
    by (rule zmod_zmult2_eq) simp
  with Cons show ?case
    by (simp add: power_add)
qed simp

lemma pack_bounds: "0 \<le> pack fs \<and> pack fs < 2 ^ sum_list (map fst fs)"
proof (induction fs rule: pack.induct)
  case (2 w x fs)
  then have "2 ^ w * (pack fs + 1) \<le> (2::int) ^ w * 2 ^ sum_list (map fst fs)"
    by (intro mult_left_mono) auto
  then have "2 ^ w * pack fs + 2 ^ w \<le> (2::int) ^ w * 2 ^ sum_list (map fst fs)"
    by (simp add: distrib_left)
  moreover have "0 \<le> x mod 2 ^ w" "x mod 2 ^ w < 2 ^ w" "0 \<le> 2 ^ w * pack fs"
    using 2 by simp_all
  ultimately have "0 \<le> x mod 2 ^ w + 2 ^ w * pack fs"
    "x mod 2 ^ w + 2 ^ w * pack fs < 2 ^ w * 2 ^ sum_list (map fst fs)"
    by linarith+
  then show ?case
    by (simp add: power_add)
qed simp

lemma unpack_pack:
  "(\<forall>(w, x) \<in> set fs. 0 \<le> x \<and> x < 2 ^ w) \<Longrightarrow> unpack (map fst fs) (pack fs) = map snd fs"
proof (induction fs rule: pack.induct)
  case (2 w x fs)
  then have "0 \<le> x" "x < 2 ^ w"
    by auto
  then have "(x + 2 ^ w * pack fs) mod 2 ^ w = x" "(x + 2 ^ w * pack fs) div 2 ^ w = pack fs"
    by auto
  with 2 show ?case
    by simp
qed simp

text \<open>
  A slice of a word: \<open>w\<close> bits from bit \<open>lo\<close> up. Decoders are read as slices (collection
  \<open>bit_fields\<close>) and slices side by side pack to the word, so no proof about a decoder has to reason
  about division.
\<close>

definition bits_of :: "int \<Rightarrow> nat \<Rightarrow> nat \<Rightarrow> int" where
  "bits_of v lo w = v div 2 ^ lo mod 2 ^ w"

lemma bits_of_bounds [simp]: "0 \<le> bits_of v lo w" "bits_of v lo w < 2 ^ w"
  by (simp_all add: bits_of_def)

lemma bits_of_le [simp]: "2 ^ w \<le> k + 1 \<Longrightarrow> bits_of v lo w \<le> k"
  using bits_of_bounds(2)[of v lo w] by linarith

lemma bits_of_less [simp]: "2 ^ w \<le> k \<Longrightarrow> bits_of v lo w < k"
  using bits_of_bounds(2)[of v lo w] by linarith

lemma bits_of_mod [simp]: "bits_of v lo w mod 2 ^ w = bits_of v lo w"
  by (simp add: bits_of_def)

lemma bits_of_1_cases: "bits_of v lo (Suc 0) = 0 \<or> bits_of v lo (Suc 0) = 1"
proof -
  have "0 \<le> bits_of v lo (Suc 0)" "bits_of v lo (Suc 0) < 2"
    by simp_all
  then show ?thesis
    by linarith
qed

lemma of_bool_bits_of [simp]: "of_bool (bits_of v lo (Suc 0) = 1) = bits_of v lo (Suc 0)"
  using bits_of_1_cases[of v lo] by auto

lemma not_of_bool_bits_of [simp]: "of_bool (bits_of v lo (Suc 0) \<noteq> 0) = bits_of v lo (Suc 0)"
  using bits_of_1_cases[of v lo] by auto

lemma bits_of_2_cases:
  obtains "bits_of v lo 2 = 0" | "bits_of v lo 2 = 1" | "bits_of v lo 2 = 2" | "bits_of v lo 2 = 3"
proof -
  have "0 \<le> bits_of v lo 2" "bits_of v lo 2 < 4"
    using bits_of_bounds[of v lo 2] by simp_all
  then have "bits_of v lo 2 = 0 \<or> bits_of v lo 2 = 1 \<or> bits_of v lo 2 = 2 \<or> bits_of v lo 2 = 3"
    by linarith
  with that show thesis
    by blast
qed

lemma bits_of_append: "bits_of v lo a + 2 ^ a * bits_of v (lo + a) b = bits_of v lo (a + b)"
proof -
  have "v div 2 ^ (lo + a) = v div 2 ^ lo div 2 ^ a"
    by (simp add: power_add div_mult2_eq' zdiv_zmult2_eq)
  moreover have "x mod (2 ^ a * 2 ^ b) = 2 ^ a * (x div 2 ^ a mod 2 ^ b) + x mod 2 ^ a" for x :: int
    by (rule zmod_zmult2_eq) simp
  ultimately show ?thesis
    by (simp add: bits_of_def power_add)
qed

lemma two_digits:
  assumes "(x :: int) + 2 * y = of_bool a + 2 * of_bool b" "0 \<le> x" "x < 2" "0 \<le> y" "y < 2"
  shows "x = of_bool a \<and> y = of_bool b"
proof -
  have "x = 0 \<or> x = 1" "y = 0 \<or> y = 1"
    using assms by linarith+
  then show ?thesis
    using assms(1) by (elim disjE) (cases a; cases b; simp)+
qed

lemma bits_of_split2:
  assumes "bits_of v lo 2 = of_bool a + 2 * of_bool b"
  shows "bits_of v lo (Suc 0) = of_bool a \<and> bits_of v (Suc lo) (Suc 0) = of_bool b"
  using assms bits_of_append[of v lo 1 1] by (intro two_digits) (simp_all add: numeral_2_eq_2)

fun slices :: "int \<Rightarrow> nat \<Rightarrow> nat list \<Rightarrow> int list" where
  "slices v lo [] = []"
| "slices v lo (w # ws) = bits_of v lo w # slices v (lo + w) ws"

lemma unpack_slices: "unpack ws (v div 2 ^ lo) = slices v lo ws"
proof (induction ws arbitrary: lo)
  case (Cons w ws)
  have "v div 2 ^ lo div 2 ^ w = v div 2 ^ (lo + w)"
    by (simp add: power_add zdiv_zmult2_eq)
  with Cons show ?case
    by (simp add: bits_of_def)
qed simp

lemma pack_slices: "pack (zip ws (slices v 0 ws)) = v mod 2 ^ sum_list ws"
  using pack_unpack[of ws v] unpack_slices[of ws v 0] by simp

lemma slices_pack:
  "(\<forall>(w, x) \<in> set fs. 0 \<le> x \<and> x < 2 ^ w) \<Longrightarrow> slices (pack fs) 0 (map fst fs) = map snd fs"
  using unpack_pack[of fs] unpack_slices[of "map fst fs" "pack fs" 0] by simp

declare pack.simps [simp del]

lemma mod_numeral_le [simp]: "(numeral n :: int) \<le> k + 1 \<Longrightarrow> x mod numeral n \<le> k"
  using pos_mod_bound[OF zero_less_numeral, of x n] by linarith

lemma of_bool_mod2: "of_bool (x mod 2 = 1) = (x :: int) mod 2"
  by (cases "x mod 2 = 0") auto

lemma less_16_cases: "0 \<le> (n::int) \<Longrightarrow> n < 16 \<Longrightarrow>
    15 = n \<or> 14 = n \<or> 13 = n \<or> 12 = n \<or> 11 = n \<or> 10 = n \<or> 9 = n \<or> 8 = n \<or>
    7 = n \<or> 6 = n \<or> 5 = n \<or> 4 = n \<or> 3 = n \<or> 2 = n \<or> 1 = n \<or> 0 = n"
  by presburger

end
