(* ===== verification/Usbpd_Header.thy ===== *)
theory Usbpd_Header
  imports Drpd_Prelude
begin

text \<open>
  The first layer of the USB Power Delivery decoder: \<open>usb-pd/types.ts\<close> (the enumerations and the
  header records), \<open>usb-pd/sop.ts\<close> (the start-of-packet ordered sets) and \<open>usb-pd/header.ts\<close>
  (message header and extended header), all under \<open>frontend/src/lib/device/drpd\<close>. The classes
  \<open>SOP\<close> and \<open>Header\<close> are records built by functions that return the constructor's error or
  the object.
\<close>

section \<open>Enumerations and header records (types.ts)\<close>

datatype SOPKind =
    K_SOP
  | K_SOP_PRIME
  | K_SOP_DOUBLE_PRIME
  | K_SOP_DEBUG_PRIME
  | K_SOP_DEBUG_DOUBLE_PRIME
  | K_SOP_HARD_RESET
  | K_SOP_CABLE_RESET
  | K_UNKNOWN

datatype MessageKind = CONTROL | DATA | EXTENDED

datatype PowerRole = SOURCE | SINK

datatype DataRole = DFP | UFP

datatype CablePlug = UFP_DFP | CABLE_PLUG_VPD

record MessageHeaderFields =
  mh_extended :: bool
  mh_numberOfDataObjects :: int
  mh_messageId :: int
  mh_messageTypeNumber :: int
  mh_messageKind :: MessageKind
  mh_specRevisionBits :: int
  mh_powerRole :: "PowerRole option"
  mh_dataRole :: "DataRole option"
  mh_cablePlug :: "CablePlug option"

record ExtendedMessageHeaderFields =
  eh_chunked :: bool
  eh_chunkNumber :: int
  eh_requestChunk :: bool
  eh_dataSize :: int

text \<open>The errors the decoder's constructors and readers throw, with the values of their messages.\<close>

datatype usbpd_error =
    SopLengthError nat
  | PayloadTooShort nat
  | MissingExtendedHeader
  | CannotReadUint16 nat nat
  | CannotReadUint32 nat nat

section \<open>Start-of-packet ordered sets (sop.ts)\<close>

definition kSync1 :: int where "kSync1 = 0x18"
definition kSync2 :: int where "kSync2 = 0x11"
definition kSync3 :: int where "kSync3 = 0x06"
definition kRst1 :: int where "kRst1 = 0x07"
definition kRst2 :: int where "kRst2 = 0x19"

lemmas k_codes = kSync1_def kSync2_def kSync3_def kRst1_def kRst2_def

definition SOP_SEQUENCE :: "int list" where
  "SOP_SEQUENCE = [kSync1, kSync1, kSync1, kSync2]"

definition SOP_PRIME_SEQUENCE :: "int list" where
  "SOP_PRIME_SEQUENCE = [kSync1, kSync1, kSync3, kSync3]"

definition SOP_DOUBLE_PRIME_SEQUENCE :: "int list" where
  "SOP_DOUBLE_PRIME_SEQUENCE = [kSync1, kSync3, kSync1, kSync3]"

definition SOP_DEBUG_PRIME_SEQUENCE :: "int list" where
  "SOP_DEBUG_PRIME_SEQUENCE = [kSync1, kRst2, kRst2, kSync3]"

definition SOP_DEBUG_DOUBLE_PRIME_SEQUENCE :: "int list" where
  "SOP_DEBUG_DOUBLE_PRIME_SEQUENCE = [kSync1, kRst2, kSync3, kSync2]"

definition SOP_HARD_RESET_SEQUENCE :: "int list" where
  "SOP_HARD_RESET_SEQUENCE = [kRst1, kRst1, kRst1, kRst2]"

definition SOP_CABLE_RESET_SEQUENCE :: "int list" where
  "SOP_CABLE_RESET_SEQUENCE = [kRst1, kSync1, kRst1, kSync3]"

lemmas sop_sequences =
  SOP_SEQUENCE_def SOP_PRIME_SEQUENCE_def SOP_DOUBLE_PRIME_SEQUENCE_def SOP_DEBUG_PRIME_SEQUENCE_def
  SOP_DEBUG_DOUBLE_PRIME_SEQUENCE_def SOP_HARD_RESET_SEQUENCE_def SOP_CABLE_RESET_SEQUENCE_def

text \<open>The loop of \<open>matchesSOPSequence\<close> over the indices of the sequence.\<close>

fun matchesSOPSequence_loop :: "bytes \<Rightarrow> int list \<Rightarrow> nat \<Rightarrow> bool" where
  "matchesSOPSequence_loop bs [] index = True"
| "matchesSOPSequence_loop bs (expected # rest) index =
     (if byte_opt bs index \<noteq> Some expected then False
      else matchesSOPSequence_loop bs rest (index + 1))"

definition matchesSOPSequence :: "bytes \<Rightarrow> int list \<Rightarrow> bool" where
  "matchesSOPSequence bs sequence =
     (if length bs \<noteq> length sequence then False else matchesSOPSequence_loop bs sequence 0)"

definition decodeSOPKind :: "bytes \<Rightarrow> SOPKind" where
  "decodeSOPKind bs =
     (if matchesSOPSequence bs SOP_SEQUENCE then K_SOP
      else if matchesSOPSequence bs SOP_PRIME_SEQUENCE then K_SOP_PRIME
      else if matchesSOPSequence bs SOP_DOUBLE_PRIME_SEQUENCE then K_SOP_DOUBLE_PRIME
      else if matchesSOPSequence bs SOP_DEBUG_PRIME_SEQUENCE then K_SOP_DEBUG_PRIME
      else if matchesSOPSequence bs SOP_DEBUG_DOUBLE_PRIME_SEQUENCE then K_SOP_DEBUG_DOUBLE_PRIME
      else if matchesSOPSequence bs SOP_HARD_RESET_SEQUENCE then K_SOP_HARD_RESET
      else if matchesSOPSequence bs SOP_CABLE_RESET_SEQUENCE then K_SOP_CABLE_RESET
      else K_UNKNOWN)"

record SOP =
  sop_bytes :: bytes
  sop_kind :: SOPKind

definition new_SOP :: "bytes \<Rightarrow> usbpd_error + SOP" where
  "new_SOP sopBytes =
     (if length sopBytes \<noteq> 4 then Inl (SopLengthError (length sopBytes))
      else Inr \<lparr>sop_bytes = sopBytes, sop_kind = decodeSOPKind sopBytes\<rparr>)"

section \<open>Message headers (header.ts)\<close>

definition SOP_LENGTH :: nat where [simp]: "SOP_LENGTH = 4"
definition MESSAGE_HEADER_LENGTH :: nat where [simp]: "MESSAGE_HEADER_LENGTH = 2"
definition EXTENDED_HEADER_LENGTH :: nat where [simp]: "EXTENDED_HEADER_LENGTH = 2"

definition readUint16LE :: "bytes \<Rightarrow> nat \<Rightarrow> usbpd_error + int" where
  "readUint16LE payload offset =
     (if offset + 1 \<ge> length payload then Inl (CannotReadUint16 offset (length payload))
      else Inr (js_or (byte_at payload offset) (js_shl (byte_at payload (offset + 1)) 8)))"

record Header =
  hd_sop :: SOP
  hd_messageHeaderRaw :: int
  hd_messageHeader :: MessageHeaderFields
  hd_extendedHeaderRaw :: "int option"
  hd_extendedHeader :: "ExtendedMessageHeaderFields option"

datatype ext_header_diagnostic =
    RequestChunkDeclaresSize int
  | DataChunkDeclaresSizeZero

definition getExtendedMessageHeaderError ::
  "ExtendedMessageHeaderFields option \<Rightarrow> ext_header_diagnostic option" where
  "getExtendedMessageHeaderError headerFields =
     (case headerFields of
        None \<Rightarrow> None
      | Some f \<Rightarrow>
          if \<not> eh_chunked f then None
          else if eh_requestChunk f \<and> eh_dataSize f \<noteq> 0
          then Some (RequestChunkDeclaresSize (eh_dataSize f))
          else if \<not> eh_requestChunk f \<and> eh_dataSize f = 0 then Some DataChunkDeclaresSizeZero
          else None)"

definition isRecoverableZeroSizeGetManufacturerInfo :: "Header \<Rightarrow> bytes \<Rightarrow> bool" where
  "isRecoverableZeroSizeGetManufacturerInfo header payload =
     (mh_messageKind (hd_messageHeader header) = EXTENDED \<and>
      mh_messageTypeNumber (hd_messageHeader header) = 0x06 \<and>
      mh_numberOfDataObjects (hd_messageHeader header) = 1 \<and>
      (case hd_extendedHeader header of
         None \<Rightarrow> False
       | Some f \<Rightarrow>
           eh_chunked f \<and> eh_chunkNumber f = 0 \<and> \<not> eh_requestChunk f \<and> eh_dataSize f = 0) \<and>
      length payload \<ge> SOP_LENGTH + MESSAGE_HEADER_LENGTH + EXTENDED_HEADER_LENGTH + 2 + 4)"

text \<open>The bit extractions of the constructor of \<open>Header\<close>, on the raw words it has read.\<close>

definition parse_message_header :: "SOPKind \<Rightarrow> int \<Rightarrow> MessageHeaderFields" where
  "parse_message_header kind raw =
     (let extended = js_and (js_sar raw 15) 1 = 1;
          numberOfDataObjects = js_and (js_sar raw 12) 7;
          messageId = js_and (js_sar raw 9) 7;
          roleBit = js_and (js_sar raw 8) 1;
          specRevisionBits = js_and (js_sar raw 6) 3;
          dataRoleBit = js_and (js_sar raw 5) 1;
          messageTypeNumber = js_and raw 0x1f;
          powerRole = (if kind = K_SOP then Some (if roleBit = 1 then SOURCE else SINK) else None);
          dataRole = (if kind = K_SOP then Some (if dataRoleBit = 1 then DFP else UFP) else None);
          cablePlug =
            (if kind = K_SOP then None
             else if kind = K_SOP_PRIME \<or> kind = K_SOP_DOUBLE_PRIME \<or> kind = K_SOP_DEBUG_PRIME \<or>
                     kind = K_SOP_DEBUG_DOUBLE_PRIME
             then Some (if roleBit = 1 then CABLE_PLUG_VPD else UFP_DFP)
             else None);
          messageKind =
            (if extended then EXTENDED else if numberOfDataObjects = 0 then CONTROL else DATA)
      in \<lparr>mh_extended = extended, mh_numberOfDataObjects = numberOfDataObjects,
          mh_messageId = messageId, mh_messageTypeNumber = messageTypeNumber,
          mh_messageKind = messageKind, mh_specRevisionBits = specRevisionBits,
          mh_powerRole = powerRole, mh_dataRole = dataRole, mh_cablePlug = cablePlug\<rparr>)"

definition parse_extended_header :: "int \<Rightarrow> ExtendedMessageHeaderFields" where
  "parse_extended_header raw =
     \<lparr>eh_chunked = (js_and (js_sar raw 15) 1 = 1),
      eh_chunkNumber = js_and (js_sar raw 11) 0xf,
      eh_requestChunk = (js_and (js_sar raw 10) 1 = 1),
      eh_dataSize = js_and raw 0x1ff\<rparr>"

definition new_Header :: "bytes \<Rightarrow> SOP \<Rightarrow> usbpd_error + Header" where
  "new_Header payload sop =
     (if length payload < SOP_LENGTH + MESSAGE_HEADER_LENGTH
      then Inl (PayloadTooShort (length payload))
      else
        let headerOffset = SOP_LENGTH in
        res_bind (readUint16LE payload headerOffset) (\<lambda>messageHeaderRaw.
          let headerFields = parse_message_header (sop_kind sop) messageHeaderRaw in
          if mh_extended headerFields then
            if length payload < SOP_LENGTH + MESSAGE_HEADER_LENGTH + EXTENDED_HEADER_LENGTH
            then Inl MissingExtendedHeader
            else
              res_bind (readUint16LE payload (headerOffset + MESSAGE_HEADER_LENGTH))
                (\<lambda>extendedHeaderRaw.
                   Inr \<lparr>hd_sop = sop, hd_messageHeaderRaw = messageHeaderRaw,
                        hd_messageHeader = headerFields,
                        hd_extendedHeaderRaw = Some extendedHeaderRaw,
                        hd_extendedHeader = Some (parse_extended_header extendedHeaderRaw)\<rparr>)
          else
            Inr \<lparr>hd_sop = sop, hd_messageHeaderRaw = messageHeaderRaw,
                 hd_messageHeader = headerFields,
                 hd_extendedHeaderRaw = None, hd_extendedHeader = None\<rparr>))"

section \<open>Arithmetic reading of the header words\<close>

lemma js_and_field:
  assumes "w \<le> 31" "m = 2 ^ w - 1"
  shows "js_and x m = x mod 2 ^ w"
  using assms by (simp add: js_and_mask take_bit_eq_mod)

lemma parse_message_header_arith:
  assumes "0 \<le> raw" "raw < 2 ^ 16"
  shows "parse_message_header kind raw =
    (let roleBit = raw div 256 mod 2; dataRoleBit = raw div 32 mod 2 in
     \<lparr>mh_extended = (raw div 32768 mod 2 = 1), mh_numberOfDataObjects = raw div 4096 mod 8,
      mh_messageId = raw div 512 mod 8, mh_messageTypeNumber = raw mod 32,
      mh_messageKind =
        (if raw div 32768 mod 2 = 1 then EXTENDED
         else if raw div 4096 mod 8 = 0 then CONTROL else DATA),
      mh_specRevisionBits = raw div 64 mod 4,
      mh_powerRole = (if kind = K_SOP then Some (if roleBit = 1 then SOURCE else SINK) else None),
      mh_dataRole = (if kind = K_SOP then Some (if dataRoleBit = 1 then DFP else UFP) else None),
      mh_cablePlug =
        (if kind = K_SOP then None
         else if kind \<in> {K_SOP_PRIME, K_SOP_DOUBLE_PRIME, K_SOP_DEBUG_PRIME, K_SOP_DEBUG_DOUBLE_PRIME}
         then Some (if roleBit = 1 then CABLE_PLUG_VPD else UFP_DFP) else None)\<rparr>)"
proof -
  have s: "js_sar raw 15 = raw div 32768" "js_sar raw 12 = raw div 4096"
    "js_sar raw 9 = raw div 512" "js_sar raw 8 = raw div 256" "js_sar raw 6 = raw div 64"
    "js_sar raw 5 = raw div 32"
    using assms by (simp_all add: js_sar_numeral)
  have m: "\<And>x. js_and x 1 = x mod 2" "\<And>x. js_and x 3 = x mod 4" "\<And>x. js_and x 7 = x mod 8"
    "\<And>x. js_and x 0x1f = x mod 32"
    using js_and_field[of 1] js_and_field[of 2] js_and_field[of 3] js_and_field[of 5] by auto
  show ?thesis
    unfolding parse_message_header_def s m by (simp add: Let_def)
qed

lemma parse_extended_header_arith:
  assumes "0 \<le> raw" "raw < 2 ^ 16"
  shows "parse_extended_header raw =
    \<lparr>eh_chunked = (raw div 32768 mod 2 = 1), eh_chunkNumber = raw div 2048 mod 16,
     eh_requestChunk = (raw div 1024 mod 2 = 1), eh_dataSize = raw mod 512\<rparr>"
proof -
  have s: "js_sar raw 15 = raw div 32768" "js_sar raw 11 = raw div 2048"
    "js_sar raw 10 = raw div 1024"
    using assms by (simp_all add: js_sar_numeral)
  have m: "\<And>x. js_and x 1 = x mod 2" "\<And>x. js_and x 0xf = x mod 16"
    "\<And>x. js_and x 0x1ff = x mod 512"
    using js_and_field[of 1] js_and_field[of 4] js_and_field[of 9] by auto
  show ?thesis
    unfolding parse_extended_header_def s m by simp
qed

definition le16_at :: "bytes \<Rightarrow> nat \<Rightarrow> int" where
  "le16_at bs i = byte_at bs i + 256 * byte_at bs (i + 1)"

lemma le16_at_bounds: "0 \<le> le16_at bs i" "le16_at bs i < 2 ^ 16"
  using byte_at_bounds[of bs i] byte_at_bounds[of bs "i + 1"]
  unfolding le16_at_def by (simp_all del: byte_at_bounds)

lemma le_val_sub_array_2: "i + 2 \<le> length bs \<Longrightarrow> le_val (sub_array bs i (i + 2)) = le16_at bs i"
  by (auto simp: sub_array_def le16_at_def byte_at_def take_Suc_conv_app_nth numeral_2_eq_2)

lemma readUint16LE_eq:
  "readUint16LE payload offset =
     (if offset + 2 \<le> length payload then Inr (le16_at payload offset)
      else Inl (CannotReadUint16 offset (length payload)))"
  by (auto simp: readUint16LE_def js_or_shl_8 le16_at_def)

section \<open>Start-of-packet kinds\<close>

text \<open>The specification table: the ordered set each kind stands for.\<close>

fun sop_pattern :: "SOPKind \<Rightarrow> int list option" where
  "sop_pattern K_SOP = Some [0x18, 0x18, 0x18, 0x11]"
| "sop_pattern K_SOP_PRIME = Some [0x18, 0x18, 0x06, 0x06]"
| "sop_pattern K_SOP_DOUBLE_PRIME = Some [0x18, 0x06, 0x18, 0x06]"
| "sop_pattern K_SOP_DEBUG_PRIME = Some [0x18, 0x19, 0x19, 0x06]"
| "sop_pattern K_SOP_DEBUG_DOUBLE_PRIME = Some [0x18, 0x19, 0x06, 0x11]"
| "sop_pattern K_SOP_HARD_RESET = Some [0x07, 0x07, 0x07, 0x19]"
| "sop_pattern K_SOP_CABLE_RESET = Some [0x07, 0x18, 0x07, 0x06]"
| "sop_pattern K_UNKNOWN = None"

lemma matchesSOPSequence_loop_iff:
  "length bs = index + length sequence \<Longrightarrow>
   matchesSOPSequence_loop bs sequence index \<longleftrightarrow> map uint (drop index bs) = sequence"
proof (induction bs sequence index rule: matchesSOPSequence_loop.induct)
  case (2 bs expected rest index)
  then have "drop index bs = bs ! index # drop (index + 1) bs"
    by (simp add: Cons_nth_drop_Suc)
  with 2 show ?case
    by (auto simp: byte_opt_def)
qed simp

lemma matchesSOPSequence_iff: "matchesSOPSequence bs sequence \<longleftrightarrow> map uint bs = sequence"
  using matchesSOPSequence_loop_iff[of bs 0 sequence] by (auto simp: matchesSOPSequence_def)

text \<open>A start-of-packet is given a kind other than \<open>UNKNOWN\<close> exactly when its bytes are the
  ordered set of that kind, and \<open>UNKNOWN\<close> exactly when they are none of the seven ordered sets; so
  no two kinds overlap and the order of the tests in the code does not matter.\<close>

lemma decodeSOPKind_iff:
  "decodeSOPKind bs = k \<longleftrightarrow>
     (if k = K_UNKNOWN then Some (map uint bs) \<notin> range sop_pattern
      else sop_pattern k = Some (map uint bs))"
proof -
  have u: "Some (map uint bs) \<in> range sop_pattern \<longleftrightarrow>
      (\<exists>k. k \<noteq> K_UNKNOWN \<and> sop_pattern k = Some (map uint bs))"
    by (metis (full_types) option.distinct(1) rangeE rangeI sop_pattern.simps(8))
  have d: "decodeSOPKind bs = k" if "sop_pattern k = Some (map uint bs)" for k
    using that [symmetric]
    by (cases k) (simp_all add: decodeSOPKind_def matchesSOPSequence_iff sop_sequences k_codes)
  have e: "sop_pattern (decodeSOPKind bs) = Some (map uint bs)" if "decodeSOPKind bs \<noteq> K_UNKNOWN"
    using that
    by (auto simp: decodeSOPKind_def matchesSOPSequence_iff sop_sequences k_codes split: if_splits)
  show ?thesis
    using u d e by (metis option.distinct(1) sop_pattern.simps(8))
qed

section \<open>Invariants and functional behaviour of the header\<close>

text \<open>What the rest of the decoder may assume of a header.\<close>

definition wf_message_header :: "SOPKind \<Rightarrow> MessageHeaderFields \<Rightarrow> bool" where
  "wf_message_header kind f \<longleftrightarrow>
     mh_numberOfDataObjects f \<in> {0..7} \<and> mh_messageId f \<in> {0..7} \<and>
     mh_messageTypeNumber f \<in> {0..31} \<and> mh_specRevisionBits f \<in> {0..3} \<and>
     mh_extended f = (mh_messageKind f = EXTENDED) \<and>
     (mh_messageKind f = CONTROL) = (\<not> mh_extended f \<and> mh_numberOfDataObjects f = 0) \<and>
     (mh_powerRole f \<noteq> None) = (kind = K_SOP) \<and> (mh_dataRole f \<noteq> None) = (kind = K_SOP) \<and>
     (mh_cablePlug f \<noteq> None) =
       (kind \<in> {K_SOP_PRIME, K_SOP_DOUBLE_PRIME, K_SOP_DEBUG_PRIME, K_SOP_DEBUG_DOUBLE_PRIME})"

definition wf_extended_header :: "ExtendedMessageHeaderFields \<Rightarrow> bool" where
  "wf_extended_header f \<longleftrightarrow> eh_chunkNumber f \<in> {0..15} \<and> eh_dataSize f \<in> {0..511}"

definition wf_Header :: "Header \<Rightarrow> bool" where
  "wf_Header h \<longleftrightarrow>
     hd_messageHeaderRaw h \<in> {0..65535} \<and>
     wf_message_header (sop_kind (hd_sop h)) (hd_messageHeader h) \<and>
     (hd_extendedHeader h \<noteq> None) = mh_extended (hd_messageHeader h) \<and>
     (hd_extendedHeaderRaw h \<noteq> None) = mh_extended (hd_messageHeader h) \<and>
     (\<forall>f. hd_extendedHeader h = Some f \<longrightarrow> wf_extended_header f)"

text \<open>The encoders of the two header words; bits the decoder has no field for are arguments.\<close>

definition header_word :: "int \<Rightarrow> int \<Rightarrow> MessageHeaderFields \<Rightarrow> int" where
  "header_word bit5 bit8 f =
     pack [(5, mh_messageTypeNumber f),
           (1, case mh_dataRole f of Some r \<Rightarrow> of_bool (r = DFP) | None \<Rightarrow> bit5),
           (2, mh_specRevisionBits f),
           (1, case mh_powerRole f of Some r \<Rightarrow> of_bool (r = SOURCE)
               | None \<Rightarrow> (case mh_cablePlug f of Some p \<Rightarrow> of_bool (p = CABLE_PLUG_VPD) | None \<Rightarrow> bit8)),
           (3, mh_messageId f), (3, mh_numberOfDataObjects f), (1, of_bool (mh_extended f))]"

definition extended_header_word :: "int \<Rightarrow> ExtendedMessageHeaderFields \<Rightarrow> int" where
  "extended_header_word bit9 f =
     pack [(9, eh_dataSize f), (1, bit9), (1, of_bool (eh_requestChunk f)),
           (4, eh_chunkNumber f), (1, of_bool (eh_chunked f))]"

lemma wf_parse_message_header:
  assumes "0 \<le> raw" "raw < 2 ^ 16"
  shows "wf_message_header kind (parse_message_header kind raw)"
  unfolding parse_message_header_arith [OF assms] by (simp add: wf_message_header_def Let_def)

lemma wf_parse_extended_header:
  assumes "0 \<le> raw" "raw < 2 ^ 16"
  shows "wf_extended_header (parse_extended_header raw)"
  unfolding parse_extended_header_arith [OF assms] by (simp add: wf_extended_header_def)

lemma role_eqs:
  "((if c then DFP else UFP) = DFP) = c" "((if c then SOURCE else SINK) = SOURCE) = c"
  "((if c then CABLE_PLUG_VPD else UFP_DFP) = CABLE_PLUG_VPD) = c"
  by simp_all

lemma header_word_parse:
  assumes "0 \<le> raw" "raw < 2 ^ 16"
  shows "header_word (raw div 32 mod 2) (raw div 256 mod 2) (parse_message_header kind raw) = raw"
proof -
  have p: "pack [(5, raw mod 32), (1, raw div 32 mod 2), (2, raw div 64 mod 4),
      (1, raw div 256 mod 2), (3, raw div 512 mod 8), (3, raw div 4096 mod 8),
      (1, raw div 32768 mod 2)] = raw mod 2 ^ 16"
    using pack_unpack[of "[5, 1, 2, 1, 3, 3, 1]" raw]
    by (simp add: div_mult2_numeral_eq)
  have "header_word (raw div 32 mod 2) (raw div 256 mod 2) (parse_message_header kind raw) =
    pack [(5, raw mod 32), (1, raw div 32 mod 2), (2, raw div 64 mod 4),
      (1, raw div 256 mod 2), (3, raw div 512 mod 8), (3, raw div 4096 mod 8),
      (1, raw div 32768 mod 2)]"
    unfolding parse_message_header_arith [OF assms] header_word_def Let_def
    by (cases kind) (simp_all only: of_bool_mod2 role_eqs MessageHeaderFields.simps SOPKind.simps
        option.simps if_True if_False insert_iff empty_iff simp_thms)
  also note p
  also have "raw mod 2 ^ 16 = raw"
    using assms by simp
  finally show ?thesis .
qed

lemma extended_header_word_parse:
  assumes "0 \<le> raw" "raw < 2 ^ 16"
  shows "extended_header_word (raw div 512 mod 2) (parse_extended_header raw) = raw"
proof -
  have p: "pack [(9, raw mod 512), (1, raw div 512 mod 2), (1, raw div 1024 mod 2),
      (4, raw div 2048 mod 16), (1, raw div 32768 mod 2)] = raw mod 2 ^ 16"
    using pack_unpack[of "[9, 1, 1, 4, 1]" raw]
    by (simp add: div_mult2_numeral_eq)
  have "extended_header_word (raw div 512 mod 2) (parse_extended_header raw) =
    pack [(9, raw mod 512), (1, raw div 512 mod 2), (1, raw div 1024 mod 2),
      (4, raw div 2048 mod 16), (1, raw div 32768 mod 2)]"
    unfolding parse_extended_header_arith [OF assms] extended_header_word_def
    by (simp_all only: of_bool_mod2 ExtendedMessageHeaderFields.simps)
  also note p
  also have "raw mod 2 ^ 16 = raw"
    using assms by simp
  finally show ?thesis .
qed

text \<open>The header constructor in one equation, over the words read from the payload.\<close>

lemma parse_message_header_extended:
  "mh_extended (parse_message_header kind (le16_at bs i)) \<longleftrightarrow> byte_at bs (i + 1) \<ge> 128"
proof -
  have "le16_at bs i div 32768 = byte_at bs (i + 1) div 128"
  proof -
    have "le16_at bs i div 256 = byte_at bs (i + 1)"
      by (simp add: le16_at_def)
    moreover have "le16_at bs i div 32768 = le16_at bs i div 256 div 128"
      by (simp add: div_mult2_numeral_eq)
    ultimately show ?thesis
      by simp
  qed
  moreover have "b div 128 mod 2 = 1 \<longleftrightarrow> b \<ge> 128" if "0 \<le> b" "b < 256" for b :: int
    using that int_div_pos_eq[of b 128 1 "b - 128"] by (cases "b < 128") auto
  moreover have "mh_extended (parse_message_header kind (le16_at bs i)) \<longleftrightarrow>
      le16_at bs i div 32768 mod 2 = 1"
    unfolding parse_message_header_arith [OF le16_at_bounds]
    by (simp only: Let_def MessageHeaderFields.simps)
  ultimately show ?thesis
    by (simp only: byte_at_bounds)
qed

lemma new_Header_eq:
  "new_Header payload sop =
     (if length payload < 6 then Inl (PayloadTooShort (length payload))
      else let f = parse_message_header (sop_kind sop) (le16_at payload 4);
               x = mh_extended f
           in if x \<and> length payload < 8 then Inl MissingExtendedHeader
              else Inr \<lparr>hd_sop = sop, hd_messageHeaderRaw = le16_at payload 4,
                        hd_messageHeader = f,
                        hd_extendedHeaderRaw = (if x then Some (le16_at payload 6) else None),
                        hd_extendedHeader =
                          (if x then Some (parse_extended_header (le16_at payload 6)) else None)\<rparr>)"
  by (simp add: new_Header_def readUint16LE_eq Let_def)

text \<open>The header constructor throws exactly on a payload that is too short: fewer than six
  bytes, or fewer than eight when bit 15 of the message header announces an extended header.
  It never throws from one of its reads.\<close>

lemma new_Header_total:
  "new_Header payload sop =
     (if length payload < 6 then Inl (PayloadTooShort (length payload))
      else if byte_at payload 5 \<ge> 128 \<and> length payload < 8 then Inl MissingExtendedHeader
      else Inr (projr (new_Header payload sop)))"
  using parse_message_header_extended[of "sop_kind sop" payload 4]
  by (simp add: new_Header_eq Let_def)

lemma new_Header_wf_fields:
  assumes "new_Header payload sop = Inr h"
  shows "wf_Header h \<and> hd_sop h = sop"
  using assms le16_at_bounds[of payload 4] wf_parse_message_header[OF le16_at_bounds]
    wf_parse_extended_header[OF le16_at_bounds]
  by (auto simp: new_Header_eq Let_def wf_Header_def split: if_splits)

text \<open>Every header the constructor returns is well formed: each field lies in the range of its
  bits, the message kind agrees with the extended flag and the object count, the role fields exist
  exactly for the kinds that define them, and the extended header is present exactly when the flag
  is set.\<close>

lemma new_Header_wf:
  assumes "new_Header payload sop = Inr h"
  shows "wf_Header h \<and> hd_sop h = sop"
  using assms by (rule new_Header_wf_fields)

text \<open>The decoded fields account for every bit of the two header words. Re-encoding the fields
  gives back the raw words as they stand in the payload, little-endian at offsets 4 and 6; only
  the bits the standard reserves for the packet's kind are taken from the raw word.\<close>

lemma new_Header_recompose:
  assumes "new_Header payload sop = Inr h"
  shows "let raw = hd_messageHeaderRaw h in
    raw = le_val (sub_array payload 4 6) \<and>
    header_word (raw div 32 mod 2) (raw div 256 mod 2) (hd_messageHeader h) = raw \<and>
    map_option (\<lambda>x. le_val (sub_array payload 6 8)) (hd_extendedHeader h) = hd_extendedHeaderRaw h \<and>
    map_option (extended_header_word (le_val (sub_array payload 6 8) div 512 mod 2))
      (hd_extendedHeader h) = hd_extendedHeaderRaw h"
proof -
  have len: "6 \<le> length payload" and ext: "hd_extendedHeader h \<noteq> None \<Longrightarrow> 8 \<le> length payload"
    using assms(1) by (auto simp: new_Header_eq Let_def split: if_splits)
  show ?thesis
    using assms(1) le_val_sub_array_2[of 4 payload] le_val_sub_array_2[of 6 payload] len ext header_word_parse[OF le16_at_bounds]
      extended_header_word_parse[OF le16_at_bounds]
    by (auto simp: new_Header_eq Let_def split: if_splits)
qed

lemma new_Header_sop: "new_Header payload sop = Inr h \<Longrightarrow> hd_sop h = sop"
  by (auto simp: new_Header_eq Let_def split: if_splits)

lemma new_Header_le16:
  assumes "new_Header payload sop = Inr h"
  shows "mh_messageTypeNumber (hd_messageHeader h) = le_val (sub_array payload 4 6) mod 32"
proof -
  have "6 \<le> length payload" "hd_messageHeader h = parse_message_header (sop_kind sop) (le16_at payload 4)"
    using assms by (auto simp: new_Header_eq Let_def split: if_splits)
  then show ?thesis
    using le_val_sub_array_2[of 4 payload] parse_message_header_arith [OF le16_at_bounds]
    by (simp add: Let_def)
qed

text \<open>A packet with an extended header read: its fields are those of the second word.\<close>

lemma new_Header_extended:
  assumes "new_Header payload sop = Inr h" "mh_messageKind (hd_messageHeader h) = EXTENDED"
  shows "8 \<le> length payload" "mh_extended (hd_messageHeader h)"
    "hd_extendedHeader h = Some (parse_extended_header (le16_at payload 6))"
proof -
  show x: "mh_extended (hd_messageHeader h)"
    using assms(2) new_Header_wf_fields [OF assms(1)] by (simp add: wf_Header_def wf_message_header_def)
  show "8 \<le> length payload" "hd_extendedHeader h = Some (parse_extended_header (le16_at payload 6))"
    using assms(1) x by (auto simp: new_Header_eq Let_def split: if_splits)
qed

text \<open>An extended header on a \<open>SOP\<close> packet, as a concrete input for the theorems above.\<close>

end
