(* ===== verification/Power_Objects.thy ===== *)
theory Power_Objects
  imports Usbpd_Header
begin

text \<open>
  Power data objects of \<open>usb-pd/DataObjects.ts\<close>: the 32-bit readers and the bit extractor every
  parser uses, power data objects (PDO), request data objects (RDO) with the resolution of the
  request type, and the small single-object messages' data objects. Each interface of the source is
  a record whose fields carry a short prefix; each tagged union is a datatype over those records.
\<close>

section \<open>Readers (DataObjects.ts)\<close>

definition readUint32LE :: "bytes \<Rightarrow> nat \<Rightarrow> usbpd_error + int" where
  "readUint32LE payload offset =
     (if offset + 3 \<ge> length payload then Inl (CannotReadUint32 offset (length payload))
      else Inr (js_ushr
        (js_or (js_or (js_or (byte_at payload offset)
          (js_shl (byte_at payload (offset + 1)) 8))
          (js_shl (byte_at payload (offset + 2)) 16))
          (js_shl (byte_at payload (offset + 3)) 24)) 0))"

definition getBits :: "int \<Rightarrow> int \<Rightarrow> int \<Rightarrow> int" where
  "getBits v hi lo =
     (let width = hi - lo + 1;
          mask = (if width \<ge> 32 then 0xffffffff else js_shl 1 width - 1)
      in js_and (js_ushr v lo) mask)"

text \<open>A code unit of a string, as \<open>String.fromCharCode\<close> makes it for a value below 256.\<close>

definition char_code :: "int \<Rightarrow> char" where
  "char_code x = char_of (nat x)"

definition decodeAsciiPair :: "int \<Rightarrow> int \<Rightarrow> string option" where
  "decodeAsciiPair first second =
     (let isPrintable = (\<lambda>v. v \<ge> 0x20 \<and> v \<le> 0x7e) in
      if \<not> isPrintable first \<or> \<not> isPrintable second then None
      else Some [char_code first, char_code second])"

text \<open>The loop of \<open>readDataObjects\<close>, with the number of iterations left.\<close>

fun readDataObjects_loop :: "bytes \<Rightarrow> nat \<Rightarrow> nat \<Rightarrow> nat \<Rightarrow> usbpd_error + int list" where
  "readDataObjects_loop payload offset index 0 = Inr []"
| "readDataObjects_loop payload offset index (Suc left) =
     (let objectOffset = offset + index * 4 in
      res_bind (readUint32LE payload objectOffset) (\<lambda>v.
        res_bind (readDataObjects_loop payload offset (index + 1) left) (\<lambda>vs. Inr (v # vs))))"

definition readDataObjects :: "bytes \<Rightarrow> nat \<Rightarrow> int \<Rightarrow> usbpd_error + int list" where
  "readDataObjects payload offset count = readDataObjects_loop payload offset 0 (nat count)"

subsection \<open>Facts about the readers\<close>

lemma getBits_eq [bit_fields]:
  assumes "0 \<le> lo" "lo \<le> hi" "hi \<le> 31" "hi - lo \<le> 30"
  shows "getBits v hi lo = bits_of v (nat lo) (nat (hi - lo + 1))"
proof -
  let ?w = "nat (hi - lo + 1)" and ?l = "nat lo"
  have w: "?w \<le> 31" "?l + ?w \<le> 32" "?l < 32"
    using assms by auto
  have "to_int32 (js_shl 1 (hi - lo + 1) - 1) = 2 ^ ?w - 1"
  proof (cases "?w = 31")
    case True
    then have "hi - lo + 1 = 31"
      by linarith
    with True show ?thesis
      by (simp add: js_shl_def to_int32_def)
  next
    case False
    then have "?w \<le> 30"
      using w by simp
    then have "(2::int) ^ ?w \<le> 2 ^ 30"
      by (intro power_increasing) auto
    then have "(2::int) ^ ?w \<le> 1073741824"
      by simp
    moreover have "(0::int) < 2 ^ ?w"
      by simp
    ultimately have "- 2147483648 \<le> (2::int) ^ ?w" "(2::int) ^ ?w < 2147483648"
      "- 2147483648 \<le> (2::int) ^ ?w - 1" "(2::int) ^ ?w - 1 < 2147483648"
      by linarith+
    then have "to_int32 (2 ^ ?w) = 2 ^ ?w" "to_int32 (2 ^ ?w - 1) = 2 ^ ?w - 1"
      using to_int32_id[of "2 ^ ?w"] to_int32_id[of "2 ^ ?w - 1"] by auto
    moreover have "to_int32 1 = 1" "(hi - lo + 1) mod 32 = hi - lo + 1"
      using assms by (simp_all add: to_int32_id)
    ultimately show ?thesis
      by (simp add: js_shl_def push_bit_eq_mult)
  qed
  then have m: "to_int32 (js_shl 1 (hi - lo + 1) - 1) = to_int32 (2 ^ ?w - 1)"
    by (metis to_int32_idem)
  have "getBits v hi lo = js_and (js_ushr v lo) (js_shl 1 (hi - lo + 1) - 1)"
    using assms by (simp add: getBits_def Let_def)
  also have "\<dots> = take_bit ?w (js_ushr v lo)"
    unfolding js_and_cong [OF m] by (rule js_and_mask [OF w(1)])
  also have "\<dots> = take_bit ?w (drop_bit ?l v)"
  proof -
    have "lo mod 32 = lo"
      using assms by simp
    then show ?thesis
      by (simp only: js_ushr_def to_uint32_def take_drop_take_bit [OF w(2)])
  qed
  finally show ?thesis
    by (simp add: take_bit_eq_mod drop_bit_eq_div bits_of_def)
qed

definition le32_at :: "bytes \<Rightarrow> nat \<Rightarrow> int" where
  "le32_at bs i = le16_at bs i + 65536 * le16_at bs (i + 2)"

lemma le32_at_bounds: "0 \<le> le32_at bs i" "le32_at bs i < 2 ^ 32"
  using le16_at_bounds[of bs i] le16_at_bounds[of bs "i + 2"]
  unfolding le32_at_def by simp_all

lemma readUint32LE_eq:
  "readUint32LE payload offset =
     (if offset + 4 \<le> length payload then Inr (le32_at payload offset)
      else Inl (CannotReadUint32 offset (length payload)))"
proof -
  define a b c d where "a = byte_at payload offset" and "b = byte_at payload (offset + 1)"
    and "c = byte_at payload (offset + 2)" and "d = byte_at payload (offset + 3)"
  note bounds = byte_at_bounds[of payload offset, folded a_def]
    byte_at_bounds[of payload "offset + 1", folded b_def]
    byte_at_bounds[of payload "offset + 2", folded c_def]
    byte_at_bounds[of payload "offset + 3", folded d_def]
  have "js_ushr (js_or (js_or (js_or a (js_shl b 8)) (js_shl c 16)) (js_shl d 24)) 0 =
      ((a OR push_bit 8 b) OR push_bit 16 c) OR push_bit 24 d"
    using bounds
    by (simp add: js_ushr_def to_uint32_js_or to_uint32_js_shl to_uint32_id push_bit_eq_mult
        take_bit_int_eq_self)
  also have "\<dots> = a + 2 ^ 8 * b + 2 ^ 16 * c + 2 ^ 24 * d"
  proof -
    have "a OR push_bit 8 b = a + 2 ^ 8 * b"
      using bounds by (intro or_push_bit_add) auto
    moreover have "(a + 2 ^ 8 * b) OR push_bit 16 c = (a + 2 ^ 8 * b) + 2 ^ 16 * c"
      using bounds by (intro or_push_bit_add) auto
    moreover have "((a + 2 ^ 8 * b) + 2 ^ 16 * c) OR push_bit 24 d =
        ((a + 2 ^ 8 * b) + 2 ^ 16 * c) + 2 ^ 24 * d"
      using bounds by (intro or_push_bit_add) auto
    ultimately show ?thesis
      by simp
  qed
  also have "\<dots> = le32_at payload offset"
    by (simp add: le32_at_def le16_at_def a_def b_def c_def d_def eval_nat_numeral)
  finally show ?thesis
    by (simp add: readUint32LE_def a_def b_def c_def d_def)
qed

lemma le32_at_le_val:
  "i + 4 \<le> length bs \<Longrightarrow> le32_at bs i = le_val (sub_array bs i (i + 4))"
  by (simp add: sub_array_def le32_at_def le16_at_def byte_at_def take_Suc_conv_app_nth
      numeral_eq_Suc le_val_append)

lemma readDataObjects_loop_eq:
  "readDataObjects_loop payload offset index left =
     (if left = 0 \<or> offset + (index + left) * 4 \<le> length payload
      then Inr (map (\<lambda>i. le32_at payload (offset + i * 4)) [index..<index + left])
      else Inl (CannotReadUint32
        (offset + max index ((length payload - offset) div 4) * 4) (length payload)))"
proof (induction left arbitrary: index)
  case (Suc left)
  consider (fits) "offset + (index + Suc left) * 4 \<le> length payload"
    | (later) "offset + index * 4 + 4 \<le> length payload"
        "\<not> offset + (index + Suc left) * 4 \<le> length payload"
    | (now) "\<not> offset + index * 4 + 4 \<le> length payload"
    by linarith
  then show ?case
  proof cases
    case fits
    then show ?thesis
      by (simp add: Suc.IH readUint32LE_eq upt_conv_Cons del: upt_Suc)
  next
    case later
    then have "left \<noteq> 0" "Suc index \<le> (length payload - offset) div 4"
      by (auto simp: less_eq_div_iff_mult_less_eq)
    with later show ?thesis
      by (simp add: Suc.IH readUint32LE_eq max_def)
  next
    case now
    then have "(length payload - offset) div 4 \<le> index"
      by linarith
    with now show ?thesis
      by (simp add: readUint32LE_eq max_def)
  qed
qed simp

section \<open>Power data objects (DataObjects.ts)\<close>

datatype pdo_context = CSource | CSink

record FixedSupplyPDO =
  fx_raw :: int
  fx_context :: pdo_context
  fx_dualRolePower :: bool
  fx_usbSuspendSupportedOrHigherCapability :: bool
  fx_unconstrainedPower :: bool
  fx_usbCommunicationsCapable :: bool
  fx_dualRoleData :: bool
  fx_unchunkedExtendedMessagesSupported :: bool
  fx_eprCapable :: bool
  fx_fastRoleSwapRequiredCurrent :: "int option"
  fx_peakCurrent :: "int option"
  fx_voltage50mV :: int
  fx_current10mA :: int

record VariableSupplyPDO =
  vs_raw :: int
  vs_context :: pdo_context
  vs_maximumVoltage50mV :: int
  vs_minimumVoltage50mV :: int
  vs_current10mA :: int

record BatterySupplyPDO =
  bt_raw :: int
  bt_context :: pdo_context
  bt_maximumVoltage50mV :: int
  bt_minimumVoltage50mV :: int
  bt_power250mW :: int

record SPRPPSAPDO =
  pps_raw :: int
  pps_context :: pdo_context
  pps_ppsPowerLimited :: "bool option"
  pps_maximumVoltage100mV :: int
  pps_minimumVoltage100mV :: int
  pps_maximumCurrent50mA :: int

record SPRAVSAPDO =
  sav_raw :: int
  sav_context :: pdo_context
  sav_peakCurrent :: "int option"
  sav_maxCurrent15V10mA :: int
  sav_maxCurrent20V10mA :: int

record EPRAVSAPDO =
  eav_raw :: int
  eav_context :: pdo_context
  eav_peakCurrent :: "int option"
  eav_maximumVoltage100mV :: int
  eav_minimumVoltage100mV :: int
  eav_pdp1W :: int

record ReservedAPDO =
  rsv_raw :: int
  rsv_context :: pdo_context

text \<open>The union of the source: its \<open>pdoType\<close> and \<open>apdoType\<close> tags are the constructors.\<close>

datatype ParsedPDO =
    PDO_Fixed FixedSupplyPDO
  | PDO_Variable VariableSupplyPDO
  | PDO_Battery BatterySupplyPDO
  | PDO_SPR_PPS SPRPPSAPDO
  | PDO_SPR_AVS SPRAVSAPDO
  | PDO_EPR_AVS EPRAVSAPDO
  | PDO_Reserved ReservedAPDO

definition parsePDO :: "int \<Rightarrow> pdo_context \<Rightarrow> ParsedPDO" where
  "parsePDO raw ctx =
     (let pdoTypeBits = getBits raw 31 30 in
      if pdoTypeBits = 0 then
        let peakCurrent = (if ctx = CSource then Some (getBits raw 21 20) else None);
            fastRoleSwapRequiredCurrent = (if ctx = CSink then Some (getBits raw 24 23) else None)
        in PDO_Fixed
          \<lparr>fx_raw = raw, fx_context = ctx, fx_dualRolePower = (getBits raw 29 29 = 1),
           fx_usbSuspendSupportedOrHigherCapability = (getBits raw 28 28 = 1),
           fx_unconstrainedPower = (getBits raw 27 27 = 1),
           fx_usbCommunicationsCapable = (getBits raw 26 26 = 1),
           fx_dualRoleData = (getBits raw 25 25 = 1),
           fx_unchunkedExtendedMessagesSupported =
             (if ctx = CSource then getBits raw 24 24 = 1 else False),
           fx_eprCapable = (if ctx = CSource then getBits raw 23 23 = 1 else False),
           fx_fastRoleSwapRequiredCurrent = fastRoleSwapRequiredCurrent,
           fx_peakCurrent = peakCurrent,
           fx_voltage50mV = getBits raw 19 10, fx_current10mA = getBits raw 9 0\<rparr>
      else if pdoTypeBits = 1 then
        PDO_Battery
          \<lparr>bt_raw = raw, bt_context = ctx, bt_maximumVoltage50mV = getBits raw 29 20,
           bt_minimumVoltage50mV = getBits raw 19 10, bt_power250mW = getBits raw 9 0\<rparr>
      else if pdoTypeBits = 2 then
        PDO_Variable
          \<lparr>vs_raw = raw, vs_context = ctx, vs_maximumVoltage50mV = getBits raw 29 20,
           vs_minimumVoltage50mV = getBits raw 19 10, vs_current10mA = getBits raw 9 0\<rparr>
      else
        let apdoTypeBits = getBits raw 29 28 in
        if apdoTypeBits = 0 then
          PDO_SPR_PPS
            \<lparr>pps_raw = raw, pps_context = ctx,
             pps_ppsPowerLimited = (if ctx = CSource then Some (getBits raw 27 27 = 1) else None),
             pps_maximumVoltage100mV = getBits raw 24 17,
             pps_minimumVoltage100mV = getBits raw 15 8,
             pps_maximumCurrent50mA = getBits raw 6 0\<rparr>
        else if apdoTypeBits = 2 then
          PDO_SPR_AVS
            \<lparr>sav_raw = raw, sav_context = ctx,
             sav_peakCurrent = (if ctx = CSource then Some (getBits raw 27 26) else None),
             sav_maxCurrent15V10mA = getBits raw 19 10,
             sav_maxCurrent20V10mA = getBits raw 9 0\<rparr>
        else if apdoTypeBits = 1 then
          PDO_EPR_AVS
            \<lparr>eav_raw = raw, eav_context = ctx,
             eav_peakCurrent = (if ctx = CSource then Some (getBits raw 27 26) else None),
             eav_maximumVoltage100mV = getBits raw 25 17,
             eav_minimumVoltage100mV = getBits raw 15 8, eav_pdp1W = getBits raw 7 0\<rparr>
        else PDO_Reserved \<lparr>rsv_raw = raw, rsv_context = ctx\<rparr>)"

section \<open>Request data objects (DataObjects.ts)\<close>

datatype RequestType = RT_fixed_variable | RT_battery | RT_pps | RT_avs

text \<open>\<open>requestTypeHint\<close> is a request type or \<open>'unknown'\<close>, which is \<open>None\<close> here.\<close>

type_synonym RequestTypeHint = "RequestType option"

datatype resolution_confidence = RC_resolved | RC_guessed

datatype resolution_source =
    RS_source_capabilities
  | RS_epr_source_capabilities
  | RS_copied_pdo
  | RS_raw_rdo

record RequestTypeResolution =
  rr_type :: RequestType
  rr_confidence :: resolution_confidence
  rr_source :: resolution_source
  rr_candidates :: "RequestType list"

record rdo_fixedVariable =
  fv_operatingCurrent10mA :: int
  fv_maximumOperatingCurrent10mA :: int

record rdo_battery =
  rb_operatingPower250mW :: int
  rb_maximumOperatingPower250mW :: int

record rdo_pps =
  rp_outputVoltage20mV :: int
  rp_operatingCurrent50mA :: int

record rdo_avs =
  ra_outputVoltage25mV :: int
  ra_operatingCurrent50mA :: int

record ParsedRDO =
  rdo_raw :: int
  rdo_objectPosition :: int
  rdo_giveback :: bool
  rdo_capabilityMismatch :: bool
  rdo_usbCommunicationsCapable :: bool
  rdo_noUsbSuspend :: bool
  rdo_unchunkedExtendedMessagesSupported :: bool
  rdo_eprCapable :: bool
  rdo_requestTypeHint :: RequestTypeHint
  rdo_requestTypeResolution :: RequestTypeResolution
  rdo_fixedVariable :: rdo_fixedVariable
  rdo_battery :: rdo_battery
  rdo_pps :: rdo_pps
  rdo_avs :: rdo_avs

definition inferRequestTypeHintFromPDO :: "ParsedPDO \<Rightarrow> RequestTypeHint" where
  "inferRequestTypeHintFromPDO pdo =
     (case pdo of
        PDO_Fixed _ \<Rightarrow> Some RT_fixed_variable
      | PDO_Variable _ \<Rightarrow> Some RT_fixed_variable
      | PDO_Battery _ \<Rightarrow> Some RT_battery
      | PDO_SPR_PPS _ \<Rightarrow> Some RT_pps
      | PDO_SPR_AVS _ \<Rightarrow> Some RT_avs
      | PDO_EPR_AVS _ \<Rightarrow> Some RT_avs
      | PDO_Reserved _ \<Rightarrow> None)"

definition guessRequestTypeResolution :: "int \<Rightarrow> RequestTypeResolution" where
  "guessRequestTypeResolution raw =
     (let augmentedLayout = getBits raw 8 7 = 0 \<and> getBits raw 6 0 \<noteq> 0;
          avsAligned = getBits raw 10 9 = 0;
          candidates =
            (if augmentedLayout
             then if avsAligned then [RT_avs, RT_pps, RT_fixed_variable, RT_battery]
                  else [RT_pps, RT_fixed_variable, RT_battery]
             else [RT_fixed_variable, RT_battery])
      in \<lparr>rr_type = candidates ! 0, rr_confidence = RC_guessed, rr_source = RS_raw_rdo,
          rr_candidates = candidates\<rparr>)"

definition resolveRequestTypeFromPDO ::
  "ParsedPDO \<Rightarrow> resolution_source \<Rightarrow> RequestTypeResolution option" where
  "resolveRequestTypeFromPDO pdo source =
     (case inferRequestTypeHintFromPDO pdo of
        None \<Rightarrow> None
      | Some t \<Rightarrow> Some \<lparr>rr_type = t, rr_confidence = RC_resolved, rr_source = source,
                        rr_candidates = [t]\<rparr>)"

definition parseRDO :: "int \<Rightarrow> ParsedRDO" where
  "parseRDO raw =
     (let requestTypeResolution = guessRequestTypeResolution raw in
      \<lparr>rdo_raw = raw, rdo_objectPosition = getBits raw 31 28,
       rdo_giveback = (getBits raw 27 27 = 1), rdo_capabilityMismatch = (getBits raw 26 26 = 1),
       rdo_usbCommunicationsCapable = (getBits raw 25 25 = 1),
       rdo_noUsbSuspend = (getBits raw 24 24 = 1),
       rdo_unchunkedExtendedMessagesSupported = (getBits raw 23 23 = 1),
       rdo_eprCapable = (getBits raw 22 22 = 1),
       rdo_requestTypeHint = Some (rr_type requestTypeResolution),
       rdo_requestTypeResolution = requestTypeResolution,
       rdo_fixedVariable =
         \<lparr>fv_operatingCurrent10mA = getBits raw 19 10,
          fv_maximumOperatingCurrent10mA = getBits raw 9 0\<rparr>,
       rdo_battery =
         \<lparr>rb_operatingPower250mW = getBits raw 19 10,
          rb_maximumOperatingPower250mW = getBits raw 9 0\<rparr>,
       rdo_pps =
         \<lparr>rp_outputVoltage20mV = getBits raw 20 9, rp_operatingCurrent50mA = getBits raw 6 0\<rparr>,
       rdo_avs =
         \<lparr>ra_outputVoltage25mV = getBits raw 20 9, ra_operatingCurrent50mA = getBits raw 6 0\<rparr>\<rparr>)"

section \<open>Power data objects: invariant, encoder and round trips\<close>

text \<open>What a parsed object satisfies: each field in the range of its bits, and the fields that exist
  only on one side of the cable present exactly there.\<close>

fun wf_pdo :: "pdo_context \<Rightarrow> ParsedPDO \<Rightarrow> bool" where
  "wf_pdo ctx (PDO_Fixed f) \<longleftrightarrow>
     fx_context f = ctx \<and> fx_voltage50mV f \<in> {0..1023} \<and> fx_current10mA f \<in> {0..1023} \<and>
     (case ctx of
        CSource \<Rightarrow> fx_fastRoleSwapRequiredCurrent f = None \<and> (\<exists>p \<in> {0..3}. fx_peakCurrent f = Some p)
      | CSink \<Rightarrow> fx_peakCurrent f = None \<and> \<not> fx_eprCapable f \<and>
          \<not> fx_unchunkedExtendedMessagesSupported f \<and>
          (\<exists>c \<in> {0..3}. fx_fastRoleSwapRequiredCurrent f = Some c))"
| "wf_pdo ctx (PDO_Variable f) \<longleftrightarrow>
     vs_context f = ctx \<and> vs_maximumVoltage50mV f \<in> {0..1023} \<and>
     vs_minimumVoltage50mV f \<in> {0..1023} \<and> vs_current10mA f \<in> {0..1023}"
| "wf_pdo ctx (PDO_Battery f) \<longleftrightarrow>
     bt_context f = ctx \<and> bt_maximumVoltage50mV f \<in> {0..1023} \<and>
     bt_minimumVoltage50mV f \<in> {0..1023} \<and> bt_power250mW f \<in> {0..1023}"
| "wf_pdo ctx (PDO_SPR_PPS f) \<longleftrightarrow>
     pps_context f = ctx \<and> pps_maximumVoltage100mV f \<in> {0..255} \<and>
     pps_minimumVoltage100mV f \<in> {0..255} \<and> pps_maximumCurrent50mA f \<in> {0..127} \<and>
     (pps_ppsPowerLimited f = None) = (ctx = CSink)"
| "wf_pdo ctx (PDO_SPR_AVS f) \<longleftrightarrow>
     sav_context f = ctx \<and> sav_maxCurrent15V10mA f \<in> {0..1023} \<and>
     sav_maxCurrent20V10mA f \<in> {0..1023} \<and>
     (case ctx of CSink \<Rightarrow> sav_peakCurrent f = None
      | CSource \<Rightarrow> (\<exists>p \<in> {0..3}. sav_peakCurrent f = Some p))"
| "wf_pdo ctx (PDO_EPR_AVS f) \<longleftrightarrow>
     eav_context f = ctx \<and> eav_maximumVoltage100mV f \<in> {0..511} \<and>
     eav_minimumVoltage100mV f \<in> {0..255} \<and> eav_pdp1W f \<in> {0..255} \<and>
     (case ctx of CSink \<Rightarrow> eav_peakCurrent f = None
      | CSource \<Rightarrow> (\<exists>p \<in> {0..3}. eav_peakCurrent f = Some p))"
| "wf_pdo ctx (PDO_Reserved f) \<longleftrightarrow> rsv_context f = ctx"

text \<open>The encoder: the bit layout of each kind of object, lowest bits first. Bits the decoder has no
  field for are taken from the word \<open>rsv\<close>.\<close>

fun pdo_fields :: "int \<Rightarrow> ParsedPDO \<Rightarrow> (nat \<times> int) list" where
  "pdo_fields rsv (PDO_Fixed f) =
     [(10, fx_current10mA f), (10, fx_voltage50mV f),
      (2, case fx_peakCurrent f of Some p \<Rightarrow> p | None \<Rightarrow> bits_of rsv 20 2), (1, bits_of rsv 22 1),
      (2, case fx_fastRoleSwapRequiredCurrent f of Some c \<Rightarrow> c
          | None \<Rightarrow> of_bool (fx_eprCapable f) + 2 * of_bool (fx_unchunkedExtendedMessagesSupported f)),
      (1, of_bool (fx_dualRoleData f)), (1, of_bool (fx_usbCommunicationsCapable f)),
      (1, of_bool (fx_unconstrainedPower f)),
      (1, of_bool (fx_usbSuspendSupportedOrHigherCapability f)),
      (1, of_bool (fx_dualRolePower f)), (2, 0)]"
| "pdo_fields rsv (PDO_Battery f) =
     [(10, bt_power250mW f), (10, bt_minimumVoltage50mV f), (10, bt_maximumVoltage50mV f), (2, 1)]"
| "pdo_fields rsv (PDO_Variable f) =
     [(10, vs_current10mA f), (10, vs_minimumVoltage50mV f), (10, vs_maximumVoltage50mV f), (2, 2)]"
| "pdo_fields rsv (PDO_SPR_PPS f) =
     [(7, pps_maximumCurrent50mA f), (1, bits_of rsv 7 1), (8, pps_minimumVoltage100mV f),
      (1, bits_of rsv 16 1), (8, pps_maximumVoltage100mV f), (2, bits_of rsv 25 2),
      (1, case pps_ppsPowerLimited f of Some b \<Rightarrow> of_bool b | None \<Rightarrow> bits_of rsv 27 1),
      (2, 0), (2, 3)]"
| "pdo_fields rsv (PDO_SPR_AVS f) =
     [(10, sav_maxCurrent20V10mA f), (10, sav_maxCurrent15V10mA f), (6, bits_of rsv 20 6),
      (2, case sav_peakCurrent f of Some p \<Rightarrow> p | None \<Rightarrow> bits_of rsv 26 2), (2, 2), (2, 3)]"
| "pdo_fields rsv (PDO_EPR_AVS f) =
     [(8, eav_pdp1W f), (8, eav_minimumVoltage100mV f), (1, bits_of rsv 16 1),
      (9, eav_maximumVoltage100mV f),
      (2, case eav_peakCurrent f of Some p \<Rightarrow> p | None \<Rightarrow> bits_of rsv 26 2), (2, 1), (2, 3)]"
| "pdo_fields rsv (PDO_Reserved f) = [(28, bits_of rsv 0 28), (2, 3), (2, 3)]"

definition pdo_word :: "int \<Rightarrow> ParsedPDO \<Rightarrow> int" where
  "pdo_word rsv pdo = pack (pdo_fields rsv pdo)"

fun pdo_with_raw :: "int \<Rightarrow> ParsedPDO \<Rightarrow> ParsedPDO" where
  "pdo_with_raw r (PDO_Fixed f) = PDO_Fixed (f\<lparr>fx_raw := r\<rparr>)"
| "pdo_with_raw r (PDO_Variable f) = PDO_Variable (f\<lparr>vs_raw := r\<rparr>)"
| "pdo_with_raw r (PDO_Battery f) = PDO_Battery (f\<lparr>bt_raw := r\<rparr>)"
| "pdo_with_raw r (PDO_SPR_PPS f) = PDO_SPR_PPS (f\<lparr>pps_raw := r\<rparr>)"
| "pdo_with_raw r (PDO_SPR_AVS f) = PDO_SPR_AVS (f\<lparr>sav_raw := r\<rparr>)"
| "pdo_with_raw r (PDO_EPR_AVS f) = PDO_EPR_AVS (f\<lparr>eav_raw := r\<rparr>)"
| "pdo_with_raw r (PDO_Reserved f) = PDO_Reserved (f\<lparr>rsv_raw := r\<rparr>)"

lemma pdo_fields_bounds: "wf_pdo ctx p \<Longrightarrow> \<forall>(w, x) \<in> set (pdo_fields r p). 0 \<le> x \<and> x < 2 ^ w"
  by (cases p; cases ctx) (auto split: option.splits)
text \<open>Parsing a power data object loses no bit. For every 32-bit word and either side of the cable,
  laying the decoded fields out again (with the reserved bits of the word) gives the word back, and
  the object is well formed: each field within its bits, and the fields only one side defines
  present exactly there.\<close>

lemma parsePDO_recompose:
  "pdo_word raw (parsePDO raw ctx) = raw mod 2 ^ 32 \<and> wf_pdo ctx (parsePDO raw ctx)"
proof
  show "wf_pdo ctx (parsePDO raw ctx)"
    by (cases ctx) (simp_all add: parsePDO_def Let_def bit_fields)
  show "pdo_word raw (parsePDO raw ctx) = raw mod 2 ^ 32"
  proof (cases rule: bits_of_2_cases[of raw 30])
    case 1
    then show ?thesis
      using pack_slices[of "[10, 10, 2, 1, 2, 1, 1, 1, 1, 1, 2]" raw] bits_of_append[of raw 23 1 1]
      by (cases ctx) (simp_all add: pdo_word_def parsePDO_def bit_fields flip: numeral_2_eq_2)
  next
    case 2
    then show ?thesis
      using pack_slices[of "[10, 10, 10, 2]" raw]
      by (simp add: pdo_word_def parsePDO_def bit_fields)
  next
    case 3
    then show ?thesis
      using pack_slices[of "[10, 10, 10, 2]" raw]
      by (simp add: pdo_word_def parsePDO_def bit_fields)
  next
    case apdo: 4
    show ?thesis
    proof (cases rule: bits_of_2_cases[of raw 28])
      case 1
      with apdo show ?thesis
        using pack_slices[of "[7, 1, 8, 1, 8, 2, 1, 2, 2]" raw]
        by (cases ctx) (simp_all add: pdo_word_def parsePDO_def bit_fields)
    next
      case 2
      with apdo show ?thesis
        using pack_slices[of "[8, 8, 1, 9, 2, 2, 2]" raw]
        by (cases ctx) (simp_all add: pdo_word_def parsePDO_def bit_fields)
    next
      case 3
      with apdo show ?thesis
        using pack_slices[of "[10, 10, 6, 2, 2, 2]" raw]
        by (cases ctx) (simp_all add: pdo_word_def parsePDO_def bit_fields)
    next
      case 4
      with apdo show ?thesis
        using pack_slices[of "[28, 2, 2]" raw]
        by (cases ctx) (simp_all add: pdo_word_def parsePDO_def bit_fields)
    qed
  qed
qed

lemma pdo_word_mod: "pdo_word r p mod 2 ^ 32 = pdo_word r p"
  using pack_bounds[of "pdo_fields r p"] by (cases p) (simp_all add: pdo_word_def)

lemma parsePDO_encoded:
  assumes "wf_pdo ctx p"
  shows "parsePDO (pdo_word r p) ctx = pdo_with_raw (pdo_word r p) p"
proof -
  note s = slices_pack [OF pdo_fields_bounds [OF assms, of r], folded pdo_word_def]
  show ?thesis
  proof (cases p)
    case (PDO_Fixed f)
    show ?thesis
    proof (cases ctx)
      case CSink
      with PDO_Fixed assms s show ?thesis
        by (auto simp: parsePDO_def bit_fields)
    next
      case CSource
      with PDO_Fixed assms s have "bits_of (pdo_word r p) 23 2 =
          of_bool (fx_eprCapable f) + 2 * of_bool (fx_unchunkedExtendedMessagesSupported f)"
        by auto
      from bits_of_split2 [OF this] CSource PDO_Fixed assms s show ?thesis
        by (auto simp: parsePDO_def bit_fields)
    qed
  next
    case (PDO_Variable f)
    with assms s show ?thesis
      by (auto simp: parsePDO_def bit_fields)
  next
    case (PDO_Battery f)
    with assms s show ?thesis
      by (auto simp: parsePDO_def bit_fields)
  next
    case (PDO_SPR_PPS f)
    with assms s show ?thesis
      by (cases ctx) (auto simp: parsePDO_def bit_fields)
  next
    case (PDO_SPR_AVS f)
    with assms s show ?thesis
      by (cases ctx) (auto simp: parsePDO_def bit_fields)
  next
    case (PDO_EPR_AVS f)
    with assms s show ?thesis
      by (cases ctx) (auto simp: parsePDO_def bit_fields)
  next
    case (PDO_Reserved f)
    with assms s show ?thesis
      by (auto simp: parsePDO_def bit_fields)
  qed
qed
text \<open>C16: every well-formed power data object is what its encoding parses to, whatever the reserved
  bits: the decoder identifies the supply type and subtype and returns each field unchanged, so the
  decoder reaches every well-formed object and the layouts of the seven kinds never overlap.\<close>

theorem parsePDO_pdo_word:
  assumes "wf_pdo ctx p"
  shows "parsePDO (pdo_word r p) ctx = pdo_with_raw (pdo_word r p) p"
  using assms by (rule parsePDO_encoded)

lemma parsePDO_pdo_word_witness:
  "parsePDO (pdo_word 0 (PDO_Variable \<lparr>vs_raw = 0, vs_context = CSink, vs_maximumVoltage50mV = 400,
       vs_minimumVoltage50mV = 100, vs_current10mA = 300\<rparr>)) CSink =
   PDO_Variable \<lparr>vs_raw = 2567016748, vs_context = CSink, vs_maximumVoltage50mV = 400,
       vs_minimumVoltage50mV = 100, vs_current10mA = 300\<rparr>"
  using parsePDO_pdo_word[of CSink "PDO_Variable \<lparr>vs_raw = 0, vs_context = CSink,
    vs_maximumVoltage50mV = 400, vs_minimumVoltage50mV = 100, vs_current10mA = 300\<rparr>" 0]
  by (simp add: pdo_word_def pack.simps)

text \<open>Reading \<open>count\<close> data objects succeeds exactly when all of their bytes are inside the payload
  (or there is nothing to read) and then returns the little-endian words in order; otherwise it
  throws at the first object that does not fit.\<close>

lemma readDataObjects_eq:
  "readDataObjects payload offset count =
     (if count \<le> 0 \<or> offset + nat count * 4 \<le> length payload
      then Inr (map (\<lambda>i. le_val (sub_array payload (offset + i * 4) (offset + i * 4 + 4)))
                  [0..<nat count])
      else Inl (CannotReadUint32 (offset + (length payload - offset) div 4 * 4) (length payload)))"
proof -
  have "le32_at payload (offset + i * 4) = le_val (sub_array payload (offset + i * 4) (offset + i * 4 + 4))"
    if "i < nat count" "offset + nat count * 4 \<le> length payload" for i
    using that by (intro le32_at_le_val) simp
  then show ?thesis
    by (auto simp: readDataObjects_def readDataObjects_loop_eq)
qed

section \<open>Request data objects: layouts and the resolution of the request type\<close>

text \<open>The two physical layouts of a request: the fixed, variable and battery layout has a pair of
  ten-bit values, the programmable layout a twelve-bit voltage and a seven-bit current.\<close>

definition rdo_head :: "ParsedRDO \<Rightarrow> (nat \<times> int) list" where
  "rdo_head r =
     [(1, of_bool (rdo_eprCapable r)), (1, of_bool (rdo_unchunkedExtendedMessagesSupported r)),
      (1, of_bool (rdo_noUsbSuspend r)), (1, of_bool (rdo_usbCommunicationsCapable r)),
      (1, of_bool (rdo_capabilityMismatch r)), (1, of_bool (rdo_giveback r)),
      (4, rdo_objectPosition r)]"

definition rdo_word_fixed :: "int \<Rightarrow> ParsedRDO \<Rightarrow> int" where
  "rdo_word_fixed rsv r =
     pack ([(10, fv_maximumOperatingCurrent10mA (rdo_fixedVariable r)),
            (10, fv_operatingCurrent10mA (rdo_fixedVariable r)), (2, bits_of rsv 20 2)] @ rdo_head r)"

definition rdo_word_augmented :: "int \<Rightarrow> ParsedRDO \<Rightarrow> int" where
  "rdo_word_augmented rsv r =
     pack ([(7, rp_operatingCurrent50mA (rdo_pps r)), (2, bits_of rsv 7 2),
            (12, rp_outputVoltage20mV (rdo_pps r)), (1, bits_of rsv 21 1)] @ rdo_head r)"

text \<open>A parsed request holds every interpretation of its word. Both layouts, laid out again,
  give the word back; the battery view is the fixed view and the adjustable-voltage view is the
  programmable one, field by field.\<close>

lemma parseRDO_recompose:
  "rdo_word_fixed raw (parseRDO raw) = raw mod 2 ^ 32 \<and>
   rdo_word_augmented raw (parseRDO raw) = raw mod 2 ^ 32 \<and>
   rb_operatingPower250mW (rdo_battery (parseRDO raw)) =
     fv_operatingCurrent10mA (rdo_fixedVariable (parseRDO raw)) \<and>
   rb_maximumOperatingPower250mW (rdo_battery (parseRDO raw)) =
     fv_maximumOperatingCurrent10mA (rdo_fixedVariable (parseRDO raw)) \<and>
   ra_outputVoltage25mV (rdo_avs (parseRDO raw)) = rp_outputVoltage20mV (rdo_pps (parseRDO raw)) \<and>
   ra_operatingCurrent50mA (rdo_avs (parseRDO raw)) = rp_operatingCurrent50mA (rdo_pps (parseRDO raw))"
  using pack_slices[of "[10, 10, 2, 1, 1, 1, 1, 1, 1, 4]" raw]
    pack_slices[of "[7, 2, 12, 1, 1, 1, 1, 1, 1, 1, 4]" raw]
  by (simp add: parseRDO_def Let_def rdo_word_fixed_def rdo_word_augmented_def rdo_head_def bit_fields)

text \<open>A request is laid out for a programmable supply when its two unused bits are zero and it asks
  for a current, and for an adjustable-voltage supply when moreover its voltage is a whole number
  of 100 mV steps.\<close>

fun request_layout :: "RequestType \<Rightarrow> ParsedRDO \<Rightarrow> bool" where
  "request_layout RT_pps r \<longleftrightarrow>
     rp_operatingCurrent50mA (rdo_pps r) > 0 \<and> bits_of (rdo_raw r) 7 2 = 0"
| "request_layout RT_avs r \<longleftrightarrow>
     ra_operatingCurrent50mA (rdo_avs r) > 0 \<and> bits_of (rdo_raw r) 7 2 = 0 \<and>
     4 dvd ra_outputVoltage25mV (rdo_avs r)"
| "request_layout RT_fixed_variable r \<longleftrightarrow> True"
| "request_layout RT_battery r \<longleftrightarrow> True"

lemma bits_of_dvd4: "w \<ge> 2 \<Longrightarrow> 4 dvd bits_of v lo w \<longleftrightarrow> bits_of v lo 2 = 0"
proof -
  assume "w \<ge> 2"
  then obtain k where "w = 2 + k"
    using le_Suc_ex by blast
  then have "bits_of v lo w = bits_of v lo 2 + 4 * bits_of v (lo + 2) k"
    using bits_of_append[of v lo 2 k] by simp
  moreover have "0 \<le> bits_of v lo 2" "bits_of v lo 2 < 4"
    by simp_all
  ultimately show ?thesis
    by presburger
qed

text \<open>The guessed request type is sound and complete for the layouts: the candidates are, in
  order of preference and without repetition, exactly the types whose layout the word fits, the
  type chosen is the first of them, and an adjustable-voltage guess always has a voltage in whole
  100 mV steps and a nonzero current.\<close>

lemma guessRequestType_candidates:
  "set (rr_candidates (rdo_requestTypeResolution (parseRDO raw))) = {t. request_layout t (parseRDO raw)} \<and>
   rr_candidates (rdo_requestTypeResolution (parseRDO raw)) =
     filter (\<lambda>t. request_layout t (parseRDO raw)) [RT_avs, RT_pps, RT_fixed_variable, RT_battery] \<and>
   rdo_requestTypeHint (parseRDO raw) =
     Some (hd (rr_candidates (rdo_requestTypeResolution (parseRDO raw))))"
proof -
  have pos: "0 < bits_of raw 0 7 \<longleftrightarrow> bits_of raw 0 7 \<noteq> 0"
    using bits_of_bounds(1)[of raw 0 7] by linarith
  have c: "rr_candidates (rdo_requestTypeResolution (parseRDO raw)) =
      filter (\<lambda>t. request_layout t (parseRDO raw)) [RT_avs, RT_pps, RT_fixed_variable, RT_battery]"
    by (simp add: parseRDO_def guessRequestTypeResolution_def Let_def bit_fields bits_of_dvd4 pos)
  moreover have "t \<in> set [RT_avs, RT_pps, RT_fixed_variable, RT_battery]" for t
    by (cases t) simp_all
  then have "set (filter P [RT_avs, RT_pps, RT_fixed_variable, RT_battery]) = {t. P t}" for P
    unfolding set_filter by blast
  moreover have "rdo_requestTypeHint (parseRDO raw) =
      Some (hd (rr_candidates (rdo_requestTypeResolution (parseRDO raw))))"
    by (simp add: parseRDO_def guessRequestTypeResolution_def Let_def)
  ultimately show ?thesis
    by (simp only: simp_thms)
qed

text \<open>A request whose supply is known resolves to the type its object stands for.\<close>

lemma resolveRequestTypeFromPDO_eq:
  "resolveRequestTypeFromPDO pdo source = None \<longleftrightarrow> (\<exists>f. pdo = PDO_Reserved f)"
  by (cases pdo) (simp_all add: resolveRequestTypeFromPDO_def inferRequestTypeHintFromPDO_def)

end
