(* ===== verification/Small_Objects.thy ===== *)
theory Small_Objects
  imports Power_Objects
begin

text \<open>
  The data objects of the single-object messages, from \<open>usb-pd/DataObjects.ts\<close>: BIST, battery
  status, alert, country code, Enter_USB, EPR mode, source info and revision. Each parser comes with
  the encoder of its layout (\<open>..._word\<close>, reserved bits from an argument) and the lemma that the decoded
  fields and the reserved bits make up the whole word.
\<close>

named_theorems recompose \<open>decoded fields, laid out again, are the word they came from\<close>

section \<open>Records and parsers (DataObjects.ts)\<close>

record ParsedBISTDataObject =
  bist_raw :: int
  bist_mode :: int
  bist_modeName :: string
  bist_reserved :: int

definition parseBISTDataObject :: "int \<Rightarrow> ParsedBISTDataObject" where
  "parseBISTDataObject raw =
     (let mode = getBits raw 31 28;
          modeName =
            (if mode = 5 then ''BIST_CARRIER_MODE''
             else if mode = 8 then ''BIST_TEST_DATA''
             else if mode = 9 then ''BIST_SHARED_TEST_ENTRY''
             else if mode = 10 then ''BIST_SHARED_TEST_EXIT''
             else ''RESERVED'')
      in \<lparr>bist_raw = raw, bist_mode = mode, bist_modeName = modeName,
          bist_reserved = getBits raw 27 0\<rparr>)"

record ParsedCountryCodeDataObject =
  cc_raw :: int
  cc_countryCodeChar1 :: int
  cc_countryCodeChar2 :: int
  cc_countryCode :: "string option"

definition parseCountryCodeDataObject :: "int \<Rightarrow> ParsedCountryCodeDataObject" where
  "parseCountryCodeDataObject raw =
     (let first = getBits raw 31 24; second = getBits raw 23 16 in
      \<lparr>cc_raw = raw, cc_countryCodeChar1 = first, cc_countryCodeChar2 = second,
       cc_countryCode = decodeAsciiPair first second\<rparr>)"

record ParsedBatteryStatusDataObject =
  bs_raw :: int
  bs_batteryPresentCapacity :: int
  bs_invalidBatteryReference :: bool
  bs_batteryPresent :: bool
  bs_batteryChargingStatus :: int

definition parseBatteryStatusDataObject :: "int \<Rightarrow> ParsedBatteryStatusDataObject" where
  "parseBatteryStatusDataObject raw =
     \<lparr>bs_raw = raw, bs_batteryPresentCapacity = getBits raw 31 16,
      bs_invalidBatteryReference = (getBits raw 8 8 = 1),
      bs_batteryPresent = (getBits raw 9 9 = 1), bs_batteryChargingStatus = getBits raw 11 10\<rparr>"

record ParsedAlertDataObject =
  al_raw :: int
  al_typeOfAlert :: int
  al_fixedBatteries :: int
  al_hotSwappableBatteries :: int
  al_extendedAlertEventType :: int

definition parseAlertDataObject :: "int \<Rightarrow> ParsedAlertDataObject" where
  "parseAlertDataObject raw =
     \<lparr>al_raw = raw, al_typeOfAlert = getBits raw 31 24, al_fixedBatteries = getBits raw 23 20,
      al_hotSwappableBatteries = getBits raw 19 16, al_extendedAlertEventType = getBits raw 3 0\<rparr>"

record ParsedEnterUSBDataObject =
  eu_raw :: int
  eu_usbMode :: int
  eu_usb4Drd :: bool
  eu_usb3Drd :: bool
  eu_cableSpeed :: int
  eu_cableType :: int
  eu_cableCurrent :: int
  eu_pcieSupport :: bool
  eu_dpSupport :: bool
  eu_tbtSupport :: bool
  eu_hostPresent :: bool

definition parseEnterUSBDataObject :: "int \<Rightarrow> ParsedEnterUSBDataObject" where
  "parseEnterUSBDataObject raw =
     \<lparr>eu_raw = raw, eu_usbMode = getBits raw 30 28, eu_usb4Drd = (getBits raw 26 26 = 1),
      eu_usb3Drd = (getBits raw 25 25 = 1), eu_cableSpeed = getBits raw 23 21,
      eu_cableType = getBits raw 20 19, eu_cableCurrent = getBits raw 18 17,
      eu_pcieSupport = (getBits raw 16 16 = 1), eu_dpSupport = (getBits raw 15 15 = 1),
      eu_tbtSupport = (getBits raw 14 14 = 1), eu_hostPresent = (getBits raw 13 13 = 1)\<rparr>"

record ParsedEPRModeDataObject =
  em_raw :: int
  em_action :: int
  em_data :: int

definition parseEPRModeDataObject :: "int \<Rightarrow> ParsedEPRModeDataObject" where
  "parseEPRModeDataObject raw =
     \<lparr>em_raw = raw, em_action = getBits raw 31 24, em_data = getBits raw 23 16\<rparr>"

record ParsedSourceInfoDataObject =
  si_raw :: int
  si_portType :: int
  si_portMaximumPdp :: int
  si_portPresentPdp :: int
  si_portReportedPdp :: int

definition parseSourceInfoDataObject :: "int \<Rightarrow> ParsedSourceInfoDataObject" where
  "parseSourceInfoDataObject raw =
     \<lparr>si_raw = raw, si_portType = getBits raw 31 31, si_portMaximumPdp = getBits raw 23 16,
      si_portPresentPdp = getBits raw 15 8, si_portReportedPdp = getBits raw 7 0\<rparr>"

record ParsedRevisionDataObject =
  rm_raw :: int
  rm_revisionMajor :: int
  rm_revisionMinor :: int
  rm_versionMajor :: int
  rm_versionMinor :: int

definition parseRevisionDataObject :: "int \<Rightarrow> ParsedRevisionDataObject" where
  "parseRevisionDataObject raw =
     \<lparr>rm_raw = raw, rm_revisionMajor = getBits raw 31 28, rm_revisionMinor = getBits raw 27 24,
      rm_versionMajor = getBits raw 23 20, rm_versionMinor = getBits raw 19 16\<rparr>"

section \<open>Encoders and recomposition\<close>

definition bISTDataObject_word :: "ParsedBISTDataObject \<Rightarrow> int" where
  "bISTDataObject_word x = pack [(28, bist_reserved x), (4, bist_mode x)]"

definition countryCodeDataObject_word :: "int \<Rightarrow> ParsedCountryCodeDataObject \<Rightarrow> int" where
  "countryCodeDataObject_word rsv x =
     pack [(16, bits_of rsv 0 16), (8, cc_countryCodeChar2 x), (8, cc_countryCodeChar1 x)]"

definition batteryStatusDataObject_word :: "int \<Rightarrow> ParsedBatteryStatusDataObject \<Rightarrow> int" where
  "batteryStatusDataObject_word rsv x =
     pack [(8, bits_of rsv 0 8), (1, of_bool (bs_invalidBatteryReference x)),
           (1, of_bool (bs_batteryPresent x)), (2, bs_batteryChargingStatus x),
           (4, bits_of rsv 12 4), (16, bs_batteryPresentCapacity x)]"

lemma batteryStatusDataObject_recompose [recompose]:
  "batteryStatusDataObject_word raw (parseBatteryStatusDataObject raw) = raw mod 2 ^ 32"
  using pack_slices[of "[8, 1, 1, 2, 4, 16]" raw]
  by (simp add: batteryStatusDataObject_word_def parseBatteryStatusDataObject_def bit_fields)

definition alertDataObject_word :: "int \<Rightarrow> ParsedAlertDataObject \<Rightarrow> int" where
  "alertDataObject_word rsv x =
     pack [(4, al_extendedAlertEventType x), (12, bits_of rsv 4 12),
           (4, al_hotSwappableBatteries x), (4, al_fixedBatteries x), (8, al_typeOfAlert x)]"

lemma alertDataObject_recompose [recompose]:
  "alertDataObject_word raw (parseAlertDataObject raw) = raw mod 2 ^ 32"
  using pack_slices[of "[4, 12, 4, 4, 8]" raw]
  by (simp add: alertDataObject_word_def parseAlertDataObject_def bit_fields)

definition enterUSBDataObject_word :: "int \<Rightarrow> ParsedEnterUSBDataObject \<Rightarrow> int" where
  "enterUSBDataObject_word rsv x =
     pack [(13, bits_of rsv 0 13), (1, of_bool (eu_hostPresent x)),
           (1, of_bool (eu_tbtSupport x)), (1, of_bool (eu_dpSupport x)),
           (1, of_bool (eu_pcieSupport x)), (2, eu_cableCurrent x), (2, eu_cableType x),
           (3, eu_cableSpeed x), (1, bits_of rsv 24 1), (1, of_bool (eu_usb3Drd x)),
           (1, of_bool (eu_usb4Drd x)), (1, bits_of rsv 27 1), (3, eu_usbMode x),
           (1, bits_of rsv 31 1)]"

lemma enterUSBDataObject_recompose [recompose]:
  "enterUSBDataObject_word raw (parseEnterUSBDataObject raw) = raw mod 2 ^ 32"
  using pack_slices[of "[13, 1, 1, 1, 1, 2, 2, 3, 1, 1, 1, 1, 3, 1]" raw]
  by (simp add: enterUSBDataObject_word_def parseEnterUSBDataObject_def bit_fields)

definition EPRModeDataObject_word :: "int \<Rightarrow> ParsedEPRModeDataObject \<Rightarrow> int" where
  "EPRModeDataObject_word rsv x =
     pack [(16, bits_of rsv 0 16), (8, em_data x), (8, em_action x)]"

lemma EPRModeDataObject_recompose [recompose]:
  "EPRModeDataObject_word raw (parseEPRModeDataObject raw) = raw mod 2 ^ 32"
  using pack_slices[of "[16, 8, 8]" raw]
  by (simp add: EPRModeDataObject_word_def parseEPRModeDataObject_def bit_fields)

definition sourceInfoDataObject_word :: "int \<Rightarrow> ParsedSourceInfoDataObject \<Rightarrow> int" where
  "sourceInfoDataObject_word rsv x =
     pack [(8, si_portReportedPdp x), (8, si_portPresentPdp x), (8, si_portMaximumPdp x),
           (7, bits_of rsv 24 7), (1, si_portType x)]"

lemma sourceInfoDataObject_recompose [recompose]:
  "sourceInfoDataObject_word raw (parseSourceInfoDataObject raw) = raw mod 2 ^ 32"
  using pack_slices[of "[8, 8, 8, 7, 1]" raw]
  by (simp add: sourceInfoDataObject_word_def parseSourceInfoDataObject_def bit_fields)

definition revisionDataObject_word :: "int \<Rightarrow> ParsedRevisionDataObject \<Rightarrow> int" where
  "revisionDataObject_word rsv x =
     pack [(16, bits_of rsv 0 16), (4, rm_versionMinor x), (4, rm_versionMajor x),
           (4, rm_revisionMinor x), (4, rm_revisionMajor x)]"

lemma revisionDataObject_recompose [recompose]:
  "revisionDataObject_word raw (parseRevisionDataObject raw) = raw mod 2 ^ 32"
  using pack_slices[of "[16, 4, 4, 4, 4]" raw]
  by (simp add: revisionDataObject_word_def parseRevisionDataObject_def bit_fields)

lemma bISTDataObject_recompose [recompose]:
  "bISTDataObject_word (parseBISTDataObject raw) = raw mod 2 ^ 32"
  using pack_slices[of "[28, 4]" raw]
  by (simp add: bISTDataObject_word_def parseBISTDataObject_def Let_def bit_fields)

lemma countryCodeDataObject_recompose [recompose]:
  "countryCodeDataObject_word raw (parseCountryCodeDataObject raw) = raw mod 2 ^ 32"
  using pack_slices[of "[16, 8, 8]" raw]
  by (simp add: countryCodeDataObject_word_def parseCountryCodeDataObject_def Let_def bit_fields)

text \<open>The parsers of the single-object messages lose no bit: the fields of each of the eight
  objects, laid out by its encoder with the reserved bits of the word, give the word back.\<close>

lemma smallObjects_recompose:
  "bISTDataObject_word (parseBISTDataObject raw) = raw mod 2 ^ 32 \<and>
   countryCodeDataObject_word raw (parseCountryCodeDataObject raw) = raw mod 2 ^ 32 \<and>
   batteryStatusDataObject_word raw (parseBatteryStatusDataObject raw) = raw mod 2 ^ 32 \<and>
   alertDataObject_word raw (parseAlertDataObject raw) = raw mod 2 ^ 32 \<and>
   enterUSBDataObject_word raw (parseEnterUSBDataObject raw) = raw mod 2 ^ 32 \<and>
   EPRModeDataObject_word raw (parseEPRModeDataObject raw) = raw mod 2 ^ 32 \<and>
   sourceInfoDataObject_word raw (parseSourceInfoDataObject raw) = raw mod 2 ^ 32 \<and>
   revisionDataObject_word raw (parseRevisionDataObject raw) = raw mod 2 ^ 32"
  by (simp only: recompose simp_thms)

text \<open>A country code is decoded exactly when both characters are printable ASCII.\<close>

lemma parseCountryCodeDataObject_code:
  "cc_countryCode (parseCountryCodeDataObject raw) =
     (if bits_of raw 24 8 \<in> {0x20..0x7e} \<and> bits_of raw 16 8 \<in> {0x20..0x7e}
      then Some [char_code (bits_of raw 24 8), char_code (bits_of raw 16 8)] else None)"
  by (simp add: parseCountryCodeDataObject_def decodeAsciiPair_def Let_def bit_fields)

end
