(* ===== verification/Vdm_Objects.thy ===== *)
theory Vdm_Objects
  imports Small_Objects "HOL-Library.Multiset"
begin

text \<open>
  Vendor defined messages' objects from \<open>usb-pd/DataObjects.ts\<close>: the VDM header, the VDOs of
  Discover Identity, SVIDs and Modes, and \<open>parseDiscoverIdentityVDOs\<close>, which sorts the objects of a
  response into the identity triple, the product-type VDOs, padding and unrecognised objects.
\<close>

section \<open>The VDM header (DataObjects.ts)\<close>

datatype vdm_type = STRUCTURED | UNSTRUCTURED

record ParsedVDMHeader =
  vh_raw :: int
  vh_svid :: int
  vh_vdmType :: vdm_type
  vh_structuredVersionMajor :: "int option"
  vh_structuredVersionMinor :: "int option"
  vh_objectPosition :: "int option"
  vh_commandType :: "int option"
  vh_commandTypeName :: "string option"
  vh_command :: "int option"
  vh_commandName :: "string option"
  vh_vendorPayload :: "int option"

definition parseVDMHeader :: "int \<Rightarrow> ParsedVDMHeader" where
  "parseVDMHeader raw =
     (let vdmTypeBit = getBits raw 15 15;
          vdmType = (if vdmTypeBit = 1 then STRUCTURED else UNSTRUCTURED)
      in
      if vdmType = UNSTRUCTURED then
        \<lparr>vh_raw = raw, vh_svid = getBits raw 31 16, vh_vdmType = vdmType,
         vh_structuredVersionMajor = None, vh_structuredVersionMinor = None,
         vh_objectPosition = None, vh_commandType = None, vh_commandTypeName = None,
         vh_command = None, vh_commandName = None,
         vh_vendorPayload = Some (getBits raw 14 0)\<rparr>
      else
        let commandType = getBits raw 7 6;
            commandTypeName =
              (if commandType = 0 then ''REQ'' else if commandType = 1 then ''ACK''
               else if commandType = 2 then ''NAK'' else ''BUSY'');
            command = getBits raw 4 0;
            commandName =
              (if command = 1 then Some ''DISCOVER_IDENTITY''
               else if command = 2 then Some ''DISCOVER_SVIDS''
               else if command = 3 then Some ''DISCOVER_MODES''
               else if command = 4 then Some ''ENTER_MODE''
               else if command = 5 then Some ''EXIT_MODE''
               else if command = 6 then Some ''ATTENTION''
               else if command \<ge> 16 then Some ''SVID_SPECIFIC''
               else None)
        in
        \<lparr>vh_raw = raw, vh_svid = getBits raw 31 16, vh_vdmType = vdmType,
         vh_structuredVersionMajor = Some (getBits raw 14 13),
         vh_structuredVersionMinor = Some (getBits raw 12 11),
         vh_objectPosition = Some (getBits raw 10 8), vh_commandType = Some commandType,
         vh_commandTypeName = Some commandTypeName, vh_command = Some command,
         vh_commandName = commandName, vh_vendorPayload = None\<rparr>)"

section \<open>Vendor data objects (DataObjects.ts)\<close>

record ParsedCertStatVDO =
  cst_raw :: int
  cst_xid :: int

definition parseCertStatVDO :: "int \<Rightarrow> ParsedCertStatVDO" where
  "parseCertStatVDO raw = \<lparr>cst_raw = raw, cst_xid = js_ushr raw 0\<rparr>"

record ParsedIDHeaderVDO =
  idh_raw :: int
  idh_usbHostCapable :: bool
  idh_usbDeviceCapable :: bool
  idh_sopProductTypeUfpOrCable :: int
  idh_modalOperationSupported :: bool
  idh_sopProductTypeDfp :: int
  idh_connectorType :: int
  idh_usbVendorId :: int

definition parseIDHeaderVDO :: "int \<Rightarrow> ParsedIDHeaderVDO" where
  "parseIDHeaderVDO raw =
     \<lparr>idh_raw = raw, idh_usbHostCapable = (getBits raw 31 31 = 1),
      idh_usbDeviceCapable = (getBits raw 30 30 = 1),
      idh_sopProductTypeUfpOrCable = getBits raw 29 27,
      idh_modalOperationSupported = (getBits raw 26 26 = 1),
      idh_sopProductTypeDfp = getBits raw 25 23, idh_connectorType = getBits raw 22 21,
      idh_usbVendorId = getBits raw 15 0\<rparr>"

record ParsedProductVDO =
  prd_raw :: int
  prd_usbProductId :: int
  prd_bcdDevice :: int

definition parseProductVDO :: "int \<Rightarrow> ParsedProductVDO" where
  "parseProductVDO raw =
     \<lparr>prd_raw = raw, prd_usbProductId = getBits raw 31 16, prd_bcdDevice = getBits raw 15 0\<rparr>"

record ParsedUFPVDO =
  ufp_raw :: int
  ufp_vdoVersion :: int
  ufp_deviceCapability :: int
  ufp_vconnPower :: int
  ufp_vconnRequired :: bool
  ufp_vbusRequired :: bool
  ufp_alternateModes :: int
  ufp_usbHighestSpeed :: int

definition parseUFPVDO :: "int \<Rightarrow> ParsedUFPVDO" where
  "parseUFPVDO raw =
     \<lparr>ufp_raw = raw, ufp_vdoVersion = getBits raw 31 29, ufp_deviceCapability = getBits raw 27 24,
      ufp_vconnPower = getBits raw 10 8, ufp_vconnRequired = (getBits raw 7 7 = 1),
      ufp_vbusRequired = (getBits raw 6 6 = 0), ufp_alternateModes = getBits raw 5 3,
      ufp_usbHighestSpeed = getBits raw 2 0\<rparr>"

record ParsedDFPVDO =
  dfp_raw :: int
  dfp_vdoVersion :: int
  dfp_hostCapability :: int
  dfp_portNumber :: int

definition parseDFPVDO :: "int \<Rightarrow> ParsedDFPVDO" where
  "parseDFPVDO raw =
     \<lparr>dfp_raw = raw, dfp_vdoVersion = getBits raw 31 29, dfp_hostCapability = getBits raw 26 24,
      dfp_portNumber = getBits raw 4 0\<rparr>"

record ParsedPassiveCableVDO =
  pcv_raw :: int
  pcv_hwVersion :: int
  pcv_fwVersion :: int
  pcv_vdoVersion :: int
  pcv_plugToPlugOrCaptive :: int
  pcv_eprCapable :: bool
  pcv_cableLatency :: int
  pcv_cableTerminationType :: int
  pcv_maximumVbusVoltage :: int
  pcv_vbusCurrentHandlingCapability :: int
  pcv_usbHighestSpeed :: int

definition parsePassiveCableVDO :: "int \<Rightarrow> ParsedPassiveCableVDO" where
  "parsePassiveCableVDO raw =
     \<lparr>pcv_raw = raw, pcv_hwVersion = getBits raw 31 28, pcv_fwVersion = getBits raw 27 24,
      pcv_vdoVersion = getBits raw 23 21, pcv_plugToPlugOrCaptive = getBits raw 19 18,
      pcv_eprCapable = (getBits raw 17 17 = 1), pcv_cableLatency = getBits raw 16 13,
      pcv_cableTerminationType = getBits raw 12 11, pcv_maximumVbusVoltage = getBits raw 10 9,
      pcv_vbusCurrentHandlingCapability = getBits raw 6 5, pcv_usbHighestSpeed = getBits raw 2 0\<rparr>"

record ParsedActiveCableVDO1 =
  ac1_raw :: int
  ac1_hwVersion :: int
  ac1_fwVersion :: int
  ac1_vdoVersion :: int
  ac1_plugToPlugOrCaptive :: int
  ac1_eprCapable :: bool
  ac1_cableLatency :: int
  ac1_cableTerminationType :: int
  ac1_maximumVbusVoltage :: int
  ac1_sbuSupported :: bool
  ac1_sbuType :: bool
  ac1_vbusCurrentHandlingCapability :: int
  ac1_vbusThroughCable :: bool
  ac1_sopDoublePrimeControllerPresent :: bool
  ac1_usbHighestSpeed :: int

definition parseActiveCableVDO1 :: "int \<Rightarrow> ParsedActiveCableVDO1" where
  "parseActiveCableVDO1 raw =
     \<lparr>ac1_raw = raw, ac1_hwVersion = getBits raw 31 28, ac1_fwVersion = getBits raw 27 24,
      ac1_vdoVersion = getBits raw 23 21, ac1_plugToPlugOrCaptive = getBits raw 19 18,
      ac1_eprCapable = (getBits raw 17 17 = 1), ac1_cableLatency = getBits raw 16 13,
      ac1_cableTerminationType = getBits raw 12 11, ac1_maximumVbusVoltage = getBits raw 10 9,
      ac1_sbuSupported = (getBits raw 8 8 = 0), ac1_sbuType = (getBits raw 7 7 = 1),
      ac1_vbusCurrentHandlingCapability = getBits raw 6 5,
      ac1_vbusThroughCable = (getBits raw 4 4 = 1),
      ac1_sopDoublePrimeControllerPresent = (getBits raw 3 3 = 1),
      ac1_usbHighestSpeed = getBits raw 2 0\<rparr>"

record ParsedActiveCableVDO2 =
  ac2_raw :: int
  ac2_maximumOperatingTemperature :: int
  ac2_shutdownTemperature :: int
  ac2_u3CldPower :: int
  ac2_u3ToU0TransitionMode :: bool
  ac2_physicalConnection :: bool
  ac2_activeElement :: bool
  ac2_usb4Supported :: bool
  ac2_usb2HubHopsConsumed :: int
  ac2_usb2Supported :: bool
  ac2_usb32Supported :: bool
  ac2_usbLanesSupported :: bool
  ac2_opticallyIsolatedActiveCable :: bool
  ac2_usb4AsymmetricModeSupported :: bool
  ac2_usbGen :: bool

definition parseActiveCableVDO2 :: "int \<Rightarrow> ParsedActiveCableVDO2" where
  "parseActiveCableVDO2 raw =
     \<lparr>ac2_raw = raw, ac2_maximumOperatingTemperature = getBits raw 31 24,
      ac2_shutdownTemperature = getBits raw 23 16, ac2_u3CldPower = getBits raw 14 12,
      ac2_u3ToU0TransitionMode = (getBits raw 11 11 = 1),
      ac2_physicalConnection = (getBits raw 10 10 = 1), ac2_activeElement = (getBits raw 9 9 = 1),
      ac2_usb4Supported = (getBits raw 8 8 = 0), ac2_usb2HubHopsConsumed = getBits raw 7 6,
      ac2_usb2Supported = (getBits raw 5 5 = 0), ac2_usb32Supported = (getBits raw 4 4 = 0),
      ac2_usbLanesSupported = (getBits raw 3 3 = 1),
      ac2_opticallyIsolatedActiveCable = (getBits raw 2 2 = 1),
      ac2_usb4AsymmetricModeSupported = (getBits raw 1 1 = 1), ac2_usbGen = (getBits raw 0 0 = 1)\<rparr>"

record ParsedVPDVDO =
  vpd_raw :: int
  vpd_hwVersion :: int
  vpd_fwVersion :: int
  vpd_vdoVersion :: int
  vpd_maximumVbusVoltage :: int
  vpd_chargeThroughCurrentSupport :: bool
  vpd_vbusImpedance :: int
  vpd_groundImpedance :: int
  vpd_chargeThroughSupport :: bool

definition parseVPDVDO :: "int \<Rightarrow> ParsedVPDVDO" where
  "parseVPDVDO raw =
     \<lparr>vpd_raw = raw, vpd_hwVersion = getBits raw 31 28, vpd_fwVersion = getBits raw 27 24,
      vpd_vdoVersion = getBits raw 23 21, vpd_maximumVbusVoltage = getBits raw 16 15,
      vpd_chargeThroughCurrentSupport = (getBits raw 14 14 = 1),
      vpd_vbusImpedance = getBits raw 12 7, vpd_groundImpedance = getBits raw 6 1,
      vpd_chargeThroughSupport = (getBits raw 0 0 = 1)\<rparr>"

record ParsedSVIDsVDO =
  svv_raw :: int
  svv_svid0 :: int
  svv_svid1 :: int

definition parseSVIDsVDO :: "int \<Rightarrow> ParsedSVIDsVDO" where
  "parseSVIDsVDO raw =
     \<lparr>svv_raw = raw, svv_svid0 = getBits raw 15 0, svv_svid1 = getBits raw 31 16\<rparr>"

record ParsedModesVDO =
  mdv_raw :: int
  mdv_modeNibbles :: "int list"

definition parseModesVDO :: "int \<Rightarrow> ParsedModesVDO" where
  "parseModesVDO raw =
     \<lparr>mdv_raw = raw,
      mdv_modeNibbles = map (\<lambda>index. getBits raw (index * 4 + 3) (index * 4)) [0..5]\<rparr>"

text \<open>The payload VDOs of Enter Mode, Exit Mode and Attention keep only the raw word.\<close>

record ParsedDataObject =
  do_raw :: int

definition parseEnterModePayloadVDO :: "int \<Rightarrow> ParsedDataObject" where
  "parseEnterModePayloadVDO raw = \<lparr>do_raw = raw\<rparr>"

definition parseExitModePayloadVDO :: "int \<Rightarrow> ParsedDataObject" where
  "parseExitModePayloadVDO raw = \<lparr>do_raw = raw\<rparr>"

definition parseAttentionVDO :: "int \<Rightarrow> ParsedDataObject" where
  "parseAttentionVDO raw = \<lparr>do_raw = raw\<rparr>"

section \<open>Discover Identity (DataObjects.ts)\<close>

datatype product_type_vdo =
    PT_UFP ParsedUFPVDO
  | PT_DFP ParsedDFPVDO
  | PT_PassiveCable ParsedPassiveCableVDO
  | PT_ActiveCable1 ParsedActiveCableVDO1
  | PT_ActiveCable2 ParsedActiveCableVDO2
  | PT_VPD ParsedVPDVDO

record ParsedDiscoverIdentity =
  di_idHeader :: "ParsedIDHeaderVDO option"
  di_certStat :: "ParsedCertStatVDO option"
  di_product :: "ParsedProductVDO option"
  di_productTypeVDOs :: "product_type_vdo list"
  di_padVDOs :: "int list"
  di_rawVDOs :: "int list"

text \<open>The three arrays the loop pushes to.\<close>

definition push_productType :: "product_type_vdo \<Rightarrow> ParsedDiscoverIdentity \<Rightarrow> ParsedDiscoverIdentity" where
  "push_productType v d = d\<lparr>di_productTypeVDOs := di_productTypeVDOs d @ [v]\<rparr>"

definition push_pad :: "int \<Rightarrow> ParsedDiscoverIdentity \<Rightarrow> ParsedDiscoverIdentity" where
  "push_pad v d = d\<lparr>di_padVDOs := di_padVDOs d @ [v]\<rparr>"

definition push_raw :: "int \<Rightarrow> ParsedDiscoverIdentity \<Rightarrow> ParsedDiscoverIdentity" where
  "push_raw v d = d\<lparr>di_rawVDOs := di_rawVDOs d @ [v]\<rparr>"

text \<open>The state of the \<open>while\<close> loop: whether a UFP and a DFP VDO have been parsed, the arrays, and the
  objects from the current index on. \<open>discoverIdentity_step\<close> is the body of the loop.\<close>

record di_state =
  ds_parsedUfpVdo :: bool
  ds_parsedDfpVdo :: bool
  ds_result :: ParsedDiscoverIdentity
  ds_left :: "int list"

fun discoverIdentity_step :: "bool \<Rightarrow> int \<Rightarrow> int \<Rightarrow> di_state \<Rightarrow> di_state" where
  "discoverIdentity_step isSopPrime productType dfpType st =
     (let raw = ds_left st ! 0; d = ds_result st;
          next = st\<lparr>ds_left := drop 1 (ds_left st)\<rparr>
      in
      if raw = 0 then next\<lparr>ds_result := push_pad raw d\<rparr>
      else if isSopPrime \<and> productType = 3 then
        next\<lparr>ds_result := push_productType (PT_PassiveCable (parsePassiveCableVDO raw)) d\<rparr>
      else if isSopPrime \<and> productType = 4 then
        let d1 = push_productType (PT_ActiveCable1 (parseActiveCableVDO1 raw)) d in
        (if length (ds_left st) > 1 then
           let raw2 = ds_left st ! 1 in
           st\<lparr>ds_result := push_productType (PT_ActiveCable2 (parseActiveCableVDO2 raw2)) d1,
              ds_left := drop 2 (ds_left st)\<rparr>
         else next\<lparr>ds_result := d1\<rparr>)
      else if isSopPrime \<and> productType = 6 then
        next\<lparr>ds_result := push_productType (PT_VPD (parseVPDVDO raw)) d\<rparr>
      else if \<not> isSopPrime \<and> \<not> ds_parsedUfpVdo st \<and> (productType = 1 \<or> productType = 2) then
        next\<lparr>ds_result := push_productType (PT_UFP (parseUFPVDO raw)) d, ds_parsedUfpVdo := True\<rparr>
      else if \<not> isSopPrime \<and> \<not> ds_parsedDfpVdo st \<and> (dfpType = 1 \<or> dfpType = 2 \<or> dfpType = 3) then
        next\<lparr>ds_result := push_productType (PT_DFP (parseDFPVDO raw)) d, ds_parsedDfpVdo := True\<rparr>
      else next\<lparr>ds_result := push_raw raw d\<rparr>)"

declare discoverIdentity_step.simps [simp del]

lemma discoverIdentity_step_left:
  "ds_left st \<noteq> [] \<Longrightarrow> length (ds_left (discoverIdentity_step s p t st)) < length (ds_left st)"
  by (simp add: discoverIdentity_step.simps Let_def)

function discoverIdentity_loop :: "bool \<Rightarrow> int \<Rightarrow> int \<Rightarrow> di_state \<Rightarrow> ParsedDiscoverIdentity" where
  "discoverIdentity_loop isSopPrime productType dfpType st =
     (if ds_left st = [] then ds_result st
      else discoverIdentity_loop isSopPrime productType dfpType
        (discoverIdentity_step isSopPrime productType dfpType st))"
  by pat_completeness auto

termination
  by (relation "measure (\<lambda>(s, p, t, st). length (ds_left st))")
    (auto intro: discoverIdentity_step_left)

declare discoverIdentity_loop.simps [simp del]

text \<open>What every step keeps holds of the result.\<close>

lemma discoverIdentity_loop_invariant:
  assumes "\<And>st. ds_left st \<noteq> [] \<Longrightarrow> Q st \<Longrightarrow> Q (discoverIdentity_step s p t st)" "Q st"
  shows "\<exists>st'. Q st' \<and> ds_left st' = [] \<and> discoverIdentity_loop s p t st = ds_result st'"
  using assms
proof (induction s p t st rule: discoverIdentity_loop.induct)
  case (1 s p t st)
  then show ?case
    by (cases "ds_left st = []") (auto simp: discoverIdentity_loop.simps[of s p t st])
qed

definition parseDiscoverIdentityVDOs :: "int list \<Rightarrow> SOPKind \<Rightarrow> ParsedDiscoverIdentity" where
  "parseDiscoverIdentityVDOs vdos kind =
     (let idHeader = (if length vdos \<ge> 1 then Some (parseIDHeaderVDO (vdos ! 0)) else None);
          certStat = (if length vdos \<ge> 2 then Some (parseCertStatVDO (vdos ! 1)) else None);
          product = (if length vdos \<ge> 3 then Some (parseProductVDO (vdos ! 2)) else None);
          remaining = drop 3 vdos;
          isSopPrime = (kind = K_SOP_PRIME \<or> kind = K_SOP_DOUBLE_PRIME);
          productType = (case idHeader of Some h \<Rightarrow> idh_sopProductTypeUfpOrCable h | None \<Rightarrow> 0);
          dfpType = (case idHeader of Some h \<Rightarrow> idh_sopProductTypeDfp h | None \<Rightarrow> 0)
      in discoverIdentity_loop isSopPrime productType dfpType
           \<lparr>ds_parsedUfpVdo = False, ds_parsedDfpVdo = False,
            ds_result = \<lparr>di_idHeader = idHeader, di_certStat = certStat, di_product = product,
              di_productTypeVDOs = [], di_padVDOs = [], di_rawVDOs = []\<rparr>,
            ds_left = remaining\<rparr>)"

section \<open>Encoders and recomposition\<close>

definition IDHeaderVDO_word :: "int \<Rightarrow> ParsedIDHeaderVDO \<Rightarrow> int" where
  "IDHeaderVDO_word rsv x =
     pack [(16, idh_usbVendorId x), (5, bits_of rsv 16 5), (2, idh_connectorType x),
           (3, idh_sopProductTypeDfp x), (1, of_bool (idh_modalOperationSupported x)),
           (3, idh_sopProductTypeUfpOrCable x), (1, of_bool (idh_usbDeviceCapable x)),
           (1, of_bool (idh_usbHostCapable x))]"

lemma IDHeaderVDO_recompose [recompose]:
  "IDHeaderVDO_word raw (parseIDHeaderVDO raw) = raw mod 2 ^ 32"
  using pack_slices[of "[16, 5, 2, 3, 1, 3, 1, 1]" raw]
  by (simp add: IDHeaderVDO_word_def parseIDHeaderVDO_def bit_fields)

definition productVDO_word :: "int \<Rightarrow> ParsedProductVDO \<Rightarrow> int" where
  "productVDO_word rsv x =
     pack [(16, prd_bcdDevice x), (16, prd_usbProductId x)]"

lemma productVDO_recompose [recompose]:
  "productVDO_word raw (parseProductVDO raw) = raw mod 2 ^ 32"
  using pack_slices[of "[16, 16]" raw]
  by (simp add: productVDO_word_def parseProductVDO_def bit_fields)

definition UFPVDO_word :: "int \<Rightarrow> ParsedUFPVDO \<Rightarrow> int" where
  "UFPVDO_word rsv x =
     pack [(3, ufp_usbHighestSpeed x), (3, ufp_alternateModes x),
           (1, of_bool (\<not> ufp_vbusRequired x)), (1, of_bool (ufp_vconnRequired x)),
           (3, ufp_vconnPower x), (13, bits_of rsv 11 13), (4, ufp_deviceCapability x),
           (1, bits_of rsv 28 1), (3, ufp_vdoVersion x)]"

lemma UFPVDO_recompose [recompose]:
  "UFPVDO_word raw (parseUFPVDO raw) = raw mod 2 ^ 32"
  using pack_slices[of "[3, 3, 1, 1, 3, 13, 4, 1, 3]" raw]
  by (simp add: UFPVDO_word_def parseUFPVDO_def bit_fields)

definition DFPVDO_word :: "int \<Rightarrow> ParsedDFPVDO \<Rightarrow> int" where
  "DFPVDO_word rsv x =
     pack [(5, dfp_portNumber x), (19, bits_of rsv 5 19), (3, dfp_hostCapability x),
           (2, bits_of rsv 27 2), (3, dfp_vdoVersion x)]"

lemma DFPVDO_recompose [recompose]:
  "DFPVDO_word raw (parseDFPVDO raw) = raw mod 2 ^ 32"
  using pack_slices[of "[5, 19, 3, 2, 3]" raw]
  by (simp add: DFPVDO_word_def parseDFPVDO_def bit_fields)

definition passiveCableVDO_word :: "int \<Rightarrow> ParsedPassiveCableVDO \<Rightarrow> int" where
  "passiveCableVDO_word rsv x =
     pack [(3, pcv_usbHighestSpeed x), (2, bits_of rsv 3 2),
           (2, pcv_vbusCurrentHandlingCapability x), (2, bits_of rsv 7 2),
           (2, pcv_maximumVbusVoltage x), (2, pcv_cableTerminationType x),
           (4, pcv_cableLatency x), (1, of_bool (pcv_eprCapable x)),
           (2, pcv_plugToPlugOrCaptive x), (1, bits_of rsv 20 1), (3, pcv_vdoVersion x),
           (4, pcv_fwVersion x), (4, pcv_hwVersion x)]"

lemma passiveCableVDO_recompose [recompose]:
  "passiveCableVDO_word raw (parsePassiveCableVDO raw) = raw mod 2 ^ 32"
  using pack_slices[of "[3, 2, 2, 2, 2, 2, 4, 1, 2, 1, 3, 4, 4]" raw]
  by (simp add: passiveCableVDO_word_def parsePassiveCableVDO_def bit_fields)

definition activeCableVDO1_word :: "int \<Rightarrow> ParsedActiveCableVDO1 \<Rightarrow> int" where
  "activeCableVDO1_word rsv x =
     pack [(3, ac1_usbHighestSpeed x), (1, of_bool (ac1_sopDoublePrimeControllerPresent x)),
           (1, of_bool (ac1_vbusThroughCable x)), (2, ac1_vbusCurrentHandlingCapability x),
           (1, of_bool (ac1_sbuType x)), (1, of_bool (\<not> ac1_sbuSupported x)),
           (2, ac1_maximumVbusVoltage x), (2, ac1_cableTerminationType x),
           (4, ac1_cableLatency x), (1, of_bool (ac1_eprCapable x)),
           (2, ac1_plugToPlugOrCaptive x), (1, bits_of rsv 20 1), (3, ac1_vdoVersion x),
           (4, ac1_fwVersion x), (4, ac1_hwVersion x)]"

lemma activeCableVDO1_recompose [recompose]:
  "activeCableVDO1_word raw (parseActiveCableVDO1 raw) = raw mod 2 ^ 32"
  using pack_slices[of "[3, 1, 1, 2, 1, 1, 2, 2, 4, 1, 2, 1, 3, 4, 4]" raw]
  by (simp add: activeCableVDO1_word_def parseActiveCableVDO1_def bit_fields)

definition activeCableVDO2_word :: "int \<Rightarrow> ParsedActiveCableVDO2 \<Rightarrow> int" where
  "activeCableVDO2_word rsv x =
     pack [(1, of_bool (ac2_usbGen x)), (1, of_bool (ac2_usb4AsymmetricModeSupported x)),
           (1, of_bool (ac2_opticallyIsolatedActiveCable x)),
           (1, of_bool (ac2_usbLanesSupported x)), (1, of_bool (\<not> ac2_usb32Supported x)),
           (1, of_bool (\<not> ac2_usb2Supported x)), (2, ac2_usb2HubHopsConsumed x),
           (1, of_bool (\<not> ac2_usb4Supported x)), (1, of_bool (ac2_activeElement x)),
           (1, of_bool (ac2_physicalConnection x)), (1, of_bool (ac2_u3ToU0TransitionMode x)),
           (3, ac2_u3CldPower x), (1, bits_of rsv 15 1), (8, ac2_shutdownTemperature x),
           (8, ac2_maximumOperatingTemperature x)]"

lemma activeCableVDO2_recompose [recompose]:
  "activeCableVDO2_word raw (parseActiveCableVDO2 raw) = raw mod 2 ^ 32"
  using pack_slices[of "[1, 1, 1, 1, 1, 1, 2, 1, 1, 1, 1, 3, 1, 8, 8]" raw]
  by (simp add: activeCableVDO2_word_def parseActiveCableVDO2_def bit_fields eval_nat_numeral)

definition VPDVDO_word :: "int \<Rightarrow> ParsedVPDVDO \<Rightarrow> int" where
  "VPDVDO_word rsv x =
     pack [(1, of_bool (vpd_chargeThroughSupport x)), (6, vpd_groundImpedance x),
           (6, vpd_vbusImpedance x), (1, bits_of rsv 13 1),
           (1, of_bool (vpd_chargeThroughCurrentSupport x)), (2, vpd_maximumVbusVoltage x),
           (4, bits_of rsv 17 4), (3, vpd_vdoVersion x), (4, vpd_fwVersion x),
           (4, vpd_hwVersion x)]"

lemma VPDVDO_recompose [recompose]:
  "VPDVDO_word raw (parseVPDVDO raw) = raw mod 2 ^ 32"
  using pack_slices[of "[1, 6, 6, 1, 1, 2, 4, 3, 4, 4]" raw]
  by (simp add: VPDVDO_word_def parseVPDVDO_def bit_fields)

definition SVIDsVDO_word :: "int \<Rightarrow> ParsedSVIDsVDO \<Rightarrow> int" where
  "SVIDsVDO_word rsv x =
     pack [(16, svv_svid0 x), (16, svv_svid1 x)]"

lemma SVIDsVDO_recompose [recompose]:
  "SVIDsVDO_word raw (parseSVIDsVDO raw) = raw mod 2 ^ 32"
  using pack_slices[of "[16, 16]" raw]
  by (simp add: SVIDsVDO_word_def parseSVIDsVDO_def bit_fields)

definition vDMHeader_word :: "int \<Rightarrow> ParsedVDMHeader \<Rightarrow> int" where
  "vDMHeader_word rsv h =
     (case vh_vendorPayload h of
        Some p \<Rightarrow> pack [(15, p), (1, 0), (16, vh_svid h)]
      | None \<Rightarrow>
          pack [(5, the (vh_command h)), (1, bits_of rsv 5 1), (2, the (vh_commandType h)),
                (3, the (vh_objectPosition h)), (2, the (vh_structuredVersionMinor h)),
                (2, the (vh_structuredVersionMajor h)), (1, 1), (16, vh_svid h)])"

text \<open>A VDM header is read without loss in both of its forms, and the form is decided by bit 15
  alone: an unstructured header has exactly a vendor payload, a structured one has the version,
  position, command and command type, with a command name for each defined command.\<close>

lemma parseVDMHeader_recompose:
  "vDMHeader_word raw (parseVDMHeader raw) = raw mod 2 ^ 32 \<and>
   (vh_vdmType (parseVDMHeader raw) = STRUCTURED) = (bits_of raw 15 1 = 1) \<and>
   (vh_vendorPayload (parseVDMHeader raw) = None) = (vh_vdmType (parseVDMHeader raw) = STRUCTURED) \<and>
   (vh_command (parseVDMHeader raw) \<noteq> None) = (vh_vdmType (parseVDMHeader raw) = STRUCTURED) \<and>
   (vh_commandName (parseVDMHeader raw) \<noteq> None) =
     (bits_of raw 15 1 = 1 \<and> bits_of raw 0 5 \<in> {1..6} \<union> {16..31})"
proof -
  note b = bits_of_1_cases[of raw 15]
  have c: "bits_of raw 0 5 \<in> {1..6} \<union> {16..31} \<longleftrightarrow>
      bits_of raw 0 5 = 1 \<or> bits_of raw 0 5 = 2 \<or> bits_of raw 0 5 = 3 \<or> bits_of raw 0 5 = 4 \<or>
      bits_of raw 0 5 = 5 \<or> bits_of raw 0 5 = 6 \<or> 16 \<le> bits_of raw 0 5"
    by auto
  have w: "vDMHeader_word raw (parseVDMHeader raw) = raw mod 2 ^ 32"
    using b pack_slices[of "[15, 1, 16]" raw] pack_slices[of "[5, 1, 2, 3, 2, 2, 1, 16]" raw]
    by (elim disjE) (simp_all add: parseVDMHeader_def vDMHeader_word_def Let_def bit_fields)
  then show ?thesis
    unfolding c using b by (elim disjE) (simp_all add: parseVDMHeader_def Let_def bit_fields)
qed

text \<open>The VDO parsers lose no bit: for each kind of identity, product-type and SVID object the
  decoded fields, laid out with the reserved bits of the word, give the word back; inverted flags
  (SBU and USB support, Vbus requirement) included.\<close>

lemma vdos_recompose:
  "IDHeaderVDO_word raw (parseIDHeaderVDO raw) = raw mod 2 ^ 32 \<and>
   cst_xid (parseCertStatVDO raw) = raw mod 2 ^ 32 \<and>
   productVDO_word raw (parseProductVDO raw) = raw mod 2 ^ 32 \<and>
   UFPVDO_word raw (parseUFPVDO raw) = raw mod 2 ^ 32 \<and>
   DFPVDO_word raw (parseDFPVDO raw) = raw mod 2 ^ 32 \<and>
   passiveCableVDO_word raw (parsePassiveCableVDO raw) = raw mod 2 ^ 32 \<and>
   activeCableVDO1_word raw (parseActiveCableVDO1 raw) = raw mod 2 ^ 32 \<and>
   activeCableVDO2_word raw (parseActiveCableVDO2 raw) = raw mod 2 ^ 32 \<and>
   VPDVDO_word raw (parseVPDVDO raw) = raw mod 2 ^ 32 \<and>
   SVIDsVDO_word raw (parseSVIDsVDO raw) = raw mod 2 ^ 32"
proof -
  have "cst_xid (parseCertStatVDO raw) = raw mod 2 ^ 32"
    by (simp add: parseCertStatVDO_def js_ushr_def to_uint32_def take_bit_eq_mod)
  then show ?thesis
    by (simp only: recompose simp_thms)
qed

section \<open>Discover Identity keeps every object\<close>

fun product_vdo_raw :: "product_type_vdo \<Rightarrow> int" where
  "product_vdo_raw (PT_UFP v) = ufp_raw v"
| "product_vdo_raw (PT_DFP v) = dfp_raw v"
| "product_vdo_raw (PT_PassiveCable v) = pcv_raw v"
| "product_vdo_raw (PT_ActiveCable1 v) = ac1_raw v"
| "product_vdo_raw (PT_ActiveCable2 v) = ac2_raw v"
| "product_vdo_raw (PT_VPD v) = vpd_raw v"

fun is_UFP :: "product_type_vdo \<Rightarrow> bool" where
  "is_UFP (PT_UFP _) = True"
| "is_UFP _ = False"

fun is_DFP :: "product_type_vdo \<Rightarrow> bool" where
  "is_DFP (PT_DFP _) = True"
| "is_DFP _ = False"

definition di_words :: "ParsedDiscoverIdentity \<Rightarrow> int multiset" where
  "di_words d =
     mset (map product_vdo_raw (di_productTypeVDOs d)) + mset (di_padVDOs d) + mset (di_rawVDOs d)"

text \<open>The invariant of the loop, for a response \<open>vdos\<close> read at a packet of one kind.\<close>

definition di_invariant ::
  "bool \<Rightarrow> ParsedDiscoverIdentity \<Rightarrow> int multiset \<Rightarrow> di_state \<Rightarrow> bool" where
  "di_invariant isSopPrime start words st \<longleftrightarrow>
     (let d = ds_result st in
      di_words d + mset (ds_left st) = words \<and>
      di_idHeader d = di_idHeader start \<and> di_certStat d = di_certStat start \<and>
      di_product d = di_product start \<and>
      set (di_padVDOs d) \<subseteq> {0} \<and> 0 \<notin> set (di_rawVDOs d) \<and>
      (if isSopPrime then filter (\<lambda>v. is_UFP v \<or> is_DFP v) (di_productTypeVDOs d) = []
       else filter (\<lambda>v. \<not> is_UFP v \<and> \<not> is_DFP v) (di_productTypeVDOs d) = []) \<and>
      length (filter is_UFP (di_productTypeVDOs d)) \<le> of_bool (ds_parsedUfpVdo st) \<and>
      length (filter is_DFP (di_productTypeVDOs d)) \<le> of_bool (ds_parsedDfpVdo st))"

lemmas di_push = push_productType_def push_pad_def push_raw_def

lemmas vdo_parsers = parseUFPVDO_def parseDFPVDO_def parsePassiveCableVDO_def
  parseActiveCableVDO1_def parseActiveCableVDO2_def parseVPDVDO_def

lemma product_vdo_raw_parsers [simp]:
  "ufp_raw (parseUFPVDO raw) = raw" "dfp_raw (parseDFPVDO raw) = raw"
  "pcv_raw (parsePassiveCableVDO raw) = raw" "ac1_raw (parseActiveCableVDO1 raw) = raw"
  "ac2_raw (parseActiveCableVDO2 raw) = raw" "vpd_raw (parseVPDVDO raw) = raw"
  by (simp_all add: vdo_parsers)

lemma di_invariant_pad:
  "di_invariant s start words st \<Longrightarrow> ds_left st = raw # rest \<Longrightarrow> raw = 0 \<Longrightarrow>
   di_invariant s start words (st\<lparr>ds_left := rest, ds_result := push_pad raw (ds_result st)\<rparr>)"
  by (simp add: di_invariant_def di_words_def di_push Let_def)

lemma di_invariant_raw:
  "di_invariant s start words st \<Longrightarrow> ds_left st = raw # rest \<Longrightarrow> raw \<noteq> 0 \<Longrightarrow>
   di_invariant s start words (st\<lparr>ds_left := rest, ds_result := push_raw raw (ds_result st)\<rparr>)"
  by (simp add: di_invariant_def di_words_def di_push Let_def)

lemma di_invariant_cable:
  "di_invariant True start words st \<Longrightarrow> ds_left st = product_vdo_raw v # rest \<Longrightarrow>
   \<not> is_UFP v \<Longrightarrow> \<not> is_DFP v \<Longrightarrow>
   di_invariant True start words (st\<lparr>ds_left := rest, ds_result := push_productType v (ds_result st)\<rparr>)"
  by (simp add: di_invariant_def di_words_def di_push Let_def)

lemma di_invariant_UFP:
  "di_invariant False start words st \<Longrightarrow> ds_left st = ufp_raw v # rest \<Longrightarrow> \<not> ds_parsedUfpVdo st \<Longrightarrow>
   di_invariant False start words (st\<lparr>ds_left := rest,
     ds_result := push_productType (PT_UFP v) (ds_result st), ds_parsedUfpVdo := True\<rparr>)"
  by (simp add: di_invariant_def di_words_def di_push Let_def)

lemma di_invariant_DFP:
  "di_invariant False start words st \<Longrightarrow> ds_left st = dfp_raw v # rest \<Longrightarrow> \<not> ds_parsedDfpVdo st \<Longrightarrow>
   di_invariant False start words (st\<lparr>ds_left := rest,
     ds_result := push_productType (PT_DFP v) (ds_result st), ds_parsedDfpVdo := True\<rparr>)"
  by (simp add: di_invariant_def di_words_def di_push Let_def)

lemma di_invariant_cable2:
  assumes "di_invariant True start words st" "ds_left st = product_vdo_raw v # product_vdo_raw v2 # rest"
    "\<not> is_UFP v" "\<not> is_DFP v" "\<not> is_UFP v2" "\<not> is_DFP v2"
  shows "di_invariant True start words
    (st\<lparr>ds_result := push_productType v2 (push_productType v (ds_result st)), ds_left := rest\<rparr>)"
  using di_invariant_cable [OF di_invariant_cable [OF assms(1,2,3,4)], of v2 rest] assms(5,6)
  by (cases st) simp

lemma discoverIdentity_step_invariant:
  assumes "ds_left st \<noteq> []" "di_invariant s start words st"
  shows "di_invariant s start words (discoverIdentity_step s p t st)"
proof -
  obtain raw rest where left: "ds_left st = raw # rest"
    using assms(1) by (cases "ds_left st") auto
  show ?thesis
  proof (cases s)
    case False
    then show ?thesis
      using assms(2) left
      by (simp add: discoverIdentity_step.simps Let_def di_invariant_pad di_invariant_raw
          di_invariant_UFP di_invariant_DFP)
  next
    case True
    then show ?thesis
      using assms(2) left
      by (cases rest) (simp_all add: discoverIdentity_step.simps Let_def di_invariant_pad
          di_invariant_raw di_invariant_cable di_invariant_cable2)
  qed
qed

text \<open>Parsing a Discover Identity response neither loses nor invents an object. The first three
  words become the identity triple; every later word is kept exactly once, as a product-type VDO
  with that raw value, as padding, or as an unrecognised word. Only zero words count as padding
  and no zero word as unrecognised; a port response has at most one UFP and one DFP VDO and no
  cable VDO, a cable response no port VDO.\<close>

lemma parseDiscoverIdentity_conserves:
  "let d = parseDiscoverIdentityVDOs vdos kind; cable = kind \<in> {K_SOP_PRIME, K_SOP_DOUBLE_PRIME} in
     di_words d = mset (drop 3 vdos) \<and>
     take 3 vdos =
       map idh_raw (case di_idHeader d of None \<Rightarrow> [] | Some h \<Rightarrow> [h]) @
       map cst_raw (case di_certStat d of None \<Rightarrow> [] | Some h \<Rightarrow> [h]) @
       map prd_raw (case di_product d of None \<Rightarrow> [] | Some h \<Rightarrow> [h]) \<and>
     set (di_padVDOs d) \<subseteq> {0} \<and> 0 \<notin> set (di_rawVDOs d) \<and>
     filter (\<lambda>v. (is_UFP v \<or> is_DFP v) = cable) (di_productTypeVDOs d) = [] \<and>
     length (filter is_UFP (di_productTypeVDOs d)) \<le> 1 \<and>
     length (filter is_DFP (di_productTypeVDOs d)) \<le> 1"
proof -
  define cable where "cable = (kind = K_SOP_PRIME \<or> kind = K_SOP_DOUBLE_PRIME)"
  define start where "start = \<lparr>
      di_idHeader = (if length vdos \<ge> 1 then Some (parseIDHeaderVDO (vdos ! 0)) else None),
      di_certStat = (if length vdos \<ge> 2 then Some (parseCertStatVDO (vdos ! 1)) else None),
      di_product = (if length vdos \<ge> 3 then Some (parseProductVDO (vdos ! 2)) else None),
      di_productTypeVDOs = [], di_padVDOs = [], di_rawVDOs = []\<rparr>"
  define p where "p = (case di_idHeader start of Some h \<Rightarrow> idh_sopProductTypeUfpOrCable h | None \<Rightarrow> 0)"
  define t where "t = (case di_idHeader start of Some h \<Rightarrow> idh_sopProductTypeDfp h | None \<Rightarrow> 0)"
  define st where "st = \<lparr>ds_parsedUfpVdo = False, ds_parsedDfpVdo = False, ds_result = start,
      ds_left = drop 3 vdos\<rparr>"
  have d: "parseDiscoverIdentityVDOs vdos kind = discoverIdentity_loop cable p t st"
    by (simp add: parseDiscoverIdentityVDOs_def Let_def cable_def p_def t_def st_def start_def)
  have "di_invariant cable start (mset (drop 3 vdos)) st"
    by (simp add: di_invariant_def st_def start_def di_words_def Let_def)
  then obtain st' where inv: "di_invariant cable start (mset (drop 3 vdos)) st'" "ds_left st' = []"
    and res: "parseDiscoverIdentityVDOs vdos kind = ds_result st'"
    using discoverIdentity_loop_invariant[of "di_invariant cable start (mset (drop 3 vdos))" cable p t st]
      discoverIdentity_step_invariant d by metis
  have le: "n \<le> of_bool b \<Longrightarrow> n \<le> Suc 0" for n b
    by (cases b) auto
  have three: "take 3 vdos =
       map idh_raw (case di_idHeader start of None \<Rightarrow> [] | Some h \<Rightarrow> [h]) @
       map cst_raw (case di_certStat start of None \<Rightarrow> [] | Some h \<Rightarrow> [h]) @
       map prd_raw (case di_product start of None \<Rightarrow> [] | Some h \<Rightarrow> [h])"
    by (cases vdos rule: list.exhaust; cases "tl vdos" rule: list.exhaust; cases "tl (tl vdos)")
      (auto simp: start_def parseIDHeaderVDO_def parseCertStatVDO_def parseProductVDO_def)
  show ?thesis
    using inv three le
    by (cases cable) (auto simp: Let_def res di_invariant_def cable_def)
qed

end
