(* ===== verification/Data_Blocks.thy ===== *)
theory Data_Blocks
  imports Power_Objects
begin

text \<open>
  Data blocks of the extended messages, from \<open>usb-pd/DataObjects.ts\<close>: one record and one parser per
  block, and the string readers they use. A parser that reads 16 or 32 bit words returns the
  reader's error when the block is too short; single bytes past the end read as zero
  (\<open>data[i] ?? 0\<close>).
\<close>

section \<open>String readers (DataObjects.ts)\<close>

text \<open>\<open>String.fromCharCode\<close> of \<open>undefined\<close>, for a read past the end, is the character zero.\<close>

fun readNullTerminatedString_loop :: "bytes \<Rightarrow> nat \<Rightarrow> nat \<Rightarrow> nat \<Rightarrow> string" where
  "readNullTerminatedString_loop payload offset i 0 = []"
| "readNullTerminatedString_loop payload offset i (Suc left) =
     (case byte_opt payload (offset + i) of
        None \<Rightarrow> char_code 0 # readNullTerminatedString_loop payload offset (i + 1) left
      | Some v \<Rightarrow>
          if v = 0 then []
          else char_code v # readNullTerminatedString_loop payload offset (i + 1) left)"

definition readNullTerminatedString :: "bytes \<Rightarrow> nat \<Rightarrow> nat \<Rightarrow> string" where
  "readNullTerminatedString payload offset len = readNullTerminatedString_loop payload offset 0 len"

fun readAsciiPreview_loop :: "bytes \<Rightarrow> nat \<Rightarrow> nat \<Rightarrow> nat \<Rightarrow> string" where
  "readAsciiPreview_loop payload offset i 0 = []"
| "readAsciiPreview_loop payload offset i (Suc left) =
     (case byte_opt payload (offset + i) of
        None \<Rightarrow> CHR ''.''
      | Some v \<Rightarrow> if v \<ge> 0x20 \<and> v \<le> 0x7e then char_code v else CHR ''.'')
     # readAsciiPreview_loop payload offset (i + 1) left"

definition readAsciiPreview :: "bytes \<Rightarrow> nat \<Rightarrow> nat \<Rightarrow> string" where
  "readAsciiPreview payload offset len = readAsciiPreview_loop payload offset 0 len"

definition readUint16LENullable :: "bytes \<Rightarrow> nat \<Rightarrow> int option" where
  "readUint16LENullable payload offset =
     (if offset + 1 \<ge> length payload then None
      else case readUint16LE payload offset of Inl e \<Rightarrow> None | Inr v \<Rightarrow> Some v)"

section \<open>Data blocks (DataObjects.ts)\<close>

record ParsedSourceCapabilitiesExtendedDataBlock =
  sce_vid :: int
  sce_pid :: int
  sce_xid :: int
  sce_fwVersion :: int
  sce_hwVersion :: int
  sce_voltageRegulation :: int
  sce_holdupTimeMs :: int
  sce_compliance :: int
  sce_touchCurrent :: int
  sce_peakCurrent1 :: int
  sce_peakCurrent2 :: int
  sce_peakCurrent3 :: int
  sce_touchTemp :: int
  sce_sourceInputs :: int
  sce_hotSwappableBatterySlots :: int
  sce_fixedBatteries :: int
  sce_sprSourcePdpRating :: int
  sce_eprSourcePdpRating :: "int option"
  sce_legacy24ByteBlock :: bool

definition parseSourceCapabilitiesExtendedDataBlock :: "bytes \<Rightarrow> usbpd_error + ParsedSourceCapabilitiesExtendedDataBlock" where
  "parseSourceCapabilitiesExtendedDataBlock data =
     res_bind (readUint16LE data 0) (\<lambda>vid.
     res_bind (readUint16LE data 2) (\<lambda>pid.
     res_bind (readUint32LE data 4) (\<lambda>xid.
     res_bind (readUint16LE data 14) (\<lambda>peakCurrent1.
     res_bind (readUint16LE data 16) (\<lambda>peakCurrent2.
     res_bind (readUint16LE data 18) (\<lambda>peakCurrent3.
     Inr \<lparr>sce_vid = vid, sce_pid = pid, sce_xid = xid, sce_fwVersion = byte_at data 8,
           sce_hwVersion = byte_at data 9, sce_voltageRegulation = byte_at data 10,
           sce_holdupTimeMs = byte_at data 11, sce_compliance = byte_at data 12,
           sce_touchCurrent = byte_at data 13, sce_peakCurrent1 = peakCurrent1,
           sce_peakCurrent2 = peakCurrent2, sce_peakCurrent3 = peakCurrent3,
           sce_touchTemp = byte_at data 20, sce_sourceInputs = byte_at data 21,
           sce_hotSwappableBatterySlots = js_sar (byte_at data 22) 4,
           sce_fixedBatteries = js_and (byte_at data 22) 0x0f,
           sce_sprSourcePdpRating = js_and (byte_at data 23) 0x7f,
           sce_eprSourcePdpRating = (if length data \<ge> 25 then Some (byte_at data 24) else None),
           sce_legacy24ByteBlock = (length data = 24)\<rparr>))))))"

record ParsedSOPStatusDataBlock =
  sst_internalTemp :: int
  sst_presentInput :: int
  sst_presentBatteryInput :: int
  sst_eventFlags :: int
  sst_temperatureStatus :: int
  sst_powerStatus :: int
  sst_powerStateChange :: "int option"
  sst_sixByteBlock :: bool

definition parseSOPStatusDataBlock :: "bytes \<Rightarrow> ParsedSOPStatusDataBlock" where
  "parseSOPStatusDataBlock data =
     \<lparr>sst_internalTemp = byte_at data 0, sst_presentInput = byte_at data 1,
      sst_presentBatteryInput = byte_at data 2, sst_eventFlags = byte_at data 3,
      sst_temperatureStatus = byte_at data 4, sst_powerStatus = byte_at data 5,
      sst_powerStateChange = (if length data \<ge> 7 then Some (byte_at data 6) else None),
      sst_sixByteBlock = (length data = 6)\<rparr>"

record ParsedSOPPrimeStatusDataBlock =
  spst_internalTemp :: int
  spst_flags :: int

definition parseSOPPrimeStatusDataBlock :: "bytes \<Rightarrow> ParsedSOPPrimeStatusDataBlock" where
  "parseSOPPrimeStatusDataBlock data =
     \<lparr>spst_internalTemp = byte_at data 0, spst_flags = byte_at data 1\<rparr>"

record ParsedBatteryCapabilitiesDataBlock =
  bcap_vid :: int
  bcap_pid :: int
  bcap_batteryDesignCapacity :: int
  bcap_batteryLastFullChargeCapacity :: int
  bcap_batteryType :: int

definition parseBatteryCapabilitiesDataBlock :: "bytes \<Rightarrow> usbpd_error + ParsedBatteryCapabilitiesDataBlock" where
  "parseBatteryCapabilitiesDataBlock data =
     res_bind (readUint16LE data 0) (\<lambda>vid.
     res_bind (readUint16LE data 2) (\<lambda>pid.
     res_bind (readUint16LE data 4) (\<lambda>batteryDesignCapacity.
     res_bind (readUint16LE data 6) (\<lambda>batteryLastFullChargeCapacity.
     Inr \<lparr>bcap_vid = vid, bcap_pid = pid, bcap_batteryDesignCapacity = batteryDesignCapacity,
           bcap_batteryLastFullChargeCapacity = batteryLastFullChargeCapacity,
           bcap_batteryType = byte_at data 8\<rparr>))))"

record ParsedPPSStatusDataBlock =
  ppst_outputVoltage20mV :: int
  ppst_outputVoltageSupported :: bool
  ppst_outputCurrent50mA :: int
  ppst_outputCurrentSupported :: bool
  ppst_realTimeFlags :: int

definition parsePPSStatusDataBlock :: "bytes \<Rightarrow> usbpd_error + ParsedPPSStatusDataBlock" where
  "parsePPSStatusDataBlock data =
     res_bind (readUint16LE data 0) (\<lambda>outputVoltage20mV.
     let outputCurrent50mA = byte_at data 2 in
     Inr \<lparr>ppst_outputVoltage20mV = outputVoltage20mV,
           ppst_outputVoltageSupported = (outputVoltage20mV \<noteq> 0xffff),
           ppst_outputCurrent50mA = outputCurrent50mA,
           ppst_outputCurrentSupported = (outputCurrent50mA \<noteq> 0xff),
           ppst_realTimeFlags = byte_at data 3\<rparr>)"

record ParsedSinkCapabilitiesExtendedDataBlock =
  ske_vid :: int
  ske_pid :: int
  ske_xid :: int
  ske_fwVersion :: int
  ske_hwVersion :: int
  ske_skedbVersion :: int
  ske_loadStep :: int
  ske_sinkLoadCharacteristics :: int
  ske_compliance :: int
  ske_touchTemp :: int
  ske_hotSwappableBatterySlots :: int
  ske_fixedBatteries :: int
  ske_sinkModes :: int
  ske_sprSinkMinimumPdp :: int
  ske_sprSinkOperationalPdp :: int
  ske_sprSinkMaximumPdp :: int
  ske_eprSinkMinimumPdp :: "int option"
  ske_eprSinkOperationalPdp :: "int option"
  ske_eprSinkMaximumPdp :: "int option"
  ske_legacy21ByteBlock :: bool

definition parseSinkCapabilitiesExtendedDataBlock :: "bytes \<Rightarrow> usbpd_error + ParsedSinkCapabilitiesExtendedDataBlock" where
  "parseSinkCapabilitiesExtendedDataBlock data =
     res_bind (readUint16LE data 0) (\<lambda>vid.
     res_bind (readUint16LE data 2) (\<lambda>pid.
     res_bind (readUint32LE data 4) (\<lambda>xid.
     res_bind (readUint16LE data 12) (\<lambda>sinkLoadCharacteristics.
     Inr \<lparr>ske_vid = vid, ske_pid = pid, ske_xid = xid, ske_fwVersion = byte_at data 8,
           ske_hwVersion = byte_at data 9, ske_skedbVersion = byte_at data 10,
           ske_loadStep = byte_at data 11, ske_sinkLoadCharacteristics = sinkLoadCharacteristics,
           ske_compliance = byte_at data 14, ske_touchTemp = byte_at data 15,
           ske_hotSwappableBatterySlots = js_sar (byte_at data 16) 4,
           ske_fixedBatteries = js_and (byte_at data 16) 0x0f, ske_sinkModes = byte_at data 17,
           ske_sprSinkMinimumPdp = byte_at data 18, ske_sprSinkOperationalPdp = byte_at data 19,
           ske_sprSinkMaximumPdp = byte_at data 20,
           ske_eprSinkMinimumPdp = (if length data \<ge> 22 then Some (byte_at data 21) else None),
           ske_eprSinkOperationalPdp = (if length data \<ge> 23 then Some (byte_at data 22) else None),
           ske_eprSinkMaximumPdp = (if length data \<ge> 24 then Some (byte_at data 23) else None),
           ske_legacy21ByteBlock = (length data = 21)\<rparr>))))"

record ParsedExtendedControlDataBlock =
  ectl_type :: int
  ectl_dataByte :: int

definition parseExtendedControlDataBlock :: "bytes \<Rightarrow> ParsedExtendedControlDataBlock" where
  "parseExtendedControlDataBlock data =
     \<lparr>ectl_type = byte_at data 0, ectl_dataByte = byte_at data 1\<rparr>"

record ParsedManufacturerInfoDataBlock =
  mi_vid :: int
  mi_pid :: int
  mi_manufacturerString :: string
  mi_manufacturerStringBytes :: bytes

definition parseManufacturerInfoDataBlock :: "bytes \<Rightarrow> usbpd_error + ParsedManufacturerInfoDataBlock" where
  "parseManufacturerInfoDataBlock data =
     res_bind (readUint16LE data 0) (\<lambda>vid.
     res_bind (readUint16LE data 2) (\<lambda>pid.
     let stringBytes = drop 4 data in
     Inr \<lparr>mi_vid = vid, mi_pid = pid,
          mi_manufacturerString = readNullTerminatedString stringBytes 0 (length stringBytes),
          mi_manufacturerStringBytes = stringBytes\<rparr>))"

record ParsedCountryCodesDataBlock =
  ccs_length :: int
  ccs_countryCodes :: "string list"

text \<open>The loop over the declared number of codes; it stops at the end of the data.\<close>

fun parseCountryCodes_loop :: "bytes \<Rightarrow> nat \<Rightarrow> nat \<Rightarrow> string list \<Rightarrow> string list" where
  "parseCountryCodes_loop data offset 0 codes = codes"
| "parseCountryCodes_loop data offset (Suc left) codes =
     (case (byte_opt data offset, byte_opt data (offset + 1)) of
        (Some first, Some second) \<Rightarrow>
          parseCountryCodes_loop data (offset + 2) left
            (case decodeAsciiPair first second of None \<Rightarrow> codes | Some code \<Rightarrow> codes @ [code])
      | _ \<Rightarrow> codes)"

definition parseCountryCodesDataBlock :: "bytes \<Rightarrow> ParsedCountryCodesDataBlock" where
  "parseCountryCodesDataBlock data =
     (let len = byte_at data 0 in
      \<lparr>ccs_length = len, ccs_countryCodes = parseCountryCodes_loop data 2 (nat len) []\<rparr>)"

record ParsedCountryInfoDataBlock =
  ci_countryCode :: "string option"
  ci_countrySpecificData :: bytes
  ci_countrySpecificDataAscii :: string

definition parseCountryInfoDataBlock :: "bytes \<Rightarrow> ParsedCountryInfoDataBlock" where
  "parseCountryInfoDataBlock data =
     (let first = byte_at data 0; second = byte_at data 1;
          code = decodeAsciiPair first second;
          countrySpecific = drop 4 data
      in \<lparr>ci_countryCode = code, ci_countrySpecificData = countrySpecific,
          ci_countrySpecificDataAscii = readAsciiPreview countrySpecific 0 (length countrySpecific)\<rparr>)"

record ExtendedControlTypeMetadata =
  ecm_messageType :: string
  ecm_messageMeaning :: string
  ecm_sentBy :: string
  ecm_validStartOfPacket :: string
  ecm_dataMeaning :: string

definition getExtendedControlTypeMetadata :: "int \<Rightarrow> ExtendedControlTypeMetadata" where
  "getExtendedControlTypeMetadata t =
     (if t = 0x01 then
        \<lparr>ecm_messageType = ''EPR_Get_Source_Cap'',
         ecm_messageMeaning = ''Requests EPR source capabilities from an EPR-capable source partner.'',
         ecm_sentBy = ''Sink or DRP'',
         ecm_validStartOfPacket = ''SOP only'',
         ecm_dataMeaning = ''Not used. The data byte shall be 0x00 for EPR_Get_Source_Cap.''\<rparr>
      else if t = 0x02 then
        \<lparr>ecm_messageType = ''EPR_Get_Sink_Cap'',
         ecm_messageMeaning = ''Requests EPR sink capabilities from an EPR-capable sink partner.'',
         ecm_sentBy = ''Source or DRP'',
         ecm_validStartOfPacket = ''SOP only'',
         ecm_dataMeaning = ''Not used. The data byte shall be 0x00 for EPR_Get_Sink_Cap.''\<rparr>
      else if t = 0x03 then
        \<lparr>ecm_messageType = ''EPR_KeepAlive'',
         ecm_messageMeaning = ''Provides periodic EPR traffic from the sink so the EPR session remains active.'',
         ecm_sentBy = ''Sink'',
         ecm_validStartOfPacket = ''SOP only'',
         ecm_dataMeaning = ''Not used. The data byte shall be 0x00 for EPR_KeepAlive.''\<rparr>
      else if t = 0x04 then
        \<lparr>ecm_messageType = ''EPR_KeepAlive_Ack'',
         ecm_messageMeaning = ''Acknowledges an EPR_KeepAlive message from the sink while operating in EPR mode.'',
         ecm_sentBy = ''Source'',
         ecm_validStartOfPacket = ''SOP only'',
         ecm_dataMeaning = ''Not used. The data byte shall be 0x00 for EPR_KeepAlive_Ack.''\<rparr>
      else
        \<lparr>ecm_messageType = ''Reserved'',
         ecm_messageMeaning = ''Reserved Extended_Control type. This value is not defined by the USB-PD 3.2 specification.'',
         ecm_sentBy = ''Reserved'',
         ecm_validStartOfPacket = ''Reserved'',
         ecm_dataMeaning = ''Reserved. The data byte has no defined meaning for this type.''\<rparr>)"

section \<open>Success, strings and round trips\<close>

lemma readUint16LENullable_eq:
  "readUint16LENullable payload offset =
     (if offset + 2 \<le> length payload then Some (le16_at payload offset) else None)"
  by (auto simp: readUint16LENullable_def readUint16LE_eq)

text \<open>A data-block parser fails exactly when a multi-byte word it needs is cut off, and never on
  a longer block: 20 bytes suffice for Source_Capabilities_Extended, 14 for
  Sink_Capabilities_Extended, 8 for Battery_Capabilities, 4 for Manufacturer_Info and 2 for
  PPS_Status; the optional trailing fields exist exactly from their length on.\<close>

lemma dataBlocks_total:
  "(\<exists>b. parseSourceCapabilitiesExtendedDataBlock data = Inr b) = (20 \<le> length data) \<and>
   (\<exists>b. parseSinkCapabilitiesExtendedDataBlock data = Inr b) = (14 \<le> length data) \<and>
   (\<exists>b. parseBatteryCapabilitiesDataBlock data = Inr b) = (8 \<le> length data) \<and>
   (\<exists>b. parseManufacturerInfoDataBlock data = Inr b) = (4 \<le> length data) \<and>
   (\<exists>b. parsePPSStatusDataBlock data = Inr b) = (2 \<le> length data) \<and>
   map_option (\<lambda>_. ()) (sst_powerStateChange (parseSOPStatusDataBlock data)) =
     (if 7 \<le> length data then Some () else None)"
  by (auto simp: parseSourceCapabilitiesExtendedDataBlock_def parseSinkCapabilitiesExtendedDataBlock_def
      parseBatteryCapabilitiesDataBlock_def parseManufacturerInfoDataBlock_def
      parsePPSStatusDataBlock_def parseSOPStatusDataBlock_def readUint16LE_eq readUint32LE_eq Let_def)

subsection \<open>Bytes of a block\<close>

lemma le_bytes_1_byte_at:
  "i < length bs \<Longrightarrow> le_bytes (Suc 0) (byte_at bs i) = sub_array bs i (i + 1)"
  using le_bytes_le_val[of "sub_array bs i (i + 1)"]
  by (simp add: sub_array_def byte_at_def take_Suc_conv_app_nth)

lemma le_bytes_2_le16_at: "i + 2 \<le> length bs \<Longrightarrow> le_bytes 2 (le16_at bs i) = sub_array bs i (i + 2)"
  using le_bytes_le_val[of "sub_array bs i (i + 2)"]
  by (simp add: sub_array_def byte_at_def le16_at_def take_Suc_conv_app_nth numeral_2_eq_2)

lemma le_bytes_4_le32_at: "i + 4 \<le> length bs \<Longrightarrow> le_bytes 4 (le32_at bs i) = sub_array bs i (i + 4)"
  using le_bytes_le_val[of "sub_array bs i (i + 4)"] by (simp add: le32_at_le_val)

lemma sub_array_append_rest:
  "a \<le> b \<Longrightarrow> b \<le> c \<Longrightarrow> sub_array xs a b @ sub_array xs b c @ ys = sub_array xs a c @ ys"
  by (simp add: sub_array_append_drop flip: append_assoc)

lemma nibbles:
  assumes "0 \<le> x" "x < 256"
  shows "16 * js_sar x 4 + js_and x 0x0f = x" "js_and x 0x7f + 128 * (x div 128) = x"
proof -
  have "js_sar x 4 = x div 16"
    using assms by (simp add: js_sar_numeral)
  moreover have "js_and x 0x0f = x mod 16" "js_and x 0x7f = x mod 128"
    using js_and_field[of 4 15 x] js_and_field[of 7 127 x] by simp_all
  ultimately show "16 * js_sar x 4 + js_and x 0x0f = x" "js_and x 0x7f + 128 * (x div 128) = x"
    by simp_all
qed

text \<open>The encoder of a Source_Capabilities_Extended block: the layout of its 25 bytes, bit 7 of the
  SPR rating (reserved) from an argument.\<close>

definition sce_bytes :: "int \<Rightarrow> ParsedSourceCapabilitiesExtendedDataBlock \<Rightarrow> bytes" where
  "sce_bytes rsv b =
     le_bytes 2 (sce_vid b) @ le_bytes 2 (sce_pid b) @ le_bytes 4 (sce_xid b) @
     le_bytes 1 (sce_fwVersion b) @ le_bytes 1 (sce_hwVersion b) @
     le_bytes 1 (sce_voltageRegulation b) @ le_bytes 1 (sce_holdupTimeMs b) @
     le_bytes 1 (sce_compliance b) @ le_bytes 1 (sce_touchCurrent b) @
     le_bytes 2 (sce_peakCurrent1 b) @ le_bytes 2 (sce_peakCurrent2 b) @
     le_bytes 2 (sce_peakCurrent3 b) @ le_bytes 1 (sce_touchTemp b) @
     le_bytes 1 (sce_sourceInputs b) @
     le_bytes 1 (16 * sce_hotSwappableBatterySlots b + sce_fixedBatteries b) @
     le_bytes 1 (sce_sprSourcePdpRating b + 128 * rsv) @
     (case sce_eprSourcePdpRating b of None \<Rightarrow> [] | Some r \<Rightarrow> le_bytes 1 r)"

text \<open>An extended source capabilities block is read without loss: the fields of a block of 24 or
  more bytes, laid out again, are the first 25 bytes of the block (24 for a legacy block), so every
  field comes from its own bytes and none is read twice or skipped.\<close>

lemma parseSourceCapabilitiesExtended_bytes:
  assumes "24 \<le> length data" "parseSourceCapabilitiesExtendedDataBlock data = Inr b"
  shows "sce_bytes (byte_at data 23 div 128) b = take 25 data"
proof -
  have b: "b = \<lparr>sce_vid = le16_at data 0, sce_pid = le16_at data 2, sce_xid = le32_at data 4,
      sce_fwVersion = byte_at data 8, sce_hwVersion = byte_at data 9,
      sce_voltageRegulation = byte_at data 10, sce_holdupTimeMs = byte_at data 11,
      sce_compliance = byte_at data 12, sce_touchCurrent = byte_at data 13,
      sce_peakCurrent1 = le16_at data 14, sce_peakCurrent2 = le16_at data 16,
      sce_peakCurrent3 = le16_at data 18, sce_touchTemp = byte_at data 20,
      sce_sourceInputs = byte_at data 21,
      sce_hotSwappableBatterySlots = js_sar (byte_at data 22) 4,
      sce_fixedBatteries = js_and (byte_at data 22) 0x0f,
      sce_sprSourcePdpRating = js_and (byte_at data 23) 0x7f,
      sce_eprSourcePdpRating = (if length data \<ge> 25 then Some (byte_at data 24) else None),
      sce_legacy24ByteBlock = (length data = 24)\<rparr>"
    using assms
    by (simp add: parseSourceCapabilitiesExtendedDataBlock_def readUint16LE_eq readUint32LE_eq)
  have epr: "(case if length data \<ge> 25 then Some (byte_at data 24) else None of
      None \<Rightarrow> [] | Some r \<Rightarrow> le_bytes 1 r) = sub_array data 24 25"
    using le_bytes_1_byte_at[of 24 data] assms by (simp add: sub_array_def del: le_bytes.simps)
  have "sce_bytes (byte_at data 23 div 128) b = sub_array data 0 25"
    unfolding b sce_bytes_def ParsedSourceCapabilitiesExtendedDataBlock.simps epr
      nibbles [OF byte_at_bounds(1,2)]
    using assms(1)
    by (simp add: le_bytes_1_byte_at le_bytes_2_le16_at le_bytes_4_le32_at sub_array_append_drop
        sub_array_append_rest del: le_bytes.simps flip: numeral_2_eq_2)
  then show ?thesis
    by (simp add: sub_array_def)
qed

lemma parseSourceCapabilitiesExtended_bytes_witness:
  "sce_bytes 0 (projr (parseSourceCapabilitiesExtendedDataBlock (map word_of_int [1..25]))) =
     map word_of_int [1..25]"
proof -
  let ?d = "map word_of_int [1..25] :: bytes"
  have d: "?d = [1, 2, 3, 4, 5, 6, 7, 8, 9, 10, 11, 12, 13, 14, 15, 16, 17, 18, 19, 20, 21, 22, 23, 24, 25]"
    by code_simp
  have "24 \<le> length ?d" "take 25 ?d = ?d" "byte_at ?d 23 div 128 = 0"
    by (simp_all add: d byte_at_def)
  moreover have "parseSourceCapabilitiesExtendedDataBlock ?d =
      Inr (projr (parseSourceCapabilitiesExtendedDataBlock ?d))"
    unfolding d by code_simp
  ultimately show ?thesis
    using parseSourceCapabilitiesExtended_bytes[of ?d] by metis
qed

subsection \<open>Strings and country codes\<close>

lemma readNullTerminatedString_loop_eq:
  "offset + i + left \<le> length payload \<Longrightarrow>
   readNullTerminatedString_loop payload offset i left =
     map (\<lambda>b. char_code (uint b)) (takeWhile (\<lambda>b. b \<noteq> 0) (sub_array payload (offset + i) (offset + i + left)))"
proof (induction payload offset i left rule: readNullTerminatedString_loop.induct)
  case (2 payload offset i left)
  then have "sub_array payload (offset + i) (offset + i + Suc left) =
      payload ! (offset + i) # sub_array payload (offset + (i + 1)) (offset + (i + 1) + left)"
    by (simp add: sub_array_def Cons_nth_drop_Suc [symmetric])
  with 2 show ?case
    by (auto simp: byte_opt_def uint_0_iff)
qed (simp add: sub_array_def)

lemma readNullTerminatedString_all:
  "readNullTerminatedString bs 0 (length bs) =
     map (\<lambda>b. char_code (uint b)) (takeWhile (\<lambda>b. b \<noteq> 0) bs)"
  by (simp add: readNullTerminatedString_def readNullTerminatedString_loop_eq)

text \<open>The bytes of a Country_Codes block that lists the given two-character codes.\<close>

definition printable :: "byte \<Rightarrow> bool" where
  "printable b \<longleftrightarrow> uint b \<in> {0x20..0x7e}"

definition country_codes_bytes :: "(byte \<times> byte) list \<Rightarrow> bytes" where
  "country_codes_bytes codes =
     [word_of_nat (length codes), 0] @ concat (map (\<lambda>(a, b). [a, b]) codes)"

definition code_string :: "byte \<times> byte \<Rightarrow> string" where
  "code_string = (\<lambda>(a, b). [char_code (uint a), char_code (uint b)])"

lemma parseCountryCodes_loop_concat:
  "list_all (\<lambda>(a, b). printable a \<and> printable b) codes \<Longrightarrow> offset = length pre \<Longrightarrow>
   parseCountryCodes_loop (pre @ concat (map (\<lambda>(a, b). [a, b]) codes)) offset (length codes) acc =
     acc @ map code_string codes"
proof (induction codes arbitrary: pre offset acc)
  case (Cons c codes)
  obtain a b where c: "c = (a, b)"
    by (cases c)
  have IH: "parseCountryCodes_loop ((pre @ [a, b]) @ concat (map (\<lambda>(a, b). [a, b]) codes)) (offset + 2)
      (length codes) (acc @ [code_string c]) = (acc @ [code_string c]) @ map code_string codes"
    by (rule Cons.IH) (use Cons.prems in auto)
  have "decodeAsciiPair (uint a) (uint b) = Some (code_string c)"
    using Cons.prems c by (simp add: decodeAsciiPair_def printable_def code_string_def Let_def)
  with IH Cons.prems c show ?case
    by (simp add: byte_opt_def nth_append)
qed simp

text \<open>A Country_Codes block decodes to the codes it was built from, for any list of at most 255
  printable two-character codes.\<close>

lemma parseCountryCodes_roundtrip:
  assumes "list_all (\<lambda>(a, b). printable a \<and> printable b) codes" "length codes \<le> 255"
  shows "parseCountryCodesDataBlock (country_codes_bytes codes) =
    \<lparr>ccs_length = int (length codes), ccs_countryCodes = map code_string codes\<rparr>"
proof -
  have "byte_at (country_codes_bytes codes) 0 = int (length codes)"
    using assms(2)
    by (simp add: byte_at_def country_codes_bytes_def unsigned_of_nat take_bit_nat_eq_self_iff
        take_bit_nat_eq_self)
  then show ?thesis
    using parseCountryCodes_loop_concat [OF assms(1), of 2 "[word_of_nat (length codes), 0]" "[]"]
    by (simp add: parseCountryCodesDataBlock_def Let_def country_codes_bytes_def)
qed

lemma parseCountryCodes_roundtrip_witness:
  "parseCountryCodesDataBlock [2, 0, 0x55, 0x53, 0x44, 0x45] =
     \<lparr>ccs_length = 2, ccs_countryCodes = [''US'', ''DE'']\<rparr>"
proof -
  have "char_code 0x55 = CHR ''U''" "char_code 0x53 = CHR ''S''" "char_code 0x44 = CHR ''D''"
    "char_code 0x45 = CHR ''E''"
    by code_simp+
  then show ?thesis
    using parseCountryCodes_roundtrip[of "[(0x55, 0x53), (0x44, 0x45)]"]
    by (simp add: printable_def country_codes_bytes_def code_string_def)
qed

end
