(* ===== verification/Pd_Messages.thy ===== *)
theory Pd_Messages
  imports Complex_Main Vdm_Objects Data_Blocks
begin

text \<open>
  USB-PD messages: the base class and message tables of \<open>usb-pd/messageBase.ts\<close> and
  \<open>usb-pd/message.ts\<close>, the constructor of every class under \<open>usb-pd/messages/\<close>, and the entry point
  \<open>parseUSBPDMessage\<close> of \<open>usb-pd/parser.ts\<close>. A message object is a record: the base fields, its class
  (what \<open>instanceof\<close> tests) and a body with the fields its class adds. The constructors that the
  source repeats with other names only (one data object; one extended data block) share a helper.
\<close>

section \<open>Classes, diagnostics and bodies\<close>

datatype MessageClass =
    ReservedControlMessage
  | GoodCRCMessage
  | GotoMinMessage
  | AcceptMessage
  | RejectMessage
  | PingMessage
  | PSRDYMessage
  | GetSourceCapMessage
  | GetSinkCapMessage
  | DRSwapMessage
  | PRSwapMessage
  | VCONNSwapMessage
  | WaitMessage
  | SoftResetMessage
  | DataResetMessage
  | DataResetCompleteMessage
  | NotSupportedMessage
  | GetSourceCapExtendedMessage
  | GetStatusMessage
  | FRSwapMessage
  | GetPPSStatusMessage
  | GetCountryCodesMessage
  | GetSinkCapExtendedMessage
  | GetSourceInfoMessage
  | GetRevisionMessage
  | ReservedDataMessage
  | SourceCapabilitiesMessage
  | RequestMessage
  | BISTMessage
  | SinkCapabilitiesMessage
  | BatteryStatusMessage
  | AlertMessage
  | GetCountryInfoMessage
  | EnterUSBMessage
  | EPRRequestMessage
  | EPRModeMessage
  | SourceInfoMessage
  | RevisionMessage
  | VendorDefinedMessage
  | ReservedExtendedMessage
  | SourceCapabilitiesExtendedMessage
  | StatusMessage
  | GetBatteryCapMessage
  | GetBatteryStatusMessage
  | BatteryCapabilitiesMessage
  | GetManufacturerInfoMessage
  | ManufacturerInfoMessage
  | SecurityRequestMessage
  | SecurityResponseMessage
  | FirmwareUpdateRequestMessage
  | FirmwareUpdateResponseMessage
  | PPSStatusMessage
  | CountryInfoMessage
  | CountryCodesMessage
  | SinkCapabilitiesExtendedMessage
  | ExtendedControlMessage
  | EPRSourceCapabilitiesMessage
  | EPRSinkCapabilitiesMessage
  | VendorDefinedExtendedMessage

text \<open>The entries of a message's \<open>parseErrors\<close>: a fixed text, or a template with its values.\<close>

datatype parse_error =
    PE_text string
  | PE_expected_objects string int int
  | PE_expected_bytes string int int
  | PE_expected_block string int int

record SourceCapabilitiesMessage =
  sc_rawPayload :: bytes
  sc_rawDataObjects :: "int list"
  sc_decodedPDOs :: "ParsedPDO list"
  sc_parseErrors :: "parse_error list"

text \<open>\<open>SinkCapabilitiesMessage\<close> has the same fields.\<close>

record RequestMessage =
  rq_rawPayload :: bytes
  rq_rawRDO :: "int option"
  rq_rdo :: "ParsedRDO option"
  rq_referencedPDO :: "ParsedPDO option"
  rq_parseErrors :: "parse_error list"

record EPRRequestMessage =
  er_rawPayload :: bytes
  er_rawRDO :: "int option"
  er_rdo :: "ParsedRDO option"
  er_rawPDOCopy :: "int option"
  er_requestedPDOCopy :: "ParsedPDO option"
  er_parseErrors :: "parse_error list"

record BISTMessage =
  bm_rawPayload :: bytes
  bm_rawBistDataObject :: "int option"
  bm_bistDataObject :: "ParsedBISTDataObject option"
  bm_rawAdditionalObjects :: "int list"
  bm_parseErrors :: "parse_error list"

record ReservedDataMessage =
  rd_rawPayload :: bytes
  rd_rawDataObjects :: "int list"
  rd_parseErrors :: "parse_error list"

record VendorDefinedMessage =
  vd_rawPayload :: bytes
  vd_rawDataObjects :: "int list"
  vd_vdmHeader :: "ParsedVDMHeader option"
  vd_rawVDOs :: "int list"
  vd_discoverIdentity :: "ParsedDiscoverIdentity option"
  vd_discoverSVIDs :: "int list"
  vd_discoverModes :: "int list"
  vd_parseErrors :: "parse_error list"

text \<open>The classes of the single-object messages: \<open>rawPayload\<close>, the raw word, the parsed object (under
  a name of its own in each class) and \<open>parseErrors\<close>.\<close>

record 'a DataObjectMessage =
  dm_rawPayload :: bytes
  dm_raw :: "int option"
  dm_object :: "'a option"
  dm_parseErrors :: "parse_error list"

text \<open>The classes of the extended messages: \<open>rawPayload\<close>, the copied extended header fields,
  \<open>parseErrors\<close> and what the class decodes from its data block.\<close>

record 'a ExtendedBody =
  xm_rawPayload :: bytes
  xm_dataSize :: int
  xm_chunked :: bool
  xm_chunkNumber :: int
  xm_requestChunk :: bool
  xm_parseErrors :: "parse_error list"
  xm_decoded :: 'a

record EPRCapabilities =
  ec_rawPDOs :: "int list"
  ec_sprPDOs :: "ParsedPDO list"
  ec_eprPDOs :: "ParsedPDO list"

record status_blocks =
  st_sopStatusDataBlock :: "ParsedSOPStatusDataBlock option"
  st_sopPrimeStatusDataBlock :: "ParsedSOPPrimeStatusDataBlock option"

record manufacturer_request =
  mr_manufacturerInfoTarget :: "int option"
  mr_manufacturerInfoRef :: "int option"

record vendor_extended =
  ve_vdmHeader :: "ParsedVDMHeader option"
  ve_vendorData :: bytes

datatype message_body =
    Body_Control
  | Body_SourceCapabilities SourceCapabilitiesMessage
  | Body_SinkCapabilities SourceCapabilitiesMessage
  | Body_Request RequestMessage
  | Body_EPRRequest EPRRequestMessage
  | Body_BIST BISTMessage
  | Body_BatteryStatus "ParsedBatteryStatusDataObject DataObjectMessage"
  | Body_Alert "ParsedAlertDataObject DataObjectMessage"
  | Body_GetCountryInfo "ParsedCountryCodeDataObject DataObjectMessage"
  | Body_EnterUSB "ParsedEnterUSBDataObject DataObjectMessage"
  | Body_EPRMode "ParsedEPRModeDataObject DataObjectMessage"
  | Body_SourceInfo "ParsedSourceInfoDataObject DataObjectMessage"
  | Body_Revision "ParsedRevisionDataObject DataObjectMessage"
  | Body_VendorDefined VendorDefinedMessage
  | Body_ReservedData ReservedDataMessage
  | Body_SourceCapabilitiesExtended "ParsedSourceCapabilitiesExtendedDataBlock option ExtendedBody"
  | Body_Status "status_blocks ExtendedBody"
  | Body_GetBatteryCap "int option ExtendedBody"
  | Body_GetBatteryStatus "int option ExtendedBody"
  | Body_BatteryCapabilities "ParsedBatteryCapabilitiesDataBlock option ExtendedBody"
  | Body_GetManufacturerInfo "manufacturer_request ExtendedBody"
  | Body_ManufacturerInfo "ParsedManufacturerInfoDataBlock option ExtendedBody"
  | Body_SecurityRequest "bytes ExtendedBody"
  | Body_SecurityResponse "bytes ExtendedBody"
  | Body_FirmwareUpdateRequest "bytes ExtendedBody"
  | Body_FirmwareUpdateResponse "bytes ExtendedBody"
  | Body_PPSStatus "ParsedPPSStatusDataBlock option ExtendedBody"
  | Body_CountryInfo "ParsedCountryInfoDataBlock option ExtendedBody"
  | Body_CountryCodes "ParsedCountryCodesDataBlock option ExtendedBody"
  | Body_SinkCapabilitiesExtended "ParsedSinkCapabilitiesExtendedDataBlock option ExtendedBody"
  | Body_ExtendedControl "ParsedExtendedControlDataBlock option ExtendedBody"
  | Body_EPRSourceCapabilities "EPRCapabilities ExtendedBody"
  | Body_EPRSinkCapabilities "EPRCapabilities ExtendedBody"
  | Body_VendorDefinedExtended "vendor_extended ExtendedBody"
  | Body_ReservedExtended "unit ExtendedBody"

section \<open>The base class (messageBase.ts)\<close>

text \<open>Pulse widths are 64-bit floats the decoder only copies; they are rationals here.\<close>

record Message =
  m_class :: MessageClass
  m_sop :: SOP
  m_header :: Header
  m_payload :: bytes
  m_capturePayload :: bytes
  m_payloadOffset :: nat
  m_kind :: MessageKind
  m_messageTypeNumber :: int
  m_messageTypeName :: string
  m_pulseWidthsNs :: "rat list"
  m_startTimestampUs :: "int option"
  m_endTimestampUs :: "int option"
  m_wallClockUs :: "int option"
  m_body :: message_body

definition payload_offset :: "Header \<Rightarrow> nat" where
  "payload_offset header =
     (let headerBytes =
        (if mh_extended (hd_messageHeader header)
         then MESSAGE_HEADER_LENGTH + EXTENDED_HEADER_LENGTH else MESSAGE_HEADER_LENGTH)
      in SOP_LENGTH + headerBytes)"

definition new_Message ::
  "MessageClass \<Rightarrow> SOP \<Rightarrow> Header \<Rightarrow> bytes \<Rightarrow> string \<Rightarrow> message_body \<Rightarrow> Message" where
  "new_Message cls sop header payload messageTypeName body =
     \<lparr>m_class = cls, m_sop = sop, m_header = header, m_payload = payload,
      m_capturePayload = payload, m_payloadOffset = payload_offset header,
      m_kind = mh_messageKind (hd_messageHeader header),
      m_messageTypeNumber = mh_messageTypeNumber (hd_messageHeader header),
      m_messageTypeName = messageTypeName, m_pulseWidthsNs = [], m_startTimestampUs = None,
      m_endTimestampUs = None, m_wallClockUs = None, m_body = body\<rparr>"

definition setPulseWidthsNs :: "rat list option \<Rightarrow> Message \<Rightarrow> Message" where
  "setPulseWidthsNs pulseWidthsNs msg =
     msg\<lparr>m_pulseWidthsNs := (case pulseWidthsNs of Some ws \<Rightarrow> ws | None \<Rightarrow> [])\<rparr>"

definition setCaptureTimestamps :: "int option \<Rightarrow> int option \<Rightarrow> Message \<Rightarrow> Message" where
  "setCaptureTimestamps startTimestampUs endTimestampUs msg =
     msg\<lparr>m_startTimestampUs := startTimestampUs, m_endTimestampUs := endTimestampUs\<rparr>"

definition setWallClockTimestampUs :: "int option \<Rightarrow> Message \<Rightarrow> Message" where
  "setWallClockTimestampUs wallClockUs msg = msg\<lparr>m_wallClockUs := wallClockUs\<rparr>"

definition setCapturePayload :: "bytes \<Rightarrow> Message \<Rightarrow> Message" where
  "setCapturePayload payload msg = msg\<lparr>m_capturePayload := payload\<rparr>"

text \<open>The checksum the technical data of a message is checked against.\<close>

fun crc_bits :: "nat \<Rightarrow> int \<Rightarrow> int" where
  "crc_bits 0 crc = crc"
| "crc_bits (Suc left) crc =
     crc_bits left
       (if js_and crc 1 = 1 then js_xor (js_ushr crc 1) 0xedb88320 else js_ushr crc 1)"

fun computeCRC32_loop :: "bytes \<Rightarrow> int \<Rightarrow> int" where
  "computeCRC32_loop [] crc = crc"
| "computeCRC32_loop (b # bs) crc = computeCRC32_loop bs (crc_bits 8 (js_xor crc (uint b)))"

definition computeCRC32 :: "bytes \<Rightarrow> int" where
  "computeCRC32 bs = js_ushr (js_xor (computeCRC32_loop bs 0xffffffff) 0xffffffff) 0"

section \<open>Data messages (messages/)\<close>

definition new_SourceCapabilitiesMessage :: "SOP \<Rightarrow> Header \<Rightarrow> bytes \<Rightarrow> string \<Rightarrow> usbpd_error + Message" where
  "new_SourceCapabilitiesMessage sop header payload messageTypeName =
     (let offset = payload_offset header;
          rawPayload = drop offset payload;
          expectedCount = mh_numberOfDataObjects (hd_messageHeader header);
          availableCount = int (length rawPayload div 4);
          count = min expectedCount availableCount;
          parseErrors =
            (if expectedCount > availableCount
             then [PE_expected_objects ''Source_Capabilities'' expectedCount availableCount] else [])
      in res_bind (readDataObjects payload offset count) (\<lambda>rawDataObjects.
           Inr (new_Message SourceCapabilitiesMessage sop header payload messageTypeName
             (Body_SourceCapabilities
               \<lparr>sc_rawPayload = rawPayload, sc_rawDataObjects = rawDataObjects,
                sc_decodedPDOs = map (\<lambda>raw. parsePDO raw CSource) rawDataObjects,
                sc_parseErrors = parseErrors\<rparr>))))"

definition new_SinkCapabilitiesMessage :: "SOP \<Rightarrow> Header \<Rightarrow> bytes \<Rightarrow> string \<Rightarrow> usbpd_error + Message" where
  "new_SinkCapabilitiesMessage sop header payload messageTypeName =
     (let offset = payload_offset header;
          rawPayload = drop offset payload;
          expectedCount = mh_numberOfDataObjects (hd_messageHeader header);
          availableCount = int (length rawPayload div 4);
          count = min expectedCount availableCount;
          parseErrors =
            (if expectedCount > availableCount
             then [PE_expected_objects ''Sink_Capabilities'' expectedCount availableCount] else [])
      in res_bind (readDataObjects payload offset count) (\<lambda>rawDataObjects.
           Inr (new_Message SinkCapabilitiesMessage sop header payload messageTypeName
             (Body_SinkCapabilities
               \<lparr>sc_rawPayload = rawPayload, sc_rawDataObjects = rawDataObjects,
                sc_decodedPDOs = map (\<lambda>raw. parsePDO raw CSink) rawDataObjects,
                sc_parseErrors = parseErrors\<rparr>))))"

definition new_RequestMessage :: "SOP \<Rightarrow> Header \<Rightarrow> bytes \<Rightarrow> string \<Rightarrow> usbpd_error + Message" where
  "new_RequestMessage sop header payload messageTypeName =
     (let offset = payload_offset header;
          rawPayload = drop offset payload;
          availableCount = int (length rawPayload div 4);
          finish = (\<lambda>raw rdo errors.
            Inr (new_Message RequestMessage sop header payload messageTypeName
              (Body_Request
                \<lparr>rq_rawPayload = rawPayload, rq_rawRDO = raw, rq_rdo = rdo,
                 rq_referencedPDO = None, rq_parseErrors = errors\<rparr>)))
      in if availableCount < 1 then
           finish None None [PE_text ''Request message missing RDO payload'']
         else
           res_bind (readDataObjects payload offset 1) (\<lambda>objects.
             finish (Some (objects ! 0)) (Some (parseRDO (objects ! 0))) []))"

definition new_EPRRequestMessage :: "SOP \<Rightarrow> Header \<Rightarrow> bytes \<Rightarrow> string \<Rightarrow> usbpd_error + Message" where
  "new_EPRRequestMessage sop header payload messageTypeName =
     (let offset = payload_offset header;
          rawPayload = drop offset payload;
          availableCount = int (length rawPayload div 4);
          finish = (\<lambda>raw rdo rawCopy copy errors.
            Inr (new_Message EPRRequestMessage sop header payload messageTypeName
              (Body_EPRRequest
                \<lparr>er_rawPayload = rawPayload, er_rawRDO = raw, er_rdo = rdo,
                 er_rawPDOCopy = rawCopy, er_requestedPDOCopy = copy, er_parseErrors = errors\<rparr>)))
      in if availableCount < 2 then
           finish None None None None [PE_text ''EPR_Request message missing RDO and PDO copy'']
         else
           res_bind (readDataObjects payload offset 2) (\<lambda>objects.
             let rdo = parseRDO (objects ! 0);
                 requestedPDOCopy = parsePDO (objects ! 1) CSource;
                 resolution = resolveRequestTypeFromPDO requestedPDOCopy RS_copied_pdo;
                 rdo' =
                   (case resolution of
                      None \<Rightarrow> rdo
                    | Some r \<Rightarrow> rdo\<lparr>rdo_requestTypeResolution := r,
                                    rdo_requestTypeHint := Some (rr_type r)\<rparr>)
             in finish (Some (objects ! 0)) (Some rdo') (Some (objects ! 1)) (Some requestedPDOCopy) []))"

definition new_BISTMessage :: "SOP \<Rightarrow> Header \<Rightarrow> bytes \<Rightarrow> string \<Rightarrow> usbpd_error + Message" where
  "new_BISTMessage sop header payload messageTypeName =
     (let offset = payload_offset header;
          rawPayload = drop offset payload;
          availableCount = int (length rawPayload div 4);
          finish = (\<lambda>raw bist additional errors.
            Inr (new_Message BISTMessage sop header payload messageTypeName
              (Body_BIST
                \<lparr>bm_rawPayload = rawPayload, bm_rawBistDataObject = raw, bm_bistDataObject = bist,
                 bm_rawAdditionalObjects = additional, bm_parseErrors = errors\<rparr>)))
      in if availableCount < 1 then
           finish None None [] [PE_text ''BIST message missing data object'']
         else
           res_bind (readDataObjects payload offset availableCount) (\<lambda>objects.
             finish (Some (objects ! 0)) (Some (parseBISTDataObject (objects ! 0)))
               (drop 1 objects) []))"

definition single_object ::
  "string \<Rightarrow> (int \<Rightarrow> 'a) \<Rightarrow> nat \<Rightarrow> bytes \<Rightarrow> usbpd_error + 'a DataObjectMessage" where
  "single_object missing parse offset payload =
     (let rawPayload = drop offset payload;
          availableCount = int (length rawPayload div 4)
      in if availableCount < 1 then
           Inr \<lparr>dm_rawPayload = rawPayload, dm_raw = None, dm_object = None,
                dm_parseErrors = [PE_text missing]\<rparr>
         else
           res_bind (readDataObjects payload offset 1) (\<lambda>objects.
             Inr \<lparr>dm_rawPayload = rawPayload, dm_raw = Some (objects ! 0),
                  dm_object = Some (parse (objects ! 0)), dm_parseErrors = []\<rparr>))"

definition new_BatteryStatusMessage :: "SOP \<Rightarrow> Header \<Rightarrow> bytes \<Rightarrow> string \<Rightarrow> usbpd_error + Message" where
  "new_BatteryStatusMessage sop header payload messageTypeName =
     res_bind (single_object ''Battery_Status message missing data object'' parseBatteryStatusDataObject
         (payload_offset header) payload)
       (\<lambda>b. Inr (new_Message BatteryStatusMessage sop header payload messageTypeName (Body_BatteryStatus b)))"

definition new_AlertMessage :: "SOP \<Rightarrow> Header \<Rightarrow> bytes \<Rightarrow> string \<Rightarrow> usbpd_error + Message" where
  "new_AlertMessage sop header payload messageTypeName =
     res_bind (single_object ''Alert message missing data object'' parseAlertDataObject
         (payload_offset header) payload)
       (\<lambda>b. Inr (new_Message AlertMessage sop header payload messageTypeName (Body_Alert b)))"

definition new_GetCountryInfoMessage :: "SOP \<Rightarrow> Header \<Rightarrow> bytes \<Rightarrow> string \<Rightarrow> usbpd_error + Message" where
  "new_GetCountryInfoMessage sop header payload messageTypeName =
     res_bind (single_object ''Get_Country_Info message missing data object'' parseCountryCodeDataObject
         (payload_offset header) payload)
       (\<lambda>b. Inr (new_Message GetCountryInfoMessage sop header payload messageTypeName (Body_GetCountryInfo b)))"

definition new_EnterUSBMessage :: "SOP \<Rightarrow> Header \<Rightarrow> bytes \<Rightarrow> string \<Rightarrow> usbpd_error + Message" where
  "new_EnterUSBMessage sop header payload messageTypeName =
     res_bind (single_object ''Enter_USB message missing data object'' parseEnterUSBDataObject
         (payload_offset header) payload)
       (\<lambda>b. Inr (new_Message EnterUSBMessage sop header payload messageTypeName (Body_EnterUSB b)))"

definition new_EPRModeMessage :: "SOP \<Rightarrow> Header \<Rightarrow> bytes \<Rightarrow> string \<Rightarrow> usbpd_error + Message" where
  "new_EPRModeMessage sop header payload messageTypeName =
     res_bind (single_object ''EPR_Mode message missing data object'' parseEPRModeDataObject
         (payload_offset header) payload)
       (\<lambda>b. Inr (new_Message EPRModeMessage sop header payload messageTypeName (Body_EPRMode b)))"

definition new_SourceInfoMessage :: "SOP \<Rightarrow> Header \<Rightarrow> bytes \<Rightarrow> string \<Rightarrow> usbpd_error + Message" where
  "new_SourceInfoMessage sop header payload messageTypeName =
     res_bind (single_object ''Source_Info message missing data object'' parseSourceInfoDataObject
         (payload_offset header) payload)
       (\<lambda>b. Inr (new_Message SourceInfoMessage sop header payload messageTypeName (Body_SourceInfo b)))"

definition new_RevisionMessage :: "SOP \<Rightarrow> Header \<Rightarrow> bytes \<Rightarrow> string \<Rightarrow> usbpd_error + Message" where
  "new_RevisionMessage sop header payload messageTypeName =
     res_bind (single_object ''Revision message missing data object'' parseRevisionDataObject
         (payload_offset header) payload)
       (\<lambda>b. Inr (new_Message RevisionMessage sop header payload messageTypeName (Body_Revision b)))"

definition new_ReservedDataMessage :: "SOP \<Rightarrow> Header \<Rightarrow> bytes \<Rightarrow> string \<Rightarrow> usbpd_error + Message" where
  "new_ReservedDataMessage sop header payload messageTypeName =
     (let offset = payload_offset header;
          rawPayload = drop offset payload;
          availableCount = int (length rawPayload div 4);
          expectedCount = mh_numberOfDataObjects (hd_messageHeader header);
          count = min availableCount expectedCount;
          parseErrors =
            (if expectedCount > availableCount
             then [PE_expected_objects ''Reserved data message'' expectedCount availableCount] else [])
      in res_bind (if count > 0 then readDataObjects payload offset count else Inr [])
           (\<lambda>rawDataObjects.
             Inr (new_Message ReservedDataMessage sop header payload messageTypeName
               (Body_ReservedData
                 \<lparr>rd_rawPayload = rawPayload, rd_rawDataObjects = rawDataObjects,
                  rd_parseErrors = parseErrors\<rparr>))))"

text \<open>The loop over the SVID words of a Discover SVIDs response; the list ends at a zero word.\<close>

fun discoverSVIDs_loop :: "int list \<Rightarrow> int list" where
  "discoverSVIDs_loop [] = []"
| "discoverSVIDs_loop (raw # rest) =
     (let high = js_and (js_ushr raw 16) 0xffff; low = js_and raw 0xffff in
      if high = 0 \<and> low = 0 then []
      else (if high \<noteq> 0 then [high] else []) @ (if low \<noteq> 0 then [low] else []) @
           discoverSVIDs_loop rest)"

definition new_VendorDefinedMessage :: "SOP \<Rightarrow> Header \<Rightarrow> bytes \<Rightarrow> string \<Rightarrow> usbpd_error + Message" where
  "new_VendorDefinedMessage sop header payload messageTypeName =
     (let offset = payload_offset header;
          rawPayload = drop offset payload;
          expectedCount = mh_numberOfDataObjects (hd_messageHeader header);
          availableCount = int (length rawPayload div 4);
          count = min expectedCount availableCount;
          countErrors =
            (if expectedCount > availableCount
             then [PE_expected_objects ''Vendor_Defined'' expectedCount availableCount] else []);
          finish = (\<lambda>fields.
            Inr (new_Message VendorDefinedMessage sop header payload messageTypeName
              (Body_VendorDefined fields)))
      in if count < 1 then
           finish \<lparr>vd_rawPayload = rawPayload, vd_rawDataObjects = [], vd_vdmHeader = None,
             vd_rawVDOs = [], vd_discoverIdentity = None, vd_discoverSVIDs = [],
             vd_discoverModes = [],
             vd_parseErrors = countErrors @ [PE_text ''Vendor_Defined message missing VDM header'']\<rparr>
         else
           res_bind (readDataObjects payload offset count) (\<lambda>rawDataObjects.
             let vdmHeader = parseVDMHeader (rawDataObjects ! 0);
                 rawVDOs = drop 1 rawDataObjects;
                 ack = (vh_vdmType vdmHeader = STRUCTURED \<and> vh_commandTypeName vdmHeader = Some ''ACK'');
                 command = vh_commandName vdmHeader
             in finish \<lparr>vd_rawPayload = rawPayload, vd_rawDataObjects = rawDataObjects,
                  vd_vdmHeader = Some vdmHeader, vd_rawVDOs = rawVDOs,
                  vd_discoverIdentity =
                    (if ack \<and> command = Some ''DISCOVER_IDENTITY''
                     then Some (parseDiscoverIdentityVDOs rawVDOs (sop_kind sop)) else None),
                  vd_discoverSVIDs =
                    (if ack \<and> command = Some ''DISCOVER_SVIDS'' then discoverSVIDs_loop rawVDOs else []),
                  vd_discoverModes =
                    (if ack \<and> command = Some ''DISCOVER_MODES'' then rawVDOs else []),
                  vd_parseErrors = countErrors\<rparr>))"

section \<open>Extended messages (messages/)\<close>

text \<open>The part every extended constructor begins with: the header fields (with the defaults the
  source gives for a missing extended header), the raw payload, the end of the declared data and
  the data block, which is cut at the end of the payload.\<close>

definition ext_dataSize :: "Header \<Rightarrow> int" where
  "ext_dataSize header = (case hd_extendedHeader header of Some f \<Rightarrow> eh_dataSize f | None \<Rightarrow> 0)"

definition ext_chunked :: "Header \<Rightarrow> bool" where
  "ext_chunked header = (case hd_extendedHeader header of Some f \<Rightarrow> eh_chunked f | None \<Rightarrow> False)"

definition ext_chunkNumber :: "Header \<Rightarrow> int" where
  "ext_chunkNumber header = (case hd_extendedHeader header of Some f \<Rightarrow> eh_chunkNumber f | None \<Rightarrow> 0)"

definition ext_requestChunk :: "Header \<Rightarrow> bool" where
  "ext_requestChunk header =
     (case hd_extendedHeader header of Some f \<Rightarrow> eh_requestChunk f | None \<Rightarrow> False)"

definition size_errors :: "string \<Rightarrow> int \<Rightarrow> nat \<Rightarrow> bytes \<Rightarrow> parse_error list" where
  "size_errors name dataSize offset payload =
     (let dataEnd = int offset + dataSize in
      if int (length payload) < dataEnd
      then [PE_expected_bytes name dataSize (int (length payload) - int offset)] else [])"

definition data_block :: "int \<Rightarrow> nat \<Rightarrow> bytes \<Rightarrow> bytes" where
  "data_block dataSize offset payload =
     (let dataEnd = int offset + dataSize in
      sub_array payload offset (nat (min dataEnd (int (length payload)))))"

definition extended_body :: "Header \<Rightarrow> bytes \<Rightarrow> parse_error list \<Rightarrow> 'a \<Rightarrow> 'a ExtendedBody" where
  "extended_body header payload errors decoded =
     \<lparr>xm_rawPayload = drop (payload_offset header) payload, xm_dataSize = ext_dataSize header,
      xm_chunked = ext_chunked header, xm_chunkNumber = ext_chunkNumber header,
      xm_requestChunk = ext_requestChunk header, xm_parseErrors = errors, xm_decoded = decoded\<rparr>"

text \<open>A class that decodes its data block when it has a minimal length and leaves \<open>null\<close> otherwise.\<close>

definition block_or_null :: "nat \<Rightarrow> (bytes \<Rightarrow> usbpd_error + 'a) \<Rightarrow> bytes \<Rightarrow> usbpd_error + 'a option" where
  "block_or_null len parse dataBlock =
     (if length dataBlock \<ge> len then res_bind (parse dataBlock) (\<lambda>b. Inr (Some b)) else Inr None)"

text \<open>The constructor shared by the classes that report a short block and decode a value from it.\<close>

definition extended_message ::
  "MessageClass \<Rightarrow> string \<Rightarrow> (bytes \<Rightarrow> usbpd_error + 'a) \<Rightarrow> (bytes \<Rightarrow> parse_error list) \<Rightarrow>
   ('a ExtendedBody \<Rightarrow> message_body) \<Rightarrow> SOP \<Rightarrow> Header \<Rightarrow> bytes \<Rightarrow> string \<Rightarrow> usbpd_error + Message" where
  "extended_message cls name decode blockErrors mk sop header payload messageTypeName =
     (let offset = payload_offset header;
          errors = size_errors name (ext_dataSize header) offset payload;
          dataBlock = data_block (ext_dataSize header) offset payload
      in res_bind (decode dataBlock) (\<lambda>decoded.
           Inr (new_Message cls sop header payload messageTypeName
             (mk (extended_body header payload (errors @ blockErrors dataBlock) decoded)))))"

definition LEGACY_SCEDB_LENGTH :: nat where "LEGACY_SCEDB_LENGTH = 24"
definition USB_PD_3_2_SCEDB_LENGTH :: nat where "USB_PD_3_2_SCEDB_LENGTH = 25"
definition LEGACY_SKEDB_LENGTH :: nat where "LEGACY_SKEDB_LENGTH = 21"
definition USB_PD_3_2_SKEDB_LENGTH :: nat where "USB_PD_3_2_SKEDB_LENGTH = 24"
definition MIN_SOP_STATUS_LENGTH :: nat where "MIN_SOP_STATUS_LENGTH = 6"

lemmas block_lengths = LEGACY_SCEDB_LENGTH_def USB_PD_3_2_SCEDB_LENGTH_def
  LEGACY_SKEDB_LENGTH_def USB_PD_3_2_SKEDB_LENGTH_def MIN_SOP_STATUS_LENGTH_def

definition new_SourceCapabilitiesExtendedMessage :: "SOP \<Rightarrow> Header \<Rightarrow> bytes \<Rightarrow> string \<Rightarrow> usbpd_error + Message" where
  "new_SourceCapabilitiesExtendedMessage =
     extended_message SourceCapabilitiesExtendedMessage ''Source_Capabilities_Extended''
       (block_or_null LEGACY_SCEDB_LENGTH parseSourceCapabilitiesExtendedDataBlock)
       (\<lambda>dataBlock.
         if length dataBlock = LEGACY_SCEDB_LENGTH then
           [PE_text (''Legacy 24-byte Source Capabilities Extended Data Block: '' @
              ''missing EPR Source PDP Rating byte required by USB PD 3.2.'')]
         else if length dataBlock > LEGACY_SCEDB_LENGTH \<and> length dataBlock < USB_PD_3_2_SCEDB_LENGTH then
           [PE_expected_block ''Source_Capabilities_Extended'' (int USB_PD_3_2_SCEDB_LENGTH)
              (int (length dataBlock))]
         else []) Body_SourceCapabilitiesExtended"

definition new_StatusMessage :: "SOP \<Rightarrow> Header \<Rightarrow> bytes \<Rightarrow> string \<Rightarrow> usbpd_error + Message" where
  "new_StatusMessage sop header payload messageTypeName =
     extended_message StatusMessage ''Status message''
       (\<lambda>dataBlock. Inr
         (if sop_kind sop = K_SOP then
            \<lparr>st_sopStatusDataBlock =
               (if length dataBlock \<ge> MIN_SOP_STATUS_LENGTH
                then Some (parseSOPStatusDataBlock dataBlock) else None),
             st_sopPrimeStatusDataBlock = None\<rparr>
          else
            \<lparr>st_sopStatusDataBlock = None,
             st_sopPrimeStatusDataBlock =
               (if length dataBlock \<ge> 2 then Some (parseSOPPrimeStatusDataBlock dataBlock) else None)\<rparr>))
       (\<lambda>_. []) Body_Status sop header payload messageTypeName"

definition new_GetBatteryCapMessage :: "SOP \<Rightarrow> Header \<Rightarrow> bytes \<Rightarrow> string \<Rightarrow> usbpd_error + Message" where
  "new_GetBatteryCapMessage =
     extended_message GetBatteryCapMessage ''Get_Battery_Cap''
       (\<lambda>dataBlock. Inr (byte_opt dataBlock 0))
       (\<lambda>_. []) Body_GetBatteryCap"

definition new_GetBatteryStatusMessage :: "SOP \<Rightarrow> Header \<Rightarrow> bytes \<Rightarrow> string \<Rightarrow> usbpd_error + Message" where
  "new_GetBatteryStatusMessage =
     extended_message GetBatteryStatusMessage ''Get_Battery_Status''
       (\<lambda>dataBlock. Inr (byte_opt dataBlock 0))
       (\<lambda>_. []) Body_GetBatteryStatus"

definition new_BatteryCapabilitiesMessage :: "SOP \<Rightarrow> Header \<Rightarrow> bytes \<Rightarrow> string \<Rightarrow> usbpd_error + Message" where
  "new_BatteryCapabilitiesMessage =
     extended_message BatteryCapabilitiesMessage ''Battery_Capabilities''
       (block_or_null 9 parseBatteryCapabilitiesDataBlock)
       (\<lambda>_. []) Body_BatteryCapabilities"

definition RECOVERED_DATA_SIZE :: int where "RECOVERED_DATA_SIZE = 2"

definition new_GetManufacturerInfoMessage :: "SOP \<Rightarrow> Header \<Rightarrow> bytes \<Rightarrow> string \<Rightarrow> usbpd_error + Message" where
  "new_GetManufacturerInfoMessage sop header payload messageTypeName =
     (let offset = payload_offset header;
          recoveredZeroSize = isRecoverableZeroSizeGetManufacturerInfo header payload;
          effectiveDataSize = (if recoveredZeroSize then RECOVERED_DATA_SIZE else ext_dataSize header);
          errors =
            (if recoveredZeroSize then
               [PE_text (''Extended Header declares Data Size 0; recovered the required two-byte '' @
                  ''request block from the packet payload.'')]
             else []) @ size_errors ''Get_Manufacturer_Info'' effectiveDataSize offset payload;
          dataBlock = data_block effectiveDataSize offset payload
      in Inr (new_Message GetManufacturerInfoMessage sop header payload messageTypeName
           (Body_GetManufacturerInfo (extended_body header payload errors
             \<lparr>mr_manufacturerInfoTarget = byte_opt dataBlock 0,
              mr_manufacturerInfoRef = byte_opt dataBlock 1\<rparr>))))"

definition new_ManufacturerInfoMessage :: "SOP \<Rightarrow> Header \<Rightarrow> bytes \<Rightarrow> string \<Rightarrow> usbpd_error + Message" where
  "new_ManufacturerInfoMessage =
     extended_message ManufacturerInfoMessage ''Manufacturer_Info''
       (block_or_null 5 parseManufacturerInfoDataBlock)
       (\<lambda>_. []) Body_ManufacturerInfo"

definition new_SecurityRequestMessage :: "SOP \<Rightarrow> Header \<Rightarrow> bytes \<Rightarrow> string \<Rightarrow> usbpd_error + Message" where
  "new_SecurityRequestMessage =
     extended_message SecurityRequestMessage ''Security_Request''
       Inr
       (\<lambda>_. []) Body_SecurityRequest"

definition new_SecurityResponseMessage :: "SOP \<Rightarrow> Header \<Rightarrow> bytes \<Rightarrow> string \<Rightarrow> usbpd_error + Message" where
  "new_SecurityResponseMessage =
     extended_message SecurityResponseMessage ''Security_Response''
       Inr
       (\<lambda>_. []) Body_SecurityResponse"

definition new_FirmwareUpdateRequestMessage :: "SOP \<Rightarrow> Header \<Rightarrow> bytes \<Rightarrow> string \<Rightarrow> usbpd_error + Message" where
  "new_FirmwareUpdateRequestMessage =
     extended_message FirmwareUpdateRequestMessage ''Firmware_Update_Request''
       Inr
       (\<lambda>_. []) Body_FirmwareUpdateRequest"

definition new_FirmwareUpdateResponseMessage :: "SOP \<Rightarrow> Header \<Rightarrow> bytes \<Rightarrow> string \<Rightarrow> usbpd_error + Message" where
  "new_FirmwareUpdateResponseMessage =
     extended_message FirmwareUpdateResponseMessage ''Firmware_Update_Response''
       Inr
       (\<lambda>_. []) Body_FirmwareUpdateResponse"

definition CRC_LENGTH :: nat where "CRC_LENGTH = 4"
definition PPS_STATUS_DATA_LENGTH :: nat where "PPS_STATUS_DATA_LENGTH = 4"
definition CHUNKED_PPS_STATUS_PADDING_LENGTH :: nat where "CHUNKED_PPS_STATUS_PADDING_LENGTH = 2"

definition new_PPSStatusMessage :: "SOP \<Rightarrow> Header \<Rightarrow> bytes \<Rightarrow> string \<Rightarrow> usbpd_error + Message" where
  "new_PPSStatusMessage sop header payload messageTypeName =
     (let offset = payload_offset header;
          recoveredMalformedDataSize =
            (ext_chunked header \<and> ext_chunkNumber header = 0 \<and> \<not> ext_requestChunk header \<and>
             ext_dataSize header = 1 \<and> mh_numberOfDataObjects (hd_messageHeader header) = 2 \<and>
             length payload =
               offset + PPS_STATUS_DATA_LENGTH + CHUNKED_PPS_STATUS_PADDING_LENGTH + CRC_LENGTH \<and>
             byte_opt payload (offset + 4) = Some 0 \<and> byte_opt payload (offset + 5) = Some 0)
      in if recoveredMalformedDataSize then
           res_bind (parsePPSStatusDataBlock (sub_array payload offset (offset + PPS_STATUS_DATA_LENGTH)))
             (\<lambda>b. Inr (new_Message PPSStatusMessage sop header payload messageTypeName
               (Body_PPSStatus (extended_body header payload
                 [PE_text (''Malformed extended header: PPS_Status declared Data Size 1; '' @
                    ''decoded the 4-byte PPSSDB from the packet payload.'')] (Some b)))))
         else
           extended_message PPSStatusMessage ''PPS_Status''
             (block_or_null PPS_STATUS_DATA_LENGTH parsePPSStatusDataBlock)
             (\<lambda>_. []) Body_PPSStatus sop header payload messageTypeName)"

definition new_CountryInfoMessage :: "SOP \<Rightarrow> Header \<Rightarrow> bytes \<Rightarrow> string \<Rightarrow> usbpd_error + Message" where
  "new_CountryInfoMessage =
     extended_message CountryInfoMessage ''Country_Info''
       (block_or_null 4 (\<lambda>b. Inr (parseCountryInfoDataBlock b)))
       (\<lambda>_. []) Body_CountryInfo"

definition new_CountryCodesMessage :: "SOP \<Rightarrow> Header \<Rightarrow> bytes \<Rightarrow> string \<Rightarrow> usbpd_error + Message" where
  "new_CountryCodesMessage =
     extended_message CountryCodesMessage ''Country_Codes''
       (block_or_null 4 (\<lambda>b. Inr (parseCountryCodesDataBlock b)))
       (\<lambda>_. []) Body_CountryCodes"

definition new_SinkCapabilitiesExtendedMessage :: "SOP \<Rightarrow> Header \<Rightarrow> bytes \<Rightarrow> string \<Rightarrow> usbpd_error + Message" where
  "new_SinkCapabilitiesExtendedMessage =
     extended_message SinkCapabilitiesExtendedMessage ''Sink_Capabilities_Extended''
       (block_or_null LEGACY_SKEDB_LENGTH parseSinkCapabilitiesExtendedDataBlock)
       (\<lambda>dataBlock.
         if length dataBlock = LEGACY_SKEDB_LENGTH then
           [PE_text (''Legacy 21-byte Sink Capabilities Extended Data Block: '' @
              ''missing EPR Sink PDP bytes required by USB PD 3.2.'')]
         else if length dataBlock > LEGACY_SKEDB_LENGTH \<and> length dataBlock < USB_PD_3_2_SKEDB_LENGTH then
           [PE_expected_block ''Sink_Capabilities_Extended'' (int USB_PD_3_2_SKEDB_LENGTH)
              (int (length dataBlock))]
         else []) Body_SinkCapabilitiesExtended"

definition new_ExtendedControlMessage :: "SOP \<Rightarrow> Header \<Rightarrow> bytes \<Rightarrow> string \<Rightarrow> usbpd_error + Message" where
  "new_ExtendedControlMessage =
     extended_message ExtendedControlMessage ''Extended_Control''
       (block_or_null 2 (\<lambda>b. Inr (parseExtendedControlDataBlock b)))
       (\<lambda>_. []) Body_ExtendedControl"

text \<open>The capabilities of an EPR message are decoded only when the whole declared block is there.\<close>

definition epr_capabilities ::
  "pdo_context \<Rightarrow> Header \<Rightarrow> bytes \<Rightarrow> usbpd_error + EPRCapabilities" where
  "epr_capabilities ctx header payload =
     (let offset = payload_offset header;
          dataEnd = int offset + ext_dataSize header;
          payloadComplete = int (length payload) \<ge> dataEnd;
          dataBlock = data_block (ext_dataSize header) offset payload;
          pdoCount = (if payloadComplete then int (length dataBlock div 4) else 0)
      in res_bind (if pdoCount > 0 then readDataObjects dataBlock 0 pdoCount else Inr []) (\<lambda>rawPDOs.
           let decoded = map (\<lambda>raw. parsePDO raw ctx) rawPDOs in
           Inr \<lparr>ec_rawPDOs = rawPDOs, ec_sprPDOs = take 7 decoded, ec_eprPDOs = drop 7 decoded\<rparr>))"

definition new_EPRSourceCapabilitiesMessage :: "SOP \<Rightarrow> Header \<Rightarrow> bytes \<Rightarrow> string \<Rightarrow> usbpd_error + Message" where
  "new_EPRSourceCapabilitiesMessage sop header payload messageTypeName =
     extended_message EPRSourceCapabilitiesMessage ''EPR_Source_Capabilities'' (\<lambda>_. epr_capabilities CSource header payload)
       (\<lambda>_. []) Body_EPRSourceCapabilities sop header payload messageTypeName"

definition new_EPRSinkCapabilitiesMessage :: "SOP \<Rightarrow> Header \<Rightarrow> bytes \<Rightarrow> string \<Rightarrow> usbpd_error + Message" where
  "new_EPRSinkCapabilitiesMessage sop header payload messageTypeName =
     extended_message EPRSinkCapabilitiesMessage ''EPR_Sink_Capabilities'' (\<lambda>_. epr_capabilities CSink header payload)
       (\<lambda>_. []) Body_EPRSinkCapabilities sop header payload messageTypeName"

definition new_VendorDefinedExtendedMessage :: "SOP \<Rightarrow> Header \<Rightarrow> bytes \<Rightarrow> string \<Rightarrow> usbpd_error + Message" where
  "new_VendorDefinedExtendedMessage =
     extended_message VendorDefinedExtendedMessage ''Vendor_Defined_Extended''
       (\<lambda>dataBlock.
         if length dataBlock \<ge> 4 then
           res_bind (readUint32LE dataBlock 0) (\<lambda>vdmRaw.
             Inr \<lparr>ve_vdmHeader = Some (parseVDMHeader vdmRaw), ve_vendorData = drop 4 dataBlock\<rparr>)
         else Inr \<lparr>ve_vdmHeader = None, ve_vendorData = []\<rparr>)
       (\<lambda>_. []) Body_VendorDefinedExtended"

definition new_ReservedExtendedMessage :: "SOP \<Rightarrow> Header \<Rightarrow> bytes \<Rightarrow> string \<Rightarrow> usbpd_error + Message" where
  "new_ReservedExtendedMessage =
     extended_message ReservedExtendedMessage ''Reserved extended message''
       (\<lambda>_. Inr ())
       (\<lambda>_. []) Body_ReservedExtended"

section \<open>Message tables (message.ts)\<close>

record MessageTypeMapping =
  mt_name :: string
  mt_messageClass :: MessageClass

definition CONTROL_MESSAGE_TYPES :: "(int \<times> string \<times> MessageClass) list" where
  "CONTROL_MESSAGE_TYPES =
     [(0x00, ''Reserved'', ReservedControlMessage),
      (0x01, ''GoodCRC'', GoodCRCMessage),
      (0x02, ''GotoMin'', GotoMinMessage),
      (0x03, ''Accept'', AcceptMessage),
      (0x04, ''Reject'', RejectMessage),
      (0x05, ''Ping'', PingMessage),
      (0x06, ''PS_RDY'', PSRDYMessage),
      (0x07, ''Get_Source_Cap'', GetSourceCapMessage),
      (0x08, ''Get_Sink_Cap'', GetSinkCapMessage),
      (0x09, ''DR_Swap'', DRSwapMessage),
      (0x0a, ''PR_Swap'', PRSwapMessage),
      (0x0b, ''VCONN_Swap'', VCONNSwapMessage),
      (0x0c, ''Wait'', WaitMessage),
      (0x0d, ''Soft_Reset'', SoftResetMessage),
      (0x0e, ''Data_Reset'', DataResetMessage),
      (0x0f, ''Data_Reset_Complete'', DataResetCompleteMessage),
      (0x10, ''Not_Supported'', NotSupportedMessage),
      (0x11, ''Get_Source_Cap_Extended'', GetSourceCapExtendedMessage),
      (0x12, ''Get_Status'', GetStatusMessage),
      (0x13, ''FR_Swap'', FRSwapMessage),
      (0x14, ''Get_PPS_Status'', GetPPSStatusMessage),
      (0x15, ''Get_Country_Codes'', GetCountryCodesMessage),
      (0x16, ''Get_Sink_Cap_Extended'', GetSinkCapExtendedMessage),
      (0x17, ''Get_Source_Info'', GetSourceInfoMessage),
      (0x18, ''Get_Revision'', GetRevisionMessage)]"

definition DATA_MESSAGE_TYPES :: "(int \<times> string \<times> MessageClass) list" where
  "DATA_MESSAGE_TYPES =
     [(0x00, ''Reserved'', ReservedDataMessage),
      (0x01, ''Source_Capabilities'', SourceCapabilitiesMessage),
      (0x02, ''Request'', RequestMessage),
      (0x03, ''BIST'', BISTMessage),
      (0x04, ''Sink_Capabilities'', SinkCapabilitiesMessage),
      (0x05, ''Battery_Status'', BatteryStatusMessage),
      (0x06, ''Alert'', AlertMessage),
      (0x07, ''Get_Country_Info'', GetCountryInfoMessage),
      (0x08, ''Enter_USB'', EnterUSBMessage),
      (0x09, ''EPR_Request'', EPRRequestMessage),
      (0x0a, ''EPR_Mode'', EPRModeMessage),
      (0x0b, ''Source_Info'', SourceInfoMessage),
      (0x0c, ''Revision'', RevisionMessage),
      (0x0f, ''Vendor_Defined'', VendorDefinedMessage)]"

definition EXTENDED_MESSAGE_TYPES :: "(int \<times> string \<times> MessageClass) list" where
  "EXTENDED_MESSAGE_TYPES =
     [(0x00, ''Reserved'', ReservedExtendedMessage),
      (0x01, ''Source_Capabilities_Extended'', SourceCapabilitiesExtendedMessage),
      (0x02, ''Status'', StatusMessage),
      (0x03, ''Get_Battery_Cap'', GetBatteryCapMessage),
      (0x04, ''Get_Battery_Status'', GetBatteryStatusMessage),
      (0x05, ''Battery_Capabilities'', BatteryCapabilitiesMessage),
      (0x06, ''Get_Manufacturer_Info'', GetManufacturerInfoMessage),
      (0x07, ''Manufacturer_Info'', ManufacturerInfoMessage),
      (0x08, ''Security_Request'', SecurityRequestMessage),
      (0x09, ''Security_Response'', SecurityResponseMessage),
      (0x0a, ''Firmware_Update_Request'', FirmwareUpdateRequestMessage),
      (0x0b, ''Firmware_Update_Response'', FirmwareUpdateResponseMessage),
      (0x0c, ''PPS_Status'', PPSStatusMessage),
      (0x0d, ''Country_Info'', CountryInfoMessage),
      (0x0e, ''Country_Codes'', CountryCodesMessage),
      (0x0f, ''Sink_Capabilities_Extended'', SinkCapabilitiesExtendedMessage),
      (0x10, ''Extended_Control'', ExtendedControlMessage),
      (0x11, ''EPR_Source_Capabilities'', EPRSourceCapabilitiesMessage),
      (0x12, ''EPR_Sink_Capabilities'', EPRSinkCapabilitiesMessage),
      (0x1e, ''Vendor_Defined_Extended'', VendorDefinedExtendedMessage)]"

section \<open>The entry point (parser.ts)\<close>

definition resolveMessageType ::
  "(int \<times> string \<times> MessageClass) list \<Rightarrow> int \<Rightarrow> MessageClass \<Rightarrow> MessageTypeMapping" where
  "resolveMessageType mapping messageTypeNumber fallbackClass =
     (case map_of mapping messageTypeNumber of
        Some (name, cls) \<Rightarrow> \<lparr>mt_name = name, mt_messageClass = cls\<rparr>
      | None \<Rightarrow> \<lparr>mt_name = ''Reserved'', mt_messageClass = fallbackClass\<rparr>)"

text \<open>\<open>new messageClass(sop, header, payload, name)\<close>: control classes have no constructor of their
  own.\<close>

definition construct_message ::
  "MessageClass \<Rightarrow> SOP \<Rightarrow> Header \<Rightarrow> bytes \<Rightarrow> string \<Rightarrow> usbpd_error + Message" where
  "construct_message cls sop header payload name =
     (case cls of
        ReservedDataMessage \<Rightarrow> new_ReservedDataMessage sop header payload name
      | SourceCapabilitiesMessage \<Rightarrow> new_SourceCapabilitiesMessage sop header payload name
      | RequestMessage \<Rightarrow> new_RequestMessage sop header payload name
      | BISTMessage \<Rightarrow> new_BISTMessage sop header payload name
      | SinkCapabilitiesMessage \<Rightarrow> new_SinkCapabilitiesMessage sop header payload name
      | BatteryStatusMessage \<Rightarrow> new_BatteryStatusMessage sop header payload name
      | AlertMessage \<Rightarrow> new_AlertMessage sop header payload name
      | GetCountryInfoMessage \<Rightarrow> new_GetCountryInfoMessage sop header payload name
      | EnterUSBMessage \<Rightarrow> new_EnterUSBMessage sop header payload name
      | EPRRequestMessage \<Rightarrow> new_EPRRequestMessage sop header payload name
      | EPRModeMessage \<Rightarrow> new_EPRModeMessage sop header payload name
      | SourceInfoMessage \<Rightarrow> new_SourceInfoMessage sop header payload name
      | RevisionMessage \<Rightarrow> new_RevisionMessage sop header payload name
      | VendorDefinedMessage \<Rightarrow> new_VendorDefinedMessage sop header payload name
      | ReservedExtendedMessage \<Rightarrow> new_ReservedExtendedMessage sop header payload name
      | SourceCapabilitiesExtendedMessage \<Rightarrow> new_SourceCapabilitiesExtendedMessage sop header payload name
      | StatusMessage \<Rightarrow> new_StatusMessage sop header payload name
      | GetBatteryCapMessage \<Rightarrow> new_GetBatteryCapMessage sop header payload name
      | GetBatteryStatusMessage \<Rightarrow> new_GetBatteryStatusMessage sop header payload name
      | BatteryCapabilitiesMessage \<Rightarrow> new_BatteryCapabilitiesMessage sop header payload name
      | GetManufacturerInfoMessage \<Rightarrow> new_GetManufacturerInfoMessage sop header payload name
      | ManufacturerInfoMessage \<Rightarrow> new_ManufacturerInfoMessage sop header payload name
      | SecurityRequestMessage \<Rightarrow> new_SecurityRequestMessage sop header payload name
      | SecurityResponseMessage \<Rightarrow> new_SecurityResponseMessage sop header payload name
      | FirmwareUpdateRequestMessage \<Rightarrow> new_FirmwareUpdateRequestMessage sop header payload name
      | FirmwareUpdateResponseMessage \<Rightarrow> new_FirmwareUpdateResponseMessage sop header payload name
      | PPSStatusMessage \<Rightarrow> new_PPSStatusMessage sop header payload name
      | CountryInfoMessage \<Rightarrow> new_CountryInfoMessage sop header payload name
      | CountryCodesMessage \<Rightarrow> new_CountryCodesMessage sop header payload name
      | SinkCapabilitiesExtendedMessage \<Rightarrow> new_SinkCapabilitiesExtendedMessage sop header payload name
      | ExtendedControlMessage \<Rightarrow> new_ExtendedControlMessage sop header payload name
      | EPRSourceCapabilitiesMessage \<Rightarrow> new_EPRSourceCapabilitiesMessage sop header payload name
      | EPRSinkCapabilitiesMessage \<Rightarrow> new_EPRSinkCapabilitiesMessage sop header payload name
      | VendorDefinedExtendedMessage \<Rightarrow> new_VendorDefinedExtendedMessage sop header payload name
      | _ \<Rightarrow> Inr (new_Message cls sop header payload name Body_Control))"

record USBPDCaptureMetadata =
  cm_startTimestampUs :: "int option"
  cm_endTimestampUs :: "int option"

datatype parser_error =
    USBPDPayloadTooShort nat
  | ParserThrows usbpd_error

definition lift_error :: "usbpd_error + 'a \<Rightarrow> parser_error + 'a" where
  "lift_error r = (case r of Inl e \<Rightarrow> Inl (ParserThrows e) | Inr x \<Rightarrow> Inr x)"

definition parseUSBPDMessage ::
  "bytes \<Rightarrow> rat list option \<Rightarrow> USBPDCaptureMetadata option \<Rightarrow> parser_error + Message" where
  "parseUSBPDMessage decodedData pulseWidthsNs captureMetadata =
     (if length decodedData < SOP_LENGTH + 2 then Inl (USBPDPayloadTooShort (length decodedData))
      else
        let sopBytes = sub_array decodedData 0 SOP_LENGTH in
        res_bind (lift_error (new_SOP sopBytes)) (\<lambda>sop.
        res_bind (lift_error (new_Header decodedData sop)) (\<lambda>header.
          let messageTypeNumber = mh_messageTypeNumber (hd_messageHeader header);
              mapping =
                (case mh_messageKind (hd_messageHeader header) of
                   CONTROL \<Rightarrow>
                     resolveMessageType CONTROL_MESSAGE_TYPES messageTypeNumber ReservedControlMessage
                 | DATA \<Rightarrow> resolveMessageType DATA_MESSAGE_TYPES messageTypeNumber ReservedDataMessage
                 | EXTENDED \<Rightarrow>
                     resolveMessageType EXTENDED_MESSAGE_TYPES messageTypeNumber ReservedExtendedMessage)
          in
          res_bind (lift_error (construct_message (mt_messageClass mapping) sop header decodedData
              (mt_name mapping))) (\<lambda>message.
            Inr (setCaptureTimestamps
              (Option.bind captureMetadata cm_startTimestampUs)
              (Option.bind captureMetadata cm_endTimestampUs)
              (setPulseWidthsNs pulseWidthsNs message))))))"

end
