(* ===== verification/Pd_Message_Laws.thy ===== *)
theory Pd_Message_Laws
  imports Pd_Messages
begin

text \<open>
  What the message constructors and \<open>parseUSBPDMessage\<close> guarantee: no constructor throws, the parser
  throws exactly on a payload too short for its headers, the class and name come from the tables,
  and the data of capability messages survives a round trip.
\<close>

section \<open>No constructor throws\<close>

text \<open>The class a body belongs to; control classes add no fields.\<close>

fun class_of_body :: "message_body \<Rightarrow> MessageClass option" where
  "class_of_body Body_Control = None"
| "class_of_body (Body_SourceCapabilities _) = Some SourceCapabilitiesMessage"
| "class_of_body (Body_SinkCapabilities _) = Some SinkCapabilitiesMessage"
| "class_of_body (Body_Request _) = Some RequestMessage"
| "class_of_body (Body_EPRRequest _) = Some EPRRequestMessage"
| "class_of_body (Body_BIST _) = Some BISTMessage"
| "class_of_body (Body_BatteryStatus _) = Some BatteryStatusMessage"
| "class_of_body (Body_Alert _) = Some AlertMessage"
| "class_of_body (Body_GetCountryInfo _) = Some GetCountryInfoMessage"
| "class_of_body (Body_EnterUSB _) = Some EnterUSBMessage"
| "class_of_body (Body_EPRMode _) = Some EPRModeMessage"
| "class_of_body (Body_SourceInfo _) = Some SourceInfoMessage"
| "class_of_body (Body_Revision _) = Some RevisionMessage"
| "class_of_body (Body_VendorDefined _) = Some VendorDefinedMessage"
| "class_of_body (Body_ReservedData _) = Some ReservedDataMessage"
| "class_of_body (Body_SourceCapabilitiesExtended _) = Some SourceCapabilitiesExtendedMessage"
| "class_of_body (Body_Status _) = Some StatusMessage"
| "class_of_body (Body_GetBatteryCap _) = Some GetBatteryCapMessage"
| "class_of_body (Body_GetBatteryStatus _) = Some GetBatteryStatusMessage"
| "class_of_body (Body_BatteryCapabilities _) = Some BatteryCapabilitiesMessage"
| "class_of_body (Body_GetManufacturerInfo _) = Some GetManufacturerInfoMessage"
| "class_of_body (Body_ManufacturerInfo _) = Some ManufacturerInfoMessage"
| "class_of_body (Body_SecurityRequest _) = Some SecurityRequestMessage"
| "class_of_body (Body_SecurityResponse _) = Some SecurityResponseMessage"
| "class_of_body (Body_FirmwareUpdateRequest _) = Some FirmwareUpdateRequestMessage"
| "class_of_body (Body_FirmwareUpdateResponse _) = Some FirmwareUpdateResponseMessage"
| "class_of_body (Body_PPSStatus _) = Some PPSStatusMessage"
| "class_of_body (Body_CountryInfo _) = Some CountryInfoMessage"
| "class_of_body (Body_CountryCodes _) = Some CountryCodesMessage"
| "class_of_body (Body_SinkCapabilitiesExtended _) = Some SinkCapabilitiesExtendedMessage"
| "class_of_body (Body_ExtendedControl _) = Some ExtendedControlMessage"
| "class_of_body (Body_EPRSourceCapabilities _) = Some EPRSourceCapabilitiesMessage"
| "class_of_body (Body_EPRSinkCapabilities _) = Some EPRSinkCapabilitiesMessage"
| "class_of_body (Body_VendorDefinedExtended _) = Some VendorDefinedExtendedMessage"
| "class_of_body (Body_ReservedExtended _) = Some ReservedExtendedMessage"

definition built :: "MessageClass \<Rightarrow> SOP \<Rightarrow> Header \<Rightarrow> bytes \<Rightarrow> string \<Rightarrow> usbpd_error + Message \<Rightarrow> bool" where
  "built cls sop header payload name r \<longleftrightarrow>
     (\<exists>body. r = Inr (new_Message cls sop header payload name body) \<and>
        (case class_of_body body of
           Some c \<Rightarrow> c = cls
         | None \<Rightarrow> cls \<in> set (map (snd \<circ> snd) CONTROL_MESSAGE_TYPES)))"

lemma built_Inr [simp]:
  "class_of_body b = Some cls \<Longrightarrow>
   built cls sop header payload name (Inr (new_Message cls sop header payload name b))"
  by (auto simp: built_def)

lemma readDataObjects_available:
  assumes "cnt \<le> int (length (drop offset payload) div 4)"
  shows "readDataObjects payload offset cnt =
    Inr (map (\<lambda>i. le32_at payload (offset + i * 4)) [0..<nat cnt])"
proof -
  have "cnt \<le> 0 \<or> offset + nat cnt * 4 \<le> length payload"
    using assms by (simp add: nat_le_iff) linarith
  then show ?thesis
    by (auto simp: readDataObjects_def readDataObjects_loop_eq)
qed

lemma built_single_object:
  "(\<And>b. class_of_body (mk b) = Some cls) \<Longrightarrow> built cls sop header payload name
     (res_bind (single_object missing parse offset payload)
       (\<lambda>b. Inr (new_Message cls sop header payload name (mk b))))"
  by (simp add: single_object_def Let_def readDataObjects_available)

lemma built_extended_message:
  assumes "\<exists>x. decode (data_block (ext_dataSize header) (payload_offset header) payload) = Inr x"
    and "\<And>x. class_of_body (mk x) = Some cls"
  shows "built cls sop header payload name
    (extended_message cls txt decode errs mk sop header payload name)"
  using assms by (auto simp: extended_message_def Let_def)

lemma block_or_null_total:
  "(\<And>data. len \<le> length data \<Longrightarrow> \<exists>b. parse data = Inr b) \<Longrightarrow> \<exists>x. block_or_null len parse data = Inr x"
  by (fastforce simp: block_or_null_def)

lemma data_block_parsers_total:
  "20 \<le> length data \<Longrightarrow> \<exists>b. parseSourceCapabilitiesExtendedDataBlock data = Inr b"
  "14 \<le> length data \<Longrightarrow> \<exists>b. parseSinkCapabilitiesExtendedDataBlock data = Inr b"
  "8 \<le> length data \<Longrightarrow> \<exists>b. parseBatteryCapabilitiesDataBlock data = Inr b"
  "4 \<le> length data \<Longrightarrow> \<exists>b. parseManufacturerInfoDataBlock data = Inr b"
  "2 \<le> length data \<Longrightarrow> \<exists>b. parsePPSStatusDataBlock data = Inr b"
  by (simp_all add: parseSourceCapabilitiesExtendedDataBlock_def parseSinkCapabilitiesExtendedDataBlock_def
      parseBatteryCapabilitiesDataBlock_def parseManufacturerInfoDataBlock_def
      parsePPSStatusDataBlock_def readUint16LE_eq readUint32LE_eq Let_def)

lemma epr_capabilities_total: "\<exists>c. epr_capabilities ctx header payload = Inr c"
proof -
  let ?b = "data_block (ext_dataSize header) (payload_offset header) payload"
  have "readDataObjects ?b 0 (int (length ?b div 4)) =
      Inr (map (\<lambda>i. le32_at ?b (0 + i * 4)) [0..<nat (int (length ?b div 4))])"
    by (rule readDataObjects_available) simp
  then show ?thesis
    by (simp add: epr_capabilities_def Let_def)
qed

named_theorems built_rules \<open>each constructor returns a message of its class\<close>

lemma built_capabilities [built_rules]:
  "built SourceCapabilitiesMessage s h p n (new_SourceCapabilitiesMessage s h p n)"
  "built SinkCapabilitiesMessage s h p n (new_SinkCapabilitiesMessage s h p n)"
  by (simp_all add: new_SourceCapabilitiesMessage_def new_SinkCapabilitiesMessage_def Let_def
      readDataObjects_available)

lemma built_requests [built_rules]:
  "built RequestMessage s h p n (new_RequestMessage s h p n)"
  "built EPRRequestMessage s h p n (new_EPRRequestMessage s h p n)"
  by (simp_all add: new_RequestMessage_def new_EPRRequestMessage_def Let_def readDataObjects_available)

lemma built_objects [built_rules]:
  "built BISTMessage s h p n (new_BISTMessage s h p n)"
  "built ReservedDataMessage s h p n (new_ReservedDataMessage s h p n)"
  "built VendorDefinedMessage s h p n (new_VendorDefinedMessage s h p n)"
  by (simp_all add: new_BISTMessage_def new_ReservedDataMessage_def new_VendorDefinedMessage_def Let_def
      readDataObjects_available)

lemma built_single [built_rules]:
  "built BatteryStatusMessage s h p n (new_BatteryStatusMessage s h p n)"
  "built AlertMessage s h p n (new_AlertMessage s h p n)"
  "built GetCountryInfoMessage s h p n (new_GetCountryInfoMessage s h p n)"
  "built EnterUSBMessage s h p n (new_EnterUSBMessage s h p n)"
  "built EPRModeMessage s h p n (new_EPRModeMessage s h p n)"
  "built SourceInfoMessage s h p n (new_SourceInfoMessage s h p n)"
  "built RevisionMessage s h p n (new_RevisionMessage s h p n)"
  unfolding new_BatteryStatusMessage_def new_AlertMessage_def new_GetCountryInfoMessage_def
    new_EnterUSBMessage_def new_EPRModeMessage_def new_SourceInfoMessage_def new_RevisionMessage_def
  by (rule built_single_object, simp)+

lemma built_blocks [built_rules]:
  "built SourceCapabilitiesExtendedMessage s h p n (new_SourceCapabilitiesExtendedMessage s h p n)"
  "built SinkCapabilitiesExtendedMessage s h p n (new_SinkCapabilitiesExtendedMessage s h p n)"
  "built BatteryCapabilitiesMessage s h p n (new_BatteryCapabilitiesMessage s h p n)"
  "built ManufacturerInfoMessage s h p n (new_ManufacturerInfoMessage s h p n)"
  unfolding new_SourceCapabilitiesExtendedMessage_def new_SinkCapabilitiesExtendedMessage_def
    new_BatteryCapabilitiesMessage_def new_ManufacturerInfoMessage_def
  by (rule built_extended_message, rule block_or_null_total,
      use data_block_parsers_total in \<open>simp add: block_lengths\<close>, simp)+

lemma built_blocks_total [built_rules]:
  "built CountryInfoMessage s h p n (new_CountryInfoMessage s h p n)"
  "built CountryCodesMessage s h p n (new_CountryCodesMessage s h p n)"
  "built ExtendedControlMessage s h p n (new_ExtendedControlMessage s h p n)"
  "built GetBatteryCapMessage s h p n (new_GetBatteryCapMessage s h p n)"
  "built GetBatteryStatusMessage s h p n (new_GetBatteryStatusMessage s h p n)"
  "built StatusMessage s h p n (new_StatusMessage s h p n)"
  "built ReservedExtendedMessage s h p n (new_ReservedExtendedMessage s h p n)"
  unfolding new_CountryInfoMessage_def new_CountryCodesMessage_def new_ExtendedControlMessage_def
    new_GetBatteryCapMessage_def new_GetBatteryStatusMessage_def new_StatusMessage_def
    new_ReservedExtendedMessage_def
  by (rule built_extended_message, simp add: block_or_null_def, simp)+

lemma built_raw_blocks [built_rules]:
  "built SecurityRequestMessage s h p n (new_SecurityRequestMessage s h p n)"
  "built SecurityResponseMessage s h p n (new_SecurityResponseMessage s h p n)"
  "built FirmwareUpdateRequestMessage s h p n (new_FirmwareUpdateRequestMessage s h p n)"
  "built FirmwareUpdateResponseMessage s h p n (new_FirmwareUpdateResponseMessage s h p n)"
  "built EPRSourceCapabilitiesMessage s h p n (new_EPRSourceCapabilitiesMessage s h p n)"
  "built EPRSinkCapabilitiesMessage s h p n (new_EPRSinkCapabilitiesMessage s h p n)"
  unfolding new_SecurityRequestMessage_def new_SecurityResponseMessage_def
    new_FirmwareUpdateRequestMessage_def new_FirmwareUpdateResponseMessage_def
    new_EPRSourceCapabilitiesMessage_def new_EPRSinkCapabilitiesMessage_def
  by (rule built_extended_message, simp add: epr_capabilities_total, simp)+

lemma built_special [built_rules]:
  "built GetManufacturerInfoMessage s h p n (new_GetManufacturerInfoMessage s h p n)"
  "built PPSStatusMessage s h p n (new_PPSStatusMessage s h p n)"
  "built VendorDefinedExtendedMessage s h p n (new_VendorDefinedExtendedMessage s h p n)"
proof -
  show "built GetManufacturerInfoMessage s h p n (new_GetManufacturerInfoMessage s h p n)"
    by (simp add: new_GetManufacturerInfoMessage_def Let_def)
  have e: "built PPSStatusMessage s h p n (extended_message PPSStatusMessage ''PPS_Status''
      (block_or_null PPS_STATUS_DATA_LENGTH parsePPSStatusDataBlock) (\<lambda>_. []) Body_PPSStatus s h p n)"
    by (rule built_extended_message, rule block_or_null_total)
      (use data_block_parsers_total(5) in \<open>simp_all add: PPS_STATUS_DATA_LENGTH_def\<close>)
  show "built PPSStatusMessage s h p n (new_PPSStatusMessage s h p n)"
    using e data_block_parsers_total(5)
      [of "sub_array p (payload_offset h) (payload_offset h + PPS_STATUS_DATA_LENGTH)"]
    by (auto simp: new_PPSStatusMessage_def Let_def PPS_STATUS_DATA_LENGTH_def CRC_LENGTH_def
        CHUNKED_PPS_STATUS_PADDING_LENGTH_def)
  show "built VendorDefinedExtendedMessage s h p n (new_VendorDefinedExtendedMessage s h p n)"
    unfolding new_VendorDefinedExtendedMessage_def
    by (rule built_extended_message) (simp_all add: readUint32LE_eq)
qed

lemma built_control:
  "cls \<in> set (map (snd \<circ> snd) CONTROL_MESSAGE_TYPES) \<Longrightarrow>
   built cls s h p n (Inr (new_Message cls s h p n Body_Control))"
  unfolding built_def by (intro exI[of _ Body_Control] conjI) simp_all

lemma construct_message_built: "built cls s h p n (construct_message cls s h p n)"
  by (cases cls)
    (simp_all add: construct_message_def built_rules built_control CONTROL_MESSAGE_TYPES_def)

section \<open>The entry point\<close>

definition kind_table :: "MessageKind \<Rightarrow> (int \<times> string \<times> MessageClass) list" where
  "kind_table kind =
     (case kind of CONTROL \<Rightarrow> CONTROL_MESSAGE_TYPES | DATA \<Rightarrow> DATA_MESSAGE_TYPES
      | EXTENDED \<Rightarrow> EXTENDED_MESSAGE_TYPES)"

definition reserved_class :: "MessageKind \<Rightarrow> MessageClass" where
  "reserved_class kind =
     (case kind of CONTROL \<Rightarrow> ReservedControlMessage | DATA \<Rightarrow> ReservedDataMessage
      | EXTENDED \<Rightarrow> ReservedExtendedMessage)"

text \<open>The message the parser builds before it copies the capture data.\<close>

definition decoded_message :: "bytes \<Rightarrow> SOP \<Rightarrow> Header \<Rightarrow> usbpd_error + Message" where
  "decoded_message d sop header =
     (let kind = mh_messageKind (hd_messageHeader header);
          mapping = resolveMessageType (kind_table kind)
            (mh_messageTypeNumber (hd_messageHeader header)) (reserved_class kind)
      in construct_message (mt_messageClass mapping) sop header d (mt_name mapping))"

lemma decoded_message_Inr: "\<exists>m. decoded_message d sop header = Inr m"
  using construct_message_built by (fastforce simp: decoded_message_def Let_def built_def)

lemma kind_mapping:
  "(case k of CONTROL \<Rightarrow> resolveMessageType CONTROL_MESSAGE_TYPES n ReservedControlMessage
    | DATA \<Rightarrow> resolveMessageType DATA_MESSAGE_TYPES n ReservedDataMessage
    | EXTENDED \<Rightarrow> resolveMessageType EXTENDED_MESSAGE_TYPES n ReservedExtendedMessage) =
   resolveMessageType (kind_table k) n (reserved_class k)"
  by (cases k) (simp_all add: kind_table_def reserved_class_def)

lemma resolveMessageType_class:
  "mt_messageClass (resolveMessageType t n f) \<in> insert f ((\<lambda>e. snd (snd e)) ` set t)"
proof (cases "map_of t n")
  case (Some e)
  then have "(n, e) \<in> set t" by (rule map_of_SomeD)
  then have "snd e \<in> (\<lambda>e. snd (snd e)) ` set t" by force
  with Some show ?thesis by (cases e) (simp add: resolveMessageType_def)
qed (simp add: resolveMessageType_def)

lemma epr_class_extended:
  "mt_messageClass (resolveMessageType (kind_table k) n (reserved_class k)) = EPRSourceCapabilitiesMessage \<Longrightarrow> k = EXTENDED"
proof -
  have "EPRSourceCapabilitiesMessage \<notin> insert (reserved_class k) ((\<lambda>e. snd (snd e)) ` set (kind_table k))" if "k \<noteq> EXTENDED"
    using that by (cases k) (simp_all add: kind_table_def reserved_class_def CONTROL_MESSAGE_TYPES_def DATA_MESSAGE_TYPES_def)
  then show "mt_messageClass (resolveMessageType (kind_table k) n (reserved_class k)) = EPRSourceCapabilitiesMessage \<Longrightarrow> k = EXTENDED"
    by (metis resolveMessageType_class)
qed

lemma request_class_not_extended:
  "mt_messageClass (resolveMessageType (kind_table EXTENDED) n (reserved_class EXTENDED)) \<noteq> RequestMessage"
proof -
  have "RequestMessage \<notin> insert (reserved_class EXTENDED) ((\<lambda>e. snd (snd e)) ` set (kind_table EXTENDED))"
    by (simp add: kind_table_def reserved_class_def EXTENDED_MESSAGE_TYPES_def)
  then show ?thesis by (metis resolveMessageType_class)
qed

lemma parseUSBPDMessage_eq:
  "parseUSBPDMessage d pw md =
     (if length d < 6 then Inl (USBPDPayloadTooShort (length d))
      else
        let sop = \<lparr>sop_bytes = take 4 d, sop_kind = decodeSOPKind (take 4 d)\<rparr> in
        case new_Header d sop of
          Inl e \<Rightarrow> Inl (ParserThrows e)
        | Inr header \<Rightarrow>
            Inr (setCaptureTimestamps (Option.bind md cm_startTimestampUs)
              (Option.bind md cm_endTimestampUs)
              (setPulseWidthsNs pw (projr (decoded_message d sop header)))))"
proof (cases "length d < 6")
  case False
  let ?sop = "\<lparr>sop_bytes = take 4 d, sop_kind = decodeSOPKind (take 4 d)\<rparr>"
  have sop: "new_SOP (sub_array d 0 SOP_LENGTH) = Inr ?sop"
    using False by (simp add: new_SOP_def sub_array_def)
  show ?thesis
  proof (cases "new_Header d ?sop")
    case (Inl e)
    with False sop show ?thesis
      by (simp add: parseUSBPDMessage_def lift_error_def)
  next
    case (Inr header)
    obtain m where m: "decoded_message d ?sop header = Inr m"
      using decoded_message_Inr by blast
    with False sop Inr show ?thesis
      by (simp add: parseUSBPDMessage_def lift_error_def kind_mapping decoded_message_def Let_def)
  qed
qed (simp add: parseUSBPDMessage_def)

lemma parseUSBPDMessage_Inr:
  assumes "6 \<le> length d" "byte_at d 5 < 128 \<or> 8 \<le> length d"
  shows "\<exists>m. parseUSBPDMessage d pw md = Inr m"
  using assms new_Header_eq[of d] parse_message_header_extended[of _ d 4]
  by (auto simp: parseUSBPDMessage_eq Let_def)

text \<open>C13: parsing a captured packet fails only for a packet too short for its headers: fewer than six
  bytes, or fewer than eight when the header announces an extended message. On every other input,
  however malformed, some message is returned: no message constructor throws, and no read of a
  data object or data block is out of range.\<close>

theorem parseUSBPDMessage_total:
  "parseUSBPDMessage d pw md =
     (if length d < 6 then Inl (USBPDPayloadTooShort (length d))
      else if byte_at d 5 \<ge> 128 \<and> length d < 8 then Inl (ParserThrows MissingExtendedHeader)
      else Inr (projr (parseUSBPDMessage d pw md)))"
  using parse_message_header_extended[of "decodeSOPKind (take 4 d)" d 4]
  by (simp add: parseUSBPDMessage_eq new_Header_eq Let_def)

lemma parseUSBPDMessage_InrD:
  assumes "parseUSBPDMessage d pw md = Inr m"
  obtains header body where
    "new_Header d \<lparr>sop_bytes = take 4 d, sop_kind = decodeSOPKind (take 4 d)\<rparr> = Inr header"
    "m_body m = body" "m_header m = header" "m_payload m = d" "m_capturePayload m = d"
    "m_sop m = \<lparr>sop_bytes = take 4 d, sop_kind = decodeSOPKind (take 4 d)\<rparr>"
    "m_kind m = mh_messageKind (hd_messageHeader header)"
    "m_messageTypeNumber m = mh_messageTypeNumber (hd_messageHeader header)"
    "m_payloadOffset m = payload_offset header"
    "m_pulseWidthsNs m = (case pw of Some ws \<Rightarrow> ws | None \<Rightarrow> [])"
    "m_startTimestampUs m = Option.bind md cm_startTimestampUs"
    "m_endTimestampUs m = Option.bind md cm_endTimestampUs" "m_wallClockUs m = None"
    "\<lparr>mt_name = m_messageTypeName m, mt_messageClass = m_class m\<rparr> =
       resolveMessageType (kind_table (m_kind m)) (m_messageTypeNumber m) (reserved_class (m_kind m))"
    "construct_message (m_class m) (m_sop m) header d (m_messageTypeName m) =
       Inr (new_Message (m_class m) (m_sop m) header d (m_messageTypeName m) body)"
    "(case class_of_body body of Some c \<Rightarrow> c = m_class m
      | None \<Rightarrow> m_class m \<in> set (map (snd \<circ> snd) CONTROL_MESSAGE_TYPES))"
proof -
  let ?sop = "\<lparr>sop_bytes = take 4 d, sop_kind = decodeSOPKind (take 4 d)\<rparr>"
  obtain header where h: "new_Header d ?sop = Inr header"
    and m: "m = setCaptureTimestamps (Option.bind md cm_startTimestampUs)
      (Option.bind md cm_endTimestampUs)
      (setPulseWidthsNs pw (projr (decoded_message d ?sop header)))"
    using assms by (auto simp: parseUSBPDMessage_eq Let_def split: if_splits sum.splits)
  let ?k = "mh_messageKind (hd_messageHeader header)"
  let ?map = "resolveMessageType (kind_table ?k) (mh_messageTypeNumber (hd_messageHeader header))
    (reserved_class ?k)"
  obtain body where b: "construct_message (mt_messageClass ?map) ?sop header d (mt_name ?map) =
      Inr (new_Message (mt_messageClass ?map) ?sop header d (mt_name ?map) body)"
    and c: "case class_of_body body of Some c \<Rightarrow> c = mt_messageClass ?map
      | None \<Rightarrow> mt_messageClass ?map \<in> set (map (snd \<circ> snd) CONTROL_MESSAGE_TYPES)"
    using construct_message_built unfolding built_def by blast
  have m': "m = (new_Message (mt_messageClass ?map) ?sop header d (mt_name ?map) body)
      \<lparr>m_pulseWidthsNs := (case pw of Some ws \<Rightarrow> ws | None \<Rightarrow> []),
       m_startTimestampUs := Option.bind md cm_startTimestampUs,
       m_endTimestampUs := Option.bind md cm_endTimestampUs\<rparr>"
    using m b
    by (simp add: decoded_message_def Let_def setCaptureTimestamps_def setPulseWidthsNs_def)
  then have "m_class m = mt_messageClass ?map"
    by (simp add: new_Message_def)
  note c' = c [folded this]
  show thesis
    by (rule that[OF h, of body]) (use b c' in \<open>simp_all only: c', simp_all add: m' new_Message_def\<close>)
qed

text \<open>A parsed message is an object of the class its header names. The kind and type number are
  those of the header read from the packet; class and name are the entry of the kind's table for
  that number, or the kind's reserved class under the name \<open>Reserved\<close> when the table has none; the
  packet is kept unchanged and the capture data is copied from the arguments.\<close>

lemma parseUSBPDMessage_dispatch:
  assumes "parseUSBPDMessage d pw md = Inr m"
  shows "(if m_messageTypeNumber m \<in> set (map fst (kind_table (m_kind m)))
      then (m_messageTypeNumber m, m_messageTypeName m, m_class m) \<in> set (kind_table (m_kind m))
      else m_messageTypeName m = ''Reserved'' \<and> m_class m = reserved_class (m_kind m)) \<and>
    m_kind m = mh_messageKind (hd_messageHeader (m_header m)) \<and>
    m_messageTypeNumber m = le_val (sub_array d 4 6) mod 32 \<and>
    sop_kind (m_sop m) = decodeSOPKind (take 4 d) \<and> hd_sop (m_header m) = m_sop m \<and>
    m_payload m = d \<and> m_capturePayload m = d \<and>
    m_startTimestampUs m = Option.bind md cm_startTimestampUs \<and>
    m_endTimestampUs m = Option.bind md cm_endTimestampUs \<and> m_wallClockUs m = None"
proof -
  from assms show ?thesis
  proof (rule parseUSBPDMessage_InrD, goal_cases)
    case (1 header body)
    have r: "if n \<in> set (map fst t) then (n, name, c) \<in> set t
        else name = ''Reserved'' \<and> c = f"
      if "\<lparr>mt_name = name, mt_messageClass = c\<rparr> = resolveMessageType t n f" for n name c t f
    proof (cases "map_of t n")
      case None
      with that show ?thesis
        by (simp add: resolveMessageType_def map_of_eq_None_iff)
    next
      case (Some e)
      then have "(n, e) \<in> set t"
        by (rule map_of_SomeD)
      moreover from this have "n \<in> set (map fst t)"
        by force
      ultimately show ?thesis
        using that Some by (cases e) (simp add: resolveMessageType_def)
    qed
    have n: "mh_messageTypeNumber (hd_messageHeader header) = le_val (sub_array d 4 6) mod 32"
      using new_Header_le16 [OF 1(1)] by simp
    show ?case
      using 1 r [OF 1(14)] n new_Header_sop [OF 1(1)] by simp
  qed
qed

section \<open>Capability messages\<close>

text \<open>A data packet: a port's ordered set, the message header, the words of the data objects and the
  trailing bytes (the CRC of a captured packet).\<close>

definition data_packet :: "int \<Rightarrow> int list \<Rightarrow> bytes \<Rightarrow> bytes" where
  "data_packet hw words crc =
     [0x18, 0x18, 0x18, 0x11] @ le_bytes 2 hw @ concat (map (le_bytes 4) words) @ crc"

lemma le32s_of_words:
  "offset = length pre \<Longrightarrow>
   map (\<lambda>i. le32_at (pre @ concat (map (le_bytes 4) ws) @ post) (offset + i * 4)) [0..<length ws] =
     map (\<lambda>w. w mod 2 ^ 32) ws"
proof (induction ws arbitrary: pre offset)
  case (Cons w ws)
  let ?bs = "pre @ le_bytes 4 w @ concat (map (le_bytes 4) ws) @ post"
  have head: "le32_at ?bs offset = w mod 2 ^ 32"
    using le32_at_le_val[of offset ?bs] Cons.prems le_val_le_bytes[of 4 w]
    by (simp add: sub_array_def)
  have "map (\<lambda>i. le32_at ((pre @ le_bytes 4 w) @ concat (map (le_bytes 4) ws) @ post)
      (offset + 4 + i * 4)) [0..<length ws] = map (\<lambda>w. w mod 2 ^ 32) ws"
    by (rule Cons.IH) (simp add: Cons.prems)
  then have "map (\<lambda>i. le32_at ?bs (offset + i * 4)) (map Suc [0..<length ws]) = map (\<lambda>w. w mod 2 ^ 32) ws"
    by (simp add: comp_def add.assoc del: map_Suc_upt)
  with head show ?case
    by (simp add: upt_conv_Cons map_Suc_upt del: upt_Suc)
qed simp

lemma length_concat_words [simp]: "length (concat (map (le_bytes 4) ws)) = 4 * length ws"
  by (induction ws) auto

lemma header_bits:
  "raw div 32768 mod 2 = bits_of raw 15 1" "raw div 4096 mod 8 = bits_of raw 12 3"
  "raw div 512 mod 8 = bits_of raw 9 3" "raw div 256 mod 2 = bits_of raw 8 1"
  "raw div 64 mod 4 = bits_of raw 6 2" "raw div 32 mod 2 = bits_of raw 5 1"
  "raw mod 32 = bits_of raw 0 5"
  by (simp_all add: bits_of_def)

lemma new_Header_data_packet:
  assumes "0 \<le> hw" "hw < 2 ^ 16" "bits_of hw 15 1 = 0"
  shows "\<exists>h. new_Header (data_packet hw words crc) sop = Inr h \<and>
    hd_messageHeader h = parse_message_header (sop_kind sop) hw \<and>
    \<not> mh_extended (hd_messageHeader h)"
proof -
  have "le_val (sub_array (data_packet hw words crc) 4 6) = hw mod 256 ^ 2"
    using le_val_le_bytes[of 2 hw] by (simp add: data_packet_def sub_array_def del: le_bytes.simps)
  then have r: "le16_at (data_packet hw words crc) 4 = hw"
    using assms le_val_sub_array_2[of 4 "data_packet hw words crc"]
    by (simp add: data_packet_def)
  have x: "\<not> mh_extended (parse_message_header (sop_kind sop) hw)"
    using assms(3) parse_message_header_arith [OF assms(1,2), of "sop_kind sop"]
    by (simp add: Let_def header_bits)
  show ?thesis
    by (simp add: new_Header_eq r x Let_def) (simp add: data_packet_def)
qed

text \<open>A Source_Capabilities packet decodes to the capabilities it was built from. For up to seven
  well-formed supply objects, any message header that announces a data message of type 1 with that
  many objects, and any trailing CRC bytes, the parser returns a Source_Capabilities message whose
  decoded objects are the given ones (their \<open>raw\<close> field set to their words), with no parse error
  and without taking the CRC for an object.\<close>

lemma source_capabilities_roundtrip:
  assumes "list_all (wf_pdo CSource) pdos" "pdos \<noteq> []" "length pdos \<le> 7"
    and "0 \<le> hw" "hw < 2 ^ 16" "bits_of hw 15 1 = 0" "bits_of hw 12 3 = int (length pdos)"
    and "bits_of hw 0 5 = 1"
  shows "\<exists>m c. parseUSBPDMessage (data_packet hw (map (pdo_word 0) pdos) crc) pw md = Inr m \<and>
    m_class m = SourceCapabilitiesMessage \<and> m_body m = Body_SourceCapabilities c \<and>
    sc_decodedPDOs c = map (\<lambda>p. pdo_with_raw (pdo_word 0 p) p) pdos \<and> sc_parseErrors c = []"
proof -
  let ?d = "data_packet hw (map (pdo_word 0) pdos) crc"
  let ?sop = "\<lparr>sop_bytes = take 4 ?d, sop_kind = decodeSOPKind (take 4 ?d)\<rparr>"
  obtain h where h: "new_Header ?d ?sop = Inr h" "\<not> mh_extended (hd_messageHeader h)"
      "hd_messageHeader h = parse_message_header (decodeSOPKind (take 4 ?d)) hw"
    using new_Header_data_packet [OF assms(4,5,6)] by fastforce
  have f: "mh_messageKind (hd_messageHeader h) = DATA" "mh_messageTypeNumber (hd_messageHeader h) = 1"
    "mh_numberOfDataObjects (hd_messageHeader h) = int (length pdos)"
    unfolding h(3) parse_message_header_arith [OF assms(4,5)] header_bits
    using assms by (simp_all add: Let_def)
  have off: "payload_offset h = 6"
    using h(2) by (simp add: payload_offset_def)
  have len: "length ?d = 6 + 4 * length pdos + length crc"
    using length_concat_words[of "map (pdo_word 0) pdos"] by (simp add: data_packet_def)
  have words: "map (\<lambda>i. le32_at ?d (6 + i * 4)) [0..<length pdos] = map (pdo_word 0) pdos"
  proof -
    have "map (\<lambda>i. le32_at ?d (6 + i * 4)) [0..<length pdos] =
        map (\<lambda>w. w mod 2 ^ 32) (map (pdo_word 0) pdos)"
      using le32s_of_words[of 6 "[0x18, 0x18, 0x18, 0x11] @ le_bytes 2 hw" "map (pdo_word 0) pdos" crc]
      by (simp add: data_packet_def)
    moreover have "pdo_word 0 p mod 2 ^ 32 = pdo_word 0 p" for p
      by (rule pdo_word_mod)
    ultimately show ?thesis
      by simp
  qed
  have rd: "readDataObjects ?d 6 (int (length pdos)) = Inr (map (pdo_word 0) pdos)"
    using readDataObjects_available[of "int (length pdos)" 6 ?d] words len by simp
  have "map (\<lambda>raw. parsePDO raw CSource) (map (pdo_word 0) pdos) =
      map (\<lambda>p. pdo_with_raw (pdo_word 0 p) p) pdos"
    using assms(1) by (auto simp: list_all_iff parsePDO_encoded)
  moreover have "decoded_message ?d ?sop h = new_SourceCapabilitiesMessage ?sop h ?d ''Source_Capabilities''"
    using f by (simp add: decoded_message_def Let_def kind_table_def resolveMessageType_def
        DATA_MESSAGE_TYPES_def construct_message_def)
  ultimately show ?thesis
    using h(1) f off len rd
    by (simp add: parseUSBPDMessage_eq Let_def new_SourceCapabilitiesMessage_def
        setCaptureTimestamps_def setPulseWidthsNs_def new_Message_def
        nat_add_distrib)
qed

text \<open>The data block of an extended message, inside the payload.\<close>

lemma data_block_complete:
  "0 \<le> sz \<Longrightarrow> int offset + sz \<le> int (length payload) \<Longrightarrow>
   data_block sz offset payload = sub_array payload offset (offset + nat sz)"
  by (simp add: data_block_def Let_def min_def nat_add_distrib)

lemma epr_capabilities_eq:
  assumes "0 \<le> ext_dataSize header"
  shows "epr_capabilities ctx header payload =
    (let off = payload_offset header; sz = nat (ext_dataSize header);
         raws = (if off + sz \<le> length payload
                 then map (\<lambda>i. le32_at payload (off + i * 4)) [0..<sz div 4] else []);
         pdos = map (\<lambda>raw. parsePDO raw ctx) raws
     in Inr \<lparr>ec_rawPDOs = raws, ec_sprPDOs = take 7 pdos, ec_eprPDOs = drop 7 pdos\<rparr>)"
proof (cases "payload_offset header + nat (ext_dataSize header) \<le> length payload")
  case True
  let ?off = "payload_offset header" and ?size = "nat (ext_dataSize header)"
  let ?b = "sub_array payload ?off (?off + ?size)"
  have b: "data_block (ext_dataSize header) ?off payload = ?b" and len: "length ?b = ?size"
    using True assms by (simp_all add: data_block_complete)
  have le: "le32_at ?b (0 + i * 4) = le32_at payload (?off + i * 4)" if "i < ?size div 4" for i
  proof -
    have "i * 4 + 3 < ?size"
      using that by linarith
    then show ?thesis
      using True by (simp add: le32_at_def le16_at_def byte_at_sub_array add.assoc)
  qed
  then have m: "map (\<lambda>i. le32_at ?b (0 + i * 4)) [0..<?size div 4] =
      map (\<lambda>i. le32_at payload (?off + i * 4)) [0..<?size div 4]"
    by (intro map_cong) auto
  have rd: "readDataObjects ?b 0 (int (?size div 4)) =
      Inr (map (\<lambda>i. le32_at payload (?off + i * 4)) [0..<?size div 4])"
    using readDataObjects_available[of "int (?size div 4)" 0 ?b] len m by simp
  have "int (length payload) \<ge> int ?off + ext_dataSize header"
    using True assms by simp
  with rd b len True show ?thesis
    by (cases "?size div 4 = 0") (simp_all add: epr_capabilities_def Let_def)
next
  case False
  then have "\<not> int (length payload) \<ge> int (payload_offset header) + ext_dataSize header"
    using assms by simp
  with False show ?thesis
    by (simp add: epr_capabilities_def Let_def)
qed

text \<open>An EPR_Source_Capabilities message splits the objects of its data block without losing one.
  When the declared block is inside the packet, its raw words are the little-endian words of the
  block in order, the first seven decode to the SPR objects and the rest to the EPR objects, and no
  error is reported; when the block is cut off no object is decoded and the shortfall is reported.\<close>

lemma epr_source_capabilities_split:
  assumes "parseUSBPDMessage d pw md = Inr m" "m_body m = Body_EPRSourceCapabilities x"
  shows "let size = nat (xm_dataSize x); c = xm_decoded x in
    ec_rawPDOs c = (if 8 + size \<le> length d
      then map (\<lambda>i. le_val (sub_array d (8 + i * 4) (8 + i * 4 + 4))) [0..<size div 4] else []) \<and>
    ec_sprPDOs c @ ec_eprPDOs c = map (\<lambda>raw. parsePDO raw CSource) (ec_rawPDOs c) \<and>
    length (ec_sprPDOs c) = min 7 (length (ec_rawPDOs c)) \<and>
    xm_parseErrors x = (if 8 + size \<le> length d then []
      else [PE_expected_bytes ''EPR_Source_Capabilities'' (xm_dataSize x) (int (length d) - 8)])"
proof -
  from assms(1) show ?thesis
  proof (rule parseUSBPDMessage_InrD, goal_cases)
    case (1 header body)
    let ?sop = "\<lparr>sop_bytes = take 4 d, sop_kind = decodeSOPKind (take 4 d)\<rparr>"
    have cls: "m_class m = EPRSourceCapabilitiesMessage"
    proof -
      have "body = Body_EPRSourceCapabilities x"
        using 1(2) assms(2) by simp
      with 1(16) show ?thesis
        by simp
    qed
    have "\<lparr>mt_name = m_messageTypeName m, mt_messageClass = EPRSourceCapabilitiesMessage\<rparr> =
        resolveMessageType (kind_table (m_kind m)) (m_messageTypeNumber m) (reserved_class (m_kind m))"
      using 1(14) cls by simp
    then have "m_kind m = EXTENDED"
      by (metis MessageTypeMapping.select_convs(2) epr_class_extended)
    then have ext: "mh_extended (hd_messageHeader header)"
        "hd_extendedHeader header = Some (parse_extended_header (le16_at d 6))"
      using new_Header_extended [OF 1(1)] 1(7) by simp_all
    have off: "payload_offset header = 8"
      using ext(1) by (simp add: payload_offset_def)
    have size: "0 \<le> ext_dataSize header"
      using ext(2) wf_parse_extended_header [OF le16_at_bounds, of d 6]
      by (simp add: ext_dataSize_def wf_extended_header_def)
    have "construct_message (m_class m) (m_sop m) header d (m_messageTypeName m) =
        new_EPRSourceCapabilitiesMessage (m_sop m) header d (m_messageTypeName m)"
      by (simp add: cls construct_message_def)
    then have x: "x = extended_body header d
        (size_errors ''EPR_Source_Capabilities'' (ext_dataSize header) 8 d)
        (projr (epr_capabilities CSource header d))"
      using 1(2,15) assms(2) epr_capabilities_eq [OF size]
      by (simp add: new_EPRSourceCapabilitiesMessage_def extended_message_def Let_def off new_Message_def)
    have le: "map (\<lambda>i. le32_at d (8 + i * 4)) [0..<n div 4] =
        map (\<lambda>i. le_val (sub_array d (8 + i * 4) (8 + i * 4 + 4))) [0..<n div 4]"
      if "8 + n \<le> length d" for n
    proof (rule map_cong [OF refl])
      fix i
      assume "i \<in> set [0..<n div 4]"
      then have "8 + i * 4 + 4 \<le> length d"
        using that by simp
      then show "le32_at d (8 + i * 4) = le_val (sub_array d (8 + i * 4) (8 + i * 4 + 4))"
        by (rule le32_at_le_val)
    qed
    have sz: "xm_dataSize x = ext_dataSize header"
      by (simp add: x extended_body_def)
    have short: "int (length d) < 8 + ext_dataSize header \<longleftrightarrow>
        \<not> 8 + nat (ext_dataSize header) \<le> length d"
      using size by linarith
    show ?case
      using size le[of "nat (ext_dataSize header)"] short
      by (simp add: x extended_body_def epr_capabilities_eq [OF size] Let_def off size_errors_def
          min.commute)
  qed
qed

end
