(* ===== verification/Log_Decode.thy ===== *)
theory Log_Decode
  imports Pd_Message_Laws
begin

text \<open>
  Decoding of logged rows, \<open>logDecode.ts\<close>: classification of a row (event, reset signal, invalid
  capture, message), reassembly of chunked extended messages over the rows that lead up to it, and
  the context that resolves a request against the last source capabilities. The human-readable
  metadata attached to the results is presentation and left out.
\<close>

section \<open>Rows and results\<close>

datatype LoggedCapturedEntryKind = EK_message | EK_event

text \<open>A logged row with the fields the decoder reads. \<open>row_id\<close> is the identity of the object, which the
  source compares with \<open>candidate === row\<close>.\<close>

record LoggedCapturedMessage =
  row_id :: nat
  row_entryKind :: LoggedCapturedEntryKind
  row_eventType :: "string option"
  row_wallClockUs :: "int option"
  row_startTimestampUs :: int
  row_endTimestampUs :: int
  row_decodeResult :: int
  row_rawPulseWidths :: "rat list"
  row_rawSop :: bytes
  row_rawDecodedData :: bytes
  row_parseError :: "string option"

text \<open>The reason of an invalid row: the description of a decode result, a stored parse error, or the
  message of the exception the parser raised.\<close>

datatype invalid_reason =
    R_text string
  | R_decodeResult int
  | R_exception parser_error

datatype DecodedLoggedCapturedMessage =
    D_event LoggedCapturedMessage
  | D_invalid LoggedCapturedMessage invalid_reason "Message option"
  | D_reset LoggedCapturedMessage SOPKind
  | D_message LoggedCapturedMessage Message

record ParsedRowPacket =
  pk_row :: LoggedCapturedMessage
  pk_payload :: bytes
  pk_sop :: SOP
  pk_header :: Header

record ChunkReassemblyState =
  ch_firstSopBytes :: bytes
  ch_firstMessageHeaderBytes :: bytes
  ch_firstExtendedHeaderBytes :: bytes
  ch_expectedSize :: int
  ch_nextChunkNumber :: int
  ch_payloadBytes :: bytes

section \<open>Helpers\<close>

definition buildRowPayload :: "LoggedCapturedMessage \<Rightarrow> bytes" where
  "buildRowPayload row = row_rawSop row @ row_rawDecodedData row"

definition parseRowPacket :: "LoggedCapturedMessage \<Rightarrow> usbpd_error + ParsedRowPacket" where
  "parseRowPacket row =
     (let payload = buildRowPayload row in
      res_bind (new_SOP (sub_array payload 0 (length (row_rawSop row)))) (\<lambda>sop.
      res_bind (new_Header payload sop) (\<lambda>header.
        Inr \<lparr>pk_row = row, pk_payload = payload, pk_sop = sop, pk_header = header\<rparr>)))"

text \<open>The key joins the five names with colons; no name contains one, so the tuple of the names
  distinguishes exactly the same packets.\<close>

type_synonym chunk_key = "SOPKind \<times> int \<times> PowerRole option \<times> DataRole option \<times> CablePlug option"

definition buildExtendedChunkKey :: "ParsedRowPacket \<Rightarrow> chunk_key" where
  "buildExtendedChunkKey packet =
     (let messageHeader = hd_messageHeader (pk_header packet) in
      (sop_kind (pk_sop packet), mh_messageTypeNumber messageHeader, mh_powerRole messageHeader,
       mh_dataRole messageHeader, mh_cablePlug messageHeader))"

definition buildReassembledPayload :: "ChunkReassemblyState \<Rightarrow> bytes" where
  "buildReassembledPayload st =
     ch_firstSopBytes st @ ch_firstMessageHeaderBytes st @ ch_firstExtendedHeaderBytes st @
     take (nat (ch_expectedSize st)) (ch_payloadBytes st)"

definition stripChunkedFragmentCRC :: "bytes \<Rightarrow> bytes" where
  "stripChunkedFragmentCRC payload =
     (if length payload < 12 then payload
      else sub_array payload 0 8 @ sub_array payload 8 (length payload - 4))"

definition isResetSignalKind :: "SOPKind \<Rightarrow> bool" where
  "isResetSignalKind kind = (kind = K_SOP_HARD_RESET \<or> kind = K_SOP_CABLE_RESET)"

definition getRowResetSignalKind :: "LoggedCapturedMessage \<Rightarrow> SOPKind option" where
  "getRowResetSignalKind row =
     (if length (row_rawSop row) \<noteq> 4 \<or> length (row_rawDecodedData row) \<noteq> 0 then None
      else
        let kind = decodeSOPKind (row_rawSop row) in
        if isResetSignalKind kind then Some kind else None)"

definition describeDecodeResult :: "int \<Rightarrow> invalid_reason" where
  "describeDecodeResult decodeResult =
     (if decodeResult = 1 then R_text ''Invalid K-code''
      else if decodeResult = 2 then R_text ''Bad CRC''
      else if decodeResult = 3 then R_text ''Timeout''
      else if decodeResult = 4 then R_text ''Truncated or incomplete capture''
      else R_decodeResult decodeResult)"

text \<open>A row's \<open>parseError\<close> counts only when it is a non-empty string.\<close>

definition row_has_parseError :: "LoggedCapturedMessage \<Rightarrow> bool" where
  "row_has_parseError row = (case row_parseError row of None \<Rightarrow> False | Some s \<Rightarrow> s \<noteq> [])"

definition parse_row_payload :: "LoggedCapturedMessage \<Rightarrow> bytes \<Rightarrow> parser_error + Message" where
  "parse_row_payload row payload =
     res_bind (parseUSBPDMessage payload (Some (row_rawPulseWidths row))
       (Some \<lparr>cm_startTimestampUs = Some (row_startTimestampUs row),
              cm_endTimestampUs = Some (row_endTimestampUs row)\<rparr>))
       (\<lambda>message. Inr (setWallClockTimestampUs (row_wallClockUs row) message))"

definition decodeInvalidCapturedMessage ::
  "LoggedCapturedMessage \<Rightarrow> invalid_reason \<Rightarrow> DecodedLoggedCapturedMessage" where
  "decodeInvalidCapturedMessage row reason =
     (case parse_row_payload row (buildRowPayload row) of
        Inr message \<Rightarrow> D_invalid row reason (Some message)
      | Inl e \<Rightarrow> D_invalid row reason None)"

definition decodeParsedPacket ::
  "LoggedCapturedMessage \<Rightarrow> bytes \<Rightarrow> bytes option \<Rightarrow> DecodedLoggedCapturedMessage" where
  "decodeParsedPacket row payload capturePayload =
     (case parse_row_payload row payload of
        Inr message \<Rightarrow>
          D_message row
            (case capturePayload of None \<Rightarrow> message | Some c \<Rightarrow> setCapturePayload c message)
      | Inl e \<Rightarrow> D_invalid row (R_exception e) None)"

section \<open>Request context (RequestMessage.ts, logDecode.ts)\<close>

definition setReferencedPDO :: "ParsedPDO \<Rightarrow> RequestTypeResolution \<Rightarrow> RequestMessage \<Rightarrow> RequestMessage" where
  "setReferencedPDO pdo resolution r =
     (case rq_rdo r of
        None \<Rightarrow> r
      | Some rdo \<Rightarrow>
          r\<lparr>rq_referencedPDO := Some pdo,
            rq_rdo := Some (rdo\<lparr>rdo_requestTypeResolution := resolution,
                                rdo_requestTypeHint := Some (rr_type resolution)\<rparr>)\<rparr>)"

text \<open>The state of the pass over the rows.\<close>

record decode_state =
  ds_reassemblyStates :: "chunk_key \<rightharpoonup> ChunkReassemblyState"
  ds_sourcePdos :: "ParsedPDO list option"
  ds_sourcePdoResolutionSource :: resolution_source

definition initial_decode_state :: decode_state where
  "initial_decode_state =
     \<lparr>ds_reassemblyStates = Map.empty, ds_sourcePdos = None,
      ds_sourcePdoResolutionSource = RS_source_capabilities\<rparr>"

text \<open>A request refers to the object at its position, when there are capabilities and it is one of
  them and not reserved.\<close>

definition resolve_request ::
  "ParsedPDO list option \<Rightarrow> resolution_source \<Rightarrow> RequestMessage \<Rightarrow> RequestMessage" where
  "resolve_request sourcePdos source r =
     (case sourcePdos of
        None \<Rightarrow> r
      | Some pdos \<Rightarrow>
          let objectPosition = (case rq_rdo r of Some rdo \<Rightarrow> rdo_objectPosition rdo | None \<Rightarrow> 0) in
          if objectPosition > 0 \<and> nat objectPosition - 1 < length pdos then
            let requestedPdo = pdos ! (nat objectPosition - 1) in
            (case resolveRequestTypeFromPDO requestedPdo source of
               None \<Rightarrow> r
             | Some resolution \<Rightarrow> setReferencedPDO requestedPdo resolution r)
          else r)"

text \<open>\<open>updateRequestContext\<close> changes the context and, for a request, the decoded message itself.\<close>

definition updateRequestContext ::
  "DecodedLoggedCapturedMessage \<Rightarrow> decode_state \<Rightarrow> DecodedLoggedCapturedMessage \<times> decode_state" where
  "updateRequestContext decoded st =
     (case decoded of
        D_message row message \<Rightarrow>
          (case m_body message of
             Body_SourceCapabilities c \<Rightarrow>
               (decoded, st\<lparr>ds_sourcePdos := Some (sc_decodedPDOs c),
                            ds_sourcePdoResolutionSource := RS_source_capabilities\<rparr>)
           | Body_EPRSourceCapabilities x \<Rightarrow>
               (decoded, st\<lparr>ds_sourcePdos := Some (ec_sprPDOs (xm_decoded x) @ ec_eprPDOs (xm_decoded x)),
                            ds_sourcePdoResolutionSource := RS_epr_source_capabilities\<rparr>)
           | Body_Request r \<Rightarrow>
               (D_message row (message\<lparr>m_body :=
                  Body_Request (resolve_request (ds_sourcePdos st) (ds_sourcePdoResolutionSource st) r)\<rparr>), st)
           | _ \<Rightarrow> (decoded, st))
      | _ \<Rightarrow> (decoded, st))"

section \<open>Chunk reassembly\<close>

definition fragment_payload :: "bytes \<Rightarrow> bytes" where
  "fragment_payload payload =
     (let fragmentPayloadEnd = (if length payload \<ge> 12 then length payload - 4 else length payload) in
      sub_array payload 8 fragmentPayloadEnd)"

definition first_chunk_state :: "bytes \<Rightarrow> ExtendedMessageHeaderFields \<Rightarrow> ChunkReassemblyState" where
  "first_chunk_state payload extendedHeader =
     \<lparr>ch_firstSopBytes = sub_array payload 0 4, ch_firstMessageHeaderBytes = sub_array payload 4 6,
      ch_firstExtendedHeaderBytes = sub_array payload 6 8,
      ch_expectedSize = eh_dataSize extendedHeader, ch_nextChunkNumber = 1,
      ch_payloadBytes = fragment_payload payload\<rparr>"

text \<open>The reassembly state of a key after one data chunk: \<open>None\<close> when the chunk does not continue the
  chunks before it.\<close>

definition accept_chunk ::
  "ChunkReassemblyState option \<Rightarrow> bytes \<Rightarrow> ExtendedMessageHeaderFields \<Rightarrow> ChunkReassemblyState option" where
  "accept_chunk existingState payload extendedHeader =
     (if eh_chunkNumber extendedHeader = 0 then Some (first_chunk_state payload extendedHeader)
      else
        case existingState of
          None \<Rightarrow> None
        | Some st \<Rightarrow>
            if ch_expectedSize st \<noteq> eh_dataSize extendedHeader \<or>
               ch_nextChunkNumber st \<noteq> eh_chunkNumber extendedHeader
            then None
            else Some (st\<lparr>ch_payloadBytes := ch_payloadBytes st @ fragment_payload payload,
                         ch_nextChunkNumber := ch_nextChunkNumber st + 1\<rparr>))"

definition chunk_complete :: "ChunkReassemblyState \<Rightarrow> bool" where
  "chunk_complete st = (int (length (ch_payloadBytes st)) \<ge> ch_expectedSize st)"

section \<open>The pass over the rows\<close>

text \<open>One iteration of the loop: \<open>Inl\<close> the returned result, or \<open>Inr\<close> the state to continue with.\<close>

definition decode_chunk_step ::
  "bool \<Rightarrow> bytes \<Rightarrow> ParsedRowPacket \<Rightarrow> ExtendedMessageHeaderFields \<Rightarrow> decode_state \<Rightarrow>
   DecodedLoggedCapturedMessage + decode_state" where
  "decode_chunk_step isTarget targetPayload packet extendedHeader st =
     (let candidate = pk_row packet;
          payload = pk_payload packet;
          fragmentKey = buildExtendedChunkKey packet
      in
      if eh_requestChunk extendedHeader then
        (if isTarget then Inl (decodeParsedPacket candidate payload None) else Inr st)
      else
        case accept_chunk (ds_reassemblyStates st fragmentKey) payload extendedHeader of
          None \<Rightarrow>
            (if isTarget then Inl (decodeParsedPacket candidate payload None)
             else Inr (st\<lparr>ds_reassemblyStates := (ds_reassemblyStates st)(fragmentKey := None)\<rparr>))
        | Some currentState \<Rightarrow>
            if chunk_complete currentState then
              let st1 = st\<lparr>ds_reassemblyStates := (ds_reassemblyStates st)(fragmentKey := None)\<rparr>;
                  (decoded, st2) = updateRequestContext
                    (decodeParsedPacket candidate (buildReassembledPayload currentState)
                      (if isTarget then Some targetPayload else None)) st1
              in if isTarget then Inl decoded else Inr st2
            else if isTarget then
              Inl (decodeParsedPacket candidate (stripChunkedFragmentCRC payload) (Some targetPayload))
            else
              Inr (st\<lparr>ds_reassemblyStates := (ds_reassemblyStates st)(fragmentKey \<mapsto> currentState)\<rparr>))"

definition decode_packet_step ::
  "bool \<Rightarrow> bytes \<Rightarrow> ParsedRowPacket \<Rightarrow> decode_state \<Rightarrow> DecodedLoggedCapturedMessage + decode_state" where
  "decode_packet_step isTarget targetPayload packet st =
     (let candidate = pk_row packet;
          extended = mh_extended (hd_messageHeader (pk_header packet));
          extendedHeader = hd_extendedHeader (pk_header packet)
      in
      if getExtendedMessageHeaderError extendedHeader \<noteq> None then
        let (decoded, st1) = updateRequestContext (decodeParsedPacket candidate (pk_payload packet) None) st
        in if isTarget then Inl decoded else Inr st1
      else
        case (if extended then extendedHeader else None) of
          Some x \<Rightarrow>
            if eh_chunked x then decode_chunk_step isTarget targetPayload packet x st
            else
              let st1 = st\<lparr>ds_reassemblyStates :=
                             (ds_reassemblyStates st)(buildExtendedChunkKey packet := None)\<rparr>;
                  (decoded, st2) = updateRequestContext
                    (decodeParsedPacket candidate (pk_payload packet) None) st1
              in if isTarget then Inl decoded else Inr st2
        | None \<Rightarrow>
            let (decoded, st1) = updateRequestContext
                  (decodeParsedPacket candidate (pk_payload packet) None) st
            in if isTarget then Inl decoded else Inr st1)"

definition decode_row_step ::
  "LoggedCapturedMessage \<Rightarrow> LoggedCapturedMessage \<Rightarrow> decode_state \<Rightarrow>
   DecodedLoggedCapturedMessage + decode_state" where
  "decode_row_step row candidate st =
     (let isTarget = row_id candidate = row_id row; targetPayload = buildRowPayload row in
      if row_entryKind candidate \<noteq> EK_message then
        let st1 =
          (if row_eventType candidate = Some ''cc_status_changed'' \<or>
              row_eventType candidate = Some ''cc_role_changed''
           then st\<lparr>ds_sourcePdos := None\<rparr> else st)
        in if isTarget then Inl (D_event candidate) else Inr st1
      else
        case getRowResetSignalKind candidate of
          Some resetKind \<Rightarrow>
            let st1 = (if resetKind = K_SOP_HARD_RESET then st\<lparr>ds_sourcePdos := None\<rparr> else st) in
            if isTarget then Inl (D_reset candidate resetKind) else Inr st1
        | None \<Rightarrow>
            if row_decodeResult candidate \<noteq> 0 \<or> row_has_parseError candidate then
              if isTarget then
                Inl (if row_decodeResult candidate \<noteq> 0
                     then decodeInvalidCapturedMessage candidate
                       (describeDecodeResult (row_decodeResult candidate))
                     else decodeInvalidCapturedMessage candidate
                       (R_text (case row_parseError candidate of Some s \<Rightarrow> s | None \<Rightarrow> ''parseError'')))
              else Inr st
            else
              case parseRowPacket candidate of
                Inl e \<Rightarrow>
                  (if isTarget then Inl (D_invalid candidate (R_exception (ParserThrows e)) None)
                   else Inr st)
              | Inr packet \<Rightarrow> decode_packet_step isTarget targetPayload packet st)"

fun decode_rows ::
  "LoggedCapturedMessage \<Rightarrow> LoggedCapturedMessage list \<Rightarrow> decode_state \<Rightarrow> DecodedLoggedCapturedMessage" where
  "decode_rows row [] st = decodeParsedPacket row (buildRowPayload row) None"
| "decode_rows row (candidate # rest) st =
     (case decode_row_step row candidate st of
        Inl result \<Rightarrow> result
      | Inr st' \<Rightarrow> decode_rows row rest st')"

definition decodeLoggedCapturedMessageWithContext ::
  "LoggedCapturedMessage \<Rightarrow> LoggedCapturedMessage list \<Rightarrow> DecodedLoggedCapturedMessage" where
  "decodeLoggedCapturedMessageWithContext row orderedRows =
     (if row_entryKind row = EK_event then D_event row
      else
        case getRowResetSignalKind row of
          Some rowResetKind \<Rightarrow> D_reset row rowResetKind
        | None \<Rightarrow>
            if row_decodeResult row \<noteq> 0
            then decodeInvalidCapturedMessage row (describeDecodeResult (row_decodeResult row))
            else if row_has_parseError row
            then decodeInvalidCapturedMessage row (R_text (the (row_parseError row)))
            else decode_rows row orderedRows initial_decode_state)"

definition decodeLoggedCapturedMessage :: "LoggedCapturedMessage \<Rightarrow> DecodedLoggedCapturedMessage" where
  "decodeLoggedCapturedMessage row = decodeLoggedCapturedMessageWithContext row [row]"

end
