(* ===== verification/Log_Decode_Laws.thy ===== *)
theory Log_Decode_Laws
  imports Log_Decode
begin

text \<open>
  What decoding with context guarantees: the result is about the requested row and has the kind of
  that row; rows of other packets do not disturb a reassembly; and the chunks of an extended message,
  however interleaved with other traffic, reassemble to the logical message.
\<close>

section \<open>The packet of a row\<close>

definition row_packet :: "LoggedCapturedMessage \<Rightarrow> ParsedRowPacket option" where
  "row_packet row =
     (if row_entryKind row \<noteq> EK_message \<or> getRowResetSignalKind row \<noteq> None \<or>
         row_decodeResult row \<noteq> 0 \<or> row_has_parseError row then None
      else case parseRowPacket row of Inl e \<Rightarrow> None | Inr p \<Rightarrow> Some p)"

text \<open>A row touches a reassembly when it is a well-formed extended packet of that key, other than a
  request for a chunk.\<close>

definition row_touches :: "chunk_key \<Rightarrow> LoggedCapturedMessage \<Rightarrow> bool" where
  "row_touches k row =
     (case row_packet row of
        None \<Rightarrow> False
      | Some p \<Rightarrow>
          (case hd_extendedHeader (pk_header p) of
             None \<Rightarrow> False
           | Some x \<Rightarrow>
               getExtendedMessageHeaderError (Some x) = None \<and> \<not> (eh_chunked x \<and> eh_requestChunk x) \<and>
               buildExtendedChunkKey p = k))"

text \<open>A row that carries data chunk \<open>i\<close> of a block of \<open>n\<close> bytes, with its fragment of the data.\<close>

definition row_chunk ::
  "chunk_key \<Rightarrow> int \<Rightarrow> int \<Rightarrow> bytes \<Rightarrow> LoggedCapturedMessage \<Rightarrow> bool" where
  "row_chunk k i n fragment row =
     (case row_packet row of
        None \<Rightarrow> False
      | Some p \<Rightarrow>
          (case hd_extendedHeader (pk_header p) of
             None \<Rightarrow> False
           | Some x \<Rightarrow>
               eh_chunked x \<and> \<not> eh_requestChunk x \<and> eh_chunkNumber x = i \<and> eh_dataSize x = n \<and> n > 0 \<and>
               buildExtendedChunkKey p = k \<and> fragment_payload (pk_payload p) = fragment))"

lemma parseRowPacket_facts:
  assumes "parseRowPacket row = Inr p"
  shows "pk_row p = row" "pk_payload p = buildRowPayload row" "length (row_rawSop row) = 4"
    "new_Header (pk_payload p) (pk_sop p) = Inr (pk_header p)"
    "pk_sop p = \<lparr>sop_bytes = row_rawSop row, sop_kind = decodeSOPKind (row_rawSop row)\<rparr>"
  using assms
  by (auto simp: parseRowPacket_def Let_def res_bind_Inr_iff new_SOP_def buildRowPayload_def
      sub_array_def split: if_splits)

lemma row_packet_SomeD:
  assumes "row_packet row = Some p"
  shows "row_entryKind row = EK_message" "getRowResetSignalKind row = None" "row_decodeResult row = 0"
    "\<not> row_has_parseError row" "parseRowPacket row = Inr p"
  using assms by (auto simp: row_packet_def split: if_splits sum.splits)

lemma row_chunk_touches: "row_chunk k i n f row \<Longrightarrow> row_touches k row"
  by (auto simp: row_chunk_def row_touches_def getExtendedMessageHeaderError_def split: option.splits)

lemma new_Header_fields:
  "new_Header payload sop = Inr h \<Longrightarrow>
   hd_messageHeader h = parse_message_header (sop_kind sop) (le16_at payload 4)"
  by (auto simp: new_Header_eq Let_def split: if_splits)

lemma header_ext_iff:
  "new_Header payload sop = Inr h \<Longrightarrow> mh_extended (hd_messageHeader h) \<longleftrightarrow> hd_extendedHeader h \<noteq> None"
  using new_Header_wf_fields [of payload sop h] by (simp add: wf_Header_def)

section \<open>One iteration\<close>

lemma updateRequestContext_states:
  "ds_reassemblyStates (snd (updateRequestContext decoded st)) = ds_reassemblyStates st"
  by (auto simp: updateRequestContext_def split: DecodedLoggedCapturedMessage.split message_body.split)

lemma updateRequestContext_pair:
  "updateRequestContext decoded st = (decoded', st') \<Longrightarrow>
   ds_reassemblyStates st' = ds_reassemblyStates st"
  using updateRequestContext_states[of decoded st] by simp

lemma chunk_step_other:
  assumes "(eh_chunked x \<and> eh_requestChunk x) \<or> buildExtendedChunkKey p \<noteq> k"
  shows "eh_chunked x \<Longrightarrow> \<exists>st'. decode_chunk_step False tp p x st = Inr st' \<and>
    ds_reassemblyStates st' k = ds_reassemblyStates st k"
  using assms
  by (auto simp: decode_chunk_step_def Let_def split: option.split prod.split
      dest!: updateRequestContext_pair)

lemma packet_step_other:
  assumes "case hd_extendedHeader (pk_header p) of None \<Rightarrow> True
    | Some x \<Rightarrow> getExtendedMessageHeaderError (Some x) \<noteq> None \<or> (eh_chunked x \<and> eh_requestChunk x) \<or>
        buildExtendedChunkKey p \<noteq> k"
  shows "\<exists>st'. decode_packet_step False tp p st = Inr st' \<and>
    ds_reassemblyStates st' k = ds_reassemblyStates st k"
proof (cases "hd_extendedHeader (pk_header p)")
  case None
  then show ?thesis
    by (auto simp: decode_packet_step_def Let_def getExtendedMessageHeaderError_def
        split: prod.split dest!: updateRequestContext_pair)
next
  case (Some x)
  with assms chunk_step_other[of x p k tp st] show ?thesis
    by (auto simp: decode_packet_step_def Let_def split: prod.split dest!: updateRequestContext_pair)
qed

lemma row_step_other:
  assumes "row_id candidate \<noteq> row_id row" "\<not> row_touches k candidate"
  shows "\<exists>st'. decode_row_step row candidate st = Inr st' \<and>
    ds_reassemblyStates st' k = ds_reassemblyStates st k"
proof (cases "row_packet candidate")
  case None
  then show ?thesis
    using assms(1) by (auto simp: decode_row_step_def Let_def row_packet_def split: if_splits
        option.split sum.splits)
next
  case (Some p)
  note row = row_packet_SomeD [OF Some]
  have "case hd_extendedHeader (pk_header p) of None \<Rightarrow> True
    | Some x \<Rightarrow> getExtendedMessageHeaderError (Some x) \<noteq> None \<or> (eh_chunked x \<and> eh_requestChunk x) \<or>
        buildExtendedChunkKey p \<noteq> k"
    using assms(2) Some by (auto simp: row_touches_def split: option.splits)
  then show ?thesis
    using packet_step_other[of p k "buildRowPayload row" st] row assms(1)
    by (simp add: decode_row_step_def Let_def)
qed

text \<open>The reassembly state after the first chunks: the headers of the first row and the fragments so
  far, for a block of \<open>n\<close> bytes.\<close>

definition chunk_state :: "bytes \<Rightarrow> int \<Rightarrow> bytes list \<Rightarrow> ChunkReassemblyState" where
  "chunk_state payload n fragments =
     \<lparr>ch_firstSopBytes = sub_array payload 0 4, ch_firstMessageHeaderBytes = sub_array payload 4 6,
      ch_firstExtendedHeaderBytes = sub_array payload 6 8, ch_expectedSize = n,
      ch_nextChunkNumber = int (length fragments), ch_payloadBytes = concat fragments\<rparr>"

text \<open>The packet step on chunk \<open>length fs\<close>, when the state of its key is that of the chunks before.\<close>

lemma row_step_chunk:
  assumes c: "row_chunk k (int (length fs)) n f candidate"
    and st: "fs = [] \<and> first = buildRowPayload candidate \<or>
      fs \<noteq> [] \<and> ds_reassemblyStates st k = Some (chunk_state first n fs)"
  shows "decode_row_step row candidate st =
    (let isTarget = row_id candidate = row_id row; cur = chunk_state first n (fs @ [f]) in
     if chunk_complete cur then
       let (decoded, st2) = updateRequestContext
             (decodeParsedPacket candidate (buildReassembledPayload cur)
               (if isTarget then Some (buildRowPayload row) else None))
             (st\<lparr>ds_reassemblyStates := (ds_reassemblyStates st)(k := None)\<rparr>)
       in if isTarget then Inl decoded else Inr st2
     else if isTarget then
       Inl (decodeParsedPacket candidate (stripChunkedFragmentCRC (buildRowPayload candidate))
         (Some (buildRowPayload row)))
     else Inr (st\<lparr>ds_reassemblyStates := (ds_reassemblyStates st)(k \<mapsto> cur)\<rparr>))"
proof -
  obtain p x where p: "row_packet candidate = Some p"
    and x: "hd_extendedHeader (pk_header p) = Some x"
    and f: "eh_chunked x" "\<not> eh_requestChunk x" "eh_chunkNumber x = int (length fs)"
      "eh_dataSize x = n" "n > 0" "buildExtendedChunkKey p = k" "fragment_payload (pk_payload p) = f"
    using c by (auto simp: row_chunk_def split: option.splits)
  note row = row_packet_SomeD [OF p] and pk = parseRowPacket_facts [OF row_packet_SomeD(5) [OF p]]
  have ext: "mh_extended (hd_messageHeader (pk_header p))"
    using header_ext_iff [OF pk(4)] x by simp
  have ok: "getExtendedMessageHeaderError (Some x) = None"
    using f by (simp add: getExtendedMessageHeaderError_def)
  have acc: "accept_chunk (ds_reassemblyStates st k) (pk_payload p) x = Some (chunk_state first n (fs @ [f]))"
    using st f pk(2) by (auto simp: accept_chunk_def first_chunk_state_def chunk_state_def)
  show ?thesis
    using row pk x f ext ok acc
    by (simp add: decode_row_step_def decode_packet_step_def decode_chunk_step_def Let_def
        cong: if_cong)
qed

section \<open>Reassembly\<close>

text \<open>An extended message is no request, so the request context leaves it alone.\<close>

lemma parsed_extended_not_request:
  assumes "parseUSBPDMessage d pw md = Inr m" "byte_at d 5 \<ge> 128"
  shows "m_body m \<noteq> Body_Request r"
proof
  assume r: "m_body m = Body_Request r"
  from assms(1) show False
  proof (rule parseUSBPDMessage_InrD, goal_cases)
    case (1 header body)
    have "hd_messageHeader header = parse_message_header (decodeSOPKind (take 4 d)) (le16_at d 4)"
      using new_Header_fields [OF 1(1)] by simp
    then have x: "mh_extended (hd_messageHeader header)"
      using parse_message_header_extended[of _ d 4] assms(2) by simp
    then have k: "m_kind m = EXTENDED"
      using 1(7) new_Header_wf_fields [OF 1(1)] by (simp add: wf_Header_def wf_message_header_def)
    have "body = Body_Request r"
      using r 1(2) by simp
    with 1(16) have "m_class m = RequestMessage"
      by simp
    with 1(14) k show False
      by (metis MessageTypeMapping.select_convs(2) request_class_not_extended)
  qed
qed

lemma updateRequestContext_extended:
  assumes "byte_at payload 5 \<ge> 128"
  shows "fst (updateRequestContext (decodeParsedPacket row payload c) st) = decodeParsedPacket row payload c"
proof (cases "parse_row_payload row payload")
  case (Inl e)
  then show ?thesis
    by (simp add: decodeParsedPacket_def updateRequestContext_def)
next
  case (Inr m)
  then have "m_body m \<noteq> Body_Request r" for r
    using parsed_extended_not_request [OF _ assms]
    by (auto simp: parse_row_payload_def res_bind_Inr_iff setWallClockTimestampUs_def)
  with Inr show ?thesis
    by (auto simp: decodeParsedPacket_def updateRequestContext_def setCapturePayload_def
        split: message_body.split option.split)
qed

lemma buildReassembledPayload_chunk_state:
  "8 \<le> length payload \<Longrightarrow>
   buildReassembledPayload (chunk_state payload n fs) = take 8 payload @ take (nat n) (concat fs)"
  by (simp add: buildReassembledPayload_def chunk_state_def sub_array_append_rest)
    (simp add: sub_array_def)

lemma row_chunk_header:
  assumes "row_chunk k i n f row"
  shows "8 \<le> length (buildRowPayload row)" "byte_at (buildRowPayload row) 5 \<ge> 128" "n > 0"
proof -
  obtain p x where p: "row_packet row = Some p" and x: "hd_extendedHeader (pk_header p) = Some x"
    and n: "n > 0"
    using assms by (auto simp: row_chunk_def split: option.splits)
  note pk = parseRowPacket_facts [OF row_packet_SomeD(5) [OF p]]
  have e: "mh_extended (hd_messageHeader (pk_header p))"
    using header_ext_iff [OF pk(4)] x by simp
  then have "mh_messageKind (hd_messageHeader (pk_header p)) = EXTENDED"
    using new_Header_wf_fields [OF pk(4)] by (simp add: wf_Header_def wf_message_header_def)
  then show "8 \<le> length (buildRowPayload row)"
    using new_Header_extended(1) [OF pk(4)] pk(2) by simp
  have "hd_messageHeader (pk_header p) =
      parse_message_header (sop_kind (pk_sop p)) (le16_at (pk_payload p) 4)"
    by (rule new_Header_fields [OF pk(4)])
  then show "byte_at (buildRowPayload row) 5 \<ge> 128"
    using e pk(2) parse_message_header_extended[of "sop_kind (pk_sop p)" "pk_payload p" 4] by simp
  show "n > 0"
    by (rule n)
qed

lemma decode_rows_reassembly:
  assumes "list_all (\<lambda>c. row_id c \<noteq> row_id target) rows"
    and "filter (row_touches k) rows = chunks"
    and "list_all (\<lambda>(i, f, c). row_chunk k (int i) n f c)
           (zip [length fs..<length fs + length gs] (zip gs (chunks @ [target])))"
    and "length gs = length chunks + 1"
    and "fs = [] \<and> first = buildRowPayload (hd (chunks @ [target])) \<or>
         fs \<noteq> [] \<and> ds_reassemblyStates st k = Some (chunk_state first n fs)"
    and "int (length (concat (fs @ butlast gs))) < n" "n \<le> int (length (concat (fs @ gs)))"
    and "8 \<le> length first" "byte_at first 5 \<ge> 128"
  shows "decode_rows target (rows @ [target]) st =
    decodeParsedPacket target (take 8 first @ take (nat n) (concat (fs @ gs)))
      (Some (buildRowPayload target))"
  using assms
proof (induction rows arbitrary: st chunks fs gs)
  case Nil
  then obtain g where gs: "gs = [g]"
    by (cases gs) auto
  have c: "row_chunk k (int (length fs)) n g target"
    using Nil gs by (simp add: upt_conv_Cons)
  have "fs = [] \<and> first = buildRowPayload target \<or>
      fs \<noteq> [] \<and> ds_reassemblyStates st k = Some (chunk_state first n fs)"
    using Nil by auto
  note step = row_step_chunk [OF c this, of target]
  have complete: "chunk_complete (chunk_state first n (fs @ [g]))"
    using Nil gs by (simp add: chunk_complete_def chunk_state_def)
  let ?payload = "take 8 first @ take (nat n) (concat (fs @ [g]))"
  have b: "buildReassembledPayload (chunk_state first n (fs @ [g])) = ?payload"
    using Nil by (simp add: buildReassembledPayload_chunk_state)
  have "byte_at ?payload 5 = byte_at first 5"
    using Nil by (simp add: byte_at_def nth_append)
  then have "byte_at ?payload 5 \<ge> 128"
    using Nil by simp
  note ctx = updateRequestContext_extended [OF this]
  show ?case
    using ctx complete b gs by (simp add: step Let_def split: prod.split) (metis fst_conv)
next
  case (Cons row rows)
  show ?case
  proof (cases "row_touches k row")
    case False
    then obtain st' where "decode_row_step target row st = Inr st'"
        "ds_reassemblyStates st' k = ds_reassemblyStates st k"
      using row_step_other[of row target k st] Cons.prems(1) by auto
    moreover have "decode_rows target (rows @ [target]) st' =
        decodeParsedPacket target (take 8 first @ take (nat n) (concat (fs @ gs)))
          (Some (buildRowPayload target))"
      by (rule Cons.IH[of chunks]) (use Cons.prems False calculation in simp_all)
    ultimately show ?thesis
      by simp
  next
    case True
    then obtain chunks' where chunks: "chunks = row # chunks'" "filter (row_touches k) rows = chunks'"
      using Cons.prems(2) by auto
    then obtain g gs' where gs: "gs = g # gs'" "gs' \<noteq> []"
      using Cons.prems(4) by (cases gs; cases "tl gs") auto
    have c: "row_chunk k (int (length fs)) n g row"
      using Cons.prems(3) chunks gs by (simp add: upt_conv_Cons)
    have "fs = [] \<and> first = buildRowPayload row \<or>
        fs \<noteq> [] \<and> ds_reassemblyStates st k = Some (chunk_state first n fs)"
      using Cons.prems(5) chunks by auto
    note step = row_step_chunk [OF c this, of target]
    let ?cur = "chunk_state first n (fs @ [g])"
    let ?st' = "st\<lparr>ds_reassemblyStates := (ds_reassemblyStates st)(k \<mapsto> ?cur)\<rparr>"
    have "\<not> chunk_complete ?cur"
      using Cons.prems(6) gs by (simp add: chunk_complete_def chunk_state_def)
    then have "decode_row_step target row st = Inr ?st'"
      using Cons.prems(1) by (simp add: step Let_def)
    moreover have "decode_rows target (rows @ [target]) ?st' =
        decodeParsedPacket target (take 8 first @ take (nat n) (concat ((fs @ [g]) @ gs')))
          (Some (buildRowPayload target))"
      by (rule Cons.IH[of chunks']) (use Cons.prems gs chunks in \<open>simp_all add: upt_conv_Cons\<close>)
    ultimately show ?thesis
      using gs by simp
  qed
qed

text \<open>A run of the chunks of one block among other rows: the rows that touch the key are the chunks
  in order, numbered from zero, the last of them the target; the block of \<open>n\<close> bytes is complete with
  the last fragment and not before.\<close>

definition chunk_series ::
  "chunk_key \<Rightarrow> int \<Rightarrow> LoggedCapturedMessage list \<Rightarrow> LoggedCapturedMessage \<Rightarrow> bytes list \<Rightarrow> bool" where
  "chunk_series k n rows target fragments \<longleftrightarrow>
     (let chunks = filter (row_touches k) rows in
      list_all (\<lambda>c. row_id c \<noteq> row_id target) rows \<and>
      length fragments = length chunks + 1 \<and>
      list_all (\<lambda>(i, f, c). row_chunk k (int i) n f c)
        (zip [0..<length fragments] (zip fragments (chunks @ [target]))) \<and>
      int (length (concat (butlast fragments))) < n \<and> n \<le> int (length (concat fragments)))"

text \<open>C7: the chunks of an extended message reassemble, however they are interleaved with other rows.
  If the rows that touch a chunk key are the chunks of one block in order and the target carries the
  last, the target is decoded from the headers of the first chunk followed by exactly the declared
  number of data bytes, in order; padding and the CRC of each chunk are dropped, and the message
  still shows the target's own captured bytes.\<close>

theorem chunk_reassembly:
  assumes "chunk_series k n rows target fragments"
  shows "decodeLoggedCapturedMessageWithContext target (rows @ [target]) =
    decodeParsedPacket target
      (take 8 (buildRowPayload (hd (filter (row_touches k) rows @ [target]))) @
       take (nat n) (concat fragments))
      (Some (buildRowPayload target))"
proof -
  let ?chunks = "filter (row_touches k) rows"
  have series: "list_all (\<lambda>c. row_id c \<noteq> row_id target) rows" "length fragments = length ?chunks + 1"
    "list_all (\<lambda>(i, f, c). row_chunk k (int i) n f c)
        (zip [0..<length fragments] (zip fragments (?chunks @ [target])))"
    "int (length (concat (butlast fragments))) < n" "n \<le> int (length (concat fragments))"
    using assms unfolding chunk_series_def Let_def by blast+
  have chunk: "row_chunk k (int i) n (fragments ! i) ((?chunks @ [target]) ! i)"
    if "i < length fragments" for i
    using series(2,3) that by (simp add: list_all_length del: upt_Suc)
  have first: "row_chunk k 0 n (fragments ! 0) (hd (?chunks @ [target]))"
    using chunk[of 0] series(2) by (simp add: hd_conv_nth)
  have last: "row_chunk k (int (length ?chunks)) n (fragments ! length ?chunks) target"
    using chunk[of "length ?chunks"] series(2) by simp
  then obtain p where p: "row_packet target = Some p"
    by (auto simp: row_chunk_def split: option.splits)
  note row = row_packet_SomeD [OF p]
  have "decode_rows target (rows @ [target]) initial_decode_state =
      decodeParsedPacket target (take 8 (buildRowPayload (hd (?chunks @ [target]))) @
        take (nat n) (concat ([] @ fragments))) (Some (buildRowPayload target))"
    by (rule decode_rows_reassembly[of target rows k ?chunks n "[]" fragments])
      (use series row_chunk_header [OF first] in simp_all)
  then show ?thesis
    using row by (simp add: decodeLoggedCapturedMessageWithContext_def)
qed

definition sample_row :: "nat \<Rightarrow> LoggedCapturedEntryKind \<Rightarrow> bytes \<Rightarrow> LoggedCapturedMessage" where
  "sample_row i kind data =
     \<lparr>row_id = i, row_entryKind = kind, row_eventType = None, row_wallClockUs = None,
      row_startTimestampUs = 0, row_endTimestampUs = 0, row_decodeResult = 0, row_rawPulseWidths = [],
      row_rawSop = [0x18, 0x18, 0x18, 0x11], row_rawDecodedData = data, row_parseError = None\<rparr>"

lemma chunk_reassembly_witness:
  "let target = sample_row 3 EK_message [0x91, 0x91, 0x05, 0x88, 5, 0, 0, 0, 9, 9, 9, 9] in
   decodeLoggedCapturedMessageWithContext target
     [sample_row 1 EK_message [0x91, 0x91, 0x05, 0x80, 1, 2, 3, 4, 8, 8, 8, 8],
      sample_row 2 EK_event [], target] =
   decodeParsedPacket target [0x18, 0x18, 0x18, 0x11, 0x91, 0x91, 0x05, 0x80, 1, 2, 3, 4, 5]
     (Some (buildRowPayload target))"
proof -
  let ?target = "sample_row 3 EK_message [0x91, 0x91, 0x05, 0x88, 5, 0, 0, 0, 9, 9, 9, 9]"
  let ?first = "sample_row 1 EK_message [0x91, 0x91, 0x05, 0x80, 1, 2, 3, 4, 8, 8, 8, 8]"
  let ?k = "(K_SOP, 17, Some SOURCE, Some UFP, None)"
  let ?rows = "[?first, sample_row 2 EK_event []]"
  have s: "chunk_series ?k 5 ?rows ?target [[1, 2, 3, 4], [5, 0, 0, 0]]"
    by code_simp
  have "filter (row_touches ?k) ?rows = [?first]"
    by code_simp
  with chunk_reassembly [OF s] show ?thesis
    by (simp add: Let_def buildRowPayload_def sample_row_def)
qed

section \<open>The result is about the requested row\<close>

fun result_row :: "DecodedLoggedCapturedMessage \<Rightarrow> LoggedCapturedMessage" where
  "result_row (D_event row) = row"
| "result_row (D_invalid row _ _) = row"
| "result_row (D_reset row _) = row"
| "result_row (D_message row _) = row"

fun is_D_event :: "DecodedLoggedCapturedMessage \<Rightarrow> bool" where
  "is_D_event (D_event _) = True"
| "is_D_event _ = False"

fun is_D_reset :: "DecodedLoggedCapturedMessage \<Rightarrow> bool" where
  "is_D_reset (D_reset _ _) = True"
| "is_D_reset _ = False"

fun is_D_message :: "DecodedLoggedCapturedMessage \<Rightarrow> bool" where
  "is_D_message (D_message _ _) = True"
| "is_D_message _ = False"

text \<open>A result of decoding bytes: of this row, neither event nor reset.\<close>

definition decoded_of :: "LoggedCapturedMessage \<Rightarrow> DecodedLoggedCapturedMessage \<Rightarrow> bool" where
  "decoded_of row r \<longleftrightarrow> result_row r = row \<and> \<not> is_D_event r \<and> \<not> is_D_reset r"

lemma decoded_of_simps [simp]:
  "decoded_of row (decodeParsedPacket row payload c)"
  "decoded_of row (decodeInvalidCapturedMessage row reason)"
  "decoded_of row (D_invalid row reason m)"
  by (auto simp: decoded_of_def decodeParsedPacket_def decodeInvalidCapturedMessage_def split: sum.split)

lemma decoded_of_updateRequestContext:
  "updateRequestContext decoded st = (decoded', st') \<Longrightarrow> decoded_of row decoded \<Longrightarrow> decoded_of row decoded'"
  by (auto simp: updateRequestContext_def decoded_of_def
      split: DecodedLoggedCapturedMessage.splits message_body.splits)

lemma chunk_step_decoded:
  "case decode_chunk_step isTarget tp p x st of Inl r \<Rightarrow> isTarget \<and> decoded_of (pk_row p) r | Inr _ \<Rightarrow> \<not> isTarget"
  by (auto simp: decode_chunk_step_def Let_def split: option.split prod.split
      dest: decoded_of_updateRequestContext [OF _ decoded_of_simps(1)])

lemma packet_step_decoded:
  "case decode_packet_step isTarget tp p st of Inl r \<Rightarrow> isTarget \<and> decoded_of (pk_row p) r | Inr _ \<Rightarrow> \<not> isTarget"
  using chunk_step_decoded[where isTarget = isTarget and tp = tp and p = p and st = st]
  by (auto simp: decode_packet_step_def Let_def split: option.split prod.split
      dest: decoded_of_updateRequestContext [OF _ decoded_of_simps(1)])

lemma row_step_decoded:
  assumes "row_id c = row_id row \<Longrightarrow> c = row"
    and "row_entryKind row \<noteq> EK_event" "getRowResetSignalKind row = None"
  shows "case decode_row_step row c st of Inl r \<Rightarrow> decoded_of row r | Inr _ \<Rightarrow> True"
proof (cases "row_id c = row_id row")
  case True
  then have "c = row"
    by (rule assms(1))
  moreover have "row_entryKind row = EK_message"
    using assms(2) by (cases "row_entryKind row") simp_all
  ultimately show ?thesis
    using assms(3) packet_step_decoded[where isTarget = True and tp = "buildRowPayload row" and st = st] parseRowPacket_facts(1)
    by (fastforce simp: decode_row_step_def Let_def split: sum.splits)
next
  case False
  have "decode_packet_step False (buildRowPayload row) p st \<noteq> Inl r" for p r
    using packet_step_decoded[where isTarget = False and tp = "buildRowPayload row" and p = p and st = st]
    by (auto split: sum.splits)
  with False show ?thesis
    by (auto simp: decode_row_step_def Let_def split: sum.splits option.splits)
qed

lemma decode_rows_decoded:
  assumes "list_all (\<lambda>c. row_id c = row_id row \<longrightarrow> c = row) rows"
    and "row_entryKind row \<noteq> EK_event" "getRowResetSignalKind row = None"
  shows "decoded_of row (decode_rows row rows st)"
  using assms(1)
proof (induction rows arbitrary: st)
  case (Cons c rows)
  then show ?case
    using row_step_decoded[of c row st] assms(2,3) by (auto split: sum.split)
qed simp

text \<open>Decoding a row in the context of other rows answers for that row. The result carries the
  row itself; it is an event exactly for an event row and a reset exactly for a message row of four
  reset K-codes and no data; and a row captured with an error, or stored with a parse error, never
  counts as a message, whatever its bytes.\<close>

lemma decodeWithContext_result:
  assumes "list_all (\<lambda>c. row_id c = row_id row \<longrightarrow> c = row) rows"
  shows "let r = decodeLoggedCapturedMessageWithContext row rows in
    result_row r = row \<and> is_D_event r = (row_entryKind row = EK_event) \<and>
    is_D_reset r = (row_entryKind row = EK_message \<and> getRowResetSignalKind row \<noteq> None) \<and>
    (row_decodeResult row = 0 \<and> \<not> row_has_parseError row \<or> \<not> is_D_message r)"
proof -
  have "\<not> is_D_message (decodeInvalidCapturedMessage row reason)" for reason
    by (simp add: decodeInvalidCapturedMessage_def split: sum.split)
  moreover have "row_entryKind row = EK_message \<longleftrightarrow> row_entryKind row \<noteq> EK_event"
    by (cases "row_entryKind row") simp_all
  ultimately show ?thesis
    using decode_rows_decoded [OF assms, of initial_decode_state]
      decoded_of_simps(2)[of row]
    by (auto simp: decodeLoggedCapturedMessageWithContext_def Let_def decoded_of_def
        split: option.split)
qed

end
