(* ===== verification/Scpi_Text.thy ===== *)
theory Scpi_Text
  imports Drpd_Prelude
begin

text \<open>
  The SCPI text layer both transports share: \<open>formatSCPI\<close>, \<open>formatSCPIParam\<close> and
  \<open>parseSCPIResponse\<close> of \<open>transport/winusb.ts\<close> (the copies in \<open>transport/usbtmc.ts\<close> have the same
  code), and the arbitrary-block readers \<open>parseARBData\<close> and \<open>findARBBlockCompletionOffset\<close> of
  \<open>transport/usbtmc.ts\<close>.
\<close>

section \<open>Parameters and commands\<close>

text \<open>
  A JavaScript number given as a parameter is finite or not (NaN and the infinities). A finite one
  is \<open>Decimal m d\<close>, the value \<open>m / 10^d\<close> whose shortest decimal notation has \<open>d\<close> digits after the
  point; \<open>String\<close> prints it without an exponent for magnitudes from \<open>1e-6\<close> below \<open>1e21\<close>.
\<close>

datatype js_number = Decimal int nat | NonFinite

fun decimal_digits :: "nat \<Rightarrow> string" where
  "decimal_digits n = (if n < 10 then [] else decimal_digits (n div 10)) @ [char_of (48 + n mod 10)]"

definition js_String :: "int \<Rightarrow> nat \<Rightarrow> string" where
  "js_String m d =
     (let s = decimal_digits (nat \<bar>m\<bar>);
          t = replicate (Suc d - length s) (CHR ''0'') @ s;
          i = length t - d
      in (if m < 0 then ''-'' else []) @
         (if d = 0 then t else take i t @ ''.'' @ drop i t))"

datatype SCPIParam =
    Param_Number js_number
  | Param_Boolean bool
  | Param_Enum string
  | Param_String string

datatype scpi_error =
    SCPI_parameter_not_finite
  | Response_not_a_block
  | Block_header_incomplete
  | Block_length_field_invalid
  | Block_digits_invalid
  | Block_payload_incomplete

abbreviation quote_char :: char where
  "quote_char \<equiv> CHR 0x22"

fun escape_quotes :: "string \<Rightarrow> string" where
  "escape_quotes [] = []"
| "escape_quotes (c # cs) =
     (if c = quote_char then [quote_char, quote_char] else [c]) @ escape_quotes cs"

fun formatSCPIParam :: "SCPIParam \<Rightarrow> scpi_error + string" where
  "formatSCPIParam (Param_Number NonFinite) = Inl SCPI_parameter_not_finite"
| "formatSCPIParam (Param_Number (Decimal m d)) = Inr (js_String m d)"
| "formatSCPIParam (Param_Boolean b) = Inr (if b then ''ON'' else ''OFF'')"
| "formatSCPIParam (Param_Enum raw) = Inr raw"
| "formatSCPIParam (Param_String s) = Inr ([quote_char] @ escape_quotes s @ [quote_char])"

fun format_params :: "SCPIParam list \<Rightarrow> scpi_error + string list" where
  "format_params [] = Inr []"
| "format_params (p # ps) =
     res_bind (formatSCPIParam p) (\<lambda>t. res_bind (format_params ps) (\<lambda>ts. Inr (t # ts)))"

fun join :: "string \<Rightarrow> string list \<Rightarrow> string" where
  "join sep [] = []"
| "join sep [t] = t"
| "join sep (t # u # ts) = t @ sep @ join sep (u # ts)"

definition formatSCPI :: "string \<Rightarrow> SCPIParam list \<Rightarrow> scpi_error + string" where
  "formatSCPI command params =
     (if params = [] then Inr command
      else res_bind (format_params params) (\<lambda>ts. Inr (command @ '' '' @ join '' '' ts)))"

section \<open>Responses\<close>

definition scpi_separator :: "char \<Rightarrow> bool" where
  "scpi_separator c \<longleftrightarrow> c = CHR '' '' \<or> c = CHR 0x09 \<or> c = CHR '',''"

text \<open>The scanning loop, with \<open>current\<close>, \<open>inQuotes\<close> and \<open>values\<close> as arguments.\<close>

fun parseSCPIResponse_loop :: "string \<Rightarrow> string \<Rightarrow> bool \<Rightarrow> string list \<Rightarrow> string list" where
  "parseSCPIResponse_loop [] current inQuotes vals =
     (if length current > 0 then vals @ [current] else vals)"
| "parseSCPIResponse_loop (c # cs) current inQuotes vals =
     (if inQuotes then
        (if c = quote_char then
           (case cs of
              n # cs' \<Rightarrow>
                (if n = quote_char then parseSCPIResponse_loop cs' (current @ [quote_char]) True vals
                 else parseSCPIResponse_loop cs current False vals)
            | [] \<Rightarrow> parseSCPIResponse_loop cs current False vals)
         else parseSCPIResponse_loop cs (current @ [c]) True vals)
      else if c = quote_char then parseSCPIResponse_loop cs current True vals
      else if scpi_separator c then
        (if length current > 0 then parseSCPIResponse_loop cs [] False (vals @ [current])
         else parseSCPIResponse_loop cs current False vals)
      else parseSCPIResponse_loop cs (current @ [c]) False vals)"

definition parseSCPIResponse :: "string \<Rightarrow> string list" where
  "parseSCPIResponse response = parseSCPIResponse_loop response [] False []"

section \<open>What a line of parameters reads back as\<close>

definition plain_token :: "string \<Rightarrow> bool" where
  "plain_token s \<longleftrightarrow> list_all (\<lambda>c. c \<noteq> quote_char \<and> \<not> scpi_separator c) s"

text \<open>The value a formatted parameter carries: a string carries its own text, quotes removed.\<close>

fun param_text :: "SCPIParam \<Rightarrow> string" where
  "param_text (Param_Number (Decimal m d)) = js_String m d"
| "param_text (Param_Number NonFinite) = []"
| "param_text (Param_Boolean b) = (if b then ''ON'' else ''OFF'')"
| "param_text (Param_Enum raw) = raw"
| "param_text (Param_String s) = s"

fun plain_param :: "SCPIParam \<Rightarrow> bool" where
  "plain_param (Param_Number n) \<longleftrightarrow> n \<noteq> NonFinite"
| "plain_param (Param_Enum raw) \<longleftrightarrow> plain_token raw"
| "plain_param _ \<longleftrightarrow> True"

lemma decimal_digits_plain: "plain_token (decimal_digits n)"
proof (induction n rule: decimal_digits.induct)
  case (1 n)
  have "c \<noteq> quote_char \<and> \<not> scpi_separator c" if "c = char_of (48 + n mod 10)" for c
  proof -
    have "of_char c = 48 + n mod 10"
      using that by simp
    then show ?thesis
      by (auto simp: scpi_separator_def)
  qed
  then show ?case
    using 1 by (subst decimal_digits.simps) (auto simp: plain_token_def simp del: decimal_digits.simps)
qed

declare decimal_digits.simps [simp del]

lemma plain_token_append [simp]: "plain_token (s @ t) \<longleftrightarrow> plain_token s \<and> plain_token t"
  by (simp add: plain_token_def)

lemma plain_token_take_drop: "plain_token s \<Longrightarrow> plain_token (take i s) \<and> plain_token (drop i s)"
  by (metis append_take_drop_id plain_token_append)

lemma js_String_plain: "plain_token (js_String m d)"
proof -
  have "plain_token (replicate k (CHR ''0''))" for k
    by (induction k) (auto simp: plain_token_def scpi_separator_def)
  then have "plain_token (replicate k (CHR ''0'') @ decimal_digits n)" for k n
    by (simp add: decimal_digits_plain)
  moreover have "plain_token ((if m < 0 then ''-'' else []) @
      (if d = 0 then t else take i t @ ''.'' @ drop i t))" if "plain_token t" for t i
    using that plain_token_take_drop[of t i] by (simp add: plain_token_def scpi_separator_def)
  ultimately show ?thesis
    unfolding js_String_def Let_def by blast
qed

lemma scpi_loop_plain:
  "plain_token s \<Longrightarrow> parseSCPIResponse_loop (s @ rest) current False vals =
     parseSCPIResponse_loop rest (current @ s) False vals"
  by (induction s arbitrary: current) (auto simp: plain_token_def)

lemma scpi_loop_quoted:
  "rest = [] \<or> hd rest \<noteq> quote_char \<Longrightarrow>
   parseSCPIResponse_loop (escape_quotes s @ quote_char # rest) current True vals =
     parseSCPIResponse_loop rest (current @ s) False vals"
  by (induction s arbitrary: current) (auto split: list.splits)

lemma scpi_loop_param:
  assumes "plain_param p" "formatSCPIParam p = Inr t" "rest = [] \<or> hd rest \<noteq> quote_char"
  shows "parseSCPIResponse_loop (t @ rest) [] False vals =
    parseSCPIResponse_loop rest (param_text p) False vals"
proof (cases p)
  case (Param_Number n)
  then show ?thesis
    using assms scpi_loop_plain[OF js_String_plain, of _ _ rest "[]" vals] by (cases n) auto
next
  case (Param_Boolean b)
  then show ?thesis
    using assms scpi_loop_plain[of t rest "[]" vals] by (auto simp: plain_token_def scpi_separator_def)
next
  case (Param_Enum raw)
  then show ?thesis
    using assms scpi_loop_plain[of t rest "[]" vals] by auto
next
  case (Param_String s)
  then show ?thesis
    using assms scpi_loop_quoted[of rest s "[]" vals] by auto
qed

lemma scpi_loop_params:
  assumes "list_all plain_param ps" "format_params ps = Inr ts" "scpi_separator sep"
  shows "parseSCPIResponse_loop (join [sep] ts) [] False vals =
    vals @ filter (\<lambda>s. s \<noteq> []) (map param_text ps)"
  using assms(1,2)
proof (induction ps arbitrary: ts vals)
  case (Cons p ps)
  then obtain t us where t: "formatSCPIParam p = Inr t" "format_params ps = Inr us" "ts = t # us"
    by (auto simp: res_bind_Inr_iff)
  have sep: "sep \<noteq> quote_char"
    using assms(3) by (auto simp: scpi_separator_def)
  show ?case
  proof (cases us)
    case Nil
    then have "ps = []"
      using t(2) by (cases ps) (auto simp: res_bind_Inr_iff)
    then show ?thesis
      using Nil t Cons.prems scpi_loop_param[of p t "[]" vals] by simp
  next
    case (Cons u us')
    then have "join [sep] ts = t @ sep # join [sep] us"
      using t(3) by simp
    moreover have "parseSCPIResponse_loop (t @ sep # join [sep] us) [] False vals =
        parseSCPIResponse_loop (sep # join [sep] us) (param_text p) False vals"
      using Cons.prems(1) t(1) sep by (intro scpi_loop_param) auto
    ultimately show ?thesis
      using assms(3) sep Cons.prems(1) Cons.IH [OF _ t(2)] by simp
  qed
qed simp

text \<open>The values a device echoes are the parameters a command line carries, except empty ones.
  For a command word without separators, any finite parameters (numbers, booleans, enum tokens
  without separators, and strings of any content, quotes, commas and blanks included), the line
  \<open>formatSCPI\<close> builds reads back through \<open>parseSCPIResponse\<close> as the command followed by the text of
  each parameter in order. Empty strings are dropped by the reader, so they shift later values.\<close>

lemma formatSCPI_parse:
  assumes "plain_token command" "command \<noteq> []" "list_all plain_param params"
  shows "\<exists>line. formatSCPI command params = Inr line \<and>
    parseSCPIResponse line = command # filter (\<lambda>s. s \<noteq> []) (map param_text params)"
proof -
  have "\<exists>ts. format_params params = Inr ts"
    using assms(3)
  proof (induction params)
    case (Cons p ps)
    then show ?case
      by (cases p rule: formatSCPIParam.cases) auto
  qed simp
  then obtain ts where ts: "format_params params = Inr ts"
    by blast
  have "parseSCPIResponse command = [command]"
    using assms scpi_loop_plain[of command "[]" "[]" "[]"] by (simp add: parseSCPIResponse_def)
  moreover have "parseSCPIResponse (command @ '' '' @ join '' '' ts) =
      command # filter (\<lambda>s. s \<noteq> []) (map param_text params)"
    using assms ts scpi_loop_plain[OF assms(1), of "'' '' @ join '' '' ts" "[]" "[]"]
      scpi_loop_params[OF assms(3) ts, of "CHR '' ''" "[command]"]
    by (simp add: parseSCPIResponse_def scpi_separator_def)
  ultimately show ?thesis
    using ts by (auto simp: formatSCPI_def)
qed

lemma formatSCPI_parse_witness:
  "\<exists>line. formatSCPI ''SINK:PDO'' [Param_Number (Decimal (-1205) 2), Param_String ''a, b'',
       Param_String [], Param_Boolean True] = Inr line \<and>
     parseSCPIResponse line = [''SINK:PDO'', ''-12.05'', ''a, b'', ''ON'']"
proof -
  have "js_String (-1205) 2 = ''-12.05''"
    by code_simp
  then show ?thesis
    using formatSCPI_parse[of "''SINK:PDO''" "[Param_Number (Decimal (-1205) 2), Param_String ''a, b'',
       Param_String [], Param_Boolean True]"]
    by (simp add: plain_token_def scpi_separator_def)
qed

end
