(* ===== verification/Stream_Framing.thy ===== *)
theory Stream_Framing
  imports Drpd_Prelude
begin

text \<open>
  The contract of a self-delimiting message format read from a byte stream that arrives in arbitrary
  pieces. A format is given by \<open>next\<close>: on the bytes received so far it reports a framing error,
  that the message is not complete yet, or the offset at which the first message ends. The locale
  \<open>framing\<close> states what a format has to promise, and its lemmas show what a receiver gets from it:
  the messages and the unread rest do not depend on how the stream was cut into transfers. The
  theories of the two transports interpret it on the WinUSB frames and on the SCPI blocks.
\<close>

section \<open>Receivers\<close>

text \<open>Taking complete messages off the front of a buffer; \<open>fuel\<close> bounds the number of messages.\<close>

fun drain :: "nat \<Rightarrow> ('b list \<Rightarrow> 'e + nat option) \<Rightarrow> 'b list \<Rightarrow> 'b list list \<times> 'b list \<times> 'e option" where
  "drain 0 next bs = ([], bs, None)"
| "drain (Suc fuel) next bs =
     (case next bs of
        Inl e \<Rightarrow> ([], bs, Some e)
      | Inr None \<Rightarrow> ([], bs, None)
      | Inr (Some k) \<Rightarrow> (case drain fuel next (drop k bs) of (fs, r, e) \<Rightarrow> (take k bs # fs, r, e)))"

text \<open>A message has at least one byte, so a buffer holds no more messages than bytes.\<close>

definition split_stream :: "('b list \<Rightarrow> 'e + nat option) \<Rightarrow> 'b list \<Rightarrow> 'b list list \<times> 'b list \<times> 'e option" where
  "split_stream next bs = drain (Suc (length bs)) next bs"

text \<open>Appending one transfer to what a receiver kept, until an error is met.\<close>

definition receive :: "('b list \<Rightarrow> 'e + nat option) \<Rightarrow> 'b list \<Rightarrow> 'b list list \<times> 'b list \<times> 'e option \<Rightarrow>
    'b list list \<times> 'b list \<times> 'e option" where
  "receive next chunk st =
     (case st of
        (fs, r, Some e) \<Rightarrow> (fs, r @ chunk, Some e)
      | (fs, r, None) \<Rightarrow> (case split_stream next (r @ chunk) of (gs, s, e) \<Rightarrow> (fs @ gs, s, e)))"

text \<open>Accumulating transfers until the first message is complete.\<close>

fun accumulate :: "('b list \<Rightarrow> 'e + nat option) \<Rightarrow> 'b list \<Rightarrow> 'b list list \<Rightarrow> 'e + 'b list option" where
  "accumulate next acc [] = Inr None"
| "accumulate next acc (c # cs) =
     (if c = [] then accumulate next acc cs
      else (case next (acc @ c) of
              Inl e \<Rightarrow> Inl e
            | Inr (Some k) \<Rightarrow> Inr (Some (take k (acc @ c)))
            | Inr None \<Rightarrow> accumulate next (acc @ c) cs))"

section \<open>The contract\<close>

locale framing =
  fixes "next" :: "'b list \<Rightarrow> 'e + nat option"
  assumes next_pos: "next bs = Inr (Some k) \<Longrightarrow> 0 < k"
    and next_le: "next bs = Inr (Some k) \<Longrightarrow> k \<le> length bs"
    and next_extend: "next bs \<noteq> Inr None \<Longrightarrow> next (bs @ more) = next bs"
    and next_own: "next bs = Inr (Some k) \<Longrightarrow> next (take k bs) = Inr (Some k)"
begin

lemma next_prefix:
  assumes "next bs = Inr (Some k)" "j < k"
  shows "next (take j bs) = Inr None"
proof (rule ccontr)
  assume n: "next (take j bs) \<noteq> Inr None"
  then have "next bs = next (take j bs)"
    using next_extend [of "take j bs" "drop j bs"] by simp
  then show False
    using assms next_le [of "take j bs" k] by simp
qed

lemma next_Nil: "next [] \<noteq> Inr (Some k)"
proof
  assume "next [] = Inr (Some k)"
  from next_pos [OF this] next_le [OF this] show False
    by simp
qed

lemma drain_fuel:
  "length bs < n \<Longrightarrow> length bs < m \<Longrightarrow> drain n next bs = drain m next bs"
proof (induction n arbitrary: m bs)
  case (Suc n)
  then obtain m' where m: "m = Suc m'"
    by (cases m) auto
  show ?case
  proof (cases "next bs")
    case (Inr r)
    then show ?thesis
    proof (cases r)
      case (Some k)
      then have "length (drop k bs) < n" "length (drop k bs) < m'"
        using Inr Suc.prems m next_pos[of bs k] next_le[of bs k] by auto
      then have "drain n next (drop k bs) = drain m' next (drop k bs)"
        by (rule Suc.IH)
      then show ?thesis
        using Inr Some m by simp
    qed (simp add: m)
  qed (simp add: m)
qed simp

lemma split_stream_unfold:
  "split_stream next bs =
     (case next bs of
        Inl e \<Rightarrow> ([], bs, Some e)
      | Inr None \<Rightarrow> ([], bs, None)
      | Inr (Some k) \<Rightarrow> (case split_stream next (drop k bs) of (fs, r, e) \<Rightarrow> (take k bs # fs, r, e)))"
proof (cases "next bs")
  case (Inr r)
  then show ?thesis
  proof (cases r)
    case (Some k)
    then have "drain (length bs) next (drop k bs) = split_stream next (drop k bs)"
      using Inr next_pos[of bs k] next_le[of bs k] unfolding split_stream_def
      by (intro drain_fuel) auto
    then show ?thesis
      by (simp add: split_stream_def Inr Some)
  qed (simp add: split_stream_def)
qed (simp add: split_stream_def)

lemma split_stream_append:
  "split_stream next (a @ b) = receive next b (split_stream next a)"
proof (induction a rule: length_induct)
  case (1 a)
  show ?case
  proof (cases "next a")
    case (Inl e)
    then show ?thesis
      using next_extend[of a b] by (simp add: split_stream_unfold[of a] split_stream_unfold[of "a @ b"] receive_def)
  next
    case (Inr r)
    show ?thesis
    proof (cases r)
      case None
      then show ?thesis
        using Inr by (simp add: split_stream_unfold[of a] receive_def)
    next
      case (Some k)
      then have k: "0 < k" "k \<le> length a" "next (a @ b) = Inr (Some k)"
        using Inr next_pos next_le next_extend[of a b] by auto
      then have "length (drop k a) < length a"
        by simp
      then have "split_stream next (drop k a @ b) = receive next b (split_stream next (drop k a))"
        using 1 by blast
      then show ?thesis
        using k Inr Some by (simp add: split_stream_unfold[of a] split_stream_unfold[of "a @ b"]
            receive_def split: prod.splits option.splits)
    qed
  qed
qed

lemma split_stream_rest: "split_stream next bs = (fs, r, None) \<Longrightarrow> next r = Inr None"
proof (induction fs arbitrary: bs)
  case Nil
  then show ?case
    by (simp add: split_stream_unfold[of bs] split: sum.splits option.splits prod.splits)
next
  case (Cons f fs)
  then obtain k where "split_stream next (drop k bs) = (fs, r, None)"
    by (auto simp: split_stream_unfold[of bs] split: sum.splits option.splits prod.splits)
  then show ?case
    by (rule Cons.IH)
qed

text \<open>The messages found and the bytes kept do not depend on how the stream was cut.\<close>

lemma receive_chunks:
  "foldl (\<lambda>st c. receive next c st) (split_stream next a) chunks = split_stream next (a @ concat chunks)"
  by (induction chunks arbitrary: a) (simp_all add: split_stream_append [symmetric])

text \<open>A stream of complete messages, followed by an incomplete one, is split into exactly these.\<close>

lemma split_stream_messages:
  assumes "list_all (\<lambda>w. next w = Inr (Some (length w))) ws" "next rest = Inr None"
  shows "split_stream next (concat ws @ rest) = (ws, rest, None)"
  using assms(1)
proof (induction ws)
  case Nil
  then show ?case
    using assms(2) by (simp add: split_stream_unfold[of rest])
next
  case (Cons w ws)
  then have "next (w @ concat ws @ rest) = Inr (Some (length w))"
    using next_extend[of w "concat ws @ rest"] by simp
  then show ?case
    using Cons by (simp add: split_stream_unfold[of "w @ concat ws @ rest"])
qed

text \<open>Reading one message returns the same bytes however its transfers were cut: the first message of
  the whole stream, and nothing of what follows it.\<close>

lemma accumulate_first:
  assumes "next (acc @ concat chunks) = Inr (Some k)" "next acc = Inr None"
  shows "accumulate next acc chunks = Inr (Some (take k (acc @ concat chunks)))"
  using assms
proof (induction chunks arbitrary: acc)
  case (Cons c cs)
  show ?case
  proof (cases "c = [] \<or> next (acc @ c) = Inr None")
    case True
    then show ?thesis
      using Cons by auto
  next
    case False
    then have "next (acc @ c) = Inr (Some k)"
      using Cons.prems(1) next_extend[of "acc @ c" "concat cs"] by simp
    then show ?thesis
      using False next_le[of "acc @ c" k] by simp
  qed
qed simp

lemma accumulate_error:
  assumes "next (acc @ concat chunks) = Inl e" "next acc = Inr None"
  shows "accumulate next acc chunks = Inl e"
  using assms
proof (induction chunks arbitrary: acc)
  case (Cons c cs)
  show ?case
  proof (cases "c = [] \<or> next (acc @ c) = Inr None")
    case True
    then show ?thesis
      using Cons by auto
  next
    case False
    then have "next (acc @ c) = Inl e"
      using Cons.prems(1) next_extend[of "acc @ c" "concat cs"] by simp
    then show ?thesis
      using False by simp
  qed
qed simp

lemma accumulate_pending:
  assumes "next (acc @ concat chunks) = Inr None"
  shows "accumulate next acc chunks = Inr None"
  using assms
proof (induction chunks arbitrary: acc)
  case (Cons c cs)
  have "next (acc @ c) = Inr None"
  proof (rule ccontr)
    assume "next (acc @ c) \<noteq> Inr None"
    then show False
      using Cons.prems next_extend[of "acc @ c" "concat cs"] by simp
  qed
  then show ?case
    using Cons by (cases "c = []") simp_all
qed simp

end

end
