(* ===== verification/Scpi_Blocks.thy ===== *)
theory Scpi_Blocks
  imports Scpi_Text Stream_Framing
begin

text \<open>
  SCPI arbitrary blocks, as \<open>transport/usbtmc.ts\<close> reads them: \<open>_parseARBData\<close> extracts the payload of
  a block in a complete response, \<open>_findARBBlockCompletionOffset\<close> finds where the block that is being
  received ends. The completion test is a \<open>framing\<close>, and a block it calls complete is one the parser
  accepts.
\<close>

section \<open>Readers of the block header\<close>

definition isWhitespaceByte :: "int \<Rightarrow> bool" where
  "isWhitespaceByte v \<longleftrightarrow> v = 0x20 \<or> v = 0x09 \<or> v = 0x0a \<or> v = 0x0d"

function skip_whitespace :: "bytes \<Rightarrow> nat \<Rightarrow> nat" where
  "skip_whitespace response offset =
     (if offset < length response \<and> isWhitespaceByte (byte_at response offset)
      then skip_whitespace response (offset + 1) else offset)"
  by auto
termination
  by (relation "measure (\<lambda>(response, offset). length response - offset)") auto

declare skip_whitespace.simps [simp del]

text \<open>The newline that ends an indefinite-length block, from \<open>i\<close> on.\<close>

function find_newline :: "bytes \<Rightarrow> nat \<Rightarrow> nat option" where
  "find_newline response i =
     (if i < length response
      then (if byte_at response i = 0x0a then Some i else find_newline response (i + 1))
      else None)"
  by auto
termination
  by (relation "measure (\<lambda>(response, i). length response - i)") auto

declare find_newline.simps [simp del]

text \<open>The loop over the digits of the length field, \<open>digitCount\<close> of them left.\<close>

fun block_length :: "bytes \<Rightarrow> nat \<Rightarrow> nat \<Rightarrow> int \<Rightarrow> scpi_error + int" where
  "block_length response offset 0 len = Inr len"
| "block_length response offset (Suc digitCount) len =
     (let v = byte_at response offset - 0x30
      in if v < 0 \<or> v > 9 then Inl Block_digits_invalid
         else block_length response (offset + 1) digitCount (len * 10 + v))"

section \<open>The payload of a block\<close>

definition parseARBData :: "bytes \<Rightarrow> scpi_error + bytes" where
  "parseARBData response =
     (let offset = skip_whitespace response 0
      in if byte_opt response offset \<noteq> Some 0x23 then Inl Response_not_a_block
         else let offset = offset + 1
         in if offset \<ge> length response then Inl Block_header_incomplete
         else let digitCount = byte_at response offset - 0x30
         in if digitCount < 0 \<or> digitCount > 9 then Inl Block_length_field_invalid
         else let offset = offset + 1
         in if digitCount = 0 then
              Inr (sub_array response offset
                (case find_newline response offset of Some i \<Rightarrow> i | None \<Rightarrow> length response))
         else if int offset + digitCount > int (length response) then Inl Block_header_incomplete
         else res_bind (block_length response offset (nat digitCount) 0) (\<lambda>len.
           let offset = offset + nat digitCount
           in if int offset + len > int (length response) then Inl Block_payload_incomplete
              else Inr (sub_array response offset (offset + nat len))))"

section \<open>Where a block being received ends\<close>

definition findARBBlockCompletionOffset :: "bytes \<Rightarrow> scpi_error + nat option" where
  "findARBBlockCompletionOffset response =
     (let offset = skip_whitespace response 0
      in if offset \<ge> length response then Inr None
         else if byte_at response offset \<noteq> 0x23 then Inl Response_not_a_block
         else let digitFieldOffset = offset + 1
         in if digitFieldOffset \<ge> length response then Inr None
         else let digitCount = byte_at response digitFieldOffset - 0x30
         in if digitCount < 0 \<or> digitCount > 9 then Inl Block_length_field_invalid
         else let lengthFieldOffset = digitFieldOffset + 1
         in if digitCount = 0 then
              (case find_newline response lengthFieldOffset of
                 Some i \<Rightarrow> Inr (Some (i + 1))
               | None \<Rightarrow> Inr None)
         else let payloadOffset = lengthFieldOffset + nat digitCount
         in if payloadOffset > length response then Inr None
         else res_bind (block_length response lengthFieldOffset (nat digitCount) 0) (\<lambda>payloadLength.
           let payloadEnd = payloadOffset + nat payloadLength
           in if payloadEnd > length response then Inr None else Inr (Some payloadEnd)))"

section \<open>The readers look only at the bytes they need\<close>

lemma byte_at_append: "i < length xs \<Longrightarrow> byte_at (xs @ ys) i = byte_at xs i"
  by (rule byte_at_append1)

lemma skip_whitespace_le: "i \<le> length r \<Longrightarrow> skip_whitespace r i \<le> length r"
  by (induction r i rule: skip_whitespace.induct) (subst skip_whitespace.simps, simp)

lemma skip_whitespace_append:
  "skip_whitespace r i < length r \<Longrightarrow> skip_whitespace (r @ more) i = skip_whitespace r i"
proof (induction r i rule: skip_whitespace.induct)
  case (1 r i)
  show ?case
  proof (cases "i < length r \<and> isWhitespaceByte (byte_at r i)")
    case True
    then have "skip_whitespace r (i + 1) = skip_whitespace r i"
      by (simp add: skip_whitespace.simps[of r i])
    then show ?thesis
      using 1 True by (subst skip_whitespace.simps) (simp add: byte_at_append)
  next
    case False
    then have i: "skip_whitespace r i = i"
      by (subst skip_whitespace.simps) (simp add: False)
    then show ?thesis
      using False 1(2) by (subst skip_whitespace.simps) (auto simp: byte_at_append)
  qed
qed

lemma find_newline_le: "find_newline r i = Some j \<Longrightarrow> i \<le> j \<and> j < length r"
  by (induction r i rule: find_newline.induct)
    (subst (asm) find_newline.simps, fastforce split: if_splits)

lemma find_newline_append:
  "find_newline r i = Some j \<Longrightarrow> find_newline (r @ more) i = Some j"
proof (induction r i rule: find_newline.induct)
  case (1 r i)
  then show ?case
    by (subst find_newline.simps, subst (asm) (2) find_newline.simps)
      (auto simp: byte_at_append split: if_splits)
qed

lemma block_length_append:
  "offset + n \<le> length r \<Longrightarrow> block_length (r @ more) offset n len = block_length r offset n len"
  by (induction r offset n len rule: block_length.induct) (auto simp: byte_at_append Let_def)

lemma block_length_nonneg: "block_length r offset n len = Inr l \<Longrightarrow> 0 \<le> len \<Longrightarrow> 0 \<le> l"
  by (induction r offset n len rule: block_length.induct) (auto simp: Let_def split: if_splits)

lemma skip_whitespace_ge: "i \<le> skip_whitespace r i"
proof (induction r i rule: skip_whitespace.induct)
  case (1 r i)
  then show ?case
    by (subst skip_whitespace.simps) auto
qed

lemma byte_at_take: "i < k \<Longrightarrow> byte_at (take k r) i = byte_at r i"
  by (simp add: byte_at_def)

lemma skip_whitespace_take:
  "skip_whitespace r i < k \<Longrightarrow> skip_whitespace (take k r) i = skip_whitespace r i"
proof (induction r i rule: skip_whitespace.induct)
  case (1 r i)
  have "i < k"
    using 1(2) skip_whitespace_ge[of i r] by simp
  show ?case
  proof (cases "i < length r \<and> isWhitespaceByte (byte_at r i)")
    case True
    then have "skip_whitespace r (i + 1) = skip_whitespace r i"
      by (simp add: skip_whitespace.simps[of r i])
    then show ?thesis
      using 1 True \<open>i < k\<close> by (subst skip_whitespace.simps) (simp add: byte_at_take)
  next
    case False
    then have i: "skip_whitespace r i = i"
      by (subst skip_whitespace.simps) (simp add: False)
    then show ?thesis
      using False \<open>i < k\<close> by (subst skip_whitespace.simps) (auto simp: byte_at_take)
  qed
qed

lemma find_newline_take:
  "find_newline r i = Some j \<Longrightarrow> j < k \<Longrightarrow> find_newline (take k r) i = Some j"
proof (induction r i rule: find_newline.induct)
  case (1 r i)
  have "i \<le> j"
    using find_newline_le [OF 1(2)] by simp
  then show ?case
    using 1 by (subst find_newline.simps, subst (asm) (2) find_newline.simps)
      (auto simp: byte_at_take split: if_splits)
qed

lemma block_length_take:
  assumes "offset + n \<le> k" "k \<le> length r"
  shows "block_length (take k r) offset n len = block_length r offset n len"
  using block_length_append[of offset n "take k r" "drop k r" len] assms by simp

section \<open>Completion is a framing\<close>

lemmas completion_defs = findARBBlockCompletionOffset_def Let_def

text \<open>The two ways a block is complete: at the newline of an indefinite-length block, or at the end of
  the payload a length field announces.\<close>

lemma completion_cases:
  assumes "findARBBlockCompletionOffset r = Inr (Some k)"
  obtains (indefinite) o' i where "o' = skip_whitespace r 0" "o' + 1 < length r"
      "byte_at r o' = 0x23" "byte_at r (o' + 1) = 0x30" "find_newline r (o' + 2) = Some i" "k = i + 1"
    | (definite) o' n len where "o' = skip_whitespace r 0" "byte_at r o' = 0x23"
      "byte_at r (o' + 1) = 0x30 + int n" "0 < n" "n \<le> 9" "o' + 2 + n \<le> length r"
      "block_length r (o' + 2) n 0 = Inr len" "0 \<le> len" "k = o' + 2 + n + nat len" "k \<le> length r"
proof -
  let ?o = "skip_whitespace r 0"
  let ?d = "byte_at r (?o + 1) - 0x30"
  have o: "?o + 1 < length r" "byte_at r ?o = 0x23" "0 \<le> ?d" "?d \<le> 9"
    using assms by (auto simp: completion_defs split: if_splits)
  show ?thesis
  proof (cases "?d = 0")
    case True
    then show ?thesis
      using assms o indefinite[of ?o "k - 1"] by (auto simp: completion_defs split: option.splits)
  next
    case False
    then have "?o + 2 + nat ?d \<le> length r" and r: "res_bind (block_length r (?o + 2) (nat ?d) 0)
        (\<lambda>len. let e = ?o + 2 + nat ?d + nat len in if e > length r then Inr None else Inr (Some e)) =
        Inr (Some k)"
      using assms o by (auto simp: completion_defs add.commute add.left_commute split: if_splits)
    moreover obtain len where "block_length r (?o + 2) (nat ?d) 0 = Inr len"
        "?o + 2 + nat ?d + nat len \<le> length r" "k = ?o + 2 + nat ?d + nat len"
      using r by (auto simp: res_bind_Inr_iff Let_def split: if_splits)
    moreover have "0 \<le> len"
      using block_length_nonneg[OF \<open>block_length r (?o + 2) (nat ?d) 0 = Inr len\<close>] by simp
    ultimately show ?thesis
      using False o definite[of ?o "nat ?d" len] by auto
  qed
qed

lemma completion_intro_indefinite:
  assumes "skip_whitespace r 0 = o'" "o' + 1 < length r" "byte_at r o' = 0x23"
    "byte_at r (o' + 1) = 0x30" "find_newline r (o' + 2) = Some i"
  shows "findARBBlockCompletionOffset r = Inr (Some (i + 1))"
  using assms by (simp add: completion_defs)

lemma completion_intro_definite:
  assumes "skip_whitespace r 0 = o'" "byte_at r o' = 0x23" "byte_at r (o' + 1) = 0x30 + int n"
    "0 < n" "n \<le> 9" "o' + 2 + n \<le> length r" "block_length r (o' + 2) n 0 = Inr len"
    "o' + 2 + n + nat len \<le> length r"
  shows "findARBBlockCompletionOffset r = Inr (Some (o' + 2 + n + nat len))"
  using assms by (simp add: completion_defs)

lemma completion_bounds:
  "findARBBlockCompletionOffset r = Inr (Some k) \<Longrightarrow> 0 < k \<and> k \<le> length r"
proof (elim completion_cases)
  fix o' i
  assume "find_newline r (o' + 2) = Some i" "k = i + 1"
  then show ?thesis
    using find_newline_le[of r "o' + 2" i] by simp
qed simp

lemma completion_own:
  assumes "findARBBlockCompletionOffset r = Inr (Some k)"
  shows "findARBBlockCompletionOffset (take k r) = Inr (Some k)"
  using assms
proof (cases rule: completion_cases)
  case (indefinite o' i)
  then have "o' + 2 \<le> i" "i < length r"
    using find_newline_le by auto
  then show ?thesis
    using indefinite completion_intro_indefinite[of "take k r" o' i] skip_whitespace_take[of r 0 k]
      find_newline_take[of r "o' + 2" i k] by (simp add: byte_at_take)
next
  case (definite o' n len)
  then show ?thesis
    using completion_intro_definite[of "take k r" o' n len] skip_whitespace_take[of r 0 k]
      block_length_take[of "o' + 2" n k r 0] by (simp add: byte_at_take)
qed

lemma completion_extend_Some:
  assumes "findARBBlockCompletionOffset r = Inr (Some k)"
  shows "findARBBlockCompletionOffset (r @ more) = Inr (Some k)"
  using assms
proof (cases rule: completion_cases)
  case (indefinite o' i)
  then show ?thesis
    using completion_intro_indefinite[of "r @ more" o' i] skip_whitespace_append[of r 0 more]
      find_newline_append[of r "o' + 2" i more] by (simp add: byte_at_append)
next
  case (definite o' n len)
  then show ?thesis
    using completion_intro_definite[of "r @ more" o' n len] skip_whitespace_append[of r 0 more]
      block_length_append[of "o' + 2" n r more 0] by (simp add: byte_at_append)
qed

lemma completion_extend_error:
  assumes "findARBBlockCompletionOffset r = Inl e"
  shows "findARBBlockCompletionOffset (r @ more) = Inl e"
proof -
  let ?o = "skip_whitespace r 0"
  let ?d = "byte_at r (?o + 1) - 0x30"
  have o: "?o < length r"
    using assms by (auto simp: completion_defs split: if_splits)
  then have s: "skip_whitespace (r @ more) 0 = ?o" "byte_at (r @ more) ?o = byte_at r ?o"
    using skip_whitespace_append[of r 0 more] by (simp_all add: byte_at_append)
  show ?thesis
  proof (cases "byte_at r ?o = 0x23")
    case True
    then have l: "?o + 1 < length r"
      using assms o by (auto simp: completion_defs split: if_splits)
    show ?thesis
    proof (cases "0 \<le> ?d \<and> ?d \<le> 9")
      case d: True
      then have "?d \<noteq> 0" "?o + 2 + nat ?d \<le> length r" "block_length r (?o + 2) (nat ?d) 0 = Inl e"
        using assms True l
        by (auto simp: completion_defs res_bind_Inl_iff split: if_splits option.splits)
      then show ?thesis
        using s o True l d block_length_append[of "?o + 2" "nat ?d" r more 0]
        by (simp add: completion_defs byte_at_append)
    next
      case False
      then show ?thesis
        using assms s o True l by (auto simp: completion_defs byte_at_append)
    qed
  next
    case False
    then show ?thesis
      using assms s o by (auto simp: completion_defs byte_at_append)
  qed
qed

interpretation arb: framing findARBBlockCompletionOffset
proof unfold_locales
  fix bs more :: bytes
  assume "findARBBlockCompletionOffset bs \<noteq> Inr None"
  then show "findARBBlockCompletionOffset (bs @ more) = findARBBlockCompletionOffset bs"
    by (cases "findARBBlockCompletionOffset bs")
      (auto simp: completion_extend_error completion_extend_Some)
qed (auto simp: completion_bounds completion_own)

section \<open>A complete block is one the parser accepts\<close>

lemma sub_array_take: "b \<le> k \<Longrightarrow> sub_array (take k r) a b = sub_array r a b"
  by (simp add: sub_array_def drop_take min_def)

lemma byte_opt_Some: "i < length r \<Longrightarrow> byte_opt r i = Some (byte_at r i)"
  by (simp add: byte_opt_def byte_at_def)

lemma parse_intro_indefinite:
  assumes "skip_whitespace r 0 = o'" "o' + 1 < length r" "byte_at r o' = 0x23"
    "byte_at r (o' + 1) = 0x30" "find_newline r (o' + 2) = Some i"
  shows "parseARBData r = Inr (sub_array r (o' + 2) i)"
  using assms by (simp add: parseARBData_def Let_def byte_opt_Some)

lemma parse_intro_definite:
  assumes "skip_whitespace r 0 = o'" "byte_at r o' = 0x23" "byte_at r (o' + 1) = 0x30 + int n"
    "0 < n" "n \<le> 9" "o' + 2 + n \<le> length r" "block_length r (o' + 2) n 0 = Inr len" "0 \<le> len"
    "o' + 2 + n + nat len \<le> length r"
  shows "parseARBData r = Inr (sub_array r (o' + 2 + n) (o' + 2 + n + nat len))"
proof -
  have "\<not> int (length r) < int (o' + 2 + n) + len"
    using assms(8,9) by linarith
  then show ?thesis
    using assms by (simp add: parseARBData_def Let_def byte_opt_Some)
qed


section \<open>Round trip of definite-length blocks\<close>

fun ascii_digits :: "nat \<Rightarrow> nat \<Rightarrow> bytes" where
  "ascii_digits 0 v = []"
| "ascii_digits (Suc n) v = word_of_nat (48 + v div 10 ^ n) # ascii_digits n (v mod 10 ^ n)"

text \<open>A block with an \<open>n\<close>-digit length field, as the device sends it.\<close>

definition definite_block :: "nat \<Rightarrow> bytes \<Rightarrow> bytes" where
  "definite_block n payload = [0x23, word_of_nat (48 + n)] @ ascii_digits n (length payload) @ payload"

lemma uint_byte_of_nat: "n < 256 \<Longrightarrow> uint (word_of_nat n :: byte) = int n"
  by (simp add: unsigned_of_nat take_bit_nat_eq_self)

lemma uint_digit [simp]: "n < 200 \<Longrightarrow> uint (48 + word_of_nat n :: byte) = 48 + int n"
  using uint_byte_of_nat[of "48 + n"] by simp

lemma length_ascii_digits [simp]: "length (ascii_digits n v) = n"
  by (induction n arbitrary: v) auto

lemma skip_whitespace_prefix:
  "list_all (\<lambda>b. isWhitespaceByte (uint b)) ws \<Longrightarrow>
   skip_whitespace (pre @ ws @ rest) (length pre) = skip_whitespace (pre @ ws @ rest) (length pre + length ws)"
proof (induction ws arbitrary: pre)
  case (Cons w ws)
  have "skip_whitespace (pre @ (w # ws) @ rest) (length pre) =
      skip_whitespace ((pre @ [w]) @ ws @ rest) (length (pre @ [w]))"
    using Cons.prems by (subst skip_whitespace.simps) (simp add: byte_at_def)
  also have "\<dots> = skip_whitespace ((pre @ [w]) @ ws @ rest) (length (pre @ [w]) + length ws)"
    by (rule Cons.IH) (use Cons.prems in simp)
  finally show ?case
    by simp
qed simp

lemma block_length_digits:
  "v < 10 ^ n \<Longrightarrow>
   block_length (pre @ ascii_digits n v @ post) (length pre) n acc = Inr (acc * 10 ^ n + int v)"
proof (induction n arbitrary: pre v acc)
  case (Suc n)
  define q where "q = v div 10 ^ n"
  have q: "q < 10" "int v = int q * 10 ^ n + int (v mod 10 ^ n)"
  proof -
    show "q < 10"
      using Suc.prems by (simp add: q_def less_mult_imp_div_less mult.commute)
    have "int v = int (q * 10 ^ n + v mod 10 ^ n)"
      by (simp only: q_def div_mult_mod_eq)
    then show "int v = int q * 10 ^ n + int (v mod 10 ^ n)"
      by simp
  qed
  have d: "byte_at (pre @ ascii_digits (Suc n) v @ post) (length pre) = 48 + int q"
    using q(1) by (simp add: byte_at_def uint_byte_of_nat q_def [symmetric])
  have "block_length ((pre @ [word_of_nat (48 + q)]) @ ascii_digits n (v mod 10 ^ n) @ post)
      (length (pre @ [word_of_nat (48 + q) :: byte])) n (acc * 10 + int q) =
      Inr ((acc * 10 + int q) * 10 ^ n + int (v mod 10 ^ n))"
    by (rule Suc.IH) simp
  then show ?case
    using d q by (simp add: Let_def q_def [symmetric] algebra_simps)
qed simp

lemma definite_block_complete:
  assumes "list_all (\<lambda>b. isWhitespaceByte (uint b)) ws" "0 < n" "n \<le> 9" "length payload < 10 ^ n"
  shows "findARBBlockCompletionOffset (ws @ definite_block n payload @ rest) =
      Inr (Some (length ws + 2 + n + length payload))"
    and "parseARBData (ws @ definite_block n payload @ rest) = Inr payload"
proof -
  let ?r = "ws @ definite_block n payload @ rest"
  let ?w = "length ws"
  have b: "byte_at ?r ?w = 0x23" "byte_at ?r (?w + 1) = 48 + int n"
    using assms(3) by (simp_all add: definite_block_def byte_at_def nth_append uint_byte_of_nat)
  have "skip_whitespace ?r 0 = skip_whitespace ?r ?w"
    using skip_whitespace_prefix[OF assms(1), of "[]"] by simp
  then have s: "skip_whitespace ?r 0 = ?w"
    using b(1) by (subst (asm) (2) skip_whitespace.simps) (simp add: isWhitespaceByte_def)
  have l: "block_length ?r (?w + 2) n 0 = Inr (int (length payload))"
    using block_length_digits[OF assms(4), of "ws @ [0x23, word_of_nat (48 + n)]" "payload @ rest" 0]
    by (simp add: definite_block_def)
  have len: "length ?r = ?w + 2 + n + length payload + length rest"
    by (simp add: definite_block_def)
  show "findARBBlockCompletionOffset ?r = Inr (Some (length ws + 2 + n + length payload))"
    using completion_intro_definite[OF s b(1) _ assms(2,3) _ l] b(2) len by simp
  have "sub_array ?r (?w + 2 + n) (?w + 2 + n + length payload) = payload"
    by (simp add: sub_array_def definite_block_def)
  then show "parseARBData ?r = Inr payload"
    using parse_intro_definite[OF s b(1) _ assms(2,3) _ l] b(2) len by simp
qed

text \<open>A binary answer survives any cut into transfers. For a definite-length block (any payload, a
  length field of one to nine digits) after any whitespace and before any trailing bytes, however
  the stream is cut into chunks, empty ones included, the accumulation loop returns exactly the
  bytes up to the end of the block, and the parser extracts the payload from them.\<close>

lemma block_transfer_roundtrip:
  assumes "list_all (\<lambda>b. isWhitespaceByte (uint b)) ws" "0 < n" "n \<le> 9" "length payload < 10 ^ n"
    and "concat chunks = ws @ definite_block n payload @ rest"
  shows "accumulate findARBBlockCompletionOffset [] chunks = Inr (Some (ws @ definite_block n payload)) \<and>
    parseARBData (ws @ definite_block n payload) = Inr payload"
proof
  have "findARBBlockCompletionOffset [] = Inr None"
    by (simp add: completion_defs skip_whitespace.simps)
  moreover have "take (length ws + 2 + n + length payload) (ws @ definite_block n payload @ rest) =
      ws @ definite_block n payload"
    by (simp add: definite_block_def)
  ultimately show "accumulate findARBBlockCompletionOffset [] chunks = Inr (Some (ws @ definite_block n payload))"
    using arb.accumulate_first[of "[]" chunks] definite_block_complete(1)[OF assms(1-4), of rest] assms(5)
    by simp
  show "parseARBData (ws @ definite_block n payload) = Inr payload"
    using definite_block_complete(2)[OF assms(1-4), of "[]"] by simp
qed

lemma block_transfer_roundtrip_witness:
  "accumulate findARBBlockCompletionOffset [] [[0x0a], [0x23, 0x31], [], [0x32, 0xff, 0x00, 0x0a]] =
     Inr (Some [0x0a, 0x23, 0x31, 0x32, 0xff, 0x00]) \<and>
   parseARBData [0x0a, 0x23, 0x31, 0x32, 0xff, 0x00] = Inr [0xff, 0x00]"
  using block_transfer_roundtrip[of "[0x0a]" 1 "[0xff, 0x00]"
      "[[0x0a], [0x23, 0x31], [], [0x32, 0xff, 0x00, 0x0a]]" "[0x0a]"]
  by (simp add: definite_block_def isWhitespaceByte_def)


end
