(* ===== verification/Transport_Tags.thy ===== *)
theory Transport_Tags
  imports Drpd_Prelude
begin

text \<open>
  The contract of a rolling transaction tag. Both transports draw the tag of a request from an 8-bit
  counter and replace 0 by 1; a response is matched to its request by the tag. The locale states the
  contract, its lemmas show the range of the tags and exactly when a tag is drawn twice.
\<close>

section \<open>Drawing tags repeatedly\<close>

fun draw_tags :: "('s \<Rightarrow> int \<times> 's) \<Rightarrow> nat \<Rightarrow> 's \<Rightarrow> int list \<times> 's" where
  "draw_tags draw 0 st = ([], st)"
| "draw_tags draw (Suc n) st =
     (case draw st of (t, st') \<Rightarrow> (case draw_tags draw n st' of (ts, st'') \<Rightarrow> (t # ts, st'')))"

locale rolling_tag =
  fixes draw :: "'s \<Rightarrow> int \<times> 's"
    and counter :: "'s \<Rightarrow> int"
  assumes draw_tag: "0 \<le> counter st \<Longrightarrow> counter st < 256 \<Longrightarrow>
      fst (draw st) = (if counter st = 0 then 1 else counter st)"
    and draw_counter: "0 \<le> counter st \<Longrightarrow> counter st < 256 \<Longrightarrow>
      counter (snd (draw st)) = (counter st + 1) mod 256"
begin

lemma draw_counter_bounds:
  "0 \<le> counter st \<Longrightarrow> counter st < 256 \<Longrightarrow>
   0 \<le> counter (snd (draw st)) \<and> counter (snd (draw st)) < 256"
  by (simp add: draw_counter)

lemma draw_tags_nth:
  assumes "0 \<le> counter st" "counter st < 256" "i < n"
  shows "fst (draw_tags draw n st) ! i =
    (let c = (counter st + int i) mod 256 in if c = 0 then 1 else c)"
  using assms
proof (induction n arbitrary: st i)
  case (Suc n)
  show ?case
  proof (cases i)
    case 0
    then show ?thesis
      using Suc.prems draw_tag[of st] by (simp add: split_beta)
  next
    case (Suc j)
    have "fst (draw_tags draw n (snd (draw st))) ! j =
        (let c = (counter (snd (draw st)) + int j) mod 256 in if c = 0 then 1 else c)"
      using Suc.prems draw_counter_bounds[of st] \<open>i = Suc j\<close> by (intro Suc.IH) auto
    moreover have "(counter (snd (draw st)) + int j) mod 256 = (counter st + int i) mod 256"
      using Suc.prems \<open>i = Suc j\<close> by (simp add: draw_counter mod_simps algebra_simps)
    ultimately show ?thesis
      using \<open>i = Suc j\<close> by (simp add: split_beta)
  qed
qed simp

lemma length_draw_tags: "length (fst (draw_tags draw n st)) = n"
  by (induction n arbitrary: st) (simp_all add: split_beta)

lemma draw_tags_range:
  assumes "0 \<le> counter st" "counter st < 256" "t \<in> set (fst (draw_tags draw n st))"
  shows "1 \<le> t \<and> t \<le> 255"
proof -
  obtain i where "i < n" "t = fst (draw_tags draw n st) ! i"
    using assms(3) by (metis in_set_conv_nth length_draw_tags)
  moreover have "0 \<le> (counter st + int i) mod 256" "(counter st + int i) mod 256 < 256"
    by simp_all
  ultimately show ?thesis
    using draw_tags_nth[OF assms(1,2), of i n] by (auto simp: Let_def)
qed

text \<open>Among 255 consecutive requests a tag is used twice only when the counter passes zero: the two
  requests drawn at counter values 0 and 1 share the tag 1.\<close>

lemma draw_tags_reuse:
  assumes "0 \<le> counter st" "counter st < 256" "i < j" "j < n" "j - i < 255"
  shows "fst (draw_tags draw n st) ! i = fst (draw_tags draw n st) ! j \<longleftrightarrow>
    j = i + 1 \<and> (counter st + int i) mod 256 = 0"
proof -
  define c where "c = (counter st + int i) mod 256"
  define d where "d = int (j - i)"
  have c: "0 \<le> c" "c < 256" and d: "0 < d" "d < 255"
    using assms by (simp_all add: c_def d_def)
  have j: "(counter st + int j) mod 256 = (c + d) mod 256"
    using assms(3) by (simp add: c_def d_def mod_simps of_nat_diff)
  have m: "(c + d) mod 256 = (if c + d < 256 then c + d else c + d - 256)"
    using c d mod_pos_pos_trivial[of "c + d - 256" 256] minus_mod_self2[of "c + d" 256] by simp
  have "(if c = 0 then 1 else c) = (let e = (c + d) mod 256 in if e = 0 then 1 else e) \<longleftrightarrow> d = 1 \<and> c = 0"
    unfolding m Let_def using c d by (auto split: if_splits)
  moreover have "d = 1 \<longleftrightarrow> j = i + 1"
    using assms(3) by (auto simp: d_def)
  moreover have "i < n"
    using assms(3,4) by simp
  ultimately show ?thesis
    unfolding draw_tags_nth[OF assms(1,2) \<open>i < n\<close>] draw_tags_nth[OF assms(1,2,4)] j c_def [symmetric]
    by (simp only: Let_def conj_commute)
qed

end

end
