(* ===== verification/Winusb.thy ===== *)
theory Winusb
  imports Scpi_Blocks Transport_Tags
begin

text \<open>
  The WinUSB transport, \<open>transport/winusb.ts\<close>: 12-byte framed requests and responses with rolling
  tags, the receive buffer that splits incoming transfers into frames, and the request operations on
  top of them (commands, queries, firmware updates).

  The state record holds the fields of \<open>WinUSBTransport\<close> and, for the device on the other side of the
  cable, the transfers that will still arrive before the read deadline (\<open>dev_in\<close>), the transfers
  written so far (\<open>dev_out\<close>), the number of interrupt events dispatched and the progress reports of
  an update. An operation is a state transformer that returns a thrown error or a value; it is \<open>None\<close>
  when the code never returns. A read whose deadline passes finds no further transfer in \<open>dev_in\<close>.
\<close>

section \<open>Frames\<close>

definition WINUSB_FRAME_MAGIC0 :: int where "WINUSB_FRAME_MAGIC0 = 0x57"
definition WINUSB_FRAME_MAGIC1 :: int where "WINUSB_FRAME_MAGIC1 = 0x55"
definition WINUSB_FRAME_VERSION :: int where "WINUSB_FRAME_VERSION = 0x01"
definition WINUSB_FRAME_HEADER_SIZE :: nat where "WINUSB_FRAME_HEADER_SIZE = 12"

definition WINUSB_COMMAND_REQUEST :: int where "WINUSB_COMMAND_REQUEST = 0x01"
definition WINUSB_SESSION_RESET_REQUEST :: int where "WINUSB_SESSION_RESET_REQUEST = 0x02"
definition WINUSB_QUERY_REQUEST :: int where "WINUSB_QUERY_REQUEST = 0x03"
definition WINUSB_UPDATE_BEGIN :: int where "WINUSB_UPDATE_BEGIN = 0x10"
definition WINUSB_UPDATE_WRITE :: int where "WINUSB_UPDATE_WRITE = 0x11"
definition WINUSB_UPDATE_FINISH :: int where "WINUSB_UPDATE_FINISH = 0x12"
definition WINUSB_UPDATE_ABORT :: int where "WINUSB_UPDATE_ABORT = 0x13"
definition WINUSB_UPDATE_STATUS :: int where "WINUSB_UPDATE_STATUS = 0x14"
definition WINUSB_COMMAND_ACK :: int where "WINUSB_COMMAND_ACK = 0x80"
definition WINUSB_TEXT_RESPONSE :: int where "WINUSB_TEXT_RESPONSE = 0x81"
definition WINUSB_BINARY_RESPONSE :: int where "WINUSB_BINARY_RESPONSE = 0x82"
definition WINUSB_ERROR_RESPONSE :: int where "WINUSB_ERROR_RESPONSE = 0x83"
definition WINUSB_SESSION_RESET_ACK :: int where "WINUSB_SESSION_RESET_ACK = 0x84"
definition WINUSB_UPDATE_ACK :: int where "WINUSB_UPDATE_ACK = 0x85"
definition WINUSB_UPDATE_STATUS_RESPONSE :: int where "WINUSB_UPDATE_STATUS_RESPONSE = 0x86"
definition WINUSB_STATUS_FLAG_SRQ_PENDING :: int where "WINUSB_STATUS_FLAG_SRQ_PENDING = 0x01"

lemmas winusb_consts = WINUSB_FRAME_MAGIC0_def WINUSB_FRAME_MAGIC1_def WINUSB_FRAME_VERSION_def
  WINUSB_FRAME_HEADER_SIZE_def WINUSB_STATUS_FLAG_SRQ_PENDING_def

lemmas winusb_types = WINUSB_COMMAND_REQUEST_def WINUSB_SESSION_RESET_REQUEST_def
  WINUSB_QUERY_REQUEST_def WINUSB_UPDATE_BEGIN_def WINUSB_UPDATE_WRITE_def WINUSB_UPDATE_FINISH_def
  WINUSB_UPDATE_ABORT_def WINUSB_UPDATE_STATUS_def WINUSB_COMMAND_ACK_def WINUSB_TEXT_RESPONSE_def
  WINUSB_BINARY_RESPONSE_def WINUSB_ERROR_RESPONSE_def WINUSB_SESSION_RESET_ACK_def
  WINUSB_UPDATE_ACK_def WINUSB_UPDATE_STATUS_RESPONSE_def

record ParsedWinUSBFrame =
  fr_type :: int
  fr_tag :: int
  fr_srqPending :: bool
  fr_payload :: bytes

text \<open>\<open>Uint8Array\<close> element assignment keeps the value modulo 256.\<close>

abbreviation u8 :: "int \<Rightarrow> byte" where
  "u8 v \<equiv> word_of_int v"

definition writeU32LE :: "int \<Rightarrow> bytes" where
  "writeU32LE value =
     (let normalized = js_ushr value 0
      in [u8 (js_and normalized 0xff), u8 (js_and (js_sar normalized 8) 0xff),
          u8 (js_and (js_sar normalized 16) 0xff), u8 (js_and (js_sar normalized 24) 0xff)])"

text \<open>The signed reading of four bytes, as \<open>a | b << 8 | c << 16 | d << 24\<close> gives it.\<close>

definition or_word :: "bytes \<Rightarrow> nat \<Rightarrow> int" where
  "or_word source offset =
     js_or (js_or (js_or (byte_at source offset) (js_shl (byte_at source (offset + 1)) 8))
       (js_shl (byte_at source (offset + 2)) 16)) (js_shl (byte_at source (offset + 3)) 24)"

definition readU32LE :: "bytes \<Rightarrow> nat \<Rightarrow> int" where
  "readU32LE source offset = js_ushr (or_word source offset) 0"

definition buildFrame :: "int \<Rightarrow> int \<Rightarrow> bytes \<Rightarrow> bytes" where
  "buildFrame typ tag payload =
     [u8 WINUSB_FRAME_MAGIC0, u8 WINUSB_FRAME_MAGIC1, u8 WINUSB_FRAME_VERSION, u8 typ, u8 tag, 0, 0, 0] @
     (let payloadLength = js_ushr (int (length payload)) 0
      in [u8 (js_and payloadLength 0xff), u8 (js_and (js_sar payloadLength 8) 0xff),
          u8 (js_and (js_sar payloadLength 16) 0xff), u8 (js_and (js_sar payloadLength 24) 0xff)]) @
     payload"

section \<open>Transport state\<close>

record DRPDFirmwareUpdateChunk =
  uc_offset :: int
  uc_data :: bytes

record DRPDFirmwareUpdateRequest =
  ur_baseOffset :: int
  ur_totalLength :: int
  ur_crc32 :: int
  ur_chunks :: "DRPDFirmwareUpdateChunk list"

record WinUSBTransport =
  ws_endpointOut :: "int option"
  ws_endpointIn :: "int option"
  ws_bulkOutPacketSize :: nat
  ws_tagCounter :: int
  ws_rxBuffer :: bytes
  ws_pendingFrames :: "ParsedWinUSBFrame list"
  ws_winusbInterruptLatched :: bool
  dev_in :: "bytes list"
  dev_out :: "bytes list"
  dev_interrupts :: nat
  dev_progress :: "(int \<times> int) list"

datatype winusb_error =
    Winusb_endpoint_out_missing
  | Invalid_frame_header
  | Winusb_read_timed_out
  | Device_error bytes
  | Unexpected_response_type int
  | Updater_error bytes
  | Unexpected_updater_response int
  | Invalid_status_length nat
  | Winusb_scpi scpi_error
  | Unrecognized_error_response string
  | Winusb_device_error int string

type_synonym 'a winusb = "WinUSBTransport \<Rightarrow> ((winusb_error + 'a) \<times> WinUSBTransport) option"

definition ret :: "'a \<Rightarrow> 'a winusb" where
  "ret x st = Some (Inr x, st)"

definition raise :: "winusb_error \<Rightarrow> 'a winusb" where
  "raise e st = Some (Inl e, st)"

definition seq :: "'a winusb \<Rightarrow> ('a \<Rightarrow> 'b winusb) \<Rightarrow> 'b winusb" where
  "seq m f st =
     (case m st of
        None \<Rightarrow> None
      | Some (Inl e, st') \<Rightarrow> Some (Inl e, st')
      | Some (Inr x, st') \<Rightarrow> f x st')"

definition nextTag :: "int winusb" where
  "nextTag st =
     (let tag = js_and (ws_tagCounter st) 0xff
      in Some (Inr (if tag = 0 then 1 else tag),
           st\<lparr>ws_tagCounter := js_and (ws_tagCounter st + 1) 0xff\<rparr>))"

section \<open>Receiving\<close>

definition maybeDispatchSyntheticInterrupt :: "ParsedWinUSBFrame \<Rightarrow> WinUSBTransport \<Rightarrow> WinUSBTransport" where
  "maybeDispatchSyntheticInterrupt frame st =
     (if \<not> fr_srqPending frame \<or> ws_winusbInterruptLatched st then st
      else st\<lparr>ws_winusbInterruptLatched := True, dev_interrupts := Suc (dev_interrupts st)\<rparr>)"

text \<open>\<open>slice(a, b)\<close> of a typed array: negative positions count from the end.\<close>

definition js_position :: "'a list \<Rightarrow> int \<Rightarrow> nat" where
  "js_position xs i = nat (if i < 0 then max 0 (int (length xs) + i) else min i (int (length xs)))"

definition js_slice :: "'a list \<Rightarrow> int \<Rightarrow> int \<Rightarrow> 'a list" where
  "js_slice xs a b = sub_array xs (js_position xs a) (js_position xs b)"

definition frame_of :: "bytes \<Rightarrow> int \<Rightarrow> ParsedWinUSBFrame" where
  "frame_of rx frameLength =
     \<lparr>fr_type = byte_at rx 3, fr_tag = byte_at rx 4,
      fr_srqPending = js_and (byte_at rx 5) WINUSB_STATUS_FLAG_SRQ_PENDING \<noteq> 0,
      fr_payload = js_slice rx (int WINUSB_FRAME_HEADER_SIZE) frameLength\<rparr>"

definition header_ok :: "bytes \<Rightarrow> bool" where
  "header_ok rx \<longleftrightarrow> byte_at rx 0 = WINUSB_FRAME_MAGIC0 \<and> byte_at rx 1 = WINUSB_FRAME_MAGIC1 \<and>
     byte_at rx 2 = WINUSB_FRAME_VERSION"

text \<open>The loop of \<open>appendRxBytes\<close>. Its length field is read as a signed number, so the loop need not end.\<close>

partial_function (option) rx_loop :: "unit winusb" where
  "rx_loop st =
     (let rx = ws_rxBuffer st
      in if length rx < WINUSB_FRAME_HEADER_SIZE then ret () st
         else if \<not> header_ok rx then raise Invalid_frame_header st
         else let frameLength = int WINUSB_FRAME_HEADER_SIZE + or_word rx 8
         in if int (length rx) < frameLength then ret () st
         else let frame = frame_of rx frameLength;
                  st1 = maybeDispatchSyntheticInterrupt frame st;
                  st2 = st1\<lparr>ws_pendingFrames := ws_pendingFrames st1 @ [frame]\<rparr>
              in rx_loop (st2\<lparr>ws_rxBuffer := js_slice rx frameLength (int (length rx))\<rparr>))"

definition appendRxBytes :: "bytes \<Rightarrow> unit winusb" where
  "appendRxBytes incoming st = rx_loop (st\<lparr>ws_rxBuffer := ws_rxBuffer st @ incoming\<rparr>)"

text \<open>\<open>findIndex\<close> and \<open>splice\<close> on the pending frames: the first frame of the tag, and the others.\<close>

fun take_pending :: "int \<Rightarrow> ParsedWinUSBFrame list \<Rightarrow> (ParsedWinUSBFrame \<times> ParsedWinUSBFrame list) option" where
  "take_pending tag [] = None"
| "take_pending tag (f # fs) =
     (if fr_tag f = tag then Some (f, fs)
      else (case take_pending tag fs of None \<Rightarrow> None | Some (g, gs) \<Rightarrow> Some (g, f # gs)))"

text \<open>The read loop, over the transfers that arrive before the deadline.\<close>

fun await_loop :: "int \<Rightarrow> bytes list \<Rightarrow> ParsedWinUSBFrame winusb" where
  "await_loop tag [] st =
     (case take_pending tag (ws_pendingFrames st) of
        Some (frame, rest) \<Rightarrow> ret frame (st\<lparr>ws_pendingFrames := rest, dev_in := []\<rparr>)
      | None \<Rightarrow> raise Winusb_read_timed_out (st\<lparr>dev_in := []\<rparr>))"
| "await_loop tag (incoming # later) st =
     (case take_pending tag (ws_pendingFrames st) of
        Some (frame, rest) \<Rightarrow> ret frame (st\<lparr>ws_pendingFrames := rest, dev_in := incoming # later\<rparr>)
      | None \<Rightarrow>
          if incoming = [] then await_loop tag later st
          else (case appendRxBytes incoming st of
                  None \<Rightarrow> None
                | Some (Inl e, st') \<Rightarrow> raise e (st'\<lparr>dev_in := later\<rparr>)
                | Some (Inr u, st') \<Rightarrow> await_loop tag later st'))"

definition awaitResponseFrame :: "int \<Rightarrow> ParsedWinUSBFrame winusb" where
  "awaitResponseFrame tag st = await_loop tag (dev_in st) st"

section \<open>Sending\<close>

text \<open>The write loop cuts a frame into packets; a packet size of 0 would never advance.\<close>

function packets :: "nat \<Rightarrow> bytes \<Rightarrow> bytes list" where
  "packets packetSize frame =
     (if packetSize = 0 \<or> frame = [] then []
      else take packetSize frame # packets packetSize (drop packetSize frame))"
  by auto
termination
  by (relation "measure (\<lambda>(packetSize, frame). length frame)") auto

declare packets.simps [simp del]

definition writeFrame :: "int \<Rightarrow> bytes \<Rightarrow> int winusb" where
  "writeFrame typ payload st =
     (case ws_endpointOut st of
        None \<Rightarrow> raise Winusb_endpoint_out_missing st
      | Some endpoint \<Rightarrow>
          seq nextTag (\<lambda>tag st.
            if ws_bulkOutPacketSize st = 0 then None
            else ret tag (st\<lparr>dev_out := dev_out st @
                   packets (ws_bulkOutPacketSize st) (buildFrame typ tag payload)\<rparr>)) st)"

section \<open>Requests\<close>

text \<open>A text payload is the UTF-8 encoding of the line; command lines are ASCII.\<close>

definition normalizePayload :: "string \<Rightarrow> bytes" where
  "normalizePayload s = map of_char s"

definition sendCommand :: "string \<Rightarrow> SCPIParam list \<Rightarrow> unit winusb" where
  "sendCommand command params =
     (case formatSCPI command params of
        Inl e \<Rightarrow> raise (Winusb_scpi e)
      | Inr line \<Rightarrow>
          seq (writeFrame WINUSB_COMMAND_REQUEST (normalizePayload line)) (\<lambda>tag.
          seq (awaitResponseFrame tag) (\<lambda>response.
            if fr_type response = WINUSB_COMMAND_ACK then ret ()
            else if fr_type response = WINUSB_ERROR_RESPONSE then raise (Device_error (fr_payload response))
            else raise (Unexpected_response_type (fr_type response)))))"

definition queryBinary :: "string \<Rightarrow> SCPIParam list \<Rightarrow> bytes winusb" where
  "queryBinary command params =
     (case formatSCPI command params of
        Inl e \<Rightarrow> raise (Winusb_scpi e)
      | Inr line \<Rightarrow>
          seq (writeFrame WINUSB_QUERY_REQUEST (normalizePayload line)) (\<lambda>tag.
          seq (awaitResponseFrame tag) (\<lambda>response.
            if fr_type response = WINUSB_ERROR_RESPONSE then raise (Device_error (fr_payload response))
            else if fr_type response \<noteq> WINUSB_BINARY_RESPONSE then
              raise (Unexpected_response_type (fr_type response))
            else (case parseARBData (fr_payload response) of
                    Inl e \<Rightarrow> raise (Winusb_scpi e)
                  | Inr payload \<Rightarrow> ret payload))))"

section \<open>Firmware updates\<close>

definition sendUpdaterFrame :: "int \<Rightarrow> bytes \<Rightarrow> bytes winusb" where
  "sendUpdaterFrame typ payload =
     seq (writeFrame typ payload) (\<lambda>tag.
     seq (awaitResponseFrame tag) (\<lambda>response.
       if fr_type response = WINUSB_ERROR_RESPONSE then raise (Updater_error (fr_payload response))
       else if fr_type response \<noteq> WINUSB_UPDATE_ACK \<and>
               fr_type response \<noteq> WINUSB_UPDATE_STATUS_RESPONSE then
         raise (Unexpected_updater_response (fr_type response))
       else ret (fr_payload response)))"

fun write_chunks :: "int \<Rightarrow> DRPDFirmwareUpdateChunk list \<Rightarrow> int \<Rightarrow> unit winusb" where
  "write_chunks totalLength [] bytesWritten = ret ()"
| "write_chunks totalLength (chunk # chunks) bytesWritten =
     seq (sendUpdaterFrame WINUSB_UPDATE_WRITE (writeU32LE (uc_offset chunk) @ uc_data chunk)) (\<lambda>r st.
       let written = bytesWritten + int (length (uc_data chunk))
       in write_chunks totalLength chunks written
            (st\<lparr>dev_progress := dev_progress st @ [(written, totalLength)]\<rparr>))"

definition updateFirmware :: "DRPDFirmwareUpdateRequest \<Rightarrow> unit winusb" where
  "updateFirmware request =
     seq (sendUpdaterFrame WINUSB_UPDATE_BEGIN
            (writeU32LE (ur_baseOffset request) @ writeU32LE (ur_totalLength request) @
             writeU32LE (ur_crc32 request))) (\<lambda>r st.
       case seq (write_chunks (ur_totalLength request) (ur_chunks request) 0) (\<lambda>u.
              seq (sendUpdaterFrame WINUSB_UPDATE_FINISH []) (\<lambda>r. ret ())) st of
         Some (Inl e, st') \<Rightarrow>
           (case sendUpdaterFrame WINUSB_UPDATE_ABORT [] st' of
              None \<Rightarrow> None
            | Some (r, st'') \<Rightarrow> raise e st'')
       | other \<Rightarrow> other)"

record WinUSBFirmwareUpdateStatus =
  us_state :: int
  us_baseOffset :: int
  us_totalLength :: int
  us_bytesWritten :: int

definition getFirmwareUpdateStatus :: "WinUSBFirmwareUpdateStatus winusb" where
  "getFirmwareUpdateStatus =
     seq (sendUpdaterFrame WINUSB_UPDATE_STATUS []) (\<lambda>payload.
       if length payload \<noteq> 16 then raise (Invalid_status_length (length payload))
       else ret \<lparr>us_state = readU32LE payload 0, us_baseOffset = readU32LE payload 4,
                 us_totalLength = readU32LE payload 8, us_bytesWritten = readU32LE payload 12\<rparr>)"

end
