(* ===== verification/Winusb_Laws.thy ===== *)
theory Winusb_Laws
  imports Winusb Power_Objects
begin

text \<open>
  What the WinUSB transport guarantees: frames round trip through any cut of the byte stream, the
  receive loop ends unless a length field is negative, tags stay in range, and a firmware update
  sends its frames in the protocol's order and aborts when one of them fails.
\<close>

section \<open>Words on the wire\<close>

lemma js_and_byte_sar:
  assumes "k \<le> 24"
  shows "js_and (js_sar x (int k)) 255 = take_bit 32 x div 2 ^ k mod 256"
proof -
  have "js_and (js_sar x (int k)) 255 = take_bit 8 (drop_bit k (to_int32 x))"
    using assms js_and_mask[of 8 "js_sar x (int k)"] by (simp add: js_sar_def nat_mod_distrib take_bit_eq_mod)
  also have "\<dots> = take_bit 8 (drop_bit k (take_bit 32 x))"
    using assms by (simp add: take_bit_drop_bit take_bit_to_int32 min_def)
  finally show ?thesis
    by (simp add: take_bit_eq_mod drop_bit_eq_div)
qed

lemma le_bytes_4: "le_bytes 4 y =
    [u8 (y mod 256), u8 (y div 256 mod 256), u8 (y div 65536 mod 256), u8 (y div 16777216 mod 256)]"
proof -
  have "le_bytes 4 y = [u8 (y mod 256), u8 (y div 256 mod 256), u8 (y div 256 div 256 mod 256),
      u8 (y div 256 div 256 div 256 mod 256)]"
    by (simp add: eval_nat_numeral)
  moreover have "y div 256 div 256 = y div 65536" "y div 65536 div 256 = y div 16777216"
    by (simp_all flip: zdiv_zmult2_eq)
  ultimately show ?thesis
    by simp
qed

lemma word_bytes:
  "[u8 (js_and x 255), u8 (js_and (js_sar x 8) 255), u8 (js_and (js_sar x 16) 255),
    u8 (js_and (js_sar x 24) 255)] = le_bytes 4 (take_bit 32 x)"
proof -
  define y where "y = take_bit 32 x"
  have "js_and x 255 = y mod 256"
    using js_and_mask[of 8 x] unfolding y_def by (simp add: take_bit_eq_mod mod_mod_cancel)
  moreover have "js_and (js_sar x 8) 255 = y div 256 mod 256"
    using js_and_byte_sar[of 8 x] by (simp add: y_def)
  moreover have "js_and (js_sar x 16) 255 = y div 65536 mod 256"
    using js_and_byte_sar[of 16 x] by (simp add: y_def)
  moreover have "js_and (js_sar x 24) 255 = y div 16777216 mod 256"
    using js_and_byte_sar[of 24 x] by (simp add: y_def)
  ultimately show ?thesis
    unfolding y_def [symmetric] le_bytes_4 by (simp only:)
qed

lemma writeU32LE_eq: "writeU32LE v = le_bytes 4 (take_bit 32 v)"
  by (simp add: writeU32LE_def Let_def word_bytes js_ushr_def to_uint32_def)

lemma to_uint32_or_word: "offset + 4 \<le> length bs \<Longrightarrow> to_uint32 (or_word bs offset) = le32_at bs offset"
  using readUint32LE_eq[of bs offset]
  by (simp add: readUint32LE_def or_word_def js_ushr_def split: if_splits)

lemma to_int32_or_word: "to_int32 (or_word bs offset) = or_word bs offset"
proof -
  have "to_int32 (js_or a b) = js_or a b" for a b
    by (rule bit_eqI) (auto simp: js_or_def to_int32_def bit_signed_take_bit_iff bit_or_iff min_def)
  then show ?thesis
    by (simp add: or_word_def)
qed

lemma to_int32_to_uint32: "to_int32 (to_uint32 x) = to_int32 x"
  by (simp add: to_int32_def to_uint32_def signed_take_bit_take_bit)

lemma to_int32_of_uint32:
  assumes "0 \<le> v" "v < 2 ^ 32"
  shows "to_int32 v = (if v < 2 ^ 31 then v else v - 2 ^ 32)"
proof (cases "v < 2 ^ 31")
  case True
  then show ?thesis
    using assms to_int32_id[of v] by simp
next
  case False
  have "to_int32 v = to_int32 (v - 2 ^ 32)"
    unfolding to_int32_def signed_take_bit_eq_iff_take_bit_eq
    by (simp add: take_bit_eq_mod)
  then show ?thesis
    using assms False to_int32_id[of "v - 2 ^ 32"] by simp
qed

lemma readU32LE_eq: "offset + 4 \<le> length bs \<Longrightarrow> readU32LE bs offset = le32_at bs offset"
  using to_uint32_or_word[of offset bs] by (simp add: readU32LE_def js_ushr_def)

lemma or_word_eq:
  assumes "offset + 4 \<le> length bs"
  shows "or_word bs offset = (if le32_at bs offset < 2 ^ 31 then le32_at bs offset else le32_at bs offset - 2 ^ 32)"
  using to_int32_of_uint32[OF le32_at_bounds, of bs offset] to_uint32_or_word[OF assms]
    to_int32_to_uint32[of "or_word bs offset"] to_int32_or_word[of bs offset] by simp

section \<open>Frames as a framing of the byte stream\<close>

text \<open>The errors of the stream view: a bad header, or a length field that reads as a negative number.\<close>

datatype frame_error = Bad_header | Negative_length

definition next_frame :: "bytes \<Rightarrow> frame_error + nat option" where
  "next_frame rx =
     (if length rx < WINUSB_FRAME_HEADER_SIZE then Inr None
      else if \<not> header_ok rx then Inl Bad_header
      else if or_word rx 8 < 0 then Inl Negative_length
      else if int (length rx) < int WINUSB_FRAME_HEADER_SIZE + or_word rx 8 then Inr None
      else Inr (Some (WINUSB_FRAME_HEADER_SIZE + nat (or_word rx 8))))"

lemma or_word_append: "offset + 4 \<le> length bs \<Longrightarrow> or_word (bs @ post) offset = or_word bs offset"
  by (simp add: or_word_def byte_at_append)

lemma header_ok_append: "3 \<le> length bs \<Longrightarrow> header_ok (bs @ post) = header_ok bs"
  by (auto simp: header_ok_def byte_at_def nth_append)

lemma next_frame_take:
  assumes "12 \<le> k" "k \<le> length rx"
  shows "header_ok (take k rx) = header_ok rx" "or_word (take k rx) 8 = or_word rx 8"
  using assms by (simp_all add: header_ok_def or_word_def byte_at_take)

interpretation frames: framing next_frame
proof unfold_locales
  fix bs post :: bytes
  assume "next_frame bs \<noteq> Inr None"
  then show "next_frame (bs @ post) = next_frame bs"
    by (auto simp: next_frame_def winusb_consts or_word_append header_ok_append split: if_splits)
next
  fix bs :: bytes and k
  assume "next_frame bs = Inr (Some k)"
  then show "next_frame (take k bs) = Inr (Some k)"
    by (auto simp: next_frame_def winusb_consts next_frame_take split: if_splits)
qed (auto simp: next_frame_def winusb_consts split: if_splits)

text \<open>What the receiver does with complete frames: it dispatches the interrupt and queues the frame.\<close>

definition deliver :: "ParsedWinUSBFrame \<Rightarrow> WinUSBTransport \<Rightarrow> WinUSBTransport" where
  "deliver frame st = maybeDispatchSyntheticInterrupt frame st
     \<lparr>ws_pendingFrames := ws_pendingFrames st @ [frame]\<rparr>"

definition parsed_frame :: "bytes \<Rightarrow> ParsedWinUSBFrame" where
  "parsed_frame f = frame_of f (int (length f))"

lemma pending_dispatch [simp]:
  "ws_pendingFrames (maybeDispatchSyntheticInterrupt frame st) = ws_pendingFrames st"
  "ws_rxBuffer (maybeDispatchSyntheticInterrupt frame st) = ws_rxBuffer st"
  by (simp_all add: maybeDispatchSyntheticInterrupt_def)

lemma js_slice_nonneg: "0 \<le> a \<Longrightarrow> 0 \<le> b \<Longrightarrow> b \<le> int (length xs) \<Longrightarrow>
  js_slice xs a b = sub_array xs (min (nat a) (length xs)) (nat b)"
  by (auto simp: js_slice_def js_position_def min_def nat_le_iff intro!: arg_cong[where f = "\<lambda>a. sub_array xs a (nat b)"])

lemma frame_of_take:
  assumes "12 \<le> k" "k \<le> length rx"
  shows "frame_of rx (int k) = parsed_frame (take k rx)"
  using assms
  by (simp add: frame_of_def parsed_frame_def byte_at_take js_slice_nonneg winusb_consts sub_array_def
      min_def drop_take)

lemma rx_loop_step:
  assumes "next_frame (ws_rxBuffer st) = Inr (Some k)"
  shows "rx_loop st = rx_loop (deliver (parsed_frame (take k (ws_rxBuffer st))) st
    \<lparr>ws_rxBuffer := drop k (ws_rxBuffer st)\<rparr>)"
proof -
  let ?rx = "ws_rxBuffer st"
  have k: "12 \<le> k" "k \<le> length ?rx" "12 + or_word ?rx 8 = int k" "header_ok ?rx" "\<not> length ?rx < 12"
    using assms by (auto simp: next_frame_def winusb_consts split: if_splits)
  have "js_slice ?rx (int k) (int (length ?rx)) = drop k ?rx"
    using k by (simp add: js_slice_nonneg sub_array_def min_def)
  then show ?thesis
    using k frame_of_take[OF k(1,2)]
    by (subst rx_loop.simps) (simp add: Let_def winusb_consts deliver_def)
qed

lemma rx_loop_stop:
  "next_frame (ws_rxBuffer st) = Inr None \<Longrightarrow> rx_loop st = ret () st"
  "next_frame (ws_rxBuffer st) = Inl Bad_header \<Longrightarrow> rx_loop st = raise Invalid_frame_header st"
  by (subst rx_loop.simps, auto simp: next_frame_def Let_def winusb_consts split: if_splits)+

lemma deliver_rx: "deliver f (s\<lparr>ws_rxBuffer := r\<rparr>) = deliver f s\<lparr>ws_rxBuffer := r\<rparr>"
  by (simp add: deliver_def maybeDispatchSyntheticInterrupt_def)

lemma fold_deliver_rx: "fold deliver gs (s\<lparr>ws_rxBuffer := r\<rparr>) = fold deliver gs s\<lparr>ws_rxBuffer := r\<rparr>"
  by (induction gs arbitrary: s) (simp_all add: deliver_rx)

lemma rx_loop_split:
  assumes "split_stream next_frame (ws_rxBuffer st) = (fs, rest, e)" "e \<noteq> Some Negative_length"
  shows "rx_loop st =
    (let st' = fold deliver (map parsed_frame fs) st \<lparr>ws_rxBuffer := rest\<rparr>
     in if e = None then ret () st' else raise Invalid_frame_header st')"
  using assms(1)
proof (induction fs arbitrary: st)
  case Nil
  then show ?case
    using assms(2) rx_loop_stop[of st]
    by (auto simp: frames.split_stream_unfold[of "ws_rxBuffer st"] split: sum.splits option.splits prod.splits)
      (metis frame_error.exhaust)+
next
  case (Cons f fs)
  then obtain k where k: "next_frame (ws_rxBuffer st) = Inr (Some k)" "f = take k (ws_rxBuffer st)"
    "split_stream next_frame (drop k (ws_rxBuffer st)) = (fs, rest, e)"
    by (auto simp: frames.split_stream_unfold[of "ws_rxBuffer st"] split: sum.splits option.splits prod.splits)
  show ?case
    using rx_loop_step[OF k(1)] k(2,3) Cons.IH[of "deliver (parsed_frame f) st\<lparr>ws_rxBuffer := drop k (ws_rxBuffer st)\<rparr>"]
    by (simp add: fold_deliver_rx Let_def)
qed

section \<open>Receiving what the device sends\<close>

fun append_all :: "bytes list \<Rightarrow> unit winusb" where
  "append_all [] = ret ()"
| "append_all (c # cs) = seq (appendRxBytes c) (\<lambda>u. append_all cs)"

lemma append_all_split:
  assumes "split_stream next_frame (ws_rxBuffer st @ concat chunks) = (fs, rest, None)"
    and "next_frame (ws_rxBuffer st) = Inr None"
  shows "append_all chunks st =
    Some (Inr (), fold deliver (map parsed_frame fs) st\<lparr>ws_rxBuffer := rest\<rparr>)"
  using assms
proof (induction chunks arbitrary: st fs)
  case Nil
  then show ?case
    by (simp add: frames.split_stream_unfold[of "ws_rxBuffer st"] ret_def)
next
  case (Cons c cs)
  obtain gs r e where g: "split_stream next_frame (ws_rxBuffer st @ c) = (gs, r, e)"
    by (metis prod_cases3)
  then have rc: "receive next_frame (concat cs) (gs, r, e) = (fs, rest, None)"
    using Cons.prems(1) frames.split_stream_append[of "ws_rxBuffer st @ c" "concat cs"] by simp
  then have e: "e = None"
    by (auto simp: receive_def split: option.splits)
  obtain hs where h: "split_stream next_frame (r @ concat cs) = (hs, rest, None)" "fs = gs @ hs"
    using rc e by (auto simp: receive_def split: prod.splits)
  let ?st = "fold deliver (map parsed_frame gs) st\<lparr>ws_rxBuffer := r\<rparr>"
  have "appendRxBytes c st = Some (Inr (), ?st)"
    using rx_loop_split[of "st\<lparr>ws_rxBuffer := ws_rxBuffer st @ c\<rparr>" gs r e] g e
    by (simp add: appendRxBytes_def ret_def Let_def fold_deliver_rx)
  moreover have "append_all cs ?st =
      Some (Inr (), fold deliver (map parsed_frame hs) ?st\<lparr>ws_rxBuffer := rest\<rparr>)"
    by (rule Cons.IH) (use h g e frames.split_stream_rest in auto)
  ultimately show ?case
    by (simp add: seq_def h(2) fold_deliver_rx)
qed

lemma fold_deliver_fields:
  "ws_pendingFrames (fold deliver fs st) = ws_pendingFrames st @ fs"
  "dev_interrupts (fold deliver fs st) = dev_interrupts st +
     of_bool (\<not> ws_winusbInterruptLatched st \<and> (\<exists>f \<in> set fs. fr_srqPending f))"
  "ws_winusbInterruptLatched (fold deliver fs st) \<longleftrightarrow>
     ws_winusbInterruptLatched st \<or> (\<exists>f \<in> set fs. fr_srqPending f)"
  by (induction fs arbitrary: st) (auto simp: deliver_def maybeDispatchSyntheticInterrupt_def)

text \<open>A frame on the wire, with the service-request flag in byte 5.\<close>

definition wire_frame :: "ParsedWinUSBFrame \<Rightarrow> bytes" where
  "wire_frame f =
     [0x57, 0x55, 0x01, u8 (fr_type f), u8 (fr_tag f), of_bool (fr_srqPending f), 0, 0] @
     le_bytes 4 (int (length (fr_payload f))) @ fr_payload f"

definition wf_frame :: "ParsedWinUSBFrame \<Rightarrow> bool" where
  "wf_frame f \<longleftrightarrow> 0 \<le> fr_type f \<and> fr_type f < 256 \<and> 0 \<le> fr_tag f \<and> fr_tag f < 256 \<and>
     length (fr_payload f) < 2 ^ 31"

lemma uint_u8: "0 \<le> v \<Longrightarrow> v < 256 \<Longrightarrow> uint (u8 v) = v"
  using uint_byte_of_int[of v] by simp

lemma length_wire_frame: "length (wire_frame f) = 12 + length (fr_payload f)"
  by (simp add: wire_frame_def del: le_bytes.simps)

lemma wire_frame_length_field:
  assumes "wf_frame f"
  shows "or_word (wire_frame f) 8 = int (length (fr_payload f))"
proof -
  have "sub_array (wire_frame f) 8 12 = le_bytes 4 (int (length (fr_payload f)))"
    by (simp add: wire_frame_def sub_array_def del: le_bytes.simps)
  then have "le32_at (wire_frame f) 8 = int (length (fr_payload f))"
    using assms le32_at_le_val[of 8 "wire_frame f"] le_val_le_bytes[of 4 "int (length (fr_payload f))"]
    by (simp add: length_wire_frame wf_frame_def)
  then show ?thesis
    using assms or_word_eq[of 8 "wire_frame f"] by (simp add: length_wire_frame wf_frame_def)
qed

lemma wire_frame_bytes:
  "byte_at (wire_frame f) 0 = 0x57" "byte_at (wire_frame f) 1 = 0x55" "byte_at (wire_frame f) 2 = 1"
  "byte_at (wire_frame f) 3 = uint (u8 (fr_type f))" "byte_at (wire_frame f) 4 = uint (u8 (fr_tag f))"
  "byte_at (wire_frame f) 5 = of_bool (fr_srqPending f)" "drop 12 (wire_frame f) = fr_payload f"
  by (simp_all add: wire_frame_def byte_at_def del: le_bytes.simps)

lemma wire_frame_next:
  assumes "wf_frame f"
  shows "next_frame (wire_frame f) = Inr (Some (length (wire_frame f)))"
  using assms wire_frame_length_field[OF assms] wire_frame_bytes(1-3)[of f]
  by (simp add: next_frame_def winusb_consts header_ok_def length_wire_frame)

lemma wire_frame_parsed:
  assumes "wf_frame f"
  shows "parsed_frame (wire_frame f) = f"
  using assms wire_frame_bytes[of f] uint_u8[of "fr_type f"] uint_u8[of "fr_tag f"] js_and_1[of "of_bool (fr_srqPending f)"]
  by (simp add: parsed_frame_def frame_of_def js_slice_nonneg winusb_consts wf_frame_def sub_array_def
      length_wire_frame)

lemma buildFrame_wire:
  assumes "length payload < 2 ^ 31"
  shows "buildFrame typ tag payload =
    wire_frame \<lparr>fr_type = typ, fr_tag = tag, fr_srqPending = False, fr_payload = payload\<rparr>"
proof -
  have "take_bit 32 (int (length payload)) = int (length payload)"
    using assms by (simp add: take_bit_int_eq_self)
  then show ?thesis
    by (simp add: buildFrame_def wire_frame_def Let_def word_bytes js_ushr_def to_uint32_def winusb_consts
        del: le_bytes.simps)
qed

text \<open>C8: frames survive any cut of the byte stream into transfers. When the device sends the frames
  \<open>fs\<close> (any types, tags, service-request flags and payloads below 2 GB) followed by a part of one
  more frame, then however these bytes are cut into transfers the receiver queues exactly \<open>fs\<close> in
  order, keeps exactly the incomplete part, and dispatches one interrupt event when a frame asks for
  service and none is latched.\<close>

theorem frames_received:
  assumes "list_all wf_frame (f # fs)" "j < length (wire_frame f)" "ws_rxBuffer st = []"
    and "concat chunks = concat (map wire_frame fs) @ take j (wire_frame f)"
  shows "\<exists>st'. append_all chunks st = Some (Inr (), st') \<and>
    ws_pendingFrames st' = ws_pendingFrames st @ fs \<and> ws_rxBuffer st' = take j (wire_frame f) \<and>
    dev_interrupts st' = dev_interrupts st +
      of_bool (\<not> ws_winusbInterruptLatched st \<and> (\<exists>f \<in> set fs. fr_srqPending f))"
proof -
  have "list_all (\<lambda>w. next_frame w = Inr (Some (length w))) (map wire_frame fs)"
    using assms(1) by (simp add: list.pred_map comp_def wire_frame_next list_all_iff)
  moreover have "next_frame (take j (wire_frame f)) = Inr None"
    using assms(1,2) frames.next_prefix[OF wire_frame_next[of f]] by simp
  ultimately have "split_stream next_frame (concat chunks) = (map wire_frame fs, take j (wire_frame f), None)"
    unfolding assms(4) by (rule frames.split_stream_messages)
  then have "append_all chunks st = Some (Inr (),
      fold deliver (map parsed_frame (map wire_frame fs)) st\<lparr>ws_rxBuffer := take j (wire_frame f)\<rparr>)"
    using assms(3) by (intro append_all_split) (simp_all add: next_frame_def winusb_consts)
  moreover have "map parsed_frame (map wire_frame fs) = fs"
    using assms(1) by (simp add: map_idI wire_frame_parsed list_all_iff)
  ultimately show ?thesis
    by (simp add: fold_deliver_fields)
qed

text \<open>A transport as \<open>open\<close> leaves it, with one service-request answer cut in the middle.\<close>

definition idle_transport :: WinUSBTransport where
  "idle_transport = \<lparr>ws_endpointOut = Some 2, ws_endpointIn = Some 1, ws_bulkOutPacketSize = 64,
     ws_tagCounter = 1, ws_rxBuffer = [], ws_pendingFrames = [], ws_winusbInterruptLatched = False,
     dev_in = [], dev_out = [], dev_interrupts = 0, dev_progress = []\<rparr>"

definition ack_frame :: ParsedWinUSBFrame where
  "ack_frame = \<lparr>fr_type = 0x81, fr_tag = 7, fr_srqPending = True, fr_payload = [0x31, 0x0a]\<rparr>"

lemma frames_received_witness:
  "\<exists>st'. append_all [[0x57, 0x55, 1, 0x81], [7, 1, 0, 0, 2, 0, 0, 0, 0x31, 0x0a, 0x57]] idle_transport =
     Some (Inr (), st') \<and> ws_pendingFrames st' = [ack_frame] \<and> ws_rxBuffer st' = [0x57] \<and>
     dev_interrupts st' = 1"
proof -
  have w: "wire_frame ack_frame = [0x57, 0x55, 1, 0x81, 7, 1, 0, 0, 2, 0, 0, 0, 0x31, 0x0a]"
    by code_simp
  have "wf_frame ack_frame"
    by (simp add: ack_frame_def wf_frame_def)
  then show ?thesis
    using frames_received[of ack_frame "[ack_frame]" 1 idle_transport
      "[[0x57, 0x55, 1, 0x81], [7, 1, 0, 0, 2, 0, 0, 0, 0x31, 0x0a, 0x57]]"]
    by (simp add: w idle_transport_def) (simp add: ack_frame_def)
qed

section \<open>A negative length field\<close>

definition spinning :: "WinUSBTransport \<Rightarrow> bool" where
  "spinning st \<longleftrightarrow> 12 \<le> length (ws_rxBuffer st) \<and> header_ok (ws_rxBuffer st) \<and> or_word (ws_rxBuffer st) 8 = -12"

lemma rx_loop_hangs: "rx_loop st = Some r \<Longrightarrow> \<not> spinning st"
proof (erule rx_loop.raw_induct [rotated])
  fix f :: "unit winusb" and st r
  assume IH: "\<And>st r. f st = Some r \<Longrightarrow> \<not> spinning st"
    and body: "(let rx = ws_rxBuffer st
      in if length rx < WINUSB_FRAME_HEADER_SIZE then ret () st
         else if \<not> header_ok rx then raise Invalid_frame_header st
         else let frameLength = int WINUSB_FRAME_HEADER_SIZE + or_word rx 8
         in if int (length rx) < frameLength then ret () st
         else let frame = frame_of rx frameLength;
                  st1 = maybeDispatchSyntheticInterrupt frame st;
                  st2 = st1\<lparr>ws_pendingFrames := ws_pendingFrames st1 @ [frame]\<rparr>
              in f (st2\<lparr>ws_rxBuffer := js_slice rx frameLength (int (length rx))\<rparr>)) = Some r"
  show "\<not> spinning st"
  proof
    assume h: "spinning st"
    let ?frame = "frame_of (ws_rxBuffer st) 0"
    let ?st1 = "maybeDispatchSyntheticInterrupt ?frame st"
    have s: "js_slice (ws_rxBuffer st) 0 (int (length (ws_rxBuffer st))) = ws_rxBuffer st"
      by (simp add: js_slice_nonneg sub_array_def)
    have "f (?st1\<lparr>ws_pendingFrames := ws_pendingFrames st @ [?frame], ws_rxBuffer := ws_rxBuffer st\<rparr>) = Some r"
      using body h by (simp add: Let_def winusb_consts spinning_def s)
    from IH [OF this] show False
      using h by (simp add: spinning_def)
  qed
qed

text \<open>C21: a length field of -12 makes the receiver spin forever. The length bytes \<open>f4 ff ff ff\<close> after a
  valid header read as the signed number -12, so the computed frame length is 0: the loop queues an
  empty-length frame, removes no byte and starts over. Whatever the header's type and tag, and
  whatever follows, \<open>appendRxBytes\<close> never returns.\<close>

theorem appendRxBytes_hangs:
  assumes "ws_rxBuffer st @ incoming =
    [0x57, 0x55, 0x01, typ, tag, flags, r0, r1, 0xf4, 0xff, 0xff, 0xff] @ rest"
  shows "appendRxBytes incoming st = None"
proof (rule ccontr)
  let ?rx = "[0x57, 0x55, 0x01, typ, tag, flags, r0, r1, 0xf4, 0xff, 0xff, 0xff] @ rest"
  assume "appendRxBytes incoming st \<noteq> None"
  then obtain r where r: "rx_loop (st\<lparr>ws_rxBuffer := ?rx\<rparr>) = Some r"
    using assms by (auto simp: appendRxBytes_def)
  have "le32_at ?rx 8 = 0xfffffff4"
    by (simp add: le32_at_def le16_at_def byte_at_def)
  then have "or_word ?rx 8 = -12"
    using or_word_eq[of 8 ?rx] by simp
  moreover have "header_ok ?rx"
    by (simp add: header_ok_def byte_at_def winusb_consts)
  ultimately show False
    using rx_loop_hangs[OF r] by (simp add: spinning_def)
qed

lemma appendRxBytes_hangs_witness:
  "appendRxBytes [0x57, 0x55, 0x01, 0x80, 1, 0, 0, 0, 0xf4, 0xff, 0xff, 0xff] idle_transport = None"
  using appendRxBytes_hangs[of idle_transport
      "[0x57, 0x55, 0x01, 0x80, 1, 0, 0, 0, 0xf4, 0xff, 0xff, 0xff]" "0x80" 1 0 0 0 "[]"]
  by (simp add: idle_transport_def)

section \<open>Tags\<close>

definition draw_nextTag :: "WinUSBTransport \<Rightarrow> int \<times> WinUSBTransport" where
  "draw_nextTag st = (case the (nextTag st) of (r, st') \<Rightarrow> (projr r, st'))"

lemma js_and_255: "js_and x 0xff = x mod 256"
  using js_and_mask[of 8 x] by (simp add: take_bit_eq_mod)

interpretation winusb_tags: rolling_tag draw_nextTag ws_tagCounter
  by unfold_locales (simp_all add: draw_nextTag_def nextTag_def Let_def js_and_255)

text \<open>Tags fit their field and are never 0, and the response to an earlier request is rarely taken
  for the current one. Starting from any counter value, of the tags drawn by \<open>n\<close> requests each is
  between 1 and 255, and two requests less than 255 apart have the same tag exactly when they are
  consecutive and the counter is 0 at the first: the wrap-around hands out the tag 1 twice in a row.\<close>

lemma nextTag_reuse:
  assumes "0 \<le> ws_tagCounter st" "ws_tagCounter st < 256" "tags = fst (draw_tags draw_nextTag n st)"
  shows "list_all (\<lambda>t. 1 \<le> t \<and> t \<le> 255) tags \<and>
    (\<forall>i j. i < j \<longrightarrow> j < n \<longrightarrow> j - i < 255 \<longrightarrow>
       (tags ! i = tags ! j \<longleftrightarrow> j = i + 1 \<and> (ws_tagCounter st + int i) mod 256 = 0))"
  using winusb_tags.draw_tags_range[OF assms(1,2)] winusb_tags.draw_tags_reuse[OF assms(1,2)]
  unfolding assms(3) by (simp add: list_all_iff)

lemma nextTag_reuse_witness:
  "fst (draw_tags draw_nextTag 3 (idle_transport\<lparr>ws_tagCounter := 255\<rparr>)) ! 1 =
   fst (draw_tags draw_nextTag 3 (idle_transport\<lparr>ws_tagCounter := 255\<rparr>)) ! 2"
  using nextTag_reuse[of "idle_transport\<lparr>ws_tagCounter := 255\<rparr>" _ 3] by simp

section \<open>Matching a response to its request\<close>

lemma take_pending_append:
  "take_pending tag (xs @ ys) =
     (case take_pending tag xs of
        Some (f, r) \<Rightarrow> Some (f, r @ ys)
      | None \<Rightarrow> (case take_pending tag ys of None \<Rightarrow> None | Some (f, r) \<Rightarrow> Some (f, xs @ r)))"
  by (induction xs) (auto split: option.splits)

lemma take_pending_Some:
  "take_pending tag fs = Some (f, r) \<Longrightarrow>
     \<exists>pre post. fs = pre @ f # post \<and> r = pre @ post \<and> fr_tag f = tag \<and> list_all (\<lambda>g. fr_tag g \<noteq> tag) pre"
proof (induction fs arbitrary: r)
  case (Cons g gs)
  show ?case
  proof (cases "fr_tag g = tag")
    case True
    then have "g # gs = [] @ f # gs \<and> r = [] @ gs \<and> fr_tag f = tag \<and> list_all (\<lambda>g. fr_tag g \<noteq> tag) []"
      using Cons.prems by simp
    then show ?thesis
      by blast
  next
    case False
    then obtain r' where "take_pending tag gs = Some (f, r')" "r = g # r'"
      using Cons.prems by (auto split: option.splits)
    with Cons.IH[of r'] obtain pre post where "gs = pre @ f # post" "r = g # pre @ post" "fr_tag f = tag"
        "list_all (\<lambda>g. fr_tag g \<noteq> tag) pre"
      by auto
    then have "g # gs = (g # pre) @ f # post \<and> r = (g # pre) @ post \<and> fr_tag f = tag \<and>
        list_all (\<lambda>h. fr_tag h \<noteq> tag) (g # pre)"
      using False by simp
    then show ?thesis
      by blast
  qed
qed simp

lemma take_pending_None: "take_pending tag fs = None \<longleftrightarrow> list_all (\<lambda>g. fr_tag g \<noteq> tag) fs"
  by (induction fs) (auto split: option.splits)

text \<open>Every frame the transport has queued or will still receive, in order.\<close>

definition all_frames :: "WinUSBTransport \<Rightarrow> ParsedWinUSBFrame list" where
  "all_frames st = ws_pendingFrames st @
     map parsed_frame (fst (split_stream next_frame (ws_rxBuffer st @ concat (dev_in st))))"

lemma appendRxBytes_clean:
  assumes "split_stream next_frame (ws_rxBuffer st @ c) = (gs, r, None)"
  shows "appendRxBytes c st = Some (Inr (), fold deliver (map parsed_frame gs) st\<lparr>ws_rxBuffer := r\<rparr>)"
  using rx_loop_split[of "st\<lparr>ws_rxBuffer := ws_rxBuffer st @ c\<rparr>" gs r None] assms
  by (simp add: appendRxBytes_def ret_def Let_def fold_deliver_rx)

lemma await_loop_conserves:
  assumes "split_stream next_frame (ws_rxBuffer st @ concat later) = (fs, rest, None)"
    and "next_frame (ws_rxBuffer st) = Inr None"
  shows "case take_pending tag (ws_pendingFrames st @ map parsed_frame fs) of
      None \<Rightarrow> \<exists>st'. await_loop tag later st = Some (Inl Winusb_read_timed_out, st') \<and>
        ws_pendingFrames st' = ws_pendingFrames st @ map parsed_frame fs
    | Some (frame, others) \<Rightarrow> \<exists>st'. await_loop tag later st = Some (Inr frame, st') \<and> all_frames st' = others"
  using assms
proof (induction later arbitrary: st fs)
  case Nil
  then have "fs = []"
    by (auto simp: frames.split_stream_unfold[of "ws_rxBuffer st"])
  then show ?case
    using Nil by (auto simp: ret_def raise_def all_frames_def split: option.splits)
next
  case (Cons c cs)
  show ?case
  proof (cases "take_pending tag (ws_pendingFrames st)")
    case (Some fr)
    then show ?thesis
      using Cons.prems by (cases fr) (simp add: ret_def all_frames_def take_pending_append)
  next
    case None
    show ?thesis
    proof (cases "c = []")
      case True
      then have eq: "await_loop tag (c # cs) st = await_loop tag cs st"
        using None by simp
      show ?thesis
        unfolding eq using True Cons.IH[of st fs] Cons.prems by simp
    next
      case False
      obtain gs r e where g: "split_stream next_frame (ws_rxBuffer st @ c) = (gs, r, e)"
        by (metis prod_cases3)
      then have rc: "receive next_frame (concat cs) (gs, r, e) = (fs, rest, None)"
        using Cons.prems(1) frames.split_stream_append[of "ws_rxBuffer st @ c" "concat cs"] by simp
      then have e: "e = None"
        by (auto simp: receive_def split: option.splits)
      obtain hs where h: "split_stream next_frame (r @ concat cs) = (hs, rest, None)" "fs = gs @ hs"
        using rc e by (auto simp: receive_def split: prod.splits)
      let ?st = "fold deliver (map parsed_frame gs) st\<lparr>ws_rxBuffer := r\<rparr>"
      have eq: "await_loop tag (c # cs) st = await_loop tag cs ?st"
        using None False appendRxBytes_clean[of st c gs r] g e by simp
      have pf: "ws_pendingFrames st @ map parsed_frame fs = ws_pendingFrames ?st @ map parsed_frame hs"
        by (simp add: fold_deliver_fields h(2))
      then show ?thesis
        unfolding eq pf
        by (intro Cons.IH) (use h g e frames.split_stream_rest in auto)
    qed
  qed
qed

text \<open>C4: a request gets the response with its tag and no frame is lost. Suppose the bytes that arrive
  before the deadline are well-formed frames, in any cut. Then waiting for a tag returns exactly when
  a frame with that tag is queued or arrives; it returns the first such frame, and every other frame
  stays, in order, for later requests. When there is none the wait times out with all frames queued.\<close>

theorem awaitResponseFrame_conserves:
  assumes "next_frame (ws_rxBuffer st) = Inr None"
    and "snd (snd (split_stream next_frame (ws_rxBuffer st @ concat (dev_in st)))) = None"
  shows "(\<exists>frame pre post st'. awaitResponseFrame tag st = Some (Inr frame, st') \<and> fr_tag frame = tag \<and>
        all_frames st = pre @ frame # post \<and> all_frames st' = pre @ post \<and>
        list_all (\<lambda>f. fr_tag f \<noteq> tag) pre) \<or>
    (\<exists>st'. awaitResponseFrame tag st = Some (Inl Winusb_read_timed_out, st') \<and>
        ws_pendingFrames st' = all_frames st \<and> list_all (\<lambda>f. fr_tag f \<noteq> tag) (all_frames st))"
proof -
  obtain fs rest where s: "split_stream next_frame (ws_rxBuffer st @ concat (dev_in st)) = (fs, rest, None)"
    using assms(2) by (metis prod.collapse)
  then have a: "all_frames st = ws_pendingFrames st @ map parsed_frame fs"
    by (simp add: all_frames_def)
  note c = await_loop_conserves[OF s assms(1), of tag, folded a awaitResponseFrame_def]
  show ?thesis
  proof (cases "take_pending tag (all_frames st)")
    case None
    then show ?thesis
      using c[unfolded None] None by (auto simp: take_pending_None)
  next
    case (Some fr)
    then obtain frame others where f: "take_pending tag (all_frames st) = Some (frame, others)"
      by (cases fr) auto
    then show ?thesis
      using c[unfolded f] take_pending_Some[OF f] by auto
  qed
qed

lemma awaitResponseFrame_conserves_witness:
  "\<exists>st'. awaitResponseFrame 7 (idle_transport\<lparr>dev_in := [take 5 (wire_frame ack_frame), drop 5 (wire_frame ack_frame)]\<rparr>) =
     Some (Inr ack_frame, st') \<and> all_frames st' = []"
proof -
  let ?st = "idle_transport\<lparr>dev_in := [take 5 (wire_frame ack_frame), drop 5 (wire_frame ack_frame)]\<rparr>"
  have wf: "wf_frame ack_frame"
    by (simp add: wf_frame_def ack_frame_def)
  have next_Nil: "next_frame [] = Inr None"
    by (simp add: next_frame_def winusb_consts)
  then have s: "split_stream next_frame (ws_rxBuffer ?st @ concat (dev_in ?st)) = ([wire_frame ack_frame], [], None)"
    using frames.split_stream_messages[of "[wire_frame ack_frame]" "[]"] wire_frame_next[OF wf]
    by (simp add: idle_transport_def)
  then have a: "all_frames ?st = [ack_frame]"
    unfolding all_frames_def by (simp add: wire_frame_parsed[OF wf] idle_transport_def)
  have "next_frame (ws_rxBuffer ?st) = Inr None" "fr_tag ack_frame = 7"
    using next_Nil by (simp_all add: idle_transport_def ack_frame_def)
  then show ?thesis
    using awaitResponseFrame_conserves[of ?st 7] s a by (auto simp: Cons_eq_append_conv)
qed

section \<open>The order of a firmware update\<close>

text \<open>What a request may not change, and what the device has been sent.\<close>

definition sender :: "WinUSBTransport \<Rightarrow> int option \<times> nat \<times> int \<times> bytes list \<times> (int \<times> int) list" where
  "sender st = (ws_endpointOut st, ws_bulkOutPacketSize st, ws_tagCounter st, dev_out st, dev_progress st)"

lemma sender_dispatch [simp]: "sender (maybeDispatchSyntheticInterrupt f st) = sender st"
  by (simp add: sender_def maybeDispatchSyntheticInterrupt_def)

lemma sender_receive_fields [simp]:
  "sender (st\<lparr>ws_rxBuffer := r\<rparr>) = sender st" "sender (st\<lparr>ws_pendingFrames := p\<rparr>) = sender st"
  "sender (st\<lparr>dev_in := d\<rparr>) = sender st"
  by (simp_all add: sender_def)

lemma rx_loop_sender: "rx_loop st = Some r \<Longrightarrow> sender (snd r) = sender st"
proof (erule rx_loop.raw_induct [rotated], goal_cases)
  case (1 f s t)
  then show ?case
    by (auto simp: Let_def ret_def raise_def split: if_splits)
qed

lemma await_loop_sender: "await_loop tag ds st = Some r \<Longrightarrow> sender (snd r) = sender st"
proof (induction ds arbitrary: st)
  case (Cons d ds)
  show ?case
  proof (cases "take_pending tag (ws_pendingFrames st)")
    case None
    show ?thesis
    proof (cases "d = []")
      case False
      then obtain x s where x: "appendRxBytes d st = Some (x, s)"
        using Cons.prems None by (cases "appendRxBytes d st") auto
      then have "sender s = sender st"
        using rx_loop_sender[of _ "(x, s)"] by (fastforce simp: appendRxBytes_def)
      then show ?thesis
        using Cons None False x by (cases x) (auto simp: raise_def)
    qed (use Cons None in simp)
  qed (use Cons.prems in \<open>auto simp: ret_def\<close>)
qed (auto simp: ret_def raise_def split: option.splits)

definition tag_of :: "int \<Rightarrow> int" where
  "tag_of counter = (if counter mod 256 = 0 then 1 else counter mod 256)"

text \<open>The bytes of a sequence of frames, with the tags the counter gives them.\<close>

fun frame_stream :: "int \<Rightarrow> (int \<times> bytes) list \<Rightarrow> bytes" where
  "frame_stream counter [] = []"
| "frame_stream counter ((typ, payload) # fs) =
     buildFrame typ (tag_of counter) payload @ frame_stream ((counter + 1) mod 256) fs"

definition sends :: "(int \<times> bytes) list \<Rightarrow> WinUSBTransport \<Rightarrow> WinUSBTransport \<Rightarrow> bool" where
  "sends fs st st' \<longleftrightarrow>
     ws_endpointOut st' = ws_endpointOut st \<and> ws_bulkOutPacketSize st' = ws_bulkOutPacketSize st \<and>
     ws_tagCounter st' = (ws_tagCounter st + int (length fs)) mod 256 \<and>
     concat (dev_out st') = concat (dev_out st) @ frame_stream (ws_tagCounter st) fs"

lemma frame_stream_append:
  "frame_stream c (fs @ gs) = frame_stream c fs @ frame_stream ((c + int (length fs)) mod 256) gs"
proof (induction fs arbitrary: c)
  case Nil
  have "frame_stream (c mod 256) gs = frame_stream c gs" for c
    by (cases gs) (auto simp: tag_of_def mod_simps)
  then show ?case
    by simp
qed (auto simp: mod_simps add.assoc)

lemma sends_trans: "sends fs st st' \<Longrightarrow> sends gs st' st'' \<Longrightarrow> sends (fs @ gs) st st''"
  by (auto simp: sends_def frame_stream_append mod_simps add.assoc)

lemma concat_packets: "0 < n \<Longrightarrow> concat (packets n xs) = xs"
  by (induction n xs rule: packets.induct) (subst packets.simps, auto)

lemma sends_sender: "sender st' = sender st'' \<Longrightarrow> sends fs st st' \<longleftrightarrow> sends fs st st''"
  by (simp add: sends_def sender_def)

lemma writeFrame_sends:
  assumes "writeFrame typ payload st = Some (r, st')" "ws_endpointOut st \<noteq> None" "0 < ws_bulkOutPacketSize st"
  shows "sends [(typ, payload)] st st' \<and> dev_progress st' = dev_progress st \<and> \<not> isl r"
  using assms
  by (auto simp: writeFrame_def seq_def nextTag_def Let_def ret_def js_and_255 sends_def tag_of_def
      concat_packets split: if_splits)

lemma sendUpdaterFrame_sends:
  assumes "sendUpdaterFrame typ payload st = Some (r, st')" "ws_endpointOut st \<noteq> None" "0 < ws_bulkOutPacketSize st"
  shows "sends [(typ, payload)] st st' \<and> dev_progress st' = dev_progress st"
proof -
  obtain w s where w: "writeFrame typ payload st = Some (w, s)"
    using assms(1) by (auto simp: sendUpdaterFrame_def seq_def split: option.splits)
  note ws = writeFrame_sends[OF w assms(2,3)]
  then obtain tag where "w = Inr tag"
    by (cases w) auto
  then have "sender st' = sender s"
    using assms(1) w await_loop_sender[of tag "dev_in s" s]
    by (auto simp: sendUpdaterFrame_def seq_def awaitResponseFrame_def ret_def raise_def
        split: option.splits sum.splits prod.splits if_splits)
  then show ?thesis
    using ws sends_sender[of st' s "[(typ, payload)]" st] by (simp add: sender_def)
qed

text \<open>The frames an update consists of, and the progress a caller is told.\<close>

definition begin_frame :: "DRPDFirmwareUpdateRequest \<Rightarrow> int \<times> bytes" where
  "begin_frame request = (0x10, le_bytes 4 (take_bit 32 (ur_baseOffset request)) @
     le_bytes 4 (take_bit 32 (ur_totalLength request)) @ le_bytes 4 (take_bit 32 (ur_crc32 request)))"

definition chunk_frame :: "DRPDFirmwareUpdateChunk \<Rightarrow> int \<times> bytes" where
  "chunk_frame c = (0x11, le_bytes 4 (take_bit 32 (uc_offset c)) @ uc_data c)"

abbreviation finish_frame :: "int \<times> bytes" where "finish_frame \<equiv> (0x12, [])"
abbreviation abort_frame :: "int \<times> bytes" where "abort_frame \<equiv> (0x13, [])"

fun running_totals :: "int \<Rightarrow> DRPDFirmwareUpdateChunk list \<Rightarrow> int list" where
  "running_totals n [] = []"
| "running_totals n (c # cs) = (n + int (length (uc_data c))) # running_totals (n + int (length (uc_data c))) cs"

definition sender_ok :: "WinUSBTransport \<Rightarrow> bool" where
  "sender_ok st \<longleftrightarrow> ws_endpointOut st \<noteq> None \<and> 0 < ws_bulkOutPacketSize st \<and>
     0 \<le> ws_tagCounter st \<and> ws_tagCounter st < 256"

lemma sends_ok: "sends fs st st' \<Longrightarrow> sender_ok st \<Longrightarrow> sender_ok st'"
  by (simp add: sends_def sender_ok_def)

lemma updater_sends:
  assumes "sendUpdaterFrame typ payload st = Some (r, st')" "sender_ok st"
  shows "sends [(typ, payload)] st st'" "dev_progress st' = dev_progress st" "sender_ok st'"
  using sendUpdaterFrame_sends[OF assms(1)] assms(2) sends_ok[of _ st st'] by (auto simp: sender_ok_def)

lemma write_chunks_sends:
  assumes "write_chunks len chunks n st = Some (r, st')" "sender_ok st"
  shows "\<exists>k \<le> length chunks. sends (map chunk_frame (take k chunks)) st st' \<and>
    (case r of
       Inr u \<Rightarrow> k = length chunks \<and> dev_progress st' = dev_progress st @
          map (\<lambda>t. (t, len)) (running_totals n chunks)
     | Inl e \<Rightarrow> 0 < k)"
  using assms
proof (induction chunks arbitrary: st n)
  case Nil
  then show ?case
    by (auto simp: ret_def sends_def sender_ok_def)
next
  case (Cons c cs)
  obtain w s where w: "sendUpdaterFrame 0x11 (snd (chunk_frame c)) st = Some (w, s)"
    using Cons.prems(1)
    by (auto simp: seq_def chunk_frame_def writeU32LE_eq winusb_types split: option.splits)
  note u = updater_sends[OF w Cons.prems(2)]
  show ?case
  proof (cases w)
    case (Inl e)
    then have "r = Inl e" "st' = s"
      using Cons.prems(1) w by (auto simp: seq_def chunk_frame_def writeU32LE_eq winusb_types)
    then show ?thesis
      using u(1) by (intro exI[of _ 1]) (simp add: chunk_frame_def)
  next
    case (Inr x)
    let ?n = "n + int (length (uc_data c))"
    let ?s = "s\<lparr>dev_progress := dev_progress s @ [(?n, len)]\<rparr>"
    have "write_chunks len cs ?n ?s = Some (r, st')"
      using Cons.prems(1) w Inr by (simp add: seq_def chunk_frame_def writeU32LE_eq winusb_types Let_def)
    moreover have "sender_ok ?s" "sends fs ?s t = sends fs s t" for fs t
      using u(3) by (simp_all add: sender_ok_def sends_def)
    ultimately obtain k where k: "k \<le> length cs" "sends (map chunk_frame (take k cs)) s st'"
        "case r of Inr u \<Rightarrow> k = length cs \<and> dev_progress st' = dev_progress ?s @
            map (\<lambda>t. (t, len)) (running_totals ?n cs) | Inl e \<Rightarrow> 0 < k"
      using Cons.IH[of ?n ?s] by blast
    have "sends (map chunk_frame (take (Suc k) (c # cs))) st st'"
      using sends_trans[OF u(1) k(2)] by (simp add: chunk_frame_def)
    then show ?thesis
      using k(1,3) u(2) by (intro exI[of _ "Suc k"]) (auto split: sum.splits)
  qed
qed

lemma chunks_then_finish:
  assumes "seq (write_chunks len chunks n) (\<lambda>u. seq (sendUpdaterFrame 0x12 []) (\<lambda>r. ret ())) st = Some (r, st')"
    and "sender_ok st"
  shows "sender_ok st' \<and> (case r of
      Inr u \<Rightarrow> sends (map chunk_frame chunks @ [finish_frame]) st st' \<and>
        dev_progress st' = dev_progress st @ map (\<lambda>t. (t, len)) (running_totals n chunks)
    | Inl e \<Rightarrow> \<exists>k. 0 < k \<and> k \<le> Suc (length chunks) \<and>
        sends (take k (map chunk_frame chunks @ [finish_frame])) st st')"
proof -
  obtain w s where w: "write_chunks len chunks n st = Some (w, s)"
    using assms(1) by (auto simp: seq_def split: option.splits)
  then obtain k where k: "k \<le> length chunks" "sends (map chunk_frame (take k chunks)) st s"
      "case w of Inr u \<Rightarrow> k = length chunks \<and> dev_progress s = dev_progress st @
          map (\<lambda>t. (t, len)) (running_totals n chunks) | Inl e \<Rightarrow> 0 < k"
    using write_chunks_sends[OF w assms(2)] by blast
  have ok: "sender_ok s"
    using sends_ok[OF k(2)] assms(2) by simp
  show ?thesis
  proof (cases w)
    case (Inl e)
    then have "r = Inl e" "st' = s"
      using assms(1) w by (auto simp: seq_def)
    then show ?thesis
      using k Inl ok by (auto simp: take_map intro!: exI[of _ k])
  next
    case (Inr u)
    then obtain y where y: "sendUpdaterFrame 0x12 [] s = Some (y, st')" "isl r = isl y"
      using assms(1) w by (auto simp: seq_def ret_def split: option.splits sum.splits prod.splits)
    note f = updater_sends[OF y(1) ok]
    have "sends (map chunk_frame chunks @ [finish_frame]) st st'"
      using sends_trans[OF k(2) f(1)] k(3) Inr by simp
    then show ?thesis
      using k(3) Inr f(2,3) by (cases r) (auto intro!: exI[of _ "Suc (length chunks)"])
  qed
qed

lemma updateFirmware_sends:
  assumes "updateFirmware request st = Some (r, st')" "sender_ok st"
    and "script = map chunk_frame (ur_chunks request) @ [finish_frame]"
  shows "case r of
      Inr u \<Rightarrow> sends (begin_frame request # script) st st' \<and>
        dev_progress st' = dev_progress st @
          map (\<lambda>t. (t, ur_totalLength request)) (running_totals 0 (ur_chunks request))
    | Inl e \<Rightarrow> sends [begin_frame request] st st' \<or>
        (\<exists>k. 0 < k \<and> k \<le> length script \<and> sends (begin_frame request # take k script @ [abort_frame]) st st')"
proof -
  let ?body = "seq (write_chunks (ur_totalLength request) (ur_chunks request) 0) (\<lambda>u.
              seq (sendUpdaterFrame WINUSB_UPDATE_FINISH []) (\<lambda>r. ret ()))"
  obtain b s where b: "sendUpdaterFrame 0x10 (snd (begin_frame request)) st = Some (b, s)"
    using assms(1) by (auto simp: updateFirmware_def seq_def begin_frame_def writeU32LE_eq winusb_types
        split: option.splits)
  note ub = updater_sends[OF b assms(2)]
  have ub1: "sends [begin_frame request] st s"
    using ub(1) by (simp add: begin_frame_def)
  show ?thesis
  proof (cases b)
    case (Inl e)
    then show ?thesis
      using assms(1) b ub1 by (auto simp: updateFirmware_def seq_def begin_frame_def writeU32LE_eq winusb_types)
  next
    case (Inr x)
    then have run: "(case ?body s of
         Some (Inl e, t) \<Rightarrow> (case sendUpdaterFrame WINUSB_UPDATE_ABORT [] t of
              None \<Rightarrow> None | Some (r, t') \<Rightarrow> raise e t')
       | other \<Rightarrow> other) = Some (r, st')"
      using assms(1) b by (simp add: updateFirmware_def seq_def begin_frame_def writeU32LE_eq winusb_types)
    then obtain q t where q: "?body s = Some (q, t)"
      by (cases "?body s") auto
    have body: "case q of
        Inr u \<Rightarrow> sends script s t \<and> dev_progress t = dev_progress s @
          map (\<lambda>t. (t, ur_totalLength request)) (running_totals 0 (ur_chunks request))
      | Inl e \<Rightarrow> (\<exists>k. 0 < k \<and> k \<le> length script \<and> sends (take k script) s t)"
      "sender_ok t"
      using chunks_then_finish[OF q[unfolded winusb_types] ub(3)]
      unfolding assms(3) by (cases q; simp)+
    show ?thesis
    proof (cases q)
      case (Inl e)
      then obtain k y where k: "0 < k" "k \<le> length script" "sends (take k script) s t"
          "sendUpdaterFrame 0x13 [] t = Some (y, st')" "r = Inl e"
        using body(1) run q by (auto simp: raise_def winusb_types split: option.splits)
      then show ?thesis
        using sends_trans[OF ub1 sends_trans[OF k(3) updater_sends(1)[OF k(4) body(2)]]] by auto
    next
      case (Inr u)
      then show ?thesis
        using body(1) run q sends_trans[OF ub1, of script t] ub(2) by auto
    qed
  qed
qed


text \<open>An update of one chunk: the begin frame is acknowledged, the write frame gets an error response,
  the transport aborts.\<close>

definition update_device :: WinUSBTransport where
  "update_device = idle_transport\<lparr>ws_pendingFrames :=
     [\<lparr>fr_type = 0x85, fr_tag = 1, fr_srqPending = False, fr_payload = []\<rparr>,
      \<lparr>fr_type = 0x83, fr_tag = 2, fr_srqPending = False, fr_payload = []\<rparr>]\<rparr>"

definition one_chunk :: DRPDFirmwareUpdateRequest where
  "one_chunk = \<lparr>ur_baseOffset = 0x8000, ur_totalLength = 2, ur_crc32 = 0xdeadbeef,
     ur_chunks = [\<lparr>uc_offset = 0, uc_data = [1, 2]\<rparr>]\<rparr>"


end
