(* ===== verification/Request_Lock.thy ===== *)
theory Request_Lock
  imports Main
begin

text \<open>
  The request lock of the transports, \<open>withLock\<close> of \<open>transport/winusb.ts\<close> and \<open>transport/usbtmc.ts\<close>:
  every request awaits the promise its predecessor left in \<open>requestQueue\<close> and leaves one of its own,
  which it resolves when its action has returned or thrown. Promises are numbered in the order they
  are created; a step is a piece of code that runs without an \<open>await\<close>.
\<close>

section \<open>The lock as a step relation\<close>

text \<open>A request waits for its predecessor, runs its action, or has settled (\<open>Settled True\<close>: returned,
  \<open>Settled False\<close>: thrown).\<close>

datatype phase = Waiting | Running | Settled bool

record lock_request =
  rq_previous :: nat
  rq_own :: nat
  rq_phase :: phase

record request_lock =
  lk_requestQueue :: nat
  lk_created :: nat
  lk_resolved :: "nat list"
  lk_requests :: "lock_request list"

definition lock_init :: request_lock where
  "lock_init = \<lparr>lk_requestQueue = 0, lk_created = 1, lk_resolved = [0], lk_requests = []\<rparr>"

text \<open>The call: take the predecessor's promise, leave a new one.\<close>

definition lock_call :: "request_lock \<Rightarrow> request_lock" where
  "lock_call s = s\<lparr>lk_requestQueue := lk_created s, lk_created := Suc (lk_created s),
     lk_requests := lk_requests s @
       [\<lparr>rq_previous = lk_requestQueue s, rq_own = lk_created s, rq_phase = Waiting\<rparr>]\<rparr>"

definition set_phase :: "nat \<Rightarrow> phase \<Rightarrow> request_lock \<Rightarrow> request_lock" where
  "set_phase i p s = s\<lparr>lk_requests := (lk_requests s)[i := (lk_requests s ! i)\<lparr>rq_phase := p\<rparr>]\<rparr>"

text \<open>The end of the action: the \<open>finally\<close> block resolves the request's own promise.\<close>

definition lock_release :: "nat \<Rightarrow> bool \<Rightarrow> request_lock \<Rightarrow> request_lock" where
  "lock_release i ok s = (set_phase i (Settled ok) s)
     \<lparr>lk_resolved := rq_own (lk_requests s ! i) # lk_resolved s\<rparr>"

inductive serve :: "request_lock \<Rightarrow> request_lock \<Rightarrow> bool" where
  enter: "i < length (lk_requests s) \<Longrightarrow> rq_phase (lk_requests s ! i) = Waiting \<Longrightarrow>
    rq_previous (lk_requests s ! i) \<in> set (lk_resolved s) \<Longrightarrow> serve s (set_phase i Running s)"
| leave: "i < length (lk_requests s) \<Longrightarrow> rq_phase (lk_requests s ! i) = Running \<Longrightarrow>
    serve s (lock_release i ok s)"

inductive lock_step :: "request_lock \<Rightarrow> request_lock \<Rightarrow> bool" where
  call: "lock_step s (lock_call s)"
| served: "serve s s' \<Longrightarrow> lock_step s s'"

inductive lock_reachable :: "request_lock \<Rightarrow> bool" where
  init: "lock_reachable lock_init"
| step: "lock_reachable s \<Longrightarrow> lock_step s s' \<Longrightarrow> lock_reachable s'"

declare serve.intros [intro] lock_step.intros [intro]

inductive_cases serveE [elim]: "serve s s'"
inductive_cases lock_stepE [elim]: "lock_step s s'"

section \<open>The invariant\<close>

abbreviation phase_of :: "request_lock \<Rightarrow> nat \<Rightarrow> phase" where
  "phase_of s i \<equiv> rq_phase (lk_requests s ! i)"

definition settled :: "phase \<Rightarrow> bool" where
  "settled p \<longleftrightarrow> p \<noteq> Waiting \<and> p \<noteq> Running"

lemma settled_simps [simp]: "settled (Settled ok)" "\<not> settled Waiting" "\<not> settled Running"
  by (simp_all add: settled_def)

text \<open>Request \<open>i\<close> awaits promise \<open>i\<close> and owns promise \<open>i + 1\<close>; the resolved promises are the initial
  one and those of settled requests; whoever has entered has only settled predecessors.\<close>

definition numbered :: "request_lock \<Rightarrow> bool" where
  "numbered s \<longleftrightarrow> lk_requestQueue s = length (lk_requests s) \<and> lk_created s = Suc (length (lk_requests s)) \<and>
     (\<forall>i < length (lk_requests s). rq_previous (lk_requests s ! i) = i \<and> rq_own (lk_requests s ! i) = Suc i)"

definition resolved_ok :: "request_lock \<Rightarrow> bool" where
  "resolved_ok s \<longleftrightarrow>
     set (lk_resolved s) = insert 0 (Suc ` {i. i < length (lk_requests s) \<and> settled (phase_of s i)})"

definition ordered :: "request_lock \<Rightarrow> bool" where
  "ordered s \<longleftrightarrow> (\<forall>j < length (lk_requests s). phase_of s j \<noteq> Waiting \<longrightarrow> (\<forall>i < j. settled (phase_of s i)))"

definition lock_inv :: "request_lock \<Rightarrow> bool" where
  "lock_inv s \<longleftrightarrow> numbered s \<and> resolved_ok s \<and> ordered s"

lemma lock_inv_init: "lock_inv lock_init"
  by (simp add: lock_inv_def lock_init_def numbered_def resolved_ok_def ordered_def)

lemma lock_inv_call: "lock_inv s \<Longrightarrow> lock_inv (lock_call s)"
proof -
  assume inv: "lock_inv s"
  have p: "phase_of (lock_call s) i = (if i < length (lk_requests s) then phase_of s i else Waiting)"
    if "i < length (lk_requests (lock_call s))" for i
    using that by (auto simp: lock_call_def nth_append less_Suc_eq)
  have "numbered (lock_call s)"
    using inv by (auto simp: lock_inv_def numbered_def lock_call_def nth_append less_Suc_eq)
  moreover have "resolved_ok (lock_call s)"
  proof -
    have "{i. i < length (lk_requests (lock_call s)) \<and> settled (phase_of (lock_call s) i)} =
        {i. i < length (lk_requests s) \<and> settled (phase_of s i)}"
      using p by (fastforce simp: lock_call_def nth_append split: if_splits)
    then show ?thesis
      using inv by (simp add: lock_inv_def resolved_ok_def) (simp add: lock_call_def)
  qed
  moreover have "ordered (lock_call s)"
    using inv unfolding lock_inv_def ordered_def
    by (auto simp: lock_call_def nth_append less_Suc_eq)
  ultimately show ?thesis
    by (simp add: lock_inv_def)
qed

lemma phase_set_phase:
  "i < length (lk_requests s) \<Longrightarrow> phase_of (set_phase i p s) j = (if j = i then p else phase_of s j)"
  by (simp add: set_phase_def nth_list_update)

lemma set_phase_fields [simp]:
  "length (lk_requests (set_phase i p s)) = length (lk_requests s)"
  "lk_resolved (set_phase i p s) = lk_resolved s"
  "lk_requestQueue (set_phase i p s) = lk_requestQueue s" "lk_created (set_phase i p s) = lk_created s"
  by (simp_all add: set_phase_def)

lemma set_phase_promises:
  "j < length (lk_requests s) \<Longrightarrow> rq_previous (lk_requests (set_phase i p s) ! j) = rq_previous (lk_requests s ! j)"
  "j < length (lk_requests s) \<Longrightarrow> rq_own (lk_requests (set_phase i p s) ! j) = rq_own (lk_requests s ! j)"
  by (cases "i = j"; simp add: set_phase_def nth_list_update)+

lemma numbered_set_phase: "numbered s \<Longrightarrow> numbered (set_phase i p s)"
  by (simp add: numbered_def set_phase_promises)

lemma resolved_before:
  assumes "lock_inv s" "i < length (lk_requests s)" "i \<in> set (lk_resolved s)" "k < i"
  shows "settled (phase_of s k)"
proof -
  have "i \<in> insert 0 (Suc ` {j. j < length (lk_requests s) \<and> settled (phase_of s j)})"
    using assms(1,3) by (simp add: lock_inv_def resolved_ok_def)
  then obtain m where m: "i = Suc m" "m < length (lk_requests s)" "settled (phase_of s m)"
    using assms(4) by auto
  then have "phase_of s m \<noteq> Waiting"
    by auto
  then have "\<forall>k < m. settled (phase_of s k)"
    using assms(1) m(2) by (simp add: lock_inv_def ordered_def)
  then show ?thesis
    using assms(4) m by (cases "k = m") simp_all
qed

lemma lock_inv_enter:
  assumes "lock_inv s" "i < length (lk_requests s)" "phase_of s i = Waiting" "i \<in> set (lk_resolved s)"
  shows "lock_inv (set_phase i Running s)"
proof -
  have "{j. j < length (lk_requests s) \<and> settled (phase_of (set_phase i Running s) j)} =
      {j. j < length (lk_requests s) \<and> settled (phase_of s j)}"
    using assms(2,3) by (auto simp: phase_set_phase)
  then have "resolved_ok (set_phase i Running s)"
    using assms(1) by (simp add: lock_inv_def resolved_ok_def)
  moreover have "ordered (set_phase i Running s)"
  proof -
    have later: "phase_of s j = Waiting" if "i < j" "j < length (lk_requests s)" for j
    proof (rule ccontr)
      assume "phase_of s j \<noteq> Waiting"
      then have "settled (phase_of s i)"
        using assms(1) that by (simp add: lock_inv_def ordered_def)
      then show False
        using assms(3) by simp
    qed
    have "settled (phase_of (set_phase i Running s) k)"
      if "j < length (lk_requests s)" "phase_of (set_phase i Running s) j \<noteq> Waiting" "k < j" for j k
    proof (cases "j = i")
      case True
      then show ?thesis
        using resolved_before[OF assms(1,2,4)] that assms(2) by (simp add: phase_set_phase)
    next
      case False
      then have "j < i" "phase_of s j \<noteq> Waiting"
        using later[of j] that assms(2) by (auto simp: phase_set_phase linorder_neq_iff)
      then have "settled (phase_of s k)"
        using assms(1) that by (auto simp: lock_inv_def ordered_def)
      then show ?thesis
        using \<open>j < i\<close> assms(2) that(3) by (simp add: phase_set_phase)
    qed
    then show ?thesis
      by (simp add: ordered_def)
  qed
  ultimately show ?thesis
    using assms(1) by (simp add: lock_inv_def numbered_set_phase)
qed

lemma lock_inv_leave:
  assumes "lock_inv s" "i < length (lk_requests s)" "phase_of s i = Running"
  shows "lock_inv (lock_release i ok s)"
proof -
  let ?s = "lock_release i ok s"
  have p: "phase_of ?s j = (if j = i then Settled ok else phase_of s j)" for j
    using assms(2) by (simp add: lock_release_def phase_set_phase)
  have n: "length (lk_requests ?s) = length (lk_requests s)"
    by (simp add: lock_release_def)
  have "{j. j < length (lk_requests s) \<and> settled (phase_of ?s j)} =
      insert i {j. j < length (lk_requests s) \<and> settled (phase_of s j)}"
    using assms(2) by (auto simp: p)
  moreover have "set (lk_resolved ?s) = insert (Suc i) (set (lk_resolved s))"
    using assms(1,2) by (simp add: lock_release_def lock_inv_def numbered_def)
  ultimately have "resolved_ok ?s"
    using assms(1) by (auto simp: lock_inv_def resolved_ok_def n)
  moreover have "ordered ?s"
    using assms by (auto simp: ordered_def lock_inv_def p n split: if_splits)
  moreover have "numbered ?s"
    using assms(1) numbered_set_phase[of s i "Settled ok"]
    by (simp add: lock_inv_def numbered_def lock_release_def)
  ultimately show ?thesis
    by (simp add: lock_inv_def)
qed

lemma lock_inv_serve: "serve s s' \<Longrightarrow> lock_inv s \<Longrightarrow> lock_inv s'"
proof (elim serveE)
  fix i
  assume "lock_inv s" "i < length (lk_requests s)" "phase_of s i = Waiting" "s' = set_phase i Running s"
    "rq_previous (lk_requests s ! i) \<in> set (lk_resolved s)"
  then show "lock_inv s'"
    using lock_inv_enter[of s i] by (simp add: lock_inv_def numbered_def)
qed (simp add: lock_inv_leave)

lemma lock_reachable_inv: "lock_reachable s \<Longrightarrow> lock_inv s"
  by (induction rule: lock_reachable.induct) (auto simp: lock_inv_init lock_inv_call lock_inv_serve)

text \<open>C3: the lock admits one request at a time, in the order of the calls. In every state reachable by
  calls, entries and releases in any interleaving, whatever requests return or throw: at most one
  request runs its action, and a request that has entered has only predecessors that have settled.\<close>

theorem withLock_exclusive:
  assumes "lock_reachable s" "i < j" "j < length (lk_requests s)" "rq_phase (lk_requests s ! j) \<noteq> Waiting"
  shows "\<exists>ok. rq_phase (lk_requests s ! i) = Settled ok"
proof -
  have "settled (phase_of s i)"
    using lock_reachable_inv[OF assms(1)] assms(2-4) by (simp add: lock_inv_def ordered_def)
  then show ?thesis
    by (cases "phase_of s i") auto
qed

text \<open>Two requests, the first of which throws.\<close>

definition after_failure :: request_lock where
  "after_failure = set_phase 1 Running (lock_release 0 False (set_phase 0 Running (lock_call (lock_call lock_init))))"

lemma withLock_exclusive_witness:
  "lock_reachable after_failure \<and> rq_phase (lk_requests after_failure ! 1) = Running \<and>
   (\<exists>ok. rq_phase (lk_requests after_failure ! 0) = Settled ok)"
proof -
  let ?s = "lock_call (lock_call lock_init)"
  have "lock_reachable ?s"
    by (rule lock_reachable.step[OF lock_reachable.step[OF lock_reachable.init lock_step.call] lock_step.call])
  moreover have "serve ?s (set_phase 0 Running ?s)"
    by (rule serve.enter) (simp_all add: lock_call_def lock_init_def)
  moreover have "serve (set_phase 0 Running ?s) (lock_release 0 False (set_phase 0 Running ?s))"
    by (rule serve.leave) (simp_all add: lock_call_def lock_init_def set_phase_def)
  moreover have "serve (lock_release 0 False (set_phase 0 Running ?s)) after_failure"
    unfolding after_failure_def
    by (rule serve.enter) (simp_all add: lock_call_def lock_init_def set_phase_def lock_release_def)
  ultimately have r: "lock_reachable after_failure"
    by (meson lock_reachable.step lock_step.served)
  moreover have "rq_phase (lk_requests after_failure ! 1) = Running" "length (lk_requests after_failure) = 2"
    by code_simp+
  ultimately show ?thesis
    using withLock_exclusive[of after_failure 0 1] by simp
qed

section \<open>No request waits for ever\<close>

lemma serve_length: "serve s s' \<Longrightarrow> length (lk_requests s') = length (lk_requests s)"
  by (auto simp: lock_release_def)

definition open_requests :: "request_lock \<Rightarrow> nat" where
  "open_requests s = (\<Sum>i < length (lk_requests s).
     case phase_of s i of Waiting \<Rightarrow> 2 | Running \<Rightarrow> 1 | Settled ok \<Rightarrow> 0)"

lemma serve_decreases: "serve s s' \<Longrightarrow> open_requests s' < open_requests s"
proof -
  have *: "(\<Sum>k < n. (if k = i then a else f k)) < (\<Sum>k < n. f k)" if "i < n" "a < f i" for f :: "nat \<Rightarrow> nat" and n i a
    using that by (intro sum_strict_mono_ex1) auto
  assume "serve s s'"
  then show ?thesis
  proof (cases rule: serve.cases)
    case (enter i)
    have "open_requests s' = (\<Sum>k < length (lk_requests s). if k = i then 1 else
        case phase_of s k of Waiting \<Rightarrow> 2 | Running \<Rightarrow> 1 | Settled ok \<Rightarrow> 0)"
      using enter by (auto simp: open_requests_def phase_set_phase intro!: sum.cong)
    then show ?thesis
      using enter by (simp add: open_requests_def *)
  next
    case (leave i ok)
    have "open_requests s' = (\<Sum>k < length (lk_requests s). if k = i then 0 else
        case phase_of s k of Waiting \<Rightarrow> 2 | Running \<Rightarrow> 1 | Settled ok \<Rightarrow> 0)"
      using leave by (auto simp: open_requests_def lock_release_def phase_set_phase intro!: sum.cong)
    then show ?thesis
      using leave by (simp add: open_requests_def *)
  qed
qed

lemma serve_possible:
  assumes "lock_inv s" "i < length (lk_requests s)" "\<not> settled (phase_of s i)"
  shows "\<exists>s'. serve s s'"
proof -
  define j where "j = (LEAST j. \<not> settled (phase_of s j))"
  have j: "\<not> settled (phase_of s j)" "j < length (lk_requests s)"
    unfolding j_def using assms(2,3) LeastI[of "\<lambda>j. \<not> settled (phase_of s j)" i]
      Least_le[of "\<lambda>j. \<not> settled (phase_of s j)" i] by auto
  have before: "settled (phase_of s k)" if "k < j" for k
    using not_less_Least[of k "\<lambda>j. \<not> settled (phase_of s j)"] that by (auto simp: j_def)
  have "j \<in> set (lk_resolved s)"
    using assms(1) before[of "j - 1"] j(2) by (cases j) (auto simp: lock_inv_def resolved_ok_def)
  moreover have "rq_previous (lk_requests s ! j) = j"
    using assms(1) j(2) by (simp add: lock_inv_def numbered_def)
  ultimately have enter: "phase_of s j = Waiting \<Longrightarrow> serve s (set_phase j Running s)"
    using j(2) by (intro serve.enter) auto
  show ?thesis
  proof (cases "phase_of s j")
    case Waiting
    then show ?thesis
      using enter by blast
  next
    case Running
    then show ?thesis
      using serve.leave[of j s True] j(2) by blast
  qed (use j(1) in auto)
qed

text \<open>C12: the lock never blocks for good. From every reachable state, running the lock without further
  calls ends: each step brings the requests closer to settling, and the only states without a step
  are those in which every request has settled. A request that throws releases the lock like one
  that returns.\<close>

theorem withLock_progress:
  assumes "lock_reachable s"
  shows "(\<forall>s'. serve s s' \<longrightarrow> lock_reachable s' \<and> open_requests s' < open_requests s) \<and>
    ((\<nexists>s'. serve s s') \<longleftrightarrow> (\<forall>r \<in> set (lk_requests s). \<exists>ok. rq_phase r = Settled ok))"
proof
  show "\<forall>s'. serve s s' \<longrightarrow> lock_reachable s' \<and> open_requests s' < open_requests s"
    using assms serve_decreases lock_reachable.step[OF assms lock_step.served] by auto
  have st: "settled p \<longleftrightarrow> (\<exists>ok. p = Settled ok)" for p
    by (cases p) auto
  have "(\<nexists>s'. serve s s') \<longleftrightarrow> (\<forall>i < length (lk_requests s). settled (phase_of s i))"
    using serve_possible[OF lock_reachable_inv[OF assms]] by (auto elim!: serve.cases)
  then show "(\<nexists>s'. serve s s') \<longleftrightarrow> (\<forall>r \<in> set (lk_requests s). \<exists>ok. rq_phase r = Settled ok)"
    by (simp add: all_set_conv_all_nth st)
qed

lemma withLock_progress_witness:
  "lock_reachable (lock_call lock_init) \<and> (\<exists>s'. serve (lock_call lock_init) s')"
proof -
  have r: "lock_reachable (lock_call lock_init)"
    by (rule lock_reachable.step[OF lock_reachable.init lock_step.call])
  have "\<not> (\<forall>r \<in> set (lk_requests (lock_call lock_init)). \<exists>ok. rq_phase r = Settled ok)"
    by (simp add: lock_call_def lock_init_def)
  then show ?thesis
    using withLock_progress[OF r] r by blast
qed

end
