(* ===== verification/Scpi_Errors.thy ===== *)
theory Scpi_Errors
  imports Scpi_Text
begin

text \<open>
  The answers to \<open>SYST:ERR?\<close> as both transports read them in \<open>checkErrorUnlocked\<close>
  (\<open>transport/winusb.ts\<close>, \<open>transport/usbtmc.ts\<close>), and the trimming of response lines.
\<close>

section \<open>The error queue\<close>

text \<open>\<open>\s\<close> on the characters up to code 255.\<close>

definition js_space :: "char \<Rightarrow> bool" where
  "js_space c \<longleftrightarrow> of_char c \<in> {9, 10, 11, 12, 13, 32, 160 :: nat}"

definition js_digit :: "char \<Rightarrow> bool" where
  "js_digit c \<longleftrightarrow> 48 \<le> (of_char c :: nat) \<and> (of_char c :: nat) \<le> 57"

definition trim :: "string \<Rightarrow> string" where
  "trim s = rev (dropWhile js_space (rev (dropWhile js_space s)))"

fun digits_value :: "string \<Rightarrow> int \<Rightarrow> int" where
  "digits_value [] v = v"
| "digits_value (c # cs) v = digits_value cs (v * 10 + (of_char c - 48))"

text \<open>The match of \<open>/^\s*([+-]?\d+)\s*,?\s*(.*)$/\<close> on a \<open>SYST:ERR?\<close> answer: the error code and the
  message, which has no line break in it.\<close>

definition match_error_response :: "string \<Rightarrow> (int \<times> string) option" where
  "match_error_response combined =
     (let s = dropWhile js_space combined;
          negative = (s \<noteq> [] \<and> hd s = CHR ''-'');
          t = (if s \<noteq> [] \<and> (hd s = CHR ''-'' \<or> hd s = CHR ''+'') then tl s else s);
          ds = takeWhile js_digit t;
          u = dropWhile js_space (dropWhile js_digit t);
          v = (if u \<noteq> [] \<and> hd u = CHR '','' then tl u else u);
          message = dropWhile js_space v
      in if ds = [] \<or> list_ex (\<lambda>c. of_char c \<in> {10, 13 :: nat}) message then None
         else Some ((if negative then - 1 else 1) * digits_value ds 0, trim message))"

text \<open>\<open>message.replace(/^"|"$/g, '')\<close>\<close>

definition strip_quotes :: "string \<Rightarrow> string" where
  "strip_quotes s =
     (let t = (if s \<noteq> [] \<and> hd s = quote_char then tl s else s)
      in if t \<noteq> [] \<and> last t = quote_char then butlast t else t)"

text \<open>\<open>text.replace(/\r?\n$/, '')\<close>\<close>

definition strip_line_end :: "string \<Rightarrow> string" where
  "strip_line_end s =
     (if s \<noteq> [] \<and> last s = CHR 0x0a
      then (let t = butlast s in if t \<noteq> [] \<and> last t = CHR 0x0d then butlast t else t)
      else s)"

end
