(* ===== verification/Usb_Discovery.thy ===== *)
theory Usb_Discovery
  imports Main
begin

text \<open>
  How the transports find their interface and endpoints in the descriptors WebUSB reports:
  \<open>isWinUSBDevice\<close>, \<open>findWinUSBInterfaceInConfiguration(s)\<close>, \<open>findWinUSBAlternate\<close> and
  \<open>findWinUSBEndpoints\<close> of \<open>transport/winusb.ts\<close>, and their counterparts in \<open>transport/usbtmc.ts\<close>.
\<close>

section \<open>WebUSB descriptors\<close>

datatype USBDirection = Dir_In | Dir_Out
datatype USBEndpointType = Bulk | Interrupt | Isochronous

record USBEndpoint =
  ep_endpointNumber :: int
  ep_direction :: USBDirection
  ep_type :: USBEndpointType
  ep_packetSize :: nat

record USBAlternateInterface =
  al_interfaceClass :: int
  al_interfaceSubclass :: int
  al_interfaceProtocol :: int
  al_endpoints :: "USBEndpoint list"

record USBInterface =
  if_interfaceNumber :: int
  if_alternates :: "USBAlternateInterface list"

record USBConfiguration =
  cf_configurationValue :: int
  cf_interfaces :: "USBInterface list"

record USBDevice =
  ud_configuration :: "USBConfiguration option"
  ud_configurations :: "USBConfiguration list"

section \<open>WinUSB\<close>

definition WINUSB_INTERFACE_CLASS :: int where "WINUSB_INTERFACE_CLASS = 0xff"
definition WINUSB_INTERFACE_SUBCLASS :: int where "WINUSB_INTERFACE_SUBCLASS = 0x01"
definition WINUSB_INTERFACE_PROTOCOL :: int where "WINUSB_INTERFACE_PROTOCOL = 0x02"

definition winusb_alternate :: "USBAlternateInterface \<Rightarrow> bool" where
  "winusb_alternate a \<longleftrightarrow> al_interfaceClass a = WINUSB_INTERFACE_CLASS \<and>
     al_interfaceSubclass a = WINUSB_INTERFACE_SUBCLASS \<and> al_interfaceProtocol a = WINUSB_INTERFACE_PROTOCOL"

definition isWinUSBDevice :: "USBDevice \<Rightarrow> bool" where
  "isWinUSBDevice device \<longleftrightarrow> list_ex (\<lambda>c. list_ex (\<lambda>i. list_ex winusb_alternate (if_alternates i))
     (cf_interfaces c)) (ud_configurations device)"

definition findWinUSBAlternate :: "USBInterface \<Rightarrow> USBAlternateInterface option" where
  "findWinUSBAlternate usbInterface = find winusb_alternate (if_alternates usbInterface)"

definition isWinUSBInterface :: "USBInterface \<Rightarrow> bool" where
  "isWinUSBInterface usbInterface \<longleftrightarrow> findWinUSBAlternate usbInterface \<noteq> None"

definition findWinUSBInterfaceInConfiguration :: "USBConfiguration option \<Rightarrow> int option" where
  "findWinUSBInterfaceInConfiguration configuration =
     (case configuration of
        None \<Rightarrow> None
      | Some c \<Rightarrow> map_option if_interfaceNumber (find isWinUSBInterface (cf_interfaces c)))"

text \<open>The nested loops: the first interface of the first configuration that has one.\<close>

fun findWinUSBInterfaceInConfigurations :: "USBConfiguration list \<Rightarrow> (int \<times> int) option" where
  "findWinUSBInterfaceInConfigurations [] = None"
| "findWinUSBInterfaceInConfigurations (c # cs) =
     (case find isWinUSBInterface (cf_interfaces c) of
        Some i \<Rightarrow> Some (cf_configurationValue c, if_interfaceNumber i)
      | None \<Rightarrow> findWinUSBInterfaceInConfigurations cs)"

record WinUSBEndpoints =
  we_endpointIn :: int
  we_endpointOut :: int
  we_bulkInPacketSize :: nat
  we_bulkOutPacketSize :: nat

text \<open>The loop over the endpoints: a later bulk endpoint of a direction replaces an earlier one.\<close>

fun winusb_scan :: "USBEndpoint list \<Rightarrow> (int \<times> nat) option \<Rightarrow> (int \<times> nat) option \<Rightarrow>
    (int \<times> nat) option \<times> (int \<times> nat) option" where
  "winusb_scan [] eIn eOut = (eIn, eOut)"
| "winusb_scan (e # es) eIn eOut =
     (if ep_type e = Bulk \<and> ep_direction e = Dir_In then
        winusb_scan es (Some (ep_endpointNumber e, ep_packetSize e)) eOut
      else if ep_type e = Bulk \<and> ep_direction e = Dir_Out then
        winusb_scan es eIn (Some (ep_endpointNumber e, ep_packetSize e))
      else winusb_scan es eIn eOut)"

fun findWinUSBEndpoints_loop :: "int option \<Rightarrow> USBInterface list \<Rightarrow> WinUSBEndpoints option" where
  "findWinUSBEndpoints_loop claimed [] = None"
| "findWinUSBEndpoints_loop claimed (i # rest) =
     (if claimed \<noteq> None \<and> claimed \<noteq> Some (if_interfaceNumber i) then findWinUSBEndpoints_loop claimed rest
      else (case findWinUSBAlternate i of
        None \<Rightarrow> findWinUSBEndpoints_loop claimed rest
      | Some a \<Rightarrow>
          (case winusb_scan (al_endpoints a) None None of
             (Some (nIn, sIn), Some (nOut, sOut)) \<Rightarrow>
               Some \<lparr>we_endpointIn = nIn, we_endpointOut = nOut, we_bulkInPacketSize = sIn,
                 we_bulkOutPacketSize = sOut\<rparr>
           | _ \<Rightarrow> findWinUSBEndpoints_loop claimed rest)))"

definition findWinUSBEndpoints :: "int option \<Rightarrow> USBConfiguration option \<Rightarrow> WinUSBEndpoints option" where
  "findWinUSBEndpoints interfaceNumber configuration =
     (case configuration of None \<Rightarrow> None
      | Some c \<Rightarrow> findWinUSBEndpoints_loop interfaceNumber (cf_interfaces c))"

section \<open>USBTMC\<close>

definition USBTMC_INTERFACE_CLASS :: int where "USBTMC_INTERFACE_CLASS = 0xfe"
definition USBTMC_INTERFACE_SUBCLASS :: int where "USBTMC_INTERFACE_SUBCLASS = 0x03"
definition USBTMC_INTERFACE_PROTOCOL :: int where "USBTMC_INTERFACE_PROTOCOL = 0x01"

definition usbtmc_alternate :: "USBAlternateInterface \<Rightarrow> bool" where
  "usbtmc_alternate a \<longleftrightarrow> al_interfaceClass a = USBTMC_INTERFACE_CLASS \<and>
     al_interfaceSubclass a = USBTMC_INTERFACE_SUBCLASS \<and> al_interfaceProtocol a = USBTMC_INTERFACE_PROTOCOL"

definition isUSBTMCDevice :: "USBDevice \<Rightarrow> bool" where
  "isUSBTMCDevice device \<longleftrightarrow> list_ex (\<lambda>c. list_ex (\<lambda>i. list_ex usbtmc_alternate (if_alternates i))
     (cf_interfaces c)) (ud_configurations device)"

definition isUSBTMCInterface :: "USBInterface \<Rightarrow> bool" where
  "isUSBTMCInterface usbInterface \<longleftrightarrow> list_ex usbtmc_alternate (if_alternates usbInterface)"

definition findUSBTMCAlternate :: "USBInterface \<Rightarrow> USBAlternateInterface option" where
  "findUSBTMCAlternate usbInterface = find usbtmc_alternate (if_alternates usbInterface)"

definition findUSBTMCInterfaceInConfiguration :: "USBConfiguration option \<Rightarrow> int option" where
  "findUSBTMCInterfaceInConfiguration configuration =
     (case configuration of
        None \<Rightarrow> None
      | Some c \<Rightarrow> map_option if_interfaceNumber (find isUSBTMCInterface (cf_interfaces c)))"

fun findUSBTMCInterfaceInConfigurations :: "USBConfiguration list \<Rightarrow> (int \<times> int) option" where
  "findUSBTMCInterfaceInConfigurations [] = None"
| "findUSBTMCInterfaceInConfigurations (c # cs) =
     (case find isUSBTMCInterface (cf_interfaces c) of
        Some i \<Rightarrow> Some (cf_configurationValue c, if_interfaceNumber i)
      | None \<Rightarrow> findUSBTMCInterfaceInConfigurations cs)"

record USBTMCEndpoints =
  te_endpointIn :: int
  te_endpointOut :: int
  te_endpointInterrupt :: int
  te_interruptPacketSize :: nat
  te_bulkOutPacketSize :: nat
  te_bulkInPacketSize :: nat

fun usbtmc_scan :: "USBEndpoint list \<Rightarrow> (int \<times> nat) option \<Rightarrow> (int \<times> nat) option \<Rightarrow> (int \<times> nat) option \<Rightarrow>
    (int \<times> nat) option \<times> (int \<times> nat) option \<times> (int \<times> nat) option" where
  "usbtmc_scan [] eIn eOut eInt = (eIn, eOut, eInt)"
| "usbtmc_scan (e # es) eIn eOut eInt =
     (let x = Some (ep_endpointNumber e, ep_packetSize e)
      in if ep_type e = Bulk \<and> ep_direction e = Dir_In then usbtmc_scan es x eOut eInt
         else if ep_type e = Bulk \<and> ep_direction e = Dir_Out then usbtmc_scan es eIn x eInt
         else if ep_type e = Interrupt \<and> ep_direction e = Dir_In then usbtmc_scan es eIn eOut x
         else usbtmc_scan es eIn eOut eInt)"

text \<open>This loop looks at every interface; it does not compare with the claimed one.\<close>

fun findUSBTMCEndpoints_loop :: "USBInterface list \<Rightarrow> USBTMCEndpoints option" where
  "findUSBTMCEndpoints_loop [] = None"
| "findUSBTMCEndpoints_loop (i # rest) =
     (case findUSBTMCAlternate i of
        None \<Rightarrow> findUSBTMCEndpoints_loop rest
      | Some a \<Rightarrow>
          (case usbtmc_scan (al_endpoints a) None None None of
             (Some (nIn, sIn), Some (nOut, sOut), Some (nInt, sInt)) \<Rightarrow>
               Some \<lparr>te_endpointIn = nIn, te_endpointOut = nOut, te_endpointInterrupt = nInt,
                 te_interruptPacketSize = sInt, te_bulkOutPacketSize = sOut, te_bulkInPacketSize = sIn\<rparr>
           | _ \<Rightarrow> findUSBTMCEndpoints_loop rest))"

definition findUSBTMCEndpoints :: "USBConfiguration option \<Rightarrow> USBTMCEndpoints option" where
  "findUSBTMCEndpoints configuration =
     (case configuration of None \<Rightarrow> None | Some c \<Rightarrow> findUSBTMCEndpoints_loop (cf_interfaces c))"

section \<open>Which interface the endpoints belong to\<close>

definition bulk_endpoint :: "USBAlternateInterface \<Rightarrow> USBDirection \<Rightarrow> int \<Rightarrow> nat \<Rightarrow> bool" where
  "bulk_endpoint a dir n sz \<longleftrightarrow> (\<exists>e \<in> set (al_endpoints a). ep_type e = Bulk \<and> ep_direction e = dir \<and>
     ep_endpointNumber e = n \<and> ep_packetSize e = sz)"

lemma winusb_scan_mem:
  "winusb_scan es eIn eOut = (rIn, rOut) \<Longrightarrow>
     (\<forall>n s. rIn = Some (n, s) \<longrightarrow> eIn = Some (n, s) \<or> (\<exists>e \<in> set es. ep_type e = Bulk \<and>
        ep_direction e = Dir_In \<and> ep_endpointNumber e = n \<and> ep_packetSize e = s)) \<and>
     (\<forall>n s. rOut = Some (n, s) \<longrightarrow> eOut = Some (n, s) \<or> (\<exists>e \<in> set es. ep_type e = Bulk \<and>
        ep_direction e = Dir_Out \<and> ep_endpointNumber e = n \<and> ep_packetSize e = s))"
  by (induction es eIn eOut rule: winusb_scan.induct) (auto split: if_splits)

lemma find_SomeD: "find P xs = Some x \<Longrightarrow> x \<in> set xs \<and> P x"
  by (induction xs) (auto split: if_splits)

lemma findWinUSBEndpoints_loop_sound:
  assumes "findWinUSBEndpoints_loop claimed is = Some eps"
  shows "\<exists>i \<in> set is. \<exists>a \<in> set (if_alternates i). (claimed = None \<or> claimed = Some (if_interfaceNumber i)) \<and>
    winusb_alternate a \<and> bulk_endpoint a Dir_In (we_endpointIn eps) (we_bulkInPacketSize eps) \<and>
    bulk_endpoint a Dir_Out (we_endpointOut eps) (we_bulkOutPacketSize eps)"
  using assms
proof (induction "is")
  case (Cons i rest)
  show ?case
  proof (cases "findWinUSBEndpoints_loop claimed rest = Some eps")
    case True
    then show ?thesis
      using Cons.IH by auto
  next
    case False
    then obtain a nIn sIn nOut sOut where a: "findWinUSBAlternate i = Some a"
        "winusb_scan (al_endpoints a) None None = (Some (nIn, sIn), Some (nOut, sOut))"
        "eps = \<lparr>we_endpointIn = nIn, we_endpointOut = nOut, we_bulkInPacketSize = sIn, we_bulkOutPacketSize = sOut\<rparr>"
        "claimed = None \<or> claimed = Some (if_interfaceNumber i)"
      using Cons.prems by (auto split: if_splits option.splits prod.splits)
    then have "a \<in> set (if_alternates i) \<and> winusb_alternate a"
      using find_SomeD[of winusb_alternate "if_alternates i" a] by (simp add: findWinUSBAlternate_def)
    moreover have "bulk_endpoint a Dir_In nIn sIn" "bulk_endpoint a Dir_Out nOut sOut"
      using winusb_scan_mem[OF a(2)] by (auto simp: bulk_endpoint_def)
    ultimately show ?thesis
      using a(3,4) by auto
  qed
qed simp

text \<open>The WinUSB transport talks to the interface it claimed. The endpoints \<open>findWinUSBEndpoints\<close>
  returns are bulk endpoints of a WinUSB alternate of an interface of the active configuration, and
  when an interface was claimed they are that interface's; the packet sizes are theirs.\<close>

lemma findWinUSBEndpoints_claimed:
  assumes "findWinUSBEndpoints claimed (Some configuration) = Some eps"
  shows "\<exists>i \<in> set (cf_interfaces configuration). \<exists>a \<in> set (if_alternates i).
    (claimed = None \<or> claimed = Some (if_interfaceNumber i)) \<and> winusb_alternate a \<and>
    bulk_endpoint a Dir_In (we_endpointIn eps) (we_bulkInPacketSize eps) \<and>
    bulk_endpoint a Dir_Out (we_endpointOut eps) (we_bulkOutPacketSize eps)"
  using findWinUSBEndpoints_loop_sound[of claimed "cf_interfaces configuration" eps] assms
  by (simp add: findWinUSBEndpoints_def)

text \<open>A configuration with two interfaces of one kind, numbered 0 and 1.\<close>

definition twin_interface :: "int \<Rightarrow> int \<Rightarrow> int \<Rightarrow> int \<Rightarrow> USBInterface" where
  "twin_interface cls sub proto n = \<lparr>if_interfaceNumber = n, if_alternates =
     [\<lparr>al_interfaceClass = cls, al_interfaceSubclass = sub, al_interfaceProtocol = proto, al_endpoints =
       [\<lparr>ep_endpointNumber = 3 * n + 1, ep_direction = Dir_Out, ep_type = Bulk, ep_packetSize = 64\<rparr>,
        \<lparr>ep_endpointNumber = 3 * n + 2, ep_direction = Dir_In, ep_type = Bulk, ep_packetSize = 64\<rparr>,
        \<lparr>ep_endpointNumber = 3 * n + 3, ep_direction = Dir_In, ep_type = Interrupt, ep_packetSize = 8\<rparr>]\<rparr>]\<rparr>"

lemma findWinUSBEndpoints_claimed_witness:
  "\<exists>i \<in> {twin_interface 0xff 1 2 0, twin_interface 0xff 1 2 1}. if_interfaceNumber i = 1 \<and>
     (\<exists>a \<in> set (if_alternates i). bulk_endpoint a Dir_In 5 64)"
proof -
  let ?c = "\<lparr>cf_configurationValue = 1, cf_interfaces = [twin_interface 0xff 1 2 0, twin_interface 0xff 1 2 1]\<rparr>"
  have "findWinUSBEndpoints (Some 1) (Some ?c) =
      Some \<lparr>we_endpointIn = 5, we_endpointOut = 4, we_bulkInPacketSize = 64, we_bulkOutPacketSize = 64\<rparr>"
    by code_simp
  from findWinUSBEndpoints_claimed [OF this] show ?thesis
    by auto
qed

text \<open>The USBTMC transport may talk to an interface it did not claim. When the active configuration
  has two USBTMC interfaces, the endpoints \<open>open\<close> uses are those of the first, whatever interface
  number the options asked it to claim.\<close>

lemma findUSBTMCEndpoints_ignores_claim:
  "findUSBTMCEndpoints (Some \<lparr>cf_configurationValue = v,
      cf_interfaces = [twin_interface 0xfe 3 1 0, twin_interface 0xfe 3 1 1]\<rparr>) =
    Some \<lparr>te_endpointIn = 2, te_endpointOut = 1, te_endpointInterrupt = 3, te_interruptPacketSize = 8,
      te_bulkOutPacketSize = 64, te_bulkInPacketSize = 64\<rparr>"
  by (simp add: findUSBTMCEndpoints_def findUSBTMCAlternate_def twin_interface_def usbtmc_alternate_def
      USBTMC_INTERFACE_CLASS_def USBTMC_INTERFACE_SUBCLASS_def USBTMC_INTERFACE_PROTOCOL_def)

end
