(* ===== verification/Usbtmc.thy ===== *)
theory Usbtmc
  imports Scpi_Blocks Scpi_Errors Transport_Tags Usb_Discovery
begin

text \<open>
  The USBTMC transport, \<open>transport/usbtmc.ts\<close>: the 12-byte message headers, reading and writing
  device-dependent messages with rolling tags, SCPI requests with their timeouts, and the
  abort/clear handshakes that resynchronise the bulk endpoints.

  The state record holds the fields of \<open>USBTMCTransport\<close> and the USB side: a clock in milliseconds,
  the results the device will give to bulk-in and control reads (each with the time it takes), and
  the log of the transfers issued. A read with no result left never completes (\<open>Tm_blocked\<close>); under
  \<open>withTimeout\<close> it becomes a timeout, as does a read that takes longer than the limit.
\<close>

section \<open>Message headers\<close>

text \<open>\<open>x ?? d\<close>\<close>

definition the_default :: "'a \<Rightarrow> 'a option \<Rightarrow> 'a" where
  "the_default d x = (case x of None \<Rightarrow> d | Some y \<Rightarrow> y)"

definition USBTMC_MSG_DEV_DEP_OUT :: int where "USBTMC_MSG_DEV_DEP_OUT = 0x01"
definition USBTMC_MSG_DEV_DEP_IN :: int where "USBTMC_MSG_DEV_DEP_IN = 0x02"
definition USBTMC_REQ_INITIATE_ABORT_BULK_OUT :: int where "USBTMC_REQ_INITIATE_ABORT_BULK_OUT = 0x01"
definition USBTMC_REQ_CHECK_ABORT_BULK_OUT_STATUS :: int where "USBTMC_REQ_CHECK_ABORT_BULK_OUT_STATUS = 0x02"
definition USBTMC_REQ_INITIATE_ABORT_BULK_IN :: int where "USBTMC_REQ_INITIATE_ABORT_BULK_IN = 0x03"
definition USBTMC_REQ_CHECK_ABORT_BULK_IN_STATUS :: int where "USBTMC_REQ_CHECK_ABORT_BULK_IN_STATUS = 0x04"
definition USBTMC_REQ_INITIATE_CLEAR :: int where "USBTMC_REQ_INITIATE_CLEAR = 0x05"
definition USBTMC_REQ_CHECK_CLEAR_STATUS :: int where "USBTMC_REQ_CHECK_CLEAR_STATUS = 0x06"
definition USBTMC_STATUS_SUCCESS :: int where "USBTMC_STATUS_SUCCESS = 0x01"
definition USBTMC_STATUS_PENDING :: int where "USBTMC_STATUS_PENDING = 0x02"
definition USBTMC_STATUS_FAILED :: int where "USBTMC_STATUS_FAILED = 0x80"
definition USBTMC_STATUS_TRANSFER_NOT_IN_PROGRESS :: int where "USBTMC_STATUS_TRANSFER_NOT_IN_PROGRESS = 0x81"

lemmas usbtmc_status = USBTMC_STATUS_SUCCESS_def USBTMC_STATUS_PENDING_def USBTMC_STATUS_FAILED_def
  USBTMC_STATUS_TRANSFER_NOT_IN_PROGRESS_def

definition USBTMC_HEADER_SIZE :: nat where "USBTMC_HEADER_SIZE = 12"

record USBTMCHeader =
  th_msgId :: int
  th_bTag :: int
  th_transferSize :: int
  th_bmTransferAttributes :: int

datatype tm_operation = Op_read | Op_write

datatype tm_error =
    Header_incomplete
  | Invalid_bTag_inverse
  | Endpoint_in_missing
  | Endpoint_out_missing
  | Interface_missing
  | Interface_not_found
  | Endpoints_not_found
  | Unexpected_message_id int
  | Response_tag_mismatch
  | Tm_read_timed_out
  | Tm_timeout tm_operation nat
  | Control_transfer_short nat nat
  | Request_failed string int
  | Tm_scpi scpi_error
  | Tm_unrecognized_error_response string
  | Tm_device_error int string
  | Tm_blocked

text \<open>\<open>setUint32\<close> and element assignment keep the low 32 and 8 bits; the bytes not assigned are 0.\<close>

definition header_build :: "int \<Rightarrow> int \<Rightarrow> int \<Rightarrow> int \<Rightarrow> bytes" where
  "header_build msgId bTag transferSize bmTransferAttributes =
     [word_of_int msgId, word_of_int bTag, word_of_int (0xff - bTag), 0] @ le_bytes 4 transferSize @
     [word_of_int bmTransferAttributes, 0, 0, 0]"

definition header_parse :: "bytes \<Rightarrow> tm_error + USBTMCHeader" where
  "header_parse data =
     (if length data < USBTMC_HEADER_SIZE then Inl Header_incomplete
      else let bTag = byte_at data 1; bTagInverse = byte_at data 2
      in if js_xor bTag bTagInverse \<noteq> 0xff then Inl Invalid_bTag_inverse
         else Inr \<lparr>th_msgId = byte_at data 0, th_bTag = bTag,
           th_transferSize = le_val (sub_array data 4 8), th_bmTransferAttributes = byte_at data 8\<rparr>)"

section \<open>Transport state\<close>

datatype recipient = To_endpoint | To_interface

datatype usb_event =
    Transfer_out int bytes
  | Transfer_in int nat
  | Control_in recipient int int int nat
  | Clear_halt USBDirection int
  | Select_configuration int
  | Claim_interface int

record USBTMCTransport =
  tm_tagCounter :: int
  tm_lastOutTag :: "int option"
  tm_interfaceNumber :: "int option"
  tm_endpointOut :: "int option"
  tm_endpointIn :: "int option"
  tm_endpointInterrupt :: "int option"
  tm_bulkOutPacketSize :: "nat option"
  tm_bulkInPacketSize :: "nat option"
  tm_readTimeoutMs :: nat
  tm_writeTimeoutMs :: nat
  usb_clock :: nat
  usb_in :: "(nat \<times> bytes option) list"
  usb_control :: "(nat \<times> bytes option) list"
  usb_log :: "usb_event list"

type_synonym 'a usbtmc = "USBTMCTransport \<Rightarrow> (tm_error + 'a) \<times> USBTMCTransport"

definition tm_ret :: "'a \<Rightarrow> 'a usbtmc" where
  "tm_ret x st = (Inr x, st)"

definition tm_raise :: "tm_error \<Rightarrow> 'a usbtmc" where
  "tm_raise e st = (Inl e, st)"

definition tm_seq :: "'a usbtmc \<Rightarrow> ('a \<Rightarrow> 'b usbtmc) \<Rightarrow> 'b usbtmc" where
  "tm_seq m f st = (case m st of (Inl e, st') \<Rightarrow> (Inl e, st') | (Inr x, st') \<Rightarrow> f x st')"

definition tm_event :: "usb_event \<Rightarrow> USBTMCTransport \<Rightarrow> USBTMCTransport" where
  "tm_event ev st = st\<lparr>usb_log := usb_log st @ [ev]\<rparr>"

definition tm_nextTag :: "int usbtmc" where
  "tm_nextTag st =
     (let tag = js_and (tm_tagCounter st) 0xff
      in (Inr (if tag = 0 then 1 else tag),
          st\<lparr>tm_tagCounter := js_and (tm_tagCounter st + 1) 0xff\<rparr>))"

text \<open>\<open>withTimeout\<close> rejects at the limit; a result that comes later is lost.\<close>

definition withTimeout :: "'a usbtmc \<Rightarrow> nat \<Rightarrow> tm_operation \<Rightarrow> 'a usbtmc" where
  "withTimeout action timeoutMs label st =
     (case action st of (r, st') \<Rightarrow>
        if (case r of Inl e \<Rightarrow> e = Tm_blocked | Inr x \<Rightarrow> False) \<or> usb_clock st' > usb_clock st + timeoutMs
        then (Inl (Tm_timeout label timeoutMs), st'\<lparr>usb_clock := usb_clock st + timeoutMs\<rparr>)
        else (r, st'))"

section \<open>Bulk transfers\<close>

text \<open>The write loop; a packet size of 0 would never advance.\<close>

function usb_packets :: "nat \<Rightarrow> bytes \<Rightarrow> bytes list" where
  "usb_packets packetSize data =
     (if packetSize = 0 \<or> data = [] then []
      else take packetSize data # usb_packets packetSize (drop packetSize data))"
  by auto
termination
  by (relation "measure (\<lambda>(packetSize, data). length data)") auto

declare usb_packets.simps [simp del]

definition wrapUSBTMCOut :: "bytes \<Rightarrow> bytes usbtmc" where
  "wrapUSBTMCOut payload =
     tm_seq tm_nextTag (\<lambda>bTag st.
       let transferSize = length payload; paddedSize = (transferSize + 3) div 4 * 4
       in (Inr (header_build USBTMC_MSG_DEV_DEP_OUT bTag (int transferSize) 0x01 @ payload @
              replicate (paddedSize - transferSize) 0),
           st\<lparr>tm_lastOutTag := Some bTag\<rparr>))"

definition tm_write :: "bytes \<Rightarrow> unit usbtmc" where
  "tm_write data st =
     (case tm_endpointOut st of
        None \<Rightarrow> tm_raise Endpoint_out_missing st
      | Some endpoint \<Rightarrow>
          tm_seq (wrapUSBTMCOut data) (\<lambda>tagged st.
            let packetSize = (case tm_bulkOutPacketSize st of Some n \<Rightarrow> n | None \<Rightarrow> length tagged)
            in if packetSize = 0 then tm_raise Tm_blocked st
               else tm_ret () (foldl (\<lambda>st chunk. tm_event (Transfer_out endpoint chunk) st) st
                 (usb_packets packetSize tagged))) st)"

definition transfer_length :: "nat \<Rightarrow> nat option \<Rightarrow> nat" where
  "transfer_length requestedLength bulkInPacketSize =
     (let minLength = requestedLength + USBTMC_HEADER_SIZE;
          packetSize = (case bulkInPacketSize of Some n \<Rightarrow> n | None \<Rightarrow> minLength)
      in (minLength + packetSize - 1) div packetSize * packetSize)"

text \<open>The loop of \<open>readUSBTMCIn\<close>, over the transfers still to come; \<open>merged\<close> is what \<open>chunks\<close> holds.\<close>

fun read_loop :: "int \<Rightarrow> nat \<Rightarrow> (nat \<times> bytes option) list \<Rightarrow> int \<Rightarrow> int \<Rightarrow> bytes \<Rightarrow> bytes usbtmc" where
  "read_loop endpointIn transferLength [] expected received merged st =
     tm_raise Tm_blocked (tm_event (Transfer_in endpointIn transferLength) (st\<lparr>usb_in := []\<rparr>))"
| "read_loop endpointIn transferLength ((delay, result) # later) expected received merged st =
     (let st1 = (tm_event (Transfer_in endpointIn transferLength) st)
            \<lparr>usb_clock := usb_clock st + delay, usb_in := later\<rparr>
      in case result of
           None \<Rightarrow> tm_ret merged st1
         | Some data \<Rightarrow>
             if length data < USBTMC_HEADER_SIZE then tm_ret merged st1
             else (case header_parse data of
               Inl e \<Rightarrow> tm_raise e st1
             | Inr header \<Rightarrow>
                 if th_msgId header \<noteq> USBTMC_MSG_DEV_DEP_IN then
                   tm_raise (Unexpected_message_id (th_msgId header)) st1
                 else if tm_lastOutTag st \<noteq> None \<and> tm_lastOutTag st \<noteq> Some (th_bTag header) then
                   tm_raise Response_tag_mismatch st1
                 else
                   let expected' = (if expected = 0 then th_transferSize header else expected);
                       payload = drop USBTMC_HEADER_SIZE data;
                       count = min (int (length payload)) (expected' - received);
                       merged' = (if count > 0 then merged @ take (nat count) payload else merged);
                       received' = (if count > 0 then received + count else received)
                   in if received' \<ge> expected' then tm_ret merged' st1
                      else read_loop endpointIn transferLength later expected' received' merged' st1))"

definition readUSBTMCIn :: "nat \<Rightarrow> bytes usbtmc" where
  "readUSBTMCIn requestedLength st =
     (case (tm_endpointIn st, tm_endpointOut st) of
        (None, _) \<Rightarrow> tm_raise Endpoint_in_missing st
      | (_, None) \<Rightarrow> tm_raise Endpoint_out_missing st
      | (Some endpointIn, Some endpointOut) \<Rightarrow>
          tm_seq tm_nextTag (\<lambda>bTag st.
            let st1 = tm_event (Transfer_out endpointOut
                  (header_build USBTMC_MSG_DEV_DEP_IN bTag (int requestedLength) 0x00))
                  (st\<lparr>tm_lastOutTag := Some bTag\<rparr>)
            in read_loop endpointIn (transfer_length requestedLength (tm_bulkInPacketSize st1))
                 (usb_in st1) 0 0 [] st1) st)"

text \<open>\<open>_read\<close> only adds a check for a missing endpoint and for a falsy payload, which an array never is.\<close>

definition tm_read :: "nat \<Rightarrow> bytes usbtmc" where
  "tm_read len st =
     (if tm_endpointIn st = None then tm_raise Endpoint_in_missing st else readUSBTMCIn len st)"

section \<open>Reading a response\<close>

text \<open>The two read loops wait for a deadline. Each round consumes a bulk-in result or times out, so one
  more round than there are results is enough fuel.\<close>

text \<open>The text loop. The streaming decoder turns the bytes so far into text; a newline byte is a newline
  of the text, and no bytes are the empty text.\<close>

fun read_until :: "nat \<Rightarrow> (bytes \<Rightarrow> string) \<Rightarrow> nat \<Rightarrow> bytes \<Rightarrow> string usbtmc" where
  "read_until 0 decode deadline text st = tm_raise Tm_blocked st"
| "read_until (Suc fuel) decode deadline text st =
     (if usb_clock st < deadline then
        (case withTimeout (tm_read 1024) (deadline - usb_clock st) Op_read st of
           (Inl e, st') \<Rightarrow> tm_raise e st'
         | (Inr chunk, st') \<Rightarrow>
             if chunk = [] then read_until fuel decode deadline text st'
             else if 0x0a \<in> set (text @ chunk) then
               tm_ret (strip_line_end (decode (text @ chunk))) st'
             else read_until fuel decode deadline (text @ chunk) st')
      else if text = [] then tm_raise Tm_read_timed_out st
      else tm_ret (strip_line_end (decode text)) st)"

definition readUntilTerminator :: "(bytes \<Rightarrow> string) \<Rightarrow> string usbtmc" where
  "readUntilTerminator decode st =
     read_until (Suc (length (usb_in st))) decode (usb_clock st + tm_readTimeoutMs st) [] st"

fun read_block :: "nat \<Rightarrow> nat \<Rightarrow> bytes \<Rightarrow> bytes usbtmc" where
  "read_block 0 deadline merged st = tm_raise Tm_blocked st"
| "read_block (Suc fuel) deadline merged st =
     (if usb_clock st < deadline then
        (case withTimeout (readUSBTMCIn 1024) (deadline - usb_clock st) Op_read st of
           (Inl e, st') \<Rightarrow> tm_raise e st'
         | (Inr chunk, st') \<Rightarrow>
             if chunk = [] then read_block fuel deadline merged st'
             else (case findARBBlockCompletionOffset (merged @ chunk) of
                     Inl e \<Rightarrow> tm_raise (Tm_scpi e) st'
                   | Inr (Some completion) \<Rightarrow> tm_ret (take completion (merged @ chunk)) st'
                   | Inr None \<Rightarrow> read_block fuel deadline (merged @ chunk) st'))
      else tm_raise (Tm_timeout Op_read (tm_readTimeoutMs st)) st)"

definition readARBBlockResponse :: "bytes usbtmc" where
  "readARBBlockResponse st =
     read_block (Suc (length (usb_in st))) (usb_clock st + tm_readTimeoutMs st) [] st"

section \<open>SCPI requests\<close>

text \<open>A command line is ASCII, so its UTF-8 encoding has one byte per character.\<close>

definition line_bytes :: "string \<Rightarrow> bytes" where
  "line_bytes line = map of_char (line @ [CHR 0x0a])"

definition write_line :: "string \<Rightarrow> unit usbtmc" where
  "write_line line st = withTimeout (tm_write (line_bytes line)) (tm_writeTimeoutMs st) Op_write st"

text \<open>The body of \<open>queryInternal\<close>: write, read a line, split it into values.\<close>

definition query_line :: "(bytes \<Rightarrow> string) \<Rightarrow> string \<Rightarrow> string list usbtmc" where
  "query_line decode line =
     tm_seq (write_line line) (\<lambda>u.
     tm_seq (readUntilTerminator decode) (\<lambda>response. tm_ret (parseSCPIResponse response)))"

definition clear_halts :: "USBTMCTransport \<Rightarrow> USBTMCTransport" where
  "clear_halts st =
     tm_event (Clear_halt Dir_Out (the_default 0 (tm_endpointOut st)))
       (tm_event (Clear_halt Dir_In (the_default 0 (tm_endpointIn st))) st)"

definition tm_checkErrorUnlocked :: "(bytes \<Rightarrow> string) \<Rightarrow> unit usbtmc" where
  "tm_checkErrorUnlocked decode st =
     tm_seq (query_line decode ''SYST:ERR?'') (\<lambda>response.
       let combined = join '' '' response
       in case match_error_response combined of
            None \<Rightarrow> tm_raise (Tm_unrecognized_error_response combined)
          | Some (code, message) \<Rightarrow>
              if code \<noteq> 0 then tm_raise (Tm_device_error code (strip_quotes message)) else tm_ret ())
       (clear_halts st)"

definition queryInternal :: "(bytes \<Rightarrow> string) \<Rightarrow> string \<Rightarrow> SCPIParam list \<Rightarrow> bool \<Rightarrow> string list usbtmc" where
  "queryInternal decode command params checkOnTimeout st =
     (case formatSCPI command params of
        Inl e \<Rightarrow> tm_raise (Tm_scpi e) st
      | Inr line \<Rightarrow>
          (case query_line decode line st of
             (Inl e, st') \<Rightarrow>
               if checkOnTimeout \<and> (case e of Tm_timeout op ms \<Rightarrow> op = Op_read | _ \<Rightarrow> False)
               then tm_raise e (snd (tm_checkErrorUnlocked decode st'))
               else tm_raise e st'
           | (Inr vals, st') \<Rightarrow> tm_ret vals st'))"

definition tm_sendCommand :: "(bytes \<Rightarrow> string) \<Rightarrow> string \<Rightarrow> SCPIParam list \<Rightarrow> unit usbtmc" where
  "tm_sendCommand decode command params st =
     (case formatSCPI command params of
        Inl e \<Rightarrow> tm_raise (Tm_scpi e) st
      | Inr line \<Rightarrow> tm_seq (write_line line) (\<lambda>u. tm_checkErrorUnlocked decode) st)"

definition tm_queryText :: "(bytes \<Rightarrow> string) \<Rightarrow> string \<Rightarrow> SCPIParam list \<Rightarrow> string list usbtmc" where
  "tm_queryText decode command params = queryInternal decode command params True"

definition tm_queryBinary :: "(bytes \<Rightarrow> string) \<Rightarrow> string \<Rightarrow> SCPIParam list \<Rightarrow> bytes usbtmc" where
  "tm_queryBinary decode command params st =
     (case formatSCPI command params of
        Inl e \<Rightarrow> tm_raise (Tm_scpi e) st
      | Inr line \<Rightarrow>
          (case tm_seq (write_line line) (\<lambda>u. tm_seq readARBBlockResponse (\<lambda>response st.
                  case parseARBData response of
                    Inl e \<Rightarrow> tm_raise (Tm_scpi e) st | Inr payload \<Rightarrow> tm_ret payload st)) st of
             (Inl (Tm_timeout op ms), st') \<Rightarrow>
               (case tm_checkErrorUnlocked decode st' of
                  (Inl e, st'') \<Rightarrow> tm_raise e st''
                | (Inr u, st'') \<Rightarrow> tm_raise (Tm_timeout op ms) st'')
           | result \<Rightarrow> result))"

section \<open>Abort and clear handshakes\<close>

record USBTMCControlPollSpec =
  sp_initiateRequest :: int
  sp_initiateLength :: nat
  sp_initiateLabel :: string
  sp_checkRequest :: int
  sp_checkLength :: nat
  sp_checkLabel :: string
  sp_recipient :: recipient
  sp_value :: int
  sp_index :: int
  sp_allowTransferNotInProgress :: bool
  sp_drainBeforePolling :: bool
  sp_drainOnPending :: bool
  sp_clearHalt :: "(USBDirection \<times> int) option"

text \<open>Bulk-in reads until a short packet.\<close>

fun drain_loop :: "int \<Rightarrow> nat \<Rightarrow> (nat \<times> bytes option) list \<Rightarrow> unit usbtmc" where
  "drain_loop endpointIn packetSize [] st =
     tm_raise Tm_blocked (tm_event (Transfer_in endpointIn packetSize) (st\<lparr>usb_in := []\<rparr>))"
| "drain_loop endpointIn packetSize ((delay, result) # later) st =
     (let st1 = (tm_event (Transfer_in endpointIn packetSize) st)
            \<lparr>usb_clock := usb_clock st + delay, usb_in := later\<rparr>;
          received = (case result of None \<Rightarrow> 0 | Some data \<Rightarrow> length data)
      in if received < packetSize then tm_ret () st1
         else drain_loop endpointIn packetSize later st1)"

definition drainBulkInToShortPacket :: "unit usbtmc" where
  "drainBulkInToShortPacket st =
     (case tm_endpointIn st of
        None \<Rightarrow> tm_raise Endpoint_in_missing st
      | Some endpointIn \<Rightarrow>
          drain_loop endpointIn (the_default 64 (tm_bulkInPacketSize st)) (usb_in st) st)"

definition controlTransferIn :: "recipient \<Rightarrow> int \<Rightarrow> int \<Rightarrow> int \<Rightarrow> nat \<Rightarrow> bytes usbtmc" where
  "controlTransferIn recipient request value index len st =
     (let st1 = tm_event (Control_in recipient request value index len) st
      in case usb_control st of
           [] \<Rightarrow> tm_raise Tm_blocked st1
         | (delay, result) # later \<Rightarrow>
             let st2 = st1\<lparr>usb_clock := usb_clock st + delay, usb_control := later\<rparr>;
                 received = (case result of None \<Rightarrow> 0 | Some data \<Rightarrow> length data)
             in (case result of
                   Some data \<Rightarrow> if length data < len then tm_raise (Control_transfer_short received len) st2
                                else tm_ret data st2
                 | None \<Rightarrow> tm_raise (Control_transfer_short received len) st2))"

text \<open>The polling loop, on fuel: every round consumes a control result.\<close>

fun poll_loop :: "nat \<Rightarrow> USBTMCControlPollSpec \<Rightarrow> unit usbtmc" where
  "poll_loop 0 spec st = tm_raise Tm_blocked st"
| "poll_loop (Suc fuel) spec st =
     tm_seq (controlTransferIn (sp_recipient spec) (sp_checkRequest spec) 0 (sp_index spec) (sp_checkLength spec))
       (\<lambda>check st.
         let checkStatus = byte_at check 0;
             bulkInFifoBytes = (length check > 1 \<and> js_and (byte_at check 1) 1 \<noteq> 0)
         in if checkStatus = USBTMC_STATUS_PENDING then
              (if sp_drainOnPending spec \<and> bulkInFifoBytes
               then tm_seq drainBulkInToShortPacket (\<lambda>u. poll_loop fuel spec) st
               else poll_loop fuel spec st)
            else if checkStatus \<noteq> USBTMC_STATUS_SUCCESS then
              tm_raise (Request_failed (sp_checkLabel spec) checkStatus) st
            else (case sp_clearHalt spec of
                    Some (dir, endpoint) \<Rightarrow> tm_ret () (tm_event (Clear_halt dir endpoint) st)
                  | None \<Rightarrow> tm_ret () st)) st"

definition runControlTransferPoll :: "USBTMCControlPollSpec \<Rightarrow> unit usbtmc" where
  "runControlTransferPoll spec =
     tm_seq (controlTransferIn (sp_recipient spec) (sp_initiateRequest spec) (sp_value spec) (sp_index spec)
         (sp_initiateLength spec)) (\<lambda>initiate st.
       let initiateStatus = byte_at initiate 0
       in if sp_allowTransferNotInProgress spec \<and>
            (initiateStatus = USBTMC_STATUS_FAILED \<or> initiateStatus = USBTMC_STATUS_TRANSFER_NOT_IN_PROGRESS)
          then tm_ret () st
          else if initiateStatus \<noteq> USBTMC_STATUS_SUCCESS then
            tm_raise (Request_failed (sp_initiateLabel spec) initiateStatus) st
          else tm_seq (if sp_drainBeforePolling spec then drainBulkInToShortPacket else tm_ret ())
                 (\<lambda>u st. poll_loop (Suc (length (usb_control st))) spec st) st)"

definition getEndpointAddress :: "USBDirection \<Rightarrow> int \<Rightarrow> int" where
  "getEndpointAddress direction endpointNumber =
     (if direction = Dir_In then js_or 0x80 endpointNumber else endpointNumber)"

definition abortBulkOut :: "unit usbtmc" where
  "abortBulkOut st =
     (case tm_endpointOut st of
        None \<Rightarrow> tm_raise Endpoint_out_missing st
      | Some endpointOut \<Rightarrow> runControlTransferPoll
          \<lparr>sp_initiateRequest = USBTMC_REQ_INITIATE_ABORT_BULK_OUT, sp_initiateLength = 2,
           sp_initiateLabel = ''INITIATE_ABORT_BULK_OUT'',
           sp_checkRequest = USBTMC_REQ_CHECK_ABORT_BULK_OUT_STATUS, sp_checkLength = 8,
           sp_checkLabel = ''CHECK_ABORT_BULK_OUT_STATUS'', sp_recipient = To_endpoint,
           sp_value = the_default 0 (tm_lastOutTag st), sp_index = getEndpointAddress Dir_Out endpointOut,
           sp_allowTransferNotInProgress = True, sp_drainBeforePolling = False, sp_drainOnPending = False,
           sp_clearHalt = Some (Dir_Out, endpointOut)\<rparr> st)"

definition abortBulkIn :: "unit usbtmc" where
  "abortBulkIn st =
     (case tm_endpointIn st of
        None \<Rightarrow> tm_raise Endpoint_in_missing st
      | Some endpointIn \<Rightarrow> runControlTransferPoll
          \<lparr>sp_initiateRequest = USBTMC_REQ_INITIATE_ABORT_BULK_IN, sp_initiateLength = 2,
           sp_initiateLabel = ''INITIATE_ABORT_BULK_IN'',
           sp_checkRequest = USBTMC_REQ_CHECK_ABORT_BULK_IN_STATUS, sp_checkLength = 8,
           sp_checkLabel = ''CHECK_ABORT_BULK_IN_STATUS'', sp_recipient = To_endpoint,
           sp_value = the_default 0 (tm_lastOutTag st), sp_index = getEndpointAddress Dir_In endpointIn,
           sp_allowTransferNotInProgress = True, sp_drainBeforePolling = True, sp_drainOnPending = True,
           sp_clearHalt = None\<rparr> st)"

definition clearBuffers :: "unit usbtmc" where
  "clearBuffers st =
     (case (tm_interfaceNumber st, tm_endpointOut st) of
        (None, _) \<Rightarrow> tm_raise Interface_missing st
      | (_, None) \<Rightarrow> tm_raise Endpoint_out_missing st
      | (Some interfaceNumber, Some endpointOut) \<Rightarrow> runControlTransferPoll
          \<lparr>sp_initiateRequest = USBTMC_REQ_INITIATE_CLEAR, sp_initiateLength = 1,
           sp_initiateLabel = ''INITIATE_CLEAR'',
           sp_checkRequest = USBTMC_REQ_CHECK_CLEAR_STATUS, sp_checkLength = 2,
           sp_checkLabel = ''CHECK_CLEAR_STATUS'', sp_recipient = To_interface,
           sp_value = 0, sp_index = interfaceNumber,
           sp_allowTransferNotInProgress = False, sp_drainBeforePolling = False, sp_drainOnPending = True,
           sp_clearHalt = Some (Dir_Out, endpointOut)\<rparr> st)"

definition abortPendingTransfers :: "unit usbtmc" where
  "abortPendingTransfers =
     tm_seq abortBulkOut (\<lambda>u. tm_seq abortBulkIn (\<lambda>u. clearBuffers))"

section \<open>Opening\<close>

text \<open>\<open>open\<close> after the device itself is open; the interrupt listener it starts last is not modelled.\<close>

definition tm_open :: "USBDevice \<Rightarrow> int option \<Rightarrow> unit usbtmc" where
  "tm_open device option_interface st =
     (let selected = (case ud_configuration device of
            Some c \<Rightarrow> None
          | None \<Rightarrow> (case ud_configurations device of
              [] \<Rightarrow> None
            | c # cs \<Rightarrow> Some (case findUSBTMCInterfaceInConfigurations (c # cs) of
                Some (v, i) \<Rightarrow> v | None \<Rightarrow> cf_configurationValue c)));
          active = (case selected of
            None \<Rightarrow> ud_configuration device
          | Some v \<Rightarrow> find (\<lambda>c. cf_configurationValue c = v) (ud_configurations device));
          st0 = (case selected of None \<Rightarrow> st | Some v \<Rightarrow> tm_event (Select_configuration v) st)
      in case (case option_interface of
                 Some n \<Rightarrow> Some n | None \<Rightarrow> findUSBTMCInterfaceInConfiguration active) of
           None \<Rightarrow> tm_raise Interface_not_found st0
         | Some interfaceNumber \<Rightarrow>
             (let st1 = (tm_event (Claim_interface interfaceNumber) st0)
                    \<lparr>tm_interfaceNumber := Some interfaceNumber\<rparr>
              in case findUSBTMCEndpoints active of
                   None \<Rightarrow> tm_raise Endpoints_not_found st1
                 | Some eps \<Rightarrow> abortPendingTransfers (st1
                     \<lparr>tm_endpointIn := Some (te_endpointIn eps), tm_endpointOut := Some (te_endpointOut eps),
                      tm_endpointInterrupt := Some (te_endpointInterrupt eps),
                      tm_bulkOutPacketSize := Some (te_bulkOutPacketSize eps),
                      tm_bulkInPacketSize := Some (te_bulkInPacketSize eps)\<rparr>)))"

end
