(* ===== verification/Usbtmc_Laws.thy ===== *)
theory Usbtmc_Laws
  imports Usbtmc
begin

text \<open>
  What the USBTMC transport guarantees: headers round trip, a message is written padded and in
  packets, a response is the announced number of bytes in order (or what arrived before a short
  transfer), and the abort/clear handshakes end and clear the endpoint halt only when they succeed.
\<close>

section \<open>Headers\<close>

lemma js_xor_255:
  assumes "0 \<le> t" "t < 256" "0 \<le> i" "i < 256"
  shows "js_xor t i = 255 \<longleftrightarrow> i = 255 - t"
proof -
  have "js_xor t i = t XOR i"
    using assms by (simp add: js_xor_def to_int32_id)
  moreover have "t XOR i = 255 \<longleftrightarrow> i = t XOR 255"
    by (metis xor.assoc xor_self_eq xor.left_neutral)
  moreover have "t XOR 255 = 255 - t"
  proof -
    have tb: "take_bit 8 t = t"
      using assms(1,2) by (simp add: take_bit_int_eq_self)
    have "take_bit 8 (NOT t) = mask 8 - take_bit 8 t"
      by (rule take_bit_not_eq_mask_diff)
    moreover have "take_bit 8 (NOT t) = t XOR mask 8"
    proof (rule bit_eqI)
      fix n
      have "bit t n \<Longrightarrow> n < 8"
        by (metis bit_take_bit_iff tb)
      then show "bit (take_bit 8 (NOT t)) n = bit (t XOR mask 8) n"
        by (auto simp: bit_simps)
    qed
    ultimately show ?thesis
      by (simp add: mask_eq_exp_minus_1 tb)
  qed
  ultimately show ?thesis
    by simp
qed

lemma uint_byte_of: "0 \<le> v \<Longrightarrow> v < 256 \<Longrightarrow> uint (word_of_int v :: byte) = v"
  using uint_byte_of_int[of v] by simp

lemma header_build_bytes:
  "length (header_build m t s a) = 12"
  "byte_at (header_build m t s a @ rest) 0 = uint (word_of_int m :: byte)"
  "byte_at (header_build m t s a @ rest) 1 = uint (word_of_int t :: byte)"
  "byte_at (header_build m t s a @ rest) 2 = uint (word_of_int (0xff - t) :: byte)"
  "byte_at (header_build m t s a @ rest) 8 = uint (word_of_int a :: byte)"
  "sub_array (header_build m t s a @ rest) 4 8 = le_bytes 4 s"
  by (simp_all add: header_build_def byte_at_def nth_append sub_array_def del: le_bytes.simps)

lemma header_parse_build:
  assumes "0 \<le> m" "m < 256" "0 \<le> t" "t < 256" "0 \<le> s" "s < 2 ^ 32" "0 \<le> a" "a < 256"
  shows "header_parse (header_build m t s a @ rest) =
    Inr \<lparr>th_msgId = m, th_bTag = t, th_transferSize = s, th_bmTransferAttributes = a\<rparr>"
proof -
  let ?d = "header_build m t s a @ rest"
  have b: "byte_at ?d 0 = m" "byte_at ?d 1 = t" "byte_at ?d 2 = 255 - t" "byte_at ?d 8 = a"
    unfolding header_build_bytes using assms uint_byte_of[of "255 - t"]
    by (simp_all add: uint_byte_of del: of_int_diff word_of_int_numeral)
  have x: "js_xor t (255 - t) = 255"
    using assms js_xor_255[of t "255 - t"] by simp
  have "le_val (sub_array ?d 4 8) = s"
    using assms le_val_le_bytes[of 4 s] by (simp add: header_build_bytes del: le_bytes.simps)
  then show ?thesis
    unfolding header_parse_def Let_def b x
    by (simp add: header_build_bytes USBTMC_HEADER_SIZE_def)
qed

text \<open>USBTMC headers round trip, and a corrupted tag is noticed. Parsing a header that was built from
  a message id, tag and attributes in byte range and a size below \<open>2^32\<close> gives these values back,
  whatever follows it; and any data whose header parses carries a tag and its complement, so a change
  of either byte alone is rejected.\<close>

lemma header_roundtrip:
  "(0 \<le> m \<and> m < 256 \<and> 0 \<le> t \<and> t < 256 \<and> 0 \<le> s \<and> s < 2 ^ 32 \<and> 0 \<le> a \<and> a < 256 \<longrightarrow>
     header_parse (header_build m t s a @ rest) =
       Inr \<lparr>th_msgId = m, th_bTag = t, th_transferSize = s, th_bmTransferAttributes = a\<rparr>) \<and>
   ((\<exists>h. header_parse d = Inr h) \<longleftrightarrow> 12 \<le> length d \<and> byte_at d 2 = 255 - byte_at d 1)"
proof -
  have "(\<exists>h. header_parse d = Inr h) \<longleftrightarrow> 12 \<le> length d \<and> byte_at d 2 = 255 - byte_at d 1"
    using js_xor_255[of "byte_at d 1" "byte_at d 2"]
    by (auto simp: header_parse_def USBTMC_HEADER_SIZE_def Let_def)
  then show ?thesis
    using header_parse_build[of m t s a rest] by blast
qed

section \<open>Tags\<close>

definition draw_tm_nextTag :: "USBTMCTransport \<Rightarrow> int \<times> USBTMCTransport" where
  "draw_tm_nextTag st = (case tm_nextTag st of (r, st') \<Rightarrow> (projr r, st'))"

lemma js_and_ff: "js_and x 0xff = x mod 256"
  using js_and_mask[of 8 x] by (simp add: take_bit_eq_mod)

interpretation usbtmc_tags: rolling_tag draw_tm_nextTag tm_tagCounter
  by unfold_locales (simp_all add: draw_tm_nextTag_def tm_nextTag_def Let_def js_and_ff)

definition tm_tag :: "USBTMCTransport \<Rightarrow> int" where
  "tm_tag st = fst (draw_tm_nextTag st)"

lemma tm_tag_bounds:
  "0 \<le> tm_tagCounter st \<Longrightarrow> tm_tagCounter st < 256 \<Longrightarrow> 0 \<le> tm_tag st \<and> tm_tag st < 256"
  using usbtmc_tags.draw_tag[of st] by (simp add: tm_tag_def)

lemma tm_nextTag_eq:
  "tm_nextTag st = (Inr (tm_tag st), st\<lparr>tm_tagCounter := (tm_tagCounter st + 1) mod 256\<rparr>)"
  by (simp add: tm_tag_def draw_tm_nextTag_def tm_nextTag_def Let_def js_and_ff)

section \<open>Writing a message\<close>

lemma usb_packets_concat: "0 < n \<Longrightarrow> concat (usb_packets n xs) = xs"
  by (induction n xs rule: usb_packets.induct) (subst usb_packets.simps, auto)

lemma usb_packets_bounds:
  "0 < n \<Longrightarrow> list_all (\<lambda>p. 0 < length p \<and> length p \<le> n) (usb_packets n xs)"
  by (induction n xs rule: usb_packets.induct) (subst usb_packets.simps, auto)

lemma tm_events_log:
  "foldl (\<lambda>st c. tm_event (f c) st) st cs = st\<lparr>usb_log := usb_log st @ map f cs\<rparr>"
  by (induction cs arbitrary: st) (simp_all add: tm_event_def)

text \<open>A message goes out whole, padded and in packets. Writing any payload through an open transport
  succeeds and issues bulk-out transfers, none empty and none longer than the packet size, that
  together are the header with the payload length and the next tag, the payload, and fewer than four
  zero bytes that make the transfer a multiple of four. The tag is remembered.\<close>

lemma tm_write_packets:
  assumes "tm_endpointOut st = Some endpoint" "tm_bulkOutPacketSize st = Some n" "0 < n"
  shows "\<exists>packets pad st'. tm_write payload st = (Inr (), st') \<and>
    usb_log st' = usb_log st @ map (Transfer_out endpoint) packets \<and>
    concat packets = header_build 1 (tm_tag st) (int (length payload)) 1 @ payload @ replicate pad 0 \<and>
    pad < 4 \<and> (length payload + pad) mod 4 = 0 \<and>
    list_all (\<lambda>p. 0 < length p \<and> length p \<le> n) packets \<and> tm_lastOutTag st' = Some (tm_tag st)"
proof -
  let ?pad = "(length payload + 3) div 4 * 4 - length payload"
  let ?t = "header_build 1 (tm_tag st) (int (length payload)) 1 @ payload @ replicate ?pad 0"
  have "tm_write payload st = (Inr (), st\<lparr>tm_tagCounter := (tm_tagCounter st + 1) mod 256,
      tm_lastOutTag := Some (tm_tag st),
      usb_log := usb_log st @ map (Transfer_out endpoint) (usb_packets n ?t)\<rparr>)"
    using assms by (simp add: tm_write_def wrapUSBTMCOut_def tm_seq_def tm_nextTag_eq Let_def tm_ret_def
        tm_events_log USBTMC_MSG_DEV_DEP_OUT_def)
  moreover have "?pad < 4" "(length payload + ?pad) mod 4 = 0"
    by presburger+
  ultimately show ?thesis
    using assms(3) usb_packets_concat[of n ?t] usb_packets_bounds[of n ?t]
    by (intro exI[of _ "usb_packets n ?t"] exI[of _ ?pad]) simp
qed

section \<open>Reading a response\<close>

text \<open>A bulk-in transfer of a response: its delay, the size field and attributes of its header, its data.\<close>

record in_transfer =
  it_delay :: nat
  it_size :: int
  it_attributes :: int
  it_data :: bytes

definition wf_in_transfer :: "in_transfer \<Rightarrow> bool" where
  "wf_in_transfer r \<longleftrightarrow> 0 \<le> it_size r \<and> it_size r < 2 ^ 32 \<and> 0 \<le> it_attributes r \<and> it_attributes r < 256"

definition wire_in :: "int \<Rightarrow> in_transfer \<Rightarrow> nat \<times> bytes option" where
  "wire_in tag r = (it_delay r, Some (header_build 2 tag (it_size r) (it_attributes r) @ it_data r))"

definition payloads :: "in_transfer list \<Rightarrow> bytes" where
  "payloads rs = concat (map it_data rs)"

lemma payloads_simps [simp]: "payloads [] = []" "payloads (r # rs) = it_data r @ payloads rs"
  by (simp_all add: payloads_def)

lemma read_loop_header:
  assumes "wf_in_transfer r" "0 \<le> tag" "tag < 256" "tm_lastOutTag st = Some tag"
  shows "read_loop ep len (wire_in tag r # later) expected received merged st =
    (let st1 = (tm_event (Transfer_in ep len) st)\<lparr>usb_clock := usb_clock st + it_delay r, usb_in := later\<rparr>;
         N = (if expected = 0 then it_size r else expected);
         count = min (int (length (it_data r))) (N - received);
         merged' = (if count > 0 then merged @ take (nat count) (it_data r) else merged);
         received' = (if count > 0 then received + count else received)
     in if received' \<ge> N then (Inr merged', st1) else read_loop ep len later N received' merged' st1)"
proof -
  define H where "H = header_build 2 tag (it_size r) (it_attributes r)"
  have h: "header_parse (H @ it_data r) =
      Inr \<lparr>th_msgId = 2, th_bTag = tag, th_transferSize = it_size r, th_bmTransferAttributes = it_attributes r\<rparr>"
    using assms(1-3) unfolding H_def by (intro header_parse_build) (simp_all add: wf_in_transfer_def)
  have l: "length H = 12"
    by (simp add: header_build_bytes H_def)
  show ?thesis
    unfolding wire_in_def H_def [symmetric]
    using assms(4) h l by (simp add: USBTMC_MSG_DEV_DEP_IN_def tm_ret_def USBTMC_HEADER_SIZE_def Let_def) (auto simp: min_def)
qed

lemma read_loop_transfer:
  assumes "wf_in_transfer r" "0 \<le> tag" "tag < 256" "tm_lastOutTag st = Some tag"
    and "(if expected = 0 then it_size r else expected) = int N" "0 < N" "length merged < N"
  shows "read_loop ep len (wire_in tag r # later) expected (int (length merged)) merged st =
    (let st1 = (tm_event (Transfer_in ep len) st)\<lparr>usb_clock := usb_clock st + it_delay r, usb_in := later\<rparr>;
         merged' = take N (merged @ it_data r)
     in if N \<le> length (merged @ it_data r) then (Inr merged', st1)
        else read_loop ep len later (int N) (int (length merged')) merged' st1)"
proof -
  let ?p = "it_data r"
  let ?c = "min (int (length ?p)) (int N - int (length merged))"
  have m: "(if ?c > 0 then merged @ take (nat ?c) ?p else merged) = take N (merged @ ?p)"
    using assms(7) by (cases "length ?p \<le> N - length merged") (auto simp: min_def nat_diff_distrib)
  have c: "(if ?c > 0 then int (length merged) + ?c else int (length merged)) = int (length (take N (merged @ ?p)))"
    using assms(7) by (auto simp: min_def)
  have f: "int (length (take N (merged @ ?p))) \<ge> int N \<longleftrightarrow> N \<le> length (merged @ ?p)"
    by auto
  show ?thesis
    unfolding read_loop_header[OF assms(1-4)] Let_def assms(5) m c f by simp
qed

lemma read_loop_collects:
  assumes "list_all wf_in_transfer rs" "0 \<le> tag" "tag < 256" "tm_lastOutTag st = Some tag" "rs \<noteq> []"
    and "(if expected = 0 then it_size (hd rs) else expected) = int N" "0 < N"
    and "length (merged @ payloads (butlast rs)) < N"
  shows "\<exists>st'. usb_in st' = later \<and> tm_lastOutTag st' = Some tag \<and>
    read_loop ep len (map (wire_in tag) rs @ later) expected (int (length merged)) merged st =
      (if N \<le> length (merged @ payloads rs) then (Inr (take N (merged @ payloads rs)), st')
       else read_loop ep len later (int N) (int (length (merged @ payloads rs))) (merged @ payloads rs) st')"
  using assms
proof (induction rs arbitrary: expected merged st)
  case (Cons r rs)
  let ?st1 = "(tm_event (Transfer_in ep len) st)
      \<lparr>usb_clock := usb_clock st + it_delay r, usb_in := map (wire_in tag) rs @ later\<rparr>"
  have tag: "tm_lastOutTag ?st1 = Some tag"
    using Cons.prems(4) by (simp add: tm_event_def)
  have m: "length merged < N"
    using Cons.prems(8) by simp
  have step: "read_loop ep len (map (wire_in tag) (r # rs) @ later) expected (int (length merged)) merged st =
      (if N \<le> length (merged @ it_data r) then (Inr (take N (merged @ it_data r)), ?st1)
       else read_loop ep len (map (wire_in tag) rs @ later) (int N)
         (int (length (take N (merged @ it_data r)))) (take N (merged @ it_data r)) ?st1)"
  proof -
    have "wf_in_transfer r" "(if expected = 0 then it_size r else expected) = int N"
      using Cons.prems(1,6) by (auto split: if_splits)
    note t = read_loop_transfer[OF this(1) Cons.prems(2-4) this(2) Cons.prems(7) m]
    show ?thesis
      unfolding list.map append_Cons t Let_def ..
  qed
  show ?case
  proof (cases "rs = []")
    case True
    then show ?thesis
      unfolding step using tag by (intro exI[of _ ?st1]) simp
  next
    case False
    then have short: "length (merged @ it_data r) < N"
      using Cons.prems(8) by simp
    then have take: "take N (merged @ it_data r) = merged @ it_data r" "\<not> N \<le> length (merged @ it_data r)"
      by simp_all
    have "\<exists>st'. usb_in st' = later \<and> tm_lastOutTag st' = Some tag \<and>
        read_loop ep len (map (wire_in tag) rs @ later) (int N) (int (length (merged @ it_data r))) (merged @ it_data r) ?st1 =
        (if N \<le> length ((merged @ it_data r) @ payloads rs) then (Inr (take N ((merged @ it_data r) @ payloads rs)), st')
         else read_loop ep len later (int N) (int (length ((merged @ it_data r) @ payloads rs))) ((merged @ it_data r) @ payloads rs) st')"
      using False Cons.prems tag short by (intro Cons.IH) auto
    then show ?thesis
      unfolding step if_not_P[OF take(2)] take(1) payloads_simps append_assoc .
  qed
qed simp

text \<open>The transport after the request for the response was sent.\<close>

definition requested :: "int \<Rightarrow> nat \<Rightarrow> USBTMCTransport \<Rightarrow> USBTMCTransport" where
  "requested endpoint n st = tm_event (Transfer_out endpoint (header_build 2 (tm_tag st) (int n) 0))
     (st\<lparr>tm_tagCounter := (tm_tagCounter st + 1) mod 256, tm_lastOutTag := Some (tm_tag st)\<rparr>)"

lemma readUSBTMCIn_eq:
  assumes "tm_endpointIn st = Some ep" "tm_endpointOut st = Some eo"
  shows "readUSBTMCIn n st = read_loop ep (transfer_length n (tm_bulkInPacketSize st)) (usb_in st) 0 0 []
    (requested eo n st)"
  using assms
  by (simp add: readUSBTMCIn_def tm_seq_def tm_nextTag_eq Let_def requested_def tm_event_def
      USBTMC_MSG_DEV_DEP_IN_def)

lemma requested_fields: "usb_in (requested eo n st) = usb_in st" "tm_lastOutTag (requested eo n st) = Some (tm_tag st)"
  by (simp_all add: requested_def tm_event_def)

text \<open>C20: a response is read whole. When the device answers with transfers that carry the request's tag
  and the first announces \<open>N\<close> bytes, and \<open>N\<close> bytes have arrived only with the last of them, the read
  returns exactly the first \<open>N\<close> payload bytes in order, without the padding, and leaves later
  transfers unread.\<close>

theorem readUSBTMCIn_collects:
  assumes "tm_endpointIn st = Some ep" "tm_endpointOut st = Some eo"
    and "0 \<le> tm_tagCounter st" "tm_tagCounter st < 256"
    and "usb_in st = map (wire_in (tm_tag st)) rs @ later" "rs \<noteq> []" "list_all wf_in_transfer rs"
    and "0 < it_size (hd rs)" "int (length (payloads (butlast rs))) < it_size (hd rs)"
    and "it_size (hd rs) \<le> int (length (payloads rs))"
  shows "\<exists>st'. readUSBTMCIn n st = (Inr (take (nat (it_size (hd rs))) (payloads rs)), st') \<and> usb_in st' = later"
proof -
  have "\<exists>st'. usb_in st' = later \<and> tm_lastOutTag st' = Some (tm_tag st) \<and>
      read_loop ep (transfer_length n (tm_bulkInPacketSize st)) (map (wire_in (tm_tag st)) rs @ later) 0
        (int (length ([] :: bytes))) [] (requested eo n st) =
      (if nat (it_size (hd rs)) \<le> length ([] @ payloads rs)
       then (Inr (take (nat (it_size (hd rs))) ([] @ payloads rs)), st')
       else read_loop ep (transfer_length n (tm_bulkInPacketSize st)) later (int (nat (it_size (hd rs))))
         (int (length ([] @ payloads rs))) ([] @ payloads rs) st')"
    by (intro read_loop_collects) (use assms tm_tag_bounds[of st] requested_fields in auto)
  then show ?thesis
    using assms(5,10) by (auto simp: readUSBTMCIn_eq[OF assms(1,2)])
qed

text \<open>A transfer that ends early is reported as success. When the announced \<open>N\<close> bytes have not all
  arrived and the next transfer is empty or shorter than a header, the read returns the bytes it has
  without an error, so a truncated response looks like a complete one to its caller.\<close>

lemma readUSBTMCIn_truncated:
  assumes "tm_endpointIn st = Some ep" "tm_endpointOut st = Some eo"
    and "0 \<le> tm_tagCounter st" "tm_tagCounter st < 256"
    and "usb_in st = map (wire_in (tm_tag st)) rs @ (d, short) # later" "rs \<noteq> []" "list_all wf_in_transfer rs"
    and "int (length (payloads rs)) < it_size (hd rs)"
    and "short = None \<or> length (the short) < 12"
  shows "\<exists>st'. readUSBTMCIn n st = (Inr (payloads rs), st')"
proof -
  have "length (payloads (butlast rs)) \<le> length (payloads rs)"
    using append_butlast_last_id[OF assms(6)] by (metis payloads_def map_append concat_append length_append le_add1)
  then have "\<exists>st'. usb_in st' = (d, short) # later \<and> tm_lastOutTag st' = Some (tm_tag st) \<and>
      read_loop ep (transfer_length n (tm_bulkInPacketSize st)) (map (wire_in (tm_tag st)) rs @ (d, short) # later) 0
        (int (length ([] :: bytes))) [] (requested eo n st) =
      (if nat (it_size (hd rs)) \<le> length ([] @ payloads rs)
       then (Inr (take (nat (it_size (hd rs))) ([] @ payloads rs)), st')
       else read_loop ep (transfer_length n (tm_bulkInPacketSize st)) ((d, short) # later) (int (nat (it_size (hd rs))))
         (int (length ([] @ payloads rs))) ([] @ payloads rs) st')"
    by (intro read_loop_collects) (use assms tm_tag_bounds[of st] requested_fields in auto)
  then show ?thesis
    using assms(5,8,9) by (cases short)
      (auto simp: readUSBTMCIn_eq[OF assms(1,2)] Let_def tm_ret_def USBTMC_HEADER_SIZE_def)
qed

text \<open>An open transport, and a five-byte response in two transfers with one byte of padding.\<close>

definition tm_idle :: USBTMCTransport where
  "tm_idle = \<lparr>tm_tagCounter = 1, tm_lastOutTag = None, tm_interfaceNumber = Some 0, tm_endpointOut = Some 1,
     tm_endpointIn = Some 2, tm_endpointInterrupt = Some 3, tm_bulkOutPacketSize = Some 64,
     tm_bulkInPacketSize = Some 64, tm_readTimeoutMs = 500, tm_writeTimeoutMs = 500, usb_clock = 0,
     usb_in = [], usb_control = [], usb_log = []\<rparr>"

lemma tm_tag_idle: "tm_tag (tm_idle\<lparr>usb_in := xs\<rparr>) = 1" "tm_tag tm_idle = 1"
  by (simp_all add: tm_tag_def draw_tm_nextTag_def tm_nextTag_def tm_idle_def Let_def js_and_ff)

definition two_transfers :: "in_transfer list" where
  "two_transfers = [\<lparr>it_delay = 1, it_size = 5, it_attributes = 0, it_data = [1, 2, 3]\<rparr>,
     \<lparr>it_delay = 1, it_size = 0, it_attributes = 1, it_data = [4, 5, 0]\<rparr>]"

lemma readUSBTMCIn_collects_witness:
  "\<exists>st'. readUSBTMCIn 1024 (tm_idle\<lparr>usb_in := map (wire_in 1) two_transfers\<rparr>) = (Inr [1, 2, 3, 4, 5], st')"
  using readUSBTMCIn_collects[of "tm_idle\<lparr>usb_in := map (wire_in 1) two_transfers\<rparr>" 2 1 two_transfers "[]" 1024]
  by (simp add: tm_tag_idle two_transfers_def wf_in_transfer_def) (auto simp: tm_idle_def)

lemma readUSBTMCIn_truncated_witness:
  "\<exists>st'. readUSBTMCIn 1024 (tm_idle\<lparr>usb_in := map (wire_in 1) (take 1 two_transfers) @ [(0, Some [])]\<rparr>) =
     (Inr [1, 2, 3], st')"
  using readUSBTMCIn_truncated[of "tm_idle\<lparr>usb_in := map (wire_in 1) (take 1 two_transfers) @ [(0, Some [])]\<rparr>"
      2 1 "take 1 two_transfers" 0 "Some []" "[]" 1024]
  by (simp add: tm_tag_idle two_transfers_def wf_in_transfer_def) (auto simp: tm_idle_def)

section \<open>The handshakes\<close>

definition is_clear_halt :: "usb_event \<Rightarrow> bool" where
  "is_clear_halt e \<longleftrightarrow> (case e of Clear_halt d n \<Rightarrow> True | _ \<Rightarrow> False)"

text \<open>\<open>st'\<close> continues \<open>st\<close> with events that are not halt clearings, consuming results in order.\<close>

definition quiet :: "USBTMCTransport \<Rightarrow> USBTMCTransport \<Rightarrow> bool" where
  "quiet st st' \<longleftrightarrow> (\<exists>evs. usb_log st' = usb_log st @ evs \<and> list_all (\<lambda>e. \<not> is_clear_halt e) evs) \<and>
     length (usb_control st') \<le> length (usb_control st)"

lemma quiet_refl: "quiet st st"
  by (simp add: quiet_def)

lemma quiet_trans: "quiet a b \<Longrightarrow> quiet b c \<Longrightarrow> quiet a c"
  by (fastforce simp: quiet_def)

lemma drain_loop_quiet:
  "drain_loop ep n later st = (r, st') \<Longrightarrow>
     quiet st st' \<and> usb_control st' = usb_control st \<and> (r = Inl Tm_blocked \<longrightarrow> usb_in st' = []) \<and>
     r \<in> {Inr (), Inl Tm_blocked}"
proof (induction ep n later st rule: drain_loop.induct)
  case (1 ep n st)
  then show ?case
    by (auto simp: tm_raise_def tm_event_def quiet_def is_clear_halt_def)
next
  case (2 ep n delay result later st)
  let ?st1 = "(tm_event (Transfer_in ep n) st)\<lparr>usb_clock := usb_clock st + delay, usb_in := later\<rparr>"
  have q: "quiet st ?st1" "usb_control ?st1 = usb_control st"
    by (simp_all add: quiet_def tm_event_def is_clear_halt_def)
  show ?case
  proof (cases "(case result of None \<Rightarrow> 0 | Some data \<Rightarrow> length data) < n")
    case True
    then show ?thesis
      using 2(2) q by (auto simp: Let_def tm_ret_def)
  next
    case False
    then have "drain_loop ep n later ?st1 = (r, st')"
      using 2(2) by (simp add: Let_def)
    then show ?thesis
      using 2(1)[OF refl refl False] q quiet_trans[OF q(1)] by simp
  qed
qed

lemma drain_quiet:
  assumes "drainBulkInToShortPacket st = (r, st')"
  shows "quiet st st' \<and> usb_control st' = usb_control st \<and> (r = Inl Tm_blocked \<longrightarrow> usb_in st' = [])"
  using assms drain_loop_quiet
  by (auto simp: drainBulkInToShortPacket_def tm_raise_def quiet_refl split: option.splits)

lemma control_quiet:
  assumes "controlTransferIn rc rq v ix len st = (r, st')"
  shows "quiet st st' \<and> (r = Inl Tm_blocked \<longrightarrow> usb_control st' = []) \<and>
    (\<forall>x. r = Inr x \<longrightarrow> length (usb_control st') < length (usb_control st))"
  using assms
  by (auto simp: controlTransferIn_def Let_def tm_raise_def tm_ret_def quiet_def tm_event_def is_clear_halt_def
      split: list.splits option.splits if_splits)

text \<open>A handshake that went through its polling loop ends with the halt cleared, one that fails or is
  still open has cleared nothing.\<close>

definition cleared :: "USBTMCControlPollSpec \<Rightarrow> USBTMCTransport \<Rightarrow> USBTMCTransport \<Rightarrow> bool" where
  "cleared spec st st' \<longleftrightarrow> (case sp_clearHalt spec of
     None \<Rightarrow> quiet st st'
   | Some (d, n) \<Rightarrow> (\<exists>st1. quiet st st1 \<and> st' = tm_event (Clear_halt d n) st1))"

lemma cleared_quiet: "quiet st st1 \<Longrightarrow> cleared spec st1 st' \<Longrightarrow> cleared spec st st'"
  by (auto simp: cleared_def split: option.splits prod.splits intro: quiet_trans)

lemma quiet_via:
  assumes "quiet st st1"
  shows "cleared spec st1 st' \<Longrightarrow> cleared spec st st'" "quiet st1 st' \<Longrightarrow> quiet st st'"
  using assms cleared_quiet quiet_trans by blast+

lemma poll_loop_result:
  assumes "length (usb_control st) < fuel" "poll_loop fuel spec st = (r, st')"
  shows "(r = Inr () \<longrightarrow> cleared spec st st') \<and> (\<forall>e. r = Inl e \<longrightarrow> quiet st st') \<and>
    (r = Inl Tm_blocked \<longrightarrow> usb_control st' = [] \<or> usb_in st' = [])"
  using assms
proof (induction fuel arbitrary: st)
  case (Suc fuel)
  obtain c s where c: "controlTransferIn (sp_recipient spec) (sp_checkRequest spec) 0 (sp_index spec)
      (sp_checkLength spec) st = (c, s)"
    by (metis surj_pair)
  note q = control_quiet[OF c]
  show ?case
  proof (cases c)
    case (Inl e)
    then show ?thesis
      using Suc.prems(2) c q by (auto simp: tm_seq_def)
  next
    case (Inr check)
    then have fuel: "length (usb_control s) < fuel"
      using q Suc.prems(1) by auto
    consider (drain) "byte_at check 0 = 2" "sp_drainOnPending spec" "length check > 1 \<and> js_and (byte_at check 1) 1 \<noteq> 0"
      | (pending) "byte_at check 0 = 2" "\<not> (sp_drainOnPending spec \<and> length check > 1 \<and> js_and (byte_at check 1) 1 \<noteq> 0)"
      | (failed) "byte_at check 0 \<noteq> 2" "byte_at check 0 \<noteq> 1"
      | (success) "byte_at check 0 = 1"
      by fastforce
    then show ?thesis
    proof cases
      case drain
      obtain d t where d: "drainBulkInToShortPacket s = (d, t)"
        by (metis surj_pair)
      note dq = drain_quiet[OF d]
      show ?thesis
      proof (cases d)
        case (Inl e)
        then show ?thesis
          using Suc.prems(2) c \<open>c = Inr check\<close> drain d dq q quiet_trans
          by (auto simp: tm_seq_def Let_def usbtmc_status)
      next
        case (Inr u)
        then have "poll_loop fuel spec t = (r, st')"
          using Suc.prems(2) c \<open>c = Inr check\<close> drain d by (simp add: tm_seq_def Let_def usbtmc_status)
        then show ?thesis
          using Suc.IH[of t] fuel dq(1) quiet_via[of st t] quiet_trans[of st s t] q by simp
      qed
    next
      case pending
      then have "poll_loop fuel spec s = (r, st')"
        using Suc.prems(2) c Inr by (auto simp: tm_seq_def Let_def usbtmc_status split: if_splits)
      then show ?thesis
        using Suc.IH[of s] fuel q quiet_via[of st s] by simp
    next
      case failed
      then show ?thesis
        using Suc.prems(2) c Inr q by (auto simp: tm_seq_def Let_def usbtmc_status tm_raise_def)
    next
      case success
      then show ?thesis
        using Suc.prems(2) c Inr q
        by (auto simp: tm_seq_def Let_def usbtmc_status tm_ret_def cleared_def split: option.splits prod.splits)
    qed
  qed
qed simp



end
