(* ===== verification/Js_Sort.thy ===== *)
theory Js_Sort
  imports "HOL-Library.Multiset"
begin

text \<open>
  \<open>Array.prototype.sort\<close> with a comparison callback. The language promises a stable sort when the
  callback is a consistent comparator; insertion sort is the reference. The locale states what a
  callback has to satisfy on the elements it is used for, and shows the result is sorted, a
  permutation, and stable, so it is what every conforming engine returns.
\<close>

fun insort_by :: "('a \<Rightarrow> 'a \<Rightarrow> int) \<Rightarrow> 'a \<Rightarrow> 'a list \<Rightarrow> 'a list" where
  "insort_by cmp x [] = [x]"
| "insort_by cmp x (y # ys) = (if cmp x y \<le> 0 then x # y # ys else y # insort_by cmp x ys)"

fun js_sort :: "('a \<Rightarrow> 'a \<Rightarrow> int) \<Rightarrow> 'a list \<Rightarrow> 'a list" where
  "js_sort cmp [] = []"
| "js_sort cmp (x # xs) = insort_by cmp x (js_sort cmp xs)"

lemma mset_insort_by [simp]: "mset (insort_by cmp x xs) = add_mset x (mset xs)"
  by (induction xs) auto

lemma mset_js_sort [simp]: "mset (js_sort cmp xs) = mset xs"
  by (induction xs) auto

lemma set_js_sort [simp]: "set (js_sort cmp xs) = set xs"
  using mset_js_sort by (rule mset_eq_setD)

lemma set_insort_by [simp]: "set (insort_by cmp x xs) = insert x (set xs)"
  by (induction xs) auto

lemma js_sort_Nil_iff [simp]: "js_sort cmp xs = [] \<longleftrightarrow> xs = []"
  by (metis mset_js_sort mset_zero_iff)

locale sort_callback =
  fixes cmp :: "'a \<Rightarrow> 'a \<Rightarrow> int"
    and ok :: "'a \<Rightarrow> bool"
  assumes cmp_swap: "ok x \<Longrightarrow> ok y \<Longrightarrow> cmp x y \<le> 0 \<longleftrightarrow> 0 \<le> cmp y x"
    and cmp_trans: "ok x \<Longrightarrow> ok y \<Longrightarrow> ok z \<Longrightarrow> cmp x y \<le> 0 \<Longrightarrow> cmp y z \<le> 0 \<Longrightarrow> cmp x z \<le> 0"
begin

lemma cmp_total: "ok x \<Longrightarrow> ok y \<Longrightarrow> cmp x y \<le> 0 \<or> cmp y x \<le> 0"
  using cmp_swap[of x y] by linarith

lemma insort_by_sorted:
  assumes "ok x" "list_all ok ys" "sorted_wrt (\<lambda>a b. cmp a b \<le> 0) ys"
  shows "sorted_wrt (\<lambda>a b. cmp a b \<le> 0) (insort_by cmp x ys)"
  using assms
proof (induction ys)
  case (Cons y ys)
  show ?case
  proof (cases "cmp x y \<le> 0")
    case True
    then have "\<forall>z \<in> set ys. cmp x z \<le> 0"
      using Cons.prems cmp_trans[of x y] by (auto simp: list_all_iff)
    then show ?thesis
      using True Cons.prems by simp
  next
    case False
    then show ?thesis
      using Cons cmp_total[of x y] by auto
  qed
qed simp

lemma js_sort_sorted: "list_all ok xs \<Longrightarrow> sorted_wrt (\<lambda>a b. cmp a b \<le> 0) (js_sort cmp xs)"
  by (induction xs) (auto intro!: insort_by_sorted simp: list_all_iff)

lemma insort_by_filter_other: "\<not> P x \<Longrightarrow> filter P (insort_by cmp x ys) = filter P ys"
  by (induction ys) auto

lemma insort_by_filter_same:
  assumes "ok x" "list_all ok ys" "sorted_wrt (\<lambda>a b. cmp a b \<le> 0) ys" "ok k" "cmp k x = 0"
  shows "filter (\<lambda>y. cmp k y = 0) (insort_by cmp x ys) = x # filter (\<lambda>y. cmp k y = 0) ys"
  using assms
proof (induction ys)
  case (Cons y ys)
  show ?case
  proof (cases "cmp x y \<le> 0")
    case False
    have "cmp k y \<noteq> 0"
    proof
      assume ky: "cmp k y = 0"
      have "cmp x k \<le> 0"
        using cmp_swap[of x k] Cons.prems by simp
      then have "cmp x y \<le> 0"
        using cmp_trans[of x k y] ky Cons.prems by simp
      with False show False
        by simp
    qed
    then show ?thesis
      using False Cons by simp
  qed (use Cons.prems in simp)
qed simp

text \<open>Stability: elements that compare equal to \<open>k\<close> keep their order.\<close>

lemma js_sort_stable:
  assumes "list_all ok xs" "ok k"
  shows "filter (\<lambda>y. cmp k y = 0) (js_sort cmp xs) = filter (\<lambda>y. cmp k y = 0) xs"
  using assms(1)
proof (induction xs)
  case (Cons x xs)
  have s: "list_all ok (js_sort cmp xs)" "sorted_wrt (\<lambda>a b. cmp a b \<le> 0) (js_sort cmp xs)"
    using Cons.prems js_sort_sorted[of xs] by (simp_all add: list_all_iff)
  show ?case
  proof (cases "cmp k x = 0")
    case True
    then show ?thesis
      using Cons s insort_by_filter_same[of x "js_sort cmp xs" k] assms(2) by simp
  next
    case False
    then show ?thesis
      using Cons insort_by_filter_other[of "\<lambda>y. cmp k y = 0"] by simp
  qed
qed simp

text \<open>The first element is the first of the least ones.\<close>

lemma js_sort_hd:
  assumes "list_all ok xs" "xs \<noteq> []"
  shows "hd (js_sort cmp xs) \<in> set xs" "\<forall>y \<in> set xs. cmp (hd (js_sort cmp xs)) y \<le> 0"
    and "hd (js_sort cmp xs) = hd (filter (\<lambda>y. cmp (hd (js_sort cmp xs)) y = 0) xs)"
proof -
  obtain h t where ht: "js_sort cmp xs = h # t"
    using assms(2) by (cases "js_sort cmp xs") auto
  then have mem: "h \<in> set xs"
    using set_js_sort[of cmp xs] by auto
  then have okh: "ok h"
    using assms(1) by (auto simp: list_all_iff)
  then have hh: "cmp h h = 0"
    using cmp_swap[of h h] by linarith
  have "\<forall>y \<in> set (h # t). cmp h y \<le> 0"
    using js_sort_sorted[OF assms(1)] ht hh by simp
  then have le: "\<forall>y \<in> set xs. cmp h y \<le> 0"
    unfolding ht [symmetric] set_js_sort .
  have "filter (\<lambda>y. cmp h y = 0) xs = h # filter (\<lambda>y. cmp h y = 0) t"
    using js_sort_stable[OF assms(1) okh] ht hh by simp
  then show "hd (js_sort cmp xs) = hd (filter (\<lambda>y. cmp (hd (js_sort cmp xs)) y = 0) xs)"
    using ht by simp
  show "hd (js_sort cmp xs) \<in> set xs" "\<forall>y \<in> set xs. cmp (hd (js_sort cmp xs)) y \<le> 0"
    using ht mem le by simp_all
qed

end

end
