(* ===== verification/Firmware_Release.thy ===== *)
theory Firmware_Release
  imports Scpi_Errors Js_Sort
begin

text \<open>
  Firmware versions, releases and the update decision: \<open>lib/firmware/version.ts\<close>,
  \<open>lib/firmware/releases.ts\<close> (without the GitHub request) and \<open>lib/firmware/updateCheck.ts\<close>.
  A thrown error is \<open>None\<close>; version numbers are exact, as JavaScript numbers are below \<open>2^53\<close>.
\<close>

section \<open>Versions\<close>

record FirmwareVersion =
  fv_major :: nat
  fv_minor :: nat
  fv_patch :: nat
  fv_isBeta :: bool
  fv_isStable :: bool
  fv_betaNumber :: "nat option"
  fv_text :: string

text \<open>\<open>(0|[1-9]\d*)\<close> at the front of the text, and the rest.\<close>

definition match_number :: "string \<Rightarrow> (nat \<times> string) option" where
  "match_number s =
     (case s of
        [] \<Rightarrow> None
      | c # cs \<Rightarrow>
          if c = CHR ''0'' then Some (0, cs)
          else if js_digit c then Some (nat (digits_value (takeWhile js_digit s) 0), dropWhile js_digit s)
          else None)"

definition match_text :: "string \<Rightarrow> string \<Rightarrow> string option" where
  "match_text lit s = (if take (length lit) s = lit then Some (drop (length lit) s) else None)"

definition match_dotted :: "string \<Rightarrow> (nat \<times> string) option" where
  "match_dotted s = (case match_text ''.'' s of None \<Rightarrow> None | Some t \<Rightarrow> match_number t)"

text \<open>\<open>VERSION_PATTERN\<close>: the numbers matched, the last one optional.\<close>

definition match_version :: "string \<Rightarrow> (nat \<times> nat \<times> nat \<times> nat option) option" where
  "match_version s =
     (let s1 = (case match_text ''v'' s of Some t \<Rightarrow> t | None \<Rightarrow> s)
      in case match_number s1 of None \<Rightarrow> None | Some (major, s2) \<Rightarrow>
         (case match_dotted s2 of None \<Rightarrow> None | Some (minor, s3) \<Rightarrow>
         (case match_dotted s3 of None \<Rightarrow> None | Some (patch, s4) \<Rightarrow>
           if s4 = [] then Some (major, minor, patch, None)
           else (case match_text ''-beta.'' s4 of None \<Rightarrow> None | Some s5 \<Rightarrow>
             (case match_number s5 of None \<Rightarrow> None | Some (beta, s6) \<Rightarrow>
               if s6 = [] \<and> beta \<noteq> 0 then Some (major, minor, patch, Some beta) else None)))))"

definition version_text :: "nat \<Rightarrow> nat \<Rightarrow> nat \<Rightarrow> nat option \<Rightarrow> string" where
  "version_text major minor patch beta =
     decimal_digits major @ ''.'' @ decimal_digits minor @ ''.'' @ decimal_digits patch @
     (case beta of None \<Rightarrow> [] | Some k \<Rightarrow> ''-beta.'' @ decimal_digits k)"

definition parseFirmwareVersion :: "string \<Rightarrow> FirmwareVersion option" where
  "parseFirmwareVersion val =
     (case match_version (trim val) of
        None \<Rightarrow> None
      | Some (major, minor, patch, betaNumber) \<Rightarrow>
          Some \<lparr>fv_major = major, fv_minor = minor, fv_patch = patch, fv_isBeta = (betaNumber \<noteq> None),
            fv_isStable = (betaNumber = None), fv_betaNumber = betaNumber,
            fv_text = version_text major minor patch betaNumber\<rparr>)"

definition compareFirmwareVersions :: "FirmwareVersion \<Rightarrow> FirmwareVersion \<Rightarrow> int" where
  "compareFirmwareVersions left right =
     (let major = int (fv_major left) - int (fv_major right)
      in if major \<noteq> 0 then major
         else let minor = int (fv_minor left) - int (fv_minor right)
         in if minor \<noteq> 0 then minor
         else let patch = int (fv_patch left) - int (fv_patch right)
         in if patch \<noteq> 0 then patch
         else if fv_isStable left \<and> fv_isBeta right then 1
         else if fv_isBeta left \<and> fv_isStable right then - 1
         else (case fv_betaNumber left of None \<Rightarrow> 0 | Some k \<Rightarrow> int k) -
              (case fv_betaNumber right of None \<Rightarrow> 0 | Some k \<Rightarrow> int k))"

definition isFirmwareVersionNewer :: "FirmwareVersion \<Rightarrow> FirmwareVersion \<Rightarrow> bool" where
  "isFirmwareVersionNewer candidate installed \<longleftrightarrow> compareFirmwareVersions candidate installed > 0"

section \<open>Releases\<close>

datatype FirmwareUpdateChannel = Production | Beta

record GitHubReleaseAsset =
  ga_id :: "nat option"
  ga_name :: string
  ga_browser_download_url :: string
  ga_size :: "nat option"
  ga_content_type :: "string option"

record GitHubRelease =
  gr_tag_name :: string
  gr_draft :: bool
  gr_prerelease :: bool
  gr_name :: "string option"
  gr_html_url :: "string option"
  gr_assets :: "GitHubReleaseAsset list option"

record FirmwareReleaseAsset =
  fa_id :: "nat option"
  fa_name :: string
  fa_downloadUrl :: string
  fa_size :: "nat option"
  fa_contentType :: "string option"

record FirmwareRelease =
  fr_tagName :: string
  fr_releaseName :: "string option"
  fr_releaseUrl :: "string option"
  fr_version :: FirmwareVersion
  fr_versionText :: string
  fr_channel :: FirmwareUpdateChannel
  fr_asset :: FirmwareReleaseAsset

definition DRPD_FIRMWARE_ASSET_NAME :: string where
  "DRPD_FIRMWARE_ASSET_NAME = ''drpd-firmware-combined.uf2''"

definition DRPD_FIRMWARE_DOWNLOAD_BASE_URL :: string where
  "DRPD_FIRMWARE_DOWNLOAD_BASE_URL = ''https://t76.org/drpd/releases''"

text \<open>An optional text that is dropped when empty, as \<open>...(x ? {k: x} : {})\<close> does.\<close>

definition truthy :: "string option \<Rightarrow> string option" where
  "truthy s = (if s = Some [] then None else s)"

definition selectFirmwareAsset :: "GitHubReleaseAsset list \<Rightarrow> string option \<Rightarrow> FirmwareReleaseAsset option" where
  "selectFirmwareAsset assets versionText =
     (let url = (\<lambda>v. DRPD_FIRMWARE_DOWNLOAD_BASE_URL @ ''/'' @ v @ ''/'' @ DRPD_FIRMWARE_ASSET_NAME)
      in case find (\<lambda>candidate. ga_name candidate = DRPD_FIRMWARE_ASSET_NAME) assets of
           None \<Rightarrow> (case truthy versionText of
               Some v \<Rightarrow> Some \<lparr>fa_id = None, fa_name = DRPD_FIRMWARE_ASSET_NAME, fa_downloadUrl = url v,
                 fa_size = None, fa_contentType = None\<rparr>
             | None \<Rightarrow> None)
         | Some asset \<Rightarrow> Some \<lparr>fa_id = ga_id asset, fa_name = ga_name asset,
             fa_downloadUrl = (case truthy versionText of Some v \<Rightarrow> url v | None \<Rightarrow> ga_browser_download_url asset),
             fa_size = ga_size asset, fa_contentType = truthy (ga_content_type asset)\<rparr>)"

datatype skipped_release =
    Skip_draft string
  | Skip_invalid_tag string
  | Skip_prerelease_stable_tag string
  | Skip_stable_beta_tag string

text \<open>One round of the loop of \<open>normalizeGitHubFirmwareReleases\<close>: a release or the logged reason.\<close>

definition normalize_release :: "GitHubRelease \<Rightarrow> skipped_release + FirmwareRelease" where
  "normalize_release release =
     (if gr_draft release then Inl (Skip_draft (gr_tag_name release))
      else (case parseFirmwareVersion (gr_tag_name release) of
        None \<Rightarrow> Inl (Skip_invalid_tag (gr_tag_name release))
      | Some version \<Rightarrow>
          if gr_prerelease release \<and> \<not> fv_isBeta version then
            Inl (Skip_prerelease_stable_tag (gr_tag_name release))
          else if \<not> gr_prerelease release \<and> \<not> fv_isStable version then
            Inl (Skip_stable_beta_tag (gr_tag_name release))
          else Inr \<lparr>fr_tagName = gr_tag_name release, fr_releaseName = truthy (gr_name release),
            fr_releaseUrl = truthy (gr_html_url release), fr_version = version,
            fr_versionText = fv_text version,
            fr_channel = (if gr_prerelease release then Beta else Production),
            fr_asset = the (selectFirmwareAsset
              (case gr_assets release of None \<Rightarrow> [] | Some assets \<Rightarrow> assets) (Some (fv_text version)))\<rparr>))"

fun normalizeGitHubFirmwareReleases :: "GitHubRelease list \<Rightarrow> FirmwareRelease list \<times> skipped_release list" where
  "normalizeGitHubFirmwareReleases [] = ([], [])"
| "normalizeGitHubFirmwareReleases (release # releases) =
     (case normalizeGitHubFirmwareReleases releases of (normalized, logged) \<Rightarrow>
        (case normalize_release release of
           Inl reason \<Rightarrow> (normalized, reason # logged)
         | Inr r \<Rightarrow> (r # normalized, logged)))"

definition selectReleaseForChannel :: "FirmwareRelease list \<Rightarrow> FirmwareUpdateChannel \<Rightarrow> FirmwareRelease option" where
  "selectReleaseForChannel releases channel =
     (let eligible = filter (\<lambda>release. if channel = Beta then True else fr_channel release = Production) releases
      in if eligible = [] then None
         else Some (hd (js_sort (\<lambda>left right. compareFirmwareVersions (fr_version right) (fr_version left)) eligible)))"

section \<open>The decision\<close>

datatype no_update_reason = No_release | Not_newer | Suppressed | Invalid_installed_version

datatype FirmwareUpdateDecision =
    Update_available string FirmwareRelease
  | No_update no_update_reason

definition checkForFirmwareUpdate ::
  "string \<Rightarrow> FirmwareUpdateChannel \<Rightarrow> FirmwareRelease list \<Rightarrow> (string \<Rightarrow> bool) \<Rightarrow> FirmwareUpdateDecision" where
  "checkForFirmwareUpdate installedFirmwareVersion channel releases isPromptSuppressed =
     (case parseFirmwareVersion installedFirmwareVersion of
        None \<Rightarrow> No_update Invalid_installed_version
      | Some installedVersion \<Rightarrow>
          (case selectReleaseForChannel releases channel of
             None \<Rightarrow> No_update No_release
           | Some release \<Rightarrow>
               if \<not> isFirmwareVersionNewer (fr_version release) installedVersion then No_update Not_newer
               else if isPromptSuppressed (fr_versionText release) then No_update Suppressed
               else Update_available (fv_text installedVersion) release))"

end
