(* ===== verification/Decimal_Text.thy ===== *)
theory Decimal_Text
  imports Scpi_Errors
begin

text \<open>
  Decimal notation: the digits a number is printed with read back as the number, and only them.
  Shared by the version texts and the number readers.
\<close>

lemma js_digit_char_of: "n < 10 \<Longrightarrow> js_digit (char_of (48 + n :: nat))"
  by (simp add: js_digit_def)

lemma of_char_digit: "n < 10 \<Longrightarrow> (of_char (char_of (48 + n :: nat)) :: int) = 48 + int n"
proof -
  assume "n < 10"
  have "(of_char (char_of (48 + n :: nat)) :: int) = int (of_char (char_of (48 + n :: nat)))"
    by (simp only: of_nat_of_char)
  then show ?thesis
    using \<open>n < 10\<close> by simp
qed

lemma decimal_digits_js: "list_all js_digit (decimal_digits n)"
  by (induction n rule: decimal_digits.induct) (subst decimal_digits.simps, simp add: js_digit_char_of)

lemma digits_value_append: "digits_value (s @ t) v = digits_value t (digits_value s v)"
  by (induction s v rule: digits_value.induct) auto

lemma digits_value_decimal: "digits_value (decimal_digits n) 0 = int n"
proof (induction n rule: decimal_digits.induct)
  case (1 n)
  have c: "digits_value [char_of (48 + n mod 10)] v = v * 10 + int (n mod 10)" for v
    by (simp add: of_char_digit)
  have "int (n div 10) * 10 + int (n mod 10) = int (n div 10 * 10 + n mod 10)"
    by (simp only: of_nat_add of_nat_mult of_nat_numeral)
  then have "int (n div 10) * 10 + int (n mod 10) = int n"
    by (simp only: div_mult_mod_eq)
  then show ?case
    using 1 by (subst decimal_digits.simps) (auto simp: digits_value_append c simp del: digits_value.simps(2))
qed

lemma decimal_digits_hd: "0 < n \<Longrightarrow> \<exists>c cs. decimal_digits n = c # cs \<and> c \<noteq> CHR ''0'' \<and> js_digit c"
proof (induction n rule: decimal_digits.induct)
  case (1 n)
  show ?case
  proof (cases "n < 10")
    case True
    have "(of_char (CHR ''0'') :: int) = 48"
      by simp
    then have "char_of (48 + n) \<noteq> CHR ''0''"
      using 1(2) of_char_digit[OF True] by (auto simp del: of_char_of)
    then show ?thesis
      using True by (subst decimal_digits.simps) (simp add: js_digit_char_of)
  next
    case False
    then show ?thesis
      using 1(1) by (subst decimal_digits.simps) (fastforce simp: div_greater_zero_iff)
  qed
qed

lemma decimal_digits_0: "decimal_digits 0 = ''0''"
  by code_simp

text \<open>A rest that does not go on with a digit.\<close>

definition ends_number :: "string \<Rightarrow> bool" where
  "ends_number rest \<longleftrightarrow> rest = [] \<or> \<not> js_digit (hd rest)"

lemma span_decimal:
  assumes "ends_number rest"
  shows "takeWhile js_digit (decimal_digits n @ rest) = decimal_digits n"
    and "dropWhile js_digit (decimal_digits n @ rest) = rest"
  using assms decimal_digits_js[of n]
  by (cases rest; simp add: ends_number_def list_all_iff takeWhile_append2 dropWhile_append2)+

lemma span_digits:
  assumes "ends_number rest" "list_all js_digit ds"
  shows "takeWhile js_digit (ds @ rest) = ds" "dropWhile js_digit (ds @ rest) = rest"
  using assms by (cases rest; simp add: ends_number_def list_all_iff takeWhile_append2 dropWhile_append2)+

lemma decimal_digits_not_Nil [simp]: "decimal_digits n \<noteq> []"
  by (subst decimal_digits.simps) simp

lemma digits_value_nonneg: "list_all js_digit ds \<Longrightarrow> 0 \<le> v \<Longrightarrow> 0 \<le> digits_value ds v"
proof (induction ds v rule: digits_value.induct)
  case (2 c cs v)
  have "48 \<le> (of_char c :: nat)"
    using 2(2) by (simp add: js_digit_def)
  then have "48 \<le> int (of_char c)"
    by linarith
  then have "48 \<le> (of_char c :: int)"
    by (simp only: of_nat_of_char)
  then show ?case
    using 2 by simp
qed simp

lemma digits_value_zeros: "digits_value (replicate k (CHR ''0'') @ ds) 0 = digits_value ds 0"
  by (induction k) simp_all

lemma digits_decimal:
  assumes "list_all js_digit ds" "ds \<noteq> []" "hd ds \<noteq> CHR ''0''"
  shows "decimal_digits (nat (digits_value ds 0)) = ds"
  using assms
proof (induction ds rule: rev_induct)
  case (snoc d ds)
  define k where "k = (of_char d :: nat) - 48"
  have d: "48 \<le> (of_char d :: nat)" "(of_char d :: nat) \<le> 57"
    using snoc.prems(1) by (simp_all add: js_digit_def)
  have n: "48 + k = of_char d" "k < 10"
    using d by (simp_all add: k_def)
  have "(of_char d :: int) = int (48 + k)"
    unfolding n(1) by (simp only: of_nat_of_char)
  then have k3: "(of_char d :: int) - 48 = int k"
    by simp
  have "d = char_of (48 + k)"
    unfolding n(1) by simp
  note k = n(2) this k3
  show ?case
  proof (cases "ds = []")
    case True
    then show ?thesis
      using k by (simp add: decimal_digits.simps)
  next
    case False
    then have ih: "decimal_digits (nat (digits_value ds 0)) = ds"
      using snoc by (simp add: hd_append)
    define m where "m = nat (digits_value ds 0)"
    have m0: "m \<noteq> 0"
    proof
      assume "m = 0"
      then have "ds = ''0''"
        using ih by (simp add: m_def [symmetric] decimal_digits_0)
      then show False
        using snoc.prems(3) by simp
    qed
    then have dv: "digits_value ds 0 = int m"
      by (simp add: m_def)
    have v: "nat (digits_value (ds @ [d]) 0) = m * 10 + k"
      using dv k(3) by (simp add: digits_value_append nat_add_distrib nat_mult_distrib)
    have "decimal_digits (m * 10 + k) = decimal_digits m @ [char_of (48 + k)]"
      using m0 k(1) by (subst decimal_digits.simps) auto
    then show ?thesis
      using v ih k(2) by (simp add: m_def)
  qed
qed simp

end
