(* ===== verification/Firmware_Release_Laws.thy ===== *)
theory Firmware_Release_Laws
  imports Firmware_Release Decimal_Text
begin

text \<open>
  What the update check guarantees: version texts round trip, versions are ordered as the channels
  need it, and an update is offered exactly when the newest eligible release is newer than the
  installed firmware.
\<close>

section \<open>Version texts\<close>

lemma match_number_decimal:
  assumes "ends_number rest"
  shows "match_number (decimal_digits n @ rest) = Some (n, rest)"
proof (cases "n = 0")
  case True
  then show ?thesis
    by (simp add: match_number_def decimal_digits_0)
next
  case False
  then obtain c cs where d: "decimal_digits n = c # cs" "c \<noteq> CHR ''0''" "js_digit c"
    using decimal_digits_hd[of n] by auto
  have t: "takeWhile js_digit (decimal_digits n @ rest) = decimal_digits n"
    "dropWhile js_digit (decimal_digits n @ rest) = rest"
    using assms decimal_digits_js[of n]
    by (cases rest; simp add: ends_number_def list_all_iff takeWhile_append2 dropWhile_append2)+
  then show ?thesis
    using d digits_value_decimal[of n] by (simp add: match_number_def)
qed

lemma match_number_SomeD:
  assumes "match_number s = Some (n, rest)"
  shows "s = decimal_digits n @ rest"
proof -
  obtain c cs where s: "s = c # cs"
    using assms by (cases s) (auto simp: match_number_def)
  show ?thesis
  proof (cases "c = CHR ''0''")
    case True
    then show ?thesis
      using assms s by (simp add: match_number_def decimal_digits_0)
  next
    case False
    then have "js_digit c" "n = nat (digits_value (takeWhile js_digit s) 0)" "rest = dropWhile js_digit s"
      using assms s by (auto simp: match_number_def split: if_splits)
    moreover have "list_all js_digit (takeWhile js_digit s)"
      by (auto simp: list_all_iff dest: set_takeWhileD)
    ultimately show ?thesis
      using False s digits_decimal[of "takeWhile js_digit s"] by simp
  qed
qed

definition wf_version :: "FirmwareVersion \<Rightarrow> bool" where
  "wf_version v \<longleftrightarrow> fv_betaNumber v \<noteq> Some 0 \<and> fv_isBeta v = (fv_betaNumber v \<noteq> None) \<and>
     fv_isStable v = (fv_betaNumber v = None) \<and>
     fv_text v = version_text (fv_major v) (fv_minor v) (fv_patch v) (fv_betaNumber v)"

lemma match_text_Some: "match_text lit s = Some t \<longleftrightarrow> s = lit @ t"
  by (auto simp: match_text_def) (metis append_take_drop_id)

lemma match_dotted_decimal: "ends_number rest \<Longrightarrow> match_dotted (''.'' @ decimal_digits n @ rest) = Some (n, rest)"
  by (simp add: match_dotted_def match_text_def match_number_decimal del: append_Cons)

lemma match_dotted_SomeD: "match_dotted s = Some (n, rest) \<Longrightarrow> s = ''.'' @ decimal_digits n @ rest"
  by (auto simp: match_dotted_def match_text_Some dest: match_number_SomeD split: option.splits)

lemma ends_number_simps: "ends_number []" "ends_number (''.'' @ s)" "ends_number (''-beta.'' @ s)"
  by (simp_all add: ends_number_def js_digit_def)

lemma decimal_digits_not_v: "match_text ''v'' (decimal_digits n @ rest) = None"
proof -
  obtain c cs where "decimal_digits n = c # cs"
    using decimal_digits_hd[of n] decimal_digits_0 by (cases "n = 0") auto
  moreover from this have "js_digit c"
    using decimal_digits_js[of n] by simp
  then have "c \<noteq> CHR ''v''"
    by (auto simp: js_digit_def)
  ultimately show ?thesis
    by (simp add: match_text_def)
qed

lemma match_version_text:
  assumes "beta \<noteq> Some 0"
  shows "match_version (version_text major minor patch beta) = Some (major, minor, patch, beta)"
    and "match_version (''v'' @ version_text major minor patch beta) = Some (major, minor, patch, beta)"
proof -
  let ?s = "version_text major minor patch beta"
  have "match_text ''v'' ?s = None" "match_text ''v'' (''v'' @ ?s) = Some ?s"
    using decimal_digits_not_v by (simp_all add: version_text_def match_text_Some)
  moreover have "(case match_number ?s of None \<Rightarrow> None | Some (major, s2) \<Rightarrow>
         (case match_dotted s2 of None \<Rightarrow> None | Some (minor, s3) \<Rightarrow>
         (case match_dotted s3 of None \<Rightarrow> None | Some (patch, s4) \<Rightarrow>
           if s4 = [] then Some (major, minor, patch, None)
           else (case match_text ''-beta.'' s4 of None \<Rightarrow> None | Some s5 \<Rightarrow>
             (case match_number s5 of None \<Rightarrow> None | Some (beta, s6) \<Rightarrow>
               if s6 = [] \<and> beta \<noteq> 0 then Some (major, minor, patch, Some beta) else None))))) =
      Some (major, minor, patch, beta)"
  proof (cases beta)
    case None
    then show ?thesis
      using match_dotted_decimal[OF ends_number_simps(1), of patch]
      by (simp add: version_text_def match_number_decimal match_dotted_decimal ends_number_simps
          del: append_Cons) 
  next
    case (Some k)
    have "match_text ''-beta.'' (''-beta.'' @ decimal_digits k) = Some (decimal_digits k)"
      by (simp add: match_text_Some)
    then show ?thesis
      using Some assms match_number_decimal[OF ends_number_simps(1), of k]
      by (simp add: version_text_def match_number_decimal match_dotted_decimal ends_number_simps
          del: append_Cons)
  qed
  ultimately show "match_version ?s = Some (major, minor, patch, beta)"
    "match_version (''v'' @ ?s) = Some (major, minor, patch, beta)"
    by (simp_all add: match_version_def Let_def del: append_Cons)
qed

lemma match_version_SomeD:
  assumes "match_version s = Some (major, minor, patch, beta)"
  shows "(s = version_text major minor patch beta \<or> s = ''v'' @ version_text major minor patch beta) \<and> beta \<noteq> Some 0"
proof -
  define t where "t = (case match_text ''v'' s of Some t \<Rightarrow> t | None \<Rightarrow> s)"
  have t: "s = t \<or> s = ''v'' @ t"
  proof (cases "match_text ''v'' s")
    case (Some x)
    then have "s = ''v'' @ x"
      by (simp only: match_text_Some)
    then show ?thesis
      using Some by (simp add: t_def)
  qed (simp add: t_def)
  obtain s2 s3 s4 where m: "match_number t = Some (major, s2)" "match_dotted s2 = Some (minor, s3)"
      "match_dotted s3 = Some (patch, s4)"
    and r: "(if s4 = [] then Some (major, minor, patch, None)
           else (case match_text ''-beta.'' s4 of None \<Rightarrow> None | Some s5 \<Rightarrow>
             (case match_number s5 of None \<Rightarrow> None | Some (beta, s6) \<Rightarrow>
               if s6 = [] \<and> beta \<noteq> 0 then Some (major, minor, patch, Some beta) else None))) =
      Some (major, minor, patch, beta)"
    using assms unfolding match_version_def Let_def t_def [symmetric]
    by (auto split: option.splits prod.splits if_splits)
  have "t = decimal_digits major @ ''.'' @ decimal_digits minor @ ''.'' @ decimal_digits patch @ s4"
    using match_number_SomeD[OF m(1)] match_dotted_SomeD[OF m(2)] match_dotted_SomeD[OF m(3)] by simp
  moreover have "s4 = (case beta of None \<Rightarrow> [] | Some k \<Rightarrow> ''-beta.'' @ decimal_digits k) \<and> beta \<noteq> Some 0"
    using r by (auto simp: match_text_Some dest!: match_number_SomeD split: option.splits if_splits)
  ultimately show ?thesis
    using t by (simp add: version_text_def)
qed

lemma parse_version_SomeD:
  assumes "parseFirmwareVersion s = Some v"
  shows "wf_version v" "trim s = fv_text v \<or> trim s = ''v'' @ fv_text v"
proof -
  obtain major minor patch beta where m: "match_version (trim s) = Some (major, minor, patch, beta)"
    and v: "v = \<lparr>fv_major = major, fv_minor = minor, fv_patch = patch, fv_isBeta = (beta \<noteq> None),
            fv_isStable = (beta = None), fv_betaNumber = beta,
            fv_text = version_text major minor patch beta\<rparr>"
    using assms by (auto simp: parseFirmwareVersion_def split: option.splits)
  show "wf_version v" "trim s = fv_text v \<or> trim s = ''v'' @ fv_text v"
    using match_version_SomeD[OF m] by (simp_all add: v wf_version_def)
qed

text \<open>A text parses to a version exactly when it is, between blanks and after an optional \<open>v\<close>, the
  canonical text of a well-formed version; the version carries that text. So parsing and printing are
  inverse, and leading zeros, a beta number 0 and trailing characters are rejected.\<close>

lemma parseFirmwareVersion_iff:
  "parseFirmwareVersion s = Some v \<longleftrightarrow>
     wf_version v \<and> (trim s = fv_text v \<or> trim s = ''v'' @ fv_text v)"
proof
  assume v: "wf_version v \<and> (trim s = fv_text v \<or> trim s = ''v'' @ fv_text v)"
  then have "match_version (trim s) = Some (fv_major v, fv_minor v, fv_patch v, fv_betaNumber v)"
    using match_version_text[of "fv_betaNumber v" "fv_major v" "fv_minor v" "fv_patch v"]
    by (auto simp: wf_version_def)
  then show "parseFirmwareVersion s = Some v"
    using v by (simp add: parseFirmwareVersion_def wf_version_def)
next
  assume "parseFirmwareVersion s = Some v"
  then show "wf_version v \<and> (trim s = fv_text v \<or> trim s = ''v'' @ fv_text v)"
    using parse_version_SomeD by blast
qed

section \<open>The order of versions\<close>

text \<open>The order the comparison decides: the numbers first, a beta before its stable version, betas by
  number.\<close>

definition version_key :: "FirmwareVersion \<Rightarrow> nat \<times> nat \<times> nat \<times> nat \<times> nat" where
  "version_key v = (fv_major v, fv_minor v, fv_patch v, if fv_isStable v then 1 else 0,
     case fv_betaNumber v of None \<Rightarrow> 0 | Some k \<Rightarrow> k)"

fun key_less :: "nat \<times> nat \<times> nat \<times> nat \<times> nat \<Rightarrow> nat \<times> nat \<times> nat \<times> nat \<times> nat \<Rightarrow> bool" where
  "key_less (a, b, c, d, e) (a', b', c', d', e') \<longleftrightarrow> a < a' \<or> a = a' \<and> (b < b' \<or> b = b' \<and>
     (c < c' \<or> c = c' \<and> (d < d' \<or> d = d' \<and> e < e')))"

lemma compareFirmwareVersions_sign:
  assumes "wf_version v" "wf_version w"
  shows "compareFirmwareVersions v w < 0 \<longleftrightarrow> key_less (version_key v) (version_key w)"
    and "compareFirmwareVersions v w = 0 \<longleftrightarrow> version_key v = version_key w"
    and "compareFirmwareVersions v w > 0 \<longleftrightarrow> key_less (version_key w) (version_key v)"
  using assms
  by (auto simp: compareFirmwareVersions_def Let_def version_key_def wf_version_def split: option.splits)

lemma key_less_total: "key_less k l \<or> k = l \<or> key_less l k"
  by (cases k; cases l) auto

lemma key_less_trans: "key_less k l \<Longrightarrow> key_less l m \<Longrightarrow> key_less k m"
  by (cases k; cases l; cases m) auto

lemma key_less_irrefl: "\<not> key_less k k"
  by (cases k) auto

lemma version_key_inj: "wf_version v \<Longrightarrow> wf_version w \<Longrightarrow> version_key v = version_key w \<longleftrightarrow> v = w"
  by (cases v; cases w) (auto simp: wf_version_def version_key_def split: option.splits if_splits)

lemma compareFirmwareVersions_le:
  assumes "wf_version v" "wf_version w"
  shows "compareFirmwareVersions v w \<le> 0 \<longleftrightarrow> \<not> key_less (version_key w) (version_key v)"
    and "0 \<le> compareFirmwareVersions v w \<longleftrightarrow> \<not> key_less (version_key v) (version_key w)"
  using compareFirmwareVersions_sign[OF assms] by linarith+

interpretation newest_first: sort_callback
  "\<lambda>left right. compareFirmwareVersions (fr_version right) (fr_version left)" "\<lambda>r. wf_version (fr_version r)"
proof (unfold_locales, goal_cases)
  case (1 x y)
  then show ?case
    by (simp add: compareFirmwareVersions_le)
next
  case (2 x y z)
  then show ?case
    using key_less_total key_less_trans key_less_irrefl by (simp add: compareFirmwareVersions_le) metis
qed

text \<open>Versions are totally ordered, newest meaning what the channels need. On well-formed versions
  the comparison is zero only for equal versions, antisymmetric and transitive; every beta is older
  than the stable version of its number, and newer than every version with a smaller number.\<close>

lemma compareFirmwareVersions_order:
  assumes "wf_version u" "wf_version v" "wf_version w"
  shows "(compareFirmwareVersions u v = 0 \<longleftrightarrow> u = v) \<and>
    (compareFirmwareVersions u v < 0 \<longleftrightarrow> 0 < compareFirmwareVersions v u) \<and>
    (compareFirmwareVersions u v \<le> 0 \<longrightarrow> compareFirmwareVersions v w \<le> 0 \<longrightarrow> compareFirmwareVersions u w \<le> 0) \<and>
    (fv_isBeta u \<and> fv_isStable v \<and> (fv_major u, fv_minor u, fv_patch u) = (fv_major v, fv_minor v, fv_patch v)
       \<longrightarrow> isFirmwareVersionNewer v u)"
proof (intro conjI)
  show "compareFirmwareVersions u v = 0 \<longleftrightarrow> u = v"
    using compareFirmwareVersions_sign(2)[OF assms(1,2)] version_key_inj[OF assms(1,2)] by simp
  show "compareFirmwareVersions u v < 0 \<longleftrightarrow> 0 < compareFirmwareVersions v u"
    using compareFirmwareVersions_sign[OF assms(1,2)] compareFirmwareVersions_sign[OF assms(2,1)] by simp
  have le: "compareFirmwareVersions a b \<le> 0 \<longleftrightarrow> \<not> key_less (version_key b) (version_key a)"
    if "wf_version a" "wf_version b" for a b
    using compareFirmwareVersions_sign(3)[OF that] by linarith
  show "compareFirmwareVersions u v \<le> 0 \<longrightarrow> compareFirmwareVersions v w \<le> 0 \<longrightarrow> compareFirmwareVersions u w \<le> 0"
    unfolding le[OF assms(1,2)] le[OF assms(2,3)] le[OF assms(1,3)]
    using key_less_total key_less_trans key_less_irrefl by metis
  show "fv_isBeta u \<and> fv_isStable v \<and> (fv_major u, fv_minor u, fv_patch u) = (fv_major v, fv_minor v, fv_patch v)
       \<longrightarrow> isFirmwareVersionNewer v u"
    using assms(1,2) by (auto simp: isFirmwareVersionNewer_def compareFirmwareVersions_def Let_def wf_version_def)
qed

section \<open>Releases and the decision\<close>

text \<open>Every channel takes the releases of the channels below it.\<close>

instantiation FirmwareUpdateChannel :: linorder
begin

definition less_eq_FirmwareUpdateChannel :: "FirmwareUpdateChannel \<Rightarrow> FirmwareUpdateChannel \<Rightarrow> bool" where
  "less_eq_FirmwareUpdateChannel c d \<longleftrightarrow> (c = Production \<or> d = Beta)"

definition less_FirmwareUpdateChannel :: "FirmwareUpdateChannel \<Rightarrow> FirmwareUpdateChannel \<Rightarrow> bool" where
  "less_FirmwareUpdateChannel c d \<longleftrightarrow> (c = Production \<and> d = Beta)"

instance
proof
  fix x y z :: FirmwareUpdateChannel
  show "x < y \<longleftrightarrow> x \<le> y \<and> \<not> y \<le> x"
    by (cases x; cases y) (auto simp: less_eq_FirmwareUpdateChannel_def less_FirmwareUpdateChannel_def)
  show "x \<le> x"
    by (cases x) (auto simp: less_eq_FirmwareUpdateChannel_def)
  show "x \<le> y \<Longrightarrow> y \<le> z \<Longrightarrow> x \<le> z"
    by (auto simp: less_eq_FirmwareUpdateChannel_def)
  show "x \<le> y \<Longrightarrow> y \<le> x \<Longrightarrow> x = y"
    by (auto simp: less_eq_FirmwareUpdateChannel_def)
  show "x \<le> y \<or> y \<le> x"
    by (cases x; cases y) (auto simp: less_eq_FirmwareUpdateChannel_def)
qed

end

lemma eligible_le: "(if channel = Beta then True else c = Production) \<longleftrightarrow> c \<le> channel"
  by (cases channel; cases c) (auto simp: less_eq_FirmwareUpdateChannel_def)

definition wf_release :: "FirmwareRelease \<Rightarrow> bool" where
  "wf_release r \<longleftrightarrow> wf_version (fr_version r) \<and> fr_versionText r = fv_text (fr_version r) \<and>
     fr_channel r = (if fv_isBeta (fr_version r) then Beta else Production)"

lemma normalize_release_cases:
  "(\<exists>r. normalize_release g = Inr r \<and> wf_release r \<and> fr_tagName r = gr_tag_name g \<and>
      \<not> gr_draft g \<and> gr_prerelease g = fv_isBeta (fr_version r) \<and>
      parseFirmwareVersion (gr_tag_name g) = Some (fr_version r)) \<or>
   (\<exists>e. normalize_release g = Inl e \<and> (gr_draft g \<or> (case parseFirmwareVersion (gr_tag_name g) of
      None \<Rightarrow> True | Some v \<Rightarrow> fv_isBeta v \<noteq> gr_prerelease g)))"
proof (cases "parseFirmwareVersion (gr_tag_name g)")
  case None
  then show ?thesis
    by (simp add: normalize_release_def)
next
  case (Some v)
  then have "wf_version v"
    by (rule parse_version_SomeD)
  then show ?thesis
    using Some by (auto simp: normalize_release_def wf_release_def wf_version_def)
qed

text \<open>A release that can be offered: published, with a version tag, its beta tag agreeing with GitHub's
  prerelease mark.\<close>

definition publishable :: "GitHubRelease \<Rightarrow> bool" where
  "publishable g \<longleftrightarrow> \<not> gr_draft g \<and> (case parseFirmwareVersion (gr_tag_name g) of
     None \<Rightarrow> False | Some v \<Rightarrow> fv_isBeta v = gr_prerelease g)"

text \<open>Normalising the GitHub releases keeps exactly the publishable ones, in order, and accounts for
  every other one with a logged reason. What it keeps is consistent: a well-formed version, its text,
  and the beta channel exactly for beta versions.\<close>

lemma normalizeGitHubFirmwareReleases_keeps:
  "let (kept, logged) = normalizeGitHubFirmwareReleases releases in
     map fr_tagName kept = map gr_tag_name (filter publishable releases) \<and>
     list_all wf_release kept \<and>
     map (\<lambda>r. Some (fr_version r)) kept =
       map (\<lambda>g. parseFirmwareVersion (gr_tag_name g)) (filter publishable releases) \<and>
     length kept + length logged = length releases"
proof (induction releases)
  case (Cons g gs)
  show ?case
    using normalize_release_cases[of g] Cons
    by (auto simp: publishable_def split: prod.splits option.splits)
qed simp

text \<open>The newest of the releases a channel may take.\<close>

definition newest_for :: "FirmwareUpdateChannel \<Rightarrow> FirmwareRelease list \<Rightarrow> FirmwareRelease \<Rightarrow> bool" where
  "newest_for channel releases r \<longleftrightarrow> r \<in> set releases \<and> fr_channel r \<le> channel \<and>
     (\<forall>q \<in> set releases. fr_channel q \<le> channel \<longrightarrow> \<not> isFirmwareVersionNewer (fr_version q) (fr_version r))"

lemma selectReleaseForChannel_newest:
  assumes "list_all wf_release releases"
  shows "case selectReleaseForChannel releases channel of
      None \<Rightarrow> \<forall>r \<in> set releases. \<not> fr_channel r \<le> channel
    | Some r \<Rightarrow> newest_for channel releases r"
proof -
  let ?el = "filter (\<lambda>r. fr_channel r \<le> channel) releases"
  let ?hd = "hd (js_sort (\<lambda>left right. compareFirmwareVersions (fr_version right) (fr_version left)) ?el)"
  have sel: "selectReleaseForChannel releases channel = (if ?el = [] then None else Some ?hd)"
    unfolding selectReleaseForChannel_def Let_def eligible_le ..
  show ?thesis
  proof (cases "?el = []")
    case True
    then show ?thesis
      unfolding sel by (simp add: filter_empty_conv)
  next
    case False
    have ok: "list_all (\<lambda>r. wf_version (fr_version r)) ?el"
      using assms by (auto simp: list_all_iff wf_release_def)
    have h: "?hd \<in> set ?el" "\<forall>y \<in> set ?el. compareFirmwareVersions (fr_version y) (fr_version ?hd) \<le> 0"
      using newest_first.js_sort_hd(1,2)[OF ok False] by blast+
    then show ?thesis
      unfolding sel using False by (auto simp: newest_for_def isFirmwareVersionNewer_def not_less)
  qed
qed

text \<open>C23: an update is offered exactly when it should be. For releases the normalisation produced: the
  decision names a release only if that is a newest one the channel may take (the production channel
  takes no beta), it is newer than the installed firmware, and it was not suppressed; otherwise it
  gives the reason, and \<open>No_update Not_newer\<close> means no release of the channel is newer.\<close>

theorem checkForFirmwareUpdate_sound:
  assumes "list_all wf_release releases" "parseFirmwareVersion installed = Some v"
  shows "case checkForFirmwareUpdate installed channel releases suppressed of
      Update_available txt r \<Rightarrow> txt = fv_text v \<and> newest_for channel releases r \<and>
        isFirmwareVersionNewer (fr_version r) v \<and> \<not> suppressed (fr_versionText r) \<and>
        (channel = Production \<longrightarrow> fv_isStable (fr_version r))
    | No_update reason \<Rightarrow> (case reason of
        No_release \<Rightarrow> \<forall>r \<in> set releases. \<not> fr_channel r \<le> channel
      | Not_newer \<Rightarrow> \<forall>r \<in> set releases. fr_channel r \<le> channel \<longrightarrow> \<not> isFirmwareVersionNewer (fr_version r) v
      | Suppressed \<Rightarrow> \<exists>r. newest_for channel releases r \<and> suppressed (fr_versionText r)
      | Invalid_installed_version \<Rightarrow> False)"
proof (cases "selectReleaseForChannel releases channel")
  case None
  then show ?thesis
    using selectReleaseForChannel_newest[OF assms(1), of channel] assms(2)
    by (simp add: checkForFirmwareUpdate_def)
next
  case (Some r)
  then have r: "newest_for channel releases r" "wf_release r"
    using selectReleaseForChannel_newest[OF assms(1), of channel] assms(1)
    by (auto simp: newest_for_def list_all_iff)
  have wf: "wf_version v" "wf_version (fr_version r)"
    using parse_version_SomeD(1)[OF assms(2)] r(2) by (simp_all add: wf_release_def)
  have stable: "channel = Production \<Longrightarrow> fv_isStable (fr_version r)"
    using r wf(2) by (auto simp: newest_for_def wf_release_def wf_version_def less_eq_FirmwareUpdateChannel_def split: if_splits)
  have older: "\<not> isFirmwareVersionNewer (fr_version q) v"
    if "\<not> isFirmwareVersionNewer (fr_version r) v" "q \<in> set releases" "fr_channel q \<le> channel" for q
  proof -
    have "wf_version (fr_version q)" "\<not> isFirmwareVersionNewer (fr_version q) (fr_version r)"
      using that r(1) assms(1) by (auto simp: newest_for_def list_all_iff wf_release_def)
    then show ?thesis
      using that(1) compareFirmwareVersions_sign(3)[OF \<open>wf_version (fr_version q)\<close> wf(1)]
        compareFirmwareVersions_sign(3)[OF wf(2) wf(1)]
        compareFirmwareVersions_sign(3)[OF \<open>wf_version (fr_version q)\<close> wf(2)]
        key_less_total key_less_trans unfolding isFirmwareVersionNewer_def by metis
  qed
  show ?thesis
    using Some assms(2) r(1) stable older by (auto simp: checkForFirmwareUpdate_def)
qed

text \<open>A device on 1.0.0 with a draft, a beta and a stable release: production takes the stable one.\<close>

definition sample_releases :: "GitHubRelease list" where
  "sample_releases =
     [\<lparr>gr_tag_name = ''v9.0.0'', gr_draft = True, gr_prerelease = False, gr_name = None, gr_html_url = None, gr_assets = None\<rparr>,
      \<lparr>gr_tag_name = ''v1.2.0-beta.1'', gr_draft = False, gr_prerelease = True, gr_name = None, gr_html_url = None, gr_assets = None\<rparr>,
      \<lparr>gr_tag_name = ''v1.1.0'', gr_draft = False, gr_prerelease = False, gr_name = None, gr_html_url = None, gr_assets = None\<rparr>]"

lemma checkForFirmwareUpdate_sound_witness:
  "case checkForFirmwareUpdate ''1.0.0'' Production (fst (normalizeGitHubFirmwareReleases sample_releases)) (\<lambda>_. False) of
     Update_available txt r \<Rightarrow> txt = ''1.0.0'' \<and> fr_tagName r = ''v1.1.0'' \<and> fv_isStable (fr_version r)
   | No_update _ \<Rightarrow> False"
proof -
  let ?rs = "fst (normalizeGitHubFirmwareReleases sample_releases)"
  have wf: "list_all wf_release ?rs"
    by code_simp
  have "case parseFirmwareVersion ''1.0.0'' of None \<Rightarrow> False | Some v \<Rightarrow> fv_text v = ''1.0.0''"
    by code_simp
  then obtain v where v: "parseFirmwareVersion ''1.0.0'' = Some v" "fv_text v = ''1.0.0''"
    by (auto split: option.splits)
  have "case checkForFirmwareUpdate ''1.0.0'' Production ?rs (\<lambda>_. False) of
      Update_available txt r \<Rightarrow> fr_tagName r = ''v1.1.0'' | No_update _ \<Rightarrow> False"
    by code_simp
  then show ?thesis
    using checkForFirmwareUpdate_sound[OF wf v(1), of Production "\<lambda>_. False"] v(2)
    by (auto split: FirmwareUpdateDecision.splits)
qed

end
