(* ===== verification/Crc32.thy ===== *)
theory Crc32
  imports Pd_Messages
begin

text \<open>
  The two CRC-32 routines: \<open>computeCRC32\<close> of \<open>usb-pd/messageBase.ts\<close> (modelled in
  \<open>Pd_Messages\<close>) and \<open>crc32\<close> of \<open>device/drpd/firmwareUpdate.ts\<close>. They are written over
  JavaScript's 32-bit operators; a shift register on \<open>32 word\<close> is their common reference. On the
  reference: the register step is linear and injective, so the CRC detects every error burst of up
  to four bytes.
\<close>

section \<open>The routine of the firmware upload\<close>

fun crc32_bits :: "nat \<Rightarrow> int \<Rightarrow> int" where
  "crc32_bits 0 crc = crc"
| "crc32_bits (Suc left) crc =
     crc32_bits left (js_xor (js_ushr crc 1) (if js_and crc 1 \<noteq> 0 then 0xedb88320 else 0))"

fun crc32_loop :: "bytes \<Rightarrow> int \<Rightarrow> int" where
  "crc32_loop [] crc = crc"
| "crc32_loop (b # bs) crc = crc32_loop bs (crc32_bits 8 (js_xor crc (uint b)))"

definition crc32 :: "bytes \<Rightarrow> int" where
  "crc32 bs = js_ushr (js_not (crc32_loop bs 0xffffffff)) 0"

section \<open>The shift register\<close>

definition crc_step :: "32 word \<Rightarrow> 32 word" where
  "crc_step c = (if bit c 0 then drop_bit 1 c XOR 0xedb88320 else drop_bit 1 c)"

fun crc_feed :: "bytes \<Rightarrow> 32 word \<Rightarrow> 32 word" where
  "crc_feed [] c = c"
| "crc_feed (b # bs) c = crc_feed bs ((crc_step ^^ 8) (c XOR ucast b))"

definition crc_word :: "bytes \<Rightarrow> 32 word" where
  "crc_word bs = NOT (crc_feed bs 0xffffffff)"

text \<open>JavaScript's operators on integers, read as operations on words.\<close>

lemma word_of_int_js_xor: "(word_of_int (js_xor a b) :: 32 word) = word_of_int a XOR word_of_int b"
  by (rule bit_word_eqI) (simp add: js_xor_def to_int32_def bit_simps)

lemma word_of_int_js_not: "(word_of_int (js_not a) :: 32 word) = NOT (word_of_int a)"
  by (rule bit_word_eqI) (simp add: js_not_def to_int32_def bit_simps)

lemma word_of_int_js_ushr: "0 \<le> n \<Longrightarrow> n < 32 \<Longrightarrow>
   (word_of_int (js_ushr a n) :: 32 word) = drop_bit (nat n) (word_of_int a)"
  by (rule bit_word_eqI) (auto simp: js_ushr_def to_uint32_def bit_simps)

lemma js_ushr_0: "js_ushr a 0 = uint (word_of_int a :: 32 word)"
  by (simp add: js_ushr_def to_uint32_def uint_word_of_int take_bit_eq_mod)

lemma js_and_1_bit: "js_and a 1 = of_bool (bit (word_of_int a :: 32 word) 0)"
  by (simp add: js_and_1 bit_simps) (simp add: bit_0 odd_iff_mod_2_eq_one)

lemma crc_step_js:
  "crc_step (word_of_int a) = word_of_int (if js_and a 1 = 1 then js_xor (js_ushr a 1) 0xedb88320 else js_ushr a 1)"
  "crc_step (word_of_int a) = word_of_int (js_xor (js_ushr a 1) (if js_and a 1 \<noteq> 0 then 0xedb88320 else 0))"
  by (simp_all add: crc_step_def js_and_1_bit word_of_int_js_xor word_of_int_js_ushr)

lemma crc_bits_word: "(word_of_int (crc_bits n a) :: 32 word) = (crc_step ^^ n) (word_of_int a)"
  by (induction n arbitrary: a) (simp_all add: crc_step_js(1) funpow_Suc_right del: funpow.simps(2))

lemma crc32_bits_word: "(word_of_int (crc32_bits n a) :: 32 word) = (crc_step ^^ n) (word_of_int a)"
  by (induction n arbitrary: a) (simp_all add: crc_step_js(2) funpow_Suc_right del: funpow.simps(2))

lemma loops_word:
  "(word_of_int (computeCRC32_loop bs a) :: 32 word) = crc_feed bs (word_of_int a)"
  "(word_of_int (crc32_loop bs a) :: 32 word) = crc_feed bs (word_of_int a)"
  by (induction bs arbitrary: a)
    (simp_all add: crc_bits_word crc32_bits_word word_of_int_js_xor word_of_int_uint del: funpow.simps(2))

lemma computeCRC32_word: "computeCRC32 bs = uint (crc_word bs)"
proof -
  have "(4294967295 :: 32 word) = - 1"
    by simp
  moreover have "c XOR - 1 = NOT c" for c :: "32 word"
    by simp
  ultimately have ones: "c XOR 4294967295 = NOT c" for c :: "32 word"
    by metis
  show ?thesis
    by (simp add: computeCRC32_def js_ushr_0 word_of_int_js_xor loops_word crc_word_def ones)
qed

lemma crc32_word: "crc32 bs = uint (crc_word bs)"
  by (simp add: crc32_def js_ushr_0 word_of_int_js_not loops_word crc_word_def)

section \<open>Burst errors\<close>

lemma crc_step_xor: "crc_step (a XOR b) = crc_step a XOR crc_step b"
  by (rule bit_word_eqI) (auto simp: crc_step_def bit_simps)

lemma crc_step_0 [simp]: "crc_step 0 = 0"
  by (simp add: crc_step_def)

lemma crc_step_eq_0:
  assumes "crc_step c = 0"
  shows "c = 0"
proof -
  have "bit (crc_step c) 31 = bit c 0"
    by (auto simp: crc_step_def bit_simps dest: bit_imp_le_length)
  then have b: "\<not> bit c 0"
    using assms by simp
  then have "drop_bit 1 c = 0"
    using assms by (simp add: crc_step_def)
  then have "\<not> bit (drop_bit 1 c) n" for n
    by simp
  then have s: "\<not> bit c (Suc n)" for n
    by (simp add: bit_drop_bit_eq)
  have "\<not> bit c n" for n
    using b s by (cases n) simp_all
  then show "c = 0"
    by (intro bit_word_eqI) simp
qed

lemma crc_steps_xor: "(crc_step ^^ n) (a XOR b) = (crc_step ^^ n) a XOR (crc_step ^^ n) b"
  by (induction n) (simp_all add: crc_step_xor)

lemma crc_steps_eq_0: "(crc_step ^^ n) c = 0 \<Longrightarrow> c = 0"
  by (induction n) (auto dest: crc_step_eq_0)

lemma crc_steps_inj: "(crc_step ^^ n) a = (crc_step ^^ n) b \<longleftrightarrow> a = b"
proof
  assume "(crc_step ^^ n) a = (crc_step ^^ n) b"
  then have "(crc_step ^^ n) (a XOR b) = 0"
    by (simp add: crc_steps_xor)
  then have "a XOR b = 0"
    by (rule crc_steps_eq_0)
  then have "(a XOR b) XOR b = b"
    by simp
  then show "a = b"
    by (simp add: xor.assoc)
qed simp

lemma crc_feed_append: "crc_feed (xs @ ys) c = crc_feed ys (crc_feed xs c)"
  by (induction xs arbitrary: c) simp_all

lemma crc_feed_inj: "crc_feed bs c = crc_feed bs d \<longleftrightarrow> c = d"
proof -
  have "a = b" if "a XOR z = b XOR z" for a b z :: "32 word"
  proof -
    have "(a XOR z) XOR z = (b XOR z) XOR z"
      using that by simp
    then show ?thesis
      by (simp add: xor.assoc)
  qed
  then have "(a XOR z = b XOR z) = (a = b)" for a b z :: "32 word"
    by blast
  then show ?thesis
    by (induction bs arbitrary: c d) (simp_all add: crc_steps_inj del: funpow.simps(2))
qed

text \<open>Feeding up to four bytes is adding them to the register and shifting.\<close>

fun le_word :: "bytes \<Rightarrow> 32 word" where
  "le_word [] = 0"
| "le_word (b # bs) = ucast b XOR push_bit 8 (le_word bs)"

lemma le_word_high: "n \<ge> 8 * length bs \<Longrightarrow> \<not> bit (le_word bs) n"
  by (induction bs arbitrary: n) (auto simp: bit_simps dest: bit_imp_le_length)

lemma crc_step_shift: "\<not> bit c 0 \<Longrightarrow> crc_step c = drop_bit 1 c"
  by (simp add: crc_step_def)

lemma crc_steps_shift: "(\<And>i. i < n \<Longrightarrow> \<not> bit c i) \<Longrightarrow> (crc_step ^^ n) c = drop_bit n c"
proof (induction n)
  case (Suc n)
  then have "(crc_step ^^ n) c = drop_bit n c"
    by simp
  moreover have "\<not> bit (drop_bit n c) 0"
    using Suc.prems[of n] by (simp add: bit_drop_bit_eq)
  ultimately show ?case
    by (simp add: crc_step_shift)
qed simp

lemma crc_feed_le_word:
  "length bs \<le> 4 \<Longrightarrow> crc_feed bs c = (crc_step ^^ (8 * length bs)) (c XOR le_word bs)"
proof (induction bs arbitrary: c)
  case (Cons b bs)
  let ?w = "le_word bs"
  have "(crc_step ^^ 8) (push_bit 8 ?w) = drop_bit 8 (push_bit 8 ?w)"
    by (rule crc_steps_shift) (simp add: bit_simps)
  also have "\<dots> = ?w"
    using le_word_high[of bs] Cons.prems
    by (intro bit_word_eqI) (auto simp: bit_simps intro: ccontr)
  finally have w: "(crc_step ^^ 8) (push_bit 8 ?w) = ?w" .
  have "crc_feed (b # bs) c = (crc_step ^^ (8 * length bs)) ((crc_step ^^ 8) (c XOR ucast b) XOR ?w)"
    using Cons by (simp del: funpow.simps(2))
  also have "\<dots> = (crc_step ^^ (8 * length bs)) ((crc_step ^^ 8) ((c XOR ucast b) XOR push_bit 8 ?w))"
    by (simp only: crc_steps_xor[of 8] w)
  also have "\<dots> = (crc_step ^^ (8 * length bs + 8)) (c XOR le_word (b # bs))"
    by (simp only: funpow_add comp_apply le_word.simps xor.assoc)
  finally show ?case
    by (simp only: list.size mult_Suc_right add.commute add_0_right) (simp add: add.commute)
qed simp

lemma le_word_inj: "length xs = length ys \<Longrightarrow> length xs \<le> 4 \<Longrightarrow> le_word xs = le_word ys \<Longrightarrow> xs = ys"
proof (induction xs ys rule: list_induct2)
  case (Cons x xs y ys)
  have "bit x n = bit y n" for n
  proof (cases "n < 8")
    case True
    have "bit (le_word (x # xs)) n = bit (le_word (y # ys)) n"
      using Cons.prems by simp
    then show ?thesis
      using True by (simp add: bit_simps)
  qed (auto dest: bit_imp_le_length)
  then have x: "x = y"
    by (intro bit_word_eqI) simp
  have "bit (le_word xs) n = bit (le_word ys) n" for n
  proof (cases "n < 24")
    case True
    have "bit (le_word (x # xs)) (n + 8) = bit (le_word (y # ys)) (n + 8)"
      using Cons.prems by simp
    then show ?thesis
      using True by (auto simp: bit_simps dest: bit_imp_le_length)
  qed (use Cons.hyps Cons.prems le_word_high[of xs n] le_word_high[of ys n] in auto)
  then have "le_word xs = le_word ys"
    by (intro bit_word_eqI) simp
  with Cons x show ?case
    by simp
qed simp

lemma crc_word_burst:
  assumes "length x = length y" "length x \<le> 4"
  shows "crc_word (p @ x @ q) = crc_word (p @ y @ q) \<longleftrightarrow> x = y"
proof
  assume "crc_word (p @ x @ q) = crc_word (p @ y @ q)"
  then have "crc_feed x (crc_feed p 0xffffffff) = crc_feed y (crc_feed p 0xffffffff)"
    by (simp add: crc_word_def crc_feed_append crc_feed_inj)
  then have "crc_feed p 0xffffffff XOR le_word x = crc_feed p 0xffffffff XOR le_word y"
    using assms by (simp only: crc_feed_le_word crc_steps_inj)
  then have "crc_feed p 0xffffffff XOR (crc_feed p 0xffffffff XOR le_word x) =
      crc_feed p 0xffffffff XOR (crc_feed p 0xffffffff XOR le_word y)"
    by simp
  then have "le_word x = le_word y"
    by (simp add: xor.assoc [symmetric])
  then show "x = y"
    using assms le_word_inj by blast
qed simp

section \<open>Properties\<close>

text \<open>C24: the checksum of the firmware upload is the one the message decoder checks captured messages
  against. Both compute the 32-bit shift register, for every byte sequence.\<close>

theorem crc32_equals_computeCRC32:
  "crc32 bs = computeCRC32 bs \<and> crc32 bs = uint (crc_word bs)"
  by (simp add: crc32_word computeCRC32_word)

text \<open>The checksums detect every error burst of up to four bytes. Replacing at most four bytes in a
  row, anywhere in the data, changes both checksums unless the bytes stay the same.\<close>

lemma crc32_detects_bursts:
  assumes "length x = length y" "length x \<le> 4"
  shows "(crc32 (p @ x @ q) = crc32 (p @ y @ q) \<longleftrightarrow> x = y) \<and>
    (computeCRC32 (p @ x @ q) = computeCRC32 (p @ y @ q) \<longleftrightarrow> x = y)"
  using crc_word_burst[OF assms, of p q] by (simp only: crc32_word computeCRC32_word word_uint_eq_iff)

lemma crc32_detects_bursts_witness:
  "crc32 [1, 2, 3, 4, 5, 6] \<noteq> crc32 [1, 2, 3, 9, 5, 6] \<and>
   computeCRC32 [1, 2, 3, 4, 5, 6] \<noteq> computeCRC32 [1, 2, 3, 9, 5, 6]"
  using crc32_detects_bursts[of "[3, 4]" "[3, 9]" "[1, 2]" "[5, 6]"] by simp

end
