(* ===== verification/Firmware_Image.thy ===== *)
theory Firmware_Image
  imports Crc32 Js_Sort Winusb
begin

text \<open>
  The firmware image, \<open>device/drpd/firmwareUpdate.ts\<close>: parsing a UF2 file into the write chunks of the
  application region, and handing them to the transport. Offsets are JavaScript integers, a
  \<open>DataView\<close> read is the little-endian value of four bytes, and \<open>Uint8Array.set\<close> past the end of the
  target is the error it throws.
\<close>

definition DRPD_APPLICATION_FLASH_OFFSET_BYTES :: int where
  "DRPD_APPLICATION_FLASH_OFFSET_BYTES = 0x00008000"
definition DRPD_APPLICATION_XIP_BASE :: int where
  "DRPD_APPLICATION_XIP_BASE = 0x10000000 + DRPD_APPLICATION_FLASH_OFFSET_BYTES"
definition DRPD_PERSISTENT_CONFIG_FLASH_SIZE_BYTES :: int where
  "DRPD_PERSISTENT_CONFIG_FLASH_SIZE_BYTES = 4096"
definition DRPD_FLASH_SIZE_BYTES :: int where
  "DRPD_FLASH_SIZE_BYTES = 4 * 1024 * 1024"
definition DRPD_APPLICATION_MAX_LENGTH_BYTES :: int where
  "DRPD_APPLICATION_MAX_LENGTH_BYTES =
     DRPD_FLASH_SIZE_BYTES - DRPD_APPLICATION_FLASH_OFFSET_BYTES - DRPD_PERSISTENT_CONFIG_FLASH_SIZE_BYTES"

definition UF2_MAGIC_START0 :: int where "UF2_MAGIC_START0 = 0x0a324655"
definition UF2_MAGIC_START1 :: int where "UF2_MAGIC_START1 = 0x9e5d5157"
definition UF2_MAGIC_END :: int where "UF2_MAGIC_END = 0x0ab16f30"
definition UF2_BLOCK_SIZE :: nat where "UF2_BLOCK_SIZE = 512"
definition UF2_PAYLOAD_OFFSET :: nat where "UF2_PAYLOAD_OFFSET = 32"
definition UF2_MAX_PAYLOAD_SIZE :: int where "UF2_MAX_PAYLOAD_SIZE = 476"
definition MAX_UPDATE_CHUNK_BYTES :: nat where "MAX_UPDATE_CHUNK_BYTES = 256"

lemmas flash_consts = DRPD_APPLICATION_FLASH_OFFSET_BYTES_def DRPD_APPLICATION_XIP_BASE_def
  DRPD_PERSISTENT_CONFIG_FLASH_SIZE_BYTES_def DRPD_FLASH_SIZE_BYTES_def
  DRPD_APPLICATION_MAX_LENGTH_BYTES_def
lemmas uf2_consts = UF2_MAGIC_START0_def UF2_MAGIC_START1_def UF2_MAGIC_END_def UF2_BLOCK_SIZE_def
  UF2_PAYLOAD_OFFSET_def UF2_MAX_PAYLOAD_SIZE_def

datatype uf2_error =
    Not_a_valid_UF2_file
  | Invalid_UF2_block
  | Invalid_UF2_payload_size
  | Writes_outside_application_region
  | No_application_region_blocks
  | Range_error

record Uf2PayloadBlock =
  ub_offset :: int
  ub_data :: bytes

record ParsedFirmwareImage =
  fi_baseOffset :: int
  fi_totalLength :: int
  fi_crc32 :: int
  fi_chunks :: "Uf2PayloadBlock list"

definition getUint32 :: "bytes \<Rightarrow> nat \<Rightarrow> int" where
  "getUint32 view offset = le_val (sub_array view offset (offset + 4))"

text \<open>One 512-byte block: skipped (\<open>None\<close>), a payload for the application region, or the error.\<close>

definition parse_uf2_block :: "bytes \<Rightarrow> uf2_error + Uf2PayloadBlock option" where
  "parse_uf2_block view =
     (if getUint32 view 0 \<noteq> UF2_MAGIC_START0 \<or> getUint32 view 4 \<noteq> UF2_MAGIC_START1 \<or>
         getUint32 view 508 \<noteq> UF2_MAGIC_END then Inl Invalid_UF2_block
      else let targetAddress = getUint32 view 12; payloadSize = getUint32 view 16
      in if payloadSize = 0 \<or> payloadSize > UF2_MAX_PAYLOAD_SIZE then Inl Invalid_UF2_payload_size
         else if targetAddress < DRPD_APPLICATION_XIP_BASE then Inr None
         else if targetAddress \<ge> 0x10000000 + DRPD_FLASH_SIZE_BYTES then Inr None
         else let appOffset = targetAddress - 0x10000000; appEnd = appOffset + payloadSize
         in if appOffset < DRPD_APPLICATION_FLASH_OFFSET_BYTES \<or>
               appEnd > DRPD_APPLICATION_FLASH_OFFSET_BYTES + DRPD_APPLICATION_MAX_LENGTH_BYTES then
              Inl Writes_outside_application_region
            else Inr (Some \<lparr>ub_offset = appOffset,
              ub_data = sub_array view UF2_PAYLOAD_OFFSET (UF2_PAYLOAD_OFFSET + nat payloadSize)\<rparr>))"

function parse_uf2_blocks :: "bytes \<Rightarrow> nat \<Rightarrow> uf2_error + Uf2PayloadBlock list" where
  "parse_uf2_blocks bs offset =
     (if offset < length bs then
        res_bind (parse_uf2_block (sub_array bs offset (offset + UF2_BLOCK_SIZE))) (\<lambda>block.
        res_bind (parse_uf2_blocks bs (offset + UF2_BLOCK_SIZE)) (\<lambda>blocks.
          Inr (case block of None \<Rightarrow> blocks | Some b \<Rightarrow> b # blocks)))
      else Inr [])"
  by pat_completeness auto
termination
  by (relation "measure (\<lambda>(bs, offset). length bs - offset)") (auto simp: UF2_BLOCK_SIZE_def)

declare parse_uf2_blocks.simps [simp del]

fun mergeContiguousBlocks_loop :: "Uf2PayloadBlock list \<Rightarrow> Uf2PayloadBlock list \<Rightarrow> Uf2PayloadBlock list" where
  "mergeContiguousBlocks_loop merged [] = merged"
| "mergeContiguousBlocks_loop merged (block # blocks) =
     (let previous = last merged
      in if merged \<noteq> [] \<and> ub_offset previous + int (length (ub_data previous)) = ub_offset block \<and>
            length (ub_data previous) + length (ub_data block) \<le> MAX_UPDATE_CHUNK_BYTES then
           mergeContiguousBlocks_loop
             (butlast merged @ [previous\<lparr>ub_data := ub_data previous @ ub_data block\<rparr>]) blocks
         else mergeContiguousBlocks_loop (merged @ [block]) blocks)"

definition mergeContiguousBlocks :: "Uf2PayloadBlock list \<Rightarrow> Uf2PayloadBlock list" where
  "mergeContiguousBlocks blocks = mergeContiguousBlocks_loop [] blocks"

text \<open>\<open>target.set(data, offset)\<close>.\<close>

definition typed_array_set :: "bytes \<Rightarrow> bytes \<Rightarrow> int \<Rightarrow> uf2_error + bytes" where
  "typed_array_set target data offset =
     (if offset < 0 \<or> offset + int (length data) > int (length target) then Inl Range_error
      else Inr (take (nat offset) target @ data @ drop (nat offset + length data) target))"

fun fill_image :: "bytes \<Rightarrow> int \<Rightarrow> Uf2PayloadBlock list \<Rightarrow> uf2_error + bytes" where
  "fill_image imageBytes firstOffset [] = Inr imageBytes"
| "fill_image imageBytes firstOffset (block # merged) =
     res_bind (typed_array_set imageBytes (ub_data block) (ub_offset block - firstOffset))
       (\<lambda>imageBytes. fill_image imageBytes firstOffset merged)"

definition assemble_image :: "Uf2PayloadBlock list \<Rightarrow> uf2_error + ParsedFirmwareImage" where
  "assemble_image blocks =
     (if blocks = [] then Inl No_application_region_blocks
      else let merged = mergeContiguousBlocks (js_sort (\<lambda>a b. ub_offset a - ub_offset b) blocks);
          firstOffset = ub_offset (hd merged);
          last = last merged;
          totalLength = ub_offset last + int (length (ub_data last)) - firstOffset
      in res_bind (fill_image (replicate (nat totalLength) 0xff) firstOffset merged) (\<lambda>imageBytes.
           Inr \<lparr>fi_baseOffset = firstOffset, fi_totalLength = totalLength,
             fi_crc32 = crc32 imageBytes, fi_chunks = merged\<rparr>))"

definition parseDRPDFirmwareUF2 :: "bytes \<Rightarrow> uf2_error + ParsedFirmwareImage" where
  "parseDRPDFirmwareUF2 bs =
     (if length bs = 0 \<or> length bs mod UF2_BLOCK_SIZE \<noteq> 0 then Inl Not_a_valid_UF2_file
      else res_bind (parse_uf2_blocks bs 0) assemble_image)"

section \<open>The upload\<close>

definition firmware_request :: "ParsedFirmwareImage \<Rightarrow> DRPDFirmwareUpdateRequest" where
  "firmware_request parsed =
     \<lparr>ur_baseOffset = fi_baseOffset parsed, ur_totalLength = fi_totalLength parsed,
      ur_crc32 = fi_crc32 parsed,
      ur_chunks = map (\<lambda>b. \<lparr>uc_offset = ub_offset b, uc_data = ub_data b\<rparr>) (fi_chunks parsed)\<rparr>"

datatype upload_error = Requires_winusb_transport | Firmware_image_error uf2_error

text \<open>The transport's \<open>updateFirmware\<close>, where it has one; the result is the run of that method, or the
  error thrown before it.\<close>

definition uploadDRPDFirmwareUF2 ::
  "(DRPDFirmwareUpdateRequest \<Rightarrow> 'r) option \<Rightarrow> bytes \<Rightarrow> upload_error + 'r" where
  "uploadDRPDFirmwareUF2 transport img =
     (case transport of
        None \<Rightarrow> Inl Requires_winusb_transport
      | Some update \<Rightarrow>
          (case parseDRPDFirmwareUF2 img of
             Inl e \<Rightarrow> Inl (Firmware_image_error e)
           | Inr parsed \<Rightarrow> Inr (update (firmware_request parsed))))"

end
