(* ===== verification/Firmware_Image_Laws.thy ===== *)
theory Firmware_Image_Laws
  imports Firmware_Image
begin

text \<open>
  The firmware image against an abstract flash memory. A list of blocks writes a partial map from
  addresses to bytes; merging keeps the map, sorting keeps it where blocks do not overlap, and the
  image whose checksum is sent is the map with erased bytes in the gaps.
\<close>

section \<open>The abstract flash\<close>

definition block_end :: "Uf2PayloadBlock \<Rightarrow> int" where
  "block_end b = ub_offset b + int (length (ub_data b))"

definition flash_write :: "Uf2PayloadBlock \<Rightarrow> (int \<Rightarrow> byte option) \<Rightarrow> int \<Rightarrow> byte option" where
  "flash_write b m a =
     (if ub_offset b \<le> a \<and> a < block_end b then Some (ub_data b ! nat (a - ub_offset b)) else m a)"

definition flash_of :: "Uf2PayloadBlock list \<Rightarrow> int \<Rightarrow> byte option" where
  "flash_of blocks = fold flash_write blocks (\<lambda>_. None)"

definition flash_byte :: "(int \<Rightarrow> byte option) \<Rightarrow> int \<Rightarrow> byte" where
  "flash_byte m a = (case m a of None \<Rightarrow> 0xff | Some b \<Rightarrow> b)"

definition separate :: "Uf2PayloadBlock \<Rightarrow> Uf2PayloadBlock \<Rightarrow> bool" where
  "separate a b \<longleftrightarrow> block_end a \<le> ub_offset b \<or> block_end b \<le> ub_offset a"

definition no_overlap :: "Uf2PayloadBlock list \<Rightarrow> bool" where
  "no_overlap blocks \<longleftrightarrow> (\<forall>a \<in> set blocks. \<forall>b \<in> set blocks. a = b \<or> separate a b)"

lemma flash_write_join:
  assumes "block_end b = ub_offset c"
  shows "flash_write c (flash_write b m) = flash_write (b\<lparr>ub_data := ub_data b @ ub_data c\<rparr>) m"
  using assms by (auto simp: flash_write_def block_end_def nth_append nat_less_iff fun_eq_iff
      intro!: arg_cong[where f = "\<lambda>i. ub_data c ! i"])

lemma flash_write_commute: "separate a b \<Longrightarrow> flash_write a \<circ> flash_write b = flash_write b \<circ> flash_write a"
  by (auto simp: separate_def flash_write_def fun_eq_iff)

lemma flash_of_mset: "no_overlap xs \<Longrightarrow> mset xs = mset ys \<Longrightarrow> flash_of xs = flash_of ys"
proof -
  assume a: "no_overlap xs" "mset xs = mset ys"
  have "flash_write x \<circ> flash_write y = flash_write y \<circ> flash_write x" if "x \<in> set xs" "y \<in> set xs" for x y
    using a(1) that flash_write_commute[of x y] by (cases "x = y") (auto simp: no_overlap_def)
  then have "fold flash_write xs = fold flash_write ys"
    using a(2) by (rule fold_multiset_equiv)
  then show ?thesis
    by (simp add: flash_of_def)
qed

lemma fold_flash_outside:
  "(\<forall>b \<in> set bs. \<not> (ub_offset b \<le> a \<and> a < block_end b)) \<Longrightarrow> fold flash_write bs m a = m a"
  by (induction bs arbitrary: m) (auto simp: flash_write_def)

section \<open>Merging\<close>

lemma merge_flash: "fold flash_write (mergeContiguousBlocks_loop acc bs) m = fold flash_write (acc @ bs) m"
proof (induction acc bs arbitrary: m rule: mergeContiguousBlocks_loop.induct)
  case (2 merged block blocks)
  let ?p = "last merged"
  show ?case
  proof (cases "merged \<noteq> [] \<and> ub_offset ?p + int (length (ub_data ?p)) = ub_offset block \<and>
            length (ub_data ?p) + length (ub_data block) \<le> MAX_UPDATE_CHUNK_BYTES")
    case True
    then have "merged = butlast merged @ [?p]" "block_end ?p = ub_offset block"
      by (simp_all add: block_end_def)
    then have "fold flash_write (merged @ block # blocks) m =
        fold flash_write (butlast merged @ [?p\<lparr>ub_data := ub_data ?p @ ub_data block\<rparr>] @ blocks) m"
      using flash_write_join[of ?p block] by (metis append_Cons append_Nil append_assoc fold_append fold_simps(2) comp_apply)
    then show ?thesis
      using 2(1)[OF refl True] True by (simp add: Let_def)
  next
    case False
    then show ?thesis
      using 2(2)[OF refl False] by (auto simp: Let_def)
  qed
qed simp

text \<open>Merging keeps every bound on the blocks, the first offset and the end of the last block.\<close>

definition block_in :: "int \<Rightarrow> int \<Rightarrow> Uf2PayloadBlock \<Rightarrow> bool" where
  "block_in lo hi b \<longleftrightarrow> lo \<le> ub_offset b \<and> block_end b \<le> hi \<and> ub_data b \<noteq> []"

lemma block_in_join:
  "block_in lo hi b \<Longrightarrow> block_in lo hi c \<Longrightarrow> block_end b = ub_offset c \<Longrightarrow>
   block_in lo hi (b\<lparr>ub_data := ub_data b @ ub_data c\<rparr>)"
  by (auto simp: block_in_def block_end_def)

lemma merge_block_in:
  "list_all (block_in lo hi) (acc @ bs) \<longleftrightarrow> list_all (block_in lo hi) (mergeContiguousBlocks_loop acc bs)"
  if "\<forall>b \<in> set (acc @ bs). ub_data b \<noteq> []"
  using that
proof (induction acc bs rule: mergeContiguousBlocks_loop.induct)
  case (2 merged block blocks)
  let ?p = "last merged"
  show ?case
  proof (cases "merged \<noteq> [] \<and> ub_offset ?p + int (length (ub_data ?p)) = ub_offset block \<and>
            length (ub_data ?p) + length (ub_data block) \<le> MAX_UPDATE_CHUNK_BYTES")
    case True
    then obtain ms p where ms: "merged = ms @ [p]"
      by (metis append_butlast_last_id)
    have "block_in lo hi (p\<lparr>ub_data := ub_data p @ ub_data block\<rparr>) \<longleftrightarrow> block_in lo hi p \<and> block_in lo hi block"
      using True ms 2(3) by (auto simp: block_in_def block_end_def)
    then show ?thesis
      using 2(1)[OF refl True] True ms 2(3) by (auto simp: Let_def)
  next
    case False
    then show ?thesis
      using 2(2)[OF refl False] 2(3) by (auto simp: Let_def)
  qed
qed simp

lemma merge_ends:
  "acc @ bs \<noteq> [] \<Longrightarrow> mergeContiguousBlocks_loop acc bs \<noteq> [] \<and>
     ub_offset (hd (mergeContiguousBlocks_loop acc bs)) = ub_offset (hd (acc @ bs)) \<and>
     block_end (last (mergeContiguousBlocks_loop acc bs)) = block_end (last (acc @ bs))"
proof (induction acc bs rule: mergeContiguousBlocks_loop.induct)
  case (2 merged block blocks)
  let ?p = "last merged"
  show ?case
  proof (cases "merged \<noteq> [] \<and> ub_offset ?p + int (length (ub_data ?p)) = ub_offset block \<and>
            length (ub_data ?p) + length (ub_data block) \<le> MAX_UPDATE_CHUNK_BYTES")
    case True
    then obtain ms p where ms: "merged = ms @ [p]"
      by (metis append_butlast_last_id)
    then show ?thesis
      using 2(1)[OF refl True] True by (auto simp: Let_def hd_append block_end_def)
  next
    case False
    then show ?thesis
      using 2(2)[OF refl False] by (auto simp: Let_def hd_append)
  qed
qed simp

section \<open>Filling the image\<close>

lemma typed_array_set_flash:
  assumes "block_in f (f + int (length arr)) b"
  shows "\<exists>arr'. typed_array_set arr (ub_data b) (ub_offset b - f) = Inr arr' \<and> length arr' = length arr \<and>
    (\<forall>i < length arr. arr' ! i = (if ub_offset b \<le> f + int i \<and> f + int i < block_end b
       then ub_data b ! nat (f + int i - ub_offset b) else arr ! i))"
proof -
  define k where "k = nat (ub_offset b - f)"
  have k: "ub_offset b = f + int k" "k + length (ub_data b) \<le> length arr"
    using assms by (auto simp: block_in_def block_end_def k_def)
  show ?thesis
    unfolding typed_array_set_def using k by (auto simp: nth_append block_end_def min_def nat_diff_distrib)
qed

lemma fill_image_flash:
  assumes "list_all (block_in f (f + int (length arr))) bs"
    and "\<forall>i < length arr. arr ! i = flash_byte m (f + int i)"
  shows "\<exists>arr'. fill_image arr f bs = Inr arr' \<and> length arr' = length arr \<and>
    (\<forall>i < length arr. arr' ! i = flash_byte (fold flash_write bs m) (f + int i))"
  using assms
proof (induction bs arbitrary: arr m)
  case (Cons b bs)
  then obtain arr1 where arr1: "typed_array_set arr (ub_data b) (ub_offset b - f) = Inr arr1"
      "length arr1 = length arr"
      "\<forall>i < length arr. arr1 ! i = (if ub_offset b \<le> f + int i \<and> f + int i < block_end b
         then ub_data b ! nat (f + int i - ub_offset b) else arr ! i)"
    using typed_array_set_flash[of f arr b] by auto
  then have "\<forall>i < length arr1. arr1 ! i = flash_byte (flash_write b m) (f + int i)"
    using Cons.prems(2) by (auto simp: flash_byte_def flash_write_def)
  then show ?case
    using Cons.IH[of arr1 "flash_write b m"] Cons.prems(1) arr1 by simp
qed simp

lemma fill_image_error:
  "\<not> list_all (block_in f (f + int (length arr))) bs \<Longrightarrow> \<forall>b \<in> set bs. ub_data b \<noteq> [] \<Longrightarrow>
     fill_image arr f bs = Inl Range_error"
proof (induction bs arbitrary: arr)
  case (Cons b bs)
  show ?case
  proof (cases "block_in f (f + int (length arr)) b")
    case True
    then obtain arr1 where "typed_array_set arr (ub_data b) (ub_offset b - f) = Inr arr1"
        "length arr1 = length arr"
      using typed_array_set_flash by blast
    then show ?thesis
      using Cons True by simp
  next
    case False
    then show ?thesis
      using Cons.prems(2) by (auto simp: typed_array_set_def block_in_def block_end_def)
  qed
qed simp

section \<open>Sorting\<close>

interpretation by_offset: sort_callback "\<lambda>a b. ub_offset a - ub_offset b" "\<lambda>_. True"
  by unfold_locales auto

abbreviation sorted_blocks :: "Uf2PayloadBlock list \<Rightarrow> Uf2PayloadBlock list" where
  "sorted_blocks blocks \<equiv> js_sort (\<lambda>a b. ub_offset a - ub_offset b) blocks"

lemma sorted_blocks_sorted: "sorted_wrt (\<lambda>a b. ub_offset a \<le> ub_offset b) (sorted_blocks blocks)"
  using by_offset.js_sort_sorted[of blocks] by (simp add: list_all_iff)

lemma sorted_hd_le: "sorted_wrt (\<lambda>a b. ub_offset a \<le> ub_offset b) bs \<Longrightarrow> b \<in> set bs \<Longrightarrow> ub_offset (hd bs) \<le> ub_offset b"
  by (cases bs) auto

lemma sorted_le_last: "sorted_wrt (\<lambda>a b. ub_offset a \<le> ub_offset b) bs \<Longrightarrow> b \<in> set bs \<Longrightarrow>
   b = last bs \<or> ub_offset b \<le> ub_offset (last bs)"
  by (induction bs) auto

lemma no_overlap_end_le_last:
  assumes "sorted_wrt (\<lambda>a b. ub_offset a \<le> ub_offset b) bs" "no_overlap bs" "\<forall>b \<in> set bs. ub_data b \<noteq> []" "b \<in> set bs"
  shows "block_end b \<le> block_end (last bs)"
proof (cases "b = last bs")
  case False
  have l: "last bs \<in> set bs"
    using assms(4) by (cases bs) auto
  then have "separate b (last bs)" "ub_data b \<noteq> []" "ub_data (last bs) \<noteq> []"
    using assms False by (auto simp: no_overlap_def)
  moreover have "ub_offset b \<le> ub_offset (last bs)"
    using sorted_le_last[OF assms(1,4)] False by blast
  moreover have "length (ub_data (last bs)) > 0"
    using calculation by simp
  ultimately show ?thesis
    by (auto simp: separate_def block_end_def)
qed simp

text \<open>Sorting any arrangement of a strictly sorted list gives that list.\<close>

lemma sorted_blocks_unique:
  assumes "mset bs = mset cs" "sorted_wrt (\<lambda>a b. ub_offset a < ub_offset b) cs"
  shows "sorted_blocks bs = cs"
proof -
  have c: "sorted (map ub_offset cs)" "distinct (map ub_offset cs)"
    using assms(2) strict_sorted_iff[of "map ub_offset cs"] by (simp_all add: sorted_wrt_map)
  have b: "sorted (map ub_offset (sorted_blocks bs))"
    using sorted_blocks_sorted by (simp add: sorted_wrt_map)
  have "mset (map ub_offset (sorted_blocks bs)) = mset (map ub_offset cs)"
    using assms(1) by simp
  then have "sort (map ub_offset cs) = map ub_offset (sorted_blocks bs)"
    using b by (rule properties_for_sort)
  moreover have "sort (map ub_offset cs) = map ub_offset cs"
    using refl c(1) by (rule properties_for_sort)
  ultimately have "map ub_offset (sorted_blocks bs) = map ub_offset cs"
    by (rule trans [OF sym])
  moreover have "set (sorted_blocks bs) = set cs"
    using mset_eq_setD[OF assms(1)] by simp
  moreover have "inj_on ub_offset (set cs)"
    using c(2) by (simp add: distinct_map)
  ultimately show ?thesis
    by (metis Un_absorb map_inj_on)
qed

section \<open>The blocks of a file\<close>

lemma uf2_size: "UF2_BLOCK_SIZE = 512"
  by (simp add: UF2_BLOCK_SIZE_def)

lemma getUint32_bounds: "0 \<le> getUint32 v i" "getUint32 v i < 2 ^ 32"
proof -
  have l: "length (sub_array v i (i + 4)) \<le> 4"
    by simp
  then have "(256 :: int) ^ length (sub_array v i (i + 4)) \<le> 256 ^ 4"
    by (intro power_increasing) auto
  then show "0 \<le> getUint32 v i" "getUint32 v i < 2 ^ 32"
    using le_val_bounds[of "sub_array v i (i + 4)"] unfolding getUint32_def by (simp_all)
qed

definition app_block :: "Uf2PayloadBlock \<Rightarrow> bool" where
  "app_block b \<longleftrightarrow> block_in DRPD_APPLICATION_FLASH_OFFSET_BYTES
     (DRPD_APPLICATION_FLASH_OFFSET_BYTES + DRPD_APPLICATION_MAX_LENGTH_BYTES) b \<and> length (ub_data b) \<le> 476"

lemma sub_array_Nil_iff: "sub_array xs a b = [] \<longleftrightarrow> b \<le> a \<or> length xs \<le> a"
  by (auto simp: sub_array_def)

lemma parse_uf2_block_app:
  assumes "parse_uf2_block v = Inr (Some b)" "length v = 512"
  shows "app_block b"
proof -
  have "0 \<le> getUint32 v 16"
    by (rule getUint32_bounds)
  then show ?thesis
    using assms by (auto simp: parse_uf2_block_def Let_def app_block_def block_in_def block_end_def
        flash_consts uf2_consts sub_array_Nil_iff split: if_splits)
qed

lemma parse_uf2_blocks_app:
  "parse_uf2_blocks bs k = Inr blocks \<Longrightarrow> 512 dvd length bs \<Longrightarrow> 512 dvd k \<Longrightarrow> list_all app_block blocks"
proof (induction bs k arbitrary: blocks rule: parse_uf2_blocks.induct)
  case (1 bs k)
  show ?case
  proof (cases "k < length bs")
    case True
    then obtain r rest where r: "parse_uf2_block (sub_array bs k (k + 512)) = Inr r"
        "parse_uf2_blocks bs (k + 512) = Inr rest"
        "blocks = (case r of None \<Rightarrow> rest | Some b \<Rightarrow> b # rest)"
      using 1(2) by (subst (asm) parse_uf2_blocks.simps) (auto simp: res_bind_Inr_iff UF2_BLOCK_SIZE_def)
    have "k + 512 \<le> length bs"
      using True 1(3,4) by (auto elim!: dvdE)
    then have "length (sub_array bs k (k + 512)) = 512"
      by simp
    then show ?thesis
      using parse_uf2_block_app[of "sub_array bs k (k + 512)"] r 1(1)[OF True r(2)[folded uf2_size]] 1(3,4)
      by (auto simp: UF2_BLOCK_SIZE_def split: option.splits)
  next
    case False
    then show ?thesis
      using 1(2) by (subst (asm) parse_uf2_blocks.simps) simp
  qed
qed

section \<open>Assembling the image\<close>

lemma assemble_image_flash:
  assumes "blocks \<noteq> []" "\<forall>b \<in> set blocks. ub_data b \<noteq> []"
    and "s = sorted_blocks blocks" "n = block_end (last s) - ub_offset (hd s)"
    and "m = mergeContiguousBlocks s"
  shows "if \<forall>b \<in> set blocks. block_end b \<le> block_end (last s)
     then assemble_image blocks = Inr \<lparr>fi_baseOffset = ub_offset (hd s), fi_totalLength = n,
         fi_crc32 = crc32 (map (\<lambda>i. flash_byte (flash_of s) (ub_offset (hd s) + int i)) [0..<nat n]), fi_chunks = m\<rparr>
     else assemble_image blocks = Inl Range_error"
proof -
  have s: "s \<noteq> []" "set s = set blocks" "sorted_wrt (\<lambda>a b. ub_offset a \<le> ub_offset b) s"
    using assms(1,3) sorted_blocks_sorted by auto
  have m: "m \<noteq> []" "ub_offset (hd m) = ub_offset (hd s)" "block_end (last m) = block_end (last s)"
      "flash_of m = flash_of s"
    using merge_ends[of "[]" s] merge_flash[of "[]" s] s(1) assms(5)
    by (auto simp: mergeContiguousBlocks_def flash_of_def)
  have inm: "list_all (block_in lo hi) m \<longleftrightarrow> list_all (block_in lo hi) s" for lo hi
    using merge_block_in[of "[]" s lo hi] assms(2,5) s(2) by (simp add: mergeContiguousBlocks_def)
  have "last s \<in> set s" "hd s \<in> set s"
    using s(1) by simp_all
  then have n: "0 \<le> n"
    using sorted_hd_le[OF s(3), of "last s"] assms(4) by (simp add: block_end_def)
  have all: "list_all (block_in (ub_offset (hd s)) (ub_offset (hd s) + int (length (replicate (nat n) (0xff :: byte))))) m
      \<longleftrightarrow> (\<forall>b \<in> set blocks. block_end b \<le> block_end (last s))"
    unfolding inm using sorted_hd_le[OF s(3)] n assms(2,4) s(2) by (auto simp: list_all_iff block_in_def)
  have e: "assemble_image blocks = res_bind (fill_image (replicate (nat n) 0xff) (ub_offset (hd s)) m)
      (\<lambda>imageBytes. Inr \<lparr>fi_baseOffset = ub_offset (hd s), fi_totalLength = n,
        fi_crc32 = crc32 imageBytes, fi_chunks = m\<rparr>)"
    using assms m(2,3) by (simp add: assemble_image_def Let_def block_end_def)
  show ?thesis
  proof (cases "\<forall>b \<in> set blocks. block_end b \<le> block_end (last s)")
    case True
    then obtain arr where arr: "fill_image (replicate (nat n) 0xff) (ub_offset (hd s)) m = Inr arr" "length arr = nat n"
        "\<forall>i < nat n. arr ! i = flash_byte (flash_of s) (ub_offset (hd s) + int i)"
      using fill_image_flash[OF all[THEN iffD2], of "\<lambda>_. None"] m(4) by (auto simp: flash_byte_def flash_of_def)
    then have "arr = map (\<lambda>i. flash_byte (flash_of s) (ub_offset (hd s) + int i)) [0..<nat n]"
      by (intro nth_equalityI) auto
    then show ?thesis
      using True e arr(1) by simp
  next
    case False
    have "\<forall>b \<in> set m. ub_data b \<noteq> []"
    proof -
      obtain lo hi where "list_all (block_in lo hi) s"
      proof
        show "list_all (block_in (ub_offset (hd s)) (Max (block_end ` set s))) s"
          using sorted_hd_le[OF s(3)] assms(2) s(2) by (auto simp: list_all_iff block_in_def)
      qed
      then have "list_all (block_in lo hi) m"
        using inm by blast
      then show ?thesis
        by (auto simp: list_all_iff block_in_def)
    qed
    then show ?thesis
      using False e fill_image_error[of "ub_offset (hd s)" "replicate (nat n) 0xff" m] all by simp
  qed
qed

text \<open>C5: the update chunks are the file. For every image that parses, the memory the chunks write is the
  memory the file's application blocks write in address order, whatever the order of overlapping
  blocks; without overlaps it is the memory the blocks write in file order. All of it lies inside the
  application region and inside the announced range, and the announced CRC is the checksum of that
  range with the gaps read as erased flash.\<close>

theorem parseDRPDFirmwareUF2_refines:
  assumes "parseDRPDFirmwareUF2 bs = Inr p"
  shows "\<exists>blocks. parse_uf2_blocks bs 0 = Inr blocks \<and>
     flash_of (fi_chunks p) = flash_of (sorted_blocks blocks) \<and>
     (no_overlap blocks \<longrightarrow> flash_of (fi_chunks p) = flash_of blocks) \<and>
     (\<forall>a. flash_of (fi_chunks p) a \<noteq> None \<longrightarrow> fi_baseOffset p \<le> a \<and> a < fi_baseOffset p + fi_totalLength p) \<and>
     0x8000 \<le> fi_baseOffset p \<and> 0 < fi_totalLength p \<and> fi_baseOffset p + fi_totalLength p \<le> 0x3ff000 \<and>
     fi_crc32 p = computeCRC32 (map (\<lambda>i. flash_byte (flash_of (fi_chunks p)) (fi_baseOffset p + int i))
       [0..<nat (fi_totalLength p)])"
proof -
  obtain blocks where b: "parse_uf2_blocks bs 0 = Inr blocks" "assemble_image blocks = Inr p" "512 dvd length bs"
    using assms by (auto simp: parseDRPDFirmwareUF2_def res_bind_Inr_iff uf2_size split: if_splits)
  define s where "s = sorted_blocks blocks"
  have app: "list_all app_block blocks"
    using parse_uf2_blocks_app[OF b(1,3)] by simp
  have ne: "blocks \<noteq> []" "\<forall>b \<in> set blocks. ub_data b \<noteq> []"
    using b(2) app by (auto simp: assemble_image_def list_all_iff app_block_def block_in_def)
  note asm = assemble_image_flash[OF ne s_def refl refl]
  have ends: "\<forall>b \<in> set blocks. block_end b \<le> block_end (last s)"
    using asm b(2) by (auto split: if_splits)
  have p: "p = \<lparr>fi_baseOffset = ub_offset (hd s), fi_totalLength = block_end (last s) - ub_offset (hd s),
         fi_crc32 = crc32 (map (\<lambda>i. flash_byte (flash_of s) (ub_offset (hd s) + int i))
           [0..<nat (block_end (last s) - ub_offset (hd s))]), fi_chunks = mergeContiguousBlocks s\<rparr>"
    using asm ends b(2) by simp
  have fl: "flash_of (mergeContiguousBlocks s) = flash_of s"
    using merge_flash[of "[]" s] by (simp add: flash_of_def mergeContiguousBlocks_def)
  have s: "s \<noteq> []" "set s = set blocks" "sorted_wrt (\<lambda>a b. ub_offset a \<le> ub_offset b) s"
    using ne sorted_blocks_sorted by (auto simp: s_def)
  have mem: "hd s \<in> set blocks" "last s \<in> set blocks"
    using s(1,2) hd_in_set last_in_set by blast+
  have dom: "ub_offset (hd s) \<le> a \<and> a < block_end (last s)" if "flash_of s a \<noteq> None" for a
  proof (rule ccontr)
    assume out: "\<not> (ub_offset (hd s) \<le> a \<and> a < block_end (last s))"
    have "\<not> (ub_offset b \<le> a \<and> a < block_end b)" if "b \<in> set s" for b
      using out sorted_hd_le[OF s(3) that] ends that s(2) by fastforce
    then show False
      using that fold_flash_outside[of s a "\<lambda>_. None"] by (auto simp: flash_of_def)
  qed
  have "ub_offset (hd s) \<le> ub_offset (last s)"
    using sorted_hd_le[OF s(3)] s(1) by simp
  moreover have "0 < length (ub_data (last s))"
    using ne(2) mem(2) by simp
  moreover have "app_block (hd s)" "app_block (last s)"
    using app mem by (simp_all add: list_all_iff)
  ultimately have "ub_offset (hd s) < block_end (last s)" "0x8000 \<le> ub_offset (hd s)" "block_end (last s) \<le> 0x3ff000"
    unfolding block_end_def by (linarith, simp_all add: app_block_def block_in_def block_end_def flash_consts)
  then have bounds: "0x8000 \<le> ub_offset (hd s)" "0 < block_end (last s) - ub_offset (hd s)" "block_end (last s) \<le> 0x3ff000"
    by simp_all
  have "no_overlap blocks \<longrightarrow> flash_of s = flash_of blocks"
    using flash_of_mset[of blocks s] by (simp add: s_def)
  then show ?thesis
    using b(1) fl dom bounds crc32_word computeCRC32_word by (auto simp: p s_def [symmetric])
qed

text \<open>Which files fail after their blocks were read. An image with at least one application block
  whose blocks do not overlap is always accepted. It fails exactly when some block reaches past the
  end of the block with the highest address, and then with the \<open>RangeError\<close> of \<open>Uint8Array.set\<close>, not
  with an error of the parser.\<close>

lemma parseDRPDFirmwareUF2_overlap_error:
  assumes "parse_uf2_blocks bs 0 = Inr blocks" "blocks \<noteq> []" "512 dvd length bs"
  shows "(no_overlap blocks \<longrightarrow> \<not> isl (parseDRPDFirmwareUF2 bs)) \<and>
    (isl (parseDRPDFirmwareUF2 bs) \<longleftrightarrow> (\<exists>b \<in> set blocks. block_end (last (sorted_blocks blocks)) < block_end b)) \<and>
    (isl (parseDRPDFirmwareUF2 bs) \<longrightarrow> parseDRPDFirmwareUF2 bs = Inl Range_error)"
proof -
  have "length bs \<noteq> 0"
    using assms(1,2) by (subst (asm) parse_uf2_blocks.simps) auto
  then have e: "parseDRPDFirmwareUF2 bs = assemble_image blocks"
    using assms by (simp add: parseDRPDFirmwareUF2_def uf2_size dvd_eq_mod_eq_0)
  have app: "\<forall>b \<in> set blocks. ub_data b \<noteq> []"
    using parse_uf2_blocks_app[OF assms(1,3)] by (auto simp: list_all_iff app_block_def block_in_def)
  have asm: "assemble_image blocks = Inl Range_error \<and> \<not> (\<forall>b \<in> set blocks. block_end b \<le> block_end (last (sorted_blocks blocks))) \<or>
      \<not> isl (assemble_image blocks) \<and> (\<forall>b \<in> set blocks. block_end b \<le> block_end (last (sorted_blocks blocks)))"
    using assemble_image_flash[OF assms(2) app refl refl refl] by (auto split: if_splits)
  have "\<forall>b \<in> set blocks. block_end b \<le> block_end (last (sorted_blocks blocks))" if "no_overlap blocks"
    using no_overlap_end_le_last[OF sorted_blocks_sorted, of blocks] that app by (simp add: no_overlap_def)
  then show ?thesis
    using asm unfolding e not_le [symmetric] by (auto simp: isl_def)
qed

section \<open>Writing UF2 files\<close>

text \<open>A block as UF2 tools write it, its payload padded to 476 bytes.\<close>

definition uf2_block :: "Uf2PayloadBlock \<Rightarrow> bytes" where
  "uf2_block b =
     le_bytes 4 UF2_MAGIC_START0 @ le_bytes 4 UF2_MAGIC_START1 @ le_bytes 4 0x2000 @
     le_bytes 4 (0x10000000 + ub_offset b) @ le_bytes 4 (int (length (ub_data b))) @
     replicate 12 0 @ (ub_data b @ replicate (476 - length (ub_data b)) 0) @ le_bytes 4 UF2_MAGIC_END"

definition uf2_file :: "Uf2PayloadBlock list \<Rightarrow> bytes" where
  "uf2_file blocks = concat (map uf2_block blocks)"

text \<open>An image cut into 256-byte pieces from an address on.\<close>

fun pieces :: "nat \<Rightarrow> int \<Rightarrow> bytes \<Rightarrow> Uf2PayloadBlock list" where
  "pieces 0 base img = []"
| "pieces (Suc n) base img =
     (if img = [] then []
      else \<lparr>ub_offset = base, ub_data = take 256 img\<rparr> # pieces n (base + 256) (drop 256 img))"

lemma length_uf2_block: "app_block b \<Longrightarrow> length (uf2_block b) = 512"
  by (simp add: uf2_block_def app_block_def)

lemma getUint32_le_bytes: "length xs = i \<Longrightarrow> getUint32 (xs @ le_bytes 4 v @ ys) i = v mod 2 ^ 32"
  by (simp add: getUint32_def sub_array_def le_val_le_bytes)

lemma parse_uf2_block_written:
  assumes "app_block b"
  shows "parse_uf2_block (uf2_block b) = Inr (Some b)"
proof -
  let ?h = "le_bytes 4 UF2_MAGIC_START0 @ le_bytes 4 UF2_MAGIC_START1 @ le_bytes 4 0x2000"
  let ?d = "ub_data b @ replicate (476 - length (ub_data b)) 0"
  have len: "length (ub_data b) \<le> 476" "ub_data b \<noteq> []" "0x8000 \<le> ub_offset b" "block_end b \<le> 0x3ff000"
    using assms by (auto simp: app_block_def block_in_def flash_consts)
  have w0: "getUint32 (uf2_block b) 0 = 0x0a324655"
    using getUint32_le_bytes[of "[]" 0 UF2_MAGIC_START0] by (simp add: uf2_block_def UF2_MAGIC_START0_def)
  have w4: "getUint32 (uf2_block b) 4 = 0x9e5d5157"
    using getUint32_le_bytes[of "le_bytes 4 UF2_MAGIC_START0" 4 UF2_MAGIC_START1]
    by (simp add: uf2_block_def UF2_MAGIC_START1_def)
  have w12: "getUint32 (uf2_block b) 12 = 0x10000000 + ub_offset b"
    using getUint32_le_bytes[of ?h 12 "0x10000000 + ub_offset b"] len
    by (simp add: uf2_block_def block_end_def)
  have w16: "getUint32 (uf2_block b) 16 = int (length (ub_data b))"
    using getUint32_le_bytes[of "?h @ le_bytes 4 (0x10000000 + ub_offset b)" 16 "int (length (ub_data b))"] len
    by (simp add: uf2_block_def)
  have w508: "getUint32 (uf2_block b) 508 = 0x0ab16f30"
    using getUint32_le_bytes[of "?h @ le_bytes 4 (0x10000000 + ub_offset b) @ le_bytes 4 (int (length (ub_data b))) @
        replicate 12 0 @ ?d" 508 UF2_MAGIC_END "[]"] len
    by (simp add: uf2_block_def UF2_MAGIC_END_def)
  have d: "sub_array (uf2_block b) 32 (32 + length (ub_data b)) = ub_data b"
    using len by (simp add: uf2_block_def sub_array_def)
  have "0 < int (length (ub_data b))"
    using len by simp
  then show ?thesis
    unfolding parse_uf2_block_def w0 w4 w12 w16 w508 Let_def
    using len d by (simp add: uf2_consts flash_consts block_end_def)
qed

lemma parse_uf2_blocks_written:
  "list_all app_block bs \<Longrightarrow> length xs = k \<Longrightarrow> parse_uf2_blocks (xs @ uf2_file bs) k = Inr bs"
proof (induction bs arbitrary: xs k)
  case Nil
  then show ?case
    by (subst parse_uf2_blocks.simps) (simp add: uf2_file_def)
next
  case (Cons b bs)
  then have l: "length (uf2_block b) = 512"
    by (simp add: length_uf2_block)
  have "parse_uf2_blocks ((xs @ uf2_block b) @ uf2_file bs) (k + 512) = Inr bs"
    using Cons.prems l by (intro Cons.IH) simp_all
  then show ?case
    using Cons.prems l parse_uf2_block_written[of b]
    by (subst parse_uf2_blocks.simps) (simp add: uf2_file_def uf2_size sub_array_def)
qed

lemma pieces_Nil [simp]: "pieces n base [] = []"
  by (cases n) simp_all

lemma pieces_bounds:
  "b \<in> set (pieces n base img) \<Longrightarrow> base \<le> ub_offset b \<and> block_end b \<le> base + int (length img) \<and>
     ub_data b \<noteq> [] \<and> length (ub_data b) \<le> 256"
proof (induction n arbitrary: base img)
  case (Suc n)
  show ?case
  proof (cases "b \<in> set (pieces n (base + 256) (drop 256 img))")
    case True
    then have "256 \<le> length img"
      by (cases "256 \<le> length img") auto
    then show ?thesis
      using Suc.IH[OF True] by auto
  next
    case False
    then show ?thesis
      using Suc.prems by (auto simp: block_end_def split: if_splits)
  qed
qed simp

lemma pieces_sorted: "sorted_wrt (\<lambda>a b. ub_offset a < ub_offset b) (pieces n base img)"
  by (induction n arbitrary: base img) (auto dest!: pieces_bounds)

lemma pieces_flash:
  "length img \<le> 256 * n \<Longrightarrow> i < length img \<Longrightarrow>
   fold flash_write (pieces n base img) m (base + int i) = Some (img ! i)"
proof (induction n arbitrary: base img i m)
  case (Suc n)
  show ?case
  proof (cases "i < 256")
    case True
    have "fold flash_write (pieces n (base + 256) (drop 256 img)) m' (base + int i) = m' (base + int i)" for m'
      by (rule fold_flash_outside) (use True in \<open>auto dest!: pieces_bounds\<close>)
    then show ?thesis
      using True Suc.prems by (simp add: flash_write_def[of "\<lparr>ub_offset = base, ub_data = take 256 img\<rparr>"] block_end_def)
        (auto simp: flash_write_def block_end_def)
  next
    case False
    then have "base + int i = (base + 256) + int (i - 256)"
      by simp
    then show ?thesis
      using False Suc.prems Suc.IH[of "drop 256 img" "i - 256" "base + 256"] by auto
  qed
qed simp

lemma pieces_merge:
  "mergeContiguousBlocks_loop acc (pieces n base img) = acc @ pieces n base img"
  if "acc = [] \<or> length (ub_data (last acc)) = 256"
  using that
proof (induction n arbitrary: acc base img)
  case (Suc n)
  show ?case
  proof (cases "length img \<le> 256")
    case True
    then show ?thesis
      using Suc.prems by (auto simp: Let_def MAX_UPDATE_CHUNK_BYTES_def)
  next
    case False
    then show ?thesis
      using Suc.prems Suc.IH[of "acc @ [\<lparr>ub_offset = base, ub_data = take 256 img\<rparr>]" "base + 256" "drop 256 img"]
      by (auto simp: Let_def MAX_UPDATE_CHUNK_BYTES_def)
  qed
qed simp

lemma pieces_ends:
  assumes "img \<noteq> []" "length img \<le> 256 * n"
  shows "pieces n base img \<noteq> []" "ub_offset (hd (pieces n base img)) = base"
    and "block_end (last (pieces n base img)) = base + int (length img)"
proof -
  show "pieces n base img \<noteq> []" "ub_offset (hd (pieces n base img)) = base"
    using assms by (cases n; simp)+
  show "block_end (last (pieces n base img)) = base + int (length img)"
    using assms
  proof (induction n arbitrary: base img)
    case (Suc n)
    show ?case
    proof (cases "length img \<le> 256")
      case True
      then show ?thesis
        using Suc.prems by (simp add: block_end_def)
    next
      case False
      then have "drop 256 img \<noteq> []" "length (drop 256 img) \<le> 256 * n"
        using Suc.prems by auto
      moreover from this have "pieces n (base + 256) (drop 256 img) \<noteq> []"
        by (cases n) auto
      ultimately show ?thesis
        using Suc.IH[of "drop 256 img" "base + 256"] Suc.prems False by simp
    qed
  qed simp
qed

lemma uf2_roundtrip:
  assumes "img \<noteq> []" "length img \<le> 256 * n" "0x8000 \<le> base" "base + int (length img) \<le> 0x3ff000"
    and "mset blocks = mset (pieces n base img)"
  shows "parseDRPDFirmwareUF2 (uf2_file blocks) =
    Inr \<lparr>fi_baseOffset = base, fi_totalLength = int (length img), fi_crc32 = computeCRC32 img,
      fi_chunks = pieces n base img\<rparr>"
proof -
  let ?p = "pieces n base img"
  have set: "set blocks = set ?p"
    using mset_eq_setD[OF assms(5)] .
  have app: "list_all app_block blocks"
    using assms(3,4) pieces_bounds[of _ n base img] set
    by (fastforce simp: list_all_iff app_block_def block_in_def flash_consts)
  have ne: "blocks \<noteq> []" "\<forall>b \<in> set blocks. ub_data b \<noteq> []"
    using pieces_ends(1)[OF assms(1,2), of base] set pieces_bounds[of _ n base img] by auto
  have s: "sorted_blocks blocks = ?p"
    using assms(5) pieces_sorted by (rule sorted_blocks_unique)
  have e: "parseDRPDFirmwareUF2 (uf2_file blocks) = assemble_image blocks"
  proof -
    have "length (uf2_file blocks) = 512 * length blocks"
      using app by (induction blocks) (simp_all add: uf2_file_def length_uf2_block)
    then show ?thesis
      using parse_uf2_blocks_written[OF app, of "[]" 0] ne(1)
      by (simp add: parseDRPDFirmwareUF2_def uf2_size)
  qed
  note ends = pieces_ends[OF assms(1,2), of base]
  have "\<forall>b \<in> set blocks. block_end b \<le> block_end (last ?p)"
    using pieces_bounds[of _ n base img] ends(3) set by auto
  then have "assemble_image blocks = Inr \<lparr>fi_baseOffset = base, fi_totalLength = int (length img),
         fi_crc32 = crc32 (map (\<lambda>i. flash_byte (flash_of ?p) (base + int i)) [0..<length img]),
         fi_chunks = mergeContiguousBlocks ?p\<rparr>"
    using assemble_image_flash[OF ne s [symmetric] refl refl] ends by simp
  moreover have "map (\<lambda>i. flash_byte (flash_of ?p) (base + int i)) [0..<length img] = img"
    using pieces_flash[OF assms(2)] by (intro nth_equalityI) (simp_all add: flash_byte_def flash_of_def)
  moreover have "mergeContiguousBlocks ?p = ?p"
    using pieces_merge[of "[]"] by (simp add: mergeContiguousBlocks_def)
  ultimately show ?thesis
    using e crc32_word computeCRC32_word by simp
qed

text \<open>C19: UF2 files round trip, blocks in any order. Cutting an image that fits the application region
  into 256-byte blocks, writing them to a UF2 file in any order and parsing that file gives back the
  base address, the length, the pieces in address order and the checksum of the image.\<close>

theorem parseDRPDFirmwareUF2_roundtrip:
  assumes "img \<noteq> []" "length img \<le> 256 * n" "0x8000 \<le> base" "base + int (length img) \<le> 0x3ff000"
    and "mset blocks = mset (pieces n base img)"
  shows "parseDRPDFirmwareUF2 (uf2_file blocks) =
    Inr \<lparr>fi_baseOffset = base, fi_totalLength = int (length img), fi_crc32 = computeCRC32 img,
      fi_chunks = pieces n base img\<rparr>"
  by (rule uf2_roundtrip [OF assms])

text \<open>A file of one block of two bytes.\<close>

definition sample_block :: Uf2PayloadBlock where
  "sample_block = \<lparr>ub_offset = 0x8000, ub_data = [1, 2]\<rparr>"

lemma parseDRPDFirmwareUF2_roundtrip_witness:
  "parseDRPDFirmwareUF2 (uf2_file [sample_block]) =
    Inr \<lparr>fi_baseOffset = 0x8000, fi_totalLength = 2, fi_crc32 = computeCRC32 [1, 2], fi_chunks = [sample_block]\<rparr>"
  using parseDRPDFirmwareUF2_roundtrip[of "[1, 2]" 1 "0x8000" "[sample_block]"] by (simp add: sample_block_def)

lemma sample_parse: "parse_uf2_blocks (uf2_file [sample_block, sample_block\<lparr>ub_data := [3]\<rparr>]) 0 =
    Inr [sample_block, sample_block\<lparr>ub_data := [3]\<rparr>]"
  using parse_uf2_blocks_written[of "[sample_block, sample_block\<lparr>ub_data := [3]\<rparr>]" "[]" 0]
  by (simp add: app_block_def block_in_def block_end_def flash_consts sample_block_def)

lemma parseDRPDFirmwareUF2_refines_witness:
  "\<exists>p. parseDRPDFirmwareUF2 (uf2_file [sample_block]) = Inr p \<and> 0x8000 \<le> fi_baseOffset p \<and>
     fi_crc32 p = computeCRC32 (map (\<lambda>i. flash_byte (flash_of (fi_chunks p)) (fi_baseOffset p + int i))
       [0..<nat (fi_totalLength p)])"
proof -
  have "parse_uf2_blocks (uf2_file [sample_block]) 0 = Inr [sample_block]"
    using parse_uf2_blocks_written[of "[sample_block]" "[]" 0]
    by (simp add: app_block_def block_in_def block_end_def flash_consts sample_block_def)
  moreover have "length (uf2_file [sample_block]) = 512"
    using length_uf2_block[of sample_block]
    by (simp add: uf2_file_def app_block_def block_in_def block_end_def flash_consts sample_block_def)
  moreover have "\<exists>p. assemble_image [sample_block] = Inr p"
    using assemble_image_flash[of "[sample_block]", OF _ _ refl refl refl]
    by (auto simp: sample_block_def)
  ultimately obtain p where p: "parseDRPDFirmwareUF2 (uf2_file [sample_block]) = Inr p"
    by (auto simp: parseDRPDFirmwareUF2_def uf2_size)
  then show ?thesis
    using parseDRPDFirmwareUF2_refines[OF p] by blast
qed

end
