(* ===== verification/Firmware_Upload_Laws.thy ===== *)
theory Firmware_Upload_Laws
  imports Winusb_Laws Firmware_Image_Laws
begin

text \<open>
  The firmware update from the file to the wire: \<open>uploadDRPDFirmwareUF2\<close> over the WinUSB transport. The
  device side is a reference: an updater that writes the payload of every write frame to the address
  in front of it.
\<close>

definition device_write :: "int \<times> bytes \<Rightarrow> (int \<Rightarrow> byte option) \<Rightarrow> int \<Rightarrow> byte option" where
  "device_write fr m =
     (if fst fr = 0x11 then flash_write \<lparr>ub_offset = le_val (take 4 (snd fr)), ub_data = drop 4 (snd fr)\<rparr> m else m)"

definition device_flash :: "(int \<times> bytes) list \<Rightarrow> int \<Rightarrow> byte option" where
  "device_flash frs = fold device_write frs (\<lambda>_. None)"

lemma device_flash_chunks:
  assumes "\<forall>b \<in> set bs. 0 \<le> ub_offset b \<and> ub_offset b < 2 ^ 32"
  shows "fold device_write (map chunk_frame (map (\<lambda>b. \<lparr>uc_offset = ub_offset b, uc_data = ub_data b\<rparr>) bs)) m =
    fold flash_write bs m"
  using assms
proof (induction bs arbitrary: m)
  case (Cons b bs)
  then have "le_val (le_bytes 4 (take_bit 32 (ub_offset b))) = ub_offset b"
    by (simp add: le_val_le_bytes take_bit_eq_mod)
  then have "device_write (chunk_frame \<lparr>uc_offset = ub_offset b, uc_data = ub_data b\<rparr>) m = flash_write b m"
    by (simp add: device_write_def chunk_frame_def fun_eq_iff flash_write_def block_end_def)
  then show ?case
    using Cons by simp
qed simp

text \<open>C1: an upload that returns normally has programmed the image. For an image that fits the application
  region, written to a UF2 file in 256-byte blocks in any order: when \<open>uploadDRPDFirmwareUF2\<close> on the
  WinUSB transport returns without an error, it sent the begin frame with base address, length and
  checksum of the image, write frames, and the finish frame; an updater that performs these writes on
  erased flash holds every byte of the image at its address and nothing else. The progress reports end
  with the whole length.\<close>

theorem uploadDRPDFirmwareUF2_programs:
  assumes "img \<noteq> []" "length img \<le> 256 * n" "0x8000 \<le> base" "base + int (length img) \<le> 0x3ff000"
    and "mset blocks = mset (pieces n base img)"
    and "uploadDRPDFirmwareUF2 (Some updateFirmware) (uf2_file blocks) = Inr run"
    and "run st = Some (Inr (), st')" "sender_ok st"
  shows "\<exists>frs. sends frs st st' \<and>
     hd frs = (0x10, le_bytes 4 base @ le_bytes 4 (int (length img)) @ le_bytes 4 (computeCRC32 img)) \<and>
     last frs = (0x12, []) \<and>
     device_flash frs = (\<lambda>a. if base \<le> a \<and> a < base + int (length img) then Some (img ! nat (a - base)) else None)"
proof -
  let ?p = "pieces n base img"
  have set: "set blocks = set ?p"
    using mset_eq_setD[OF assms(5)] .
  define parsed where "parsed = \<lparr>fi_baseOffset = base, fi_totalLength = int (length img),
    fi_crc32 = computeCRC32 img, fi_chunks = ?p\<rparr>"
  have "parseDRPDFirmwareUF2 (uf2_file blocks) = Inr parsed"
    unfolding parsed_def by (rule uf2_roundtrip [OF assms(1-5)])
  then have run: "run = updateFirmware (firmware_request parsed)"
    using assms(6) by (simp add: uploadDRPDFirmwareUF2_def)
  let ?frs = "begin_frame (firmware_request parsed) # map chunk_frame (ur_chunks (firmware_request parsed)) @ [finish_frame]"
  have sends: "sends ?frs st st'"
    using updateFirmware_sends[OF assms(7)[unfolded run] assms(8) refl] by simp
  have len: "0 < int (length img)"
    using assms(1) by simp
  have crc: "0 \<le> computeCRC32 img" "computeCRC32 img < 2 ^ 32"
    unfolding computeCRC32_word using uint_lt2p[of "crc_word img"] by simp_all
  have "begin_frame (firmware_request parsed) =
      (0x10, le_bytes 4 base @ le_bytes 4 (int (length img)) @ le_bytes 4 (computeCRC32 img))"
    using assms(3,4) len crc by (simp add: begin_frame_def firmware_request_def parsed_def take_bit_eq_mod)
  moreover have "device_flash ?frs = flash_of ?p"
  proof -
    have "\<forall>b \<in> set ?p. 0 \<le> ub_offset b \<and> ub_offset b < 2 ^ 32"
      using pieces_bounds[of _ n base img] assms(3,4) by (fastforce simp: block_end_def)
    from device_flash_chunks[OF this] show ?thesis
      by (simp add: device_flash_def flash_of_def device_write_def begin_frame_def firmware_request_def parsed_def)
  qed
  moreover have "flash_of ?p a = (if base \<le> a \<and> a < base + int (length img) then Some (img ! nat (a - base)) else None)" for a
  proof (cases "base \<le> a \<and> a < base + int (length img)")
    case True
    then show ?thesis
      using pieces_flash[OF assms(2), of "nat (a - base)" base "\<lambda>_. None"]
      by (simp add: flash_of_def nat_less_iff)
  next
    case False
    have "flash_of ?p a = None"
      unfolding flash_of_def by (rule fold_flash_outside) (use False pieces_bounds[of _ n base img] in fastforce)
    with False show ?thesis
      by simp
  qed
  ultimately show ?thesis
    using sends by (intro exI[of _ ?frs]) (simp add: fun_eq_iff)
qed

text \<open>A device that acknowledges the three frames of a two-byte image.\<close>

definition acking_device :: WinUSBTransport where
  "acking_device = idle_transport\<lparr>ws_pendingFrames :=
     map (\<lambda>t. \<lparr>fr_type = 0x85, fr_tag = t, fr_srqPending = False, fr_payload = []\<rparr>) [1, 2, 3]\<rparr>"

lemma uploadDRPDFirmwareUF2_programs_witness:
  "\<exists>run st' frs. uploadDRPDFirmwareUF2 (Some updateFirmware) (uf2_file [sample_block]) = Inr run \<and>
     run acking_device = Some (Inr (), st') \<and> sends frs acking_device st' \<and> device_flash frs 0x8001 = Some 2"
proof -
  define parsed where "parsed = \<lparr>fi_baseOffset = 0x8000, fi_totalLength = 2, fi_crc32 = computeCRC32 [1, 2],
    fi_chunks = [sample_block]\<rparr>"
  have m: "mset [sample_block] = mset (pieces 1 0x8000 [1, 2])"
    by (simp add: sample_block_def)
  have "parseDRPDFirmwareUF2 (uf2_file [sample_block]) = Inr parsed"
    using uf2_roundtrip[OF _ _ _ _ m] by (simp add: parsed_def sample_block_def)
  then have up: "uploadDRPDFirmwareUF2 (Some updateFirmware) (uf2_file [sample_block]) = Inr (updateFirmware (firmware_request parsed))"
    by (simp add: uploadDRPDFirmwareUF2_def)
  have "\<exists>st'. updateFirmware (firmware_request parsed) acking_device = Some (Inr (), st')"
    by (simp add: updateFirmware_def sendUpdaterFrame_def seq_def writeFrame_def nextTag_def Let_def
        js_and_255 ret_def awaitResponseFrame_def acking_device_def idle_transport_def
        firmware_request_def parsed_def sample_block_def winusb_types)
  then obtain st' where run: "updateFirmware (firmware_request parsed) acking_device = Some (Inr (), st')"
    by blast
  have "sender_ok acking_device"
    by (simp add: sender_ok_def acking_device_def idle_transport_def)
  then show ?thesis
    using uploadDRPDFirmwareUF2_programs[OF _ _ _ _ m up run] up run by auto
qed

end
