(* ===== verification/Js_Double.thy ===== *)
theory Js_Double
  imports Complex_Main "HOL-Library.Log_Nat"
begin

text \<open>
  JavaScript numbers that are not integers: IEEE 754 binary64. A finite number is a rational;
  \<open>to_double\<close> rounds an exact value to the nearest representable one, ties to even, with the subnormal
  range and with overflow to an infinity (\<open>None\<close>). The laws bound the rounding error and show that
  integers up to \<open>2^53\<close> are exact.
\<close>

section \<open>Rounding\<close>

definition round_even :: "rat \<Rightarrow> int" where
  "round_even x =
     (let f = \<lfloor>x\<rfloor>; d = x - of_int f
      in if d < 1 / 2 then f else if d > 1 / 2 then f + 1 else if even f then f else f + 1)"

text \<open>The exponent of the binade of \<open>x\<close>: \<open>2^e \<le> \<bar>x\<bar> < 2^(e+1)\<close>.\<close>

definition binade :: "rat \<Rightarrow> int" where
  "binade x =
     (let (p, q) = quotient_of \<bar>x\<bar>; e = bitlen p - bitlen q
      in if 2 powi e \<le> \<bar>x\<bar> then e else e - 1)"

definition fl :: "rat \<Rightarrow> rat" where
  "fl x =
     (if x = 0 then 0
      else let e = max (binade x - 52) (- 1074) in of_int (round_even (x / 2 powi e)) * 2 powi e)"

definition to_double :: "rat \<Rightarrow> rat option" where
  "to_double x = (if \<bar>fl x\<bar> < 2 ^ 1024 then Some (fl x) else None)"

text \<open>\<open>Math.round\<close>: to the nearest integer, halves up.\<close>

definition math_round :: "rat \<Rightarrow> int" where
  "math_round x = \<lfloor>x + 1 / 2\<rfloor>"

section \<open>Error bounds\<close>

lemma abs_times: "0 < c \<Longrightarrow> \<bar>w\<bar> * c = \<bar>w * c\<bar>" for c :: rat
  by (simp add: abs_mult)

lemma round_even_error: "\<bar>of_int (round_even x) - x\<bar> \<le> 1 / 2"
proof -
  have "of_int \<lfloor>x\<rfloor> \<le> x" "x < of_int \<lfloor>x\<rfloor> + 1"
    by linarith+
  then show ?thesis
    by (auto simp: round_even_def Let_def abs_le_iff not_less field_simps)
qed

lemma round_even_of_int [simp]: "round_even (of_int n) = n"
  by (simp add: round_even_def)

lemma round_even_uminus: "round_even (- x) = - round_even x"
proof -
  let ?f = "\<lfloor>x\<rfloor>"
  show ?thesis
  proof (cases "x = of_int ?f")
    case True
    then show ?thesis
      by (metis of_int_minus round_even_of_int)
  next
    case False
    then have lo: "of_int ?f < x"
      using of_int_floor_le[of x] by linarith
    have up: "x < of_int ?f + 1"
      by linarith
    have m: "\<lfloor>- x\<rfloor> = - ?f - 1"
      using lo up by (intro floor_unique) simp_all
    show ?thesis
      unfolding round_even_def m Let_def using lo up by (auto simp: field_simps)
  qed
qed

lemma binade_bounds:
  assumes "x \<noteq> 0"
  shows "2 powi binade x \<le> \<bar>x\<bar>" "\<bar>x\<bar> < 2 powi (binade x + 1)"
proof -
  obtain p q where pq: "quotient_of \<bar>x\<bar> = (p, q)"
    by (cases "quotient_of \<bar>x\<bar>")
  then have x: "\<bar>x\<bar> = of_int p / of_int q" and q: "q > 0"
    using quotient_of_div quotient_of_denom_pos by blast+
  have p: "p > 0"
    using x q assms by (metis abs_of_nonneg abs_zero divide_eq_0_iff divide_le_0_iff abs_le_zero_iff linorder_not_less of_int_0_less_iff of_int_le_0_iff)
  define a b where "a = nat (bitlen p)" and "b = nat (bitlen q)"
  have ab: "bitlen p = int a" "bitlen q = int b" "a > 0" "b > 0"
    using p q bitlen_nonneg by (simp_all add: a_def b_def bitlen_alt_def)
  have "nat (int a - 1) = a - 1" "nat (int b - 1) = b - 1"
    by simp_all
  then have "2 ^ (a - 1) \<le> p" "p < 2 ^ a" "2 ^ (b - 1) \<le> q" "q < 2 ^ b"
    using bitlen_bounds[OF p] bitlen_bounds[OF q] by (simp_all add: ab)
  then have r: "2 ^ (a - 1) \<le> (of_int p :: rat)" "(of_int p :: rat) < 2 ^ a"
      "2 ^ (b - 1) \<le> (of_int q :: rat)" "(of_int q :: rat) < 2 ^ b"
    by (metis of_int_le_iff of_int_less_iff of_int_numeral of_int_power)+
  have qp: "(of_int q :: rat) > 0"
    using q by simp
  have pow: "(2 :: rat) powi (int a - int b) = 2 ^ a / 2 ^ b"
    by (simp add: power_int_diff)
  have lo: "2 powi (int a - int b - 1) \<le> \<bar>x\<bar>"
  proof -
    have "(2 :: rat) powi (int a - int b - 1) = 2 ^ (a - 1) / 2 ^ b"
      using ab(3) by (simp add: power_int_diff pow power_diff)
    also have "\<dots> \<le> of_int p / of_int q"
      using r qp p by (intro frac_le) simp_all
    finally show ?thesis
      by (simp add: x)
  qed
  have hi: "\<bar>x\<bar> < 2 powi (int a - int b + 1)"
  proof -
    have "of_int p / of_int q < (2 :: rat) ^ a / 2 ^ (b - 1)"
      using r p by (intro frac_less) (simp_all del: of_int_power)
    also have "\<dots> = 2 powi (int a - int b + 1)"
      using ab(4) by (simp add: power_int_diff power_int_add pow power_diff)
    finally show ?thesis
      by (simp add: x)
  qed
  show "2 powi binade x \<le> \<bar>x\<bar>" "\<bar>x\<bar> < 2 powi (binade x + 1)"
    using lo hi by (auto simp: binade_def pq ab Let_def)
qed

lemma fl_error: "\<bar>fl x - x\<bar> \<le> \<bar>x\<bar> / 2 ^ 53 + 2 powi (- 1075)"
proof (cases "x = 0")
  case False
  define e where "e = max (binade x - 52) (- 1074)"
  have pos: "(2 :: rat) powi e > 0"
    by simp
  have "\<bar>fl x - x\<bar> = \<bar>of_int (round_even (x / 2 powi e)) - x / 2 powi e\<bar> * 2 powi e"
    using False by (simp add: fl_def e_def [symmetric] Let_def abs_times[OF pos] left_diff_distrib)
  also have "\<dots> \<le> 1 / 2 * 2 powi e"
    by (intro mult_right_mono round_even_error) simp
  also have "1 / 2 * (2 :: rat) powi e \<le> \<bar>x\<bar> / 2 ^ 53 + 2 powi (- 1075)"
  proof (cases "binade x - 52 \<le> - 1074")
    case True
    have "(2 :: rat) powi (- 1074) = 2 powi (- 1075 + 1)"
      by simp
    then have "1 / 2 * (2 :: rat) powi (- 1074) = 2 powi (- 1075)"
      by (simp only: power_int_add_1) simp
    then have "1 / 2 * (2 :: rat) powi e = 2 powi (- 1075)"
      using True by (simp add: e_def)
    moreover have "0 \<le> \<bar>x\<bar> / 2 ^ 53"
      by simp
    ultimately show ?thesis
      by linarith
  next
    case False2: False
    then have "1 / 2 * (2 :: rat) powi e = 2 powi binade x / 2 ^ 53"
      by (simp add: e_def power_int_diff)
    also have "\<dots> \<le> \<bar>x\<bar> / 2 ^ 53"
      using binade_bounds(1)[OF False] by (intro divide_right_mono) simp_all
    finally show ?thesis
      by (simp add: add_increasing2)
  qed
  finally show ?thesis .
qed (simp add: fl_def)

text \<open>Numbers with at most 53 significant bits, in particular the integers up to \<open>2^53\<close>, are exact.\<close>

lemma fl_of_int:
  assumes "\<bar>n\<bar> < 2 ^ 53"
  shows "fl (of_int n) = of_int n"
proof (cases "n = 0")
  case False
  define e where "e = max (binade (of_int n) - 52) (- 1074)"
  have "2 powi binade (of_int n) \<le> \<bar>of_int n :: rat\<bar>"
    using binade_bounds(1)[of "of_int n"] False by simp
  also have "\<dots> < 2 powi 53"
    using assms by (metis of_int_abs of_int_less_iff of_int_numeral of_int_power power_int_numeral)
  finally have lt: "2 powi binade (of_int n) < (2 :: rat) powi 53" .
  have "binade (of_int n) < 53"
  proof (rule ccontr)
    assume "\<not> binade (of_int n) < 53"
    then have "(2 :: rat) powi 53 \<le> 2 powi binade (of_int n)"
      by (intro power_int_increasing) simp_all
    with lt show False
      by simp
  qed
  then have "e \<le> 0"
    by (simp add: e_def)
  then obtain m where e: "e = - int m"
    by (metis minus_minus neg_0_le_iff_le nonneg_int_cases)
  have p: "2 powi e = 1 / (2 :: rat) ^ m"
    by (simp add: e power_int_minus divide_inverse)
  have "of_int n / (2 :: rat) powi e = of_int (n * 2 ^ m)"
    by (simp add: p)
  then have "fl (of_int n) = of_int (n * 2 ^ m) * 2 powi e"
    using False by (simp add: fl_def e_def [symmetric] Let_def del: of_int_mult of_int_power)
  then show ?thesis
    by (simp add: p)
qed (simp add: fl_def)

lemma to_double_of_int:
  assumes "\<bar>n\<bar> < 2 ^ 53"
  shows "to_double (of_int n) = Some (of_int n)"
proof -
  have "\<bar>of_int n :: rat\<bar> < 2 ^ 53"
    using assms by (metis of_int_abs of_int_less_iff of_int_numeral of_int_power)
  also have "(2 :: rat) ^ 53 \<le> 2 ^ 1024"
    by (intro power_increasing) simp_all
  finally show ?thesis
    by (simp add: to_double_def fl_of_int[OF assms])
qed

lemma math_round_near: "\<bar>x - of_int n\<bar> < 1 / 2 \<Longrightarrow> math_round x = n"
  unfolding math_round_def by (intro floor_unique) linarith+

text \<open>Scaling a decimal fraction by the power of ten it was divided by loses nothing after rounding.\<close>

lemma scaled_round_exact:
  assumes "\<bar>k\<bar> < 2 ^ 50" "0 < d" "d \<le> 10 ^ 6"
  shows "math_round (fl (fl (of_int k / of_int d) * of_int d)) = k"
proof -
  define v where "v = fl (of_int k / of_int d)"
  define t :: rat where "t = 2 powi (- 1075)"
  have k: "\<bar>of_int k :: rat\<bar> < 2 ^ 50"
    using assms(1) by (metis of_int_abs of_int_less_iff of_int_numeral of_int_power)
  have d: "1 \<le> (of_int d :: rat)" "(of_int d :: rat) \<le> 10 ^ 6"
    using assms(2,3) by (metis of_int_1_le_iff zero_less_iff_neq_zero int_one_le_iff_zero_less, metis of_int_le_iff of_int_numeral of_int_power)
  have t: "0 < t" "t * 10 ^ 6 \<le> 1 / 2 ^ 20"
  proof -
    show "0 < t"
      by (simp add: t_def)
    have "t \<le> 2 powi (- 40)"
      unfolding t_def by (intro power_int_increasing) simp_all
    then show "t * 10 ^ 6 \<le> 1 / 2 ^ 20"
      by (simp add: power_int_minus)
  qed
  have "\<bar>v - of_int k / of_int d\<bar> \<le> \<bar>of_int k / of_int d\<bar> / 2 ^ 53 + t"
    using fl_error[of "of_int k / of_int d"] by (simp add: v_def t_def)
  then have "\<bar>v - of_int k / of_int d\<bar> * of_int d \<le> (\<bar>of_int k / of_int d\<bar> / 2 ^ 53 + t) * of_int d"
    using d by (intro mult_right_mono) simp_all
  moreover have "\<bar>v - of_int k / of_int d\<bar> * of_int d = \<bar>v * of_int d - of_int k\<bar>"
    using d by (subst abs_times) (simp_all add: left_diff_distrib)
  moreover have "(\<bar>of_int k / of_int d\<bar> / 2 ^ 53 + t) * of_int d = \<bar>of_int k\<bar> / 2 ^ 53 + t * of_int d"
    using d by (simp add: field_simps)
  ultimately have a: "\<bar>v * of_int d - of_int k\<bar> \<le> \<bar>of_int k\<bar> / 2 ^ 53 + t * of_int d"
    by simp
  have td: "t * of_int d \<le> 1 / 2 ^ 20"
    using t d mult_left_mono[of "of_int d" "10 ^ 6" t] by linarith
  have k8: "\<bar>of_int k :: rat\<bar> / 2 ^ 53 \<le> 1 / 8"
    using k by simp
  have b: "\<bar>v * of_int d - of_int k\<bar> \<le> 1 / 8 + 1 / 2 ^ 20"
    using a td k8 by linarith
  have "\<bar>v * of_int d\<bar> \<le> \<bar>v * of_int d - of_int k\<bar> + \<bar>of_int k\<bar>"
    by linarith
  then have "\<bar>v * of_int d\<bar> \<le> 2 ^ 50 + 1"
    using b k by simp
  then have "\<bar>v * of_int d\<bar> / 2 ^ 53 \<le> 1 / 8 + 1 / 2 ^ 20"
    by simp
  moreover have "t \<le> 1 / 2 ^ 20"
    using td t(1) d mult_left_mono[of 1 "of_int d" t] by linarith
  moreover have h: "1 / 2 ^ 20 \<le> (1 / 100 :: rat)"
    by simp
  ultimately have "\<bar>fl (v * of_int d) - v * of_int d\<bar> \<le> 1 / 8 + 1 / 2 ^ 20 + 1 / 2 ^ 20"
    using fl_error[of "v * of_int d"] by (simp add: t_def [symmetric])
  then have "\<bar>fl (v * of_int d) - of_int k\<bar> < 1 / 2"
    using b h by linarith
  then show ?thesis
    unfolding v_def by (rule math_round_near)
qed

end
