(* ===== verification/Scpi_Numbers.thy ===== *)
theory Scpi_Numbers
  imports Decimal_Text Js_Double
begin

text \<open>
  The number readers of \<open>device/drpd/parsers.ts\<close> over the language's \<open>parseFloat\<close>, \<open>parseInt\<close> and
  \<open>BigInt\<close>. A result that is not finite (NaN or an infinity) is \<open>None\<close>; a finite one is the rational the
  double holds, negative zero being zero.
\<close>

section \<open>The language's readers\<close>

text \<open>An optional sign, and the rest.\<close>

definition read_sign :: "string \<Rightarrow> bool \<times> string" where
  "read_sign s =
     (if s \<noteq> [] \<and> hd s = CHR ''-'' then (True, tl s)
      else if s \<noteq> [] \<and> hd s = CHR ''+'' then (False, tl s) else (False, s))"

text \<open>The exponent part \<open>[eE][+-]?\d+\<close>, zero when it is missing or incomplete.\<close>

definition read_exponent :: "string \<Rightarrow> int" where
  "read_exponent s =
     (if s \<noteq> [] \<and> (hd s = CHR ''e'' \<or> hd s = CHR ''E'') then
        (let (negative, t) = read_sign (tl s); ds = takeWhile js_digit t
         in if negative then - digits_value ds 0 else digits_value ds 0)
      else 0)"

definition js_parseFloat :: "string \<Rightarrow> rat option" where
  "js_parseFloat s =
     (let (negative, t) = read_sign (dropWhile js_space s);
          ip = takeWhile js_digit t; r = dropWhile js_digit t;
          (fp, r2) = (if r \<noteq> [] \<and> hd r = CHR ''.'' then (takeWhile js_digit (tl r), dropWhile js_digit (tl r))
                      else ([], r));
          v = of_int (digits_value (ip @ fp) 0) * 10 powi (read_exponent r2 - int (length fp))
      in if ip = [] \<and> fp = [] then None else to_double (if negative then - v else v))"

text \<open>\<open>Number.parseInt(s, 10)\<close>; the value of a finite result is an integer.\<close>

definition js_parseInt :: "string \<Rightarrow> int option" where
  "js_parseInt s =
     (let (negative, t) = read_sign (dropWhile js_space s); ds = takeWhile js_digit t;
          v = digits_value ds 0
      in if ds = [] then None else map_option floor (to_double (of_int (if negative then - v else v))))"

definition digit_value :: "char \<Rightarrow> nat" where
  "digit_value c =
     (let n = of_char c in if 48 \<le> n \<and> n \<le> 57 then n - 48 else if 65 \<le> n \<and> n \<le> 90 then n - 55
      else if 97 \<le> n \<and> n \<le> 122 then n - 87 else 36)"

definition read_radix :: "nat \<Rightarrow> string \<Rightarrow> int option" where
  "read_radix radix ds =
     (if ds \<noteq> [] \<and> list_all (\<lambda>c. digit_value c < radix) ds
      then Some (foldl (\<lambda>v c. v * int radix + int (digit_value c)) 0 ds) else None)"

text \<open>\<open>BigInt(s)\<close>: a decimal integer with a sign, or a hexadecimal, octal or binary one without; the empty
  text is zero; \<open>None\<close> is the \<open>SyntaxError\<close>.\<close>

definition js_BigInt :: "string \<Rightarrow> int option" where
  "js_BigInt s =
     (let t = trim s
      in if t = [] then Some 0
         else if take 2 t = ''0x'' \<or> take 2 t = ''0X'' then read_radix 16 (drop 2 t)
         else if take 2 t = ''0o'' \<or> take 2 t = ''0O'' then read_radix 8 (drop 2 t)
         else if take 2 t = ''0b'' \<or> take 2 t = ''0B'' then read_radix 2 (drop 2 t)
         else let (negative, ds) = read_sign t
         in map_option (\<lambda>v. if negative then - v else v) (read_radix 10 ds))"

section \<open>The readers of responses\<close>

datatype parser_error =
    Invalid_value string string
  | Missing_response string
  | Wrong_field_count nat nat
  | Invalid_filter string
  | Invalid_filter_number string
  | Invalid_filter_class string
  | Empty_error_response
  | Legacy_SPR_AVS
  | Invalid_pdo string
  | Negative_inquiry_field
  | Capture_too_short
  | Capture_missing_pulse_widths
  | Capture_missing_length
  | Capture_length_mismatch
  | Capture_event_with_pulses
  | Capture_event_without_type
  | Invalid_decode_result int
  | Invalid_cable_snapshot
  | Inconsistent_cable_identity

definition parseNumber :: "string \<Rightarrow> string \<Rightarrow> parser_error + rat" where
  "parseNumber val label = (case js_parseFloat val of None \<Rightarrow> Inl (Invalid_value label val) | Some v \<Rightarrow> Inr v)"

definition parseIntValue :: "string \<Rightarrow> string \<Rightarrow> parser_error + int" where
  "parseIntValue val label = (case js_parseInt val of None \<Rightarrow> Inl (Invalid_value label val) | Some v \<Rightarrow> Inr v)"

definition parseBigIntValue :: "string \<Rightarrow> string \<Rightarrow> parser_error + int" where
  "parseBigIntValue val label =
     (case js_BigInt (trim val) of None \<Rightarrow> Inl (Invalid_value label val) | Some v \<Rightarrow> Inr v)"

text \<open>The guard every single-value reader starts with.\<close>

definition first_value :: "string list \<Rightarrow> string \<Rightarrow> (string \<Rightarrow> parser_error + 'a) \<Rightarrow> parser_error + 'a" where
  "first_value vals label f = (if vals = [] then Inl (Missing_response label) else f (hd vals))"

definition parseSingleNumber :: "string list \<Rightarrow> string \<Rightarrow> parser_error + rat" where
  "parseSingleNumber vals label = first_value vals label (\<lambda>v. parseNumber v label)"

definition parseSingleInt :: "string list \<Rightarrow> string \<Rightarrow> parser_error + int" where
  "parseSingleInt vals label = first_value vals label (\<lambda>v. parseIntValue v label)"

definition parseSingleBigInt :: "string list \<Rightarrow> string \<Rightarrow> parser_error + int" where
  "parseSingleBigInt vals label = first_value vals label (\<lambda>v. parseBigIntValue v label)"

definition parseSingleScaledMilliInt :: "string list \<Rightarrow> string \<Rightarrow> rat \<Rightarrow> parser_error + int" where
  "parseSingleScaledMilliInt vals label baseUnitThreshold =
     first_value vals label (\<lambda>v.
       res_bind (parseNumber v label) (\<lambda>parsed.
         if \<bar>parsed\<bar> \<le> baseUnitThreshold then Inr (math_round (fl (parsed * 1000)))
         else Inr (math_round parsed)))"

end
