(* ===== verification/Drpd_Tokens.thy ===== *)
theory Drpd_Tokens
  imports Scpi_Numbers
begin

text \<open>
  The enumerations of \<open>device/drpd/types.ts\<close>. Their values are the SCPI tokens the device speaks; an
  enumeration is a datatype with the source's members and the table of their tokens. A token is
  matched trimmed and in upper case, as every token reader of \<open>parsers.ts\<close> does. Texts are ASCII, so
  \<open>toUpperCase\<close> is the ASCII one.
\<close>

definition upper_char :: "char \<Rightarrow> char" where
  "upper_char c = (let n = of_char c :: nat in if 97 \<le> n \<and> n \<le> 122 then char_of (n - 32) else c)"

definition to_upper :: "string \<Rightarrow> string" where
  "to_upper s = map upper_char s"

definition lookup_token :: "(string \<times> 'a) list \<Rightarrow> string \<Rightarrow> string \<Rightarrow> parser_error + 'a" where
  "lookup_token table label val =
     (case map_of table (to_upper (trim val)) of
        None \<Rightarrow> Inl (Invalid_value label val)
      | Some e \<Rightarrow> Inr e)"

section \<open>Tables of tokens\<close>

text \<open>What a table has to be: distinct tokens in normal form, a token for every member. Then a text is read
  as a member exactly when its normal form is the member's token.\<close>

locale token_table =
  fixes table :: "(string \<times> 'a) list"
  assumes tokens_distinct: "distinct (map fst table)"
    and tokens_normal: "list_all (\<lambda>t. to_upper (trim (fst t)) = fst t) table"
begin

lemma lookup_token_iff: "lookup_token table label val = Inr e \<longleftrightarrow> (to_upper (trim val), e) \<in> set table"
proof -
  have "lookup_token table label val = Inr e \<longleftrightarrow> map_of table (to_upper (trim val)) = Some e"
    by (simp add: lookup_token_def split: option.splits)
  then show ?thesis
    by (simp only: map_of_eq_Some_iff[OF tokens_distinct])
qed

lemma lookup_token_error:
  "isl (lookup_token table label val) \<longleftrightarrow> to_upper (trim val) \<notin> fst ` set table"
  using map_of_eq_None_iff[of table "to_upper (trim val)"] by (auto simp: lookup_token_def split: option.splits)

lemma lookup_token_own: "(t, e) \<in> set table \<Longrightarrow> lookup_token table label t = Inr e"
  using tokens_normal lookup_token_iff by (fastforce simp: list_all_iff)

end

text \<open>The token of a member, as \<open>scpiEnum\<close> sends it.\<close>

definition token_of :: "(string \<times> 'a) list \<Rightarrow> 'a \<Rightarrow> string" where
  "token_of table e = (case find (\<lambda>t. snd t = e) table of Some t \<Rightarrow> fst t | None \<Rightarrow> [])"

lemma token_of_in: "e \<in> snd ` set table \<Longrightarrow> (token_of table e, e) \<in> set table"
  by (induction table) (auto simp: token_of_def)

text \<open>Tokens of capitals, digits and underscores are in normal form.\<close>

definition token_chars :: string where
  "token_chars = ''ABCDEFGHIJKLMNOPQRSTUVWXYZ_0123456789''"

lemma token_chars_normal: "list_all (\<lambda>c. upper_char c = c \<and> \<not> js_space c) token_chars"
  by code_simp

lemma token_normal:
  assumes "list_all (\<lambda>c. c \<in> set token_chars) t"
  shows "to_upper (trim t) = t"
proof -
  have u: "upper_char c = c \<and> \<not> js_space c" if "c \<in> set t" for c
    using assms that token_chars_normal by (auto simp: list_all_iff)
  have "dropWhile js_space t = t" "dropWhile js_space (rev t) = rev t"
    using u by (auto simp: dropWhile_eq_self_iff hd_rev)
  then show ?thesis
    using u by (simp add: trim_def to_upper_def map_idI)
qed

lemma token_table_normal:
  assumes "distinct (map fst table)" "list_all (\<lambda>t. list_all (\<lambda>c. c \<in> set token_chars) (fst t)) table"
  shows "token_table table"
  using assms token_normal by unfold_locales (auto simp: list_all_iff)

section \<open>The enumerations\<close>

datatype OnOffState =
    OnOff_ON | OnOff_OFF

definition OnOffState_table :: "(string \<times> OnOffState) list" where
  "OnOffState_table =
     [(''ON'', OnOff_ON), (''OFF'', OnOff_OFF)]"

datatype CCBusRole =
    Role_DISABLED | Role_OBSERVER | Role_SINK | Role_CABLE_TEST

definition CCBusRole_table :: "(string \<times> CCBusRole) list" where
  "CCBusRole_table =
     [(''DISABLED'', Role_DISABLED), (''OBSERVER'', Role_OBSERVER), (''SINK'', Role_SINK),
      (''CABLE_TEST'', Role_CABLE_TEST)]"

datatype CCBusRoleStatus =
    RoleStatus_UNATTACHED | RoleStatus_SOURCE_FOUND | RoleStatus_ATTACHED

definition CCBusRoleStatus_table :: "(string \<times> CCBusRoleStatus) list" where
  "CCBusRoleStatus_table =
     [(''UNATTACHED'', RoleStatus_UNATTACHED), (''SOURCE_FOUND'', RoleStatus_SOURCE_FOUND),
      (''ATTACHED'', RoleStatus_ATTACHED)]"

datatype VBusStatus =
    VBus_ENABLED | VBus_DISABLED | VBus_OVP | VBus_OCP

definition VBusStatus_table :: "(string \<times> VBusStatus) list" where
  "VBusStatus_table =
     [(''ENABLED'', VBus_ENABLED), (''DISABLED'', VBus_DISABLED), (''OVP'', VBus_OVP),
      (''OCP'', VBus_OCP)]"

datatype TriggerStatus =
    Trigger_IDLE | Trigger_ARMED | Trigger_TRIGGERED

definition TriggerStatus_table :: "(string \<times> TriggerStatus) list" where
  "TriggerStatus_table =
     [(''IDLE'', Trigger_IDLE), (''ARMED'', Trigger_ARMED), (''TRIGGERED'', Trigger_TRIGGERED)]"

datatype TriggerEventType =
    Event_OFF | Event_PREAMBLE_START | Event_SOP_START | Event_HEADER_START | Event_DATA_START
  | Event_MESSAGE_COMPLETE | Event_HARD_RESET_RECEIVED | Event_INVALID_KCODE | Event_CRC_ERROR
  | Event_TIMEOUT_ERROR | Event_RUNT_PULSE_ERROR | Event_ANY_ERROR

definition TriggerEventType_table :: "(string \<times> TriggerEventType) list" where
  "TriggerEventType_table =
     [(''OFF'', Event_OFF), (''PREAMBLE_START'', Event_PREAMBLE_START),
      (''SOP_START'', Event_SOP_START), (''HEADER_START'', Event_HEADER_START),
      (''DATA_START'', Event_DATA_START), (''MESSAGE_COMPLETE'', Event_MESSAGE_COMPLETE),
      (''HARD_RESET_RECEIVED'', Event_HARD_RESET_RECEIVED), (''INVALID_KCODE'', Event_INVALID_KCODE),
      (''CRC_ERROR'', Event_CRC_ERROR), (''TIMEOUT_ERROR'', Event_TIMEOUT_ERROR),
      (''RUNT_PULSE_ERROR'', Event_RUNT_PULSE_ERROR), (''ANY_ERROR'', Event_ANY_ERROR)]"

datatype TriggerSenderFilter =
    Sender_ANY | Sender_SOURCE | Sender_SINK | Sender_CABLE

definition TriggerSenderFilter_table :: "(string \<times> TriggerSenderFilter) list" where
  "TriggerSenderFilter_table =
     [(''ANY'', Sender_ANY), (''SOURCE'', Sender_SOURCE), (''SINK'', Sender_SINK),
      (''CABLE'', Sender_CABLE)]"

datatype TriggerMessageTypeFilterClass =
    Class_CONTROL | Class_DATA

definition TriggerMessageTypeFilterClass_table :: "(string \<times> TriggerMessageTypeFilterClass) list" where
  "TriggerMessageTypeFilterClass_table =
     [(''CONTROL'', Class_CONTROL), (''DATA'', Class_DATA)]"

datatype TriggerSyncMode =
    Sync_PULSE_HIGH | Sync_PULSE_LOW | Sync_TOGGLE | Sync_PULL_DOWN

definition TriggerSyncMode_table :: "(string \<times> TriggerSyncMode) list" where
  "TriggerSyncMode_table =
     [(''PULSE_HIGH'', Sync_PULSE_HIGH), (''PULSE_LOW'', Sync_PULSE_LOW), (''TOGGLE'', Sync_TOGGLE),
      (''PULL_DOWN'', Sync_PULL_DOWN)]"

datatype SinkState =
    Sink_DISCONNECTED | Sink_PE_SNK_STARTUP | Sink_PE_SNK_DISCOVERY | Sink_PE_SNK_WAIT_FOR_CAPABILITIES
  | Sink_PE_SNK_EVALUATE_CAPABILITY | Sink_PE_SNK_SELECT_CAPABILITY | Sink_PE_SNK_TRANSITION_SINK
  | Sink_PE_SNK_READY | Sink_PE_SNK_SEND_EPR_MODE_ENTRY | Sink_PE_SNK_EPR_MODE_WAIT_FOR_RESPONSE
  | Sink_PE_SNK_SEND_EPR_MODE_EXIT | Sink_PE_SNK_GIVE_SINK_CAP | Sink_PE_SNK_GET_SOURCE_CAP
  | Sink_PE_SNK_GET_PPS_STATUS | Sink_PE_SNK_INQUIRY | Sink_PE_SNK_EPR_KEEPALIVE
  | Sink_PE_SNK_HARD_RESET | Sink_PE_SNK_TRANSITION_TO_DEFAULT | Sink_ERROR

definition SinkState_table :: "(string \<times> SinkState) list" where
  "SinkState_table =
     [(''DISCONNECTED'', Sink_DISCONNECTED), (''PE_SNK_STARTUP'', Sink_PE_SNK_STARTUP),
      (''PE_SNK_DISCOVERY'', Sink_PE_SNK_DISCOVERY),
      (''PE_SNK_WAIT_FOR_CAPABILITIES'', Sink_PE_SNK_WAIT_FOR_CAPABILITIES),
      (''PE_SNK_EVALUATE_CAPABILITY'', Sink_PE_SNK_EVALUATE_CAPABILITY),
      (''PE_SNK_SELECT_CAPABILITY'', Sink_PE_SNK_SELECT_CAPABILITY),
      (''PE_SNK_TRANSITION_SINK'', Sink_PE_SNK_TRANSITION_SINK),
      (''PE_SNK_READY'', Sink_PE_SNK_READY),
      (''PE_SNK_SEND_EPR_MODE_ENTRY'', Sink_PE_SNK_SEND_EPR_MODE_ENTRY),
      (''PE_SNK_EPR_MODE_WAIT_FOR_RESPONSE'', Sink_PE_SNK_EPR_MODE_WAIT_FOR_RESPONSE),
      (''PE_SNK_SEND_EPR_MODE_EXIT'', Sink_PE_SNK_SEND_EPR_MODE_EXIT),
      (''PE_SNK_GIVE_SINK_CAP'', Sink_PE_SNK_GIVE_SINK_CAP),
      (''PE_SNK_GET_SOURCE_CAP'', Sink_PE_SNK_GET_SOURCE_CAP),
      (''PE_SNK_GET_PPS_STATUS'', Sink_PE_SNK_GET_PPS_STATUS),
      (''PE_SNK_INQUIRY'', Sink_PE_SNK_INQUIRY),
      (''PE_SNK_EPR_KEEPALIVE'', Sink_PE_SNK_EPR_KEEPALIVE),
      (''PE_SNK_HARD_RESET'', Sink_PE_SNK_HARD_RESET),
      (''PE_SNK_TRANSITION_TO_DEFAULT'', Sink_PE_SNK_TRANSITION_TO_DEFAULT), (''ERROR'', Sink_ERROR)]"

datatype TestCcRole =
    Test_SOURCE_DEFAULT | Test_SOURCE_1_5A | Test_SOURCE_3_0A | Test_SINK | Test_EMARKER | Test_VCONN
  | Test_OFF

definition TestCcRole_table :: "(string \<times> TestCcRole) list" where
  "TestCcRole_table =
     [(''SOURCE_DEFAULT'', Test_SOURCE_DEFAULT), (''SOURCE_1_5A'', Test_SOURCE_1_5A),
      (''SOURCE_3_0A'', Test_SOURCE_3_0A), (''SINK'', Test_SINK), (''EMARKER'', Test_EMARKER),
      (''VCONN'', Test_VCONN), (''OFF'', Test_OFF)]"

datatype SinkRequestOutcome =
    Outcome_NONE | Outcome_PENDING | Outcome_ACCEPTED | Outcome_REJECTED | Outcome_WAIT
  | Outcome_NOT_SUPPORTED | Outcome_TIMEOUT

definition SinkRequestOutcome_table :: "(string \<times> SinkRequestOutcome) list" where
  "SinkRequestOutcome_table =
     [(''NONE'', Outcome_NONE), (''PENDING'', Outcome_PENDING), (''ACCEPTED'', Outcome_ACCEPTED),
      (''REJECTED'', Outcome_REJECTED), (''WAIT'', Outcome_WAIT),
      (''NOT_SUPPORTED'', Outcome_NOT_SUPPORTED), (''TIMEOUT'', Outcome_TIMEOUT)]"

datatype SinkInquiryType =
    Inquiry_GET_SOURCE_CAP | Inquiry_GET_SOURCE_CAP_EXTENDED | Inquiry_GET_STATUS
  | Inquiry_GET_SOURCE_INFO | Inquiry_GET_PPS_STATUS | Inquiry_GET_REVISION
  | Inquiry_GET_MANUFACTURER_INFO | Inquiry_GET_COUNTRY_CODES | Inquiry_GET_COUNTRY_INFO
  | Inquiry_GET_BATTERY_CAP | Inquiry_GET_BATTERY_STATUS | Inquiry_DISCOVER_IDENTITY
  | Inquiry_DISCOVER_SVIDS | Inquiry_DISCOVER_MODES | Inquiry_GET_DIGESTS | Inquiry_GET_CERTIFICATE
  | Inquiry_CHALLENGE

definition SinkInquiryType_table :: "(string \<times> SinkInquiryType) list" where
  "SinkInquiryType_table =
     [(''GET_SOURCE_CAP'', Inquiry_GET_SOURCE_CAP),
      (''GET_SOURCE_CAP_EXTENDED'', Inquiry_GET_SOURCE_CAP_EXTENDED),
      (''GET_STATUS'', Inquiry_GET_STATUS), (''GET_SOURCE_INFO'', Inquiry_GET_SOURCE_INFO),
      (''GET_PPS_STATUS'', Inquiry_GET_PPS_STATUS), (''GET_REVISION'', Inquiry_GET_REVISION),
      (''GET_MANUFACTURER_INFO'', Inquiry_GET_MANUFACTURER_INFO),
      (''GET_COUNTRY_CODES'', Inquiry_GET_COUNTRY_CODES),
      (''GET_COUNTRY_INFO'', Inquiry_GET_COUNTRY_INFO),
      (''GET_BATTERY_CAP'', Inquiry_GET_BATTERY_CAP),
      (''GET_BATTERY_STATUS'', Inquiry_GET_BATTERY_STATUS),
      (''DISCOVER_IDENTITY'', Inquiry_DISCOVER_IDENTITY),
      (''DISCOVER_SVIDS'', Inquiry_DISCOVER_SVIDS), (''DISCOVER_MODES'', Inquiry_DISCOVER_MODES),
      (''GET_DIGESTS'', Inquiry_GET_DIGESTS), (''GET_CERTIFICATE'', Inquiry_GET_CERTIFICATE),
      (''CHALLENGE'', Inquiry_CHALLENGE)]"

datatype SinkInquiryCablePlug =
    Plug_SOP_PRIME | Plug_SOP_DOUBLE_PRIME

definition SinkInquiryCablePlug_table :: "(string \<times> SinkInquiryCablePlug) list" where
  "SinkInquiryCablePlug_table =
     [(''SOP_PRIME'', Plug_SOP_PRIME), (''SOP_DOUBLE_PRIME'', Plug_SOP_DOUBLE_PRIME)]"

datatype SinkInquiryOutcome =
    Result_NONE | Result_PENDING | Result_RESPONSE | Result_NOT_SUPPORTED | Result_REJECTED
  | Result_WAIT | Result_GOODCRC_TIMEOUT | Result_RESPONSE_TIMEOUT | Result_PROTOCOL_ERROR
  | Result_MALFORMED_RESPONSE | Result_RESPONSE_TOO_LARGE | Result_NAK | Result_BUSY | Result_ABORTED

definition SinkInquiryOutcome_table :: "(string \<times> SinkInquiryOutcome) list" where
  "SinkInquiryOutcome_table =
     [(''NONE'', Result_NONE), (''PENDING'', Result_PENDING), (''RESPONSE'', Result_RESPONSE),
      (''NOT_SUPPORTED'', Result_NOT_SUPPORTED), (''REJECTED'', Result_REJECTED),
      (''WAIT'', Result_WAIT), (''GOODCRC_TIMEOUT'', Result_GOODCRC_TIMEOUT),
      (''RESPONSE_TIMEOUT'', Result_RESPONSE_TIMEOUT), (''PROTOCOL_ERROR'', Result_PROTOCOL_ERROR),
      (''MALFORMED_RESPONSE'', Result_MALFORMED_RESPONSE),
      (''RESPONSE_TOO_LARGE'', Result_RESPONSE_TOO_LARGE), (''NAK'', Result_NAK),
      (''BUSY'', Result_BUSY), (''ABORTED'', Result_ABORTED)]"

datatype CcChannel =
    Channel_CC1 | Channel_CC2

definition CcChannel_table :: "(string \<times> CcChannel) list" where
  "CcChannel_table =
     [(''CC1'', Channel_CC1), (''CC2'', Channel_CC2)]"

interpretation onOffState: token_table OnOffState_table
  by (rule token_table_normal) (simp_all add: OnOffState_table_def token_chars_def)

interpretation cCBusRole: token_table CCBusRole_table
  by (rule token_table_normal) (simp_all add: CCBusRole_table_def token_chars_def)

interpretation cCBusRoleStatus: token_table CCBusRoleStatus_table
  by (rule token_table_normal) (simp_all add: CCBusRoleStatus_table_def token_chars_def)

interpretation vBusStatus: token_table VBusStatus_table
  by (rule token_table_normal) (simp_all add: VBusStatus_table_def token_chars_def)

interpretation triggerStatus: token_table TriggerStatus_table
  by (rule token_table_normal) (simp_all add: TriggerStatus_table_def token_chars_def)

interpretation triggerEventType: token_table TriggerEventType_table
  by (rule token_table_normal) (simp_all add: TriggerEventType_table_def token_chars_def)

interpretation triggerSenderFilter: token_table TriggerSenderFilter_table
  by (rule token_table_normal) (simp_all add: TriggerSenderFilter_table_def token_chars_def)

interpretation triggerMessageTypeFilterClass: token_table TriggerMessageTypeFilterClass_table
  by (rule token_table_normal) (simp_all add: TriggerMessageTypeFilterClass_table_def token_chars_def)

interpretation triggerSyncMode: token_table TriggerSyncMode_table
  by (rule token_table_normal) (simp_all add: TriggerSyncMode_table_def token_chars_def)

interpretation sinkState: token_table SinkState_table
  by (rule token_table_normal) (simp_all add: SinkState_table_def token_chars_def)

interpretation testCcRole: token_table TestCcRole_table
  by (rule token_table_normal) (simp_all add: TestCcRole_table_def token_chars_def)

interpretation sinkRequestOutcome: token_table SinkRequestOutcome_table
  by (rule token_table_normal) (simp_all add: SinkRequestOutcome_table_def token_chars_def)

interpretation sinkInquiryType: token_table SinkInquiryType_table
  by (rule token_table_normal) (simp_all add: SinkInquiryType_table_def token_chars_def)

interpretation sinkInquiryCablePlug: token_table SinkInquiryCablePlug_table
  by (rule token_table_normal) (simp_all add: SinkInquiryCablePlug_table_def token_chars_def)

interpretation sinkInquiryOutcome: token_table SinkInquiryOutcome_table
  by (rule token_table_normal) (simp_all add: SinkInquiryOutcome_table_def token_chars_def)

interpretation ccChannel: token_table CcChannel_table
  by (rule token_table_normal) (simp_all add: CcChannel_table_def token_chars_def)

end
