(* ===== verification/Scpi_Parsers.thy ===== *)
theory Scpi_Parsers
  imports Drpd_Tokens
begin

text \<open>
  The response parsers of \<open>device/drpd/parsers.ts\<close> and \<open>device/drpd/cableTest.ts\<close>. A thrown error is
  \<open>Inl\<close>; fields are evaluated in the order of the object literal, so the first bad field decides the
  error. A thrown message keeps its label and the offending text. \<open>TextDecoder\<close> is a parameter.
\<close>

section \<open>Lists of fields\<close>

fun js_split :: "char \<Rightarrow> string \<Rightarrow> string list" where
  "js_split sep [] = [[]]"
| "js_split sep (c # cs) =
     (if c = sep then [] # js_split sep cs
      else (case js_split sep cs of [] \<Rightarrow> [[c]] | t # ts \<Rightarrow> (c # t) # ts))"

lemma split_spaces_shorter:
  "dropWhile (Not \<circ> js_space) s \<noteq> [] \<Longrightarrow>
     length (dropWhile js_space (dropWhile (Not \<circ> js_space) s)) < length s"
proof -
  let ?r = "dropWhile (Not \<circ> js_space) s"
  assume r: "?r \<noteq> []"
  then have "js_space (hd ?r)"
    using hd_dropWhile[OF r] by simp
  then have "length (dropWhile js_space ?r) \<le> length (tl ?r)"
    using r by (cases ?r) (simp_all add: length_dropWhile_le)
  also have "\<dots> < length ?r"
    using r by simp
  also have "\<dots> \<le> length s"
    by (rule length_dropWhile_le)
  finally show ?thesis .
qed

text \<open>\<open>s.split(/\s+/)\<close>\<close>

function split_spaces :: "string \<Rightarrow> string list" where
  "split_spaces s =
     (let t = takeWhile (Not \<circ> js_space) s; r = dropWhile (Not \<circ> js_space) s
      in if r = [] then [t] else t # split_spaces (dropWhile js_space r))"
  by pat_completeness auto

termination
  by (relation "measure length") (auto simp: split_spaces_shorter simp del: dropWhile_eq_Nil_conv)

declare split_spaces.simps [simp del]

fun map_result :: "('a \<Rightarrow> 'e + 'b) \<Rightarrow> 'a list \<Rightarrow> 'e + 'b list" where
  "map_result f [] = Inr []"
| "map_result f (x # xs) = res_bind (f x) (\<lambda>y. res_bind (map_result f xs) (\<lambda>ys. Inr (y # ys)))"

definition parseCommaSeparated :: "string list \<Rightarrow> string list" where
  "parseCommaSeparated vals =
     (if vals = [] then []
      else let parts = (if length vals = 1 then js_split (CHR '','') (hd vals) else vals);
          normalized = map (\<lambda>part. strip_quotes (trim part)) parts
      in if list_all (\<lambda>part. part = []) normalized then [] else normalized)"

section \<open>Tokens\<close>

definition parseOnOff :: "string \<Rightarrow> parser_error + OnOffState" where
  "parseOnOff val = lookup_token OnOffState_table ''ON/OFF value'' val"

definition parseCCBusRole :: "string \<Rightarrow> parser_error + CCBusRole" where
  "parseCCBusRole val = lookup_token CCBusRole_table ''CC bus role'' val"

definition parseCCBusRoleStatus :: "string \<Rightarrow> parser_error + CCBusRoleStatus" where
  "parseCCBusRoleStatus val = lookup_token CCBusRoleStatus_table ''CC bus role status'' val"

definition parseVBusStatus :: "string \<Rightarrow> parser_error + VBusStatus" where
  "parseVBusStatus val = lookup_token VBusStatus_table ''VBUS status'' val"

definition parseTriggerStatus :: "string \<Rightarrow> parser_error + TriggerStatus" where
  "parseTriggerStatus val = lookup_token TriggerStatus_table ''trigger status'' val"

definition parseTriggerEventType :: "string \<Rightarrow> parser_error + TriggerEventType" where
  "parseTriggerEventType val = lookup_token TriggerEventType_table ''trigger event type'' val"

definition parseTriggerSyncMode :: "string \<Rightarrow> parser_error + TriggerSyncMode" where
  "parseTriggerSyncMode val = lookup_token TriggerSyncMode_table ''trigger sync mode'' val"

definition parseTriggerSenderFilter :: "string \<Rightarrow> parser_error + TriggerSenderFilter" where
  "parseTriggerSenderFilter val = lookup_token TriggerSenderFilter_table ''trigger sender filter'' val"

definition parseSinkState :: "string \<Rightarrow> parser_error + SinkState" where
  "parseSinkState val = lookup_token SinkState_table ''sink state'' val"

text \<open>The lookup of \<open>parseTestCcRole\<close> also knows the older tokens of two roles.\<close>

definition TestCcRole_lookup :: "(string \<times> TestCcRole) list" where
  "TestCcRole_lookup =
     TestCcRole_table @ [(''SOURCE_15'', Test_SOURCE_1_5A), (''SOURCE_30'', Test_SOURCE_3_0A)]"

definition parseTestCcRole :: "string \<Rightarrow> parser_error + TestCcRole" where
  "parseTestCcRole val = lookup_token TestCcRole_lookup ''test CC role'' val"

definition parseCcChannel :: "string \<Rightarrow> parser_error + CcChannel" where
  "parseCcChannel val = lookup_token CcChannel_table ''CC channel'' val"

section \<open>Trigger filters\<close>

record TriggerMessageTypeFilter =
  tf_class :: TriggerMessageTypeFilterClass
  tf_messageTypeNumber :: int

definition parseTriggerMessageTypeFilter :: "string \<Rightarrow> parser_error + TriggerMessageTypeFilter" where
  "parseTriggerMessageTypeFilter val =
     (let normalized = to_upper (trim val);
          classToken = takeWhile (\<lambda>c. c \<noteq> CHR '':'') normalized;
          separatorIndex = length classToken
      in if separatorIndex = length normalized \<or> separatorIndex = 0 \<or>
            separatorIndex = length normalized - 1 then Inl (Invalid_filter val)
         else res_bind (parseIntValue (drop (separatorIndex + 1) normalized) ''trigger message type number'')
           (\<lambda>parsedNumber.
              if parsedNumber < 0 \<or> parsedNumber > 0x1f then Inl (Invalid_filter_number val)
              else (case map_of TriggerMessageTypeFilterClass_table classToken of
                      None \<Rightarrow> Inl (Invalid_filter_class val)
                    | Some cls \<Rightarrow> Inr \<lparr>tf_class = cls, tf_messageTypeNumber = parsedNumber\<rparr>)))"

definition parseTriggerMessageTypeFiltersResponse :: "string list \<Rightarrow> parser_error + TriggerMessageTypeFilter list" where
  "parseTriggerMessageTypeFiltersResponse vals =
     (let combined = trim (join '' '' vals)
      in if combined = [] then Inr []
         else map_result parseTriggerMessageTypeFilter (filter (\<lambda>token. length token > 0) (split_spaces combined)))"

section \<open>Status, identity and errors\<close>

record DeviceStatusFlags =
  ds_vbusStatusChanged :: bool
  ds_roleChanged :: bool
  ds_captureStatusChanged :: bool
  ds_ccBusStatusChanged :: bool
  ds_triggerStatusChanged :: bool
  ds_sinkPdoListChanged :: bool
  ds_sinkStatusChanged :: bool
  ds_messageReceived :: bool
  ds_rawValue :: int

definition parseDeviceStatus :: "int \<Rightarrow> DeviceStatusFlags" where
  "parseDeviceStatus numeric =
     \<lparr>ds_vbusStatusChanged = js_and numeric 0x00000001 \<noteq> 0,
      ds_roleChanged = js_and numeric 0x00000002 \<noteq> 0,
      ds_captureStatusChanged = js_and numeric 0x00000004 \<noteq> 0,
      ds_ccBusStatusChanged = js_and numeric 0x00000008 \<noteq> 0,
      ds_triggerStatusChanged = js_and numeric 0x00000010 \<noteq> 0,
      ds_sinkPdoListChanged = js_and numeric 0x00000020 \<noteq> 0,
      ds_sinkStatusChanged = js_and numeric 0x00000040 \<noteq> 0,
      ds_messageReceived = js_and numeric 0x00000080 \<noteq> 0,
      ds_rawValue = numeric\<rparr>"

record DeviceIdentity =
  di_manufacturer :: string
  di_model :: string
  di_serialNumber :: string
  di_firmwareVersion :: string
  di_hardwareRevision :: "string option"

definition parseDeviceIdentity :: "string list \<Rightarrow> parser_error + DeviceIdentity" where
  "parseDeviceIdentity parts =
     (let normalizedParts = (if length parts = 1 \<and> CHR '','' \<in> set (hd parts)
            then map trim (js_split (CHR '','') (hd parts)) else parts)
      in if length normalizedParts \<noteq> 4 then Inl (Wrong_field_count 4 (length normalizedParts))
         else Inr \<lparr>di_manufacturer = normalizedParts ! 0, di_model = normalizedParts ! 1,
           di_serialNumber = normalizedParts ! 2, di_firmwareVersion = normalizedParts ! 3,
           di_hardwareRevision = None\<rparr>)"

definition parseErrorResponse :: "string list \<Rightarrow> parser_error + int \<times> string" where
  "parseErrorResponse vals =
     (let combined = trim (join '' '' vals)
      in if combined = [] then Inl Empty_error_response
         else let parts = js_split (CHR '','') combined
         in res_bind (parseIntValue (hd parts) ''error code'') (\<lambda>code.
              Inr (code, strip_quotes (trim (join '','' (tl parts))))))"

section \<open>Measurements\<close>

record AnalogMonitorChannels =
  am_captureTimestampUs :: int
  am_vbus :: rat
  am_ibus :: rat
  am_dutCc1 :: rat
  am_dutCc2 :: rat
  am_usdsCc1 :: rat
  am_usdsCc2 :: rat
  am_adcVref :: rat
  am_groundRef :: rat
  am_currentVref :: rat
  am_accumulationElapsedTimeUs :: int
  am_accumulatedChargeMah :: int
  am_accumulatedEnergyMwh :: int

definition parseAnalogMonitorChannels :: "string list \<Rightarrow> parser_error + AnalogMonitorChannels" where
  "parseAnalogMonitorChannels vals =
     (if length vals \<noteq> 13 then Inl (Wrong_field_count 13 (length vals))
      else
        res_bind (parseBigIntValue (vals ! 0) ''VBUS capture timestamp'') (\<lambda>captureTimestampUs.
        res_bind (parseNumber (vals ! 1) ''VBUS voltage'') (\<lambda>vbus.
        res_bind (parseNumber (vals ! 2) ''VBUS current'') (\<lambda>ibus.
        res_bind (parseNumber (vals ! 3) ''DUT CC1 voltage'') (\<lambda>dutCc1.
        res_bind (parseNumber (vals ! 4) ''DUT CC2 voltage'') (\<lambda>dutCc2.
        res_bind (parseNumber (vals ! 5) ''USDS CC1 voltage'') (\<lambda>usdsCc1.
        res_bind (parseNumber (vals ! 6) ''USDS CC2 voltage'') (\<lambda>usdsCc2.
        res_bind (parseNumber (vals ! 7) ''ADC VREF voltage'') (\<lambda>adcVref.
        res_bind (parseNumber (vals ! 8) ''Ground reference voltage'') (\<lambda>groundRef.
        res_bind (parseNumber (vals ! 9) ''Current reference voltage'') (\<lambda>currentVref.
        res_bind (parseBigIntValue (vals ! 10) ''Accumulation elapsed time'') (\<lambda>accumulationElapsedTimeUs.
        res_bind (parseIntValue (vals ! 11) ''Accumulated charge'') (\<lambda>accumulatedChargeMah.
        res_bind (parseIntValue (vals ! 12) ''Accumulated energy'') (\<lambda>accumulatedEnergyMwh.
          Inr \<lparr>am_captureTimestampUs = captureTimestampUs, am_vbus = vbus, am_ibus = ibus,
            am_dutCc1 = dutCc1, am_dutCc2 = dutCc2, am_usdsCc1 = usdsCc1, am_usdsCc2 = usdsCc2,
            am_adcVref = adcVref, am_groundRef = groundRef, am_currentVref = currentVref,
            am_accumulationElapsedTimeUs = accumulationElapsedTimeUs,
            am_accumulatedChargeMah = accumulatedChargeMah,
            am_accumulatedEnergyMwh = accumulatedEnergyMwh\<rparr>))))))))))))))"

record AccumulatedMeasurements =
  ac_accumulationElapsedTimeUs :: int
  ac_accumulatedChargeMah :: int
  ac_accumulatedEnergyMwh :: int

definition parseAccumulatedMeasurements :: "string list \<Rightarrow> parser_error + AccumulatedMeasurements" where
  "parseAccumulatedMeasurements vals =
     (if length vals \<noteq> 3 then Inl (Wrong_field_count 3 (length vals))
      else
        res_bind (parseBigIntValue (vals ! 0) ''Accumulation elapsed time'') (\<lambda>accumulationElapsedTimeUs.
        res_bind (parseIntValue (vals ! 1) ''Accumulated charge'') (\<lambda>accumulatedChargeMah.
        res_bind (parseIntValue (vals ! 2) ''Accumulated energy'') (\<lambda>accumulatedEnergyMwh.
          Inr \<lparr>ac_accumulationElapsedTimeUs = accumulationElapsedTimeUs,
            ac_accumulatedChargeMah = accumulatedChargeMah,
            ac_accumulatedEnergyMwh = accumulatedEnergyMwh\<rparr>))))"

datatype AnalogMonitorCCChannelStatus = CC_UNKNOWN | SINK_TX_NG | SINK_TX_OK | V_CONN | CC_DISCONNECTED

text \<open>The thresholds are the doubles nearest to the literals.\<close>

definition analogMonitorCCStatusFromVoltage :: "rat \<Rightarrow> AnalogMonitorCCChannelStatus" where
  "analogMonitorCCStatusFromVoltage voltage =
     (if voltage < fl (2 / 10) then CC_DISCONNECTED
      else if voltage < fl (13 / 10) then SINK_TX_NG
      else if voltage < fl (22 / 10) then SINK_TX_OK
      else if voltage \<ge> fl (27 / 10) then V_CONN
      else CC_UNKNOWN)"

section \<open>The sink\<close>

datatype SinkPdo =
    FixedSinkPdo rat rat
  | VariableSinkPdo rat rat rat
  | BatterySinkPdo rat rat rat
  | SprPpsSinkPdo rat rat rat
  | SprAvsSinkPdo rat rat rat rat
  | EprAvsSinkPdo rat rat rat

text \<open>The object with three numbers, or the error of a wrong field count.\<close>

definition three_fields :: "string list \<Rightarrow> string \<Rightarrow> string \<Rightarrow> string \<Rightarrow> (rat \<Rightarrow> rat \<Rightarrow> rat \<Rightarrow> SinkPdo) \<Rightarrow>
    parser_error + SinkPdo option" where
  "three_fields parts l1 l2 l3 f =
     (if length parts \<noteq> 4 then Inl (Invalid_pdo (join '','' parts))
      else res_bind (parseNumber (parts ! 1) l1) (\<lambda>a.
           res_bind (parseNumber (parts ! 2) l2) (\<lambda>b.
           res_bind (parseNumber (parts ! 3) l3) (\<lambda>c. Inr (Some (f a b c))))))"

definition parseSinkPdo :: "string list \<Rightarrow> parser_error + SinkPdo option" where
  "parseSinkPdo vals =
     (let commaParts = parseCommaSeparated vals;
          parts = (if length commaParts = 1 \<and> list_ex js_space (hd commaParts)
                   then split_spaces (trim (hd commaParts)) else commaParts)
      in if parts = [] then Inr None
         else let typ = to_upper (hd parts)
         in if typ = ''NONE'' then Inr None
            else if typ = ''FIXED'' then
              (if length parts \<noteq> 3 then Inl (Invalid_pdo (join '','' parts))
               else res_bind (parseNumber (parts ! 1) ''PDO voltage'') (\<lambda>v.
                    res_bind (parseNumber (parts ! 2) ''PDO max current'') (\<lambda>i. Inr (Some (FixedSinkPdo v i)))))
            else if typ = ''VARIABLE'' then
              three_fields parts ''PDO min voltage'' ''PDO max voltage'' ''PDO max current'' VariableSinkPdo
            else if typ = ''BATTERY'' then
              three_fields parts ''PDO min voltage'' ''PDO max voltage'' ''PDO max power'' BatterySinkPdo
            else if typ = ''AUGMENTED'' \<or> typ = ''SPR_PPS'' then
              three_fields parts ''PDO min voltage'' ''PDO max voltage'' ''PDO max current'' SprPpsSinkPdo
            else if typ = ''SPR_AVS'' then
              (if length parts = 4 then Inl Legacy_SPR_AVS
               else if length parts \<noteq> 5 then Inl (Invalid_pdo (join '','' parts))
               else res_bind (parseNumber (parts ! 1) ''PDO min voltage'') (\<lambda>a.
                    res_bind (parseNumber (parts ! 2) ''PDO max voltage'') (\<lambda>b.
                    res_bind (parseNumber (parts ! 3) ''PDO 9-15 V max current'') (\<lambda>c.
                    res_bind (parseNumber (parts ! 4) ''PDO 15-20 V max current'') (\<lambda>d.
                      Inr (Some (SprAvsSinkPdo a b c d)))))))
            else if typ = ''EPR_AVS'' then
              three_fields parts ''PDO min voltage'' ''PDO max voltage'' ''PDO max power'' EprAvsSinkPdo
            else Inl (Invalid_pdo (hd parts)))"

record SinkRequestStatus =
  rs_outcome :: SinkRequestOutcome
  rs_index :: "int option"
  rs_voltageMv :: "int option"
  rs_currentMa :: "int option"

definition parseSinkRequestStatus :: "string list \<Rightarrow> parser_error + SinkRequestStatus" where
  "parseSinkRequestStatus vals =
     (let parts = parseCommaSeparated vals
      in if parts = [] then Inl (Missing_response ''sink request status'')
         else (case map_of SinkRequestOutcome_table (to_upper (hd parts)) of
             None \<Rightarrow> Inl (Invalid_value ''sink request outcome'' (hd parts))
           | Some outcome \<Rightarrow>
               if outcome = Outcome_NONE then
                 Inr \<lparr>rs_outcome = outcome, rs_index = None, rs_voltageMv = None, rs_currentMa = None\<rparr>
               else if length parts \<noteq> 4 then Inl (Wrong_field_count 4 (length parts))
               else res_bind (parseIntValue (parts ! 1) ''sink request PDO index'') (\<lambda>index.
                    res_bind (parseIntValue (parts ! 2) ''sink request voltage'') (\<lambda>voltageMv.
                    res_bind (parseIntValue (parts ! 3) ''sink request current'') (\<lambda>currentMa.
                      Inr \<lparr>rs_outcome = outcome, rs_index = Some index, rs_voltageMv = Some voltageMv,
                        rs_currentMa = Some currentMa\<rparr>)))))"

record SinkInquiryStatus =
  is_outcome :: SinkInquiryOutcome
  is_requestId :: int
  is_type :: SinkInquiryType
  is_responseClass :: int
  is_responseType :: int
  is_responseLength :: int

definition parseSinkInquiryStatus :: "string list \<Rightarrow> parser_error + SinkInquiryStatus" where
  "parseSinkInquiryStatus vals =
     (let parts = parseCommaSeparated vals
      in if length parts \<noteq> 6 then Inl (Wrong_field_count 6 (length parts))
         else (case map_of SinkInquiryOutcome_table (to_upper (parts ! 0)) of
             None \<Rightarrow> Inl (Invalid_value ''sink inquiry outcome'' (parts ! 0))
           | Some outcome \<Rightarrow>
         (case map_of SinkInquiryType_table (to_upper (parts ! 2)) of
             None \<Rightarrow> Inl (Invalid_value ''sink inquiry type'' (parts ! 2))
           | Some typ \<Rightarrow>
               res_bind (parseIntValue (parts ! 1) ''sink inquiry request ID'') (\<lambda>requestId.
               res_bind (parseIntValue (parts ! 3) ''sink inquiry response class'') (\<lambda>responseClass.
               res_bind (parseIntValue (parts ! 4) ''sink inquiry response type'') (\<lambda>responseType.
               res_bind (parseIntValue (parts ! 5) ''sink inquiry response length'') (\<lambda>responseLength.
                 if requestId < 0 \<or> responseClass < 0 \<or> responseType < 0 \<or> responseLength < 0 then
                   Inl Negative_inquiry_field
                 else Inr \<lparr>is_outcome = outcome, is_requestId = requestId, is_type = typ,
                   is_responseClass = responseClass, is_responseType = responseType,
                   is_responseLength = responseLength\<rparr>)))))))"

section \<open>VBUS\<close>

record VBusInfo =
  vb_status :: VBusStatus
  vb_ovpThresholdMv :: int
  vb_ocpThresholdMa :: int
  vb_ovpEventTimestampUs :: "int option"
  vb_ocpEventTimestampUs :: "int option"

definition buildVBusInfo :: "VBusStatus \<Rightarrow> int \<Rightarrow> int \<Rightarrow> int option \<Rightarrow> int option \<Rightarrow> VBusInfo" where
  "buildVBusInfo status ovpThresholdMv ocpThresholdMa ovpEventTimestampUs ocpEventTimestampUs =
     \<lparr>vb_status = status, vb_ovpThresholdMv = ovpThresholdMv, vb_ocpThresholdMa = ocpThresholdMa,
      vb_ovpEventTimestampUs = ovpEventTimestampUs, vb_ocpEventTimestampUs = ocpEventTimestampUs\<rparr>"

definition parseOptionalVBusEventTimestamp :: "string \<Rightarrow> string \<Rightarrow> parser_error + int option" where
  "parseOptionalVBusEventTimestamp val label =
     (if to_upper (trim val) = ''NONE'' then Inr None
      else res_bind (parseBigIntValue val label) (\<lambda>t. Inr (Some t)))"

definition parseVBusStatusFields :: "string list \<Rightarrow> parser_error + VBusStatus \<times> int option \<times> int option" where
  "parseVBusStatusFields vals =
     (if length vals < 3 then Inl (Wrong_field_count 3 (length vals))
      else res_bind (parseVBusStatus (vals ! 0)) (\<lambda>status.
           res_bind (parseOptionalVBusEventTimestamp (vals ! 1) ''OVP event timestamp'') (\<lambda>ovp.
           res_bind (parseOptionalVBusEventTimestamp (vals ! 2) ''OCP event timestamp'') (\<lambda>ocp.
             Inr (status, ovp, ocp)))))"

section \<open>Responses of one token\<close>

definition parseCcChannelResponse :: "string list \<Rightarrow> parser_error + CcChannel" where
  "parseCcChannelResponse vals = first_value vals ''CC channel'' parseCcChannel"

definition parseTestCcRoleResponse :: "string list \<Rightarrow> parser_error + TestCcRole" where
  "parseTestCcRoleResponse vals = first_value vals ''test CC role'' parseTestCcRole"

definition parseOnOffResponse :: "string list \<Rightarrow> parser_error + OnOffState" where
  "parseOnOffResponse vals = first_value vals ''ON/OFF'' parseOnOff"

definition parseCCBusRoleResponse :: "string list \<Rightarrow> parser_error + CCBusRole" where
  "parseCCBusRoleResponse vals = first_value vals ''CC bus role'' parseCCBusRole"

definition parseCCBusRoleStatusResponse :: "string list \<Rightarrow> parser_error + CCBusRoleStatus" where
  "parseCCBusRoleStatusResponse vals = first_value vals ''CC bus role status'' parseCCBusRoleStatus"

definition parseVBusStatusResponse :: "string list \<Rightarrow> parser_error + VBusStatus" where
  "parseVBusStatusResponse vals = first_value vals ''VBUS status'' parseVBusStatus"

definition parseTriggerStatusResponse :: "string list \<Rightarrow> parser_error + TriggerStatus" where
  "parseTriggerStatusResponse vals = first_value vals ''trigger status'' parseTriggerStatus"

definition parseTriggerEventTypeResponse :: "string list \<Rightarrow> parser_error + TriggerEventType" where
  "parseTriggerEventTypeResponse vals = first_value vals ''trigger event type'' parseTriggerEventType"

definition parseTriggerSenderFilterResponse :: "string list \<Rightarrow> parser_error + TriggerSenderFilter" where
  "parseTriggerSenderFilterResponse vals = first_value vals ''trigger sender filter'' parseTriggerSenderFilter"

definition parseTriggerSyncModeResponse :: "string list \<Rightarrow> parser_error + TriggerSyncMode" where
  "parseTriggerSyncModeResponse vals = first_value vals ''trigger sync mode'' parseTriggerSyncMode"

definition parseSinkStateResponse :: "string list \<Rightarrow> parser_error + SinkState" where
  "parseSinkStateResponse vals = first_value vals ''sink state'' parseSinkState"

end
