(* ===== verification/Capture_Record.thy ===== *)
theory Capture_Record
  imports Scpi_Parsers
begin

text \<open>
  The capture stream: \<open>parseCapturedMessage\<close> of \<open>device/drpd/parsers.ts\<close>, a message with its pulse widths
  or an event of the firmware. The 64-bit timestamps are big integers; their value in seconds is the
  nearest double, missing (\<open>NaN\<close>) above \<open>2^53 - 1\<close>. The text decoder of the platform is the parameter
  \<open>decode\<close>.
\<close>

definition getUintLE :: "bytes \<Rightarrow> nat \<Rightarrow> nat \<Rightarrow> int" where
  "getUintLE view n offset = le_val (sub_array view offset (offset + n))"

datatype CaptureDecodeResult =
  Decode_SUCCESS | Decode_INVALID_KCODE | Decode_CRC_ERROR | Decode_TIMEOUT_ERROR | Decode_INCOMPLETE

definition CaptureDecodeResult_table :: "(int \<times> CaptureDecodeResult) list" where
  "CaptureDecodeResult_table =
     [(0, Decode_SUCCESS), (1, Decode_INVALID_KCODE), (2, Decode_CRC_ERROR), (3, Decode_TIMEOUT_ERROR),
      (4, Decode_INCOMPLETE)]"

definition FIRMWARE_EVENT :: int where "FIRMWARE_EVENT = 0xffffffff"

definition parseCaptureDecodeResult :: "int \<Rightarrow> parser_error + CaptureDecodeResult" where
  "parseCaptureDecodeResult val =
     (case map_of CaptureDecodeResult_table val of
        None \<Rightarrow> Inl (Invalid_decode_result val)
      | Some r \<Rightarrow> Inr r)"

record CapturedMessage =
  cm_startTimestampUs :: int
  cm_endTimestampUs :: int
  cm_startTimestampSeconds :: "rat option"
  cm_endTimestampSeconds :: "rat option"
  cm_decodeResult :: CaptureDecodeResult
  cm_sop :: bytes
  cm_pulseCount :: int
  cm_pulseWidths :: "int list"
  cm_dataLength :: int
  cm_decodedData :: bytes

record CapturedEvent =
  ce_timestampUs :: int
  ce_timestampSeconds :: "rat option"
  ce_eventType :: int
  ce_eventText :: string
  ce_eventTextBytes :: bytes

datatype CapturedRecord = Captured_message CapturedMessage | Captured_event CapturedEvent

definition timestamp_seconds :: "int \<Rightarrow> rat option" where
  "timestamp_seconds us = (if us \<le> 9007199254740991 then Some (fl (of_int us / 1000000)) else None)"

definition parseCapturedMessage :: "(bytes \<Rightarrow> string) \<Rightarrow> bytes \<Rightarrow> parser_error + CapturedRecord" where
  "parseCapturedMessage decode bs =
     (if length bs < 28 then Inl Capture_too_short
      else let startTimestampUs = getUintLE bs 8 0; endTimestampUs = getUintLE bs 8 8;
          decodeResultValue = getUintLE bs 4 16; sop = sub_array bs 20 24;
          pulseCount = getUintLE bs 4 24; offset = 28; pulseByteLength = nat pulseCount * 2
      in if offset + pulseByteLength + 4 > length bs then Inl Capture_missing_pulse_widths
         else let pulseWidths = map (\<lambda>index. getUintLE bs 2 (offset + index * 2)) [0..<nat pulseCount];
             offset = offset + pulseByteLength
         in if offset + 4 > length bs then Inl Capture_missing_length
            else let dataLength = getUintLE bs 4 offset; offset = offset + 4;
                decodedData = sub_array bs offset (offset + nat dataLength)
            in if int (length decodedData) \<noteq> dataLength then Inl Capture_length_mismatch
               else if decodeResultValue = FIRMWARE_EVENT then
                 (if pulseCount \<noteq> 0 then Inl Capture_event_with_pulses
                  else if dataLength < 4 then Inl Capture_event_without_type
                  else Inr (Captured_event
                    \<lparr>ce_timestampUs = startTimestampUs,
                     ce_timestampSeconds = timestamp_seconds startTimestampUs,
                     ce_eventType = getUintLE bs 4 offset,
                     ce_eventText = decode (drop 4 decodedData),
                     ce_eventTextBytes = drop 4 decodedData\<rparr>))
               else res_bind (parseCaptureDecodeResult decodeResultValue) (\<lambda>decodeResult.
                 Inr (Captured_message
                   \<lparr>cm_startTimestampUs = startTimestampUs, cm_endTimestampUs = endTimestampUs,
                    cm_startTimestampSeconds = timestamp_seconds startTimestampUs,
                    cm_endTimestampSeconds = timestamp_seconds endTimestampUs,
                    cm_decodeResult = decodeResult, cm_sop = sop, cm_pulseCount = pulseCount,
                    cm_pulseWidths = pulseWidths, cm_dataLength = dataLength,
                    cm_decodedData = decodedData\<rparr>)))"

text \<open>\<open>DRPDCapture.getNextCapturedMessage\<close> after its query.\<close>

definition next_captured_message :: "(bytes \<Rightarrow> string) \<Rightarrow> bytes \<Rightarrow> parser_error + CapturedRecord" where
  "next_captured_message decode response =
     (if length response = 0 then Inl (Missing_response ''captured messages'')
      else parseCapturedMessage decode response)"

section \<open>The wire format\<close>

text \<open>A capture record as the device sends it: timestamps, decode result, start-of-packet symbols, pulse
  widths, data.\<close>

definition capture_bytes :: "int \<Rightarrow> int \<Rightarrow> int \<Rightarrow> bytes \<Rightarrow> int list \<Rightarrow> bytes \<Rightarrow> bytes" where
  "capture_bytes start stop code sop pulses payload =
     le_bytes 8 start @ le_bytes 8 stop @ le_bytes 4 code @ sop @ le_bytes 4 (int (length pulses)) @
     concat (map (le_bytes 2) pulses) @ le_bytes 4 (int (length payload)) @ payload"

definition wf_capture :: "int \<Rightarrow> int \<Rightarrow> int \<Rightarrow> bytes \<Rightarrow> int list \<Rightarrow> bytes \<Rightarrow> bool" where
  "wf_capture start stop code sop pulses payload \<longleftrightarrow>
     0 \<le> start \<and> start < 2 ^ 64 \<and> 0 \<le> stop \<and> stop < 2 ^ 64 \<and> 0 \<le> code \<and> code < 2 ^ 32 \<and> length sop = 4 \<and>
     length pulses < 2 ^ 32 \<and> (\<forall>p \<in> set pulses. 0 \<le> p \<and> p < 2 ^ 16) \<and> length payload < 2 ^ 32"

definition record_of :: "(bytes \<Rightarrow> string) \<Rightarrow> int \<Rightarrow> int \<Rightarrow> int \<Rightarrow> bytes \<Rightarrow> int list \<Rightarrow> bytes \<Rightarrow>
    parser_error + CapturedRecord" where
  "record_of decode start stop code sop pulses payload =
     (if code = FIRMWARE_EVENT then
        (if pulses \<noteq> [] then Inl Capture_event_with_pulses
         else if length payload < 4 then Inl Capture_event_without_type
         else Inr (Captured_event
           \<lparr>ce_timestampUs = start, ce_timestampSeconds = timestamp_seconds start,
            ce_eventType = le_val (take 4 payload), ce_eventText = decode (drop 4 payload),
            ce_eventTextBytes = drop 4 payload\<rparr>))
      else res_bind (parseCaptureDecodeResult code) (\<lambda>r. Inr (Captured_message
        \<lparr>cm_startTimestampUs = start, cm_endTimestampUs = stop,
         cm_startTimestampSeconds = timestamp_seconds start, cm_endTimestampSeconds = timestamp_seconds stop,
         cm_decodeResult = r, cm_sop = sop, cm_pulseCount = int (length pulses), cm_pulseWidths = pulses,
         cm_dataLength = int (length payload), cm_decodedData = payload\<rparr>)))"

lemma getUintLE_at: "length xs = i \<Longrightarrow> getUintLE (xs @ le_bytes n v @ ys) n i = v mod 256 ^ n"
  by (simp add: getUintLE_def sub_array_def le_val_le_bytes)

lemma getUintLE_bounds: "0 \<le> getUintLE bs n i" "getUintLE bs n i < 256 ^ n"
proof -
  have "(256 :: int) ^ length (sub_array bs i (i + n)) \<le> 256 ^ n"
    by (intro power_increasing) auto
  then show "getUintLE bs n i < 256 ^ n"
    using le_val_bounds[of "sub_array bs i (i + n)"] unfolding getUintLE_def by (meson order_less_le_trans)
  show "0 \<le> getUintLE bs n i"
    using le_val_bounds[of "sub_array bs i (i + n)"] unfolding getUintLE_def by simp
qed

lemma getUintLE_bytes: "i + n \<le> length bs \<Longrightarrow> le_bytes n (getUintLE bs n i) = sub_array bs i (i + n)"
  using le_bytes_le_val[of "sub_array bs i (i + n)"] by (simp add: getUintLE_def)

lemma length_pulses: "length (concat (map (le_bytes 2) ps)) = 2 * length ps"
  by (induction ps) simp_all

lemma pulses_at:
  assumes "length xs = i" "\<forall>p \<in> set ps. 0 \<le> p \<and> p < 2 ^ 16"
  shows "map (\<lambda>k. getUintLE (xs @ concat (map (le_bytes 2) ps) @ ys) 2 (i + k * 2)) [0..<length ps] = ps"
  using assms
proof (induction ps arbitrary: xs i)
  case (Cons p ps)
  have "getUintLE (xs @ concat (map (le_bytes 2) (p # ps)) @ ys) 2 i = p"
    using getUintLE_at[OF Cons.prems(1), of 2 p] Cons.prems(2) by simp
  moreover have "map (\<lambda>k. getUintLE (xs @ concat (map (le_bytes 2) (p # ps)) @ ys) 2 (i + Suc k * 2)) [0..<length ps] = ps"
    using Cons.IH[of "xs @ le_bytes 2 p" "i + 2"] Cons.prems by (simp add: add.assoc)
  moreover have "[0..<length (p # ps)] = 0 # map Suc [0..<length ps]"
    by (simp add: map_Suc_upt upt_conv_Cons del: upt_Suc)
  ultimately show ?case
    by (simp add: comp_def del: upt_Suc concat.simps)
qed simp

text \<open>The words of a byte list.\<close>

lemma words_concat:
  "concat (map (\<lambda>k. sub_array bs (i + k * 2) (i + k * 2 + 2)) [0..<n]) = sub_array bs i (i + n * 2)"
  if "i + n * 2 \<le> length bs"
  using that
proof (induction n)
  case (Suc n)
  have "sub_array bs i (i + n * 2) @ sub_array bs (i + n * 2) (i + n * 2 + 2) = sub_array bs i (i + Suc n * 2)"
    using take_add[of "n * 2" 2 "drop i bs"] by (simp add: sub_array_def ac_simps)
  then show ?case
    using Suc by simp
qed (simp add: sub_array_def)

lemma parseCapturedMessage_encoded:
  assumes "wf_capture start stop code sop pulses payload"
  shows "parseCapturedMessage decode (capture_bytes start stop code sop pulses payload @ rest) =
    record_of decode start stop code sop pulses payload"
proof -
  let ?bs = "capture_bytes start stop code sop pulses payload @ rest"
  let ?w = "concat (map (le_bytes 2) pulses)"
  let ?n = "length pulses"
  note wf = assms[unfolded wf_capture_def]
  define h1 where "h1 = le_bytes 8 start @ le_bytes 8 stop"
  define h2 where "h2 = h1 @ le_bytes 4 code @ sop"
  define h3 where "h3 = h2 @ le_bytes 4 (int ?n)"
  define h4 where "h4 = h3 @ ?w"
  have len: "length h1 = 16" "length h2 = 24" "length h3 = 28" "length h4 = 28 + ?n * 2"
    using wf by (simp_all add: h1_def h2_def h3_def h4_def length_pulses)
  have bs: "?bs = h4 @ le_bytes 4 (int (length payload)) @ payload @ rest"
    by (simp add: capture_bytes_def h1_def h2_def h3_def h4_def)
  have l: "length ?bs = 32 + ?n * 2 + length payload + length rest"
    by (simp add: bs len)
  have "?bs = [] @ le_bytes 8 start @ (le_bytes 8 stop @ drop 16 ?bs)"
    by (simp add: capture_bytes_def)
  then have w0: "getUintLE ?bs 8 0 = start"
    using getUintLE_at[of "[]" 0 8 start "le_bytes 8 stop @ drop 16 ?bs"] wf by simp
  have "?bs = le_bytes 8 start @ le_bytes 8 stop @ drop 16 ?bs"
    by (simp add: capture_bytes_def)
  then have w8: "getUintLE ?bs 8 8 = stop"
    using getUintLE_at[of "le_bytes 8 start" 8 8 stop "drop 16 ?bs"] wf by simp
  have w16: "getUintLE ?bs 4 16 = code"
    using getUintLE_at[OF len(1), of 4 code "sop @ le_bytes 4 (int ?n) @ ?w @ le_bytes 4 (int (length payload)) @ payload @ rest"] wf
    by (simp add: capture_bytes_def h1_def)
  have sop: "sub_array ?bs 20 24 = sop"
    using wf by (simp add: capture_bytes_def sub_array_def)
  have w24: "getUintLE ?bs 4 24 = int ?n"
    using getUintLE_at[OF len(2), of 4 "int ?n" "?w @ le_bytes 4 (int (length payload)) @ payload @ rest"] wf
    by (simp add: capture_bytes_def h1_def h2_def)
  have pw: "map (\<lambda>k. getUintLE ?bs 2 (28 + k * 2)) [0..<?n] = pulses"
    using pulses_at[OF len(3), of pulses "le_bytes 4 (int (length payload)) @ payload @ rest"] wf
    by (simp add: bs h4_def)
  have wl: "getUintLE ?bs 4 (28 + ?n * 2) = int (length payload)"
    using getUintLE_at[OF len(4), of 4 "int (length payload)" "payload @ rest"] wf by (simp add: bs)
  have d: "sub_array ?bs (28 + ?n * 2 + 4) (28 + ?n * 2 + 4 + length payload) = payload"
    by (simp add: bs sub_array_def len)
  have ty: "getUintLE ?bs 4 (28 + ?n * 2 + 4) = le_val (take 4 payload)" if "4 \<le> length payload"
    using that by (simp add: bs sub_array_def len getUintLE_def)
  show ?thesis
    unfolding parseCapturedMessage_def w0 w8 w16 w24 Let_def nat_int wl pw sop d record_of_def l
    using ty by auto
qed

lemma parseCapturedMessage_decoded:
  assumes "parseCapturedMessage decode bs = Inr r"
  shows "\<exists>start stop code sop pulses payload rest. wf_capture start stop code sop pulses payload \<and>
    bs = capture_bytes start stop code sop pulses payload @ rest"
proof -
  define n where "n = nat (getUintLE bs 4 24)"
  define m where "m = nat (getUintLE bs 4 (28 + n * 2))"
  have n: "int n = getUintLE bs 4 24" and m: "int m = getUintLE bs 4 (28 + n * 2)"
    using getUintLE_bounds(1) by (simp_all add: n_def m_def)
  have len: "32 + n * 2 \<le> length bs" "32 + n * 2 + m \<le> length bs"
    using assms n m unfolding parseCapturedMessage_def Let_def
    by (auto simp: n_def [symmetric] m_def [symmetric] split: if_splits)
  define pulses where "pulses = map (\<lambda>k. getUintLE bs 2 (28 + k * 2)) [0..<n]"
  define payload where "payload = sub_array bs (32 + n * 2) (32 + n * 2 + m)"
  have bnd: "getUintLE bs 8 i < 2 ^ 64" "getUintLE bs 4 i < 2 ^ 32" "getUintLE bs 2 i < 2 ^ 16" for i
    using getUintLE_bounds(2)[of bs 8 i] getUintLE_bounds(2)[of bs 4 i] getUintLE_bounds(2)[of bs 2 i] by simp_all
  have "int n < 2 ^ 32" "int m < 2 ^ 32"
    using n m bnd by simp_all
  then have wf: "wf_capture (getUintLE bs 8 0) (getUintLE bs 8 8) (getUintLE bs 4 16) (sub_array bs 20 24) pulses payload"
    using len bnd getUintLE_bounds(1)[of bs] by (auto simp: wf_capture_def pulses_def payload_def)
  have pb: "concat (map (le_bytes 2) pulses) = sub_array bs 28 (28 + n * 2)"
  proof -
    have "map (le_bytes 2) pulses = map (\<lambda>k. sub_array bs (28 + k * 2) (28 + k * 2 + 2)) [0..<n]"
      using len by (auto simp: pulses_def getUintLE_bytes)
    then show ?thesis
      using words_concat[of 28 n bs] len by simp
  qed
  have cut: "sub_array bs i j @ sub_array bs j k = sub_array bs i k" if "i \<le> j" "j \<le> k" for i j k
    using that take_add[of "j - i" "k - j" "drop i bs"] by (simp add: sub_array_def)
  have "capture_bytes (getUintLE bs 8 0) (getUintLE bs 8 8) (getUintLE bs 4 16) (sub_array bs 20 24) pulses payload =
      sub_array bs 0 8 @ sub_array bs 8 16 @ sub_array bs 16 20 @ sub_array bs 20 24 @ sub_array bs 24 28 @
      sub_array bs 28 (28 + n * 2) @ sub_array bs (28 + n * 2) (32 + n * 2) @ payload"
    using len pb getUintLE_bytes[of 0 8 bs] getUintLE_bytes[of 8 8 bs] getUintLE_bytes[of 16 4 bs]
      getUintLE_bytes[of 24 4 bs] getUintLE_bytes[of "28 + n * 2" 4 bs] n m
    by (simp add: capture_bytes_def pulses_def payload_def)
  also have "\<dots> = sub_array bs 0 (32 + n * 2 + m)"
    by (simp add: payload_def cut)
  finally have "bs = capture_bytes (getUintLE bs 8 0) (getUintLE bs 8 8) (getUintLE bs 4 16) (sub_array bs 20 24) pulses payload @
      drop (32 + n * 2 + m) bs"
    by (simp add: sub_array_def)
  with wf show ?thesis
    by blast
qed

text \<open>C25: capture records are read exactly. A payload parses as the record \<open>r\<close> exactly when it begins with
  the encoding of fields that make \<open>r\<close> (with 64-bit timestamps, 32-bit counts, 16-bit pulse widths);
  bytes after the announced data are ignored. An event needs an empty pulse list and a type, a message
  a known decode result.\<close>

theorem parseCapturedMessage_iff:
  "parseCapturedMessage decode bs = Inr r \<longleftrightarrow>
     (\<exists>start stop code sop pulses payload rest. wf_capture start stop code sop pulses payload \<and>
        bs = capture_bytes start stop code sop pulses payload @ rest \<and>
        record_of decode start stop code sop pulses payload = Inr r)"
proof
  assume r: "parseCapturedMessage decode bs = Inr r"
  then obtain start stop code sop pulses payload rest where
    "wf_capture start stop code sop pulses payload" "bs = capture_bytes start stop code sop pulses payload @ rest"
    using parseCapturedMessage_decoded by blast
  moreover from this have "record_of decode start stop code sop pulses payload = Inr r"
    using r parseCapturedMessage_encoded by simp
  ultimately show "\<exists>start stop code sop pulses payload rest. wf_capture start stop code sop pulses payload \<and>
        bs = capture_bytes start stop code sop pulses payload @ rest \<and>
        record_of decode start stop code sop pulses payload = Inr r"
    by blast
qed (auto simp: parseCapturedMessage_encoded)

end
