(* ===== verification/Cable_Test.thy ===== *)
theory Cable_Test
  imports Scpi_Parsers
begin

text \<open>
  The cable test snapshot, \<open>device/drpd/cableTest.ts\<close>: six fields read together, rejected when any of them
  is malformed or when the identity body does not fit the outcome.
\<close>

datatype CableTestOutcome =
    Cable_DISABLED | Cable_WAITING | Cable_DISCOVERING | Cable_IDENTITY | Cable_NO_RESPONSE
  | Cable_RESPONSE_TIMEOUT | Cable_NAK | Cable_MALFORMED | Cable_POWER_FAULT | Cable_UNSUPPORTED_CONNECTION

definition cableTestOutcomes :: "(string \<times> CableTestOutcome) list" where
  "cableTestOutcomes =
     [(''DISABLED'', Cable_DISABLED), (''WAITING'', Cable_WAITING), (''DISCOVERING'', Cable_DISCOVERING),
      (''IDENTITY'', Cable_IDENTITY), (''NO_RESPONSE'', Cable_NO_RESPONSE),
      (''RESPONSE_TIMEOUT'', Cable_RESPONSE_TIMEOUT), (''NAK'', Cable_NAK), (''MALFORMED'', Cable_MALFORMED),
      (''POWER_FAULT'', Cable_POWER_FAULT), (''UNSUPPORTED_CONNECTION'', Cable_UNSUPPORTED_CONNECTION)]"

record CableTestResult =
  ct_generation :: int
  ct_outcome :: CableTestOutcome
  ct_vconnContact :: int
  ct_goodCRC :: bool
  ct_revision :: int
  ct_body :: bytes

text \<open>\<open>/^(?:[0-9a-fA-F]{2}){0,28}$/\<close> and the bytes of the pairs.\<close>

definition hex_body :: "string \<Rightarrow> bool" where
  "hex_body s \<longleftrightarrow> list_all (\<lambda>c. digit_value c < 16) s \<and> even (length s) \<and> length s \<le> 56"

fun hex_pairs :: "string \<Rightarrow> bytes" where
  "hex_pairs (a # b # s) = word_of_int (int (digit_value a * 16 + digit_value b)) # hex_pairs s"
| "hex_pairs _ = []"

definition one_of :: "string list \<Rightarrow> string \<Rightarrow> bool" where
  "one_of ts t \<longleftrightarrow> t \<in> set ts"

definition parseCableTestResult :: "string list \<Rightarrow> parser_error + CableTestResult" where
  "parseCableTestResult vals =
     (if length vals < 5 \<or> length vals > 6 then Inl Invalid_cable_snapshot
      else let generationText = vals ! 0; outcomeText = vals ! 1; contactText = vals ! 2; crcText = vals ! 3;
          revisionText = vals ! 4; bodyText = (if length vals = 6 then vals ! 5 else []);
          generation = fl (of_int (digits_value generationText 0))
      in if generationText = [] \<or> \<not> list_all js_digit generationText \<or> generation > 9007199254740991 \<or>
            map_of cableTestOutcomes outcomeText = None \<or> \<not> one_of [''0'', ''1'', ''2''] contactText \<or>
            \<not> one_of [''0'', ''1''] crcText \<or> \<not> one_of [''1'', ''2''] revisionText \<or> \<not> hex_body bodyText
         then Inl Invalid_cable_snapshot
         else let outcome = the (map_of cableTestOutcomes outcomeText); body = hex_pairs bodyText;
             vconnContact = digits_value contactText 0
         in if (outcome = Cable_IDENTITY \<and> (length body < 20 \<or> length body mod 4 \<noteq> 0 \<or> vconnContact = 0)) \<or>
               (outcome \<noteq> Cable_IDENTITY \<and> length body \<noteq> 0)
            then Inl Inconsistent_cable_identity
            else Inr \<lparr>ct_generation = \<lfloor>generation\<rfloor>, ct_outcome = outcome, ct_vconnContact = vconnContact,
              ct_goodCRC = (crcText = ''1''), ct_revision = digits_value revisionText 0, ct_body = body\<rparr>)"

end
