(* ===== verification/Drpd_Groups.thy ===== *)
theory Drpd_Groups
  imports Capture_Record Cable_Test
begin

text \<open>
  The command groups of the device driver: \<open>trigger.ts\<close>, \<open>sink.ts\<close>, \<open>vbus.ts\<close>, \<open>ccBus.ts\<close>,
  \<open>analogMonitor.ts\<close>, \<open>capture.ts\<close>, \<open>system.ts\<close>, \<open>test.ts\<close> and \<open>status.ts\<close> over the transport interface of
  \<open>device/drpd/transport.ts\<close>. The transport is a record of its three operations on its own state; every
  method of a group is a function of it. A number argument is a \<open>js_number\<close>.
\<close>

section \<open>The transport interface\<close>

datatype device_error =
    Transport_failure string
  | Parser_failure parser_error
  | Range_message string

type_synonym ('a, 's) device_io = "'s \<Rightarrow> (device_error + 'a) \<times> 's"

record 's drpd_transport =
  tr_sendCommand :: "string \<Rightarrow> SCPIParam list \<Rightarrow> (unit, 's) device_io"
  tr_queryText :: "string \<Rightarrow> SCPIParam list \<Rightarrow> (string list, 's) device_io"
  tr_queryBinary :: "string \<Rightarrow> SCPIParam list \<Rightarrow> (bytes, 's) device_io"

definition io_return :: "'a \<Rightarrow> ('a, 's) device_io" where
  "io_return x s = (Inr x, s)"

definition io_fail :: "device_error \<Rightarrow> ('a, 's) device_io" where
  "io_fail e s = (Inl e, s)"

definition io_bind :: "('a, 's) device_io \<Rightarrow> ('a \<Rightarrow> ('b, 's) device_io) \<Rightarrow> ('b, 's) device_io" where
  "io_bind f g s = (case f s of (Inl e, s') \<Rightarrow> (Inl e, s') | (Inr x, s') \<Rightarrow> g x s')"

definition io_lift :: "parser_error + 'a \<Rightarrow> ('a, 's) device_io" where
  "io_lift r s = (case r of Inl e \<Rightarrow> (Inl (Parser_failure e), s) | Inr x \<Rightarrow> (Inr x, s))"

definition io_map :: "('a, 's) device_io \<Rightarrow> ('a \<Rightarrow> 'b) \<Rightarrow> ('b, 's) device_io" where
  "io_map f g = io_bind f (\<lambda>x. io_return (g x))"

text \<open>\<open>Promise.all\<close> on requests that the transport serialises in the order of the calls: all of them run,
  and the first to fail gives the error.\<close>

definition io_both :: "('a, 's) device_io \<Rightarrow> ('b, 's) device_io \<Rightarrow> ('a \<times> 'b, 's) device_io" where
  "io_both f g s =
     (case f s of (x, s') \<Rightarrow> (case g s' of (y, s'') \<Rightarrow>
        (res_bind x (\<lambda>a. res_bind y (\<lambda>b. Inr (a, b))), s'')))"

text \<open>A query and the parser of its response.\<close>

definition ask :: "'s drpd_transport \<Rightarrow> string \<Rightarrow> SCPIParam list \<Rightarrow> (string list \<Rightarrow> parser_error + 'a) \<Rightarrow> ('a, 's) device_io" where
  "ask t command params parse = io_bind (tr_queryText t command params) (\<lambda>response. io_lift (parse response))"

section \<open>The trigger, \<open>trigger.ts\<close>\<close>

definition Trigger_reset :: "'s drpd_transport \<Rightarrow> (unit, 's) device_io" where
  "Trigger_reset t = tr_sendCommand t ''TRIG:RESET'' []"

definition Trigger_getStatus :: "'s drpd_transport \<Rightarrow> (TriggerStatus, 's) device_io" where
  "Trigger_getStatus t = ask t ''TRIG:STAT?'' [] parseTriggerStatusResponse"

definition Trigger_setEventType :: "'s drpd_transport \<Rightarrow> TriggerEventType \<Rightarrow> (unit, 's) device_io" where
  "Trigger_setEventType t typ = tr_sendCommand t ''TRIG:EV:TYPE'' [Param_Enum (token_of TriggerEventType_table typ)]"

definition Trigger_getEventType :: "'s drpd_transport \<Rightarrow> (TriggerEventType, 's) device_io" where
  "Trigger_getEventType t = ask t ''TRIG:EV:TYPE?'' [] parseTriggerEventTypeResponse"

definition Trigger_setEventThreshold :: "'s drpd_transport \<Rightarrow> js_number \<Rightarrow> (unit, 's) device_io" where
  "Trigger_setEventThreshold t n = tr_sendCommand t ''TRIG:EV:THRESH'' [Param_Number n]"

definition Trigger_getEventThreshold :: "'s drpd_transport \<Rightarrow> (int, 's) device_io" where
  "Trigger_getEventThreshold t = ask t ''TRIG:EV:THRESH?'' [] (\<lambda>r. parseSingleInt r ''trigger event threshold'')"

definition Trigger_setSenderFilter :: "'s drpd_transport \<Rightarrow> TriggerSenderFilter \<Rightarrow> (unit, 's) device_io" where
  "Trigger_setSenderFilter t flt = tr_sendCommand t ''TRIG:EV:SENDER'' [Param_Enum (token_of TriggerSenderFilter_table flt)]"

definition Trigger_getSenderFilter :: "'s drpd_transport \<Rightarrow> (TriggerSenderFilter, 's) device_io" where
  "Trigger_getSenderFilter t = ask t ''TRIG:EV:SENDER?'' [] parseTriggerSenderFilterResponse"

definition Trigger_setAutoRepeat :: "'s drpd_transport \<Rightarrow> OnOffState \<Rightarrow> (unit, 's) device_io" where
  "Trigger_setAutoRepeat t state = tr_sendCommand t ''TRIG:EV:AUTOREPEAT'' [Param_Enum (token_of OnOffState_table state)]"

definition Trigger_getAutoRepeat :: "'s drpd_transport \<Rightarrow> (OnOffState, 's) device_io" where
  "Trigger_getAutoRepeat t = ask t ''TRIG:EV:AUTOREPEAT?'' [] parseOnOffResponse"

definition Trigger_getEventCount :: "'s drpd_transport \<Rightarrow> (int, 's) device_io" where
  "Trigger_getEventCount t = ask t ''TRIG:EV:COUNT?'' [] (\<lambda>r. parseSingleInt r ''trigger event count'')"

definition Trigger_clearMessageTypeFilters :: "'s drpd_transport \<Rightarrow> (unit, 's) device_io" where
  "Trigger_clearMessageTypeFilters t = tr_sendCommand t ''TRIG:EV:MSGTYPE:FILTER:CLEAR'' []"

definition filter_token :: "TriggerMessageTypeFilter \<Rightarrow> string" where
  "filter_token flt =
     token_of TriggerMessageTypeFilterClass_table (tf_class flt) @ '':'' @ js_String (tf_messageTypeNumber flt) 0"

fun send_filters :: "'s drpd_transport \<Rightarrow> nat \<Rightarrow> TriggerMessageTypeFilter list \<Rightarrow> (unit, 's) device_io" where
  "send_filters t slot [] = io_return ()"
| "send_filters t slot (flt # filters) =
     io_bind (tr_sendCommand t ''TRIG:EV:MSGTYPE:FILTER''
         [Param_Number (Decimal (int slot) 0), Param_String (filter_token flt)])
       (\<lambda>_. send_filters t (slot + 1) filters)"

definition Trigger_setMessageTypeFilters :: "'s drpd_transport \<Rightarrow> TriggerMessageTypeFilter list \<Rightarrow> (unit, 's) device_io" where
  "Trigger_setMessageTypeFilters t filters =
     io_bind (Trigger_clearMessageTypeFilters t)
       (\<lambda>_. if filters = [] then io_return () else send_filters t 0 filters)"

definition Trigger_getMessageTypeFilters :: "'s drpd_transport \<Rightarrow> (TriggerMessageTypeFilter list, 's) device_io" where
  "Trigger_getMessageTypeFilters t = ask t ''TRIG:EV:MSGTYPE:FILTER?'' [] parseTriggerMessageTypeFiltersResponse"

definition Trigger_setSyncMode :: "'s drpd_transport \<Rightarrow> TriggerSyncMode \<Rightarrow> (unit, 's) device_io" where
  "Trigger_setSyncMode t mode = tr_sendCommand t ''TRIG:SYNC:MODE'' [Param_Enum (token_of TriggerSyncMode_table mode)]"

definition Trigger_getSyncMode :: "'s drpd_transport \<Rightarrow> (TriggerSyncMode, 's) device_io" where
  "Trigger_getSyncMode t = ask t ''TRIG:SYNC:MODE?'' [] parseTriggerSyncModeResponse"

definition Trigger_setSyncPulseWidthUs :: "'s drpd_transport \<Rightarrow> js_number \<Rightarrow> (unit, 's) device_io" where
  "Trigger_setSyncPulseWidthUs t widthUs = tr_sendCommand t ''TRIG:SYNC:PULSEWIDTH'' [Param_Number widthUs]"

definition Trigger_getSyncPulseWidthUs :: "'s drpd_transport \<Rightarrow> (int, 's) device_io" where
  "Trigger_getSyncPulseWidthUs t = ask t ''TRIG:SYNC:PULSEWIDTH?'' [] (\<lambda>r. parseSingleInt r ''sync pulse width'')"

record TriggerInfo =
  ti_status :: TriggerStatus
  ti_type :: TriggerEventType
  ti_eventThreshold :: int
  ti_senderFilter :: TriggerSenderFilter
  ti_autorepeat :: OnOffState
  ti_eventCount :: int
  ti_syncMode :: TriggerSyncMode
  ti_syncPulseWidthUs :: int
  ti_messageTypeFilters :: "TriggerMessageTypeFilter list"

definition Trigger_getInfo :: "'s drpd_transport \<Rightarrow> (TriggerInfo, 's) device_io" where
  "Trigger_getInfo t =
     io_map (io_both (Trigger_getStatus t) (io_both (Trigger_getEventType t) (io_both (Trigger_getEventThreshold t)
       (io_both (Trigger_getSenderFilter t) (io_both (Trigger_getAutoRepeat t) (io_both (Trigger_getEventCount t)
       (io_both (Trigger_getSyncMode t) (io_both (Trigger_getSyncPulseWidthUs t) (Trigger_getMessageTypeFilters t)))))))))
     (\<lambda>(status, typ, eventThreshold, senderFilter, autorepeat, eventCount, syncMode, syncPulseWidthUs, messageTypeFilters).
        \<lparr>ti_status = status, ti_type = typ, ti_eventThreshold = eventThreshold, ti_senderFilter = senderFilter,
         ti_autorepeat = autorepeat, ti_eventCount = eventCount, ti_syncMode = syncMode,
         ti_syncPulseWidthUs = syncPulseWidthUs, ti_messageTypeFilters = messageTypeFilters\<rparr>)"

section \<open>The sink, \<open>sink.ts\<close>\<close>

definition Sink_getAvailablePdoCount :: "'s drpd_transport \<Rightarrow> (int, 's) device_io" where
  "Sink_getAvailablePdoCount t = ask t ''SINK:PDO:COUNT?'' [] (\<lambda>r. parseSingleInt r ''PDO count'')"

definition Sink_getPdoAtIndex :: "'s drpd_transport \<Rightarrow> js_number \<Rightarrow> (SinkPdo option, 's) device_io" where
  "Sink_getPdoAtIndex t index = ask t ''SINK:PDO?'' [Param_Number index] parseSinkPdo"

definition Sink_requestPdo :: "'s drpd_transport \<Rightarrow> js_number \<Rightarrow> js_number \<Rightarrow> js_number \<Rightarrow> (unit, 's) device_io" where
  "Sink_requestPdo t index voltageMv currentMa = tr_sendCommand t ''SINK:PDO'' [Param_Number index, Param_Number voltageMv, Param_Number currentMa]"

definition Sink_getRequestStatus :: "'s drpd_transport \<Rightarrow> (SinkRequestStatus, 's) device_io" where
  "Sink_getRequestStatus t = ask t ''SINK:REQUEST:STATUS?'' [] parseSinkRequestStatus"

definition Sink_sendInquiry :: "'s drpd_transport \<Rightarrow> SinkInquiryType \<Rightarrow> (unit, 's) device_io" where
  "Sink_sendInquiry t typ = tr_sendCommand t ''SINK:INQ'' [Param_Enum (token_of SinkInquiryType_table typ)]"

text \<open>The requests callers can make, by the fields their type carries. Plain requests carry an optional plug.\<close>

datatype SinkInquiryRequest =
    Request_plain SinkInquiryType "SinkInquiryCablePlug option"
  | Request_manufacturer_port
  | Request_manufacturer_plug SinkInquiryCablePlug
  | Request_manufacturer_battery js_number
  | Request_country string
  | Request_battery_cap js_number
  | Request_battery_status js_number
  | Request_modes js_number "SinkInquiryCablePlug option"
  | Request_certificate js_number js_number js_number
  | Request_challenge js_number bytes

text \<open>\<open>Number.isInteger\<close>: the shortest notation of an integer has no fraction.\<close>

fun integer_value :: "js_number \<Rightarrow> int option" where
  "integer_value (Decimal m 0) = Some m"
| "integer_value _ = None"

definition integer_in :: "js_number \<Rightarrow> int \<Rightarrow> int \<Rightarrow> bool" where
  "integer_in n lo hi \<longleftrightarrow> (case integer_value n of None \<Rightarrow> False | Some v \<Rightarrow> lo \<le> v \<and> v \<le> hi)"

definition hex_digit :: "int \<Rightarrow> char" where
  "hex_digit n = ''0123456789ABCDEF'' ! nat n"

definition hex_byte :: "byte \<Rightarrow> string" where
  "hex_byte b = [hex_digit (uint b div 16), hex_digit (uint b mod 16)]"

definition inquiry :: "'s drpd_transport \<Rightarrow> SinkInquiryType \<Rightarrow> SCPIParam list \<Rightarrow> (unit, 's) device_io" where
  "inquiry t typ params = tr_sendCommand t ''SINK:INQ'' (Param_Enum (token_of SinkInquiryType_table typ) # params)"

abbreviation plug_param :: "SinkInquiryCablePlug \<Rightarrow> SCPIParam" where
  "plug_param p \<equiv> Param_String (token_of SinkInquiryCablePlug_table p)"

fun Sink_sendInquiryRequest :: "'s drpd_transport \<Rightarrow> SinkInquiryRequest \<Rightarrow> (unit, 's) device_io" where
  "Sink_sendInquiryRequest t (Request_certificate slot offset len) =
     (if \<not> integer_in slot 0 7 then io_fail (Range_message ''Certificate slot must be an integer from 0 to 7'')
      else if \<not> integer_in offset 0 4095 then
        io_fail (Range_message ''Certificate offset must be an integer from 0 to 4095'')
      else if \<not> integer_in len 1 256 \<or> the (integer_value offset) + the (integer_value len) > 4096 then
        io_fail (Range_message ''Certificate length must be 1 to 256 and remain within the 4096-byte chain bound'')
      else inquiry t Inquiry_GET_CERTIFICATE [Param_Number slot, Param_Number offset, Param_Number len])"
| "Sink_sendInquiryRequest t (Request_challenge slot nonce) =
     (if \<not> integer_in slot 0 7 then io_fail (Range_message ''Challenge slot must be an integer from 0 to 7'')
      else if length nonce \<noteq> 32 then io_fail (Range_message ''Challenge nonce must contain exactly 32 bytes'')
      else inquiry t Inquiry_CHALLENGE [Param_Number slot, Param_String (concat (map hex_byte nonce))])"
| "Sink_sendInquiryRequest t (Request_manufacturer_battery ref) =
     (if \<not> integer_in ref 0 7 then io_fail (Range_message ''Battery reference must be an integer from 0 to 7'')
      else inquiry t Inquiry_GET_MANUFACTURER_INFO [Param_String ''BATTERY'', Param_Number ref])"
| "Sink_sendInquiryRequest t Request_manufacturer_port =
     inquiry t Inquiry_GET_MANUFACTURER_INFO [Param_String ''PORT'']"
| "Sink_sendInquiryRequest t (Request_manufacturer_plug p) =
     inquiry t Inquiry_GET_MANUFACTURER_INFO [plug_param p]"
| "Sink_sendInquiryRequest t (Request_country code) =
     (let countryCode = to_upper code
      in if \<not> (length countryCode = 2 \<and>
            list_all (\<lambda>c. 65 \<le> (of_char c :: nat) \<and> (of_char c :: nat) \<le> 90) countryCode) then
           io_fail (Range_message ''Country code must be ISO alpha-2'')
         else inquiry t Inquiry_GET_COUNTRY_INFO [Param_String countryCode])"
| "Sink_sendInquiryRequest t (Request_battery_cap ref) =
     (if \<not> integer_in ref 0 7 then io_fail (Range_message ''Battery reference must be an integer from 0 to 7'')
      else inquiry t Inquiry_GET_BATTERY_CAP [Param_Number ref])"
| "Sink_sendInquiryRequest t (Request_battery_status ref) =
     (if \<not> integer_in ref 0 7 then io_fail (Range_message ''Battery reference must be an integer from 0 to 7'')
      else inquiry t Inquiry_GET_BATTERY_STATUS [Param_Number ref])"
| "Sink_sendInquiryRequest t (Request_modes svid plug) =
     (if \<not> integer_in svid 1 0xffff then io_fail (Range_message ''SVID must be an integer from 1 to 65535'')
      else (case plug of
          Some p \<Rightarrow> inquiry t Inquiry_DISCOVER_MODES [plug_param p, Param_Number svid]
        | None \<Rightarrow> inquiry t Inquiry_DISCOVER_MODES [Param_Number svid]))"
| "Sink_sendInquiryRequest t (Request_plain typ plug) =
     (case plug of
        Some p \<Rightarrow> inquiry t typ [plug_param p]
      | None \<Rightarrow> Sink_sendInquiry t typ)"

definition Sink_getInquiryStatus :: "'s drpd_transport \<Rightarrow> (SinkInquiryStatus, 's) device_io" where
  "Sink_getInquiryStatus t = ask t ''SINK:INQ:STAT?'' [] parseSinkInquiryStatus"

definition Sink_getInquiryResponse :: "'s drpd_transport \<Rightarrow> (bytes, 's) device_io" where
  "Sink_getInquiryResponse t = tr_queryBinary t ''SINK:INQ:RESP?'' []"

definition Sink_getSprCapabilityCount :: "'s drpd_transport \<Rightarrow> (int, 's) device_io" where
  "Sink_getSprCapabilityCount t = ask t ''SINK:CAP:SPR:COUNT?'' [] (\<lambda>r. parseSingleInt r ''SPR Sink capability count'')"

definition Sink_getSprCapabilityPdo :: "'s drpd_transport \<Rightarrow> js_number \<Rightarrow> (int, 's) device_io" where
  "Sink_getSprCapabilityPdo t index = ask t ''SINK:CAP:SPR?'' [Param_Number index] (\<lambda>r. parseSingleInt r ''SPR Sink capability PDO'')"

definition Sink_setSprCapabilityPdo :: "'s drpd_transport \<Rightarrow> js_number \<Rightarrow> js_number \<Rightarrow> (unit, 's) device_io" where
  "Sink_setSprCapabilityPdo t index rawPdo = tr_sendCommand t ''SINK:CAP:SPR'' [Param_Number index, Param_Number rawPdo]"

definition Sink_getEprCapabilityCount :: "'s drpd_transport \<Rightarrow> (int, 's) device_io" where
  "Sink_getEprCapabilityCount t = ask t ''SINK:CAP:EPR:COUNT?'' [] (\<lambda>r. parseSingleInt r ''EPR Sink capability count'')"

definition Sink_getEprCapabilityPdo :: "'s drpd_transport \<Rightarrow> js_number \<Rightarrow> (int, 's) device_io" where
  "Sink_getEprCapabilityPdo t index = ask t ''SINK:CAP:EPR?'' [Param_Number index] (\<lambda>r. parseSingleInt r ''EPR Sink capability PDO'')"

definition Sink_setEprCapabilityPdo :: "'s drpd_transport \<Rightarrow> js_number \<Rightarrow> js_number \<Rightarrow> (unit, 's) device_io" where
  "Sink_setEprCapabilityPdo t index rawPdo = tr_sendCommand t ''SINK:CAP:EPR'' [Param_Number index, Param_Number rawPdo]"

definition Sink_setEprEnabled :: "'s drpd_transport \<Rightarrow> bool \<Rightarrow> (unit, 's) device_io" where
  "Sink_setEprEnabled t enabled = tr_sendCommand t ''SINK:EPR:EN'' [Param_Enum (token_of OnOffState_table (if enabled then OnOff_ON else OnOff_OFF))]"

definition Sink_getEprEnabled :: "'s drpd_transport \<Rightarrow> (bool, 's) device_io" where
  "Sink_getEprEnabled t = ask t ''SINK:EPR:EN?'' [] (\<lambda>r. res_bind (parseOnOffResponse r) (\<lambda>v. Inr (v = OnOff_ON)))"

definition Sink_setPpsStatusQueryEnabled :: "'s drpd_transport \<Rightarrow> bool \<Rightarrow> (unit, 's) device_io" where
  "Sink_setPpsStatusQueryEnabled t enabled = tr_sendCommand t ''SINK:PPS:STATUS:EN'' [Param_Enum (token_of OnOffState_table (if enabled then OnOff_ON else OnOff_OFF))]"

definition Sink_getPpsStatusQueryEnabled :: "'s drpd_transport \<Rightarrow> (bool, 's) device_io" where
  "Sink_getPpsStatusQueryEnabled t = ask t ''SINK:PPS:STATUS:EN?'' [] (\<lambda>r. res_bind (parseOnOffResponse r) (\<lambda>v. Inr (v = OnOff_ON)))"

definition Sink_getStatus :: "'s drpd_transport \<Rightarrow> (SinkState, 's) device_io" where
  "Sink_getStatus t = ask t ''SINK:STATUS?'' [] parseSinkStateResponse"

definition Sink_getNegotiatedPdo :: "'s drpd_transport \<Rightarrow> (SinkPdo option, 's) device_io" where
  "Sink_getNegotiatedPdo t = ask t ''SINK:STATUS:PDO?'' [] parseSinkPdo"

definition Sink_getNegotiatedVoltageMv :: "'s drpd_transport \<Rightarrow> (int, 's) device_io" where
  "Sink_getNegotiatedVoltageMv t = ask t ''SINK:STATUS:VOLTAGE?'' [] (\<lambda>r. parseSingleScaledMilliInt r ''negotiated voltage'' 100)"

definition Sink_getNegotiatedCurrentMa :: "'s drpd_transport \<Rightarrow> (int, 's) device_io" where
  "Sink_getNegotiatedCurrentMa t = ask t ''SINK:STATUS:CURRENT?'' [] (\<lambda>r. parseSingleScaledMilliInt r ''negotiated current'' 20)"

definition Sink_getErrorStatus :: "'s drpd_transport \<Rightarrow> (bool, 's) device_io" where
  "Sink_getErrorStatus t = ask t ''SINK:STATUS:ERROR?'' [] (\<lambda>r. res_bind (parseSingleInt r ''sink error status'') (\<lambda>v. Inr (v = 1)))"

record SinkInfo =
  si_status :: SinkState
  si_negotiatedPdo :: "SinkPdo option"
  si_negotiatedVoltageMv :: int
  si_negotiatedCurrentMa :: int
  si_error :: bool

definition Sink_getSinkInfo :: "'s drpd_transport \<Rightarrow> (SinkInfo, 's) device_io" where
  "Sink_getSinkInfo t =
     io_bind (Sink_getStatus t) (\<lambda>status.
     io_bind (Sink_getNegotiatedPdo t) (\<lambda>negotiatedPdo.
     io_bind (Sink_getNegotiatedVoltageMv t) (\<lambda>negotiatedVoltageMv.
     io_bind (Sink_getNegotiatedCurrentMa t) (\<lambda>negotiatedCurrentMa.
     io_bind (Sink_getErrorStatus t) (\<lambda>err.
       io_return \<lparr>si_status = status, si_negotiatedPdo = negotiatedPdo,
         si_negotiatedVoltageMv = negotiatedVoltageMv, si_negotiatedCurrentMa = negotiatedCurrentMa,
         si_error = err\<rparr>)))))"

section \<open>VBUS, \<open>vbus.ts\<close>\<close>

definition VBus_getStatusFields :: "'s drpd_transport \<Rightarrow> (VBusStatus \<times> int option \<times> int option, 's) device_io" where
  "VBus_getStatusFields t = ask t ''BUS:VBUS:STAT?'' [] parseVBusStatusFields"

definition VBus_getStatus :: "'s drpd_transport \<Rightarrow> (VBusStatus, 's) device_io" where
  "VBus_getStatus t = ask t ''BUS:VBUS:STAT?'' [] parseVBusStatusResponse"

definition VBus_resetFault :: "'s drpd_transport \<Rightarrow> (unit, 's) device_io" where
  "VBus_resetFault t = tr_sendCommand t ''BUS:VBUS:RESET'' []"

text \<open>A whole number of milli-units divided by 1000, as \<open>String\<close> prints the quotient: without trailing zeros.
  Exact for up to 15 digits, which every double tells apart.\<close>

definition thousandth :: "int \<Rightarrow> js_number" where
  "thousandth k =
     (if k mod 1000 = 0 then Decimal (k div 1000) 0
      else if k mod 100 = 0 then Decimal (k div 100) 1
      else if k mod 10 = 0 then Decimal (k div 10) 2
      else Decimal k 3)"

definition VBus_setOvpThresholdMv :: "'s drpd_transport \<Rightarrow> int \<Rightarrow> (unit, 's) device_io" where
  "VBus_setOvpThresholdMv t thresholdMv = tr_sendCommand t ''BUS:VBUS:OVPT'' [Param_Number (thousandth thresholdMv)]"

definition VBus_getOvpThresholdMv :: "'s drpd_transport \<Rightarrow> (int, 's) device_io" where
  "VBus_getOvpThresholdMv t = ask t ''BUS:VBUS:OVPT?'' [] (\<lambda>r. parseSingleScaledMilliInt r ''OVP threshold'' 100)"

definition VBus_setOcpThresholdMa :: "'s drpd_transport \<Rightarrow> int \<Rightarrow> (unit, 's) device_io" where
  "VBus_setOcpThresholdMa t thresholdMa = tr_sendCommand t ''BUS:VBUS:OCPT'' [Param_Number (thousandth thresholdMa)]"

definition VBus_getOcpThresholdMa :: "'s drpd_transport \<Rightarrow> (int, 's) device_io" where
  "VBus_getOcpThresholdMa t = ask t ''BUS:VBUS:OCPT?'' [] (\<lambda>r. parseSingleScaledMilliInt r ''OCP threshold'' 10)"

definition VBus_getInfo :: "'s drpd_transport \<Rightarrow> (VBusInfo, 's) device_io" where
  "VBus_getInfo t =
     io_map (io_both (VBus_getStatusFields t) (io_both (VBus_getOvpThresholdMv t) (VBus_getOcpThresholdMa t)))
     (\<lambda>((status, ovp, ocp), ovpThresholdMv, ocpThresholdMa).
        buildVBusInfo status ovpThresholdMv ocpThresholdMa ovp ocp)"

section \<open>The CC bus, \<open>ccBus.ts\<close>\<close>

definition CCBus_getRole :: "'s drpd_transport \<Rightarrow> (CCBusRole, 's) device_io" where
  "CCBus_getRole t = ask t ''BUS:CC:ROLE?'' [] parseCCBusRoleResponse"

definition CCBus_setRole :: "'s drpd_transport \<Rightarrow> CCBusRole \<Rightarrow> (unit, 's) device_io" where
  "CCBus_setRole t role = tr_sendCommand t ''BUS:CC:ROLE'' [Param_Enum (token_of CCBusRole_table role)]"

definition CCBus_getCableTestResult :: "'s drpd_transport \<Rightarrow> (CableTestResult, 's) device_io" where
  "CCBus_getCableTestResult t = ask t ''CABLE:TEST?'' [] parseCableTestResult"

definition CCBus_getRoleStatus :: "'s drpd_transport \<Rightarrow> (CCBusRoleStatus, 's) device_io" where
  "CCBus_getRoleStatus t = ask t ''BUS:CC:ROLE:STAT?'' [] parseCCBusRoleStatusResponse"

section \<open>Measurements, \<open>analogMonitor.ts\<close>\<close>

definition VBUS_CALIBRATION_POINT_COUNT :: nat where "VBUS_CALIBRATION_POINT_COUNT = 61"
definition VBUS_CURRENT_CALIBRATION_POINT_COUNT :: nat where "VBUS_CURRENT_CALIBRATION_POINT_COUNT = 13"
definition VBUS_CURRENT_CALIBRATION_INTERVAL_MA :: int where "VBUS_CURRENT_CALIBRATION_INTERVAL_MA = 500"

text \<open>\<open>prefix point index\<close> labels are not told apart: the label of a bad point is its table's.\<close>

definition parseCalibrationTable :: "string list \<Rightarrow> nat \<Rightarrow> string \<Rightarrow> parser_error + rat list" where
  "parseCalibrationTable vals expectedLength label =
     (if length vals \<noteq> expectedLength then Inl (Wrong_field_count expectedLength (length vals))
      else map_result (\<lambda>val. parseSingleNumber [val] label) vals)"

text \<open>The guard on an integer argument, \<open>assertIntegerInRange\<close>.\<close>

definition assertIntegerInRange :: "js_number \<Rightarrow> int \<Rightarrow> int \<Rightarrow> string \<Rightarrow> (unit, 's) device_io" where
  "assertIntegerInRange val minimum maximum label =
     (case integer_value val of
        None \<Rightarrow> io_fail (Range_message (label @ '' must be an integer''))
      | Some v \<Rightarrow>
          if v < minimum \<or> v > maximum then io_fail (Range_message (label @ '' must be in range'')) else io_return ())"

definition assertFiniteNumber :: "js_number \<Rightarrow> string \<Rightarrow> (unit, 's) device_io" where
  "assertFiniteNumber val label =
     (if val = NonFinite then io_fail (Range_message (label @ '' must be finite'')) else io_return ())"

definition Analog_getStatus :: "'s drpd_transport \<Rightarrow> (AnalogMonitorChannels, 's) device_io" where
  "Analog_getStatus t = ask t ''MEAS:ALL?'' [] parseAnalogMonitorChannels"

definition Analog_getAccumulatedMeasurements :: "'s drpd_transport \<Rightarrow> (AccumulatedMeasurements, 's) device_io" where
  "Analog_getAccumulatedMeasurements t = ask t ''MEAS:ACC?'' [] parseAccumulatedMeasurements"

definition Analog_resetAccumulatedMeasurements :: "'s drpd_transport \<Rightarrow> (unit, 's) device_io" where
  "Analog_resetAccumulatedMeasurements t = tr_sendCommand t ''MEAS:ACC:RESET'' []"

definition Analog_getVBusVoltage :: "'s drpd_transport \<Rightarrow> (rat, 's) device_io" where
  "Analog_getVBusVoltage t = ask t ''MEAS:VOLT:VBUS?'' [] (\<lambda>r. parseSingleNumber r ''VBUS voltage'')"

definition Analog_getVBusCurrent :: "'s drpd_transport \<Rightarrow> (rat, 's) device_io" where
  "Analog_getVBusCurrent t = ask t ''MEAS:CURR:VBUS?'' [] (\<lambda>r. parseSingleNumber r ''VBUS current'')"

definition Analog_getRawVBusCurrent :: "'s drpd_transport \<Rightarrow> (rat, 's) device_io" where
  "Analog_getRawVBusCurrent t = ask t ''MEAS:CURR:VBUS:RAW?'' [] (\<lambda>r. parseSingleNumber r ''raw VBUS current'')"

definition Analog_getVBusCalibrationTable :: "'s drpd_transport \<Rightarrow> (rat list, 's) device_io" where
  "Analog_getVBusCalibrationTable t = ask t ''BUS:VBUS:CAL?'' [] (\<lambda>r. parseCalibrationTable r VBUS_CALIBRATION_POINT_COUNT ''VBUS calibration'')"

definition Analog_calibrateVBusBucket :: "'s drpd_transport \<Rightarrow> js_number \<Rightarrow> (unit, 's) device_io" where
  "Analog_calibrateVBusBucket t bucket =
     io_bind (assertIntegerInRange bucket 0 (int VBUS_CALIBRATION_POINT_COUNT - 1) ''bucket'') (\<lambda>_.
       tr_sendCommand t ''BUS:VBUS:CAL'' [Param_Number bucket])"

definition Analog_setVBusCalibrationTablePoint :: "'s drpd_transport \<Rightarrow> js_number \<Rightarrow> js_number \<Rightarrow> (unit, 's) device_io" where
  "Analog_setVBusCalibrationTablePoint t bucket correctionV =
     io_bind (assertIntegerInRange bucket 0 (int VBUS_CALIBRATION_POINT_COUNT - 1) ''bucket'') (\<lambda>_.
     io_bind (assertFiniteNumber correctionV ''correctionV'') (\<lambda>_.
       tr_sendCommand t ''BUS:VBUS:CAL:TAB'' [Param_Number bucket, Param_Number correctionV]))"

definition Analog_resetVBusCalibrationToDefaults :: "'s drpd_transport \<Rightarrow> (unit, 's) device_io" where
  "Analog_resetVBusCalibrationToDefaults t = tr_sendCommand t ''BUS:VBUS:CAL:DEF'' []"

definition Analog_getVBusCurrentCalibrationTable :: "'s drpd_transport \<Rightarrow> (rat list, 's) device_io" where
  "Analog_getVBusCurrentCalibrationTable t = ask t ''BUS:VBUS:CAL:CURR?'' [] (\<lambda>r. parseCalibrationTable r VBUS_CURRENT_CALIBRATION_POINT_COUNT ''VBUS current calibration'')"

definition aligned_target :: "js_number \<Rightarrow> (unit, 's) device_io" where
  "aligned_target targetMa =
     io_bind (assertIntegerInRange targetMa 0
         ((int VBUS_CURRENT_CALIBRATION_POINT_COUNT - 1) * VBUS_CURRENT_CALIBRATION_INTERVAL_MA) ''targetMa'') (\<lambda>_.
       if the (integer_value targetMa) mod VBUS_CURRENT_CALIBRATION_INTERVAL_MA \<noteq> 0 then
         io_fail (Range_message ''targetMa must be aligned to 500 mA'')
       else io_return ())"

definition Analog_calibrateVBusCurrentBucket :: "'s drpd_transport \<Rightarrow> js_number \<Rightarrow> (unit, 's) device_io" where
  "Analog_calibrateVBusCurrentBucket t targetMa =
     io_bind (aligned_target targetMa) (\<lambda>_. tr_sendCommand t ''BUS:VBUS:CAL:CURR'' [Param_Number targetMa])"

definition Analog_setVBusCurrentCalibrationTablePoint ::
  "'s drpd_transport \<Rightarrow> js_number \<Rightarrow> js_number \<Rightarrow> (unit, 's) device_io" where
  "Analog_setVBusCurrentCalibrationTablePoint t targetMa rawCurrentA =
     io_bind (aligned_target targetMa) (\<lambda>_.
     io_bind (assertFiniteNumber rawCurrentA ''rawCurrentA'') (\<lambda>_.
       if (case rawCurrentA of Decimal m d \<Rightarrow> m < 0 | NonFinite \<Rightarrow> False) then
         io_fail (Range_message ''rawCurrentA must be non-negative'')
       else tr_sendCommand t ''BUS:VBUS:CAL:CURR:TAB'' [Param_Number targetMa, Param_Number rawCurrentA]))"

definition Analog_resetVBusCurrentCalibrationToDefaults :: "'s drpd_transport \<Rightarrow> (unit, 's) device_io" where
  "Analog_resetVBusCurrentCalibrationToDefaults t = tr_sendCommand t ''BUS:VBUS:CAL:CURR:DEF'' []"

definition Analog_getDutCc1Voltage :: "'s drpd_transport \<Rightarrow> (rat, 's) device_io" where
  "Analog_getDutCc1Voltage t = ask t ''MEAS:VOLT:CC:DUT1?'' [] (\<lambda>r. parseSingleNumber r ''DUT CC1 voltage'')"

definition Analog_getDutCc2Voltage :: "'s drpd_transport \<Rightarrow> (rat, 's) device_io" where
  "Analog_getDutCc2Voltage t = ask t ''MEAS:VOLT:CC:DUT2?'' [] (\<lambda>r. parseSingleNumber r ''DUT CC2 voltage'')"

definition Analog_getUsdsCc1Voltage :: "'s drpd_transport \<Rightarrow> (rat, 's) device_io" where
  "Analog_getUsdsCc1Voltage t = ask t ''MEAS:VOLT:CC:USDS1?'' [] (\<lambda>r. parseSingleNumber r ''USDS CC1 voltage'')"

definition Analog_getUsdsCc2Voltage :: "'s drpd_transport \<Rightarrow> (rat, 's) device_io" where
  "Analog_getUsdsCc2Voltage t = ask t ''MEAS:VOLT:CC:USDS2?'' [] (\<lambda>r. parseSingleNumber r ''USDS CC2 voltage'')"

definition Analog_getAdcVrefVoltage :: "'s drpd_transport \<Rightarrow> (rat, 's) device_io" where
  "Analog_getAdcVrefVoltage t = ask t ''MEAS:VOLT:REF:ADC?'' [] (\<lambda>r. parseSingleNumber r ''ADC reference voltage'')"

definition Analog_getCurrentRefVoltage :: "'s drpd_transport \<Rightarrow> (rat, 's) device_io" where
  "Analog_getCurrentRefVoltage t = ask t ''MEAS:VOLT:REF:CURR?'' [] (\<lambda>r. parseSingleNumber r ''current reference voltage'')"

definition Analog_getGroundRefVoltage :: "'s drpd_transport \<Rightarrow> (rat, 's) device_io" where
  "Analog_getGroundRefVoltage t = ask t ''MEAS:VOLT:REF:GND?'' [] (\<lambda>r. parseSingleNumber r ''ground reference voltage'')"

section \<open>Capture, \<open>capture.ts\<close>\<close>

definition Capture_getCycleTimeNs :: "'s drpd_transport \<Rightarrow> (rat, 's) device_io" where
  "Capture_getCycleTimeNs t = ask t ''BUS:CC:CAP:CYCLETIME?'' [] (\<lambda>r. parseSingleNumber r ''capture cycle time'')"

definition Capture_getCapturedMessageCount :: "'s drpd_transport \<Rightarrow> (int, 's) device_io" where
  "Capture_getCapturedMessageCount t = ask t ''BUS:CC:CAP:COUNT?'' [] (\<lambda>r. parseSingleInt r ''capture count'')"

definition Capture_getNextCapturedMessage :: "(bytes \<Rightarrow> string) \<Rightarrow> 's drpd_transport \<Rightarrow> (CapturedRecord, 's) device_io" where
  "Capture_getNextCapturedMessage decode t =
     io_bind (tr_queryBinary t ''BUS:CC:CAP:DATA?'' []) (\<lambda>response. io_lift (next_captured_message decode response))"

definition Capture_setCaptureEnabled :: "'s drpd_transport \<Rightarrow> OnOffState \<Rightarrow> (unit, 's) device_io" where
  "Capture_setCaptureEnabled t state = tr_sendCommand t ''BUS:CC:CAP:EN'' [Param_Enum (token_of OnOffState_table state)]"

definition Capture_getCaptureEnabled :: "'s drpd_transport \<Rightarrow> (OnOffState, 's) device_io" where
  "Capture_getCaptureEnabled t = ask t ''BUS:CC:CAP:EN?'' [] parseOnOffResponse"

definition Capture_clearCapturedMessages :: "'s drpd_transport \<Rightarrow> (unit, 's) device_io" where
  "Capture_clearCapturedMessages t = tr_sendCommand t ''BUS:CC:CAP:CLEAR'' []"

section \<open>The system, \<open>system.ts\<close>\<close>

text \<open>A failed query of the hardware revision is logged and ignored.\<close>

definition System_identify :: "'s drpd_transport \<Rightarrow> (DeviceIdentity, 's) device_io" where
  "System_identify t =
     io_bind (ask t ''*IDN?'' [] parseDeviceIdentity) (\<lambda>identity s.
       case tr_queryText t ''SYST:HW:REV?'' [] s of
         (Inl e, s') \<Rightarrow> (Inr identity, s')
       | (Inr response, s') \<Rightarrow>
           (let hardwareRevision = (if response = [] then [] else trim (hd response))
            in (Inr (if hardwareRevision \<noteq> [] then identity\<lparr>di_hardwareRevision := Some hardwareRevision\<rparr>
                     else identity), s')))"

definition System_reset :: "'s drpd_transport \<Rightarrow> (unit, 's) device_io" where
  "System_reset t = tr_sendCommand t ''*RST'' []"

definition System_enterFirmwareUpdate :: "'s drpd_transport \<Rightarrow> (unit, 's) device_io" where
  "System_enterFirmwareUpdate t = tr_sendCommand t ''SYST:FIRM:UPD'' []"

definition System_getError :: "'s drpd_transport \<Rightarrow> (int \<times> string, 's) device_io" where
  "System_getError t = ask t ''SYST:ERR?'' [] parseErrorResponse"

record MemoryUsage =
  mu_freeBytes :: int
  mu_totalBytes :: "int option"

definition parse_memory_usage :: "string list \<Rightarrow> parser_error + MemoryUsage" where
  "parse_memory_usage response =
     (if response = [] then Inl (Missing_response ''memory usage'')
      else if length response = 1 then
        res_bind (parseSingleInt response ''free memory'') (\<lambda>f. Inr \<lparr>mu_freeBytes = f, mu_totalBytes = None\<rparr>)
      else
        res_bind (parseSingleInt [response ! 0] ''total memory'') (\<lambda>total.
        res_bind (parseSingleInt [response ! 1] ''free memory'') (\<lambda>f.
          Inr \<lparr>mu_freeBytes = f, mu_totalBytes = Some total\<rparr>)))"

definition System_getMemoryUsage :: "'s drpd_transport \<Rightarrow> (MemoryUsage, 's) device_io" where
  "System_getMemoryUsage t = ask t ''SYST:MEM?'' [] parse_memory_usage"

definition System_getClockFrequencyHz :: "'s drpd_transport \<Rightarrow> (int, 's) device_io" where
  "System_getClockFrequencyHz t = ask t ''SYST:SP?'' [] (\<lambda>r. parseSingleInt r ''clock frequency'')"

definition System_getUptimeUs :: "'s drpd_transport \<Rightarrow> (int, 's) device_io" where
  "System_getUptimeUs t = ask t ''SYST:UPT?'' [] (\<lambda>r. parseSingleBigInt r ''uptime'')"

definition System_getTimestampUs :: "'s drpd_transport \<Rightarrow> (int, 's) device_io" where
  "System_getTimestampUs t = ask t ''SYST:TIME?'' [] (\<lambda>r. parseSingleBigInt r ''timestamp'')"

definition Bmc_getCCVrefVoltage :: "'s drpd_transport \<Rightarrow> (rat, 's) device_io" where
  "Bmc_getCCVrefVoltage t = ask t ''SYST:CONF:PHY:BMCD:CC:VREF:VOLT?'' [] (\<lambda>r. parseSingleNumber r ''CC reference voltage'')"

definition VREF_MIN_VOLTS :: rat where "VREF_MIN_VOLTS = fl (2 / 10)"
definition VREF_MAX_VOLTS :: rat where "VREF_MAX_VOLTS = fl (25 / 10)"
definition VREF_STEP_VOLTS :: rat where "VREF_STEP_VOLTS = fl (5 / 100)"
definition PWM_MIN_HZ :: int where "PWM_MIN_HZ = 10000"
definition PWM_MAX_HZ :: int where "PWM_MAX_HZ = 500000"
definition PWM_STEP_HZ :: int where "PWM_STEP_HZ = 1000"

text \<open>The double a number argument is, and the check that it is a whole number of steps, with the rounding of
  every operation.\<close>

fun double_of :: "js_number \<Rightarrow> rat option" where
  "double_of (Decimal m d) = Some (fl (of_int m / 10 ^ d))"
| "double_of NonFinite = None"

definition vref_on_step :: "rat \<Rightarrow> bool" where
  "vref_on_step voltage =
     (let steps = fl (fl (voltage - VREF_MIN_VOLTS) / VREF_STEP_VOLTS)
      in \<bar>fl (steps - of_int (math_round steps))\<bar> \<le> fl (1 / 10 ^ 9))"

definition Bmc_setCCVrefVoltage :: "'s drpd_transport \<Rightarrow> js_number \<Rightarrow> (unit, 's) device_io" where
  "Bmc_setCCVrefVoltage t voltage =
     (if (case double_of voltage of
            None \<Rightarrow> True
          | Some v \<Rightarrow> v < VREF_MIN_VOLTS \<or> v > VREF_MAX_VOLTS \<or> \<not> vref_on_step v) then
        io_fail (Range_message ''CC reference voltage must be 0.20-2.50 V in 0.05 V increments'')
      else tr_sendCommand t ''SYST:CONF:PHY:BMCD:CC:VREF:VOLT'' [Param_Number voltage])"

definition Bmc_setCCVrefPwmFrequencyHz :: "'s drpd_transport \<Rightarrow> js_number \<Rightarrow> (unit, 's) device_io" where
  "Bmc_setCCVrefPwmFrequencyHz t frequencyHz =
     (if \<not> integer_in frequencyHz PWM_MIN_HZ PWM_MAX_HZ \<or>
         the (integer_value frequencyHz) mod PWM_STEP_HZ \<noteq> 0 then
        io_fail (Range_message ''CC reference PWM frequency must be 10000-500000 Hz in 1000 Hz increments'')
      else tr_sendCommand t ''SYST:CONF:PHY:BMCD:CC:VREF:PWM:FREQ'' [Param_Number frequencyHz])"

definition Bmc_resetCCVrefVoltage :: "'s drpd_transport \<Rightarrow> (unit, 's) device_io" where
  "Bmc_resetCCVrefVoltage t = tr_sendCommand t ''SYST:CONF:PHY:BMCD:CC:VREF:VOLT:RES'' []"

definition Bmc_getCCVrefPwmFrequencyHz :: "'s drpd_transport \<Rightarrow> (int, 's) device_io" where
  "Bmc_getCCVrefPwmFrequencyHz t = ask t ''SYST:CONF:PHY:BMCD:CC:VREF:PWM:FREQ?'' [] (\<lambda>r. parseSingleInt r ''CC reference PWM frequency'')"

definition Bmc_resetCCVrefPwmFrequencyHz :: "'s drpd_transport \<Rightarrow> (unit, 's) device_io" where
  "Bmc_resetCCVrefPwmFrequencyHz t = tr_sendCommand t ''SYST:CONF:PHY:BMCD:CC:VREF:PWM:FREQ:RES'' []"

section \<open>Test, \<open>test.ts\<close>, and the status register, \<open>status.ts\<close>\<close>

definition Test_setVbusManagerState :: "'s drpd_transport \<Rightarrow> OnOffState \<Rightarrow> (unit, 's) device_io" where
  "Test_setVbusManagerState t v = tr_sendCommand t ''TEST:VBUSMAN:EN'' [Param_Enum (token_of OnOffState_table v)]"

definition Test_getVbusManagerState :: "'s drpd_transport \<Rightarrow> (OnOffState, 's) device_io" where
  "Test_getVbusManagerState t = ask t ''TEST:VBUSMAN:EN?'' [] parseOnOffResponse"

definition Test_setCc1Role :: "'s drpd_transport \<Rightarrow> TestCcRole \<Rightarrow> (unit, 's) device_io" where
  "Test_setCc1Role t v = tr_sendCommand t ''TEST:CCROLE:CC1'' [Param_Enum (token_of TestCcRole_table v)]"

definition Test_getCc1Role :: "'s drpd_transport \<Rightarrow> (TestCcRole, 's) device_io" where
  "Test_getCc1Role t = ask t ''TEST:CCROLE:CC1?'' [] parseTestCcRoleResponse"

definition Test_setCc2Role :: "'s drpd_transport \<Rightarrow> TestCcRole \<Rightarrow> (unit, 's) device_io" where
  "Test_setCc2Role t v = tr_sendCommand t ''TEST:CCROLE:CC2'' [Param_Enum (token_of TestCcRole_table v)]"

definition Test_getCc2Role :: "'s drpd_transport \<Rightarrow> (TestCcRole, 's) device_io" where
  "Test_getCc2Role t = ask t ''TEST:CCROLE:CC2?'' [] parseTestCcRoleResponse"

definition Test_setDutChannel :: "'s drpd_transport \<Rightarrow> CcChannel \<Rightarrow> (unit, 's) device_io" where
  "Test_setDutChannel t v = tr_sendCommand t ''TEST:CCBUS:DUT:CHANNEL'' [Param_Enum (token_of CcChannel_table v)]"

definition Test_getDutChannel :: "'s drpd_transport \<Rightarrow> (CcChannel, 's) device_io" where
  "Test_getDutChannel t = ask t ''TEST:CCBUS:DUT:CHANNEL?'' [] parseCcChannelResponse"

definition Test_setUsdsChannel :: "'s drpd_transport \<Rightarrow> CcChannel \<Rightarrow> (unit, 's) device_io" where
  "Test_setUsdsChannel t v = tr_sendCommand t ''TEST:CCBUS:USDS:CHANNEL'' [Param_Enum (token_of CcChannel_table v)]"

definition Test_getUsdsChannel :: "'s drpd_transport \<Rightarrow> (CcChannel, 's) device_io" where
  "Test_getUsdsChannel t = ask t ''TEST:CCBUS:USDS:CHANNEL?'' [] parseCcChannelResponse"

definition Test_setCcMuxState :: "'s drpd_transport \<Rightarrow> OnOffState \<Rightarrow> (unit, 's) device_io" where
  "Test_setCcMuxState t v = tr_sendCommand t ''TEST:CCBUS:MUX'' [Param_Enum (token_of OnOffState_table v)]"

definition Test_getCcMuxState :: "'s drpd_transport \<Rightarrow> (OnOffState, 's) device_io" where
  "Test_getCcMuxState t = ask t ''TEST:CCBUS:MUX?'' [] parseOnOffResponse"

definition Status_readDeviceStatus :: "'s drpd_transport \<Rightarrow> (DeviceStatusFlags, 's) device_io" where
  "Status_readDeviceStatus t = ask t ''STAT:DEV?'' [] (\<lambda>r. res_bind (parseSingleInt r ''device status'') (\<lambda>v. Inr (parseDeviceStatus v)))"

end
