(* ===== verification/Scpi_Numbers_Laws.thy ===== *)
theory Scpi_Numbers_Laws
  imports Scpi_Numbers
begin

text \<open>
  What the number readers return for the numbers the device and the formatter print: decimal text reads
  back as the nearest double, integers exactly, and the scaled reader gives exact milli-units.
\<close>

section \<open>Reading printed numbers\<close>

text \<open>The digits of \<open>js_String\<close>: sign, integer part, fraction.\<close>

definition padded :: "int \<Rightarrow> nat \<Rightarrow> string" where
  "padded m d = (let s = decimal_digits (nat \<bar>m\<bar>) in replicate (Suc d - length s) (CHR ''0'') @ s)"

lemma padded_digits: "list_all js_digit (padded m d)" "length (padded m d) > d"
    "digits_value (padded m d) 0 = \<bar>m\<bar>"
proof -
  have "js_digit (CHR ''0'')"
    by (simp add: js_digit_def)
  then show "list_all js_digit (padded m d)"
    using decimal_digits_js[of "nat \<bar>m\<bar>"] by (auto simp: padded_def Let_def list_all_iff)
  show "length (padded m d) > d"
    by (simp add: padded_def Let_def)
  show "digits_value (padded m d) 0 = \<bar>m\<bar>"
    by (simp add: padded_def Let_def digits_value_zeros digits_value_decimal)
qed

lemma js_String_padded:
  "js_String m d = (if m < 0 then ''-'' else []) @
     (if d = 0 then padded m 0 else take (length (padded m d) - d) (padded m d) @ ''.'' @ drop (length (padded m d) - d) (padded m d))"
  by (simp add: js_String_def padded_def Let_def)

lemma hd_padded: "js_digit (hd (padded m d))" "padded m d \<noteq> []"
  using padded_digits[where m = m and d = d] by (cases "padded m d"; simp)+

lemma js_digit_not_space: "js_digit c \<Longrightarrow> \<not> js_space c"
  by (auto simp: js_digit_def js_space_def)

lemma js_digit_not_sign: "js_digit c \<Longrightarrow> c \<noteq> CHR ''-'' \<and> c \<noteq> CHR ''+'' \<and> c \<noteq> CHR ''.''"
  by (auto simp: js_digit_def)

lemma dropWhile_hd: "s \<noteq> [] \<Longrightarrow> \<not> P (hd s) \<Longrightarrow> dropWhile P s = s"
  by (cases s) simp_all

lemma js_space_minus: "\<not> js_space (CHR ''-'')"
  by (simp add: js_space_def)

lemma read_sign_digits:
  assumes "ds \<noteq> []" "js_digit (hd ds)"
  shows "read_sign (dropWhile js_space ((if m < 0 then ''-'' else []) @ ds)) = ((m :: int) < 0, ds)"
  using assms js_digit_not_space[OF assms(2)] js_digit_not_sign[OF assms(2)] js_space_minus
  by (auto simp: read_sign_def dropWhile_hd)

lemma int_sign_abs: "(if m < 0 then - \<bar>m\<bar> else \<bar>m\<bar>) = (m :: int)"
  by simp

lemma js_parseFloat_js_String: "js_parseFloat (js_String m d) = to_double (of_int m / 10 ^ d)"
proof -
  let ?t = "padded m d" and ?i = "length (padded m d) - d"
  have sgn: "(if m < 0 then - (rat_of_int \<bar>m\<bar> * x) else rat_of_int \<bar>m\<bar> * x) = of_int m * x" for x
    by simp
  show ?thesis
  proof (cases "d = 0")
    case True
    have "read_sign (dropWhile js_space (js_String m d)) = (m < 0, ?t)"
      using True read_sign_digits[OF hd_padded(2,1)] by (simp add: js_String_padded)
    moreover have tw: "takeWhile js_digit ?t = ?t" "dropWhile js_digit ?t = []"
      using span_digits[of "[]" ?t] padded_digits(1) by (simp_all add: ends_number_def)
    ultimately show ?thesis
      using True padded_digits(3)[of m d] hd_padded(2)[of m d] sgn[of 1]
      by (simp add: js_parseFloat_def read_exponent_def Let_def tw [unfolded True])
  next
    case False
    have i: "0 < ?i" "list_all js_digit (take ?i ?t)" "list_all js_digit (drop ?i ?t)"
      using padded_digits[where m = m and d = d] by (auto simp: list_all_iff dest: in_set_takeD in_set_dropD)
    define u where "u = take ?i ?t @ ''.'' @ drop ?i ?t"
    have "hd u = hd ?t" "u \<noteq> []"
      using i(1) hd_padded(2)[of m d] by (simp_all add: u_def hd_append)
    then have rs: "read_sign (dropWhile js_space (js_String m d)) = (m < 0, u)"
      using False read_sign_digits[of u m] hd_padded(1)[of m d] by (simp add: js_String_padded u_def)
    have tw: "takeWhile js_digit u = take ?i ?t" "dropWhile js_digit u = CHR ''.'' # drop ?i ?t"
      using span_digits[of "''.'' @ drop ?i ?t" "take ?i ?t"] i(2) by (simp_all add: u_def ends_number_def js_digit_def)
    have tw2: "takeWhile js_digit (drop ?i ?t) = drop ?i ?t" "dropWhile js_digit (drop ?i ?t) = []"
      using span_digits[of "[]" "drop ?i ?t"] i(3) by (simp_all add: ends_number_def)
    have len: "length (drop ?i ?t) = d" "take ?i ?t \<noteq> []"
      using padded_digits(2)[where m = m and d = d] i(1) by auto
    show ?thesis
      using len padded_digits(3)[where m = m and d = d] sgn[of "10 powi (- int d)"]
      by (simp add: js_parseFloat_def rs tw tw2 read_exponent_def Let_def power_int_minus divide_inverse
          del: length_drop takeWhile_eq_all_conv dropWhile_eq_Nil_conv)
  qed
qed

lemma js_parseInt_js_String:
  assumes "\<bar>m\<bar> < 2 ^ 53"
  shows "js_parseInt (js_String m 0) = Some m"
proof -
  have "read_sign (dropWhile js_space (js_String m 0)) = (m < 0, padded m 0)"
    using read_sign_digits[OF hd_padded(2,1)] by (simp add: js_String_padded)
  moreover have tw: "takeWhile js_digit (padded m 0) = padded m 0"
    using span_digits[of "[]" "padded m 0"] padded_digits(1) by (simp add: ends_number_def)
  ultimately show ?thesis
    using padded_digits(3)[of m 0] hd_padded(2)[of m 0] to_double_of_int[OF assms] int_sign_abs[of m]
    by (simp add: js_parseInt_def Let_def tw del: of_int_abs of_int_minus)
qed

section \<open>Scaled readings\<close>

lemma fl_thousandths_le:
  assumes "\<bar>k\<bar> < 2 ^ 50" "0 \<le> T" "T \<le> 10 ^ 6"
  shows "\<bar>fl (of_int k / 1000)\<bar> \<le> of_int T \<longleftrightarrow> \<bar>k\<bar> \<le> 1000 * T"
proof (cases "\<bar>k\<bar> = 1000 * T")
  case True
  then have "k = 1000 * T \<or> k = - (1000 * T)"
    by (auto simp: abs_if split: if_splits)
  then have "of_int k / 1000 = (of_int T :: rat) \<or> of_int k / 1000 = (of_int (- T) :: rat)"
    by auto
  moreover have "fl (of_int T) = of_int T" "fl (of_int (- T)) = of_int (- T)"
    using assms by (intro fl_of_int; simp)+
  ultimately have "\<bar>fl (of_int k / 1000)\<bar> = of_int T"
    using assms(2) by auto
  then show ?thesis
    using True by simp
next
  case False
  define q :: rat where "q = of_int k / 1000"
  have "\<bar>of_int k :: rat\<bar> < 2 ^ 50"
    using assms(1) by (metis of_int_abs of_int_less_iff of_int_numeral of_int_power)
  then have "\<bar>q\<bar> / 2 ^ 53 \<le> 1 / 8000"
    by (simp add: q_def)
  moreover have "(2 :: rat) powi (- 1075) \<le> 1 / 8000"
  proof -
    have "(2 :: rat) powi (- 1075) \<le> 2 powi (- 13)"
      by (intro power_int_increasing) simp_all
    also have "\<dots> \<le> 1 / 8000"
      by (simp add: power_int_minus)
    finally show ?thesis .
  qed
  ultimately have e: "\<bar>fl q - q\<bar> \<le> 1 / 4000"
    using fl_error[of q] by linarith
  show ?thesis
  proof (cases "\<bar>k\<bar> \<le> 1000 * T")
    case True
    then have "\<bar>k\<bar> + 1 \<le> 1000 * T"
      using False by simp
    then have "of_int (\<bar>k\<bar> + 1) \<le> (of_int (1000 * T) :: rat)"
      by (simp only: of_int_le_iff)
    then have "\<bar>q\<bar> + 1 / 1000 \<le> of_int T"
      by (simp add: q_def field_simps)
    then have "\<bar>fl q\<bar> \<le> of_int T"
      using e by linarith
    then show ?thesis
      using True unfolding q_def [symmetric] by simp
  next
    case False
    then have "1000 * T + 1 \<le> \<bar>k\<bar>"
      by simp
    then have "of_int (1000 * T + 1) \<le> (of_int \<bar>k\<bar> :: rat)"
      by (simp only: of_int_le_iff)
    then have "of_int T + 1 / 1000 \<le> \<bar>q\<bar>"
      by (simp add: q_def field_simps)
    then have "of_int T < \<bar>fl q\<bar>"
      using e by linarith
    then show ?thesis
      using False unfolding q_def [symmetric] by simp
  qed
qed

lemma digit_value_digit: "js_digit c \<Longrightarrow> digit_value c < 10 \<and> int (digit_value c) = of_char c - 48"
proof -
  assume c: "js_digit c"
  then have "digit_value c = of_char c - 48" "48 \<le> (of_char c :: nat)" "(of_char c :: nat) \<le> 57"
    by (simp_all add: digit_value_def js_digit_def)
  moreover have "(of_char c :: int) = int (of_char c)"
    by (simp only: of_nat_of_char)
  ultimately show ?thesis
    by simp
qed

lemma read_radix_digits:
  assumes "list_all js_digit ds" "ds \<noteq> []"
  shows "read_radix 10 ds = Some (digits_value ds 0)"
proof -
  have "foldl (\<lambda>v c. v * int 10 + int (digit_value c)) v ds = digits_value ds v" for v
    using assms(1) by (induction ds arbitrary: v) (simp_all add: digit_value_digit)
  then show ?thesis
    using assms digit_value_digit by (auto simp: read_radix_def list_all_iff)
qed

lemma trim_not_space: "s \<noteq> [] \<Longrightarrow> \<not> js_space (hd s) \<Longrightarrow> \<not> js_space (last s) \<Longrightarrow> trim s = s"
  by (simp add: trim_def dropWhile_hd hd_rev)

lemma js_BigInt_js_String: "js_BigInt (trim (js_String m 0)) = Some m"
proof -
  let ?t = "padded m 0"
  have dig: "list_all js_digit ?t" "?t \<noteq> []"
    using padded_digits(1) hd_padded(2) by auto
  let ?s = "(if m < 0 then ''-'' else []) @ ?t"
  have s: "js_String m 0 = ?s"
    by (simp add: js_String_padded)
  have "js_digit (last ?t)"
    using dig by (simp add: list_all_iff)
  then have tr: "trim ?s = ?s"
    using hd_padded(1)[of m 0] dig(2) js_space_minus js_digit_not_space
    by (intro trim_not_space) (auto simp: hd_append)
  have "c \<noteq> CHR ''x'' \<and> c \<noteq> CHR ''X'' \<and> c \<noteq> CHR ''o'' \<and> c \<noteq> CHR ''O'' \<and> c \<noteq> CHR ''b'' \<and> c \<noteq> CHR ''B''"
    if "js_digit c" for c
    using that by (auto simp: js_digit_def)
  then have "take 2 ?s \<notin> {''0x'', ''0X'', ''0o'', ''0O'', ''0b'', ''0B''}"
    using dig by (cases ?t; cases "tl ?t") (auto simp: numeral_2_eq_2)
  moreover have "read_sign ?s = (m < 0, ?t)"
    using hd_padded[of m 0] js_digit_not_sign[of "hd ?t"] by (auto simp: read_sign_def)
  ultimately show ?thesis
    using tr s dig read_radix_digits[OF dig] padded_digits(3)[of m 0]
    by (simp add: js_BigInt_def Let_def)
qed

text \<open>Printed numbers read back. Decimal text is read as the double nearest to its value, an integer
  below \<open>2^53\<close> exactly, and a big integer exactly whatever its size.\<close>

lemma numbers_roundtrip:
  "parseNumber (js_String m d) label =
     (case to_double (of_int m / 10 ^ d) of None \<Rightarrow> Inl (Invalid_value label (js_String m d)) | Some v \<Rightarrow> Inr v) \<and>
   (\<bar>m\<bar> < 2 ^ 53 \<longrightarrow> parseIntValue (js_String m 0) label = Inr m) \<and>
   parseBigIntValue (js_String m 0) label = Inr m"
  by (simp add: parseNumber_def parseIntValue_def parseBigIntValue_def js_parseFloat_js_String
      js_parseInt_js_String js_BigInt_js_String)

section \<open>The scaled reader\<close>

lemma to_double_thousandth:
  assumes "\<bar>k\<bar> < 2 ^ 50"
  shows "to_double (of_int k / 1000) = Some (fl (of_int k / 1000))"
proof -
  define q :: rat where "q = of_int k / 1000"
  have "\<bar>of_int k :: rat\<bar> < 2 ^ 50"
    using assms by (metis of_int_abs of_int_less_iff of_int_numeral of_int_power)
  then have q: "\<bar>q\<bar> \<le> 2 ^ 50" "\<bar>q\<bar> / 2 ^ 53 \<le> 1"
    by (simp_all add: q_def)
  have "(2 :: rat) powi (- 1075) \<le> 2 powi 0"
    by (intro power_int_increasing) simp_all
  then have "\<bar>fl q - q\<bar> \<le> 2"
    using fl_error[of q] q(2) by simp
  then have "\<bar>fl q\<bar> \<le> 2 ^ 50 + 2"
    using q(1) by linarith
  also have "\<dots> < (2 :: rat) ^ 60"
    by simp
  also have "(2 :: rat) ^ 60 \<le> 2 ^ 1024"
    by (intro power_increasing) simp_all
  finally show ?thesis
    by (simp add: to_double_def q_def)
qed

text \<open>A reading of \<open>k\<close> thousandths up to the threshold gives exactly \<open>k\<close> milli-units; above it the reading is
  taken for milli-units as it is.\<close>

lemma parseSingleScaledMilliInt_thousandth:
  assumes "0 \<le> T" "T \<le> 10 ^ 6" "\<bar>k\<bar> < 2 ^ 50" "rat_of_int m / 10 ^ d = of_int k / 1000"
  shows "parseSingleScaledMilliInt [js_String m d] label (of_int T) =
    Inr (if \<bar>k\<bar> \<le> 1000 * T then k else math_round (fl (of_int k / 1000)))"
  using fl_thousandths_le[OF assms(3,1,2)] scaled_round_exact[of k 1000] assms(3)
  by (simp add: parseSingleScaledMilliInt_def first_value_def parseNumber_def js_parseFloat_js_String
      assms(4) to_double_thousandth)

text \<open>A whole number of milli-units up to the threshold is taken for base units: it comes out a thousand
  times too large.\<close>

lemma parseSingleScaledMilliInt_ambiguous:
  assumes "0 \<le> T" "T \<le> 10 ^ 6" "\<bar>n\<bar> \<le> T"
  shows "parseSingleScaledMilliInt [js_String n 0] label (of_int T) = Inr (1000 * n)"
proof -
  have "\<bar>1000 * n\<bar> \<le> 1000 * T" "\<bar>1000 * n\<bar> < 2 ^ 50"
    using assms by (simp_all add: abs_mult)
  then show ?thesis
    using parseSingleScaledMilliInt_thousandth[OF assms(1,2), of "1000 * n" n 0 label] by simp
qed

end
