(* ===== verification/Drpd_Groups_Laws.thy ===== *)
theory Drpd_Groups_Laws
  imports Drpd_Groups Scpi_Numbers_Laws
begin

text \<open>
  What the command groups promise on any transport: an inquiry is refused before anything is sent or is
  one command that a reader of the protocol decodes to the same request; thresholds and filters read
  back as they were set; a failed query never becomes a value.
\<close>

lemmas io_defs = io_return_def io_fail_def io_bind_def io_lift_def io_map_def io_both_def ask_def

section \<open>Tokens\<close>

lemma all_tokens [simp]:
  "map_of SinkInquiryType_table (token_of SinkInquiryType_table ty) = Some ty"
  "map_of SinkInquiryCablePlug_table (token_of SinkInquiryCablePlug_table plug) = Some plug"
  "map_of TriggerMessageTypeFilterClass_table (token_of TriggerMessageTypeFilterClass_table cls) = Some cls"
proof -
  have "ty \<in> snd ` set SinkInquiryType_table"
    by (cases ty) (simp_all add: SinkInquiryType_table_def)
  then show "map_of SinkInquiryType_table (token_of SinkInquiryType_table ty) = Some ty"
    by (intro map_of_is_SomeI sinkInquiryType.tokens_distinct token_of_in)
  have "plug \<in> snd ` set SinkInquiryCablePlug_table"
    by (cases plug) (simp_all add: SinkInquiryCablePlug_table_def)
  then show "map_of SinkInquiryCablePlug_table (token_of SinkInquiryCablePlug_table plug) = Some plug"
    by (intro map_of_is_SomeI sinkInquiryCablePlug.tokens_distinct token_of_in)
  have "cls \<in> snd ` set TriggerMessageTypeFilterClass_table"
    by (cases cls) (simp_all add: TriggerMessageTypeFilterClass_table_def)
  then show "map_of TriggerMessageTypeFilterClass_table (token_of TriggerMessageTypeFilterClass_table cls) = Some cls"
    by (intro map_of_is_SomeI triggerMessageTypeFilterClass.tokens_distinct token_of_in)
qed

lemma type_token_plain: "plain_token (token_of SinkInquiryType_table ty)"
  by (cases ty) (simp_all add: token_of_def SinkInquiryType_table_def plain_token_def scpi_separator_def)

lemma type_token_not_Nil [simp]: "token_of SinkInquiryType_table ty \<noteq> []"
  by (cases ty) (simp_all add: token_of_def SinkInquiryType_table_def)

lemma plug_token_not_Nil [simp]: "token_of SinkInquiryCablePlug_table plug \<noteq> []"
  by (cases plug) (simp_all add: token_of_def SinkInquiryCablePlug_table_def)

section \<open>Inquiries\<close>

text \<open>The parameters of a request, and the checks that make it valid.\<close>

fun inquiry_params :: "SinkInquiryRequest \<Rightarrow> SCPIParam list" where
  "inquiry_params (Request_certificate slot offset len) =
     [Param_Enum ''GET_CERTIFICATE'', Param_Number slot, Param_Number offset, Param_Number len]"
| "inquiry_params (Request_challenge slot nonce) =
     [Param_Enum ''CHALLENGE'', Param_Number slot, Param_String (concat (map hex_byte nonce))]"
| "inquiry_params (Request_manufacturer_battery ref) =
     [Param_Enum ''GET_MANUFACTURER_INFO'', Param_String ''BATTERY'', Param_Number ref]"
| "inquiry_params Request_manufacturer_port = [Param_Enum ''GET_MANUFACTURER_INFO'', Param_String ''PORT'']"
| "inquiry_params (Request_manufacturer_plug p) = [Param_Enum ''GET_MANUFACTURER_INFO'', plug_param p]"
| "inquiry_params (Request_country code) = [Param_Enum ''GET_COUNTRY_INFO'', Param_String (to_upper code)]"
| "inquiry_params (Request_battery_cap ref) = [Param_Enum ''GET_BATTERY_CAP'', Param_Number ref]"
| "inquiry_params (Request_battery_status ref) = [Param_Enum ''GET_BATTERY_STATUS'', Param_Number ref]"
| "inquiry_params (Request_modes svid plug) =
     Param_Enum ''DISCOVER_MODES'' # (case plug of Some p \<Rightarrow> [plug_param p] | None \<Rightarrow> []) @ [Param_Number svid]"
| "inquiry_params (Request_plain ty plug) =
     Param_Enum (token_of SinkInquiryType_table ty) # (case plug of Some p \<Rightarrow> [plug_param p] | None \<Rightarrow> [])"

definition upper_letter :: "char \<Rightarrow> bool" where
  "upper_letter c \<longleftrightarrow> 65 \<le> (of_char c :: nat) \<and> (of_char c :: nat) \<le> 90"

fun valid_inquiry :: "SinkInquiryRequest \<Rightarrow> bool" where
  "valid_inquiry (Request_certificate slot offset len) \<longleftrightarrow>
     (\<exists>s k n. slot = Decimal s 0 \<and> offset = Decimal k 0 \<and> len = Decimal n 0 \<and>
        0 \<le> s \<and> s \<le> 7 \<and> 0 \<le> k \<and> k \<le> 4095 \<and> 1 \<le> n \<and> n \<le> 256 \<and> k + n \<le> 4096)"
| "valid_inquiry (Request_challenge slot nonce) \<longleftrightarrow>
     (\<exists>s. slot = Decimal s 0 \<and> 0 \<le> s \<and> s \<le> 7) \<and> length nonce = 32"
| "valid_inquiry (Request_manufacturer_battery ref) \<longleftrightarrow> (\<exists>s. ref = Decimal s 0 \<and> 0 \<le> s \<and> s \<le> 7)"
| "valid_inquiry (Request_country code) \<longleftrightarrow> length code = 2 \<and> list_all upper_letter (to_upper code)"
| "valid_inquiry (Request_battery_cap ref) \<longleftrightarrow> (\<exists>s. ref = Decimal s 0 \<and> 0 \<le> s \<and> s \<le> 7)"
| "valid_inquiry (Request_battery_status ref) \<longleftrightarrow> (\<exists>s. ref = Decimal s 0 \<and> 0 \<le> s \<and> s \<le> 7)"
| "valid_inquiry (Request_modes svid plug) \<longleftrightarrow> (\<exists>s. svid = Decimal s 0 \<and> 1 \<le> s \<and> s \<le> 65535)"
| "valid_inquiry _ \<longleftrightarrow> True"

lemma upper_letter_eta: "upper_letter = (\<lambda>c. 65 \<le> (of_char c :: nat) \<and> (of_char c :: nat) \<le> 90)"
  by (rule ext) (simp add: upper_letter_def)

lemma integer_value_Some: "integer_value n = Some v \<longleftrightarrow> n = Decimal v 0"
  by (cases n rule: integer_value.cases) auto

lemma integer_in_iff: "integer_in n lo hi \<longleftrightarrow> (\<exists>v. n = Decimal v 0 \<and> lo \<le> v \<and> v \<le> hi)"
  using integer_value_Some by (fastforce simp: integer_in_def split: option.splits)

lemma special_tokens:
  "token_of SinkInquiryType_table Inquiry_GET_CERTIFICATE = ''GET_CERTIFICATE''"
  "token_of SinkInquiryType_table Inquiry_CHALLENGE = ''CHALLENGE''"
  "token_of SinkInquiryType_table Inquiry_GET_MANUFACTURER_INFO = ''GET_MANUFACTURER_INFO''"
  "token_of SinkInquiryType_table Inquiry_GET_COUNTRY_INFO = ''GET_COUNTRY_INFO''"
  "token_of SinkInquiryType_table Inquiry_GET_BATTERY_CAP = ''GET_BATTERY_CAP''"
  "token_of SinkInquiryType_table Inquiry_GET_BATTERY_STATUS = ''GET_BATTERY_STATUS''"
  "token_of SinkInquiryType_table Inquiry_DISCOVER_MODES = ''DISCOVER_MODES''"
  by (simp_all add: token_of_def SinkInquiryType_table_def)

lemmas special_plain = type_token_plain [of Inquiry_GET_CERTIFICATE, unfolded special_tokens]
  type_token_plain [of Inquiry_CHALLENGE, unfolded special_tokens]
  type_token_plain [of Inquiry_GET_MANUFACTURER_INFO, unfolded special_tokens]
  type_token_plain [of Inquiry_GET_COUNTRY_INFO, unfolded special_tokens]
  type_token_plain [of Inquiry_GET_BATTERY_CAP, unfolded special_tokens]
  type_token_plain [of Inquiry_GET_BATTERY_STATUS, unfolded special_tokens]
  type_token_plain [of Inquiry_DISCOVER_MODES, unfolded special_tokens]

lemma sendInquiryRequest_valid:
  "valid_inquiry req \<Longrightarrow> Sink_sendInquiryRequest t req = tr_sendCommand t ''SINK:INQ'' (inquiry_params req)"
  by (cases req)
    (auto simp: inquiry_def integer_in_iff special_tokens Sink_sendInquiry_def Let_def to_upper_def upper_letter_eta
      split: option.splits)

lemma sendInquiryRequest_invalid:
  "\<not> valid_inquiry req \<Longrightarrow> \<exists>msg. Sink_sendInquiryRequest t req = io_fail (Range_message msg)"
  by (cases req)
    (auto simp: integer_in_iff Let_def to_upper_def upper_letter_eta integer_value_Some split: option.splits)

text \<open>A reader of the protocol: the request a parsed command line asks for.\<close>

definition read_number :: "string \<Rightarrow> js_number" where
  "read_number s = Decimal (the (js_parseInt s)) 0"

definition read_inquiry :: "string list \<Rightarrow> SinkInquiryRequest option" where
  "read_inquiry vals =
     (case vals of
        cmd # ty # args \<Rightarrow>
          (if ty = ''GET_CERTIFICATE'' then
             (case args of [a, b, c] \<Rightarrow> Some (Request_certificate (read_number a) (read_number b) (read_number c)) | _ \<Rightarrow> None)
           else if ty = ''CHALLENGE'' then
             (case args of [a, h] \<Rightarrow> Some (Request_challenge (read_number a) (hex_pairs h)) | _ \<Rightarrow> None)
           else if ty = ''GET_MANUFACTURER_INFO'' then
             (case args of
                [a, b] \<Rightarrow> Some (Request_manufacturer_battery (read_number b))
              | [a] \<Rightarrow> (case map_of SinkInquiryCablePlug_table a of
                    Some p \<Rightarrow> Some (Request_manufacturer_plug p) | None \<Rightarrow> Some Request_manufacturer_port)
              | _ \<Rightarrow> None)
           else if ty = ''GET_COUNTRY_INFO'' then (case args of [a] \<Rightarrow> Some (Request_country a) | _ \<Rightarrow> None)
           else if ty = ''GET_BATTERY_CAP'' then (case args of [a] \<Rightarrow> Some (Request_battery_cap (read_number a)) | _ \<Rightarrow> None)
           else if ty = ''GET_BATTERY_STATUS'' then (case args of [a] \<Rightarrow> Some (Request_battery_status (read_number a)) | _ \<Rightarrow> None)
           else if ty = ''DISCOVER_MODES'' then
             (case args of
                [a] \<Rightarrow> Some (Request_modes (read_number a) None)
              | [p, a] \<Rightarrow> Some (Request_modes (read_number a) (map_of SinkInquiryCablePlug_table p))
              | _ \<Rightarrow> None)
           else (case map_of SinkInquiryType_table ty of
               None \<Rightarrow> None
             | Some k \<Rightarrow> (case args of
                 [] \<Rightarrow> Some (Request_plain k None)
               | [p] \<Rightarrow> Some (Request_plain k (map_of SinkInquiryCablePlug_table p))
               | _ \<Rightarrow> None)))
      | _ \<Rightarrow> None)"

text \<open>What the type of a request allows, and its canonical form: country codes are sent in capitals.\<close>

fun typed_inquiry :: "SinkInquiryRequest \<Rightarrow> bool" where
  "typed_inquiry (Request_plain ty plug) \<longleftrightarrow>
     ty \<notin> {Inquiry_GET_MANUFACTURER_INFO, Inquiry_GET_COUNTRY_INFO, Inquiry_GET_BATTERY_CAP,
       Inquiry_GET_BATTERY_STATUS, Inquiry_DISCOVER_MODES, Inquiry_GET_CERTIFICATE, Inquiry_CHALLENGE}"
| "typed_inquiry _ \<longleftrightarrow> True"

fun canonical_inquiry :: "SinkInquiryRequest \<Rightarrow> SinkInquiryRequest" where
  "canonical_inquiry (Request_country code) = Request_country (to_upper code)"
| "canonical_inquiry r = r"

lemma read_number_js_String [simp]: "\<bar>v\<bar> \<le> 65535 \<Longrightarrow> read_number (js_String v 0) = Decimal v 0"
  by (simp add: read_number_def js_parseInt_js_String)

lemma digit_value_hex: "0 \<le> n \<Longrightarrow> n < 16 \<Longrightarrow> digit_value (hex_digit n) = nat n"
  by (drule (1) less_16_cases, elim disjE) (hypsubst, simp add: hex_digit_def digit_value_def)+

lemma hex_pairs_bytes: "hex_pairs (concat (map hex_byte bs)) = bs"
proof (induction bs)
  case (Cons b bs)
  have "0 \<le> uint b" "uint b < 256"
    by (rule uint_byte_bounds)+
  then have "0 \<le> uint b div 16" "uint b div 16 < 16" "0 \<le> uint b mod 16" "uint b mod 16 < 16"
    by presburger+
  then have "digit_value (hex_digit (uint b div 16)) = nat (uint b div 16)"
      "digit_value (hex_digit (uint b mod 16)) = nat (uint b mod 16)"
    by (simp_all only: digit_value_hex)
  moreover have "int (nat (uint b div 16) * 16 + nat (uint b mod 16)) = uint b"
    by simp
  ultimately show ?case
    using Cons by (simp add: hex_byte_def)
qed simp

lemma map_of_PORT: "map_of SinkInquiryCablePlug_table ''PORT'' = None"
  by (simp add: SinkInquiryCablePlug_table_def)

lemma plain_types:
  "typed_inquiry (Request_plain ty plug) \<Longrightarrow> token_of SinkInquiryType_table ty \<notin>
     {''GET_CERTIFICATE'', ''CHALLENGE'', ''GET_MANUFACTURER_INFO'', ''GET_COUNTRY_INFO'', ''GET_BATTERY_CAP'',
      ''GET_BATTERY_STATUS'', ''DISCOVER_MODES''}"
  by (cases ty) (simp_all add: token_of_def SinkInquiryType_table_def)

lemma read_inquiry_params:
  assumes "valid_inquiry req" "typed_inquiry req"
  shows "read_inquiry (cmd # map param_text (inquiry_params req)) = Some (canonical_inquiry req)"
proof (cases req)
  case (Request_plain ty plug)
  then show ?thesis
    using assms(2) plain_types[of ty plug] by (cases plug) (simp_all add: read_inquiry_def)
next
  case (Request_modes svid plug)
  then show ?thesis
    using assms(1) by (cases plug) (auto simp: read_inquiry_def)
qed (use assms(1) in \<open>auto simp: read_inquiry_def hex_pairs_bytes map_of_PORT\<close>)

lemma inquiry_params_plain:
  assumes "valid_inquiry req"
  shows "list_all plain_param (inquiry_params req)" "\<forall>p \<in> set (inquiry_params req). param_text p \<noteq> []"
proof -
  have js: "js_String m 0 \<noteq> []" for m
    using hd_padded(2)[of m 0] by (simp add: js_String_padded)
  have hex: "\<exists>b \<in> set nonce. hex_byte b \<noteq> []" if "length nonce = 32" for nonce
    using that by (cases nonce) (auto simp: hex_byte_def)
  have up: "to_upper code \<noteq> []" if "length code = 2" for code
    using that by (cases code) (simp_all add: to_upper_def)
  show "list_all plain_param (inquiry_params req)"
    using assms type_token_plain special_plain by (cases req) (auto split: option.splits)
  show "\<forall>p \<in> set (inquiry_params req). param_text p \<noteq> []"
    using assms by (cases req) (auto simp: js hex up split: option.splits)
qed

text \<open>A device that stores the text of the last parameter and reports it.\<close>

definition echo_transport :: "string drpd_transport" where
  "echo_transport =
     \<lparr>tr_sendCommand = (\<lambda>cmd ps s. case ps of [p] \<Rightarrow> (case formatSCPIParam p of Inr txt \<Rightarrow> (Inr (), txt)
          | Inl e \<Rightarrow> (Inl (Transport_failure []), s)) | _ \<Rightarrow> (Inr (), s)),
      tr_queryText = (\<lambda>cmd ps s. (Inr [s], s)),
      tr_queryBinary = (\<lambda>cmd ps s. (Inr [], s))\<rparr>"

text \<open>C26: an inquiry is refused before anything is sent, or it is one command that says exactly the request.
  On any transport, a request with a number out of range, a wrong nonce length or a bad country code
  throws without sending; every other request sends the one command \<open>SINK:INQ\<close>, whose line parses back
  to the request (a country code in capitals). So no two different requests send the same line.\<close>

theorem sendInquiryRequest_roundtrip:
  assumes "typed_inquiry req"
  shows "if valid_inquiry req
     then Sink_sendInquiryRequest t req = tr_sendCommand t ''SINK:INQ'' (inquiry_params req) \<and>
       (\<exists>line. formatSCPI ''SINK:INQ'' (inquiry_params req) = Inr line \<and>
          read_inquiry (parseSCPIResponse line) = Some (canonical_inquiry req))
     else \<exists>msg. Sink_sendInquiryRequest t req = io_fail (Range_message msg)"
proof (cases "valid_inquiry req")
  case True
  have "plain_token ''SINK:INQ''"
    by (simp add: plain_token_def scpi_separator_def)
  then obtain line where "formatSCPI ''SINK:INQ'' (inquiry_params req) = Inr line"
      "parseSCPIResponse line = ''SINK:INQ'' # filter (\<lambda>s. s \<noteq> []) (map param_text (inquiry_params req))"
    using formatSCPI_parse[of "''SINK:INQ''" "inquiry_params req"] inquiry_params_plain(1)[OF True] by auto
  moreover have "filter (\<lambda>s. s \<noteq> []) (map param_text (inquiry_params req)) = map param_text (inquiry_params req)"
    using inquiry_params_plain(2)[OF True] by (simp add: filter_id_conv)
  ultimately show ?thesis
    using True sendInquiryRequest_valid read_inquiry_params[OF True assms] by auto
next
  case False
  then show ?thesis
    using sendInquiryRequest_invalid by simp
qed

text \<open>A country code in small letters, and a certificate request past the end of the chain.\<close>

lemma sendInquiryRequest_roundtrip_witness:
  "(\<exists>line. formatSCPI ''SINK:INQ'' (inquiry_params (Request_country ''de'')) = Inr line \<and>
      read_inquiry (parseSCPIResponse line) = Some (Request_country ''DE'')) \<and>
   (\<exists>msg. Sink_sendInquiryRequest echo_transport (Request_certificate (Decimal 0 0) (Decimal 4000 0) (Decimal 200 0)) =
      io_fail (Range_message msg))"
proof -
  have de: "to_upper ''de'' = ''DE''"
    by code_simp
  then have "valid_inquiry (Request_country ''de'')" "canonical_inquiry (Request_country ''de'') = Request_country ''DE''"
    by (simp_all add: upper_letter_def)
  moreover have "\<not> valid_inquiry (Request_certificate (Decimal 0 0) (Decimal 4000 0) (Decimal 200 0))"
    by simp
  ultimately show ?thesis
    using sendInquiryRequest_roundtrip[of "Request_country ''de''" echo_transport]
      sendInquiryRequest_roundtrip[of "Request_certificate (Decimal 0 0) (Decimal 4000 0) (Decimal 200 0)" echo_transport]
    by (simp del: valid_inquiry.simps canonical_inquiry.simps inquiry_params.simps Sink_sendInquiryRequest.simps)
qed

section \<open>Thresholds\<close>

lemma thousandth_value:
  "\<exists>m d. thousandth k = Decimal m d \<and> rat_of_int m / 10 ^ d = of_int k / 1000"
proof -
  have div: "\<exists>j. k = c * j" if "k mod c = 0" for c
    using that by (auto simp: mod_eq_0_iff_dvd)
  show ?thesis
  proof (cases "k mod 1000 = 0")
    case True
    then obtain j where "k = 1000 * j"
      using div by blast
    then show ?thesis
      by (simp add: thousandth_def)
  next
    case k1000: False
    show ?thesis
    proof (cases "k mod 100 = 0")
      case True
      then obtain j where "k = 100 * j"
        using div by blast
      then show ?thesis
        using k1000 by (simp add: thousandth_def)
    next
      case k100: False
      show ?thesis
      proof (cases "k mod 10 = 0")
        case True
        then obtain j where "k = 10 * j"
          using div by blast
        then show ?thesis
          using k1000 k100 by (simp add: thousandth_def)
      next
        case False
        then show ?thesis
          using k1000 k100 by (simp add: thousandth_def)
      qed
    qed
  qed
qed

text \<open>Protection thresholds read back exactly. Setting a threshold of \<open>k\<close> milli-units sends it in volts or
  amperes; a device that reports the text it was sent makes the getter return \<open>k\<close>, in spite of binary
  fractions, up to the unit limit of the reader: 100 V, and 10 A for the current. Above the limit the
  reader takes volts for millivolts and returns about the thousandth part.\<close>

lemma threshold_roundtrip:
  assumes "0 \<le> k" "k < 2 ^ 50"
  shows "\<exists>p txt. VBus_setOvpThresholdMv t k = tr_sendCommand t ''BUS:VBUS:OVPT'' [p] \<and>
    VBus_setOcpThresholdMa t k = tr_sendCommand t ''BUS:VBUS:OCPT'' [p] \<and> formatSCPIParam p = Inr txt \<and>
    (\<forall>s s'. tr_queryText t ''BUS:VBUS:OVPT?'' [] s = (Inr [txt], s') \<longrightarrow>
       VBus_getOvpThresholdMv t s = (Inr (if k \<le> 100000 then k else math_round (fl (of_int k / 1000))), s')) \<and>
    (\<forall>s s'. tr_queryText t ''BUS:VBUS:OCPT?'' [] s = (Inr [txt], s') \<longrightarrow>
       VBus_getOcpThresholdMa t s = (Inr (if k \<le> 10000 then k else math_round (fl (of_int k / 1000))), s'))"
proof -
  obtain m d where d: "thousandth k = Decimal m d" "rat_of_int m / 10 ^ d = of_int k / 1000"
    using thousandth_value by blast
  have k: "\<bar>k\<bar> < 2 ^ 50"
    using assms by simp
  have "parseSingleScaledMilliInt [js_String m d] l 100 =
      Inr (if k \<le> 100000 then k else math_round (fl (of_int k / 1000)))" for l
    using parseSingleScaledMilliInt_thousandth[OF _ _ k d(2), of 100 l] assms(1) by simp
  moreover have "parseSingleScaledMilliInt [js_String m d] l 10 =
      Inr (if k \<le> 10000 then k else math_round (fl (of_int k / 1000)))" for l
    using parseSingleScaledMilliInt_thousandth[OF _ _ k d(2), of 10 l] assms(1) by simp
  ultimately show ?thesis
    by (intro exI[of _ "Param_Number (Decimal m d)"] exI[of _ "js_String m d"])
      (simp add: VBus_setOvpThresholdMv_def VBus_setOcpThresholdMa_def VBus_getOvpThresholdMv_def
        VBus_getOcpThresholdMa_def d(1) io_defs)
qed

section \<open>Trigger filters\<close>

text \<open>The filter slots of a device: cleared, written by index, and reported in the order of the slots.\<close>

definition filter_device :: "(nat \<Rightarrow> string option) drpd_transport" where
  "filter_device =
     \<lparr>tr_sendCommand = (\<lambda>cmd ps m.
        if cmd = ''TRIG:EV:MSGTYPE:FILTER:CLEAR'' then (Inr (), \<lambda>_. None)
        else if cmd = ''TRIG:EV:MSGTYPE:FILTER'' then
          (case ps of
             [Param_Number (Decimal i 0), Param_String tok] \<Rightarrow>
               (if 0 \<le> i \<and> i < 8 then (Inr (), m(nat i \<mapsto> tok)) else (Inl (Transport_failure ''slot''), m))
           | _ \<Rightarrow> (Inl (Transport_failure ''parameters''), m))
        else (Inl (Transport_failure ''command''), m)),
      tr_queryText = (\<lambda>cmd ps m. (Inr (map (\<lambda>i. the (m i)) (filter (\<lambda>i. m i \<noteq> None) [0..<8])), m)),
      tr_queryBinary = (\<lambda>cmd ps m. (Inr [], m))\<rparr>"

definition wf_filter :: "TriggerMessageTypeFilter \<Rightarrow> bool" where
  "wf_filter f \<longleftrightarrow> 0 \<le> tf_messageTypeNumber f \<and> tf_messageTypeNumber f \<le> 31"

lemma class_token:
  "token_of TriggerMessageTypeFilterClass_table cls \<noteq> []"
  "list_all (\<lambda>c. c \<in> set token_chars) (token_of TriggerMessageTypeFilterClass_table cls)"
  by (cases cls; simp add: token_of_def TriggerMessageTypeFilterClass_table_def token_chars_def)+

lemma token_char_plain: "c \<in> set token_chars \<Longrightarrow> \<not> js_space c \<and> upper_char c = c \<and> c \<noteq> CHR '':''"
proof -
  have "list_all (\<lambda>c. c \<noteq> CHR '':'') token_chars"
    by code_simp
  then show "c \<in> set token_chars \<Longrightarrow> \<not> js_space c \<and> upper_char c = c \<and> c \<noteq> CHR '':''"
    using token_chars_normal by (auto simp: list_all_iff)
qed

lemma js_digit_token: "js_digit c \<Longrightarrow> upper_char c = c \<and> \<not> js_space c"
  by (simp add: js_digit_def upper_char_def js_digit_not_space)

lemma parse_filter_token:
  assumes "wf_filter f"
  shows "parseTriggerMessageTypeFilter (filter_token f) = Inr f"
    and "filter_token f \<noteq> []" "\<forall>c \<in> set (filter_token f). \<not> js_space c"
proof -
  let ?c = "token_of TriggerMessageTypeFilterClass_table (tf_class f)"
  let ?n = "js_String (tf_messageTypeNumber f) 0"
  have n: "?n = padded (tf_messageTypeNumber f) 0" "list_all js_digit ?n" "?n \<noteq> []"
    using assms padded_digits(1) hd_padded(2) by (auto simp: js_String_padded wf_filter_def)
  have c: "\<forall>x \<in> set ?c. \<not> js_space x \<and> upper_char x = x \<and> x \<noteq> CHR '':''"
    using class_token(2)[of "tf_class f"] token_char_plain by (auto simp: list_all_iff)
  have colon: "upper_char (CHR '':'') = CHR '':''" "\<not> js_space (CHR '':'')"
    by code_simp+
  have all: "\<forall>x \<in> set (filter_token f). upper_char x = x \<and> \<not> js_space x"
    using c n(2) colon js_digit_token by (auto simp: filter_token_def list_all_iff)
  then show "\<forall>c \<in> set (filter_token f). \<not> js_space c"
    by blast
  show ne: "filter_token f \<noteq> []"
    by (simp add: filter_token_def)
  have "trim (filter_token f) = filter_token f"
    using all ne by (intro trim_not_space) simp_all
  then have norm: "to_upper (trim (filter_token f)) = ?c @ CHR '':'' # ?n"
    using all by (simp add: to_upper_def map_idI filter_token_def)
  have tw: "takeWhile (\<lambda>x. x \<noteq> CHR '':'') (?c @ CHR '':'' # ?n) = ?c"
    using c by (simp add: takeWhile_append2)
  have "parseIntValue ?n l = Inr (tf_messageTypeNumber f)" for l
    using assms by (simp add: parseIntValue_def js_parseInt_js_String wf_filter_def)
  then show "parseTriggerMessageTypeFilter (filter_token f) = Inr f"
    using assms n(3) class_token(1)[of "tf_class f"]
    by (simp add: parseTriggerMessageTypeFilter_def norm Let_def tw wf_filter_def)
qed

lemma split_spaces_join:
  assumes "ts \<noteq> []" "\<forall>t \<in> set ts. t \<noteq> [] \<and> (\<forall>c \<in> set t. \<not> js_space c)"
  shows "split_spaces (join '' '' ts) = ts \<and> trim (join '' '' ts) = join '' '' ts \<and>
    \<not> js_space (last (join '' '' ts))"
  using assms
proof (induction ts)
  case (Cons t ts)
  have sp: "js_space (CHR '' '')"
    by (simp add: js_space_def)
  have t: "t \<noteq> []" "\<forall>c \<in> set t. \<not> js_space c"
    using Cons.prems by auto
  show ?case
  proof (cases ts)
    case Nil
    have "takeWhile (Not \<circ> js_space) t = t" "dropWhile (Not \<circ> js_space) t = []"
      using t by auto
    then show ?thesis
      using Nil t trim_not_space[of t] by (subst split_spaces.simps) (simp add: Let_def)
  next
    case (Cons u us)
    then have ih: "split_spaces (join '' '' ts) = ts" "\<not> js_space (last (join '' '' ts))"
      using Cons.IH Cons.prems by auto
    have j: "join '' '' (t # ts) = t @ '' '' @ join '' '' ts"
      using Cons by simp
    have u: "join '' '' ts \<noteq> []" "\<not> js_space (hd (join '' '' ts))"
      using Cons Cons.prems by (cases us; auto simp: hd_append)+
    have "takeWhile (Not \<circ> js_space) (t @ '' '' @ join '' '' ts) = t"
      "dropWhile (Not \<circ> js_space) (t @ '' '' @ join '' '' ts) = '' '' @ join '' '' ts"
      using t(2) sp by (simp_all add: takeWhile_append2 dropWhile_append2)
    moreover have "dropWhile js_space ('' '' @ join '' '' ts) = join '' '' ts"
      using sp u by (simp add: dropWhile_hd)
    ultimately have "split_spaces (join '' '' (t # ts)) = t # ts"
      unfolding j by (subst split_spaces.simps) (simp add: Let_def ih(1))
    moreover have l: "\<not> js_space (last (join '' '' (t # ts)))"
      unfolding j using ih(2) u(1) by simp
    moreover have "trim (join '' '' (t # ts)) = join '' '' (t # ts)"
      using l unfolding j using t u(1) by (intro trim_not_space) (simp_all add: hd_append)
    ultimately show ?thesis
      by simp
  qed
qed simp

lemma parse_filter_tokens:
  assumes "list_all wf_filter fs"
  shows "parseTriggerMessageTypeFiltersResponse (map filter_token fs) = Inr fs"
proof (cases "fs = []")
  case True
  then show ?thesis
    by (simp add: parseTriggerMessageTypeFiltersResponse_def trim_def)
next
  case False
  have t: "\<forall>t \<in> set (map filter_token fs). t \<noteq> [] \<and> (\<forall>c \<in> set t. \<not> js_space c)"
    using assms parse_filter_token(2,3) by (auto simp: list_all_iff)
  have j: "join '' '' (map filter_token fs) \<noteq> []"
    using False t by (cases fs; cases "tl fs") auto
  have "filter (\<lambda>tok. length tok > 0) (map filter_token fs) = map filter_token fs"
    using t by (simp add: filter_id_conv)
  moreover have "map_result parseTriggerMessageTypeFilter (map filter_token fs) = Inr fs"
    using assms parse_filter_token(1) by (induction fs) simp_all
  ultimately show ?thesis
    using split_spaces_join[OF _ t] False j
    by (simp add: parseTriggerMessageTypeFiltersResponse_def Let_def)
qed

lemma send_filters_device:
  "slot + length fs \<le> 8 \<Longrightarrow> send_filters filter_device slot fs m =
     (Inr (), \<lambda>i. if slot \<le> i \<and> i < slot + length fs then Some (filter_token (fs ! (i - slot))) else m i)"
proof (induction fs arbitrary: slot m)
  case Nil
  then show ?case
    by (auto simp: io_defs fun_eq_iff)
next
  case (Cons f fs)
  have "tr_sendCommand filter_device ''TRIG:EV:MSGTYPE:FILTER''
      [Param_Number (Decimal (int slot) 0), Param_String (filter_token f)] m = (Inr (), m(slot \<mapsto> filter_token f))"
    using Cons.prems by (simp add: filter_device_def)
  then have "send_filters filter_device slot (f # fs) m =
      send_filters filter_device (slot + 1) fs (m(slot \<mapsto> filter_token f))"
    by (simp add: io_bind_def)
  also have "\<dots> = (Inr (), \<lambda>i. if slot + 1 \<le> i \<and> i < slot + 1 + length fs
      then Some (filter_token (fs ! (i - (slot + 1)))) else (m(slot \<mapsto> filter_token f)) i)"
    using Cons.prems by (intro Cons.IH) simp
  also have "(\<lambda>i. if slot + 1 \<le> i \<and> i < slot + 1 + length fs
      then Some (filter_token (fs ! (i - (slot + 1)))) else (m(slot \<mapsto> filter_token f)) i) =
    (\<lambda>i. if slot \<le> i \<and> i < slot + length (f # fs) then Some (filter_token ((f # fs) ! (i - slot))) else m i)"
    by (auto simp: fun_eq_iff nth_Cons')
  finally show ?case .
qed

text \<open>Trigger filters read back as they were set. On a device with eight filter slots, setting any list of
  at most eight filters (message types 0 to 31) replaces all earlier filters, and reading them back
  returns the same filters in the same order.\<close>

lemma setMessageTypeFilters_roundtrip:
  assumes "list_all wf_filter fs" "length fs \<le> 8"
  shows "fst (io_bind (Trigger_setMessageTypeFilters filter_device fs)
    (\<lambda>_. Trigger_getMessageTypeFilters filter_device) m) = Inr fs"
proof -
  define m' where "m' = (\<lambda>i. if i < length fs then Some (filter_token (fs ! i)) else None)"
  have set: "Trigger_setMessageTypeFilters filter_device fs m = (Inr (), m')"
  proof -
    have "Trigger_clearMessageTypeFilters filter_device m = (Inr (), \<lambda>_. None)"
      by (simp add: Trigger_clearMessageTypeFilters_def filter_device_def)
    then show ?thesis
      using send_filters_device[of 0 fs "\<lambda>_. None"] assms(2)
      by (simp add: Trigger_setMessageTypeFilters_def io_defs m'_def fun_eq_iff)
  qed
  have "filter (\<lambda>i. m' i \<noteq> None) [0..<8] = [0..<length fs]"
  proof -
    have "[0..<8] = [0..<length fs] @ [length fs..<8]"
      using assms(2) by (metis le_add_diff_inverse upt_add_eq_append zero_le)
    then show ?thesis
      by (simp add: m'_def)
  qed
  then have "map (\<lambda>i. the (m' i)) (filter (\<lambda>i. m' i \<noteq> None) [0..<8]) = map filter_token fs"
    by (auto simp: m'_def intro: nth_equalityI)
  then have "tr_queryText filter_device ''TRIG:EV:MSGTYPE:FILTER?'' [] m' = (Inr (map filter_token fs), m')"
    by (simp add: filter_device_def)
  then have "Trigger_getMessageTypeFilters filter_device m' = (Inr fs, m')"
    using parse_filter_tokens[OF assms(1)] by (simp add: Trigger_getMessageTypeFilters_def io_defs)
  then show ?thesis
    using set by (simp add: io_bind_def)
qed

section \<open>The cable test\<close>

text \<open>A consistent result: an identity is a whole number of words, at least the header and four objects, and
  proves an orientation; any other outcome has no body.\<close>

definition consistent_result :: "CableTestResult \<Rightarrow> bool" where
  "consistent_result r \<longleftrightarrow> 0 \<le> ct_generation r \<and> ct_generation r < 2 ^ 53 \<and>
     ct_vconnContact r \<in> {0, 1, 2} \<and> ct_revision r \<in> {1, 2} \<and>
     (if ct_outcome r = Cable_IDENTITY
      then 20 \<le> length (ct_body r) \<and> length (ct_body r) \<le> 28 \<and> 4 dvd length (ct_body r) \<and> ct_vconnContact r \<noteq> 0
      else ct_body r = [])"

definition result_fields :: "CableTestResult \<Rightarrow> string list" where
  "result_fields r =
     [js_String (ct_generation r) 0, token_of cableTestOutcomes (ct_outcome r), js_String (ct_vconnContact r) 0,
      if ct_goodCRC r then ''1'' else ''0'', js_String (ct_revision r) 0, concat (map hex_byte (ct_body r))]"

lemma fl_nat_bound:
  assumes "0 \<le> n" "fl (of_int n) \<le> 9007199254740991"
  shows "n < 2 ^ 53"
proof (rule ccontr)
  assume "\<not> n < 2 ^ 53"
  then have "2 ^ 53 \<le> n"
    by simp
  then have "(of_int (2 ^ 53) :: rat) \<le> of_int n"
    by (simp only: of_int_le_iff)
  with \<open>2 ^ 53 \<le> n\<close> have n: "n \<noteq> 0" "(2 :: rat) ^ 53 \<le> of_int n"
    by (auto simp only: of_int_power of_int_numeral) simp
  define e where "e = max (binade (of_int n) - 52) (- 1074)"
  have lo: "2 powi binade (of_int n) \<le> (of_int n :: rat)"
    using binade_bounds(1)[of "of_int n"] n(1) assms(1) by simp
  have "(2 :: rat) powi 53 = 2 ^ 53"
    by (simp only: power_int_numeral)
  moreover have "\<bar>rat_of_int n\<bar> = of_int n" "rat_of_int n \<noteq> 0"
    using assms(1) n(1) by simp_all
  ultimately have up: "(2 :: rat) powi 53 < 2 powi (binade (of_int n) + 1)"
    using binade_bounds(2)[of "of_int n"] n(2) by linarith
  have "53 \<le> binade (of_int n)"
  proof (rule ccontr)
    assume "\<not> 53 \<le> binade (of_int n)"
    then have "(2 :: rat) powi (binade (of_int n) + 1) \<le> 2 powi 53"
      by (intro power_int_increasing) simp_all
    with up show False
      by linarith
  qed
  then have e: "e = binade (of_int n) - 52" "0 < e"
    by (simp_all add: e_def)
  have "2 ^ 52 \<le> round_even (of_int n / 2 powi e)"
  proof -
    have "(2 :: rat) powi binade (of_int n) / 2 powi e = 2 powi 52"
      using e(1) by (simp add: power_int_diff)
    then have "(of_int (2 ^ 52) :: rat) \<le> of_int n / 2 powi e"
      using divide_right_mono[OF lo, of "2 powi e"] by simp
    then have "2 ^ 52 \<le> \<lfloor>of_int n / (2 :: rat) powi e\<rfloor>"
      by (simp only: le_floor_iff)
    then show ?thesis
      by (simp add: round_even_def Let_def)
  qed
  then have "(of_int (2 ^ 52) :: rat) \<le> of_int (round_even (of_int n / 2 powi e))"
    by (simp only: of_int_le_iff)
  then have "(of_int (2 ^ 52) :: rat) * 2 powi 1 \<le> of_int (round_even (of_int n / 2 powi e)) * 2 powi e"
    using e(2) by (intro mult_mono power_int_increasing) simp_all
  then have "(2 :: rat) ^ 53 \<le> fl (of_int n)"
    using n(1) by (simp add: fl_def e_def [symmetric] Let_def)
  then show False
    using assms(2) by simp
qed

lemma hex_pairs_length: "length (hex_pairs s) = length s div 2"
  by (induction s rule: hex_pairs.induct) simp_all

lemma parseCableTestResult_consistent:
  assumes "parseCableTestResult vals = Inr r"
  shows "consistent_result r"
proof -
  let ?g = "vals ! 0" and ?b = "if length vals = 6 then vals ! 5 else []"
  note p = assms[unfolded parseCableTestResult_def Let_def]
  have g: "list_all js_digit ?g" "fl (of_int (digits_value ?g 0)) \<le> 9007199254740991"
    using p by (auto split: if_splits)
  have n: "0 \<le> digits_value ?g 0"
    using digits_value_nonneg[OF g(1), of 0] by simp
  then have gen: "ct_generation r = digits_value ?g 0" "digits_value ?g 0 < 2 ^ 53"
  proof -
    show lt: "digits_value ?g 0 < 2 ^ 53"
      using fl_nat_bound[OF n g(2)] .
    then have "fl (of_int (digits_value ?g 0)) = of_int (digits_value ?g 0)"
      using n by (intro fl_of_int) simp
    then show "ct_generation r = digits_value ?g 0"
      using p by (auto split: if_splits)
  qed
  have h: "hex_body ?b" "ct_body r = hex_pairs ?b"
    using p by (auto split: if_splits)
  then have "length (ct_body r) \<le> 28"
    by (auto simp: hex_pairs_length hex_body_def split: if_splits)
  moreover have "ct_vconnContact r \<in> {0, 1, 2}" "ct_revision r \<in> {1, 2}"
    using p by (auto simp: one_of_def split: if_splits)
  moreover have "if ct_outcome r = Cable_IDENTITY then 20 \<le> length (ct_body r) \<and> 4 dvd length (ct_body r) \<and> ct_vconnContact r \<noteq> 0
      else ct_body r = []"
    using p by (auto simp: mod_eq_0_iff_dvd split: if_splits)
  ultimately show ?thesis
    using n gen by (simp add: consistent_result_def split: if_splits)
qed

lemma cable_outcomes [simp]: "map_of cableTestOutcomes (token_of cableTestOutcomes x) = Some x"
  by (cases x) (simp_all add: cableTestOutcomes_def token_of_def)

lemma small_texts: "js_String 0 0 = ''0''" "js_String 1 0 = ''1''" "js_String 2 0 = ''2''"
  by code_simp+

lemma hex_body_bytes: "length bs \<le> 28 \<Longrightarrow> hex_body (concat (map hex_byte bs))"
proof -
  have "length (concat (map hex_byte bs)) = 2 * length bs"
    by (induction bs) (simp_all add: hex_byte_def)
  moreover have "list_all (\<lambda>c. digit_value c < 16) (concat (map hex_byte bs))"
  proof (induction bs)
    case (Cons b bs)
    have "0 \<le> uint b" "uint b < 256"
      by (rule uint_byte_bounds)+
    then have "0 \<le> uint b div 16" "uint b div 16 < 16" "0 \<le> uint b mod 16" "uint b mod 16 < 16"
      by presburger+
    then have "digit_value (hex_digit (uint b div 16)) < 16" "digit_value (hex_digit (uint b mod 16)) < 16"
      by (simp_all only: digit_value_hex nat_less_iff of_nat_numeral)
    then show ?case
      using Cons by (simp add: hex_byte_def)
  qed simp
  ultimately show "length bs \<le> 28 \<Longrightarrow> hex_body (concat (map hex_byte bs))"
    by (simp add: hex_body_def)
qed

lemma parseCableTestResult_fields:
  assumes "consistent_result r"
  shows "parseCableTestResult (result_fields r) = Inr r"
proof -
  define g where "g = ct_generation r"
  have g: "0 \<le> g" "g < 2 ^ 53"
    using assms by (simp_all add: consistent_result_def g_def)
  have pad: "js_String g 0 = padded g 0"
    using g(1) by (simp add: js_String_padded)
  then have t: "js_String g 0 \<noteq> []" "list_all js_digit (js_String g 0)" "digits_value (js_String g 0) 0 = g"
    using padded_digits hd_padded(2) g(1) by simp_all
  have "fl (of_int g) = of_int g"
    using g by (intro fl_of_int) simp
  moreover have "g \<le> 9007199254740991"
    using g(2) by simp
  then have "rat_of_int g \<le> of_int 9007199254740991"
    by (simp only: of_int_le_iff)
  ultimately have f: "fl (of_int g) = of_int g" "\<not> 9007199254740991 < rat_of_int g"
    by simp_all
  have c: "ct_vconnContact r = 0 \<or> ct_vconnContact r = 1 \<or> ct_vconnContact r = 2"
      "ct_revision r = 1 \<or> ct_revision r = 2" "length (ct_body r) \<le> 28"
    using assms by (auto simp: consistent_result_def split: if_splits)
  have cv: "one_of [''0'', ''1'', ''2''] (js_String (ct_vconnContact r) 0)"
      "digits_value (js_String (ct_vconnContact r) 0) 0 = ct_vconnContact r"
      "one_of [''1'', ''2''] (js_String (ct_revision r) 0)" "digits_value (js_String (ct_revision r) 0) 0 = ct_revision r"
      "one_of [''0'', ''1''] (if ct_goodCRC r then ''1'' else ''0'')"
    using c by (auto simp: one_of_def small_texts)
  show ?thesis
    using assms c(3) f
    by (simp add: parseCableTestResult_def result_fields_def Let_def g_def [symmetric] t cv hex_body_bytes
        hex_pairs_bytes consistent_result_def mod_eq_0_iff_dvd split: if_splits)
qed

text \<open>The cable test reader returns consistent results, and all of them. A result comes out of some
  response exactly when it is consistent - an identity carries a whole number of words from five to
  seven and a proven orientation, any other outcome has an empty body - and then it comes out of its own
  six fields.\<close>

lemma parseCableTestResult_range:
  "((\<exists>vals. parseCableTestResult vals = Inr r) \<longleftrightarrow> consistent_result r) \<and>
   (parseCableTestResult (result_fields r) = Inr r \<longleftrightarrow> consistent_result r)"
  using parseCableTestResult_consistent parseCableTestResult_fields by blast

end
