(* ===== verification/Inquiry_Runner.thy ===== *)
theory Inquiry_Runner
  imports Drpd_Groups
begin

text \<open>
  \<open>features/rack/inquiries/runner.ts\<close>: one inquiry is validated, sent and polled until the device reports an
  outcome for it, and workflows run several of them. The client is a record of the operations of the sink
  group; the signal, the wait between two polls and the clock are part of its state. Every state the
  runner reports to \<open>onStateChange\<close> is listed in order; the last one is the result.
\<close>

section \<open>Clients, states and options\<close>

record 's SinkInquiryClient =
  ic_sendInquiryRequest :: "(SinkInquiryRequest \<Rightarrow> (unit, 's) device_io) option"
  ic_sendInquiry :: "(SinkInquiryType \<Rightarrow> (unit, 's) device_io) option"
  ic_getInquiryStatus :: "(SinkInquiryStatus, 's) device_io"
  ic_getInquiryResponse :: "(bytes, 's) device_io"

datatype run_error =
    Poll_interval_range
  | Max_polls_range
  | Client_cannot_send
  | Client_failure device_error
  | Response_length_mismatch int nat
  | Terminal_length_mismatch int nat
  | Polling_timed_out

datatype InquiryRunState =
    Run_idle
  | Run_validating SinkInquiryRequest
  | Run_sending SinkInquiryType
  | Run_waiting SinkInquiryType "int option"
  | Run_response SinkInquiryStatus bytes SinkInquiryRequest
  | Run_terminal SinkInquiryStatus "bytes option"
  | Run_superseded SinkInquiryType SinkInquiryStatus
  | Run_transportError SinkInquiryType run_error
  | Run_cancelled SinkInquiryType

record 's InquiryRunnerOptions =
  ro_pollIntervalMs :: "js_number option"
  ro_maxPolls :: "js_number option"
  ro_aborted :: "'s \<Rightarrow> bool"
  ro_wait :: "js_number \<Rightarrow> (unit, 's) device_io"

fun request_type :: "SinkInquiryRequest \<Rightarrow> SinkInquiryType" where
  "request_type (Request_plain typ plug) = typ"
| "request_type Request_manufacturer_port = Inquiry_GET_MANUFACTURER_INFO"
| "request_type (Request_manufacturer_plug p) = Inquiry_GET_MANUFACTURER_INFO"
| "request_type (Request_manufacturer_battery ref) = Inquiry_GET_MANUFACTURER_INFO"
| "request_type (Request_country code) = Inquiry_GET_COUNTRY_INFO"
| "request_type (Request_battery_cap ref) = Inquiry_GET_BATTERY_CAP"
| "request_type (Request_battery_status ref) = Inquiry_GET_BATTERY_STATUS"
| "request_type (Request_modes svid plug) = Inquiry_DISCOVER_MODES"
| "request_type (Request_certificate slot offset len) = Inquiry_GET_CERTIFICATE"
| "request_type (Request_challenge slot nonce) = Inquiry_CHALLENGE"

section \<open>Options\<close>

definition pollIntervalMs :: "'s InquiryRunnerOptions \<Rightarrow> js_number" where
  "pollIntervalMs options = (case ro_pollIntervalMs options of None \<Rightarrow> Decimal 50 0 | Some n \<Rightarrow> n)"

definition maxPolls :: "'s InquiryRunnerOptions \<Rightarrow> js_number" where
  "maxPolls options = (case ro_maxPolls options of None \<Rightarrow> Decimal 100 0 | Some n \<Rightarrow> n)"

fun number_between :: "js_number \<Rightarrow> int \<Rightarrow> int \<Rightarrow> bool" where
  "number_between (Decimal m d) lo hi \<longleftrightarrow> lo * 10 ^ d \<le> m \<and> m \<le> hi * 10 ^ d"
| "number_between NonFinite lo hi \<longleftrightarrow> False"

definition validateRunnerOptions :: "'s InquiryRunnerOptions \<Rightarrow> run_error option" where
  "validateRunnerOptions options =
     (if \<not> number_between (pollIntervalMs options) 0 60000 then Some Poll_interval_range
      else if \<not> integer_in (maxPolls options) 1 1000 then Some Max_polls_range
      else None)"

definition isTerminalOutcome :: "SinkInquiryOutcome \<Rightarrow> bool" where
  "isTerminalOutcome outcome \<longleftrightarrow> outcome \<noteq> Result_NONE \<and> outcome \<noteq> Result_PENDING"

section \<open>The poll loop\<close>

text \<open>What one status says about the request: it was not taken up yet, it is ours under an id, or another
  request has taken its place.\<close>

datatype correlation = Not_yet | Ours int | Superseded

definition correlate :: "SinkInquiryType \<Rightarrow> int \<Rightarrow> int option \<Rightarrow> SinkInquiryStatus \<Rightarrow> correlation" where
  "correlate typ baseline requestId status =
     (case requestId of
        None \<Rightarrow>
          if is_requestId status = baseline then Not_yet
          else if is_type status \<noteq> typ then Superseded
          else Ours (is_requestId status)
      | Some i \<Rightarrow> if is_requestId status \<noteq> i \<or> is_type status \<noteq> typ then Superseded else Ours i)"

text \<open>The outcome of a part of the runner: an exception or a result, the client's state, and the states
  reported so far.\<close>

type_synonym 's run_outcome = "(run_error + InquiryRunState) \<times> 's \<times> InquiryRunState list"

definition finish_run :: "InquiryRunState list \<Rightarrow> InquiryRunState \<Rightarrow> 's \<Rightarrow> 's run_outcome" where
  "finish_run reported state s = (Inr state, s, reported @ [state])"

text \<open>The answer to a status of our request that ends the polling.\<close>

definition collect_response ::
  "'s SinkInquiryClient \<Rightarrow> SinkInquiryRequest \<Rightarrow> SinkInquiryStatus \<Rightarrow> InquiryRunState list \<Rightarrow> 's \<Rightarrow> 's run_outcome" where
  "collect_response client request status reported s =
     (case ic_getInquiryResponse client s of
        (Inl e, s') \<Rightarrow> (Inl (Client_failure e), s', reported)
      | (Inr raw, s') \<Rightarrow>
          if int (length raw) \<noteq> is_responseLength status then
            (Inl (Response_length_mismatch (is_responseLength status) (length raw)), s', reported)
          else finish_run reported (Run_response status raw request) s')"

definition collect_terminal ::
  "'s SinkInquiryClient \<Rightarrow> SinkInquiryStatus \<Rightarrow> InquiryRunState list \<Rightarrow> 's \<Rightarrow> 's run_outcome" where
  "collect_terminal client status reported s =
     (if is_responseLength status > 0 then
        (case ic_getInquiryResponse client s of
           (Inl e, s') \<Rightarrow> (Inl (Client_failure e), s', reported)
         | (Inr raw, s') \<Rightarrow>
             if int (length raw) \<noteq> is_responseLength status then
               (Inl (Terminal_length_mismatch (is_responseLength status) (length raw)), s', reported)
             else finish_run reported (Run_terminal status (Some raw)) s')
      else finish_run reported (Run_terminal status None) s)"

fun poll_loop_inquiry ::
  "'s SinkInquiryClient \<Rightarrow> 's InquiryRunnerOptions \<Rightarrow> SinkInquiryRequest \<Rightarrow> int \<Rightarrow> nat \<Rightarrow> int option \<Rightarrow>
   InquiryRunState list \<Rightarrow> 's \<Rightarrow> 's run_outcome" where
  "poll_loop_inquiry client options request baseline 0 requestId reported s =
     (Inl Polling_timed_out, s, reported)"
| "poll_loop_inquiry client options request baseline (Suc polls) requestId reported s =
     (let typ = request_type request in
      if ro_aborted options s then finish_run reported (Run_cancelled typ) s
      else case ic_getInquiryStatus client s of
        (Inl e, s1) \<Rightarrow> (Inl (Client_failure e), s1, reported)
      | (Inr status, s1) \<Rightarrow>
          (case correlate typ baseline requestId status of
             Superseded \<Rightarrow> finish_run reported (Run_superseded typ status) s1
           | Not_yet \<Rightarrow>
               (case ro_wait options (pollIntervalMs options) s1 of
                  (Inl e, s2) \<Rightarrow> (Inl (Client_failure e), s2, reported @ [Run_waiting typ None, Run_waiting typ None])
                | (Inr u, s2) \<Rightarrow>
                    poll_loop_inquiry client options request baseline polls None
                      (reported @ [Run_waiting typ None, Run_waiting typ None]) s2)
           | Ours i \<Rightarrow>
               if is_outcome status = Result_RESPONSE then collect_response client request status reported s1
               else if isTerminalOutcome (is_outcome status) then collect_terminal client status reported s1
               else (case ro_wait options (pollIntervalMs options) s1 of
                  (Inl e, s2) \<Rightarrow> (Inl (Client_failure e), s2, reported @ [Run_waiting typ (Some i)])
                | (Inr u, s2) \<Rightarrow>
                    poll_loop_inquiry client options request baseline polls (Some i)
                      (reported @ [Run_waiting typ (Some i)]) s2)))"

section \<open>One inquiry\<close>

definition send_request ::
  "'s SinkInquiryClient \<Rightarrow> SinkInquiryRequest \<Rightarrow> 's \<Rightarrow> (run_error + unit) \<times> 's" where
  "send_request client request s =
     (case ic_sendInquiryRequest client of
        Some send \<Rightarrow> (case send request s of (Inl e, s') \<Rightarrow> (Inl (Client_failure e), s') | (Inr u, s') \<Rightarrow> (Inr u, s'))
      | None \<Rightarrow>
          (case ic_sendInquiry client of
             Some send \<Rightarrow>
               (case send (request_type request) s of
                  (Inl e, s') \<Rightarrow> (Inl (Client_failure e), s') | (Inr u, s') \<Rightarrow> (Inr u, s'))
           | None \<Rightarrow> (Inl Client_cannot_send, s)))"

definition try_inquiry ::
  "'s SinkInquiryClient \<Rightarrow> SinkInquiryRequest \<Rightarrow> 's InquiryRunnerOptions \<Rightarrow> 's \<Rightarrow> 's run_outcome" where
  "try_inquiry client request options s =
     (let typ = request_type request; reported = [Run_validating request] in
      case validateRunnerOptions options of
        Some e \<Rightarrow> (Inl e, s, reported)
      | None \<Rightarrow>
          (case ic_getInquiryStatus client s of
             (Inl e, s1) \<Rightarrow> (Inl (Client_failure e), s1, reported)
           | (Inr baseline, s1) \<Rightarrow>
               if ro_aborted options s1 then finish_run reported (Run_cancelled typ) s1
               else (case send_request client request s1 of
                  (Inl e, s2) \<Rightarrow> (Inl e, s2, reported @ [Run_sending typ])
                | (Inr u, s2) \<Rightarrow>
                    poll_loop_inquiry client options request (is_requestId baseline)
                      (nat (the (integer_value (maxPolls options)))) None (reported @ [Run_sending typ]) s2)))"

definition runSinkInquiryUnlocked ::
  "'s SinkInquiryClient \<Rightarrow> SinkInquiryRequest \<Rightarrow> 's InquiryRunnerOptions \<Rightarrow> 's \<Rightarrow>
   InquiryRunState \<times> 's \<times> InquiryRunState list" where
  "runSinkInquiryUnlocked client request options s =
     (case try_inquiry client request options s of
        (Inr state, s', reported) \<Rightarrow> (state, s', reported)
      | (Inl e, s', reported) \<Rightarrow>
          let state = (if ro_aborted options s' then Run_cancelled (request_type request)
                       else Run_transportError (request_type request) e)
          in (state, s', reported @ [state]))"

section \<open>Workflows\<close>

text \<open>\<open>runSinkInquiry\<close> holds the client's queue (the lock of theory \<open>Request_Lock\<close>) around one run; a workflow
  calls it for one step after the other.\<close>

record SerialInquiryWorkflowStep =
  sw_id :: string
  sw_request :: SinkInquiryRequest

record InquiryHistoryEntry =
  ih_stepId :: string
  ih_attempt :: nat
  ih_result :: InquiryRunState

datatype workflow_phase = Workflow_completed | Workflow_stopped

fun is_response :: "InquiryRunState \<Rightarrow> bool" where
  "is_response (Run_response status raw request) = True"
| "is_response _ = False"

fun runSerialInquiryWorkflow ::
  "'s SinkInquiryClient \<Rightarrow> SerialInquiryWorkflowStep list \<Rightarrow> 's InquiryRunnerOptions \<Rightarrow>
   InquiryHistoryEntry list \<Rightarrow> 's \<Rightarrow> workflow_phase \<times> InquiryHistoryEntry list \<times> 's" where
  "runSerialInquiryWorkflow client [] options history s = (Workflow_completed, history, s)"
| "runSerialInquiryWorkflow client (step # steps) options history s =
     (case runSinkInquiryUnlocked client (sw_request step) options s of (result, s', reported) \<Rightarrow>
        let history' = history @ [\<lparr>ih_stepId = sw_id step, ih_attempt = 1, ih_result = result\<rparr>]
        in if \<not> is_response result then (Workflow_stopped, history', s')
           else runSerialInquiryWorkflow client steps options history' s')"

datatype fan_out_error = Fan_out_limit_range | Fan_out_exceeds_limit int

definition expandBoundedFanOut ::
  "'a list \<Rightarrow> ('a \<Rightarrow> nat \<Rightarrow> SerialInquiryWorkflowStep) \<Rightarrow> js_number \<Rightarrow>
   fan_out_error + SerialInquiryWorkflowStep list" where
  "expandBoundedFanOut items buildStep maxItems =
     (if \<not> integer_in maxItems 1 256 then Inl Fan_out_limit_range
      else if int (length items) > the (integer_value maxItems) then
        Inl (Fan_out_exceeds_limit (the (integer_value maxItems)))
      else Inr (map (\<lambda>(item, index). buildStep item index) (zip items [0..<length items])))"

datatype GuidedWorkflowControl = Control_retry | Control_continue | Control_stop

record 's GuidedInquiryWorkflowOptions =
  gw_runner :: "'s InquiryRunnerOptions"
  gw_maxRetriesPerStep :: "js_number option"
  gw_decide :: "SerialInquiryWorkflowStep \<Rightarrow> InquiryRunState \<Rightarrow> InquiryHistoryEntry list \<Rightarrow> GuidedWorkflowControl"

text \<open>The attempts of one step: \<open>while (true)\<close> with the retries left.\<close>

fun guided_attempts ::
  "'s SinkInquiryClient \<Rightarrow> 's GuidedInquiryWorkflowOptions \<Rightarrow> SerialInquiryWorkflowStep \<Rightarrow> nat \<Rightarrow> nat \<Rightarrow>
   InquiryHistoryEntry list \<Rightarrow> 's \<Rightarrow> bool \<times> InquiryHistoryEntry list \<times> 's" where
  "guided_attempts client options step retries left history s =
     (case runSinkInquiryUnlocked client (sw_request step) (gw_runner options) s of (result, s', reported) \<Rightarrow>
        let history' = history @ [\<lparr>ih_stepId = sw_id step, ih_attempt = retries + 1, ih_result = result\<rparr>]
        in if is_response result then (True, history', s')
           else (case gw_decide options step result history' of
              Control_continue \<Rightarrow> (True, history', s')
            | Control_stop \<Rightarrow> (False, history', s')
            | Control_retry \<Rightarrow>
                (case left of
                   0 \<Rightarrow> (False, history', s')
                 | Suc left' \<Rightarrow> guided_attempts client options step (retries + 1) left' history' s')))"

declare guided_attempts.simps [simp del]

fun guided_steps ::
  "'s SinkInquiryClient \<Rightarrow> 's GuidedInquiryWorkflowOptions \<Rightarrow> nat \<Rightarrow> SerialInquiryWorkflowStep list \<Rightarrow>
   InquiryHistoryEntry list \<Rightarrow> 's \<Rightarrow> workflow_phase \<times> InquiryHistoryEntry list \<times> 's" where
  "guided_steps client options maxRetries [] history s = (Workflow_completed, history, s)"
| "guided_steps client options maxRetries (step # steps) history s =
     (case guided_attempts client options step 0 maxRetries history s of (go_on, history', s') \<Rightarrow>
        if go_on then guided_steps client options maxRetries steps history' s'
        else (Workflow_stopped, history', s'))"

text \<open>\<open>None\<close> is the exception for a retry count out of range.\<close>

definition runGuidedInquiryWorkflow ::
  "'s SinkInquiryClient \<Rightarrow> SerialInquiryWorkflowStep list \<Rightarrow> 's GuidedInquiryWorkflowOptions \<Rightarrow> 's \<Rightarrow>
   (workflow_phase \<times> InquiryHistoryEntry list \<times> 's) option" where
  "runGuidedInquiryWorkflow client steps options s =
     (let maxRetries = (case gw_maxRetriesPerStep options of None \<Rightarrow> Decimal 2 0 | Some n \<Rightarrow> n)
      in if \<not> integer_in maxRetries 0 10 then None
         else Some (guided_steps client options (nat (the (integer_value maxRetries))) steps [] s))"

text \<open>The sink group as a client.\<close>

definition sink_client :: "'s drpd_transport \<Rightarrow> 's SinkInquiryClient" where
  "sink_client t = \<lparr>ic_sendInquiryRequest = Some (Sink_sendInquiryRequest t),
     ic_sendInquiry = Some (Sink_sendInquiry t), ic_getInquiryStatus = Sink_getInquiryStatus t,
     ic_getInquiryResponse = Sink_getInquiryResponse t\<rparr>"

end
