(* ===== verification/Inquiry_Decode.thy ===== *)
theory Inquiry_Decode
  imports Inquiry_Runner Pd_Messages
begin

text \<open>
  \<open>features/rack/inquiries/decode.ts\<close>: the checks on the body of an inquiry's response and the object it is
  decoded to (the summary of the source is this object printed as JSON). Also the pages of Discover SVIDs
  and the follow-up requests that \<open>vdmWorkflow.ts\<close>, \<open>batteryWorkflow.ts\<close> and \<open>countryWorkflow.ts\<close> derive from a
  response.
\<close>

section \<open>Response types\<close>

record response_type_entry =
  rt_class :: int
  rt_type :: int

fun RESPONSE_TYPES :: "SinkInquiryType \<Rightarrow> response_type_entry" where
  "RESPONSE_TYPES Inquiry_GET_SOURCE_CAP = \<lparr>rt_class = 2, rt_type = 0x01\<rparr>"
| "RESPONSE_TYPES Inquiry_GET_SOURCE_CAP_EXTENDED = \<lparr>rt_class = 0, rt_type = 0x01\<rparr>"
| "RESPONSE_TYPES Inquiry_GET_STATUS = \<lparr>rt_class = 0, rt_type = 0x02\<rparr>"
| "RESPONSE_TYPES Inquiry_GET_SOURCE_INFO = \<lparr>rt_class = 2, rt_type = 0x0b\<rparr>"
| "RESPONSE_TYPES Inquiry_GET_PPS_STATUS = \<lparr>rt_class = 0, rt_type = 0x0c\<rparr>"
| "RESPONSE_TYPES Inquiry_GET_REVISION = \<lparr>rt_class = 2, rt_type = 0x0c\<rparr>"
| "RESPONSE_TYPES Inquiry_GET_MANUFACTURER_INFO = \<lparr>rt_class = 0, rt_type = 0x07\<rparr>"
| "RESPONSE_TYPES Inquiry_GET_COUNTRY_CODES = \<lparr>rt_class = 0, rt_type = 0x0e\<rparr>"
| "RESPONSE_TYPES Inquiry_GET_COUNTRY_INFO = \<lparr>rt_class = 0, rt_type = 0x0d\<rparr>"
| "RESPONSE_TYPES Inquiry_GET_BATTERY_CAP = \<lparr>rt_class = 0, rt_type = 0x05\<rparr>"
| "RESPONSE_TYPES Inquiry_GET_BATTERY_STATUS = \<lparr>rt_class = 2, rt_type = 0x05\<rparr>"
| "RESPONSE_TYPES Inquiry_DISCOVER_IDENTITY = \<lparr>rt_class = 2, rt_type = 0x0f\<rparr>"
| "RESPONSE_TYPES Inquiry_DISCOVER_SVIDS = \<lparr>rt_class = 2, rt_type = 0x0f\<rparr>"
| "RESPONSE_TYPES Inquiry_DISCOVER_MODES = \<lparr>rt_class = 2, rt_type = 0x0f\<rparr>"
| "RESPONSE_TYPES Inquiry_GET_DIGESTS = \<lparr>rt_class = 0, rt_type = 0x09\<rparr>"
| "RESPONSE_TYPES Inquiry_GET_CERTIFICATE = \<lparr>rt_class = 0, rt_type = 0x09\<rparr>"
| "RESPONSE_TYPES Inquiry_CHALLENGE = \<lparr>rt_class = 0, rt_type = 0x09\<rparr>"

datatype decode_error =
    Decode_error string
  | Unexpected_response_type int int response_type_entry
  | Object_size string
  | Country_echo string string
  | Reader_failure usbpd_error

section \<open>Decoded objects\<close>

datatype capacity_meaning = Battery_not_present | Capacity_unknown | Capacity_known

record decoded_cable_status =
  dcs_status :: ParsedSOPPrimeStatusDataBlock
  dcs_plug :: SinkInquiryCablePlug
  dcs_internalTemperatureC :: "int option"
  dcs_below2C :: bool
  dcs_thermalShutdown :: bool

record decoded_battery_cap =
  dbc_block :: ParsedBatteryCapabilitiesDataBlock
  dbc_batteryReference :: js_number
  dbc_invalidBatteryReference :: bool
  dbc_designCapacityMeaning :: capacity_meaning
  dbc_lastFullChargeCapacityMeaning :: capacity_meaning
  dbc_designCapacityWh :: "rat option"
  dbc_lastFullChargeCapacityWh :: "rat option"
  dbc_batteryPresent :: bool

record decoded_battery_status =
  dbs_object :: ParsedBatteryStatusDataObject
  dbs_batteryReference :: js_number
  dbs_presentCapacityMeaning :: capacity_meaning
  dbs_presentCapacityWh :: "rat option"
  dbs_chargeState :: string

record decoded_svids =
  dsv_rawVdos :: "int list"
  dsv_plug :: "SinkInquiryCablePlug option"
  dsv_orderedSvids :: "int list"
  dsv_svids :: "int list"
  dsv_terminated :: bool
  dsv_needsAnotherPage :: bool

datatype decoded_inquiry =
    Decoded_source_cap "ParsedPDO list"
  | Decoded_source_cap_extended ParsedSourceCapabilitiesExtendedDataBlock
  | Decoded_cable_status decoded_cable_status
  | Decoded_status ParsedSOPStatusDataBlock
  | Decoded_source_info ParsedSourceInfoDataObject
  | Decoded_pps_status ParsedPPSStatusDataBlock
  | Decoded_revision ParsedRevisionDataObject
  | Decoded_manufacturer_info ParsedManufacturerInfoDataBlock
  | Decoded_country_codes ParsedCountryCodesDataBlock
  | Decoded_country_info ParsedCountryInfoDataBlock
  | Decoded_battery_cap decoded_battery_cap
  | Decoded_battery_status decoded_battery_status
  | Decoded_identity ParsedVDMHeader "int list" "SinkInquiryCablePlug option" ParsedDiscoverIdentity
  | Decoded_svids ParsedVDMHeader decoded_svids
  | Decoded_modes ParsedVDMHeader "SinkInquiryCablePlug option" js_number "int list"
  | Decoded_undefined

section \<open>Field checks\<close>

definition isUpperAlpha :: "int \<Rightarrow> bool" where
  "isUpperAlpha b \<longleftrightarrow> 0x41 \<le> b \<and> b \<le> 0x5a"

definition read_or_fail :: "usbpd_error + 'a \<Rightarrow> decode_error + 'a" where
  "read_or_fail r = (case r of Inl e \<Rightarrow> Inl (Reader_failure e) | Inr x \<Rightarrow> Inr x)"

definition decode_words :: "bytes \<Rightarrow> decode_error + int list" where
  "decode_words body = read_or_fail (readDataObjects body 0 (int (length body div 4)))"

definition oneDataObject :: "bytes \<Rightarrow> string \<Rightarrow> decode_error + int" where
  "oneDataObject body name =
     (if length body \<noteq> 4 then Inl (Object_size name)
      else res_bind (read_or_fail (readDataObjects body 0 1)) (\<lambda>ws. Inr (ws ! 0)))"

definition number_is :: "js_number \<Rightarrow> int \<Rightarrow> bool" where
  "number_is n i \<longleftrightarrow> integer_value n = Some i"

definition capacity_meaning :: "int \<Rightarrow> capacity_meaning" where
  "capacity_meaning c =
     (if c = 0 then Battery_not_present else if c = 0xffff then Capacity_unknown else Capacity_known)"

definition capacity_Wh :: "int \<Rightarrow> rat option" where
  "capacity_Wh c = (if c = 0 \<or> c = 0xffff then None else Some (fl (of_int c / 10)))"

text \<open>\<open>[...new Set(xs)]\<close> keeps the first occurrences, in order.\<close>

definition first_occurrences :: "'a list \<Rightarrow> 'a list" where
  "first_occurrences xs = rev (remdups (rev xs))"

text \<open>The SVIDs of a page, in order, with whether the zero terminator was seen.\<close>

definition svid_pairs :: "int list \<Rightarrow> int list" where
  "svid_pairs rawVdos = concat (map (\<lambda>raw. [svv_svid1 (parseSVIDsVDO raw), svv_svid0 (parseSVIDsVDO raw)]) rawVdos)"

fun scan_svids :: "int list \<Rightarrow> int list \<Rightarrow> bool \<Rightarrow> decode_error + int list \<times> bool" where
  "scan_svids [] ordered terminated = Inr (ordered, terminated)"
| "scan_svids (svid # svids) ordered terminated =
     (if svid = 0 then scan_svids svids ordered True
      else if terminated then
        Inl (Decode_error ''Discover SVIDs contains a nonzero SVID after its zero terminator'')
      else scan_svids svids (ordered @ [svid]) terminated)"

section \<open>The decoder\<close>

definition decode_status :: "bytes \<Rightarrow> SinkInquiryRequest option \<Rightarrow> decode_error + decoded_inquiry" where
  "decode_status rawBody request =
     (case request of
        Some (Request_plain Inquiry_GET_STATUS (Some plug)) \<Rightarrow>
          if length rawBody \<noteq> 2 then Inl (Decode_error ''Cable Status body must contain exactly 2 bytes'')
          else if js_and (byte_at rawBody 1) 0xfe \<noteq> 0 then
            Inl (Decode_error ''Cable Status reserved flag bits must be zero'')
          else let cableStatus = parseSOPPrimeStatusDataBlock rawBody; raw = spst_internalTemp cableStatus in
            Inr (Decoded_cable_status
              \<lparr>dcs_status = cableStatus, dcs_plug = plug,
               dcs_internalTemperatureC = (if raw \<ge> 2 then Some raw else None), dcs_below2C = (raw = 1),
               dcs_thermalShutdown = (js_and (spst_flags cableStatus) 0x01 \<noteq> 0)\<rparr>)
      | _ \<Rightarrow>
          if length rawBody \<noteq> 6 \<and> length rawBody \<noteq> 7 then
            Inl (Decode_error ''Status body must contain exactly 6 or 7 bytes'')
          else Inr (Decoded_status (parseSOPStatusDataBlock rawBody)))"

definition decode_manufacturer_info :: "bytes \<Rightarrow> decode_error + decoded_inquiry" where
  "decode_manufacturer_info rawBody =
     (if length rawBody < 5 \<or> length rawBody > 26 then
        Inl (Decode_error ''Manufacturer_Info body must contain 5 to 26 bytes'')
      else let text_bytes = drop 4 rawBody; text_end = takeWhile (\<lambda>b. b \<noteq> 0) text_bytes in
        if length text_end < length text_bytes \<and> length text_end \<noteq> length text_bytes - 1 then
          Inl (Decode_error ''Manufacturer_Info string must not contain bytes after its null terminator'')
        else if \<exists>b \<in> set text_end. uint b < 0x20 \<or> uint b > 0x7e then
          Inl (Decode_error ''Manufacturer_Info string must be printable ASCII'')
        else res_bind (read_or_fail (parseManufacturerInfoDataBlock rawBody)) (\<lambda>b. Inr (Decoded_manufacturer_info b)))"

definition country_codes_malformed :: "bytes \<Rightarrow> bool" where
  "country_codes_malformed body \<longleftrightarrow>
     length body < 4 \<or> length body > 26 \<or> byte_at body 0 < 1 \<or> byte_at body 0 > 12 \<or>
     byte_at body 1 \<noteq> 0 \<or> int (length body) \<noteq> 2 + byte_at body 0 * 2"

definition decode_country_codes :: "bytes \<Rightarrow> decode_error + decoded_inquiry" where
  "decode_country_codes rawBody =
     (if country_codes_malformed rawBody then
        Inl (Decode_error ''Country_Codes count/reserved/length fields are malformed'')
      else if \<exists>b \<in> set (drop 2 rawBody). \<not> isUpperAlpha (uint b) then
        Inl (Decode_error ''Country_Codes entries must be uppercase ASCII alpha-2'')
      else Inr (Decoded_country_codes (parseCountryCodesDataBlock rawBody)))"

definition decode_country_info :: "bytes \<Rightarrow> SinkInquiryRequest option \<Rightarrow> decode_error + decoded_inquiry" where
  "decode_country_info rawBody request =
     (if length rawBody < 4 \<or> length rawBody > 26 \<or> byte_at rawBody 2 \<noteq> 0 \<or> byte_at rawBody 3 \<noteq> 0 \<or>
         \<not> isUpperAlpha (byte_at rawBody 0) \<or> \<not> isUpperAlpha (byte_at rawBody 1) then
        Inl (Decode_error ''Country_Info code or reserved bytes are malformed'')
      else (case request of
         Some (Request_country countryCode) \<Rightarrow>
           let echoedCode = [char_of (nat (byte_at rawBody 0)), char_of (nat (byte_at rawBody 1))] in
           if echoedCode \<noteq> countryCode then Inl (Country_echo echoedCode countryCode)
           else Inr (Decoded_country_info (parseCountryInfoDataBlock rawBody))
       | _ \<Rightarrow> Inl (Decode_error ''Country_Info decoding requires its semantic request'')))"

definition decode_battery_cap :: "bytes \<Rightarrow> SinkInquiryRequest option \<Rightarrow> decode_error + decoded_inquiry" where
  "decode_battery_cap rawBody request =
     (if length rawBody \<noteq> 9 then Inl (Decode_error ''Battery_Capabilities response must contain exactly 9 bytes'')
      else (case request of
         Some (Request_battery_cap batteryReference) \<Rightarrow>
           if js_and (byte_at rawBody 8) 0xfe \<noteq> 0 then
             Inl (Decode_error ''Battery_Capabilities reserved bits must be zero'')
           else res_bind (read_or_fail (parseBatteryCapabilitiesDataBlock rawBody)) (\<lambda>block.
             let invalid = (js_and (bcap_batteryType block) 0x01 \<noteq> 0) in
             Inr (Decoded_battery_cap
               \<lparr>dbc_block = block, dbc_batteryReference = batteryReference, dbc_invalidBatteryReference = invalid,
                dbc_designCapacityMeaning = capacity_meaning (bcap_batteryDesignCapacity block),
                dbc_lastFullChargeCapacityMeaning = capacity_meaning (bcap_batteryLastFullChargeCapacity block),
                dbc_designCapacityWh = capacity_Wh (bcap_batteryDesignCapacity block),
                dbc_lastFullChargeCapacityWh = capacity_Wh (bcap_batteryLastFullChargeCapacity block),
                dbc_batteryPresent = (\<not> invalid \<and> bcap_batteryDesignCapacity block \<noteq> 0)\<rparr>))
       | _ \<Rightarrow> Inl (Decode_error ''Battery_Capabilities decoding requires its semantic request'')))"

definition decode_battery_status :: "bytes \<Rightarrow> SinkInquiryRequest option \<Rightarrow> decode_error + decoded_inquiry" where
  "decode_battery_status rawBody request =
     (case request of
        Some (Request_battery_status batteryReference) \<Rightarrow>
          res_bind (oneDataObject rawBody ''Battery_Status'') (\<lambda>word.
            let block = parseBatteryStatusDataObject word; capacity = bs_batteryPresentCapacity block in
            if js_and (bs_raw block) 0x0000f0ff \<noteq> 0 then
              Inl (Decode_error ''Battery_Status reserved bits must be zero'')
            else if bs_batteryChargingStatus block = 3 then
              Inl (Decode_error ''Battery_Status charge state is reserved'')
            else Inr (Decoded_battery_status
              \<lparr>dbs_object = block, dbs_batteryReference = batteryReference,
               dbs_presentCapacityMeaning =
                 (if capacity = 0xffff then Capacity_unknown
                  else if \<not> bs_batteryPresent block then Battery_not_present else Capacity_known),
               dbs_presentCapacityWh =
                 (if capacity = 0xffff \<or> \<not> bs_batteryPresent block then None else Some (fl (of_int capacity / 10))),
               dbs_chargeState =
                 [''charging'', ''discharging'', ''idle'', ''reserved''] ! nat (bs_batteryChargingStatus block)\<rparr>))
      | _ \<Rightarrow> Inl (Decode_error ''Battery_Status decoding requires its semantic request''))"

text \<open>The plug of a request, when the request is of the type asked about.\<close>

definition request_plug_of :: "SinkInquiryType \<Rightarrow> SinkInquiryRequest option \<Rightarrow> SinkInquiryCablePlug option" where
  "request_plug_of typ request =
     (case request of Some (Request_plain typ' plug) \<Rightarrow> if typ' = typ then plug else None | _ \<Rightarrow> None)"

definition plug_kind :: "SinkInquiryCablePlug option \<Rightarrow> SOPKind" where
  "plug_kind plug =
     (case plug of Some Plug_SOP_DOUBLE_PRIME \<Rightarrow> K_SOP_DOUBLE_PRIME | Some Plug_SOP_PRIME \<Rightarrow> K_SOP_PRIME | None \<Rightarrow> K_SOP)"

text \<open>The ACK header has to answer the request: structured, acknowledged, the command and the SVID asked for.\<close>

definition vdm_correlates :: "ParsedVDMHeader \<Rightarrow> SinkInquiryType \<Rightarrow> SinkInquiryRequest option \<Rightarrow> bool" where
  "vdm_correlates header typ request \<longleftrightarrow>
     vh_vdmType header = STRUCTURED \<and> vh_commandTypeName header = Some ''ACK'' \<and>
     vh_command header = Some (if typ = Inquiry_DISCOVER_IDENTITY then 1 else if typ = Inquiry_DISCOVER_SVIDS then 2 else 3) \<and>
     (case request of
        Some (Request_modes svid plug) \<Rightarrow>
          if typ = Inquiry_DISCOVER_MODES then number_is svid (vh_svid header) else vh_svid header = 0xff00
      | _ \<Rightarrow> vh_svid header = 0xff00) \<and>
     vh_objectPosition header = Some 0"

definition version_supported :: "int option \<Rightarrow> bool" where
  "version_supported v \<longleftrightarrow> (case v of None \<Rightarrow> 3 | Some n \<Rightarrow> n) \<le> 1"

definition decode_vdm :: "SinkInquiryType \<Rightarrow> bytes \<Rightarrow> SinkInquiryRequest option \<Rightarrow> decode_error + decoded_inquiry" where
  "decode_vdm typ rawBody request =
     (if length rawBody < 4 \<or> length rawBody > 28 \<or> length rawBody mod 4 \<noteq> 0 then
        Inl (Decode_error ''Structured VDM body must contain 1 to 7 VDOs'')
      else if length rawBody < (if typ = Inquiry_DISCOVER_IDENTITY then 16 else 8) then
        Inl (Decode_error (if typ = Inquiry_DISCOVER_IDENTITY then ''Discover Identity ACK body must contain 16 to 28 bytes''
          else if typ = Inquiry_DISCOVER_SVIDS then ''Discover SVIDs ACK body must contain 8 to 28 bytes''
          else ''Discover Modes ACK body must contain 8 to 28 bytes''))
      else res_bind (decode_words rawBody) (\<lambda>words.
        let header = parseVDMHeader (words ! 0); rawVdos = drop 1 words in
        if \<not> vdm_correlates header typ request then
          Inl (Decode_error ''Structured VDM ACK header does not correlate with request'')
        else if js_and (words ! 0) 32 \<noteq> 0 then
          Inl (Decode_error ''Structured VDM reserved bit 5 must be zero'')
        else if \<not> version_supported (vh_structuredVersionMajor header) \<or>
                \<not> version_supported (vh_structuredVersionMinor header) then
          Inl (Decode_error ''Unsupported Structured VDM version'')
        else if typ = Inquiry_DISCOVER_IDENTITY then
          (if length rawVdos < 3 then
             Inl (Decode_error ''Discover Identity ACK requires ID Header, Cert Stat, and Product VDOs'')
           else let plug = request_plug_of Inquiry_DISCOVER_IDENTITY request in
             Inr (Decoded_identity header rawVdos plug (parseDiscoverIdentityVDOs rawVdos (plug_kind plug))))
        else if typ = Inquiry_DISCOVER_SVIDS then
          res_bind (scan_svids (svid_pairs rawVdos) [] False) (\<lambda>(ordered, terminated).
            Inr (Decoded_svids header
              \<lparr>dsv_rawVdos = rawVdos, dsv_plug = request_plug_of Inquiry_DISCOVER_SVIDS request,
               dsv_orderedSvids = ordered, dsv_svids = first_occurrences ordered, dsv_terminated = terminated,
               dsv_needsAnotherPage = (length ordered = 12 \<and> \<not> terminated)\<rparr>))
        else (case request of
            Some (Request_modes svid plug) \<Rightarrow> Inr (Decoded_modes header plug svid rawVdos)
          | _ \<Rightarrow> Inl (Decode_error ''Discover Modes decoding requires selected SVID request''))))"

definition decodeInquiryResponse ::
  "SinkInquiryStatus \<Rightarrow> bytes \<Rightarrow> SinkInquiryRequest option \<Rightarrow> decode_error + decoded_inquiry" where
  "decodeInquiryResponse status rawBody request =
     (let expected = RESPONSE_TYPES (is_type status) in
      if is_responseLength status \<noteq> int (length rawBody) then
        Inl (Decode_error ''Response length does not match body'')
      else if is_responseClass status \<noteq> rt_class expected \<or> is_responseType status \<noteq> rt_type expected then
        Inl (Unexpected_response_type (is_responseClass status) (is_responseType status) expected)
      else (case is_type status of
        Inquiry_GET_SOURCE_CAP \<Rightarrow>
          if length rawBody < 4 \<or> length rawBody > 28 \<or> length rawBody mod 4 \<noteq> 0 then
            Inl (Decode_error ''Source_Capabilities body must contain 1 to 7 PDOs'')
          else res_bind (decode_words rawBody) (\<lambda>words. Inr (Decoded_source_cap (map (\<lambda>pdo. parsePDO pdo CSource) words)))
      | Inquiry_GET_SOURCE_CAP_EXTENDED \<Rightarrow>
          if length rawBody \<noteq> 24 \<and> length rawBody \<noteq> 25 then
            Inl (Decode_error ''Source_Capabilities_Extended body must contain exactly 24 or 25 bytes'')
          else res_bind (read_or_fail (parseSourceCapabilitiesExtendedDataBlock rawBody)) (\<lambda>b. Inr (Decoded_source_cap_extended b))
      | Inquiry_GET_STATUS \<Rightarrow> decode_status rawBody request
      | Inquiry_GET_SOURCE_INFO \<Rightarrow>
          res_bind (oneDataObject rawBody ''Source_Info'') (\<lambda>w. Inr (Decoded_source_info (parseSourceInfoDataObject w)))
      | Inquiry_GET_PPS_STATUS \<Rightarrow>
          if length rawBody \<noteq> 4 then Inl (Decode_error ''PPS_Status response must contain exactly 4 bytes'')
          else res_bind (read_or_fail (parsePPSStatusDataBlock rawBody)) (\<lambda>b. Inr (Decoded_pps_status b))
      | Inquiry_GET_REVISION \<Rightarrow>
          res_bind (oneDataObject rawBody ''Revision'') (\<lambda>w. Inr (Decoded_revision (parseRevisionDataObject w)))
      | Inquiry_GET_MANUFACTURER_INFO \<Rightarrow> decode_manufacturer_info rawBody
      | Inquiry_GET_COUNTRY_CODES \<Rightarrow> decode_country_codes rawBody
      | Inquiry_GET_COUNTRY_INFO \<Rightarrow> decode_country_info rawBody request
      | Inquiry_GET_BATTERY_CAP \<Rightarrow> decode_battery_cap rawBody request
      | Inquiry_GET_BATTERY_STATUS \<Rightarrow> decode_battery_status rawBody request
      | Inquiry_DISCOVER_IDENTITY \<Rightarrow> decode_vdm Inquiry_DISCOVER_IDENTITY rawBody request
      | Inquiry_DISCOVER_SVIDS \<Rightarrow> decode_vdm Inquiry_DISCOVER_SVIDS rawBody request
      | Inquiry_DISCOVER_MODES \<Rightarrow> decode_vdm Inquiry_DISCOVER_MODES rawBody request
      | Inquiry_GET_DIGESTS \<Rightarrow> Inr Decoded_undefined
      | Inquiry_GET_CERTIFICATE \<Rightarrow> Inr Decoded_undefined
      | Inquiry_CHALLENGE \<Rightarrow> Inr Decoded_undefined))"

section \<open>Follow-up requests\<close>

definition parseDiscoverSvidPage :: "bytes \<Rightarrow> decode_error + int list \<times> bool" where
  "parseDiscoverSvidPage body =
     (if length body < 4 \<or> length body > 28 \<or> length body mod 4 \<noteq> 0 then
        Inl (Decode_error ''Discover SVIDs body must contain 1 to 7 VDOs'')
      else res_bind (decode_words body) (\<lambda>words.
        res_bind (scan_svids (svid_pairs (drop 1 words)) [] False) (\<lambda>(ordered, isComplete).
          Inr (ordered, isComplete \<or> length ordered < 12))))"

fun deduplicate_loop :: "int list \<Rightarrow> int list \<Rightarrow> decode_error + int list" where
  "deduplicate_loop result [] = Inr result"
| "deduplicate_loop result (svid # svids) =
     (if svid < 1 \<or> svid > 0xffff then Inl (Decode_error ''SVID must be an integer from 1 to 65535'')
      else if svid \<in> set result then deduplicate_loop result svids
      else deduplicate_loop (result @ [svid]) svids)"

definition deduplicateOrderedSvids :: "int list list \<Rightarrow> decode_error + int list" where
  "deduplicateOrderedSvids pages = deduplicate_loop [] (concat pages)"

definition hex_lower :: "int \<Rightarrow> char" where
  "hex_lower n = ''0123456789abcdef'' ! nat n"

definition hex4_lower :: "int \<Rightarrow> string" where
  "hex4_lower n = [hex_lower (n div 4096 mod 16), hex_lower (n div 256 mod 16), hex_lower (n div 16 mod 16), hex_lower (n mod 16)]"

definition buildDiscoverModesSteps ::
  "int list \<Rightarrow> SinkInquiryCablePlug option \<Rightarrow> decode_error + SerialInquiryWorkflowStep list" where
  "buildDiscoverModesSteps svids plug =
     res_bind (deduplicateOrderedSvids [svids]) (\<lambda>unique.
       if length unique > 12 then Inl (Decode_error ''Discover Modes fan-out exceeds limit of 12'')
       else Inr (map (\<lambda>svid. \<lparr>sw_id = ''discover-modes-'' @ hex4_lower svid,
              sw_request = Request_modes (Decimal svid 0) plug\<rparr>) unique))"

definition canRetryVdmSurveyStep :: "int \<Rightarrow> bool \<Rightarrow> int \<Rightarrow> bool" where
  "canRetryVdmSurveyStep attempts nonRetryable maxRetries \<longleftrightarrow> \<not> nonRetryable \<and> attempts \<le> maxRetries"

definition batteryReferencesFromScedb :: "bytes \<Rightarrow> decode_error + int list" where
  "batteryReferencesFromScedb body =
     (if length body \<noteq> 24 \<and> length body \<noteq> 25 then Inl (Decode_error ''SCEDB must contain exactly 24 or 25 bytes'')
      else res_bind (read_or_fail (parseSourceCapabilitiesExtendedDataBlock body)) (\<lambda>block.
        if sce_fixedBatteries block > 4 \<or> sce_hotSwappableBatterySlots block > 4 then
          Inl (Decode_error ''SCEDB battery counts exceed protocol bounds'')
        else Inr (map int [0..<nat (sce_fixedBatteries block)] @
                  map (\<lambda>index. int index + 4) [0..<nat (sce_hotSwappableBatterySlots block)])))"

definition alpha2 :: "string \<Rightarrow> bool" where
  "alpha2 code \<longleftrightarrow> length code = 2 \<and> (\<forall>c \<in> set code. isUpperAlpha (int (of_char c)))"

definition buildCountryInfoSteps ::
  "bytes \<Rightarrow> string option \<Rightarrow> decode_error + SerialInquiryWorkflowStep list" where
  "buildCountryInfoSteps body selectedCountryCode =
     (if country_codes_malformed body then
        Inl (Decode_error ''Country_Codes count/reserved/length fields are malformed'')
      else let codes = ccs_countryCodes (parseCountryCodesDataBlock body) in
        if \<exists>code \<in> set codes. \<not> alpha2 code then
          Inl (Decode_error ''Country_Codes entries must be uppercase ASCII alpha-2'')
        else let selected = (case selectedCountryCode of None \<Rightarrow> codes | Some s \<Rightarrow> filter (\<lambda>code. code = s) codes) in
          if selectedCountryCode \<noteq> None \<and> selected = [] then
            Inl (Country_echo (the selectedCountryCode) ''was not advertised by the Source'')
          else (case expandBoundedFanOut selected
                 (\<lambda>countryCode index. \<lparr>sw_id = ''country-info-'' @ countryCode, sw_request = Request_country countryCode\<rparr>)
                 (Decimal 12 0) of
              Inl e \<Rightarrow> Inl (Decode_error ''Guided inquiry fan-out exceeds its limit'')
            | Inr steps \<Rightarrow> Inr steps))"

end
