(* ===== verification/Inquiry_Surveys.thy ===== *)
theory Inquiry_Surveys
  imports Inquiry_Decode
begin

text \<open>
  The surveys of \<open>batteryWorkflow.ts\<close>, \<open>manufacturerWorkflow.ts\<close>, \<open>countryWorkflow.ts\<close> and \<open>vdmWorkflow.ts\<close>: one
  discovery request, then one request for each item the device advertises. A survey runs its requests
  through \<open>run\<close>, a parameter on its own state. The display text and the event sections of the source are
  functions of what is kept here: the answer to every request, in order.
\<close>

section \<open>Answers\<close>

datatype survey_answer =
    Answer_failed InquiryRunState
  | Answer_malformed decode_error bytes
  | Answer_decoded decoded_inquiry bytes

type_synonym 's inquiry_runner = "SinkInquiryRequest \<Rightarrow> 's \<Rightarrow> InquiryRunState \<times> 's"

text \<open>How a survey classifies the result of a run: the failure, the decoding error, or the decoded body.\<close>

definition survey_answer :: "InquiryRunState \<Rightarrow> survey_answer" where
  "survey_answer result =
     (case result of
        Run_response status raw request \<Rightarrow>
          (case decodeInquiryResponse status raw (Some request) of
             Inl e \<Rightarrow> Answer_malformed e raw | Inr d \<Rightarrow> Answer_decoded d raw)
      | _ \<Rightarrow> Answer_failed result)"

text \<open>A check that the survey makes on a decoded body itself.\<close>

definition check_answer :: "(bytes \<Rightarrow> decode_error + 'a) \<Rightarrow> survey_answer \<Rightarrow> survey_answer" where
  "check_answer check answer =
     (case answer of
        Answer_decoded d raw \<Rightarrow> (case check raw of Inl e \<Rightarrow> Answer_malformed e raw | Inr x \<Rightarrow> answer)
      | _ \<Rightarrow> answer)"

fun ask_each ::
  "'s inquiry_runner \<Rightarrow> ('a \<Rightarrow> SinkInquiryRequest) \<Rightarrow> ('a \<Rightarrow> survey_answer \<Rightarrow> survey_answer) \<Rightarrow> 'a list \<Rightarrow> 's \<Rightarrow>
   ('a \<times> survey_answer) list \<times> 's" where
  "ask_each run request check [] s = ([], s)"
| "ask_each run request check (item # items) s =
     (case run (request item) s of (result, s1) \<Rightarrow>
       (case ask_each run request check items s1 of (answers, s2) \<Rightarrow>
          ((item, check item (survey_answer result)) # answers, s2)))"

record 'a survey_result =
  sv_discovery :: survey_answer
  sv_items :: "'a list"
  sv_answers :: "('a \<times> survey_answer) list"

text \<open>The surveys with one discovery request: the items come out of the discovery's body.\<close>

definition survey_with ::
  "'s inquiry_runner \<Rightarrow> SinkInquiryRequest \<Rightarrow> (bytes \<Rightarrow> decode_error + 'a list) \<Rightarrow> ('a \<Rightarrow> SinkInquiryRequest) \<Rightarrow>
   ('a \<Rightarrow> survey_answer \<Rightarrow> survey_answer) \<Rightarrow> 's \<Rightarrow> 'a survey_result \<times> 's" where
  "survey_with run discover items request check s =
     (case run discover s of (result, s1) \<Rightarrow>
       (case survey_answer result of
          Answer_decoded d raw \<Rightarrow>
            (case items raw of
               Inl e \<Rightarrow> (\<lparr>sv_discovery = Answer_malformed e raw, sv_items = [], sv_answers = []\<rparr>, s1)
             | Inr found \<Rightarrow>
                 (case ask_each run request check found s1 of (answers, s2) \<Rightarrow>
                    (\<lparr>sv_discovery = Answer_decoded d raw, sv_items = found, sv_answers = answers\<rparr>, s2)))
        | answer \<Rightarrow> (\<lparr>sv_discovery = answer, sv_items = [], sv_answers = []\<rparr>, s1)))"

section \<open>Batteries and countries\<close>

definition no_check :: "'a \<Rightarrow> survey_answer \<Rightarrow> survey_answer" where
  "no_check item answer = answer"

definition surveyBatteryCapabilities :: "'s inquiry_runner \<Rightarrow> 's \<Rightarrow> int survey_result \<times> 's" where
  "surveyBatteryCapabilities run =
     survey_with run (Request_plain Inquiry_GET_SOURCE_CAP_EXTENDED None) batteryReferencesFromScedb
       (\<lambda>batteryReference. Request_battery_cap (Decimal batteryReference 0)) no_check"

definition surveyBatteryStatus :: "'s inquiry_runner \<Rightarrow> 's \<Rightarrow> int survey_result \<times> 's" where
  "surveyBatteryStatus run =
     survey_with run (Request_plain Inquiry_GET_SOURCE_CAP_EXTENDED None) batteryReferencesFromScedb
       (\<lambda>batteryReference. Request_battery_status (Decimal batteryReference 0)) no_check"

definition surveyBatteryManufacturerIdentity :: "'s inquiry_runner \<Rightarrow> 's \<Rightarrow> int survey_result \<times> 's" where
  "surveyBatteryManufacturerIdentity run =
     survey_with run (Request_plain Inquiry_GET_SOURCE_CAP_EXTENDED None) batteryReferencesFromScedb
       (\<lambda>batteryReference. Request_manufacturer_battery (Decimal batteryReference 0)) no_check"

definition advertised_countries :: "bytes \<Rightarrow> decode_error + string list" where
  "advertised_countries body =
     res_bind (buildCountryInfoSteps body None) (\<lambda>steps. Inr (ccs_countryCodes (parseCountryCodesDataBlock body)))"

definition country_echo :: "string \<Rightarrow> survey_answer \<Rightarrow> survey_answer" where
  "country_echo countryCode =
     check_answer (\<lambda>raw. let info = parseCountryInfoDataBlock raw in
       if ci_countryCode info \<noteq> Some countryCode then
         Inl (Country_echo (case ci_countryCode info of None \<Rightarrow> ''no code'' | Some c \<Rightarrow> c) countryCode)
       else Inr ())"

definition surveyCountryInformation :: "'s inquiry_runner \<Rightarrow> 's \<Rightarrow> string survey_result \<times> 's" where
  "surveyCountryInformation run =
     survey_with run (Request_plain Inquiry_GET_COUNTRY_CODES None) advertised_countries Request_country country_echo"

section \<open>Port partner and cable\<close>

definition surveySinglePortPartnerModes ::
  "'s inquiry_runner \<Rightarrow> int \<Rightarrow> SinkInquiryCablePlug option \<Rightarrow> 's \<Rightarrow> survey_answer \<times> 's" where
  "surveySinglePortPartnerModes run svid plug s =
     (case run (Request_modes (Decimal svid 0) plug) s of (result, s') \<Rightarrow> (survey_answer result, s'))"

definition surveyPortPartnerIdentity ::
  "'s inquiry_runner \<Rightarrow> SinkInquiryCablePlug option \<Rightarrow> 's \<Rightarrow> survey_answer \<times> 's" where
  "surveyPortPartnerIdentity run plug s =
     (case run (Request_plain Inquiry_DISCOVER_IDENTITY plug) s of (result, s') \<Rightarrow> (survey_answer result, s'))"

text \<open>The pages of Discover SVIDs: at most eight requests, up to the first page that is complete or fails.\<close>

datatype svid_discovery = Discovery_complete nat | Discovery_stopped nat survey_answer | Discovery_bound

fun svid_pages ::
  "'s inquiry_runner \<Rightarrow> SinkInquiryCablePlug option \<Rightarrow> nat \<Rightarrow> nat \<Rightarrow> int list list \<Rightarrow> survey_answer list \<Rightarrow> 's \<Rightarrow>
   svid_discovery \<times> int list list \<times> survey_answer list \<times> 's" where
  "svid_pages run plug pageIndex 0 pages answers s = (Discovery_bound, pages, answers, s)"
| "svid_pages run plug pageIndex (Suc left) pages answers s =
     (case run (Request_plain Inquiry_DISCOVER_SVIDS plug) s of (result, s') \<Rightarrow>
       let answer = check_answer parseDiscoverSvidPage (survey_answer result) in
       case answer of
         Answer_decoded d raw \<Rightarrow>
           (case parseDiscoverSvidPage raw of
              Inr (ordered, isComplete) \<Rightarrow>
                if isComplete then (Discovery_complete (pageIndex + 1), pages @ [ordered], answers @ [answer], s')
                else svid_pages run plug (pageIndex + 1) left (pages @ [ordered]) (answers @ [answer]) s'
            | Inl e \<Rightarrow> (Discovery_stopped (pageIndex + 1) answer, pages, answers @ [answer], s'))
       | _ \<Rightarrow> (Discovery_stopped (pageIndex + 1) answer, pages, answers @ [answer], s'))"

definition page_of_svid :: "int list list \<Rightarrow> int \<Rightarrow> nat option" where
  "page_of_svid pages svid =
     map_of (concat (map (\<lambda>(index, page). map (\<lambda>svid. (svid, index + 1)) page) (zip [0..<length pages] pages))) svid"

definition surveyPortPartnerSvids ::
  "'s inquiry_runner \<Rightarrow> SinkInquiryCablePlug option \<Rightarrow> 's \<Rightarrow>
   (decode_error + svid_discovery \<times> int list \<times> (int \<Rightarrow> nat option) \<times> survey_answer list) \<times> 's" where
  "surveyPortPartnerSvids run plug s =
     (case svid_pages run plug 0 8 [] [] s of (ending, pages, answers, s') \<Rightarrow>
        (res_bind (deduplicateOrderedSvids pages) (\<lambda>discovered.
           Inr (ending, discovered, page_of_svid pages, answers)), s'))"

definition surveyPortPartnerModes ::
  "'s inquiry_runner \<Rightarrow> SinkInquiryCablePlug option \<Rightarrow> 's \<Rightarrow>
   (decode_error + svid_discovery \<times> survey_answer list \<times> (int \<times> survey_answer) list) \<times> 's" where
  "surveyPortPartnerModes run plug s =
     (case svid_pages run plug 0 8 [] [] s of (ending, pages, pageAnswers, s1) \<Rightarrow>
        (case deduplicateOrderedSvids pages of
           Inl e \<Rightarrow> (Inl e, s1)
         | Inr svids \<Rightarrow>
             (case ask_each run (\<lambda>svid. Request_modes (Decimal svid 0) plug) no_check svids s1 of (answers, s2) \<Rightarrow>
                (Inr (ending, pageAnswers, answers), s2))))"

text \<open>A client as a runner, with the default options.\<close>

definition default_options :: "('s \<Rightarrow> 's) \<Rightarrow> 's InquiryRunnerOptions" where
  "default_options wait = \<lparr>ro_pollIntervalMs = None, ro_maxPolls = None, ro_aborted = (\<lambda>s. False),
     ro_wait = (\<lambda>n s. (Inr (), wait s))\<rparr>"

definition client_runner :: "'s SinkInquiryClient \<Rightarrow> ('s \<Rightarrow> 's) \<Rightarrow> 's inquiry_runner" where
  "client_runner client wait request s =
     (case runSinkInquiryUnlocked client request (default_options wait) s of (state, s', reported) \<Rightarrow> (state, s'))"

end
