(* ===== verification/Inquiry_Runner_Laws.thy ===== *)
theory Inquiry_Runner_Laws
  imports Inquiry_Runner
begin

text \<open>
  What a run of an inquiry guarantees: which answers it accepts (\<open>runSinkInquiry_accepts\<close>), that it
  answers within its polls (\<open>runSinkInquiry_answers\<close>), and the bound on the attempts of a workflow.
\<close>

section \<open>What ends a run\<close>

text \<open>The answers the runner may take for a request when the status before it had the id \<open>baseline\<close>: they
  carry the request's type and another id, and a body of the announced length.\<close>

fun accepted :: "SinkInquiryRequest \<Rightarrow> int \<Rightarrow> InquiryRunState \<Rightarrow> bool" where
  "accepted request baseline (Run_response status raw request') \<longleftrightarrow>
     request' = request \<and> is_type status = request_type request \<and> is_requestId status \<noteq> baseline \<and>
     is_outcome status = Result_RESPONSE \<and> int (length raw) = is_responseLength status"
| "accepted request baseline (Run_terminal status raw) \<longleftrightarrow>
     is_type status = request_type request \<and> is_requestId status \<noteq> baseline \<and>
     is_outcome status \<notin> {Result_NONE, Result_PENDING, Result_RESPONSE} \<and>
     (case raw of None \<Rightarrow> is_responseLength status \<le> 0
      | Some bs \<Rightarrow> 0 < is_responseLength status \<and> int (length bs) = is_responseLength status)"
| "accepted request baseline (Run_superseded typ status) \<longleftrightarrow> typ = request_type request"
| "accepted request baseline (Run_transportError typ e) \<longleftrightarrow> typ = request_type request"
| "accepted request baseline (Run_cancelled typ) \<longleftrightarrow> typ = request_type request"
| "accepted request baseline _ \<longleftrightarrow> False"

definition waiting_states :: "SinkInquiryType \<Rightarrow> nat \<Rightarrow> InquiryRunState list \<Rightarrow> bool" where
  "waiting_states typ polls waits \<longleftrightarrow> length waits \<le> 2 * polls \<and> (\<forall>st \<in> set waits. \<exists>i. st = Run_waiting typ i)"

lemma waiting_states_Nil [simp]: "waiting_states typ polls []"
  by (simp add: waiting_states_def)

lemma waiting_states_append:
  "waiting_states typ 1 xs \<Longrightarrow> waiting_states typ polls ys \<Longrightarrow> waiting_states typ (Suc polls) (xs @ ys)"
  by (auto simp: waiting_states_def)

lemma waiting_states_1 [simp]:
  "waiting_states typ (Suc polls) [Run_waiting typ i]"
  "waiting_states typ (Suc polls) [Run_waiting typ i, Run_waiting typ i]"
  by (simp_all add: waiting_states_def)

text \<open>How a part of a run extends the states reported before it.\<close>

definition run_extends ::
  "SinkInquiryRequest \<Rightarrow> int \<Rightarrow> nat \<Rightarrow> InquiryRunState list \<Rightarrow> 's run_outcome \<Rightarrow> bool" where
  "run_extends request baseline polls reported outcome \<longleftrightarrow>
     (case outcome of (r, s, reported') \<Rightarrow>
        \<exists>waits. waiting_states (request_type request) polls waits \<and>
          (case r of Inl e \<Rightarrow> reported' = reported @ waits
           | Inr state \<Rightarrow> reported' = reported @ waits @ [state] \<and> accepted request baseline state))"

lemma run_extends_error [simp]:
  "run_extends request baseline polls reported (Inl e, s, reported)"
  "run_extends request baseline (Suc polls) reported
     (Inl e, s, reported @ [Run_waiting (request_type request) i])"
  "run_extends request baseline (Suc polls) reported
     (Inl e, s, reported @ [Run_waiting (request_type request) i, Run_waiting (request_type request) i])"
  unfolding run_extends_def prod.case sum.case
  by (rule exI[of _ "[]"], simp) (rule exI, rule conjI, rule waiting_states_1, simp)+

lemma run_extends_finish [simp]:
  "accepted request baseline state \<Longrightarrow>
     run_extends request baseline polls reported (finish_run reported state s)"
  unfolding run_extends_def finish_run_def prod.case sum.case by (rule exI[of _ "[]"]) simp

lemma run_extends_wait:
  assumes "run_extends request baseline polls (reported @ waits) outcome"
    "waiting_states (request_type request) 1 waits"
  shows "run_extends request baseline (Suc polls) reported outcome"
proof -
  obtain r s reported' where o: "outcome = (r, s, reported')"
    by (cases outcome) auto
  obtain more where m: "waiting_states (request_type request) polls more"
      "case r of Inl e \<Rightarrow> reported' = reported @ waits @ more
       | Inr state \<Rightarrow> reported' = reported @ waits @ more @ [state] \<and> accepted request baseline state"
    using assms(1) unfolding run_extends_def o by (cases r) auto
  then show ?thesis
    unfolding run_extends_def o prod.case
    by (intro exI[of _ "waits @ more"] conjI waiting_states_append[OF assms(2)]) (auto split: sum.splits)
qed

lemma run_extends_collect:
  assumes "is_type status = request_type request" "is_requestId status \<noteq> baseline"
  shows "is_outcome status = Result_RESPONSE \<Longrightarrow>
      run_extends request baseline polls reported (collect_response client request status reported s)"
    and "is_outcome status \<noteq> Result_RESPONSE \<Longrightarrow> isTerminalOutcome (is_outcome status) \<Longrightarrow>
      run_extends request baseline polls reported (collect_terminal client status reported s)"
  using assms
  by (auto simp: collect_response_def collect_terminal_def isTerminalOutcome_def
      split: prod.splits sum.splits if_splits)

lemma correlate_Ours:
  assumes "correlate typ baseline requestId status = Ours i" "requestId \<noteq> Some baseline"
  shows "is_type status = typ" "is_requestId status = i" "i \<noteq> baseline"
  using assms by (auto simp: correlate_def split: option.splits if_splits)

lemma poll_loop_extends:
  assumes "requestId \<noteq> Some baseline"
  shows "run_extends request baseline polls reported
      (poll_loop_inquiry client options request baseline polls requestId reported s)"
  using assms
proof (induction polls arbitrary: requestId reported s)
  case 0
  then show ?case by simp
next
  case (Suc polls)
  let ?kind = "request_type request"
  show ?case
  proof (cases "ro_aborted options s")
    case False
    obtain x s1 where st: "ic_getInquiryStatus client s = (x, s1)"
      by (cases "ic_getInquiryStatus client s")
    show ?thesis
    proof (cases x)
      case (Inr status)
      obtain y s2 where w: "ro_wait options (pollIntervalMs options) s1 = (y, s2)"
        by (cases "ro_wait options (pollIntervalMs options) s1")
      note step = run_extends_wait[OF Suc.IH]
      show ?thesis
      proof (cases "correlate ?kind baseline requestId status")
        case Not_yet
        have "run_extends request baseline (Suc polls) reported
            (poll_loop_inquiry client options request baseline polls None
              (reported @ [Run_waiting ?kind None, Run_waiting ?kind None]) s2)"
          by (rule step) (simp_all add: One_nat_def del: waiting_states_1 add: waiting_states_1)
        then show ?thesis
          using False st Inr w Not_yet by (cases y) (simp_all add: Let_def)
      next
        case (Ours i)
        note o = correlate_Ours[OF Ours Suc.prems]
        have "run_extends request baseline (Suc polls) reported
            (poll_loop_inquiry client options request baseline polls (Some i)
              (reported @ [Run_waiting ?kind (Some i)]) s2)"
          by (rule step) (use o in simp_all)
        then show ?thesis
          using False st Inr w Ours run_extends_collect[of status request baseline "Suc polls"] o
          by (cases y) (auto simp: Let_def)
      next
        case Superseded
        then show ?thesis
          using False st Inr by (simp add: Let_def)
      qed
    qed (use False st in \<open>simp add: Let_def\<close>)
  qed (simp add: Let_def)
qed

text \<open>A whole run: it validates, sends, waits and ends with its result. Before it sends, the only ends are a
  cancellation and an error.\<close>

lemma try_inquiry_extends:
  assumes "try_inquiry client request options s = (r, s', reported)"
    "ic_getInquiryStatus client s = (Inr status, s1)"
  shows "\<exists>sent. (sent = [] \<or> sent = [Run_sending (request_type request)]) \<and>
    run_extends request (is_requestId status) (nat (the (integer_value (maxPolls options))))
      (Run_validating request # sent) (r, s', reported)"
proof -
  let ?E = "\<lambda>sent. run_extends request (is_requestId status) (nat (the (integer_value (maxPolls options))))
      (Run_validating request # sent) (r, s', reported)"
  have "?E [] \<or> ?E [Run_sending (request_type request)]"
  proof (cases "validateRunnerOptions options")
    case None
    show ?thesis
    proof (cases "ro_aborted options s1")
      case True
      have "(r, s', reported) = finish_run [Run_validating request] (Run_cancelled (request_type request)) s1"
        using assms None True by (simp add: try_inquiry_def Let_def)
      then show ?thesis by simp
    next
      case False
      then show ?thesis
        using assms None
        by (auto simp: try_inquiry_def Let_def split: prod.splits sum.splits
            dest!: arg_cong[of _ "(r, s', reported)"
              "run_extends request (is_requestId status) (nat (the (integer_value (maxPolls options))))
                 [Run_validating request, Run_sending (request_type request)]"]
            intro: poll_loop_extends)
    qed
  next
    case (Some e)
    then have "(r, s', reported) = (Inl e, s, [Run_validating request])"
      using assms by (simp add: try_inquiry_def Let_def)
    then show ?thesis by simp
  qed
  then show ?thesis by blast
qed

text \<open>C6: an inquiry reports the states of a run in order (validating, sending, at most two waits per poll)
  and ends with its result. The result is never a state of an unfinished run, and a response is accepted
  only when the device reports it for a request of the same type under an id other than the one before the
  request was sent, with a body of exactly the announced length; every exception becomes the result too.\<close>

theorem runSinkInquiry_accepts:
  "case runSinkInquiryUnlocked client request options s of (state, s', reported) \<Rightarrow>
     (\<exists>sent waits. reported = Run_validating request # sent @ waits @ [state] \<and>
        (sent = [] \<or> sent = [Run_sending (request_type request)]) \<and>
        waiting_states (request_type request) (nat (the (integer_value (maxPolls options)))) waits) \<and>
     (case ic_getInquiryStatus client s of
        (Inr status, s1) \<Rightarrow> accepted request (is_requestId status) state
      | (Inl e, s1) \<Rightarrow> state = Run_cancelled (request_type request) \<or>
          (\<exists>e'. state = Run_transportError (request_type request) e'))"
proof -
  obtain r s' reported where t: "try_inquiry client request options s = (r, s', reported)"
    by (cases "try_inquiry client request options s") auto
  obtain x s1 where b: "ic_getInquiryStatus client s = (x, s1)"
    by (cases "ic_getInquiryStatus client s")
  show ?thesis
  proof (cases x)
    case (Inl e)
    have "reported = [Run_validating request]" "\<exists>e'. r = Inl e'"
      using t b Inl by (auto simp: try_inquiry_def Let_def split: option.splits)
    then show ?thesis
      using t b Inl by (cases "ro_aborted options s'") (auto simp: runSinkInquiryUnlocked_def Let_def)
  next
    case (Inr status)
    from try_inquiry_extends[OF t, of status s1] b Inr
    obtain sent waits where w: "sent = [] \<or> sent = [Run_sending (request_type request)]"
        "waiting_states (request_type request) (nat (the (integer_value (maxPolls options)))) waits"
        "case r of Inl e \<Rightarrow> reported = Run_validating request # sent @ waits
         | Inr state \<Rightarrow> reported = Run_validating request # sent @ waits @ [state] \<and>
             accepted request (is_requestId status) state"
      unfolding run_extends_def by (cases r) auto
    show ?thesis
    proof (cases r)
      case (Inl e)
      with w t b Inr show ?thesis
        by (auto simp: runSinkInquiryUnlocked_def Let_def)
    next
      case (Inr state)
      with w t b \<open>x = Inr status\<close> show ?thesis
        by (auto simp: runSinkInquiryUnlocked_def Let_def)
    qed
  qed
qed

section \<open>A device that answers\<close>

text \<open>The statuses the client reads from a state on, with a wait after each of them.\<close>

inductive status_run ::
  "'s SinkInquiryClient \<Rightarrow> 's InquiryRunnerOptions \<Rightarrow> 's \<Rightarrow> SinkInquiryStatus list \<Rightarrow> 's \<Rightarrow> bool"
  for client options where
  done_reading: "status_run client options s [] s"
| read_status: "\<not> ro_aborted options s \<Longrightarrow> ic_getInquiryStatus client s = (Inr status, s1) \<Longrightarrow>
    ro_wait options (pollIntervalMs options) s1 = (Inr (), s2) \<Longrightarrow> status_run client options s2 later s' \<Longrightarrow>
    status_run client options s (status # later) s'"

inductive_cases status_run_Cons: "status_run client options s (status # later) s'"
inductive_cases status_run_Nil: "status_run client options s [] s'"

text \<open>The statuses before the request is taken up, and those of the request while it has no outcome.\<close>

definition not_taken_up :: "int \<Rightarrow> SinkInquiryStatus \<Rightarrow> bool" where
  "not_taken_up baseline status \<longleftrightarrow> is_requestId status = baseline"

definition in_progress :: "SinkInquiryType \<Rightarrow> int \<Rightarrow> SinkInquiryStatus \<Rightarrow> bool" where
  "in_progress typ i status \<longleftrightarrow>
     is_requestId status = i \<and> is_type status = typ \<and> \<not> isTerminalOutcome (is_outcome status)"

lemma poll_loop_early:
  assumes "status_run client options s early s'" "\<forall>status \<in> set early. not_taken_up baseline status"
    "length early \<le> polls"
  shows "\<exists>reported'. poll_loop_inquiry client options request baseline polls None reported s =
      poll_loop_inquiry client options request baseline (polls - length early) None reported' s'"
  using assms
proof (induction early arbitrary: polls reported s)
  case Nil
  then show ?case by (auto elim: status_run_Nil)
next
  case (Cons status early)
  then obtain p where p: "polls = Suc p" "length early \<le> p"
    by (cases polls) auto
  from Cons.prems(1) obtain s1 s2 where s: "\<not> ro_aborted options s" "ic_getInquiryStatus client s = (Inr status, s1)"
      "ro_wait options (pollIntervalMs options) s1 = (Inr (), s2)" "status_run client options s2 early s'"
    by (rule status_run_Cons)
  show ?case
    using Cons.IH[OF s(4) _ p(2)] Cons.prems(2) s(1-3) p(1)
    by (simp add: Let_def correlate_def not_taken_up_def)
qed

lemma poll_loop_pending:
  assumes "status_run client options s pending s'" "\<forall>status \<in> set pending. in_progress (request_type request) i status"
    "length pending \<le> polls" "i \<noteq> baseline" "requestId = None \<or> requestId = Some i"
  shows "\<exists>reported' requestId'. (requestId' = None \<or> requestId' = Some i) \<and>
      poll_loop_inquiry client options request baseline polls requestId reported s =
      poll_loop_inquiry client options request baseline (polls - length pending) requestId' reported' s'"
  using assms
proof (induction pending arbitrary: polls reported s requestId)
  case Nil
  then show ?case by (auto elim: status_run_Nil)
next
  case (Cons status pending)
  then obtain p where p: "polls = Suc p" "length pending \<le> p"
    by (cases polls) auto
  from Cons.prems(1) obtain s1 s2 where s: "\<not> ro_aborted options s" "ic_getInquiryStatus client s = (Inr status, s1)"
      "ro_wait options (pollIntervalMs options) s1 = (Inr (), s2)" "status_run client options s2 pending s'"
    by (rule status_run_Cons)
  have "correlate (request_type request) baseline requestId status = Ours i"
    using Cons.prems(2,4,5) by (auto simp: correlate_def in_progress_def)
  moreover have "is_outcome status \<noteq> Result_RESPONSE" "\<not> isTerminalOutcome (is_outcome status)"
    using Cons.prems(2) by (auto simp: in_progress_def isTerminalOutcome_def)
  ultimately show ?case
    using Cons.IH[OF s(4) _ p(2) Cons.prems(4), of "Some i"] Cons.prems(2) s(1-3) p(1)
    by (simp add: Let_def)
qed

text \<open>The result a device's final status and body call for.\<close>

definition answer_state :: "SinkInquiryRequest \<Rightarrow> SinkInquiryStatus \<Rightarrow> bytes \<Rightarrow> InquiryRunState" where
  "answer_state request status body =
     (if is_outcome status = Result_RESPONSE then Run_response status body request
      else Run_terminal status (if body = [] then None else Some body))"

definition polls_of :: "'s InquiryRunnerOptions \<Rightarrow> nat" where
  "polls_of options = nat (the (integer_value (maxPolls options)))"

lemma run_reaches_pending:
  assumes "validateRunnerOptions options = None"
    and "ic_getInquiryStatus client s = (Inr baseline, s1)" "\<not> ro_aborted options s1"
    and "send_request client request s1 = (Inr (), s2)"
    and "status_run client options s2 early s3" "\<forall>status \<in> set early. not_taken_up (is_requestId baseline) status"
    and "status_run client options s3 pending s4"
      "\<forall>status \<in> set pending. in_progress (request_type request) i status" "i \<noteq> is_requestId baseline"
    and "length early + length pending \<le> polls_of options"
  shows "\<exists>reported requestId. (requestId = None \<or> requestId = Some i) \<and>
     try_inquiry client request options s =
     poll_loop_inquiry client options request (is_requestId baseline)
       (polls_of options - length early - length pending) requestId reported s4"
proof -
  obtain reported1 where "try_inquiry client request options s =
      poll_loop_inquiry client options request (is_requestId baseline) (polls_of options - length early) None reported1 s3"
    using poll_loop_early[OF assms(5,6), of "polls_of options" request] assms(1-4,10)
    by (auto simp: try_inquiry_def Let_def polls_of_def)
  moreover obtain reported2 requestId where "requestId = None \<or> requestId = Some i"
      "poll_loop_inquiry client options request (is_requestId baseline) (polls_of options - length early) None reported1 s3 =
       poll_loop_inquiry client options request (is_requestId baseline)
         (polls_of options - length early - length pending) requestId reported2 s4"
    using poll_loop_pending[OF assms(7,8) _ assms(9), of "polls_of options - length early" None reported1] assms(10)
    by (auto simp: le_diff_conv2)
  ultimately show ?thesis by auto
qed

text \<open>C15: a run that is not cancelled answers. When the device takes the request up under a new id, whatever
  number of statuses it needs for that, and reports the outcome within the polls allowed, the result is that
  outcome with the body read; when the polls run out before, the result is the time-out error. In no case
  does the runner poll on.\<close>

theorem runSinkInquiry_answers:
  assumes valid: "validateRunnerOptions options = None"
    and before: "ic_getInquiryStatus client s = (Inr baseline, s1)" "\<not> ro_aborted options s1"
    and sent: "send_request client request s1 = (Inr (), s2)"
    and early: "status_run client options s2 early s3"
      "\<forall>status \<in> set early. not_taken_up (is_requestId baseline) status"
    and pending: "status_run client options s3 pending s4"
      "\<forall>status \<in> set pending. in_progress (request_type request) i status" "i \<noteq> is_requestId baseline"
    and going_on: "\<not> ro_aborted options s4"
    and final: "ic_getInquiryStatus client s4 = (Inr status, s5)" "is_requestId status = i"
      "is_type status = request_type request" "isTerminalOutcome (is_outcome status)"
      "is_responseLength status = int (length body)"
    and body: "ic_getInquiryResponse client s5 = (Inr body, s6)"
    and within: "length early + length pending \<le> polls_of options"
  shows "fst (runSinkInquiryUnlocked client request options s) =
      (if length early + length pending < polls_of options then answer_state request status body
       else Run_transportError (request_type request) Polling_timed_out)"
proof (cases "length early + length pending < polls_of options")
  case polls: True
  then obtain p where p: "polls_of options - length early - length pending = Suc p"
    by (metis Suc_diff_Suc diff_diff_left)
  obtain reported requestId where "requestId = None \<or> requestId = Some i"
      "try_inquiry client request options s =
       poll_loop_inquiry client options request (is_requestId baseline) (Suc p) requestId reported s4"
    using run_reaches_pending[OF valid before sent early pending] polls p by auto
  moreover from this(1) have "correlate (request_type request) (is_requestId baseline) requestId status = Ours i"
    using final pending(3) by (auto simp: correlate_def)
  ultimately show ?thesis
    using going_on final body polls
    by (auto simp: runSinkInquiryUnlocked_def answer_state_def Let_def collect_response_def collect_terminal_def
        finish_run_def)
next
  case False
  with within have polls: "length early + length pending = polls_of options" by simp
  then obtain reported requestId where "try_inquiry client request options s =
       poll_loop_inquiry client options request (is_requestId baseline) 0 requestId reported s4"
    using run_reaches_pending[OF valid before sent early pending] by auto
  then show ?thesis
    using going_on polls by (simp add: runSinkInquiryUnlocked_def Let_def)
qed

text \<open>A device that reports a list of statuses and one body.\<close>

definition scripted_client :: "(SinkInquiryStatus list \<times> bytes) SinkInquiryClient" where
  "scripted_client =
     \<lparr>ic_sendInquiryRequest = Some (\<lambda>request. io_return ()), ic_sendInquiry = None,
      ic_getInquiryStatus = (\<lambda>(sts, body). case sts of
          [] \<Rightarrow> (Inl (Transport_failure []), (sts, body)) | st # later \<Rightarrow> (Inr st, (later, body))),
      ic_getInquiryResponse = (\<lambda>(sts, body). (Inr body, (sts, body)))\<rparr>"

definition patient_options :: "'s InquiryRunnerOptions" where
  "patient_options = \<lparr>ro_pollIntervalMs = None, ro_maxPolls = Some (Decimal 4 0), ro_aborted = (\<lambda>s. False),
     ro_wait = (\<lambda>n. io_return ())\<rparr>"

abbreviation inquiry_status :: "SinkInquiryOutcome \<Rightarrow> int \<Rightarrow> SinkInquiryType \<Rightarrow> int \<Rightarrow> SinkInquiryStatus" where
  "inquiry_status outcome i typ n \<equiv> \<lparr>is_outcome = outcome, is_requestId = i, is_type = typ,
     is_responseClass = 2, is_responseType = 12, is_responseLength = n\<rparr>"

lemma runSinkInquiry_answers_witness:
  "fst (runSinkInquiryUnlocked scripted_client (Request_plain Inquiry_GET_REVISION None) patient_options
     ([inquiry_status Result_RESPONSE 7 Inquiry_GET_STATUS 7, inquiry_status Result_RESPONSE 7 Inquiry_GET_STATUS 7,
       inquiry_status Result_PENDING 8 Inquiry_GET_REVISION 0, inquiry_status Result_RESPONSE 8 Inquiry_GET_REVISION 4],
      [0, 0, 1, 48])) =
   Run_response (inquiry_status Result_RESPONSE 8 Inquiry_GET_REVISION 4) [0, 0, 1, 48]
     (Request_plain Inquiry_GET_REVISION None)"
proof -
  let ?final = "inquiry_status Result_RESPONSE 8 Inquiry_GET_REVISION 4"
  let ?pending = "inquiry_status Result_PENDING 8 Inquiry_GET_REVISION 0"
  let ?old = "inquiry_status Result_RESPONSE 7 Inquiry_GET_STATUS 7"
  let ?body = "[0, 0, 1, 48] :: bytes"
  have early: "status_run scripted_client patient_options ([?old, ?pending, ?final], ?body) [?old] ([?pending, ?final], ?body)"
    by (rule read_status[OF _ _ _ done_reading])
      (simp_all add: scripted_client_def patient_options_def io_return_def)
  have pending: "status_run scripted_client patient_options ([?pending, ?final], ?body) [?pending] ([?final], ?body)"
    by (rule read_status[OF _ _ _ done_reading])
      (simp_all add: scripted_client_def patient_options_def io_return_def)
  show ?thesis
    using runSinkInquiry_answers[of patient_options scripted_client "([?old, ?old, ?pending, ?final], ?body)" ?old
        "([?old, ?pending, ?final], ?body)" "Request_plain Inquiry_GET_REVISION None" _ "[?old]" _ "[?pending]" _ 8 ?final _
        ?body, OF _ _ _ _ early _ pending]
    by (simp add: scripted_client_def patient_options_def io_return_def validateRunnerOptions_def pollIntervalMs_def
        maxPolls_def integer_in_def send_request_def not_taken_up_def in_progress_def isTerminalOutcome_def
        polls_of_def answer_state_def)
qed

section \<open>Workflows\<close>

text \<open>The attempts of one step: numbered on from the first, as many as the retries left allow, all but the
  last one without a response.\<close>

lemma guided_attempts_history:
  assumes "guided_attempts client options step retries left history s = (go_on, history', s')"
  shows "\<exists>results. history' = history @ map (\<lambda>(k, result). \<lparr>ih_stepId = sw_id step, ih_attempt = k, ih_result = result\<rparr>)
      (zip [retries + 1..<retries + 1 + length results] results) \<and>
     results \<noteq> [] \<and> length results \<le> left + 1 \<and> (\<forall>result \<in> set (butlast results). \<not> is_response result) \<and>
     (is_response (last results) \<longrightarrow> go_on) \<and>
     (go_on \<longrightarrow> is_response (last results) \<or> gw_decide options step (last results) history' = Control_continue)"
  using assms
proof (induction left arbitrary: retries history s)
  case 0
  then show ?case
    by (subst (asm) guided_attempts.simps)
      (auto simp: Let_def split: prod.splits if_splits GuidedWorkflowControl.splits intro!: exI[of _ "[_]"])
next
  case (Suc left)
  obtain result s1 reported where run: "runSinkInquiryUnlocked client (sw_request step) (gw_runner options) s = (result, s1, reported)"
    by (cases "runSinkInquiryUnlocked client (sw_request step) (gw_runner options) s") auto
  let ?h = "history @ [\<lparr>ih_stepId = sw_id step, ih_attempt = retries + 1, ih_result = result\<rparr>]"
  show ?case
  proof (cases "\<not> is_response result \<and> gw_decide options step result ?h = Control_retry")
    case True
    with Suc.prems run have "guided_attempts client options step (retries + 1) left ?h s1 = (go_on, history', s')"
      by (subst (asm) guided_attempts.simps) (simp add: Let_def)
    from Suc.IH[OF this] obtain results where r: "history' = ?h @ map (\<lambda>(k, result). \<lparr>ih_stepId = sw_id step, ih_attempt = k, ih_result = result\<rparr>)
      (zip [retries + 2..<retries + 2 + length results] results)" "results \<noteq> []" "length results \<le> left + 1"
      "\<forall>result \<in> set (butlast results). \<not> is_response result" "is_response (last results) \<longrightarrow> go_on"
      "go_on \<longrightarrow> is_response (last results) \<or> gw_decide options step (last results) history' = Control_continue"
      by auto
    have "zip [retries + 1..<retries + 1 + length (result # results)] (result # results) =
        (retries + 1, result) # zip [retries + 2..<retries + 2 + length results] results"
      by (simp add: upt_conv_Cons del: upt_Suc)
    with r True show ?thesis
      by (intro exI[of _ "result # results"]) (simp del: upt_Suc)
  next
    case False
    with Suc.prems run show ?thesis
      by (subst (asm) guided_attempts.simps)
        (auto simp: Let_def split: if_splits GuidedWorkflowControl.splits intro!: exI[of _ "[result]"])
  qed
qed

definition step_done :: "'s GuidedInquiryWorkflowOptions \<Rightarrow> nat \<Rightarrow> InquiryHistoryEntry list \<Rightarrow> SerialInquiryWorkflowStep \<Rightarrow> bool" where
  "step_done options maxRetries history step \<longleftrightarrow>
     (\<exists>entry \<in> set history. ih_stepId entry = sw_id step \<and> 1 \<le> ih_attempt entry \<and> ih_attempt entry \<le> maxRetries + 1 \<and>
        (is_response (ih_result entry) \<or> (\<exists>past. gw_decide options step (ih_result entry) past = Control_continue)))"

lemma guided_attempts_step:
  assumes "guided_attempts client options step 0 maxRetries history s = (go_on, history', s')"
  shows "length history' \<le> length history + (maxRetries + 1)" "set history \<subseteq> set history'"
    "go_on \<Longrightarrow> step_done options maxRetries history' step"
proof -
  obtain results where r: "history' = history @ map (\<lambda>(k, result). \<lparr>ih_stepId = sw_id step, ih_attempt = k, ih_result = result\<rparr>)
      (zip [1..<1 + length results] results)" "results \<noteq> []" "length results \<le> maxRetries + 1"
      "go_on \<longrightarrow> is_response (last results) \<or> gw_decide options step (last results) history' = Control_continue"
    using guided_attempts_history[OF assms] by auto
  then show "length history' \<le> length history + (maxRetries + 1)" "set history \<subseteq> set history'"
    by auto
  assume "go_on"
  have "(length results, last results) \<in> set (zip [1..<1 + length results] results)"
    using r(2) unfolding set_zip
    by (auto simp: last_conv_nth simp del: upt_Suc intro!: exI[of _ "length results - 1"])
  then have "\<lparr>ih_stepId = sw_id step, ih_attempt = length results, ih_result = last results\<rparr> \<in> set history'"
    unfolding r(1) by (force simp del: upt_Suc)
  moreover have "1 \<le> length results"
    using r(2) by (simp add: Suc_le_eq)
  ultimately show "step_done options maxRetries history' step"
    unfolding step_done_def using r(3,4) \<open>go_on\<close> by (intro bexI) auto
qed

lemma step_done_mono:
  "set history \<subseteq> set history' \<Longrightarrow> step_done options maxRetries history step \<Longrightarrow> step_done options maxRetries history' step"
  by (auto simp: step_done_def)

lemma guided_steps_history:
  assumes "guided_steps client options maxRetries steps history s = (phase, history', s')"
  shows "length history' \<le> length history + (maxRetries + 1) * length steps \<and> set history \<subseteq> set history' \<and>
     (phase = Workflow_completed \<longrightarrow> (\<forall>step \<in> set steps. step_done options maxRetries history' step))"
  using assms
proof (induction steps arbitrary: history s)
  case (Cons step steps)
  obtain go_on h1 s1 where g: "guided_attempts client options step 0 maxRetries history s = (go_on, h1, s1)"
    by (cases "guided_attempts client options step 0 maxRetries history s") auto
  note st = guided_attempts_step[OF g]
  show ?case
  proof (cases go_on)
    case True
    with Cons.prems g have "guided_steps client options maxRetries steps h1 s1 = (phase, history', s')"
      by simp
    from Cons.IH[OF this] st True show ?thesis
      by (auto intro: step_done_mono)
  next
    case False
    with Cons.prems g st show ?thesis by auto
  qed
qed simp

text \<open>A guided workflow always comes back. For a retry count out of 0 to 10 it refuses; otherwise it
  makes at most one attempt and the retries for each step, and it ends as completed only when every step has
  an attempt that got a response or that the caller decided to leave behind.\<close>

lemma runGuidedInquiryWorkflow_bounded:
  "case runGuidedInquiryWorkflow client steps options s of
     None \<Rightarrow> \<exists>n. gw_maxRetriesPerStep options = Some n \<and> \<not> integer_in n 0 10
   | Some (phase, history, s') \<Rightarrow>
       \<exists>maxRetries. maxRetries \<le> 10 \<and> length history \<le> (maxRetries + 1) * length steps \<and>
         (phase = Workflow_completed \<longrightarrow> (\<forall>step \<in> set steps. step_done options maxRetries history step))"
proof -
  define n where "n = (case gw_maxRetriesPerStep options of None \<Rightarrow> Decimal 2 0 | Some n \<Rightarrow> n)"
  show ?thesis
  proof (cases "integer_in n 0 10")
    case True
    then have "nat (the (integer_value n)) \<le> 10"
      by (auto simp: integer_in_def split: option.splits)
    moreover obtain phase history s' where "guided_steps client options (nat (the (integer_value n))) steps [] s = (phase, history, s')"
      by (cases "guided_steps client options (nat (the (integer_value n))) steps [] s") auto
    ultimately show ?thesis
      using True guided_steps_history[of client options "nat (the (integer_value n))" steps "[]" s phase history s']
      by (auto simp: runGuidedInquiryWorkflow_def n_def Let_def)
  next
    case False
    then show ?thesis
      by (auto simp: runGuidedInquiryWorkflow_def n_def Let_def integer_in_def split: option.splits)
  qed
qed

end
