(* ===== verification/Inquiry_Survey_Laws.thy ===== *)
theory Inquiry_Survey_Laws
  imports Inquiry_Surveys Inquiry_Runner_Laws
begin

text \<open>
  The decoder of inquiry responses checks every length before it reads (\<open>decodeInquiryResponse_explicit\<close>),
  the discovery of SVIDs collects what a port partner lists over its pages (\<open>surveyPortPartnerSvids_collects\<close>),
  and a survey asks for every advertised item exactly once (\<open>surveyBatteryCapabilities_covers\<close>).
\<close>

section \<open>Reading whole bodies\<close>

lemma decode_words_eq:
  "decode_words body = Inr (map (\<lambda>i. le32_at body (i * 4)) [0..<length body div 4])"
proof -
  have "length body div 4 * 4 \<le> length body"
    by (rule div_times_less_eq_dividend)
  then show ?thesis
    unfolding decode_words_def read_or_fail_def readDataObjects_def readDataObjects_loop_eq by auto
qed

lemma oneDataObject_eq:
  "oneDataObject body name = (if length body \<noteq> 4 then Inl (Object_size name) else Inr (le32_at body 0))"
  unfolding oneDataObject_def read_or_fail_def readDataObjects_def readDataObjects_loop_eq by simp

lemma read_or_fail_Inr [simp]: "read_or_fail (Inr x) = Inr x"
  by (simp add: read_or_fail_def)

lemma res_bind_not_reader_failure:
  assumes "\<And>e. r \<noteq> Inl (Reader_failure e)" "\<And>x e. r = Inr x \<Longrightarrow> f x \<noteq> Inl (Reader_failure e)"
  shows "res_bind r f \<noteq> Inl (Reader_failure e)"
  using assms by (cases r) auto

lemma scan_svids_error: "scan_svids svids ordered terminated \<noteq> Inl (Reader_failure e)"
  by (induction svids ordered terminated rule: scan_svids.induct) auto

lemma readers_total:
  "length bs = 24 \<or> length bs = 25 \<Longrightarrow> \<exists>b. parseSourceCapabilitiesExtendedDataBlock bs = Inr b"
  "4 \<le> length bs \<Longrightarrow> \<exists>b. parseManufacturerInfoDataBlock bs = Inr b"
  "8 \<le> length bs \<Longrightarrow> \<exists>b. parseBatteryCapabilitiesDataBlock bs = Inr b"
  "2 \<le> length bs \<Longrightarrow> \<exists>b. parsePPSStatusDataBlock bs = Inr b"
  by (auto simp: parseSourceCapabilitiesExtendedDataBlock_def parseManufacturerInfoDataBlock_def
      parseBatteryCapabilitiesDataBlock_def parsePPSStatusDataBlock_def readUint16LE_eq readUint32LE_eq Let_def)

lemma decode_parts_explicit:
  "decode_status body request \<noteq> Inl (Reader_failure e)"
  "decode_manufacturer_info body \<noteq> Inl (Reader_failure e)"
  "decode_country_codes body \<noteq> Inl (Reader_failure e)"
  "decode_country_info body request \<noteq> Inl (Reader_failure e)"
  "decode_battery_cap body request \<noteq> Inl (Reader_failure e)"
  "decode_battery_status body request \<noteq> Inl (Reader_failure e)"
proof -
  show "decode_status body request \<noteq> Inl (Reader_failure e)"
    by (auto simp: decode_status_def Let_def split: option.splits SinkInquiryRequest.splits SinkInquiryType.splits)
  show "decode_manufacturer_info body \<noteq> Inl (Reader_failure e)"
    using readers_total(2)[of body] by (auto simp: decode_manufacturer_info_def Let_def)
  show "decode_country_codes body \<noteq> Inl (Reader_failure e)"
    by (simp add: decode_country_codes_def)
  show "decode_country_info body request \<noteq> Inl (Reader_failure e)"
    by (auto simp: decode_country_info_def Let_def split: option.splits SinkInquiryRequest.splits)
  show "decode_battery_cap body request \<noteq> Inl (Reader_failure e)"
    using readers_total(3)[of body]
    by (auto simp: decode_battery_cap_def Let_def split: option.splits SinkInquiryRequest.splits)
  show "decode_battery_status body request \<noteq> Inl (Reader_failure e)"
    by (auto simp: decode_battery_status_def oneDataObject_eq Let_def split: option.splits SinkInquiryRequest.splits)
qed

lemma decode_vdm_explicit: "decode_vdm typ body request \<noteq> Inl (Reader_failure e)"
proof -
  have "res_bind (scan_svids svids [] False) (\<lambda>(ordered, terminated). Inr (g ordered terminated)) \<noteq>
      Inl (Reader_failure e)" for svids and g :: "int list \<Rightarrow> bool \<Rightarrow> decoded_inquiry"
    by (rule res_bind_not_reader_failure) (auto simp: scan_svids_error)
  then show ?thesis
    unfolding decode_vdm_def decode_words_eq res_bind.simps Let_def
    by (simp split: option.split SinkInquiryRequest.split)
qed

lemma decode_branches_explicit [simp]:
  "res_bind (oneDataObject body name) (\<lambda>w. Inr (f w)) \<noteq> Inl (Reader_failure e)"
  "length body = 24 \<or> length body = 25 \<Longrightarrow>
     res_bind (read_or_fail (parseSourceCapabilitiesExtendedDataBlock body)) (\<lambda>b. Inr (g b)) \<noteq> Inl (Reader_failure e)"
  "length body = 4 \<Longrightarrow> res_bind (read_or_fail (parsePPSStatusDataBlock body)) (\<lambda>b. Inr (h b)) \<noteq> Inl (Reader_failure e)"
  using readers_total(1,4)[of body] by (auto simp: oneDataObject_eq)

text \<open>The request a decoded object repeats parts of.\<close>

fun answers_request :: "decoded_inquiry \<Rightarrow> SinkInquiryRequest option \<Rightarrow> bool" where
  "answers_request (Decoded_cable_status d) request \<longleftrightarrow> request = Some (Request_plain Inquiry_GET_STATUS (Some (dcs_plug d)))"
| "answers_request (Decoded_country_info d) request \<longleftrightarrow> (\<exists>code. request = Some (Request_country code))"
| "answers_request (Decoded_battery_cap d) request \<longleftrightarrow> request = Some (Request_battery_cap (dbc_batteryReference d))"
| "answers_request (Decoded_battery_status d) request \<longleftrightarrow> request = Some (Request_battery_status (dbs_batteryReference d))"
| "answers_request (Decoded_modes header plug svid vdos) request \<longleftrightarrow>
     request = Some (Request_modes svid plug) \<and> number_is svid (vh_svid header)"
| "answers_request _ request \<longleftrightarrow> True"

lemma decode_vdm_answers:
  "decode_vdm typ body request = Inr d \<Longrightarrow>
     typ \<in> {Inquiry_DISCOVER_IDENTITY, Inquiry_DISCOVER_SVIDS, Inquiry_DISCOVER_MODES} \<Longrightarrow> answers_request d request"
  unfolding decode_vdm_def decode_words_eq res_bind.simps Let_def insert_iff empty_iff
  by (elim disjE; simp add: vdm_correlates_def split: if_splits option.splits SinkInquiryRequest.splits; auto simp: res_bind_Inr_iff)

lemma decode_parts_answer:
  "decode_status body request = Inr d \<Longrightarrow> answers_request d request"
  "decode_manufacturer_info body = Inr d \<Longrightarrow> answers_request d request"
  "decode_country_codes body = Inr d \<Longrightarrow> answers_request d request"
  "decode_country_info body request = Inr d \<Longrightarrow> answers_request d request"
  "decode_battery_cap body request = Inr d \<Longrightarrow> answers_request d request"
  "decode_battery_status body request = Inr d \<Longrightarrow> answers_request d request"
proof -
  show "decode_status body request = Inr d \<Longrightarrow> answers_request d request"
    by (auto simp: decode_status_def Let_def
        split: option.splits SinkInquiryRequest.splits SinkInquiryType.splits if_splits)
  show "decode_manufacturer_info body = Inr d \<Longrightarrow> answers_request d request"
    by (auto simp: decode_manufacturer_info_def Let_def res_bind_Inr_iff split: if_splits)
  show "decode_country_codes body = Inr d \<Longrightarrow> answers_request d request"
    by (auto simp: decode_country_codes_def split: if_splits)
  show "decode_country_info body request = Inr d \<Longrightarrow> answers_request d request"
    by (auto simp: decode_country_info_def Let_def split: option.splits SinkInquiryRequest.splits if_splits)
  show "decode_battery_cap body request = Inr d \<Longrightarrow> answers_request d request"
    by (auto simp: decode_battery_cap_def Let_def res_bind_Inr_iff
        split: option.splits SinkInquiryRequest.splits if_splits)
  show "decode_battery_status body request = Inr d \<Longrightarrow> answers_request d request"
    by (auto simp: decode_battery_status_def Let_def res_bind_Inr_iff
        split: option.splits SinkInquiryRequest.splits if_splits)
qed


section \<open>Discovery of SVIDs\<close>

definition words_bytes :: "int list \<Rightarrow> bytes" where
  "words_bytes ws = concat (map (le_bytes 4) ws)"

lemma length_words_bytes [simp]: "length (words_bytes ws) = 4 * length ws"
  by (induction ws) (simp_all add: words_bytes_def)

lemma le32_at_words_bytes:
  "i < length ws \<Longrightarrow> le32_at (words_bytes ws) (i * 4) = ws ! i mod 2 ^ 32"
proof (induction ws arbitrary: i)
  case (Cons w ws)
  have a: "words_bytes (w # ws) = le_bytes 4 w @ words_bytes ws"
    by (simp add: words_bytes_def)
  show ?case
  proof (cases i)
    case 0
    then show ?thesis
      using le32_at_le_val[of 0 "words_bytes (w # ws)"]
      by (simp add: a sub_array_def le_val_le_bytes)
  next
    case (Suc j)
    have "sub_array (words_bytes (w # ws)) (Suc j * 4) (Suc j * 4 + 4) = sub_array (words_bytes ws) (j * 4) (j * 4 + 4)"
      unfolding a by (simp add: sub_array_def)
    then show ?thesis
      using Cons Suc le32_at_le_val[of "i * 4" "words_bytes (w # ws)"] le32_at_le_val[of "j * 4" "words_bytes ws"]
      by (simp del: mult_Suc)
  qed
qed simp

lemma decode_words_bytes:
  assumes "\<forall>w \<in> set ws. 0 \<le> w \<and> w < 2 ^ 32"
  shows "decode_words (words_bytes ws) = Inr ws"
proof -
  have "map (\<lambda>i. le32_at (words_bytes ws) (i * 4)) [0..<length ws] = ws"
    using assms by (intro nth_equalityI) (simp_all add: le32_at_words_bytes)
  then show ?thesis
    by (simp add: decode_words_eq)
qed

text \<open>A port partner that lists its SVIDs twelve at a time, two in an object, the higher half first. A page that
  is not full ends with a zero, unless its SVIDs fill whole objects; an empty page is one zero object.\<close>

fun svid_words :: "int list \<Rightarrow> int list" where
  "svid_words (a # b # svids) = (b + 65536 * a) # svid_words svids"
| "svid_words [a] = [65536 * a]"
| "svid_words [] = []"

definition svid_page_bytes :: "int list \<Rightarrow> bytes" where
  "svid_page_bytes svids = words_bytes (0xff00a042 # (if svids = [] then [0] else svid_words svids))"

definition svid_partner :: "int list inquiry_runner" where
  "svid_partner request svids =
     (let page = svid_page_bytes (take 12 svids) in
      (Run_response \<lparr>is_outcome = Result_RESPONSE, is_requestId = 1, is_type = Inquiry_DISCOVER_SVIDS,
         is_responseClass = 2, is_responseType = 15, is_responseLength = int (length page)\<rparr> page request,
       drop 12 svids))"

abbreviation svid_range :: "int list \<Rightarrow> bool" where
  "svid_range svids \<equiv> \<forall>svid \<in> set svids. 1 \<le> svid \<and> svid \<le> 0xffff"

lemma svid_words_range: "svid_range svids \<Longrightarrow> \<forall>w \<in> set (svid_words svids). 0 \<le> w \<and> w < 2 ^ 32"
  by (induction svids rule: svid_words.induct) auto

lemma parseSVIDsVDO_pair:
  assumes "0 \<le> a" "a \<le> 0xffff" "0 \<le> b" "b \<le> 0xffff"
  shows "svv_svid1 (parseSVIDsVDO (b + 65536 * a)) = a" "svv_svid0 (parseSVIDsVDO (b + 65536 * a)) = b"
proof -
  have "pack [(16, b), (16, a)] = b + 65536 * a"
    using assms by (simp add: pack.simps mod_pos_pos_trivial)
  then show "svv_svid1 (parseSVIDsVDO (b + 65536 * a)) = a" "svv_svid0 (parseSVIDsVDO (b + 65536 * a)) = b"
    using assms slices_pack[of "[(16, b), (16, a)]"] by (simp_all add: parseSVIDsVDO_def bit_fields)
qed

lemma svid_pairs_words:
  "svid_range svids \<Longrightarrow> svid_pairs (svid_words svids) = svids @ (if odd (length svids) then [0] else [])"
proof (induction svids rule: svid_words.induct)
  case (1 a b svids)
  then show ?case
    using parseSVIDsVDO_pair[of a b] by (simp add: svid_pairs_def)
next
  case (2 a)
  then show ?case
    using parseSVIDsVDO_pair[of a 0] by (simp add: svid_pairs_def)
qed (simp add: svid_pairs_def)

lemma length_svid_words: "length (svid_words svids) = (length svids + 1) div 2"
  by (induction svids rule: svid_words.induct) auto

lemma scan_svids_page:
  "svid_range svids \<Longrightarrow> set zeros \<subseteq> {0} \<Longrightarrow>
     scan_svids (svids @ zeros) ordered False = Inr (ordered @ svids, zeros \<noteq> [])"
proof (induction svids arbitrary: ordered)
  case Nil
  have "scan_svids zeros ordered t = Inr (ordered, t \<or> zeros \<noteq> [])" for t
    using Nil by (induction zeros arbitrary: t) auto
  then show ?case by simp
qed auto

lemma svid_page_scan:
  assumes "svid_range svids"
  shows "scan_svids (svid_pairs (if svids = [] then [0] else svid_words svids)) [] False =
    Inr (svids, svids = [] \<or> odd (length svids))"
proof (cases "svids = []")
  case True
  have "svid_pairs [0] = [0, 0]"
    using parseSVIDsVDO_pair[of 0 0] by (simp add: svid_pairs_def)
  with True show ?thesis by simp
next
  case False
  with assms scan_svids_page[of svids "[0]" "[]"] scan_svids_page[of svids "[]" "[]"] show ?thesis
    by (auto simp: svid_pairs_words)
qed

lemma svid_ack_header:
  "vdm_correlates (parseVDMHeader 0xff00a042) Inquiry_DISCOVER_SVIDS (Some (Request_plain Inquiry_DISCOVER_SVIDS plug))"
  "js_and 0xff00a042 32 = 0"
  "version_supported (vh_structuredVersionMajor (parseVDMHeader 0xff00a042))"
  "version_supported (vh_structuredVersionMinor (parseVDMHeader 0xff00a042))"
proof -
  show "vdm_correlates (parseVDMHeader 0xff00a042) Inquiry_DISCOVER_SVIDS (Some (Request_plain Inquiry_DISCOVER_SVIDS plug))"
    unfolding vdm_correlates_def option.case SinkInquiryRequest.case by code_simp
qed code_simp+

lemma svid_words_eq_Nil [simp]: "svid_words svids = [] \<longleftrightarrow> svids = []"
  by (cases svids rule: svid_words.cases) auto

text \<open>What the survey makes of one page.\<close>

lemma svid_partner_answer:
  assumes "svid_range svids"
  defines "page \<equiv> take 12 svids"
  shows "parseDiscoverSvidPage (svid_page_bytes page) = Inr (page, length page < 12)"
    and "\<exists>d. survey_answer (fst (svid_partner (Request_plain Inquiry_DISCOVER_SVIDS plug) svids)) =
       Answer_decoded d (svid_page_bytes page)"
proof -
  let ?ws = "0xff00a042 # (if page = [] then [0] else svid_words page)"
  have r: "svid_range page"
    using assms by (auto dest: in_set_takeD)
  have n: "length page \<le> 12"
    by (simp add: page_def)
  then have l: "2 \<le> length ?ws" "length ?ws \<le> 7"
    by (auto simp: length_svid_words Suc_le_eq)
  have w: "decode_words (svid_page_bytes page) = Inr ?ws"
    unfolding svid_page_bytes_def
    by (rule decode_words_bytes) (use svid_words_range[OF r] in auto)
  have len: "length (svid_page_bytes page) = 4 * length ?ws"
    unfolding svid_page_bytes_def by simp
  have size: "\<not> length (svid_page_bytes page) < 8" "\<not> length (svid_page_bytes page) > 28"
      "length (svid_page_bytes page) mod 4 = 0"
    using l unfolding len by auto
  have "length page = 12 \<or> length page < 12"
    using n by auto
  then show "parseDiscoverSvidPage (svid_page_bytes page) = Inr (page, length page < 12)"
    using size w svid_page_scan[OF r] by (auto simp: parseDiscoverSvidPage_def)
  show "\<exists>d. survey_answer (fst (svid_partner (Request_plain Inquiry_DISCOVER_SVIDS plug) svids)) =
       Answer_decoded d (svid_page_bytes page)"
    using size w svid_page_scan[OF r] svid_ack_header(1)[of plug] svid_ack_header(2-4)
    by (simp add: survey_answer_def svid_partner_def decodeInquiryResponse_def decode_vdm_def Let_def page_def [symmetric])
qed

text \<open>The pages of a partner that still has to list \<open>svids\<close>.\<close>

fun cut_pages :: "nat \<Rightarrow> int list \<Rightarrow> int list list" where
  "cut_pages 0 svids = []"
| "cut_pages (Suc left) svids = take 12 svids # (if length svids < 12 then [] else cut_pages left (drop 12 svids))"

lemma concat_cut_pages: "concat (cut_pages left svids) = take (12 * left) svids"
proof (induction left arbitrary: svids)
  case (Suc left)
  then show ?case
    by (simp add: take_add)
qed simp

lemma svid_pages_partner:
  assumes "svid_range svids"
  shows "\<exists>answers' svids'. svid_pages svid_partner plug pageIndex left pages answers svids =
    (if length svids < 12 * left then Discovery_complete (pageIndex + length svids div 12 + 1) else Discovery_bound,
     pages @ cut_pages left svids, answers @ answers', svids') \<and> length answers' = length (cut_pages left svids)"
  using assms
proof (induction left arbitrary: pageIndex pages answers svids)
  case (Suc left)
  obtain d where a: "survey_answer (fst (svid_partner (Request_plain Inquiry_DISCOVER_SVIDS plug) svids)) =
       Answer_decoded d (svid_page_bytes (take 12 svids))"
    using svid_partner_answer(2)[OF Suc.prems] by auto
  let ?page = "take 12 svids" and ?a = "Answer_decoded d (svid_page_bytes (take 12 svids))"
  have p: "parseDiscoverSvidPage (svid_page_bytes ?page) = Inr (?page, length ?page < 12)"
    by (rule svid_partner_answer(1)[OF Suc.prems])
  have run: "svid_partner (Request_plain Inquiry_DISCOVER_SVIDS plug) svids =
      (fst (svid_partner (Request_plain Inquiry_DISCOVER_SVIDS plug) svids), drop 12 svids)"
    by (simp add: svid_partner_def Let_def)
  have step: "svid_pages svid_partner plug pageIndex (Suc left) pages answers svids =
      (if length svids < 12 then (Discovery_complete (pageIndex + 1), pages @ [?page], answers @ [?a], drop 12 svids)
       else svid_pages svid_partner plug (pageIndex + 1) left (pages @ [?page]) (answers @ [?a]) (drop 12 svids))"
    by (subst svid_pages.simps, subst run) (simp add: a p check_answer_def)
  show ?case
  proof (cases "length svids < 12")
    case True
    then show ?thesis
      unfolding step by auto
  next
    case False
    then have "length svids div 12 = Suc ((length svids - 12) div 12)"
      by (simp add: le_div_geq)
    moreover have "svid_range (drop 12 svids)"
      using Suc.prems by (auto dest: in_set_dropD)
    note Suc.IH[OF this, of "pageIndex + 1" "pages @ [?page]" "answers @ [?a]"]
    ultimately show ?thesis
      using False unfolding step by (auto split: if_splits)
  qed
qed simp

lemma first_occurrences_snoc:
  "first_occurrences (xs @ [x]) = (if x \<in> set xs then first_occurrences xs else first_occurrences xs @ [x])"
  by (simp add: first_occurrences_def)

lemma set_first_occurrences [simp]: "set (first_occurrences xs) = set xs"
  by (simp add: first_occurrences_def)

lemma deduplicate_loop_append:
  "deduplicate_loop result (xs @ ys) = res_bind (deduplicate_loop result xs) (\<lambda>r. deduplicate_loop r ys)"
  by (induction result xs rule: deduplicate_loop.induct) auto

lemma deduplicate_loop_first:
  "svid_range svids \<Longrightarrow> deduplicate_loop [] svids = Inr (first_occurrences svids)"
proof (induction svids rule: rev_induct)
  case Nil
  then show ?case by (simp add: first_occurrences_def)
next
  case (snoc svid svids)
  then show ?case
    by (simp add: deduplicate_loop_append first_occurrences_snoc)
qed

text \<open>C18: the discovery of SVIDs collects everything a port partner lists. For a partner that lists any SVIDs,
  twelve at a time, the survey reports each of them once, in the order of their first listing, with the
  number of pages it took; only a partner with 96 or more is cut off, after exactly eight requests, and that
  is reported as the safety bound.\<close>

theorem surveyPortPartnerSvids_collects:
  assumes "svid_range svids"
  shows "\<exists>answers pages. fst (surveyPortPartnerSvids svid_partner plug svids) =
    Inr (if length svids < 96 then Discovery_complete (length svids div 12 + 1) else Discovery_bound,
         first_occurrences (take 96 svids), page_of_svid pages, answers) \<and>
    concat pages = take 96 svids \<and> length answers = min 8 (length svids div 12 + 1)"
proof -
  obtain answers svids' where "svid_pages svid_partner plug 0 8 [] [] svids =
    (if length svids < 96 then Discovery_complete (length svids div 12 + 1) else Discovery_bound,
     cut_pages 8 svids, answers, svids')" "length answers = length (cut_pages 8 svids)"
    using svid_pages_partner[OF assms, of plug 0 8 "[]" "[]"] by auto
  moreover have "deduplicateOrderedSvids (cut_pages 8 svids) = Inr (first_occurrences (take 96 svids))"
    unfolding deduplicateOrderedSvids_def concat_cut_pages
    by (simp, rule deduplicate_loop_first) (use assms in \<open>auto dest: in_set_takeD\<close>)
  moreover have "length (cut_pages left svids) = (if left = 0 then 0 else min left (length svids div 12 + 1))" for left
  proof (induction left arbitrary: svids)
    case (Suc left)
    show ?case
    proof (cases "length svids < 12")
      case False
      then have "length svids div 12 = Suc ((length svids - 12) div 12)"
        by (simp add: le_div_geq)
      with False Suc.IH[of "drop 12 svids"] show ?thesis by auto
    qed simp
  qed simp
  ultimately show ?thesis
    using concat_cut_pages[of 8 svids] by (auto simp: surveyPortPartnerSvids_def)
qed

lemma surveyPortPartnerSvids_collects_witness:
  "\<exists>more. fst (surveyPortPartnerSvids svid_partner None [0xff01, 0x8087, 0xff01]) =
     Inr (Discovery_complete 1, [0xff01, 0x8087], more)"
proof -
  have "first_occurrences (take 96 [0xff01, 0x8087, 0xff01 :: int]) = [0xff01, 0x8087]"
    by code_simp
  then show ?thesis
    using surveyPortPartnerSvids_collects[of "[0xff01, 0x8087, 0xff01]" None] by auto
qed

section \<open>Surveys of advertised items\<close>

text \<open>A runner that keeps the requests made.\<close>

definition logged_run :: "'s inquiry_runner \<Rightarrow> (SinkInquiryRequest list \<times> 's) inquiry_runner" where
  "logged_run run request = (\<lambda>(made, s). case run request s of (result, s') \<Rightarrow> (result, (made @ [request], s')))"

lemma ask_each_logged:
  "ask_each (logged_run run) request check items (made, s) = (answers, (made', s')) \<Longrightarrow>
     map fst answers = items \<and> made' = made @ map request items"
proof (induction items arbitrary: made s answers made' s')
  case (Cons item items)
  obtain result s1 where r: "logged_run run (request item) (made, s) = (result, (made @ [request item], s1))"
    by (cases "run (request item) s") (simp add: logged_run_def)
  obtain more made2 s2 where m: "ask_each (logged_run run) request check items (made @ [request item], s1) = (more, (made2, s2))"
    by (metis prod.exhaust)
  from Cons.IH[OF m] Cons.prems r m show ?case
    by auto
qed simp

lemma survey_with_logged:
  assumes "survey_with (logged_run run) discover found request check ([], s) = (result, (made, s'))"
  shows "made = discover # map request (sv_items result)" "map fst (sv_answers result) = sv_items result"
    and "sv_items result = [] \<or> (\<exists>d raw. sv_discovery result = Answer_decoded d raw \<and> found raw = Inr (sv_items result))"
  using assms
  by (auto simp: survey_with_def logged_run_def [of run discover] ask_each_logged
      split: prod.splits sum.splits survey_answer.splits dest: ask_each_logged)

lemma batteryReferences_range:
  assumes "batteryReferencesFromScedb body = Inr references"
  shows "sorted references" "distinct references" "set references \<subseteq> {0..7}"
proof -
  obtain m n :: nat where r: "references = map int [0..<m] @ map (\<lambda>i. int i + 4) [0..<n]" "m \<le> 4" "n \<le> 4"
    using assms unfolding batteryReferencesFromScedb_def
    by (auto simp: res_bind_Inr_iff nat_le_iff split: if_splits)
  have "sorted (map int [0..<m])" "sorted (map (\<lambda>i. int i + 4) [0..<n])"
    by (simp_all add: sorted_wrt_map sorted_map flip: sorted_wrt_upt) 
  then show "sorted references"
    unfolding r(1) using r(2) by (auto simp: sorted_append)
  show "distinct references"
    unfolding r(1) using r(2) by (auto simp: distinct_map inj_on_def)
  show "set references \<subseteq> {0..7}"
    unfolding r(1) using r(2,3) by auto
qed

lemma advertised_countries_range:
  assumes "advertised_countries body = Inr codes"
  shows "length codes \<le> 12" "\<forall>code \<in> set codes. alpha2 code"
  using assms
  by (auto simp: advertised_countries_def buildCountryInfoSteps_def expandBoundedFanOut_def Let_def res_bind_Inr_iff
      integer_in_def split: if_splits sum.splits)

text \<open>A survey makes exactly one discovery request and then one request for each advertised item, in order,
  whatever the answers are: a failed or malformed answer is recorded for its item and does not stop the
  others, and a failed discovery leads to no further request. The batteries asked for are distinct references
  from 0 to 7, the countries at most twelve two-letter codes.\<close>

lemma surveys_cover_items:
  "(case surveyBatteryCapabilities (logged_run run) ([], s) of (result, (made, s')) \<Rightarrow>
     made = Request_plain Inquiry_GET_SOURCE_CAP_EXTENDED None #
       map (\<lambda>ref. Request_battery_cap (Decimal ref 0)) (sv_items result) \<and>
     map fst (sv_answers result) = sv_items result \<and>
     sorted (sv_items result) \<and> distinct (sv_items result) \<and> set (sv_items result) \<subseteq> {0..7}) \<and>
   (case surveyCountryInformation (logged_run run) ([], s) of (result, (made, s')) \<Rightarrow>
     made = Request_plain Inquiry_GET_COUNTRY_CODES None # map Request_country (sv_items result) \<and>
     map fst (sv_answers result) = sv_items result \<and>
     length (sv_items result) \<le> 12 \<and> (\<forall>code \<in> set (sv_items result). alpha2 code))"
proof -
  obtain result made s' where b: "surveyBatteryCapabilities (logged_run run) ([], s) = (result, (made, s'))"
    by (metis prod.exhaust)
  obtain result' made' s'' where c: "surveyCountryInformation (logged_run run) ([], s) = (result', (made', s''))"
    by (metis prod.exhaust)
  note bl = survey_with_logged[OF b[unfolded surveyBatteryCapabilities_def]]
    and cl = survey_with_logged[OF c[unfolded surveyCountryInformation_def]]
  have "sorted (sv_items result) \<and> distinct (sv_items result) \<and> set (sv_items result) \<subseteq> {0..7}"
    using bl(3) by (auto dest: batteryReferences_range)
  moreover have "length (sv_items result') \<le> 12 \<and> (\<forall>code \<in> set (sv_items result'). alpha2 code)"
    using cl(3) by (auto dest: advertised_countries_range)
  ultimately show ?thesis
    using bl(1,2) cl(1,2) by (simp add: b c)
qed

end
