(* ===== verification/Auth_Workflow.thy ===== *)
theory Auth_Workflow
  imports Inquiry_Runner
begin

text \<open>
  USB Type-C Authentication of the port partner: the readers of the Security responses in
  \<open>features/rack/inquiries/authWorkflow.ts\<close> and the workflow that asks for the digests, reads the certificate
  chain of each selected slot part by part, and challenges the slot. The runner, the caller's decisions,
  the nonce source and the verifier are parameters with a state of their own.
\<close>

section \<open>Failures and results\<close>

definition AUTH_MAX_CHAIN_BYTES :: nat where "AUTH_MAX_CHAIN_BYTES = 4096"
definition AUTH_MAX_CERT_PART_BYTES :: nat where "AUTH_MAX_CERT_PART_BYTES = 256"
definition AUTH_MAX_CERT_PARTS :: nat where "AUTH_MAX_CERT_PARTS = 17"

datatype auth_layer = Layer_transport | Layer_protocol | Layer_cryptographic | Layer_trust | Layer_policy

datatype auth_message =
    Auth_text string
  | Auth_unsupported_version int
  | Auth_error_code int int
  | Auth_unexpected_type int
  | Auth_run_error run_error
  | Auth_outcome SinkInquiryOutcome
  | Auth_ended InquiryRunState

record AuthenticationFailure =
  af_layer :: auth_layer
  af_message :: auth_message

datatype AuthenticationControl = Auth_retry | Auth_continue | Auth_stop

datatype auth_step = Step_digests | Step_certificate | Step_challenge

record AuthenticationAttempt =
  at_step :: auth_step
  at_slot :: "nat option"
  at_offset :: "nat option"
  at_attempt :: nat
  at_request :: SinkInquiryRequest
  at_result :: InquiryRunState
  at_failure :: "AuthenticationFailure option"

datatype cryptographic_verdict = Crypto_verified | Crypto_failed | Crypto_not_checked
datatype trust_verdict = Trust_trusted | Trust_untrusted | Trust_missing_anchor | Trust_not_checked
datatype policy_verdict = Policy_allowed | Policy_denied | Policy_unknown | Policy_not_checked

record AuthenticationVerification =
  av_cryptographic :: cryptographic_verdict
  av_trust :: trust_verdict
  av_policy :: policy_verdict
  av_failure :: "AuthenticationFailure option"

record AuthenticationSlotResult =
  sr_slot :: nat
  sr_digest :: bytes
  sr_certificateChain :: "bytes option"
  sr_challengeResponse :: "bytes option"
  sr_verification :: "AuthenticationVerification option"
  sr_failure :: "AuthenticationFailure option"

record AuthenticationWorkflowResult =
  wr_phase :: workflow_phase
  wr_slotMask :: "int option"
  wr_slots :: "AuthenticationSlotResult list"
  wr_history :: "AuthenticationAttempt list"

record auth_evidence =
  ev_slot :: nat
  ev_digest :: bytes
  ev_certificateChain :: bytes
  ev_nonce :: bytes
  ev_challengeResponse :: bytes
  ev_slotMask :: int

record 's AuthenticationWorkflowOptions =
  ao_run :: "SinkInquiryRequest \<Rightarrow> 's \<Rightarrow> InquiryRunState \<times> 's"
  ao_selectSlots :: "nat list \<Rightarrow> nat list"
  ao_decide :: "AuthenticationFailure \<Rightarrow> AuthenticationAttempt \<Rightarrow> AuthenticationControl"
  ao_nonce :: "'s \<Rightarrow> bytes \<times> 's"
  ao_verify :: "auth_evidence \<Rightarrow> 's \<Rightarrow> AuthenticationVerification \<times> 's"
  ao_maxRetriesPerStep :: "nat option"

section \<open>The readers of the responses\<close>

definition protocolFailure :: "auth_message \<Rightarrow> AuthenticationFailure" where
  "protocolFailure message = \<lparr>af_layer = Layer_protocol, af_message = message\<rparr>"

definition parseHeader :: "bytes \<Rightarrow> int \<Rightarrow> AuthenticationFailure option" where
  "parseHeader raw expectedType =
     (if length raw < 4 then
        Some (protocolFailure (Auth_text ''Authentication response is shorter than its 4-byte header''))
      else if byte_at raw 0 \<noteq> 0x10 \<and> byte_at raw 0 \<noteq> 0x01 then
        Some (protocolFailure (Auth_unsupported_version (byte_at raw 0)))
      else if byte_at raw 1 = 0x7f then
        (if length raw \<noteq> 4 then Some (protocolFailure (Auth_text ''Authentication ERROR response must be exactly 4 bytes''))
         else Some (protocolFailure (Auth_error_code (byte_at raw 2) (byte_at raw 3))))
      else if byte_at raw 1 \<noteq> expectedType then Some (protocolFailure (Auth_unexpected_type (byte_at raw 1)))
      else None)"

definition after_header :: "bytes \<Rightarrow> int \<Rightarrow> AuthenticationFailure + 'a \<Rightarrow> AuthenticationFailure + 'a" where
  "after_header raw expectedType body =
     (case parseHeader raw expectedType of Some failure \<Rightarrow> Inl failure | None \<Rightarrow> body)"

definition mask_has :: "int \<Rightarrow> nat \<Rightarrow> bool" where
  "mask_has slotMask slot \<longleftrightarrow> js_and slotMask (js_shl 1 (int slot)) \<noteq> 0"

definition mask_slots :: "int \<Rightarrow> nat list" where
  "mask_slots slotMask = filter (mask_has slotMask) [0..<8]"

definition parseDigestsResponse :: "bytes \<Rightarrow> AuthenticationFailure + int \<times> (nat \<times> bytes) list" where
  "parseDigestsResponse raw =
     after_header raw 0x01
       (if byte_at raw 2 \<noteq> 0x01 then Inl (protocolFailure (Auth_text ''DIGESTS capabilities must be 0x01''))
        else let slotMask = byte_at raw 3; slots = mask_slots slotMask in
          if length raw \<noteq> 4 + length slots * 32 then
            Inl (protocolFailure (Auth_text ''DIGESTS length does not match slot mask''))
          else Inr (slotMask, map (\<lambda>(slot, index). (slot, sub_array raw (4 + index * 32) (36 + index * 32)))
                 (zip slots [0..<length slots])))"

definition parseCertificateResponse :: "bytes \<Rightarrow> nat \<Rightarrow> nat \<Rightarrow> AuthenticationFailure + bytes" where
  "parseCertificateResponse raw slot expectedLength =
     after_header raw 0x02
       (if byte_at raw 2 \<noteq> int slot \<or> byte_at raw 3 \<noteq> 0 then
          Inl (protocolFailure (Auth_text ''CERTIFICATE slot or reserved field does not match request''))
        else if length raw \<noteq> 4 + expectedLength then
          Inl (protocolFailure (Auth_text ''CERTIFICATE payload length does not match requested length''))
        else Inr (drop 4 raw))"

definition parseChallengeResponse :: "bytes \<Rightarrow> nat \<Rightarrow> int \<Rightarrow> AuthenticationFailure + bytes" where
  "parseChallengeResponse raw slot digestMask =
     after_header raw 0x03
       (if length raw \<noteq> 168 then Inl (protocolFailure (Auth_text ''CHALLENGE_AUTH must be exactly 168 bytes''))
        else if byte_at raw 2 \<noteq> int slot \<or> \<not> mask_has (byte_at raw 3) slot then
          Inl (protocolFailure (Auth_text ''CHALLENGE_AUTH does not identify the selected populated slot''))
        else if byte_at raw 3 \<noteq> digestMask then
          Inl (protocolFailure (Auth_text ''CHALLENGE_AUTH slot mask changed after DIGESTS''))
        else if byte_at raw 4 \<notin> {0x10, 0x01} \<or> byte_at raw 5 \<notin> {0x10, 0x01} \<or> byte_at raw 6 \<noteq> 0x01 \<or> byte_at raw 7 \<noteq> 0 then
          Inl (protocolFailure (Auth_text ''CHALLENGE_AUTH version, capabilities, or reserved fields are invalid''))
        else if \<exists>b \<in> set (sub_array raw 72 104). b \<noteq> 0 then
          Inl (protocolFailure (Auth_text ''PD Source CHALLENGE_AUTH context hash must be zero''))
        else Inr raw)"

definition failureFromResult :: "InquiryRunState \<Rightarrow> AuthenticationFailure option" where
  "failureFromResult result =
     (case result of
        Run_response status raw request \<Rightarrow> None
      | Run_transportError typ e \<Rightarrow> Some \<lparr>af_layer = Layer_transport, af_message = Auth_run_error e\<rparr>
      | Run_terminal status raw \<Rightarrow> Some \<lparr>af_layer = Layer_transport, af_message = Auth_outcome (is_outcome status)\<rparr>
      | _ \<Rightarrow> Some \<lparr>af_layer = Layer_transport, af_message = Auth_ended result\<rparr>)"

section \<open>One step with its retries\<close>

type_synonym auth_history = "AuthenticationAttempt list"

text \<open>The response's body, or \<open>None\<close> when the step is given up.\<close>

fun execute_attempts ::
  "'s AuthenticationWorkflowOptions \<Rightarrow> auth_step \<Rightarrow> SinkInquiryRequest \<Rightarrow> nat option \<Rightarrow> nat option \<Rightarrow> nat \<Rightarrow> nat \<Rightarrow>
   auth_history \<Rightarrow> 's \<Rightarrow> bytes option \<times> auth_history \<times> 's" where
  "execute_attempts options step request slot offset attempt left history s =
     (case ao_run options request s of (result, s') \<Rightarrow>
        let failure = failureFromResult result;
            entry = \<lparr>at_step = step, at_slot = slot, at_offset = offset, at_attempt = attempt, at_request = request,
                     at_result = result, at_failure = failure\<rparr>;
            history' = history @ [entry]
        in case failure of
             None \<Rightarrow> (case result of Run_response status raw req \<Rightarrow> (Some raw, history', s') | _ \<Rightarrow> (None, history', s'))
           | Some f \<Rightarrow>
               if ao_decide options f entry \<noteq> Auth_retry then (None, history', s')
               else (case left of
                   0 \<Rightarrow> (None, history', s')
                 | Suc left' \<Rightarrow> execute_attempts options step request slot offset (attempt + 1) left' history' s'))"

declare execute_attempts.simps [simp del]

definition auth_execute ::
  "'s AuthenticationWorkflowOptions \<Rightarrow> auth_step \<Rightarrow> SinkInquiryRequest \<Rightarrow> nat option \<Rightarrow> nat option \<Rightarrow>
   auth_history \<Rightarrow> 's \<Rightarrow> bytes option \<times> auth_history \<times> 's" where
  "auth_execute options step request slot offset =
     execute_attempts options step request slot offset 1
       (case ao_maxRetriesPerStep options of None \<Rightarrow> 2 | Some n \<Rightarrow> n)"

definition set_last_failure :: "AuthenticationFailure \<Rightarrow> auth_history \<Rightarrow> auth_history" where
  "set_last_failure failure history = butlast history @ [last history \<lparr>at_failure := Some failure\<rparr>]"

definition last_failure :: "auth_history \<Rightarrow> AuthenticationFailure option" where
  "last_failure history = at_failure (last history)"

section \<open>The certificate chain\<close>

text \<open>The loop over the parts. \<open>chain\<close> is the filled part of the buffer, so its length is the offset. The first
  request reads the header and the root hash; the length in it fixes the rest.\<close>

definition part_length :: "nat option \<Rightarrow> nat \<Rightarrow> nat" where
  "part_length totalLength offset =
     (case totalLength of None \<Rightarrow> 36 | Some chainLength \<Rightarrow> min AUTH_MAX_CERT_PART_BYTES (chainLength - offset))"

definition certificate_request :: "nat \<Rightarrow> nat \<Rightarrow> nat \<Rightarrow> SinkInquiryRequest" where
  "certificate_request slot offset len =
     Request_certificate (Decimal (int slot) 0) (Decimal (int offset) 0) (Decimal (int len) 0)"

text \<open>What the loop does with a part: the extended chain with the total length, or the failure.\<close>

definition accept_part ::
  "nat \<Rightarrow> bytes \<Rightarrow> nat option \<Rightarrow> nat \<Rightarrow> bytes \<Rightarrow> AuthenticationFailure + bytes \<times> nat" where
  "accept_part slot chain totalLength parts raw =
     res_bind (parseCertificateResponse raw slot (part_length totalLength (length chain))) (\<lambda>part.
       let chain' = chain @ part;
           chainLength = (if parts = 0 then nat (js_or (byte_at chain' 0) (js_shl (byte_at chain' 1) 8)) else the totalLength)
       in if parts = 0 \<and> (chainLength < 37 \<or> chainLength > AUTH_MAX_CHAIN_BYTES) then
            Inl (protocolFailure (Auth_text ''Certificate chain length is outside 37..4096 bytes''))
          else if parts + 1 > AUTH_MAX_CERT_PARTS then
            Inl (protocolFailure (Auth_text ''Certificate retrieval exceeded 17 parts''))
          else Inr (chain', chainLength))"

lemma accept_part_progress:
  assumes "accept_part slot chain (Some chainLength) parts raw = Inr (chain', chainLength')" "length chain < chainLength" "0 < parts"
  shows "chainLength' = chainLength" "length chain < length chain'"
  using assms
  by (auto simp: accept_part_def parseCertificateResponse_def after_header_def part_length_def
      AUTH_MAX_CERT_PART_BYTES_def Let_def res_bind_Inr_iff split: option.splits if_splits)

function fetch_chain ::
  "'s AuthenticationWorkflowOptions \<Rightarrow> nat \<Rightarrow> bytes \<Rightarrow> nat \<Rightarrow> nat \<Rightarrow> auth_history \<Rightarrow> 's \<Rightarrow>
   (AuthenticationFailure option + bytes) \<times> auth_history \<times> 's" where
  "fetch_chain options slot chain chainLength parts history s =
     (if parts = 0 \<or> \<not> length chain < chainLength then (Inr (take chainLength chain), history, s)
      else (case auth_execute options Step_certificate
              (certificate_request slot (length chain) (part_length (Some chainLength) (length chain)))
              (Some slot) (Some (length chain)) history s of
        (None, history', s') \<Rightarrow> (Inl (last_failure history'), history', s')
      | (Some raw, history', s') \<Rightarrow>
          (case accept_part slot chain (Some chainLength) parts raw of
             Inl failure \<Rightarrow> (Inl (Some failure), set_last_failure failure history', s')
           | Inr (chain', chainLength') \<Rightarrow> fetch_chain options slot chain' chainLength' (parts + 1) history' s')))"
  by pat_completeness auto

termination
  by (relation "measure (\<lambda>(options, slot, chain, chainLength, parts, history, s). chainLength - length chain)")
    (auto, metis accept_part_progress diff_less_mono2)

declare fetch_chain.simps [simp del]

text \<open>The whole retrieval: the first part, whose length is not known yet, then the loop.\<close>

definition fetch_certificate ::
  "'s AuthenticationWorkflowOptions \<Rightarrow> nat \<Rightarrow> auth_history \<Rightarrow> 's \<Rightarrow>
   (AuthenticationFailure option + bytes) \<times> auth_history \<times> 's" where
  "fetch_certificate options slot history s =
     (case auth_execute options Step_certificate (certificate_request slot 0 (part_length None 0))
        (Some slot) (Some 0) history s of
        (None, history', s') \<Rightarrow> (Inl (last_failure history'), history', s')
      | (Some raw, history', s') \<Rightarrow>
          (case accept_part slot [] None 0 raw of
             Inl failure \<Rightarrow> (Inl (Some failure), set_last_failure failure history', s')
           | Inr (chain, chainLength) \<Rightarrow> fetch_chain options slot chain chainLength 1 history' s'))"

section \<open>One slot\<close>

definition new_slot_result :: "nat \<Rightarrow> bytes \<Rightarrow> AuthenticationSlotResult" where
  "new_slot_result slot digest =
     \<lparr>sr_slot = slot, sr_digest = digest, sr_certificateChain = None, sr_challengeResponse = None,
      sr_verification = None, sr_failure = None\<rparr>"

text \<open>The end of a slot that failed: the caller is asked whether the workflow goes on with the next one.\<close>

definition after_slot_failure ::
  "'s AuthenticationWorkflowOptions \<Rightarrow> AuthenticationSlotResult \<Rightarrow> auth_history \<Rightarrow> 's \<Rightarrow>
   bool \<times> AuthenticationSlotResult \<times> auth_history \<times> 's" where
  "after_slot_failure options slotResult history s =
     (case sr_failure slotResult of
        Some failure \<Rightarrow> (ao_decide options failure (last history) = Auth_continue, slotResult, history, s)
      | None \<Rightarrow> (False, slotResult, history, s))"

definition authenticate_slot ::
  "'s AuthenticationWorkflowOptions \<Rightarrow> int \<Rightarrow> nat \<Rightarrow> bytes \<Rightarrow> auth_history \<Rightarrow> 's \<Rightarrow>
   bool \<times> AuthenticationSlotResult \<times> auth_history \<times> 's" where
  "authenticate_slot options slotMask slot digest history s =
     (let slotResult = new_slot_result slot digest in
      case fetch_certificate options slot history s of
        (Inl failure, history1, s1) \<Rightarrow> after_slot_failure options (slotResult\<lparr>sr_failure := failure\<rparr>) history1 s1
      | (Inr chain, history1, s1) \<Rightarrow>
          let slotResult = slotResult\<lparr>sr_certificateChain := Some chain\<rparr>; (nonce, s2) = ao_nonce options s1 in
          if length nonce \<noteq> 32 then
            (False, slotResult\<lparr>sr_failure := Some \<lparr>af_layer = Layer_cryptographic,
               af_message = Auth_text ''Nonce generator must return exactly 32 bytes''\<rparr>\<rparr>, history1, s2)
          else (case auth_execute options Step_challenge (Request_challenge (Decimal (int slot) 0) nonce)
                  (Some slot) None history1 s2 of
            (None, history2, s3) \<Rightarrow>
              after_slot_failure options (slotResult\<lparr>sr_failure := last_failure history2\<rparr>) history2 s3
          | (Some raw, history2, s3) \<Rightarrow>
              (case parseChallengeResponse raw slot slotMask of
                 Inl failure \<Rightarrow>
                   after_slot_failure options (slotResult\<lparr>sr_failure := Some failure\<rparr>)
                     (set_last_failure failure history2) s3
               | Inr response \<Rightarrow>
                   (case ao_verify options
                       \<lparr>ev_slot = slot, ev_digest = digest, ev_certificateChain = chain, ev_nonce = nonce,
                        ev_challengeResponse = response, ev_slotMask = slotMask\<rparr> s3 of
                      (verification, s4) \<Rightarrow>
                        (True, slotResult\<lparr>sr_challengeResponse := Some response, sr_verification := Some verification,
                           sr_failure := av_failure verification\<rparr>, history2, s4)))))"

fun authenticate_slots ::
  "'s AuthenticationWorkflowOptions \<Rightarrow> int \<Rightarrow> (nat \<Rightarrow> bytes) \<Rightarrow> nat list \<Rightarrow> AuthenticationSlotResult list \<Rightarrow>
   auth_history \<Rightarrow> 's \<Rightarrow> AuthenticationWorkflowResult \<times> 's" where
  "authenticate_slots options slotMask digest [] slots history s =
     (\<lparr>wr_phase = Workflow_completed, wr_slotMask = Some slotMask, wr_slots = slots, wr_history = history\<rparr>, s)"
| "authenticate_slots options slotMask digest (slot # selected) slots history s =
     (case authenticate_slot options slotMask slot (digest slot) history s of (go_on, slotResult, history', s') \<Rightarrow>
        if go_on then authenticate_slots options slotMask digest selected (slots @ [slotResult]) history' s'
        else (\<lparr>wr_phase = Workflow_stopped, wr_slotMask = Some slotMask, wr_slots = slots @ [slotResult],
               wr_history = history'\<rparr>, s'))"

section \<open>The workflow\<close>

definition runAuthenticationWorkflow ::
  "'s AuthenticationWorkflowOptions \<Rightarrow> 's \<Rightarrow> AuthenticationWorkflowResult \<times> 's" where
  "runAuthenticationWorkflow options s =
     (case auth_execute options Step_digests (Request_plain Inquiry_GET_DIGESTS None) None None [] s of
        (None, history, s1) \<Rightarrow>
          (\<lparr>wr_phase = Workflow_stopped, wr_slotMask = None, wr_slots = [], wr_history = history\<rparr>, s1)
      | (Some raw, history, s1) \<Rightarrow>
          (case parseDigestsResponse raw of
             Inl failure \<Rightarrow>
               (\<lparr>wr_phase = Workflow_stopped, wr_slotMask = None, wr_slots = [],
                 wr_history = set_last_failure failure history\<rparr>, s1)
           | Inr (slotMask, digests) \<Rightarrow>
               let selected = ao_selectSlots options (map fst digests) in
               if selected = [] \<or> \<not> set selected \<subseteq> set (map fst digests) \<or> \<not> distinct selected then
                 (\<lparr>wr_phase = Workflow_stopped, wr_slotMask = Some slotMask, wr_slots = [],
                   wr_history = set_last_failure
                     (protocolFailure (Auth_text ''Slot selection must contain unique populated slots'')) history\<rparr>, s1)
               else authenticate_slots options slotMask (\<lambda>slot. the (map_of digests slot)) selected [] history s1))"

end
