(* ===== verification/Auth_Workflow_Laws.thy ===== *)
theory Auth_Workflow_Laws
  imports Auth_Workflow Drpd_Groups_Laws
begin

text \<open>
  The authentication workflow only makes requests that the sink group accepts, a bounded number of them, and
  reports a verdict only for complete evidence (\<open>runAuthenticationWorkflow_bounded\<close>); from a partner that
  answers, a certificate chain is read byte for byte (\<open>fetch_certificate_reads_chain\<close>).
\<close>

section \<open>Steps\<close>

definition step_tries :: "'s AuthenticationWorkflowOptions \<Rightarrow> nat" where
  "step_tries options = (case ao_maxRetriesPerStep options of None \<Rightarrow> 3 | Some n \<Rightarrow> n + 1)"

text \<open>A history grows by attempts of valid requests, at most \<open>n\<close> of them.\<close>

definition history_grows :: "nat \<Rightarrow> auth_history \<Rightarrow> auth_history \<Rightarrow> bool" where
  "history_grows n history history' \<longleftrightarrow>
     (\<exists>made. map at_request history' = map at_request history @ made \<and> length made \<le> n \<and>
        (\<forall>request \<in> set made. valid_inquiry request))"

lemma history_grows_refl [simp]: "history_grows n history history"
  by (simp add: history_grows_def)

lemma history_grows_trans:
  assumes "history_grows m h1 h2" "history_grows n h2 h3"
  shows "history_grows (m + n) h1 h3"
proof -
  obtain xs ys where "map at_request h2 = map at_request h1 @ xs" "length xs \<le> m" "\<forall>request \<in> set xs. valid_inquiry request"
      "map at_request h3 = map at_request h2 @ ys" "length ys \<le> n" "\<forall>request \<in> set ys. valid_inquiry request"
    using assms by (auto simp: history_grows_def)
  then show ?thesis
    unfolding history_grows_def by (intro exI[of _ "xs @ ys"]) auto
qed

lemma history_grows_mono: "history_grows m history history' \<Longrightarrow> m \<le> n \<Longrightarrow> history_grows n history history'"
  by (auto simp: history_grows_def)

lemma history_grows_Nil:
  "history_grows n [] history \<longleftrightarrow> length history \<le> n \<and> (\<forall>entry \<in> set history. valid_inquiry (at_request entry))"
  by (auto simp: history_grows_def dest: arg_cong[of _ "map at_request history" length])

lemma execute_attempts_grows:
  assumes "execute_attempts options step request slot offset attempt left history s = (r, history', s')"
  shows "\<exists>entries. history' = history @ entries \<and> entries \<noteq> [] \<and> length entries \<le> left + 1 \<and>
     (\<forall>entry \<in> set entries. at_request entry = request)"
  using assms
proof (induction left arbitrary: attempt history s)
  case 0
  then show ?case
    by (subst (asm) execute_attempts.simps)
      (auto simp: Let_def split: prod.splits option.splits InquiryRunState.splits if_splits)
next
  case (Suc left)
  show ?case
  proof -
    obtain result s1 where run: "ao_run options request s = (result, s1)"
      by (cases "ao_run options request s")
    let ?entry = "\<lparr>at_step = step, at_slot = slot, at_offset = offset, at_attempt = attempt, at_request = request,
                     at_result = result, at_failure = failureFromResult result\<rparr>"
    show ?thesis
    proof (cases "\<exists>f. failureFromResult result = Some f \<and> ao_decide options f ?entry = Auth_retry")
      case True
      then have "execute_attempts options step request slot offset (attempt + 1) left (history @ [?entry]) s1 = (r, history', s')"
        using Suc.prems run by (subst (asm) execute_attempts.simps) (auto simp: Let_def)
      from Suc.IH[OF this] show ?thesis by force
    next
      case False
      then show ?thesis
        using Suc.prems run by (subst (asm) execute_attempts.simps)
          (auto simp: Let_def split: option.splits InquiryRunState.splits if_splits)
    qed
  qed
qed

lemma auth_execute_grows:
  assumes "auth_execute options step request slot offset history s = (r, history', s')" "valid_inquiry request"
  shows "history_grows (step_tries options) history history'" "length history < length history'"
proof -
  obtain entries where "history' = history @ entries" "entries \<noteq> []" "length entries \<le> step_tries options"
     "\<forall>entry \<in> set entries. at_request entry = request"
    using execute_attempts_grows[OF assms(1)[unfolded auth_execute_def]]
    by (auto simp: step_tries_def split: option.splits)
  then show "history_grows (step_tries options) history history'" "length history < length history'"
    using assms(2) unfolding history_grows_def
    by (auto intro!: exI[of _ "map at_request entries"])
qed

lemma set_last_failure_requests: "history \<noteq> [] \<Longrightarrow> map at_request (set_last_failure failure history) = map at_request history"
  by (induction history rule: rev_induct) (simp_all add: set_last_failure_def)

lemma set_last_failure_grows:
  "history_grows n history history' \<Longrightarrow> history' \<noteq> [] \<Longrightarrow> history_grows n history (set_last_failure failure history')"
  by (simp add: history_grows_def set_last_failure_requests)

section \<open>Certificates\<close>

lemma part_length_bounds:
  assumes "offset < chainLength" "chainLength \<le> 4096"
  shows "1 \<le> part_length (Some chainLength) offset" "part_length (Some chainLength) offset \<le> 256"
    "offset + part_length (Some chainLength) offset \<le> chainLength"
  using assms by (auto simp: part_length_def AUTH_MAX_CERT_PART_BYTES_def)

lemma certificate_request_valid:
  "slot < 8 \<Longrightarrow> 1 \<le> len \<Longrightarrow> len \<le> 256 \<Longrightarrow> offset + len \<le> 4096 \<Longrightarrow>
     valid_inquiry (certificate_request slot offset len)"
  by (auto simp: certificate_request_def)

text \<open>Every part but the last is 256 bytes long, so the seventeenth part ends the longest chain: the check on the
  number of parts never fails.\<close>

definition full_parts :: "nat \<Rightarrow> bytes \<Rightarrow> nat \<Rightarrow> bool" where
  "full_parts chainLength chain parts \<longleftrightarrow>
     1 \<le> parts \<and> chainLength \<le> 4096 \<and> length chain \<le> chainLength \<and>
     (length chain < chainLength \<longrightarrow> length chain = 36 + 256 * (parts - 1)) \<and> parts \<le> 17"

lemma accept_part_first:
  assumes "accept_part slot [] None 0 raw = Inr (chain, chainLength)"
  shows "full_parts chainLength chain 1" "37 \<le> chainLength" "length chain = 36"
  using assms
  by (auto simp: accept_part_def parseCertificateResponse_def after_header_def part_length_def full_parts_def
      AUTH_MAX_CHAIN_BYTES_def Let_def res_bind_Inr_iff split: option.splits if_splits)

lemma accept_part_next:
  assumes "full_parts chainLength chain parts" "length chain < chainLength"
    "accept_part slot chain (Some chainLength) parts raw = Inr (chain', chainLength')"
  shows "full_parts chainLength chain' (parts + 1)" "chainLength' = chainLength"
proof -
  let ?n = "part_length (Some chainLength) (length chain)"
  have l: "length chain' = length chain + ?n" "chainLength' = chainLength"
    using assms(1,3)
    by (auto simp: accept_part_def parseCertificateResponse_def after_header_def full_parts_def
        Let_def res_bind_Inr_iff split: option.splits if_splits)
  have c: "length chain = 36 + 256 * (parts - 1)" "1 \<le> parts" "chainLength \<le> 4096"
    using assms(1,2) by (auto simp: full_parts_def)
  have "?n = 256 \<or> length chain + ?n = chainLength"
    using assms(2) by (auto simp: part_length_def AUTH_MAX_CERT_PART_BYTES_def min_def)
  moreover have "parts \<le> 16"
    using c assms(2) by linarith
  ultimately show "full_parts chainLength chain' (parts + 1)"
    using c l part_length_bounds(3)[OF assms(2)] by (auto simp: full_parts_def)
  show "chainLength' = chainLength"
    by (rule l(2))
qed

lemma accept_part_never_17:
  assumes "full_parts chainLength chain parts" "length chain < chainLength"
  shows "accept_part slot chain (Some chainLength) parts raw \<noteq>
    Inl (protocolFailure (Auth_text ''Certificate retrieval exceeded 17 parts''))"
proof -
  have "parts \<le> 16"
    using assms by (auto simp: full_parts_def)
  then show ?thesis
    using assms(1)
    by (auto simp: accept_part_def parseCertificateResponse_def after_header_def full_parts_def parseHeader_def
        AUTH_MAX_CERT_PARTS_def protocolFailure_def Let_def split: option.splits if_splits)
qed

text \<open>The retrieval makes a bounded number of valid requests, and the chain it returns has the length the chain's
  own header announces.\<close>

definition chain_complete :: "bytes \<Rightarrow> bool" where
  "chain_complete chain \<longleftrightarrow> 37 \<le> length chain \<and> length chain \<le> 4096 \<and>
     int (length chain) = byte_at chain 0 + 256 * byte_at chain 1"

lemma fetch_chain_grows:
  assumes "full_parts chainLength chain parts" "slot < 8"
    "fetch_chain options slot chain chainLength parts history s = (r, history', s')"
  shows "history_grows (step_tries options * (17 - parts)) history history'"
    and "r = Inr chain' \<Longrightarrow> \<exists>more. chain' = chain @ more \<and> length chain' = chainLength"
proof -
  have "history_grows (step_tries options * (17 - parts)) history history' \<and>
     (\<forall>chain'. r = Inr chain' \<longrightarrow> (\<exists>more. chain' = chain @ more \<and> length chain' = chainLength))"
    using assms
  proof (induction options slot chain chainLength parts history s rule: fetch_chain.induct)
    case (1 options slot chain chainLength parts history s)
    show ?case
    proof (cases "length chain < chainLength")
      case False
      with 1 have "length chain = chainLength" "1 \<le> parts"
        by (auto simp: full_parts_def)
      with "1.prems"(3) False show ?thesis
        by (subst (asm) fetch_chain.simps) auto
    next
      case True
      have p: "1 \<le> parts" "parts \<le> 16" "chainLength \<le> 4096"
        using "1.prems"(1) True by (auto simp: full_parts_def)
      let ?n = "part_length (Some chainLength) (length chain)"
      obtain x h1 s1 where e: "auth_execute options Step_certificate (certificate_request slot (length chain) ?n)
          (Some slot) (Some (length chain)) history s = (x, h1, s1)"
        by (metis prod_cases3)
      have "valid_inquiry (certificate_request slot (length chain) ?n)"
        using part_length_bounds[OF True p(3)] "1.prems"(2) p(3) by (intro certificate_request_valid) auto
      note g = auth_execute_grows[OF e this]
      have le: "step_tries options * (17 - parts) = step_tries options + step_tries options * (17 - (parts + 1))"
        using p by (simp add: diff_mult_distrib2 algebra_simps flip: mult_Suc_right)
      then have weaken: "history_grows (step_tries options * (17 - parts)) history h" if "history_grows (step_tries options) history h" for h
        using that by (auto elim: history_grows_mono)
      show ?thesis
      proof (cases x)
        case None
        with "1.prems"(3) True p e weaken[OF g(1)] show ?thesis
          by (subst (asm) fetch_chain.simps) auto
      next
        case (Some raw)
        show ?thesis
        proof (cases "accept_part slot chain (Some chainLength) parts raw")
          case (Inl failure)
          have "history_grows (step_tries options) history (set_last_failure failure h1)"
            using g by (intro set_last_failure_grows) auto
          with "1.prems"(3) True p e Some Inl weaken show ?thesis
            by (subst (asm) fetch_chain.simps) auto
        next
          case (Inr y)
          then obtain chain2 chainLength2 where a: "accept_part slot chain (Some chainLength) parts raw = Inr (chain2, chainLength2)"
            by (cases y) auto
          note n = accept_part_next[OF "1.prems"(1) True a]
          have c2: "\<exists>more. chain2 = chain @ more"
            using a by (auto simp: accept_part_def Let_def res_bind_Inr_iff split: if_splits)
          have "fetch_chain options slot chain2 chainLength (parts + 1) h1 s1 = (r, history', s')"
            using "1.prems"(3) True p e Some a n by (subst (asm) fetch_chain.simps) auto
          moreover have "\<not> (parts = 0 \<or> \<not> length chain < chainLength)"
            using True p by simp
          ultimately have "history_grows (step_tries options * (17 - (parts + 1))) h1 history'"
              "\<forall>chain'. r = Inr chain' \<longrightarrow> (\<exists>more. chain' = chain2 @ more \<and> length chain' = chainLength)"
            using "1.IH"[OF _ e[symmetric] Some refl a refl] n "1.prems"(2) by auto
          then show ?thesis
            using history_grows_trans[OF g(1)] c2 unfolding le by fastforce
        qed
      qed
    qed
  qed
  then show "history_grows (step_tries options * (17 - parts)) history history'"
    "r = Inr chain' \<Longrightarrow> \<exists>more. chain' = chain @ more \<and> length chain' = chainLength" by auto
qed

lemma fetch_certificate_grows:
  assumes "fetch_certificate options slot history s = (r, history', s')" "slot < 8"
  shows "history_grows (step_tries options * 17) history history'" "r = Inr chain \<Longrightarrow> chain_complete chain"
    "length history < length history'"
proof -
  obtain x h1 s1 where e: "auth_execute options Step_certificate (certificate_request slot 0 (part_length None 0))
        (Some slot) (Some 0) history s = (x, h1, s1)"
    by (metis prod_cases3)
  have "valid_inquiry (certificate_request slot 0 (part_length None 0))"
    using assms(2) by (intro certificate_request_valid) (simp_all add: part_length_def)
  note g = auth_execute_grows[OF e this]
  have all: "history_grows (step_tries options * 17) history history' \<and> length history < length history' \<and>
      (r = Inr chain \<longrightarrow> chain_complete chain)"
  proof (cases x)
    case None
    with assms(1) e g show ?thesis
      by (auto simp: fetch_certificate_def elim: history_grows_mono)
  next
    case (Some raw)
    show ?thesis
    proof (cases "accept_part slot [] None 0 raw")
      case (Inl failure)
      have "history_grows (step_tries options) history (set_last_failure failure h1)"
        using g by (intro set_last_failure_grows) auto
      moreover have "length (set_last_failure failure h1) = length h1"
        using g(2) by (auto simp: set_last_failure_def)
      ultimately show ?thesis
        using assms(1) e g Some Inl by (auto simp: fetch_certificate_def elim: history_grows_mono)
    next
      case (Inr y)
      then obtain first chainLength where a: "accept_part slot [] None 0 raw = Inr (first, chainLength)"
        by (cases y) auto
      note f = accept_part_first[OF a]
      have c: "int chainLength = byte_at first 0 + 256 * byte_at first 1"
        using a byte_at_bounds[of first 0] byte_at_bounds[of first 1]
        by (auto simp: accept_part_def Let_def res_bind_Inr_iff js_or_shl_8 split: if_splits)
      have fc: "fetch_chain options slot first chainLength 1 h1 s1 = (r, history', s')"
        using assms(1) e Some a by (simp add: fetch_certificate_def)
      note fg = fetch_chain_grows[OF f(1) assms(2) fc]
      have "history_grows (step_tries options * 17) history history'"
        using history_grows_trans[OF g(1) fg(1)] by (simp add: mult.commute)
      moreover have "length h1 \<le> length history'"
        using fg(1) by (auto simp: history_grows_def dest: arg_cong[of _ _ length])
      moreover have "r = Inr chain \<longrightarrow> chain_complete chain"
        using fg(2)[of chain] c f by (auto simp: chain_complete_def byte_at_def nth_append full_parts_def)
      ultimately show ?thesis
        using g(2) by simp
    qed
  qed
  then show "history_grows (step_tries options * 17) history history'" "length history < length history'"
    "r = Inr chain \<Longrightarrow> chain_complete chain"
    by auto
qed

section \<open>Slots and the workflow\<close>

text \<open>A slot's verdict rests on a whole chain and a whole challenge response; a slot the workflow went on from has
  a verdict or a failure.\<close>

definition slot_evidence :: "AuthenticationSlotResult \<Rightarrow> bool" where
  "slot_evidence slotResult \<longleftrightarrow>
     (sr_verification slotResult \<noteq> None \<longrightarrow>
        (\<exists>chain response. sr_certificateChain slotResult = Some chain \<and> chain_complete chain \<and>
           sr_challengeResponse slotResult = Some response \<and> length response = 168))"

definition slot_settled :: "AuthenticationSlotResult \<Rightarrow> bool" where
  "slot_settled slotResult \<longleftrightarrow> sr_verification slotResult \<noteq> None \<or> sr_failure slotResult \<noteq> None"

lemma parseChallengeResponse_length: "parseChallengeResponse raw slot slotMask = Inr response \<Longrightarrow> length response = 168"
  by (auto simp: parseChallengeResponse_def after_header_def split: option.splits if_splits)

lemma after_slot_failure_eq:
  "after_slot_failure options slotResult history s = (go_on, slotResult', history', s') \<Longrightarrow>
     slotResult' = slotResult \<and> history' = history \<and> (go_on \<longrightarrow> sr_failure slotResult \<noteq> None)"
  by (auto simp: after_slot_failure_def split: option.splits)

lemma authenticate_slot_grows:
  assumes "authenticate_slot options slotMask slot digest history s = (go_on, slotResult, history', s')" "slot < 8"
  shows "history_grows (step_tries options * 18) history history' \<and> sr_slot slotResult = slot \<and>
    slot_evidence slotResult \<and> (go_on \<longrightarrow> slot_settled slotResult)"
proof -
  obtain r h1 s1 where f: "fetch_certificate options slot history s = (r, h1, s1)"
    by (metis prod_cases3)
  note g = fetch_certificate_grows[OF f assms(2)]
  have m: "history_grows (step_tries options * 18) history h1"
    using g(1) by (rule history_grows_mono) simp
  show ?thesis
  proof (cases r)
    case (Inl failure)
    with assms(1) f m show ?thesis
      by (auto simp: authenticate_slot_def Let_def new_slot_result_def slot_evidence_def slot_settled_def
          dest!: after_slot_failure_eq)
  next
    case (Inr chain)
    obtain nonce s2 where n: "ao_nonce options s1 = (nonce, s2)"
      by (cases "ao_nonce options s1")
    show ?thesis
    proof (cases "length nonce = 32")
      case False
      with assms(1) f m Inr n show ?thesis
        by (auto simp: authenticate_slot_def Let_def new_slot_result_def slot_evidence_def slot_settled_def)
    next
      case True
      obtain x h2 s3 where e: "auth_execute options Step_challenge (Request_challenge (Decimal (int slot) 0) nonce)
                  (Some slot) None h1 s2 = (x, h2, s3)"
        by (metis prod_cases3)
      have "valid_inquiry (Request_challenge (Decimal (int slot) 0) nonce)"
        using assms(2) True by simp
      note g2 = auth_execute_grows[OF e this]
      have h2: "history_grows (step_tries options * 18) history h2"
        using history_grows_trans[OF g(1) g2(1)] by (simp add: mult.commute)
      note defs = authenticate_slot_def Let_def new_slot_result_def slot_evidence_def slot_settled_def
      show ?thesis
      proof (cases x)
        case None
        with assms(1) f Inr n True e h2 show ?thesis
          by (auto simp: defs dest!: after_slot_failure_eq)
      next
        case (Some raw)
        show ?thesis
        proof (cases "parseChallengeResponse raw slot slotMask")
          case (Inl failure)
          have "history_grows (step_tries options * 18) history (set_last_failure failure h2)"
            using h2 g2(2) by (intro set_last_failure_grows) auto
          with assms(1) f Inr n True e Some Inl show ?thesis
            by (auto simp: defs dest!: after_slot_failure_eq)
        next
          case (Inr response)
          with assms(1) f \<open>r = Inr chain\<close> n True e Some h2 g(2)[OF \<open>r = Inr chain\<close>] parseChallengeResponse_length[OF Inr]
          show ?thesis
            by (auto simp: defs split: prod.splits)
        qed
      qed
    qed
  qed
qed

lemma authenticate_slots_grows:
  assumes "authenticate_slots options slotMask digest selected slots history s = (result, s')" "set selected \<subseteq> {..<8}"
    "\<forall>r \<in> set slots. slot_evidence r \<and> slot_settled r"
  shows "history_grows (step_tries options * (18 * length selected)) history (wr_history result) \<and>
    (\<exists>done later. selected = done @ later \<and> map sr_slot (wr_slots result) = map sr_slot slots @ done \<and>
       (wr_phase result = Workflow_completed \<longrightarrow> later = [])) \<and>
    (\<forall>r \<in> set (wr_slots result). slot_evidence r) \<and>
    (wr_phase result = Workflow_completed \<longrightarrow> (\<forall>r \<in> set (wr_slots result). slot_settled r))"
  using assms
proof (induction selected arbitrary: slots history s)
  case Nil
  then show ?case by auto
next
  case (Cons slot selected)
  obtain go_on slotResult h1 s1 where a: "authenticate_slot options slotMask slot (digest slot) history s = (go_on, slotResult, h1, s1)"
    by (metis prod_cases4)
  have "slot < 8"
    using Cons.prems(2) by simp
  note g = authenticate_slot_grows[OF a this]
  show ?case
  proof (cases go_on)
    case True
    then have "authenticate_slots options slotMask digest selected (slots @ [slotResult]) h1 s1 = (result, s')"
      using Cons.prems(1) a by simp
    from Cons.IH[OF this] Cons.prems(2,3) g True
    have i: "history_grows (step_tries options * (18 * length selected)) h1 (wr_history result)"
        "\<exists>done later. selected = done @ later \<and> map sr_slot (wr_slots result) = map sr_slot slots @ slot # done \<and>
           (wr_phase result = Workflow_completed \<longrightarrow> later = [])"
        "\<forall>r \<in> set (wr_slots result). slot_evidence r"
        "wr_phase result = Workflow_completed \<longrightarrow> (\<forall>r \<in> set (wr_slots result). slot_settled r)"
      by auto
    have "history_grows (step_tries options * 18 + step_tries options * (18 * length selected)) history (wr_history result)"
      using g i(1) by (auto intro: history_grows_trans)
    moreover have "step_tries options * 18 + step_tries options * (18 * length selected) = step_tries options * (18 * length (slot # selected))"
      by (simp add: algebra_simps)
    ultimately show ?thesis
      using i(2-4) by (metis append_Cons)
  next
    case False
    have "history_grows (step_tries options * (18 * length (slot # selected))) history h1"
      using g by (auto elim!: history_grows_mono)
    moreover have "result = \<lparr>wr_phase = Workflow_stopped, wr_slotMask = Some slotMask,
         wr_slots = slots @ [slotResult], wr_history = h1\<rparr>"
      using Cons.prems(1) a False by simp
    moreover have "\<exists>done later. slot # selected = done @ later \<and> map sr_slot (slots @ [slotResult]) = map sr_slot slots @ done \<and>
       (Workflow_stopped = Workflow_completed \<longrightarrow> later = [])"
      by (rule exI[of _ "[slot]"], rule exI[of _ selected]) (use g in simp)
    ultimately show ?thesis
      using Cons.prems(3) g by simp
  qed
qed

lemma digests_slots:
  assumes "parseDigestsResponse raw = Inr (slotMask, digests)"
  shows "map fst digests = mask_slots slotMask"
  using assms
  by (auto simp: parseDigestsResponse_def after_header_def Let_def case_prod_unfold comp_def split: option.splits if_splits)

text \<open>C10: the authentication workflow is bounded and safe to run against the sink group. Every request it makes
  passes the group's range checks, and there are at most 145 steps (one for the digests, 17 certificate
  parts and one challenge for each of eight slots), each tried once and
  then at most as often as the retries allow. The
  slots it reports are distinct slots from 0 to 7. A verdict is reported only together with a whole
  certificate chain, of the length its header announces and within 37 to 4096 bytes, and a whole challenge
  response of 168 bytes; when the workflow completes, every slot has a verdict or a failure.\<close>

theorem runAuthenticationWorkflow_bounded:
  "case runAuthenticationWorkflow options s of (result, s') \<Rightarrow>
     (\<forall>entry \<in> set (wr_history result). valid_inquiry (at_request entry)) \<and>
     length (wr_history result) \<le> step_tries options * 145 \<and>
     distinct (map sr_slot (wr_slots result)) \<and> set (map sr_slot (wr_slots result)) \<subseteq> {..<8} \<and>
     (\<forall>slotResult \<in> set (wr_slots result). slot_evidence slotResult) \<and>
     (wr_phase result = Workflow_completed \<longrightarrow> (\<forall>slotResult \<in> set (wr_slots result). slot_settled slotResult))"
proof -
  obtain result s' where run: "runAuthenticationWorkflow options s = (result, s')"
    by (cases "runAuthenticationWorkflow options s")
  obtain x h1 s1 where e: "auth_execute options Step_digests (Request_plain Inquiry_GET_DIGESTS None) None None [] s = (x, h1, s1)"
    by (metis prod_cases3)
  note g = auth_execute_grows[OF e]
  have g1: "history_grows (step_tries options) [] h1" "h1 \<noteq> []"
    using g by auto
  have fail: "history_grows (step_tries options * 145) [] (set_last_failure failure h1)" for failure
    by (rule set_last_failure_grows[OF history_grows_mono[OF g1(1)] g1(2)]) simp
  have "history_grows (step_tries options * 145) [] (wr_history result) \<and>
     distinct (map sr_slot (wr_slots result)) \<and> set (map sr_slot (wr_slots result)) \<subseteq> {..<8} \<and>
     (\<forall>slotResult \<in> set (wr_slots result). slot_evidence slotResult) \<and>
     (wr_phase result = Workflow_completed \<longrightarrow> (\<forall>slotResult \<in> set (wr_slots result). slot_settled slotResult))"
  proof (cases "\<exists>raw slotMask digests. x = Some raw \<and> parseDigestsResponse raw = Inr (slotMask, digests) \<and>
      ao_selectSlots options (map fst digests) \<noteq> [] \<and>
      set (ao_selectSlots options (map fst digests)) \<subseteq> set (map fst digests) \<and>
      distinct (ao_selectSlots options (map fst digests))")
    case True
    then obtain raw slotMask digests where d: "x = Some raw" "parseDigestsResponse raw = Inr (slotMask, digests)"
      "ao_selectSlots options (map fst digests) \<noteq> []"
      "set (ao_selectSlots options (map fst digests)) \<subseteq> set (map fst digests)"
      "distinct (ao_selectSlots options (map fst digests))" by auto
    let ?selected = "ao_selectSlots options (map fst digests)"
    have sl: "set ?selected \<subseteq> {..<8}"
      using d(4) digests_slots[OF d(2)] by (auto simp: mask_slots_def)
    then have "length ?selected \<le> 8"
      using card_mono[OF _ sl] distinct_card[OF d(5)] by simp
    then have n: "step_tries options + step_tries options * (18 * length ?selected) \<le> step_tries options * 145"
      by (simp flip: mult_Suc_right)
    have "authenticate_slots options slotMask (\<lambda>slot. the (map_of digests slot)) ?selected [] h1 s1 = (result, s')"
      using run e d by (auto simp: runAuthenticationWorkflow_def Let_def)
    note G = authenticate_slots_grows[OF this sl, simplified list.map list.set append_Nil ball_empty, OF TrueI]
    from G obtain done_slots later where
      r: "history_grows (step_tries options * (18 * length ?selected)) h1 (wr_history result)"
        "?selected = done_slots @ later" "map sr_slot (wr_slots result) = done_slots"
        "\<forall>slotResult \<in> set (wr_slots result). slot_evidence slotResult"
        "wr_phase result = Workflow_completed \<longrightarrow> (\<forall>slotResult \<in> set (wr_slots result). slot_settled slotResult)"
      by (elim conjE exE) (rule that)
    have "history_grows (step_tries options * 145) [] (wr_history result)"
      by (rule history_grows_mono[OF history_grows_trans[OF g1(1) r(1)] n])
    moreover have "distinct done_slots" "set done_slots \<subseteq> {..<8}"
      using d(5) sl unfolding r(2) by auto
    ultimately show ?thesis
      using r by simp
  next
    case False
    then have "wr_slots result = [] \<and> wr_history result \<in> insert h1 (range (\<lambda>failure. set_last_failure failure h1))"
      using run e by (auto simp: runAuthenticationWorkflow_def Let_def split: option.splits sum.splits if_splits)
    then show ?thesis
      using g1(1) fail by (auto elim: history_grows_mono)
  qed
  then show ?thesis
    unfolding run prod.case history_grows_Nil by (elim conjE, intro conjI)
qed

section \<open>Reading a chain\<close>

text \<open>A partner that answers every request for a part of the chain of a slot with those bytes.\<close>

definition certificate_part :: "nat \<Rightarrow> bytes \<Rightarrow> nat \<Rightarrow> nat \<Rightarrow> bytes" where
  "certificate_part slot chain offset len = [0x10, 0x02, of_nat slot, 0] @ take len (drop offset chain)"

definition serves_chain :: "'s AuthenticationWorkflowOptions \<Rightarrow> nat \<Rightarrow> bytes \<Rightarrow> bool" where
  "serves_chain options slot chain \<longleftrightarrow>
     (\<forall>offset len s. offset + len \<le> length chain \<longrightarrow>
        (\<exists>status request s'. ao_run options (certificate_request slot offset len) s =
           (Run_response status (certificate_part slot chain offset len) request, s')))"

lemma serves_chain_execute:
  assumes "serves_chain options slot chain" "offset + len \<le> length chain"
  shows "\<exists>entry s'. auth_execute options step (certificate_request slot offset len) a b history s =
    (Some (certificate_part slot chain offset len), history @ [entry], s')"
proof -
  obtain status request s' where "ao_run options (certificate_request slot offset len) s =
           (Run_response status (certificate_part slot chain offset len) request, s')"
    using assms unfolding serves_chain_def by blast
  then show ?thesis
    unfolding auth_execute_def by (subst execute_attempts.simps) (simp add: failureFromResult_def Let_def)
qed

lemma parse_certificate_part:
  assumes "slot < 8" "offset + len \<le> length chain"
  shows "parseCertificateResponse (certificate_part slot chain offset len) slot len = Inr (take len (drop offset chain))"
proof -
  have "uint (of_nat slot :: byte) = int slot"
    using assms(1) by (simp add: uint_nat unat_of_nat)
  then show ?thesis
    using assms
    by (simp add: parseCertificateResponse_def after_header_def parseHeader_def certificate_part_def byte_at_def)
qed

lemma byte_at_prefix: "i < n \<Longrightarrow> byte_at (take n bs) i = byte_at bs i"
  by (simp add: byte_at_def)

lemma fetch_chain_reads:
  assumes "serves_chain options slot chain" "slot < 8" "length chain \<le> 4096"
    "full_parts (length chain) (take offset chain) parts" "offset \<le> length chain"
  shows "\<exists>entries s'. fetch_chain options slot (take offset chain) (length chain) parts history s =
      (Inr chain, history @ entries, s') \<and> length entries = (length chain - offset + 255) div 256"
  using assms(4,5)
proof (induction "length chain - offset" arbitrary: offset parts history s rule: less_induct)
  case less
  show ?case
  proof (cases "offset < length chain")
    case False
    with less.prems show ?thesis
      by (subst fetch_chain.simps) auto
  next
    case True
    let ?n = "part_length (Some (length chain)) offset"
    note n = part_length_bounds[OF True assms(3)]
    have l: "length (take offset chain) = offset"
      using True by simp
    obtain entry s1 where e: "auth_execute options Step_certificate (certificate_request slot offset ?n) (Some slot) (Some offset)
        history s = (Some (certificate_part slot chain offset ?n), history @ [entry], s1)"
      using serves_chain_execute[OF assms(1) n(3)] by blast
    have parts: "1 \<le> parts" "parts \<le> 16"
      using less.prems(1) True by (auto simp: full_parts_def)
    have t: "take offset chain @ take ?n (drop offset chain) = take (offset + ?n) chain"
      by (simp add: take_add)
    have a: "accept_part slot (take offset chain) (Some (length chain)) parts (certificate_part slot chain offset ?n) =
        Inr (take (offset + ?n) chain, length chain)"
      using parts parse_certificate_part[OF assms(2) n(3)]
      by (simp add: accept_part_def l t AUTH_MAX_CERT_PARTS_def del: length_take)
    have "full_parts (length chain) (take (offset + ?n) chain) (parts + 1)"
      using accept_part_next(1)[OF less.prems(1) _ a] l True by simp
    moreover have "length chain - (offset + ?n) < length chain - offset"
      using n(1) True by linarith
    ultimately obtain entries s' where r: "fetch_chain options slot (take (offset + ?n) chain) (length chain) (parts + 1) (history @ [entry]) s1 =
        (Inr chain, (history @ [entry]) @ entries, s')" "length entries = (length chain - (offset + ?n) + 255) div 256"
      using less.hyps[of "offset + ?n" "parts + 1" "history @ [entry]" s1] n(3) by blast
    have "?n = 256 \<or> offset + ?n = length chain \<and> ?n \<le> 256"
      using True by (auto simp: part_length_def AUTH_MAX_CERT_PART_BYTES_def min_def)
    then have "Suc ((length chain - (offset + ?n) + 255) div 256) = (length chain - offset + 255) div 256"
    proof
      assume "?n = 256"
      then have "length chain - offset + 255 = (length chain - (offset + ?n) + 255) + 256"
        using n(3) by linarith
      then show ?thesis by simp
    next
      assume "offset + ?n = length chain \<and> ?n \<le> 256"
      then have "length chain - offset = ?n" "length chain - (offset + ?n) = 0"
        by auto
      then show ?thesis
        using n(1,2) by simp
    qed
    moreover have "fetch_chain options slot (take offset chain) (length chain) parts history s =
        fetch_chain options slot (take (offset + ?n) chain) (length chain) (parts + 1) (history @ [entry]) s1"
      using parts(1) True l e a by (subst fetch_chain.simps) simp
    ultimately show ?thesis
      using r by auto
  qed
qed

text \<open>C17: a certificate chain is read byte for byte. From a partner that answers every request for a part with the
  bytes asked for, the retrieval returns exactly the chain, for every chain of 37 to 4096 bytes whose header
  announces its length, and it takes one request for the first 36 bytes and one for each 256 bytes after
  them.\<close>

theorem fetch_certificate_reads_chain:
  assumes "serves_chain options slot chain" "slot < 8" "chain_complete chain"
  shows "\<exists>entries s'. fetch_certificate options slot history s = (Inr chain, history @ entries, s') \<and>
    length entries = 1 + (length chain - 36 + 255) div 256"
proof -
  have c: "37 \<le> length chain" "length chain \<le> 4096" "int (length chain) = byte_at chain 0 + 256 * byte_at chain 1"
    using assms(3) by (auto simp: chain_complete_def)
  have n: "part_length None 0 = 36"
    by (simp add: part_length_def)
  obtain entry s1 where e: "auth_execute options Step_certificate (certificate_request slot 0 36) (Some slot) (Some 0) history s =
      (Some (certificate_part slot chain 0 36), history @ [entry], s1)"
    using serves_chain_execute[OF assms(1), where offset = 0 and len = 36 and step = Step_certificate and
        a = "Some slot" and b = "Some 0" and history = history and s = s] c(1) by auto
  have "js_or (byte_at chain 0) (js_shl (byte_at chain 1) 8) = byte_at chain 0 + 256 * byte_at chain 1"
    by (simp add: js_or_shl_8)
  then have "nat (js_or (byte_at chain 0) (js_shl (byte_at chain 1) 8)) = length chain"
    using c(3) by (metis nat_int)
  then have a: "accept_part slot [] None 0 (certificate_part slot chain 0 36) = Inr (take 36 chain, length chain)"
    using parse_certificate_part[OF assms(2), of 0 36 chain] c
    by (simp add: accept_part_def n byte_at_prefix Let_def AUTH_MAX_CERT_PARTS_def AUTH_MAX_CHAIN_BYTES_def)
  obtain entries s' where "fetch_chain options slot (take 36 chain) (length chain) 1 (history @ [entry]) s1 =
      (Inr chain, (history @ [entry]) @ entries, s')" "length entries = (length chain - 36 + 255) div 256"
    using fetch_chain_reads[OF assms(1,2) c(2) accept_part_first(1)[OF a], of "history @ [entry]" s1] c(1) by auto
  then show ?thesis
    by (simp add: fetch_certificate_def n e a)
qed

text \<open>A partner with one chain.\<close>

definition chain_partner :: "bytes \<Rightarrow> unit AuthenticationWorkflowOptions" where
  "chain_partner chain =
     \<lparr>ao_run = (\<lambda>request s. case request of
          Request_certificate slot offset len \<Rightarrow>
            (Run_response \<lparr>is_outcome = Result_RESPONSE, is_requestId = 1, is_type = Inquiry_GET_CERTIFICATE,
               is_responseClass = 0, is_responseType = 9, is_responseLength = 4 + the (integer_value len)\<rparr>
               (certificate_part (nat (the (integer_value slot))) chain (nat (the (integer_value offset)))
                 (nat (the (integer_value len)))) request, s)
        | _ \<Rightarrow> (Run_cancelled (request_type request), s)),
      ao_selectSlots = id, ao_decide = (\<lambda>failure attempt. Auth_stop), ao_nonce = (\<lambda>s. (replicate 32 0, s)),
      ao_verify = (\<lambda>evidence s. (\<lparr>av_cryptographic = Crypto_verified, av_trust = Trust_not_checked,
         av_policy = Policy_not_checked, av_failure = None\<rparr>, s)), ao_maxRetriesPerStep = None\<rparr>"

lemma fetch_certificate_reads_chain_witness:
  "\<exists>entries. fetch_certificate (chain_partner (0x2c # 1 # replicate 298 7)) 3 [] () = (Inr (0x2c # 1 # replicate 298 7), entries, ()) \<and>
     length entries = 3"
proof -
  have "serves_chain (chain_partner (0x2c # 1 # replicate 298 7)) 3 (0x2c # 1 # replicate 298 7)"
    by (simp add: serves_chain_def chain_partner_def certificate_request_def)
  moreover have "chain_complete (0x2c # 1 # replicate 298 7)"
    by (simp add: chain_complete_def byte_at_def)
  ultimately show ?thesis
    using fetch_certificate_reads_chain[of "chain_partner (0x2c # 1 # replicate 298 7)" 3 "0x2c # 1 # replicate 298 7" "[]" "()"]
    by auto
qed

text \<open>A partner that reports a digest for slot 0 and answers nothing else, and a caller who goes on.\<close>

definition digest_partner :: "unit AuthenticationWorkflowOptions" where
  "digest_partner =
     \<lparr>ao_run = (\<lambda>request s. case request of
          Request_plain typ plug \<Rightarrow>
            (Run_response \<lparr>is_outcome = Result_RESPONSE, is_requestId = 1, is_type = Inquiry_GET_DIGESTS,
               is_responseClass = 0, is_responseType = 9, is_responseLength = 36\<rparr> ([0x10, 1, 1, 1] @ replicate 32 0) request, s)
        | _ \<Rightarrow> (Run_cancelled (request_type request), s)),
      ao_selectSlots = id, ao_decide = (\<lambda>failure attempt. Auth_continue), ao_nonce = (\<lambda>s. (replicate 32 0, s)),
      ao_verify = (\<lambda>evidence s. (\<lparr>av_cryptographic = Crypto_verified, av_trust = Trust_not_checked,
         av_policy = Policy_not_checked, av_failure = None\<rparr>, s)), ao_maxRetriesPerStep = None\<rparr>"

lemma runAuthenticationWorkflow_bounded_witness:
  "\<exists>result. runAuthenticationWorkflow digest_partner () = (result, ()) \<and> wr_phase result = Workflow_completed \<and>
     map sr_slot (wr_slots result) = [0] \<and> (\<forall>slotResult \<in> set (wr_slots result). slot_settled slotResult) \<and>
     length (wr_history result) \<le> 435"
proof -
  have "wr_phase (fst (runAuthenticationWorkflow digest_partner ())) = Workflow_completed"
      "map sr_slot (wr_slots (fst (runAuthenticationWorkflow digest_partner ()))) = [0]"
    by code_simp+
  then show ?thesis
    using runAuthenticationWorkflow_bounded[of digest_partner "()"]
    by (cases "runAuthenticationWorkflow digest_partner ()") (auto simp: step_tries_def digest_partner_def)
qed

end
