(* ===== verification/Auth_Verifier.thy ===== *)
theory Auth_Verifier
  imports Auth_Workflow
begin

text \<open>
  \<open>lib/device/drpd/authentication.ts\<close> and \<open>features/rack/inquiries/authVerifier.ts\<close>: the readers of the logical
  Security bodies, the cut of a USB Type-C certificate chain into certificates, the certificate profile,
  and the verification of the evidence of a slot. SHA-256, the X.509 reader and the signature checks are
  operations of the browser and of a third-party package: they are the fields of the parameter \<open>crypto_ops\<close>.
\<close>

section \<open>Logical bodies, \<open>authentication.ts\<close>\<close>

datatype authentication_error_layer = Error_parse | Error_signature

record AuthenticationError =
  ae_layer :: authentication_error_layer
  ae_message :: string

record AuthenticationHeader =
  ah_version :: int
  ah_type :: int
  ah_parameter1 :: int
  ah_parameter2 :: int

definition parse_error :: "string \<Rightarrow> AuthenticationError + 'a" where
  "parse_error message = Inl \<lparr>ae_layer = Error_parse, ae_message = message\<rparr>"

definition parseAuthenticationHeader :: "bytes \<Rightarrow> AuthenticationError + AuthenticationHeader" where
  "parseAuthenticationHeader body =
     (if length body < 4 then parse_error ''Authentication body must contain a four-byte header''
      else if byte_at body 0 \<noteq> 0x10 \<and> byte_at body 0 \<noteq> 0x01 then
        parse_error ''Unsupported authentication protocol version''
      else Inr \<lparr>ah_version = byte_at body 0, ah_type = byte_at body 1, ah_parameter1 = byte_at body 2,
             ah_parameter2 = byte_at body 3\<rparr>)"

definition parseAuthenticationErrorResponse :: "bytes \<Rightarrow> AuthenticationError + int \<times> int" where
  "parseAuthenticationErrorResponse body =
     res_bind (parseAuthenticationHeader body) (\<lambda>header.
       if length body \<noteq> 4 \<or> ah_type header \<noteq> 0x7f then
         parse_error ''Authentication ERROR response must contain exactly four bytes''
       else Inr (ah_parameter1 header, ah_parameter2 header))"

definition parseDigestsBody :: "bytes \<Rightarrow> AuthenticationError + int \<times> (nat \<times> bytes) list" where
  "parseDigestsBody body =
     res_bind (parseAuthenticationHeader body) (\<lambda>header.
       if ah_type header \<noteq> 0x01 \<or> ah_parameter1 header \<noteq> 0x01 then parse_error ''Malformed DIGESTS capabilities''
       else let slots = mask_slots (ah_parameter2 header) in
         if length body \<noteq> 4 + length slots * 32 then parse_error ''DIGESTS length does not match populated slot mask''
         else Inr (ah_parameter2 header, map (\<lambda>(slot, index). (slot, sub_array body (4 + index * 32) (36 + index * 32)))
                (zip slots [0..<length slots])))"

definition parseCertificateBody :: "bytes \<Rightarrow> int \<Rightarrow> int \<Rightarrow> AuthenticationError + bytes" where
  "parseCertificateBody body slot offset =
     res_bind (parseAuthenticationHeader body) (\<lambda>header.
       if ah_type header \<noteq> 0x02 \<or> ah_parameter1 header \<noteq> slot \<or> ah_parameter2 header \<noteq> 0 then
         parse_error ''CERTIFICATE response does not correlate with requested slot''
       else if offset < 0 \<or> offset > 4095 \<or> length body \<le> 4 \<or> length body > 260 \<or>
               offset + int (length body) - 4 > 4096 then
         parse_error ''CERTIFICATE part violates chain bounds or makes no progress''
       else Inr (drop 4 body))"

record challenge_auth =
  ca_authenticatedSlot :: int
  ca_signedResponse :: bytes
  ca_signatureLittleEndian :: bytes

definition parseChallengeAuthResponse :: "bytes \<Rightarrow> int \<Rightarrow> AuthenticationError + challenge_auth" where
  "parseChallengeAuthResponse body slot =
     res_bind (parseAuthenticationHeader body) (\<lambda>header.
       if ah_type header \<noteq> 0x03 \<or> ah_parameter1 header \<noteq> slot then
         parse_error ''CHALLENGE_AUTH response does not correlate with requested slot''
       else if length body \<noteq> 168 then parse_error ''CHALLENGE_AUTH response must contain exactly 168 bytes''
       else if js_and (ah_parameter2 header) (js_shl 1 slot) = 0 then
         parse_error ''CHALLENGE_AUTH slot mask omits selected slot''
       else if byte_at body 4 \<noteq> 1 \<or> byte_at body 5 \<noteq> 1 \<or> byte_at body 6 \<noteq> 1 \<or> byte_at body 7 \<noteq> 0 then
         parse_error ''CHALLENGE_AUTH version, capabilities, or reserved fields are invalid''
       else if \<exists>b \<in> set (sub_array body 72 104). b \<noteq> 0 then
         parse_error ''CHALLENGE_AUTH PD Source context hash must be all zero''
       else Inr \<lparr>ca_authenticatedSlot = slot, ca_signedResponse = sub_array body 0 104,
              ca_signatureLittleEndian = drop 104 body\<rparr>)"

text \<open>The signature's two numbers change from little-endian to big-endian.\<close>

definition authenticationSignatureToP1363 :: "bytes \<Rightarrow> AuthenticationError + bytes" where
  "authenticationSignatureToP1363 signature =
     (if length signature \<noteq> 64 then
        Inl \<lparr>ae_layer = Error_signature, ae_message = ''ECDSA P-256 signature must contain 64 bytes''\<rparr>
      else Inr (rev (take 32 signature) @ rev (drop 32 signature)))"

section \<open>Certificates and the operations on them\<close>

record 'k certificate =
  ce_rawData :: bytes
  ce_subject :: string
  ce_issuer :: string
  ce_signatureAlgorithm :: "string \<times> string option"
  ce_publicKeyAlgorithm :: "string \<times> string option"
  ce_publicKey :: 'k
  ce_basicConstraints :: "(bool \<times> bool \<times> int option) option"
  ce_keyUsage :: "int option"
  ce_extendedKeyUsage :: "(bool \<times> string list) option"
  ce_extensions :: "(bool \<times> string) list"

text \<open>The extensions are pairs of the critical flag and the type; basic constraints are the critical flag, the
  authority flag and the path length. An operation that throws returns its message.\<close>

record 'k crypto_ops =
  co_sha256 :: "bytes \<Rightarrow> bytes"
  co_certificate :: "bytes \<Rightarrow> string + 'k certificate"
  co_verify_certificate :: "'k certificate \<Rightarrow> 'k \<Rightarrow> string + bool"
  co_verify_signature :: "'k \<Rightarrow> bytes \<Rightarrow> bytes \<Rightarrow> string + bool"
  co_digitalSignature :: int
  co_keyCertSign :: int
  co_cRLSign :: int

definition verifyChallengeSignature :: "'k crypto_ops \<Rightarrow> 'k \<Rightarrow> bytes \<Rightarrow> bytes \<Rightarrow> string + bool" where
  "verifyChallengeSignature ops publicKey requestBody responseBody =
     (if length requestBody \<noteq> 36 then Inl ''CHALLENGE request body must contain exactly 36 bytes''
      else (case parseChallengeAuthResponse responseBody (byte_at requestBody 2) of
          Inl e \<Rightarrow> Inl (ae_message e)
        | Inr parsed \<Rightarrow>
            (case authenticationSignatureToP1363 (ca_signatureLittleEndian parsed) of
               Inl e \<Rightarrow> Inl (ae_message e)
             | Inr signature \<Rightarrow>
                 co_verify_signature ops publicKey signature (requestBody @ ca_signedResponse parsed))))"

section \<open>The chain, \<open>authVerifier.ts\<close>\<close>

fun big_endian :: "bytes \<Rightarrow> int \<Rightarrow> int" where
  "big_endian [] content = content"
| "big_endian (b # bs) content = big_endian bs (content * 256 + uint b)"

definition derObjectLength :: "bytes \<Rightarrow> nat \<Rightarrow> string + nat" where
  "derObjectLength bs offset =
     (if \<not> (offset < length bs \<and> byte_at bs offset = 0x30) \<or> offset + 2 > length bs then
        Inl ''Certificate is not a DER SEQUENCE''
      else let first = byte_at bs (offset + 1) in
        if js_and first 0x80 = 0 then Inr (2 + nat first)
        else let count = nat (js_and first 0x7f) in
          if count < 1 \<or> count > 4 \<or> offset + 2 + count > length bs \<or> byte_at bs (offset + 2) = 0 then
            Inl ''Certificate has non-canonical DER length''
          else let content = big_endian (sub_array bs (offset + 2) (offset + 2 + count)) 0 in
            if content < 128 then Inl ''Certificate has non-canonical DER length''
            else Inr (2 + count + nat content))"

lemma derObjectLength_pos: "derObjectLength bs offset = Inr n \<Longrightarrow> 2 \<le> n"
  by (auto simp: derObjectLength_def Let_def split: if_splits)

text \<open>The loop over the certificates of the chain.\<close>

function split_certificates :: "'k crypto_ops \<Rightarrow> bytes \<Rightarrow> nat \<Rightarrow> string + (bytes \<times> 'k certificate) list" where
  "split_certificates ops chain offset =
     (if \<not> offset < length chain then Inr []
      else (case derObjectLength chain offset of
          Inl e \<Rightarrow> Inl e
        | Inr len \<Rightarrow>
            if offset + len > length chain then Inl ''Certificate extends past chain length''
            else let raw = sub_array chain offset (offset + len) in
              (case co_certificate ops raw of
                 Inl e \<Rightarrow> Inl e
               | Inr certificate \<Rightarrow>
                   res_bind (split_certificates ops chain (offset + len)) (\<lambda>later. Inr ((raw, certificate) # later)))))"
  by pat_completeness auto

termination
  by (relation "measure (\<lambda>(ops, chain, offset). length chain - offset)") (auto dest!: derObjectLength_pos)

declare split_certificates.simps [simp del]

definition splitUsbCertificateChain :: "'k crypto_ops \<Rightarrow> bytes \<Rightarrow> string + bytes \<times> (bytes \<times> 'k certificate) list" where
  "splitUsbCertificateChain ops chain =
     (if length chain < 37 \<or> length chain > 4096 \<or>
         js_or (byte_at chain 0) (js_shl (byte_at chain 1) 8) \<noteq> int (length chain) \<or>
         byte_at chain 2 \<noteq> 0 \<or> byte_at chain 3 \<noteq> 0 then Inl ''Certificate chain header or length is invalid''
      else res_bind (split_certificates ops chain 36) (\<lambda>certificates.
        if certificates = [] then Inl ''Certificate chain has no leaf certificate''
        else Inr (sub_array chain 4 36, certificates)))"

section \<open>The certificate profile\<close>

definition USB_AUTH_EKU :: string where "USB_AUTH_EKU = ''2.23.145.1.1''"
definition USB_AUTH_ACD :: string where "USB_AUTH_ACD = ''2.23.145.1.2''"

definition KNOWN_CRITICAL :: "string list" where
  "KNOWN_CRITICAL = [''2.5.29.19'', ''2.5.29.15'', ''2.5.29.37'', USB_AUTH_ACD]"

text \<open>\<open>/(?:^|,\s*)NAME=([^,]+)/\<close>: the value of the first attribute of that name in a subject.\<close>

definition attribute_here :: "string \<Rightarrow> string \<Rightarrow> string option" where
  "attribute_here name s =
     (let v = takeWhile (\<lambda>c. c \<noteq> CHR '','') (drop (length name) s)
      in if take (length name) s = name \<and> v \<noteq> [] then Some v else None)"

fun attribute_after :: "string \<Rightarrow> string \<Rightarrow> string option" where
  "attribute_after name [] = None"
| "attribute_after name (c # cs) =
     (case (if c = CHR '','' then attribute_here name (dropWhile js_space cs) else None) of
        Some v \<Rightarrow> Some v | None \<Rightarrow> attribute_after name cs)"

definition subject_attribute :: "string \<Rightarrow> string \<Rightarrow> string option" where
  "subject_attribute name subject =
     (case attribute_here name subject of Some v \<Rightarrow> Some v | None \<Rightarrow> attribute_after name subject)"

definition hex4_text :: "string \<Rightarrow> bool" where
  "hex4_text s \<longleftrightarrow> length s = 4 \<and> (\<forall>c \<in> set s. c \<in> set ''0123456789abcdef'')"

definition leaf_name :: "string \<Rightarrow> bool" where
  "leaf_name cn \<longleftrightarrow> length cn = 13 \<and> take 4 cn = ''USB:'' \<and> hex4_text (take 4 (drop 4 cn)) \<and> cn ! 8 = CHR '':'' \<and>
     hex4_text (drop 9 cn)"

definition issuer_name :: "string \<Rightarrow> bool" where
  "issuer_name cn \<longleftrightarrow> take 4 cn = ''USB:'' \<and>
     (let rest = drop 4 cn in rest = [] \<or> rest = '':'' \<or> hex4_text rest \<or> (hex4_text (take 4 rest) \<and> drop 4 rest = '':''))"

record UsbCertificateIdentity =
  ui_vid :: "string option"
  ui_pid :: "string option"

definition nonempty_text :: "string \<Rightarrow> string option" where
  "nonempty_text s = (if s = [] then None else Some s)"

definition usb_identity :: "string \<Rightarrow> UsbCertificateIdentity" where
  "usb_identity cn =
     (let rest = drop 4 cn; vid = takeWhile (\<lambda>c. c \<noteq> CHR '':'') rest; tail = dropWhile (\<lambda>c. c \<noteq> CHR '':'') rest;
          pid = drop 1 tail
      in if tail \<noteq> [] \<and> (vid = [] \<or> hex4_text vid) \<and> (pid = [] \<or> hex4_text pid)
         then \<lparr>ui_vid = nonempty_text vid, ui_pid = nonempty_text pid\<rparr> else \<lparr>ui_vid = None, ui_pid = None\<rparr>)"

definition validateProfile :: "'k crypto_ops \<Rightarrow> 'k certificate \<Rightarrow> bool \<Rightarrow> bool \<Rightarrow> string + UsbCertificateIdentity" where
  "validateProfile ops c leaf isRoot =
     (let expected = (if leaf then co_digitalSignature ops else co_keyCertSign ops);
          allowed = (if leaf then expected else js_or expected (co_cRLSign ops));
          acd = (\<exists>e \<in> set (ce_extensions c). snd e = USB_AUTH_ACD) in
      if length (ce_rawData c) > (if leaf then 640 else 512) then Inl (if leaf then ''Leaf certificate exceeds USB profile size'' else ''Intermediate certificate exceeds USB profile size'')
      else if ce_signatureAlgorithm c \<noteq> (''ECDSA'', Some ''SHA-256'') then
        Inl ''Certificate signature algorithm is not ECDSA with SHA-256''
      else if ce_publicKeyAlgorithm c \<noteq> (''ECDSA'', Some ''P-256'') then
        Inl ''Certificate public key is not uncompressed NIST P-256''
      else if ce_basicConstraints c \<noteq> Some (True, \<not> leaf, None) then Inl ''Basic Constraints violate USB profile''
      else if (case ce_keyUsage c of None \<Rightarrow> True
          | Some usages \<Rightarrow> js_and usages expected = 0 \<or> js_and usages (js_not allowed) \<noteq> 0) then
        Inl ''Key Usage violates USB profile''
      else if (case ce_extendedKeyUsage c of None \<Rightarrow> True
          | Some (isCritical, usages) \<Rightarrow> \<not> isCritical \<or> USB_AUTH_EKU \<notin> set usages) then
        Inl ''Critical USB-Auth Extended Key Usage is missing''
      else if leaf \<noteq> acd then Inl ''USB-IF ACD placement violates USB profile''
      else if \<exists>(isCritical, typ) \<in> set (ce_extensions c). isCritical \<and> typ \<notin> set KNOWN_CRITICAL then
        Inl ''Certificate contains an unknown critical extension''
      else (case subject_attribute ''CN='' (ce_subject c) of
          None \<Rightarrow> Inl ''Certificate common name violates USB VID/PID profile''
        | Some commonName \<Rightarrow>
            if \<not> (if leaf then leaf_name commonName else issuer_name commonName) then
              Inl ''Certificate common name violates USB VID/PID profile''
            else if isRoot \<and> subject_attribute ''O='' (ce_subject c) = None then
              Inl ''Root certificate organization name is missing''
            else Inr (usb_identity commonName)))"

section \<open>Verification\<close>

record AuthenticationTrustAnchor =
  ta_id :: string
  ta_rootCertificateDer :: bytes
  ta_allowedSlots :: "nat list"
  ta_disabled :: bool

record AuthenticationVerifierPolicy =
  vp_anchors :: "AuthenticationTrustAnchor list"
  vp_deniedCertificateSha256 :: "string list"

definition verdict ::
  "cryptographic_verdict \<Rightarrow> trust_verdict \<Rightarrow> policy_verdict \<Rightarrow> (auth_layer \<times> string) option \<Rightarrow> AuthenticationVerification" where
  "verdict c t p failure =
     \<lparr>av_cryptographic = c, av_trust = t, av_policy = p,
      av_failure = map_option (\<lambda>(layer, message). \<lparr>af_layer = layer, af_message = Auth_text message\<rparr>) failure\<rparr>"

definition crypto_failed :: "string \<Rightarrow> AuthenticationVerification" where
  "crypto_failed message = verdict Crypto_failed Trust_not_checked Policy_not_checked (Some (Layer_cryptographic, message))"

text \<open>The certificates of a chain against the profile, the last one as the leaf.\<close>

fun chain_profiles :: "'k crypto_ops \<Rightarrow> 'k certificate list \<Rightarrow> string + UsbCertificateIdentity list" where
  "chain_profiles ops [] = Inr []"
| "chain_profiles ops (c # cs) =
     res_bind (validateProfile ops c (cs = []) False) (\<lambda>identity.
       res_bind (chain_profiles ops cs) (\<lambda>identities. Inr (identity # identities)))"

fun identities_continue :: "string option \<Rightarrow> string option \<Rightarrow> UsbCertificateIdentity list \<Rightarrow> string option" where
  "identities_continue requiredVid requiredPid [] = None"
| "identities_continue requiredVid requiredPid (identity # identities) =
     (if requiredVid \<noteq> None \<and> ui_vid identity \<noteq> requiredVid then Some ''Certificate chain VID continuity is invalid''
      else if requiredPid \<noteq> None \<and> ui_pid identity \<noteq> requiredPid then Some ''Certificate chain PID continuity is invalid''
      else identities_continue (case requiredVid of None \<Rightarrow> ui_vid identity | v \<Rightarrow> v)
             (case requiredPid of None \<Rightarrow> ui_pid identity | p \<Rightarrow> p) identities)"

text \<open>Every certificate is issued and signed by the one before it: an exception, a failed check or success.\<close>

fun signatures_hold :: "'k crypto_ops \<Rightarrow> string \<Rightarrow> 'k certificate \<Rightarrow> 'k certificate list \<Rightarrow> string option" where
  "signatures_hold ops what issuer [] = None"
| "signatures_hold ops what issuer (c # cs) =
     (if ce_issuer c \<noteq> ce_subject issuer then Some ''Certificate issuer does not match wire-order issuer''
      else (case co_verify_certificate ops c (ce_publicKey issuer) of
          Inl e \<Rightarrow> Some e
        | Inr ok \<Rightarrow> if \<not> ok then Some what else signatures_hold ops what c cs))"

definition challenge_body :: "nat \<Rightarrow> bytes \<Rightarrow> bytes" where
  "challenge_body slot nonce = [0x10, 0x83, of_nat slot, 0] @ nonce"

definition find_anchor ::
  "'k crypto_ops \<Rightarrow> AuthenticationVerifierPolicy \<Rightarrow> nat \<Rightarrow> bytes \<Rightarrow> AuthenticationTrustAnchor option" where
  "find_anchor ops policy slot rootHash =
     List.find (\<lambda>anchor. co_sha256 ops (ta_rootCertificateDer anchor) = rootHash)
       (filter (\<lambda>anchor. \<not> ta_disabled anchor \<and> slot \<in> set (ta_allowedSlots anchor)) (vp_anchors policy))"

definition verifyUsbAuthentication ::
  "'k crypto_ops \<Rightarrow> AuthenticationVerifierPolicy \<Rightarrow> auth_evidence \<Rightarrow> AuthenticationVerification" where
  "verifyUsbAuthentication ops policy input =
     (if co_sha256 ops (ev_certificateChain input) \<noteq> ev_digest input then crypto_failed ''Certificate chain digest mismatch''
      else (case splitUsbCertificateChain ops (ev_certificateChain input) of
        Inl e \<Rightarrow> crypto_failed e
      | Inr (rootHash, parts) \<Rightarrow>
          (case find_anchor ops policy (ev_slot input) rootHash of
             None \<Rightarrow> verdict Crypto_not_checked Trust_missing_anchor Policy_denied
                (Some (Layer_trust, ''No enabled configured anchor matches RootHash and slot''))
           | Some anchor \<Rightarrow>
             (case co_certificate ops (ta_rootCertificateDer anchor) of
                Inl e \<Rightarrow> crypto_failed e
              | Inr rootCertificate \<Rightarrow>
                let certificates = map snd parts in
                (case res_bind (validateProfile ops rootCertificate False True) (\<lambda>identity.
                    res_bind (chain_profiles ops certificates) (\<lambda>identities. Inr (identity # identities))) of
                   Inl e \<Rightarrow> crypto_failed e
                 | Inr identities \<Rightarrow>
                   (case identities_continue None None identities of
                      Some e \<Rightarrow> crypto_failed e
                    | None \<Rightarrow>
                      (case signatures_hold ops ''Certificate signature chain verification failed'' rootCertificate certificates of
                         Some e \<Rightarrow> crypto_failed e
                       | None \<Rightarrow>
                         let leaf = last certificates in
                         if concat (map hex_byte (co_sha256 ops (ce_rawData leaf))) \<in> set (vp_deniedCertificateSha256 policy) then
                           verdict Crypto_verified Trust_untrusted Policy_denied
                             (Some (Layer_policy, ''Leaf certificate is locally denied''))
                         else (case verifyChallengeSignature ops (ce_publicKey leaf)
                               (challenge_body (ev_slot input) (ev_nonce input)) (ev_challengeResponse input) of
                             Inl e \<Rightarrow> crypto_failed e
                           | Inr ok \<Rightarrow>
                               if \<not> ok then verdict Crypto_failed Trust_trusted Policy_denied
                                 (Some (Layer_cryptographic, ''Challenge signature verification failed''))
                               else verdict Crypto_verified Trust_trusted Policy_allowed None))))))))"

text \<open>The check without a trust anchor: the returned chain lacks its root, so its first certificate stands alone.\<close>

definition inspectUsbAuthenticationEvidence :: "'k crypto_ops \<Rightarrow> auth_evidence \<Rightarrow> AuthenticationVerification" where
  "inspectUsbAuthenticationEvidence ops input =
     (if co_sha256 ops (ev_certificateChain input) \<noteq> ev_digest input then crypto_failed ''Certificate chain digest mismatch''
      else (case splitUsbCertificateChain ops (ev_certificateChain input) of
        Inl e \<Rightarrow> crypto_failed e
      | Inr (rootHash, parts) \<Rightarrow>
          let certificates = map snd parts in
          (case chain_profiles ops certificates of
             Inl e \<Rightarrow> crypto_failed e
           | Inr identities \<Rightarrow>
             (case signatures_hold ops ''Returned certificate signature chain verification failed''
                 (hd certificates) (tl certificates) of
                Some e \<Rightarrow> crypto_failed e
              | None \<Rightarrow>
                (case verifyChallengeSignature ops (ce_publicKey (last certificates))
                    (challenge_body (ev_slot input) (ev_nonce input)) (ev_challengeResponse input) of
                   Inl e \<Rightarrow> crypto_failed e
                 | Inr ok \<Rightarrow>
                     if \<not> ok then crypto_failed ''Challenge signature verification failed''
                     else verdict Crypto_verified Trust_not_checked Policy_not_checked None)))))"

end
