(* ===== verification/Auth_Verifier_Laws.thy ===== *)
theory Auth_Verifier_Laws
  imports Auth_Verifier
begin

text \<open>
  What a verdict of the verifier rests on (\<open>verifyUsbAuthentication_sound\<close>), that the cut of a chain loses no
  byte, and the responses the workflow accepts and the verifier cannot (\<open>challenge_version_rejected\<close>).
\<close>

section \<open>The chain\<close>

lemma find_Some_member: "List.find P xs = Some x \<Longrightarrow> P x \<and> x \<in> set xs"
  by (induction xs) (auto split: if_splits)

lemma split_certificates_covers:
  assumes "split_certificates ops chain offset = Inr parts"
  shows "concat (map fst parts) = drop offset chain \<and> (\<forall>(raw, c) \<in> set parts. co_certificate ops raw = Inr c)"
  using assms
proof (induction ops chain offset arbitrary: parts rule: split_certificates.induct)
  case (1 ops chain offset)
  show ?case
  proof (cases "offset < length chain")
    case True
    then obtain len c later where d: "derObjectLength chain offset = Inr len" "offset + len \<le> length chain"
        "co_certificate ops (sub_array chain offset (offset + len)) = Inr c"
        "split_certificates ops chain (offset + len) = Inr later"
        "parts = (sub_array chain offset (offset + len), c) # later"
      using "1.prems" by (subst (asm) split_certificates.simps)
        (auto simp: Let_def res_bind_Inr_iff split: sum.splits if_splits)
    have "concat (map fst later) = drop (offset + len) chain \<and> (\<forall>(raw, c) \<in> set later. co_certificate ops raw = Inr c)"
      using "1.IH"[OF _ d(1) _ refl d(3,4)] True d(2) by auto
    moreover have "sub_array chain offset (offset + len) @ drop (offset + len) chain = drop offset chain"
      unfolding sub_array_def by (metis add.commute add_diff_cancel_left' append_take_drop_id drop_drop drop_take)
    ultimately show ?thesis
      using d(3,5) by simp
  next
    case False
    with "1.prems" show ?thesis
      by (subst (asm) split_certificates.simps) simp
  qed
qed

lemma splitUsbCertificateChain_covers:
  assumes "splitUsbCertificateChain ops chain = Inr (rootHash, parts)"
  shows "concat (map fst parts) = drop 36 chain" "\<forall>(raw, c) \<in> set parts. co_certificate ops raw = Inr c"
    "parts \<noteq> []" "rootHash = sub_array chain 4 36" "37 \<le> length chain" "length chain \<le> 4096"
  using assms split_certificates_covers[of ops chain 36 parts]
  by (auto simp: splitUsbCertificateChain_def res_bind_Inr_iff split: if_splits)

fun chain_linked :: "'k crypto_ops \<Rightarrow> 'k certificate \<Rightarrow> 'k certificate list \<Rightarrow> bool" where
  "chain_linked ops issuer [] \<longleftrightarrow> True"
| "chain_linked ops issuer (c # cs) \<longleftrightarrow>
     ce_issuer c = ce_subject issuer \<and> co_verify_certificate ops c (ce_publicKey issuer) = Inr True \<and> chain_linked ops c cs"

lemma signatures_hold_None: "signatures_hold ops what issuer cs = None \<longleftrightarrow> chain_linked ops issuer cs"
  by (induction ops what issuer cs rule: signatures_hold.induct) (auto split: sum.splits)

section \<open>Verdicts\<close>

text \<open>The signed transcript: the challenge request followed by the response without its signature.\<close>

definition challenge_verified :: "'k crypto_ops \<Rightarrow> 'k \<Rightarrow> auth_evidence \<Rightarrow> bool" where
  "challenge_verified ops key input \<longleftrightarrow>
     length (ev_challengeResponse input) = 168 \<and>
     co_verify_signature ops key
       (rev (take 32 (drop 104 (ev_challengeResponse input))) @ rev (drop 136 (ev_challengeResponse input)))
       (challenge_body (ev_slot input) (ev_nonce input) @ take 104 (ev_challengeResponse input)) = Inr True"

lemma verifyChallengeSignature_True:
  assumes "verifyChallengeSignature ops key (challenge_body (ev_slot input) (ev_nonce input)) (ev_challengeResponse input) = Inr True"
  shows "challenge_verified ops key input"
  using assms
  by (auto simp: verifyChallengeSignature_def challenge_verified_def parseChallengeAuthResponse_def parse_error_def
      authenticationSignatureToP1363_def res_bind_Inr_iff sub_array_def split: sum.splits if_splits)

lemma verdict_simps [simp]:
  "av_cryptographic (verdict c t p f) = c" "av_trust (verdict c t p f) = t" "av_policy (verdict c t p f) = p"
  "av_policy (crypto_failed message) = Policy_not_checked" "av_cryptographic (crypto_failed message) = Crypto_failed"
  by (simp_all add: verdict_def crypto_failed_def)

text \<open>C2: the verifier allows a slot only on evidence that holds together. The chain has the digest the slot
  reported; an enabled anchor of the policy for that slot has the root hash of the chain; the bytes after the
  header are exactly the certificates read, each issued and signed by the one before it, the first by the
  anchor; the leaf is not on the denied list; and the leaf's key verifies the signature over the challenge
  and the response.\<close>

theorem verifyUsbAuthentication_sound:
  assumes "av_policy (verifyUsbAuthentication ops policy input) = Policy_allowed"
  shows "\<exists>anchor rootCertificate parts. let certificates = map snd parts; chain = ev_certificateChain input in
     co_sha256 ops chain = ev_digest input \<and>
     anchor \<in> set (vp_anchors policy) \<and> \<not> ta_disabled anchor \<and> ev_slot input \<in> set (ta_allowedSlots anchor) \<and>
     co_sha256 ops (ta_rootCertificateDer anchor) = sub_array chain 4 36 \<and>
     co_certificate ops (ta_rootCertificateDer anchor) = Inr rootCertificate \<and>
     concat (map fst parts) = drop 36 chain \<and> (\<forall>(raw, c) \<in> set parts. co_certificate ops raw = Inr c) \<and>
     parts \<noteq> [] \<and> chain_linked ops rootCertificate certificates \<and>
     concat (map hex_byte (co_sha256 ops (ce_rawData (last certificates)))) \<notin> set (vp_deniedCertificateSha256 policy) \<and>
     challenge_verified ops (ce_publicKey (last certificates)) input"
proof -
  let ?chain = "ev_certificateChain input"
  obtain rootHash parts anchor rootCertificate identities where r:
      "co_sha256 ops ?chain = ev_digest input" "splitUsbCertificateChain ops ?chain = Inr (rootHash, parts)"
      "find_anchor ops policy (ev_slot input) rootHash = Some anchor"
      "co_certificate ops (ta_rootCertificateDer anchor) = Inr rootCertificate"
      "signatures_hold ops ''Certificate signature chain verification failed'' rootCertificate (map snd parts) = None"
      "concat (map hex_byte (co_sha256 ops (ce_rawData (last (map snd parts))))) \<notin> set (vp_deniedCertificateSha256 policy)"
      "verifyChallengeSignature ops (ce_publicKey (last (map snd parts)))
         (challenge_body (ev_slot input) (ev_nonce input)) (ev_challengeResponse input) = Inr True"
    using assms unfolding verifyUsbAuthentication_def Let_def
    by (auto split: if_splits sum.splits option.splits prod.splits)
  note s = splitUsbCertificateChain_covers[OF r(2)]
  have "anchor \<in> set (vp_anchors policy)" "\<not> ta_disabled anchor" "ev_slot input \<in> set (ta_allowedSlots anchor)"
      "co_sha256 ops (ta_rootCertificateDer anchor) = rootHash"
    using find_Some_member[OF r(3)[unfolded find_anchor_def]] by auto
  then show ?thesis
    using r(1,4,6) s signatures_hold_None[THEN iffD1, OF r(5)] verifyChallengeSignature_True[OF r(7)]
    unfolding Let_def by (intro exI[of _ anchor] exI[of _ rootCertificate] exI[of _ parts]) auto
qed

section \<open>Protocol versions\<close>

text \<open>The two readers of CHALLENGE_AUTH disagree on the protocol versions. The workflow takes a response whose
  minimum or maximum version is 0x10, as it does in the header; the verifier insists on 0x01, so such a
  response of a genuine partner is always reported as a cryptographic failure, whatever its signature is.\<close>

lemma challenge_version_rejected:
  assumes "parseChallengeResponse raw slot slotMask = Inr response" "byte_at raw 4 = 0x10 \<or> byte_at raw 5 = 0x10"
    "length nonce = 32" "slot < 8"
  shows "verifyChallengeSignature ops key (challenge_body slot nonce) response =
    Inl ''CHALLENGE_AUTH version, capabilities, or reserved fields are invalid''"
proof -
  have r: "response = raw" "length raw = 168" "byte_at raw 1 = 3" "byte_at raw 2 = int slot"
      "mask_has (byte_at raw 3) slot" "byte_at raw 0 = 0x10 \<or> byte_at raw 0 = 1"
    using assms(1)
    by (auto simp: parseChallengeResponse_def after_header_def parseHeader_def split: if_splits)
  have "byte_at (challenge_body slot nonce) 2 = int slot"
    using assms(4) by (simp add: challenge_body_def byte_at_def uint_nat unat_of_nat)
  then show ?thesis
    using r assms(2,3)
    by (auto simp: verifyChallengeSignature_def parseChallengeAuthResponse_def parseAuthenticationHeader_def
        challenge_body_def mask_has_def parse_error_def)
qed

text \<open>Operations with a fixed digest and signatures that always verify, and a self-issued certificate.\<close>

definition sample_certificate :: "bytes \<Rightarrow> unit certificate" where
  "sample_certificate raw =
     \<lparr>ce_rawData = raw, ce_subject = (if length raw = 2 then ''CN=USB:1234:abcd'' else ''O=Dr, CN=USB:''),
      ce_issuer = ''O=Dr, CN=USB:'',
      ce_signatureAlgorithm = (''ECDSA'', Some ''SHA-256''), ce_publicKeyAlgorithm = (''ECDSA'', Some ''P-256''),
      ce_publicKey = (), ce_basicConstraints = Some (True, length raw \<noteq> 2, None),
      ce_keyUsage = Some (if length raw = 2 then 1 else 32), ce_extendedKeyUsage = Some (True, [USB_AUTH_EKU]),
      ce_extensions = (if length raw = 2 then [(True, USB_AUTH_ACD)] else [])\<rparr>"

definition sample_ops :: "unit crypto_ops" where
  "sample_ops = \<lparr>co_sha256 = (\<lambda>bs. replicate 32 7), co_certificate = (\<lambda>raw. Inr (sample_certificate raw)),
     co_verify_certificate = (\<lambda>c key. Inr True), co_verify_signature = (\<lambda>key signature message. Inr True),
     co_digitalSignature = 1, co_keyCertSign = 32, co_cRLSign = 64\<rparr>"

definition sample_evidence :: auth_evidence where
  "sample_evidence = \<lparr>ev_slot = 0, ev_digest = replicate 32 7,
     ev_certificateChain = [38, 0, 0, 0] @ replicate 32 7 @ [0x30, 0], ev_nonce = replicate 32 5,
     ev_challengeResponse = [0x10, 3, 0, 1, 1, 1, 1, 0] @ replicate 160 0, ev_slotMask = 1\<rparr>"

definition sample_policy :: AuthenticationVerifierPolicy where
  "sample_policy = \<lparr>vp_anchors = [\<lparr>ta_id = ''root'', ta_rootCertificateDer = [1], ta_allowedSlots = [0], ta_disabled = False\<rparr>],
     vp_deniedCertificateSha256 = []\<rparr>"

lemma verifyUsbAuthentication_sound_witness:
  "av_policy (verifyUsbAuthentication sample_ops sample_policy sample_evidence) = Policy_allowed \<and>
   (\<exists>anchor \<in> set (vp_anchors sample_policy). co_sha256 sample_ops (ta_rootCertificateDer anchor) = replicate 32 7)"
proof -
  have a: "av_policy (verifyUsbAuthentication sample_ops sample_policy sample_evidence) = Policy_allowed"
    by code_simp
  then show ?thesis
    using verifyUsbAuthentication_sound[OF a] by (auto simp: Let_def sample_ops_def)
qed

end
