(* ===== verification/Log_Rows.thy ===== *)
theory Log_Rows
  imports Log_Decode Js_Sort Scpi_Numbers
begin

text \<open>
  The rows of the log, \<open>logging/types.ts\<close> and the helpers of \<open>logging/sqliteWasmStore.ts\<close>: the timeline order
  and the insertion into it, the values a row may have in storage, the configuration, and the texts and
  bytes of its fields. A plain number of a row is the finite double it is, a rational.
\<close>

section \<open>Rows\<close>

record LoggedAnalogSample =
  la_timestampUs :: int
  la_displayTimestampUs :: "int option"
  la_wallClockUs :: "int option"
  la_vbusV :: rat
  la_ibusA :: rat
  la_role :: "string option"
  la_createdAtMs :: rat

record LoggedEventDataEntry =
  de_key :: string
  de_value :: string

record LoggedEventDataSection =
  se_title :: string
  se_entries :: "LoggedEventDataEntry list"

record LoggedRow =
  lr_entryKind :: LoggedCapturedEntryKind
  lr_eventType :: "string option"
  lr_eventText :: "string option"
  lr_eventData :: "LoggedEventDataSection list option"
  lr_eventWallClockMs :: "rat option"
  lr_flagged :: bool
  lr_comment :: "string option"
  lr_commentCreatedAtMs :: "rat option"
  lr_wallClockUs :: "int option"
  lr_startTimestampUs :: int
  lr_endTimestampUs :: int
  lr_displayTimestampUs :: "int option"
  lr_decodeResult :: rat
  lr_sopKind :: "string option"
  lr_messageKind :: "string option"
  lr_messageType :: "rat option"
  lr_messageId :: "rat option"
  lr_senderPowerRole :: "string option"
  lr_senderDataRole :: "string option"
  lr_pulseCount :: rat
  lr_rawPulseWidths :: "rat list"
  lr_rawSop :: bytes
  lr_rawDecodedData :: bytes
  lr_parseError :: "string option"
  lr_createdAtMs :: rat

text \<open>\<open>String(x)\<close> of a finite double: the shortest decimal digits \<open>s\<close> with exponent \<open>n\<close> that round to it, as a plain
  decimal from \<open>1e-6\<close> below \<open>1e21\<close> and with an exponent otherwise. Seventeen digits are always enough.\<close>

definition decimal_exponent :: "rat \<Rightarrow> int" where
  "decimal_exponent x =
     (let (p, q) = quotient_of x; e = int (length (decimal_digits (nat p))) - int (length (decimal_digits (nat q)))
      in if 10 powi e \<le> x then e + 1 else e)"

fun shortest_digits :: "rat \<Rightarrow> int \<Rightarrow> nat \<Rightarrow> nat \<Rightarrow> nat" where
  "shortest_digits x n k 0 = nat \<lfloor>x / 10 powi (n - int k)\<rfloor>"
| "shortest_digits x n k (Suc left) =
     (let scaled = x / 10 powi (n - int k); lower = \<lfloor>scaled\<rfloor>; upper = lower + 1;
          good = (\<lambda>s. fl (of_int s * 10 powi (n - int k)) = x \<and> 10 ^ (k - 1) \<le> s \<and> s < 10 ^ k);
          (first, second) = (if scaled - of_int lower \<le> 1 / 2 then (lower, upper) else (upper, lower))
      in if good first then nat first else if good second then nat second else shortest_digits x n (k + 1) left)"

definition positive_number_text :: "rat \<Rightarrow> string" where
  "positive_number_text x =
     (let n = decimal_exponent x; ds = decimal_digits (shortest_digits x n 1 17); k = int (length ds) in
      if k \<le> n \<and> n \<le> 21 then ds @ replicate (nat (n - k)) (CHR ''0'')
      else if 0 < n \<and> n \<le> 21 then take (nat n) ds @ ''.'' @ drop (nat n) ds
      else if - 6 < n \<and> n \<le> 0 then ''0.'' @ replicate (nat (- n)) (CHR ''0'') @ ds
      else take 1 ds @ (if k = 1 then [] else ''.'' @ drop 1 ds) @ ''e'' @ (if n > 0 then ''+'' else []) @ js_String (n - 1) 0)"

definition js_number_text :: "rat \<Rightarrow> string" where
  "js_number_text x =
     (if x = 0 then ''0'' else if x < 0 then ''-'' @ positive_number_text (- x) else positive_number_text x)"

text \<open>The key a row is selected by.\<close>

definition buildCapturedLogSelectionKey :: "LoggedRow \<Rightarrow> string" where
  "buildCapturedLogSelectionKey row =
     (if lr_entryKind row = EK_event then
        ''event:'' @ js_String (lr_startTimestampUs row) 0 @ '':'' @ js_number_text (lr_createdAtMs row) @ '':'' @
        (case lr_eventType row of None \<Rightarrow> ''unknown'' | Some t \<Rightarrow> t)
      else
        ''message:'' @ js_String (lr_startTimestampUs row) 0 @ '':'' @ js_String (lr_endTimestampUs row) 0 @ '':'' @
        js_number_text (lr_createdAtMs row))"

section \<open>The timeline\<close>

definition compareCapturedMessageTimeline :: "LoggedRow \<Rightarrow> LoggedRow \<Rightarrow> rat" where
  "compareCapturedMessageTimeline left right =
     (case (lr_wallClockUs left, lr_wallClockUs right) of
        (Some l, Some r) \<Rightarrow>
          if l < r then - 1 else if l > r then 1 else lr_createdAtMs left - lr_createdAtMs right
      | (None, Some r) \<Rightarrow> - 1
      | (Some l, None) \<Rightarrow> 1
      | (None, None) \<Rightarrow> lr_createdAtMs left - lr_createdAtMs right)"

text \<open>The binary search for the first row after all rows that do not come later.\<close>

function timeline_position :: "LoggedRow list \<Rightarrow> LoggedRow \<Rightarrow> nat \<Rightarrow> nat \<Rightarrow> nat" where
  "timeline_position rows row low high =
     (if low < high then
        let middle = (low + high) div 2
        in if compareCapturedMessageTimeline (rows ! middle) row \<le> 0
           then timeline_position rows row (middle + 1) high
           else timeline_position rows row low middle
      else low)"
  by pat_completeness auto

termination
  by (relation "measure (\<lambda>(rows, row, low, high). high - low)") auto

declare timeline_position.simps [simp del]

definition insertCapturedMessageInTimelineOrder :: "LoggedRow list \<Rightarrow> LoggedRow \<Rightarrow> LoggedRow list" where
  "insertCapturedMessageInTimelineOrder rows row =
     (let low = timeline_position rows row 0 (length rows) in take low rows @ row # drop low rows)"

section \<open>Values in storage\<close>

definition SQLITE_MAX_TIMESTAMP_US :: int where "SQLITE_MAX_TIMESTAMP_US = 9223372036854775807"

definition clampBigInt :: "int \<Rightarrow> int \<Rightarrow> int \<Rightarrow> int" where
  "clampBigInt val minimum maximum = (if val < minimum then minimum else if val > maximum then maximum else val)"

definition clampSqliteTimestampUs :: "int \<Rightarrow> int" where
  "clampSqliteTimestampUs val = clampBigInt val 0 SQLITE_MAX_TIMESTAMP_US"

definition clampNullableSqliteTimestampUs :: "int option \<Rightarrow> int option" where
  "clampNullableSqliteTimestampUs val = map_option clampSqliteTimestampUs val"

definition normalizeAnalogSampleForStorage :: "LoggedAnalogSample \<Rightarrow> LoggedAnalogSample" where
  "normalizeAnalogSampleForStorage sample = sample
     \<lparr>la_timestampUs := clampSqliteTimestampUs (la_timestampUs sample),
      la_displayTimestampUs := clampNullableSqliteTimestampUs (la_displayTimestampUs sample),
      la_wallClockUs := clampNullableSqliteTimestampUs (la_wallClockUs sample)\<rparr>"

definition is_annotatable :: "LoggedRow \<Rightarrow> bool" where
  "is_annotatable message \<longleftrightarrow> lr_entryKind message = EK_message \<or>
     (lr_entryKind message = EK_event \<and> lr_eventType message = Some ''mark'')"

definition normalizeCapturedMessageForStorage :: "LoggedRow \<Rightarrow> LoggedRow" where
  "normalizeCapturedMessageForStorage message =
     (let startTimestampUs = clampSqliteTimestampUs (lr_startTimestampUs message);
          endTimestampUs = clampSqliteTimestampUs (lr_endTimestampUs message);
          isAnnotatable = is_annotatable message
      in message
        \<lparr>lr_eventData := (if lr_entryKind message = EK_event then lr_eventData message else None),
         lr_flagged := isAnnotatable \<and> lr_flagged message,
         lr_comment := (if isAnnotatable then lr_comment message else None),
         lr_commentCreatedAtMs := (if isAnnotatable then lr_commentCreatedAtMs message else None),
         lr_wallClockUs := clampNullableSqliteTimestampUs (lr_wallClockUs message),
         lr_startTimestampUs := startTimestampUs,
         lr_endTimestampUs := (if endTimestampUs < startTimestampUs then startTimestampUs else endTimestampUs),
         lr_displayTimestampUs := clampNullableSqliteTimestampUs (lr_displayTimestampUs message)\<rparr>)"

section \<open>Configuration\<close>

text \<open>An interval that is not finite is \<open>None\<close>; the limits are finite.\<close>

datatype storage_backend = Backend_auto | Backend_memory

record DRPDLoggingConfig =
  lc_enabled :: bool
  lc_autoStartOnConnect :: bool
  lc_messagePollFallbackIntervalMs :: "rat option"
  lc_clockSyncEnabled :: bool
  lc_clockSyncResyncIntervalMs :: "rat option"
  lc_maxAnalogSamples :: rat
  lc_maxCapturedMessages :: rat
  lc_retentionTrimBatchSize :: rat
  lc_storageBackend :: storage_backend

definition buildDefaultLoggingConfig :: DRPDLoggingConfig where
  "buildDefaultLoggingConfig =
     \<lparr>lc_enabled = False, lc_autoStartOnConnect = True, lc_messagePollFallbackIntervalMs = Some 1000,
      lc_clockSyncEnabled = True, lc_clockSyncResyncIntervalMs = Some 30000, lc_maxAnalogSamples = 1000000,
      lc_maxCapturedMessages = 1000000, lc_retentionTrimBatchSize = 2000, lc_storageBackend = Backend_auto\<rparr>"

text \<open>A partial configuration: what is missing is \<open>None\<close>. The intervals are tested for being finite numbers.\<close>

record partial_config =
  pc_enabled :: "bool option"
  pc_autoStartOnConnect :: "bool option"
  pc_messagePollFallbackIntervalMs :: "rat option"
  pc_clockSyncEnabled :: "bool option"
  pc_clockSyncResyncIntervalMs :: "rat option"
  pc_maxAnalogSamples :: "rat option"
  pc_maxCapturedMessages :: "rat option"
  pc_retentionTrimBatchSize :: "rat option"
  pc_storageBackend :: "storage_backend option"

definition or_default :: "'a option \<Rightarrow> 'a \<Rightarrow> 'a" where
  "or_default val fallback = (case val of None \<Rightarrow> fallback | Some x \<Rightarrow> x)"

definition interval_or_default :: "rat option \<Rightarrow> rat option \<Rightarrow> rat option" where
  "interval_or_default interval fallback =
     (case interval of Some ms \<Rightarrow> if ms > 0 then Some (of_int \<lfloor>ms\<rfloor>) else fallback | None \<Rightarrow> fallback)"

definition limit_or_default :: "rat option \<Rightarrow> rat \<Rightarrow> rat" where
  "limit_or_default limit fallback = max 1 (of_int \<lfloor>or_default limit fallback\<rfloor>)"

definition store_config :: "partial_config \<Rightarrow> DRPDLoggingConfig" where
  "store_config input =
     (let defaults = buildDefaultLoggingConfig in
      \<lparr>lc_enabled = or_default (pc_enabled input) (lc_enabled defaults),
       lc_autoStartOnConnect = or_default (pc_autoStartOnConnect input) (lc_autoStartOnConnect defaults),
       lc_messagePollFallbackIntervalMs = interval_or_default (pc_messagePollFallbackIntervalMs input)
         (lc_messagePollFallbackIntervalMs defaults),
       lc_clockSyncEnabled = or_default (pc_clockSyncEnabled input) (lc_clockSyncEnabled defaults),
       lc_clockSyncResyncIntervalMs = interval_or_default (pc_clockSyncResyncIntervalMs input)
         (lc_clockSyncResyncIntervalMs defaults),
       lc_maxAnalogSamples = limit_or_default (pc_maxAnalogSamples input) (lc_maxAnalogSamples defaults),
       lc_maxCapturedMessages = limit_or_default (pc_maxCapturedMessages input) (lc_maxCapturedMessages defaults),
       lc_retentionTrimBatchSize = limit_or_default (pc_retentionTrimBatchSize input)
         (lc_retentionTrimBatchSize defaults),
       lc_storageBackend = (if pc_storageBackend input = Some Backend_memory then Backend_memory
         else lc_storageBackend defaults)\<rparr>)"

section \<open>Texts and bytes\<close>

definition toCSVField :: "string \<Rightarrow> string" where
  "toCSVField val =
     (if CHR '','' \<in> set val \<or> quote_char \<in> set val \<or> CHR 0x0A \<in> set val
      then [quote_char] @ concat (map (\<lambda>c. if c = quote_char then [quote_char, quote_char] else [c]) val) @ [quote_char]
      else val)"

definition lower_hex_digit :: "int \<Rightarrow> char" where
  "lower_hex_digit n = ''0123456789abcdef'' ! nat n"

definition toHex :: "bytes \<Rightarrow> string" where
  "toHex bs = concat (map (\<lambda>b. [lower_hex_digit (uint b div 16), lower_hex_digit (uint b mod 16)]) bs)"

text \<open>The bits of a double: sign, biased exponent and fraction.\<close>

definition float64_bits :: "rat \<Rightarrow> int" where
  "float64_bits x =
     (let s = (if x < 0 then 2 ^ 63 else 0); e = binade x in
      if x = 0 then 0
      else if e < - 1022 then s + \<lfloor>\<bar>x\<bar> * 2 ^ 1074\<rfloor>
      else s + (e + 1023) * 2 ^ 52 + (\<lfloor>\<bar>x\<bar> / 2 powi (e - 52)\<rfloor> - 2 ^ 52))"

text \<open>The number of the bits; \<open>None\<close> for an infinity or NaN.\<close>

definition float64_value :: "int \<Rightarrow> rat option" where
  "float64_value bits =
     (let fraction = bits mod 2 ^ 52; e = bits div 2 ^ 52 mod 2048; sign = (if bits div 2 ^ 63 = 1 then - 1 else 1) in
      if e = 2047 then None
      else if e = 0 then Some (sign * of_int fraction / 2 ^ 1074)
      else Some (sign * of_int (2 ^ 52 + fraction) * 2 powi (e - 1075)))"

definition encodePulseWidthsLE :: "rat list \<Rightarrow> bytes" where
  "encodePulseWidthsLE vals = concat (map (\<lambda>v. le_bytes 8 (float64_bits v)) vals)"

definition decodePulseWidthsLE :: "bytes \<Rightarrow> rat option list" where
  "decodePulseWidthsLE bs =
     (if length bs mod 8 = 0 then
        map (\<lambda>i. float64_value (le_val (sub_array bs (8 * i) (8 * i + 8)))) [0..<length bs div 8]
      else if length bs mod 2 = 0 then
        map (\<lambda>i. Some (of_int (le_val (sub_array bs (2 * i) (2 * i + 2))))) [0..<length bs div 2]
      else [])"

end
