(* ===== verification/Log_Import.thy ===== *)
theory Log_Import
  imports Log_Rows Cable_Test
begin

text \<open>
  Rows as JSON: \<open>logging/eventData.ts\<close> and \<open>features/rack/messageLogImport.ts\<close>. A JSON text is represented by the
  value \<open>JSON.parse\<close> makes of it, \<open>None\<close> for a text that is not JSON; a missing property and an undefined
  value are \<open>None\<close> as well. Errors are the messages the code throws.
\<close>

datatype json =
    J_null
  | J_bool bool
  | J_number rat
  | J_string string
  | J_array "json list"
  | J_object "(string \<times> json) list"

fun isRecord :: "json option \<Rightarrow> bool" where
  "isRecord (Some (J_object props)) = True"
| "isRecord _ = False"

fun property_of :: "json \<Rightarrow> string \<Rightarrow> json option" where
  "property_of (J_object props) name = map_of props name"
| "property_of _ name = None"

definition nullish :: "json option \<Rightarrow> bool" where
  "nullish val \<longleftrightarrow> val = None \<or> val = Some J_null"

definition index_label :: "string \<Rightarrow> nat \<Rightarrow> string" where
  "index_label label i = label @ ''['' @ js_String (int i) 0 @ '']''"

text \<open>The elements of an array through a reader, up to the first that fails.\<close>

fun read_each :: "(string \<Rightarrow> json option \<Rightarrow> string + 'a) \<Rightarrow> string \<Rightarrow> nat \<Rightarrow> json list \<Rightarrow> string + 'a list" where
  "read_each reader label i [] = Inr []"
| "read_each reader label i (v # vs) =
     res_bind (reader (index_label label i) (Some v)) (\<lambda>x.
       res_bind (read_each reader label (Suc i) vs) (\<lambda>xs. Inr (x # xs)))"

section \<open>Event data\<close>

definition text_property :: "string \<Rightarrow> string \<Rightarrow> json \<Rightarrow> string + string" where
  "text_property label name record =
     (case property_of record name of
        Some (J_string s) \<Rightarrow> Inr s
      | _ \<Rightarrow> Inl (label @ ''.'' @ name @ '' must be a string.''))"

definition parse_event_entry :: "string \<Rightarrow> json option \<Rightarrow> string + LoggedEventDataEntry" where
  "parse_event_entry label entry =
     (if \<not> isRecord entry then Inl (label @ '' must be an object.'')
      else res_bind (text_property label ''key'' (the entry)) (\<lambda>key.
           res_bind (text_property label ''value'' (the entry)) (\<lambda>val.
             Inr \<lparr>de_key = key, de_value = val\<rparr>)))"

definition parse_event_section :: "string \<Rightarrow> json option \<Rightarrow> string + LoggedEventDataSection" where
  "parse_event_section label section =
     (if \<not> isRecord section then Inl (label @ '' must be an object.'')
      else res_bind (text_property label ''title'' (the section)) (\<lambda>title.
        (case property_of (the section) ''entries'' of
           Some (J_array entries) \<Rightarrow>
             res_bind (read_each parse_event_entry (label @ ''.entries'') 0 entries) (\<lambda>es.
               Inr \<lparr>se_title = title, se_entries = es\<rparr>)
         | _ \<Rightarrow> Inl (label @ ''.entries must be an array.''))))"

definition parseLoggedEventData :: "string \<Rightarrow> json option \<Rightarrow> string + LoggedEventDataSection list option" where
  "parseLoggedEventData label val =
     (if nullish val then Inr None
      else (case val of
         Some (J_array sections) \<Rightarrow>
           res_bind (read_each parse_event_section label 0 sections) (\<lambda>ss. Inr (Some ss))
       | _ \<Rightarrow> Inl (label @ '' must be an array or null.'')))"

text \<open>The stored column: null, a text that is JSON or not, or another kind of value.\<close>

datatype event_column = Column_null | Column_text "json option" | Column_other

fun deserializeLoggedEventData :: "event_column \<Rightarrow> string + LoggedEventDataSection list option" where
  "deserializeLoggedEventData Column_null = Inr None"
| "deserializeLoggedEventData (Column_text (Some val)) =
     parseLoggedEventData ''captured_messages.event_data'' (Some val)"
| "deserializeLoggedEventData (Column_text None) = Inl ''captured_messages.event_data contains invalid JSON.''"
| "deserializeLoggedEventData Column_other = Inl ''captured_messages.event_data must be JSON text or null.''"

text \<open>The value of \<open>JSON.stringify(row.eventData)\<close>.\<close>

definition event_entry_json :: "LoggedEventDataEntry \<Rightarrow> json" where
  "event_entry_json e = J_object [(''key'', J_string (de_key e)), (''value'', J_string (de_value e))]"

definition event_section_json :: "LoggedEventDataSection \<Rightarrow> json" where
  "event_section_json s =
     J_object [(''title'', J_string (se_title s)), (''entries'', J_array (map event_entry_json (se_entries s)))]"

definition event_data_json :: "LoggedEventDataSection list option \<Rightarrow> json" where
  "event_data_json sections = (case sections of None \<Rightarrow> J_null | Some ss \<Rightarrow> J_array (map event_section_json ss))"

section \<open>Field readers\<close>

definition readString :: "string \<Rightarrow> json option \<Rightarrow> string + string" where
  "readString label val = (case val of Some (J_string s) \<Rightarrow> Inr s | _ \<Rightarrow> Inl (label @ '' must be a string.''))"

definition readOptionalBoolean :: "string \<Rightarrow> json option \<Rightarrow> string + bool" where
  "readOptionalBoolean label val =
     (if nullish val then Inr False
      else case val of Some (J_bool b) \<Rightarrow> Inr b | _ \<Rightarrow> Inl (label @ '' must be a boolean.''))"

definition nullable :: "(string \<Rightarrow> json option \<Rightarrow> string + 'a) \<Rightarrow> string \<Rightarrow> json option \<Rightarrow> string + 'a option" where
  "nullable reader label val = (if nullish val then Inr None else res_bind (reader label val) (\<lambda>x. Inr (Some x)))"

definition readNullableString :: "string \<Rightarrow> json option \<Rightarrow> string + string option" where
  "readNullableString = nullable readString"

definition readNumber :: "string \<Rightarrow> json option \<Rightarrow> string + rat" where
  "readNumber label val =
     (case val of Some (J_number q) \<Rightarrow> Inr q | _ \<Rightarrow> Inl (label @ '' must be a finite number.''))"

definition readNullableNumber :: "string \<Rightarrow> json option \<Rightarrow> string + rat option" where
  "readNullableNumber = nullable readNumber"

definition is_integer :: "rat \<Rightarrow> bool" where
  "is_integer q \<longleftrightarrow> of_int \<lfloor>q\<rfloor> = q"

definition readBigInt :: "string \<Rightarrow> json option \<Rightarrow> string + int" where
  "readBigInt label val =
     (case val of
        Some (J_number q) \<Rightarrow>
          if is_integer q \<and> \<bar>q\<bar> \<le> 9007199254740991 then Inr \<lfloor>q\<rfloor>
          else Inl (label @ '' must be an unsigned integer string.'')
      | Some (J_string s) \<Rightarrow>
          if s \<noteq> [] \<and> list_all js_digit s then Inr (digits_value s 0)
          else Inl (label @ '' must be an unsigned integer string.'')
      | _ \<Rightarrow> Inl (label @ '' must be an unsigned integer string.''))"

definition readNullableBigInt :: "string \<Rightarrow> json option \<Rightarrow> string + int option" where
  "readNullableBigInt = nullable readBigInt"

text \<open>\<open>Number(s)\<close> of a text; \<open>None\<close> for NaN and the infinities.\<close>

definition full_exponent :: "string \<Rightarrow> int option" where
  "full_exponent s =
     (if s = [] then Some 0
      else if hd s = CHR ''e'' \<or> hd s = CHR ''E'' then
        (let (negative, t) = read_sign (tl s)
         in if t = [] \<or> \<not> list_all js_digit t then None
            else Some (if negative then - digits_value t 0 else digits_value t 0))
      else None)"

definition js_Number :: "string \<Rightarrow> rat option" where
  "js_Number s =
     (let t = trim s; radix = (\<lambda>b. Option.bind (read_radix b (drop 2 t)) (\<lambda>n. to_double (of_int n)))
      in if t = [] then Some 0
         else if take 2 t = ''0x'' \<or> take 2 t = ''0X'' then radix 16
         else if take 2 t = ''0o'' \<or> take 2 t = ''0O'' then radix 8
         else if take 2 t = ''0b'' \<or> take 2 t = ''0B'' then radix 2
         else let (negative, u) = read_sign t; ip = takeWhile js_digit u; r = dropWhile js_digit u;
             (fp, r2) = (if r \<noteq> [] \<and> hd r = CHR ''.'' then (takeWhile js_digit (tl r), dropWhile js_digit (tl r))
                         else ([], r))
         in if ip = [] \<and> fp = [] then None
            else (case full_exponent r2 of
               None \<Rightarrow> None
             | Some e \<Rightarrow>
                 let v = of_int (digits_value (ip @ fp) 0) * 10 powi (e - int (length fp))
                 in to_double (if negative then - v else v)))"

text \<open>An object with numbered properties, as a typed array is serialized: the values in the order of the
  numbers. An index is printed without an exponent (all indices below \<open>1e21\<close>).\<close>

definition numeric_keys :: "(string \<times> json) list \<Rightarrow> int list" where
  "numeric_keys props =
     js_sort (\<lambda>l r. l - r)
       (concat (map (\<lambda>(k, v). case js_Number k of
          Some q \<Rightarrow> if is_integer q then [\<lfloor>q\<rfloor>] else [] | None \<Rightarrow> []) props))"

fun read_keys :: "(string \<Rightarrow> json option \<Rightarrow> string + 'a) \<Rightarrow> string \<Rightarrow> json \<Rightarrow> int list \<Rightarrow> string + 'a list" where
  "read_keys reader label record [] = Inr []"
| "read_keys reader label record (k # ks) =
     res_bind (reader (label @ ''.'' @ js_String k 0) (property_of record (js_String k 0))) (\<lambda>x.
       res_bind (read_keys reader label record ks) (\<lambda>xs. Inr (x # xs)))"

definition readNumericRecord ::
  "(string \<Rightarrow> json option \<Rightarrow> string + 'a) \<Rightarrow> string \<Rightarrow> (string \<times> json) list \<Rightarrow> string + 'a list" where
  "readNumericRecord reader label props = read_keys reader label (J_object props) (numeric_keys props)"

definition readPulseWidths :: "string \<Rightarrow> json option \<Rightarrow> string + rat list" where
  "readPulseWidths label val =
     (case val of
        Some (J_array vs) \<Rightarrow> read_each readNumber label 0 vs
      | Some (J_object props) \<Rightarrow> readNumericRecord readNumber label props
      | _ \<Rightarrow> Inl (label @ '' must be an array.''))"

definition readByte :: "string \<Rightarrow> json option \<Rightarrow> string + byte" where
  "readByte label val =
     res_bind (readNumber label val) (\<lambda>q.
       if \<not> is_integer q \<or> q < 0 \<or> q > 255 then Inl (label @ '' must be a byte value.'')
       else Inr (word_of_int \<lfloor>q\<rfloor>))"

definition hexToBytes :: "string \<Rightarrow> string \<Rightarrow> string + bytes" where
  "hexToBytes val label =
     (if length val mod 2 \<noteq> 0 \<or> \<not> list_all (\<lambda>c. digit_value c < 16) val then
        Inl (label @ '' must be valid hexadecimal.'')
      else Inr (hex_pairs val))"

definition readBytes :: "string \<Rightarrow> json option \<Rightarrow> string + bytes" where
  "readBytes label val =
     (case val of
        Some (J_string s) \<Rightarrow> hexToBytes s label
      | Some (J_array vs) \<Rightarrow> read_each readByte label 0 vs
      | Some (J_object props) \<Rightarrow> readNumericRecord readByte label props
      | _ \<Rightarrow> Inl (label @ '' must be a hex string or byte array.''))"

section \<open>Rows\<close>

definition REQUIRED_FIELDS :: "string list" where
  "REQUIRED_FIELDS = [''entryKind'', ''startTimestampUs'', ''endTimestampUs'', ''decodeResult'', ''pulseCount'',
     ''rawPulseWidths'', ''createdAtMs'']"

definition entry_kind_text :: "LoggedCapturedEntryKind \<Rightarrow> string" where
  "entry_kind_text kind = (case kind of EK_message \<Rightarrow> ''message'' | EK_event \<Rightarrow> ''event'')"

definition coalesce :: "json option \<Rightarrow> json option \<Rightarrow> json option" where
  "coalesce val other = (if nullish val then other else val)"

definition annotation :: "bool \<Rightarrow> 'a \<Rightarrow> (string + 'a) \<Rightarrow> string + 'a" where
  "annotation isAnnotatable absent reader = (if isAnnotatable then reader else Inr absent)"

definition read_field :: "(string \<Rightarrow> json option \<Rightarrow> string + 'a) \<Rightarrow> string \<Rightarrow> json \<Rightarrow> string \<Rightarrow> string + 'a" where
  "read_field reader label record name = reader (label @ ''.'' @ name) (property_of record name)"

definition normalizeCapturedMessage :: "json option \<Rightarrow> nat \<Rightarrow> string + LoggedRow" where
  "normalizeCapturedMessage val index =
     (let label = ''row '' @ js_String (int index + 1) 0; record = the val
      in if \<not> isRecord val then Inl (label @ '' must be an object.'')
      else (case List.find (\<lambda>name. property_of record name = None) REQUIRED_FIELDS of
        Some name \<Rightarrow> Inl (label @ '' is missing '' @ name @ ''.'')
      | None \<Rightarrow>
        res_bind (read_field readString label record ''entryKind'') (\<lambda>entryKind.
        if entryKind \<noteq> ''message'' \<and> entryKind \<noteq> ''event'' then
          Inl (label @ ''.entryKind must be \"message\" or \"event\".'')
        else let kind = (if entryKind = ''event'' then EK_event else EK_message) in
        res_bind (read_field readNullableString label record ''eventType'') (\<lambda>eventType.
        let isAnnotatable = kind = EK_message \<or> eventType = Some ''mark'' in
        res_bind (read_field readNullableString label record ''eventText'') (\<lambda>eventText.
        res_bind (if kind = EK_event then read_field parseLoggedEventData label record ''eventData'' else Inr None) (\<lambda>eventData.
        res_bind (read_field readNullableNumber label record ''eventWallClockMs'') (\<lambda>eventWallClockMs.
        res_bind (annotation isAnnotatable False (read_field readOptionalBoolean label record ''flagged'')) (\<lambda>flagged.
        res_bind (annotation isAnnotatable None (read_field readNullableString label record ''comment'')) (\<lambda>comment.
        res_bind (annotation isAnnotatable None (read_field readNullableNumber label record ''commentCreatedAtMs'')) (\<lambda>commentCreatedAtMs.
        res_bind (read_field readNullableBigInt label record ''wallClockUs'') (\<lambda>wallClockUs.
        res_bind (read_field readBigInt label record ''startTimestampUs'') (\<lambda>startTimestampUs.
        res_bind (read_field readBigInt label record ''endTimestampUs'') (\<lambda>endTimestampUs.
        res_bind (read_field readNullableBigInt label record ''displayTimestampUs'') (\<lambda>displayTimestampUs.
        res_bind (read_field readNumber label record ''decodeResult'') (\<lambda>decodeResult.
        res_bind (read_field readNullableString label record ''sopKind'') (\<lambda>sopKind.
        res_bind (read_field readNullableString label record ''messageKind'') (\<lambda>messageKind.
        res_bind (read_field readNullableNumber label record ''messageType'') (\<lambda>messageType.
        res_bind (read_field readNullableNumber label record ''messageId'') (\<lambda>messageId.
        res_bind (read_field readNullableString label record ''senderPowerRole'') (\<lambda>senderPowerRole.
        res_bind (read_field readNullableString label record ''senderDataRole'') (\<lambda>senderDataRole.
        res_bind (read_field readNumber label record ''pulseCount'') (\<lambda>pulseCount.
        res_bind (read_field readPulseWidths label record ''rawPulseWidths'') (\<lambda>rawPulseWidths.
        res_bind (readBytes (label @ ''.rawSopHex'')
          (coalesce (property_of record ''rawSopHex'') (property_of record ''rawSop''))) (\<lambda>rawSop.
        res_bind (readBytes (label @ ''.rawDecodedDataHex'')
          (coalesce (property_of record ''rawDecodedDataHex'') (property_of record ''rawDecodedData''))) (\<lambda>rawDecodedData.
        res_bind (read_field readNullableString label record ''parseError'') (\<lambda>parseError.
        res_bind (read_field readNumber label record ''createdAtMs'') (\<lambda>createdAtMs.
          Inr \<lparr>lr_entryKind = kind, lr_eventType = eventType, lr_eventText = eventText, lr_eventData = eventData,
            lr_eventWallClockMs = eventWallClockMs, lr_flagged = flagged, lr_comment = comment,
            lr_commentCreatedAtMs = commentCreatedAtMs, lr_wallClockUs = wallClockUs,
            lr_startTimestampUs = startTimestampUs, lr_endTimestampUs = endTimestampUs,
            lr_displayTimestampUs = displayTimestampUs, lr_decodeResult = decodeResult, lr_sopKind = sopKind,
            lr_messageKind = messageKind, lr_messageType = messageType, lr_messageId = messageId,
            lr_senderPowerRole = senderPowerRole, lr_senderDataRole = senderDataRole, lr_pulseCount = pulseCount,
            lr_rawPulseWidths = rawPulseWidths, lr_rawSop = rawSop, lr_rawDecodedData = rawDecodedData,
            lr_parseError = parseError, lr_createdAtMs = createdAtMs\<rparr>)))))))))))))))))))))))))))"

fun normalize_rows :: "json list \<Rightarrow> nat \<Rightarrow> string + LoggedRow list" where
  "normalize_rows [] index = Inr []"
| "normalize_rows (row # rows) index =
     res_bind (normalizeCapturedMessage (Some row) index) (\<lambda>r.
       res_bind (normalize_rows rows (Suc index)) (\<lambda>rs. Inr (r # rs)))"

text \<open>The rows of a file: an array of rows or an object with the rows under \<open>capturedMessages\<close>.\<close>

definition import_rows :: "json \<Rightarrow> json list option" where
  "import_rows parsed =
     (case parsed of
        J_array rows \<Rightarrow> Some rows
      | _ \<Rightarrow> (case property_of parsed ''capturedMessages'' of Some (J_array rows) \<Rightarrow> Some rows | _ \<Rightarrow> None))"

definition parseMessageLogImportJson :: "json option \<Rightarrow> string + LoggedRow list" where
  "parseMessageLogImportJson payload =
     (case payload of
        None \<Rightarrow> Inl ''Choose a valid JSON file.''
      | Some parsed \<Rightarrow>
          (case import_rows parsed of
             None \<Rightarrow> Inl ''JSON must be an array of message rows or an object with capturedMessages.''
           | Some rows \<Rightarrow>
               if rows = [] then Inl ''JSON file does not contain any captured messages.''
               else normalize_rows rows 0))"

section \<open>Export\<close>

definition nullable_json :: "('a \<Rightarrow> json) \<Rightarrow> 'a option \<Rightarrow> json" where
  "nullable_json f val = (case val of None \<Rightarrow> J_null | Some x \<Rightarrow> f x)"

definition bigint_json :: "int \<Rightarrow> json" where "bigint_json n = J_string (js_String n 0)"

definition serializeMessageLogRow :: "LoggedRow \<Rightarrow> json" where
  "serializeMessageLogRow row = J_object
     [(''entryKind'', J_string (entry_kind_text (lr_entryKind row))),
      (''eventType'', nullable_json J_string (lr_eventType row)),
      (''eventText'', nullable_json J_string (lr_eventText row)),
      (''eventData'', event_data_json (lr_eventData row)),
      (''eventWallClockMs'', nullable_json J_number (lr_eventWallClockMs row)),
      (''flagged'', J_bool (lr_flagged row)),
      (''comment'', nullable_json J_string (lr_comment row)),
      (''commentCreatedAtMs'', nullable_json J_number (lr_commentCreatedAtMs row)),
      (''wallClockUs'', nullable_json bigint_json (lr_wallClockUs row)),
      (''startTimestampUs'', bigint_json (lr_startTimestampUs row)),
      (''endTimestampUs'', bigint_json (lr_endTimestampUs row)),
      (''displayTimestampUs'', nullable_json bigint_json (lr_displayTimestampUs row)),
      (''decodeResult'', J_number (lr_decodeResult row)),
      (''sopKind'', nullable_json J_string (lr_sopKind row)),
      (''messageKind'', nullable_json J_string (lr_messageKind row)),
      (''messageType'', nullable_json J_number (lr_messageType row)),
      (''messageId'', nullable_json J_number (lr_messageId row)),
      (''senderPowerRole'', nullable_json J_string (lr_senderPowerRole row)),
      (''senderDataRole'', nullable_json J_string (lr_senderDataRole row)),
      (''pulseCount'', J_number (lr_pulseCount row)),
      (''rawPulseWidths'', J_array (map J_number (lr_rawPulseWidths row))),
      (''rawSopHex'', J_string (toHex (lr_rawSop row))),
      (''rawDecodedDataHex'', J_string (toHex (lr_rawDecodedData row))),
      (''parseError'', nullable_json J_string (lr_parseError row)),
      (''createdAtMs'', J_number (lr_createdAtMs row))]"

end
