(* ===== verification/Log_Queries.thy ===== *)
theory Log_Queries
  imports Log_Import
begin

text \<open>
  The queries of \<open>logging/sqliteWasmStore.ts\<close>: the SQL text with its bound values, the readers of the records
  SQLite answers with, and the same selections on rows in memory. A bound or read value is one of SQLite's
  kinds; a text that is JSON is represented by its value.
\<close>

section \<open>Values\<close>

datatype sql_value =
    V_null
  | V_bigint int
  | V_number rat
  | V_text string
  | V_json json
  | V_blob bytes

type_synonym sql_record = "(string \<times> sql_value) list"

definition number_value_error :: "string \<Rightarrow> string + 'a" where
  "number_value_error label = Inl (''Invalid SQLite number value for '' @ label)"

definition toBigIntValue :: "sql_value option \<Rightarrow> string \<Rightarrow> string + int" where
  "toBigIntValue val label =
     (case val of
        Some (V_bigint n) \<Rightarrow> Inr n
      | Some (V_number q) \<Rightarrow> Inr (if q < 0 then - \<lfloor>- q\<rfloor> else \<lfloor>q\<rfloor>)
      | Some (V_text s) \<Rightarrow>
          if s \<noteq> [] then (case js_BigInt s of Some n \<Rightarrow> Inr n | None \<Rightarrow> Inl (''Cannot convert '' @ s @ '' to a BigInt''))
          else Inl (''Invalid SQLite bigint value for '' @ label)
      | _ \<Rightarrow> Inl (''Invalid SQLite bigint value for '' @ label))"

definition toNumberValue :: "sql_value option \<Rightarrow> string \<Rightarrow> string + rat" where
  "toNumberValue val label =
     (case val of
        Some (V_number q) \<Rightarrow> Inr q
      | Some (V_bigint n) \<Rightarrow> Inr (fl (of_int n))
      | Some (V_text s) \<Rightarrow>
          if s \<noteq> [] then (case js_Number s of Some q \<Rightarrow> Inr q | None \<Rightarrow> number_value_error label)
          else number_value_error label
      | _ \<Rightarrow> number_value_error label)"

definition toBlobValue :: "sql_value option \<Rightarrow> string \<Rightarrow> string + bytes" where
  "toBlobValue val label =
     (case val of Some (V_blob bs) \<Rightarrow> Inr bs | _ \<Rightarrow> Inl (''Invalid SQLite blob value for '' @ label))"

definition null_value :: "sql_value option \<Rightarrow> bool" where
  "null_value val \<longleftrightarrow> val = None \<or> val = Some V_null"

definition nullable_value :: "(sql_value option \<Rightarrow> string \<Rightarrow> string + 'a) \<Rightarrow> sql_value option \<Rightarrow> string \<Rightarrow> string + 'a option" where
  "nullable_value reader val label =
     (if null_value val then Inr None else res_bind (reader val label) (\<lambda>x. Inr (Some x)))"

text \<open>A column that is cast: the text, or null.\<close>

definition text_value :: "sql_value option \<Rightarrow> string option" where
  "text_value val = (case val of Some (V_text s) \<Rightarrow> Some s | _ \<Rightarrow> None)"

definition event_value :: "sql_value option \<Rightarrow> event_column" where
  "event_value val =
     (case val of None \<Rightarrow> Column_null | Some V_null \<Rightarrow> Column_null | Some (V_json j) \<Rightarrow> Column_text (Some j)
      | Some (V_text s) \<Rightarrow> Column_text None | _ \<Rightarrow> Column_other)"

definition nullable_bind :: "('a \<Rightarrow> sql_value) \<Rightarrow> 'a option \<Rightarrow> sql_value" where
  "nullable_bind f val = (case val of None \<Rightarrow> V_null | Some x \<Rightarrow> f x)"

section \<open>Queries\<close>

record AnalogSampleQuery =
  aq_startTimestampUs :: int
  aq_endTimestampUs :: int
  aq_wallClock :: bool
  aq_desc :: bool
  aq_limit :: "js_number option"

record CapturedMessageQuery =
  cq_startTimestampUs :: int
  cq_endTimestampUs :: int
  cq_wallClock :: bool
  cq_desc :: bool
  cq_messageKinds :: "string list"
  cq_messageTypes :: "rat list"
  cq_senderPowerRoles :: "string list"
  cq_senderDataRoles :: "string list"
  cq_sopKinds :: "string list"
  cq_eventTypes :: "string list"
  cq_offset :: "js_number option"
  cq_limit :: "js_number option"

text \<open>The whole part of a positive finite number.\<close>

definition positive_whole :: "js_number option \<Rightarrow> nat option" where
  "positive_whole n = (case n of Some (Decimal m d) \<Rightarrow> if m > 0 then Some (nat (m div 10 ^ d)) else None | _ \<Rightarrow> None)"

definition query_offset :: "CapturedMessageQuery \<Rightarrow> nat" where
  "query_offset query = (case positive_whole (cq_offset query) of None \<Rightarrow> 0 | Some n \<Rightarrow> n)"

definition query_limit :: "CapturedMessageQuery \<Rightarrow> nat option" where
  "query_limit query = positive_whole (cq_limit query)"

definition sort_direction :: "bool \<Rightarrow> string" where
  "sort_direction desc = (if desc then ''DESC'' else ''ASC'')"

definition analog_sql :: "AnalogSampleQuery \<Rightarrow> string" where
  "analog_sql query =
     (let timeColumn = (if aq_wallClock query then ''wall_clock_us'' else ''timestamp_us'');
          direction = sort_direction (aq_desc query)
      in join '' '' (filter (\<lambda>part. part \<noteq> [])
        [''SELECT timestamp_us, display_timestamp_us, wall_clock_us, vbus_v, ibus_a, role, created_at_ms'',
         ''FROM analog_samples'',
         ''WHERE '' @ timeColumn @ '' >= ? AND '' @ timeColumn @ '' <= ?'',
         ''ORDER BY '' @ timeColumn @ '' '' @ direction @ '', id '' @ direction,
         if positive_whole (aq_limit query) \<noteq> None then ''LIMIT ?'' else []]))"

definition analog_binds :: "AnalogSampleQuery \<Rightarrow> sql_value list" where
  "analog_binds query =
     [V_bigint (clampSqliteTimestampUs (aq_startTimestampUs query)), V_bigint (clampSqliteTimestampUs (aq_endTimestampUs query))] @
     (case positive_whole (aq_limit query) of None \<Rightarrow> [] | Some n \<Rightarrow> [V_number (of_nat n)])"

text \<open>One filter of the captured messages: nothing for an empty list, or a clause with a mark for each value.\<close>

definition in_clause :: "string \<Rightarrow> ('a \<Rightarrow> sql_value) \<Rightarrow> 'a list \<Rightarrow> (string \<times> sql_value list) list" where
  "in_clause column f vals =
     (if vals = [] then []
      else [(column @ '' IN ('' @ join '', '' (map (\<lambda>v. ''?'') vals) @ '')'', map f vals)])"

definition captured_clauses :: "CapturedMessageQuery \<Rightarrow> (string \<times> sql_value list) list" where
  "captured_clauses query =
     (let timeColumn = (if cq_wallClock query then ''wall_clock_us'' else ''start_timestamp_us'') in
      [(timeColumn @ '' >= ?'', [V_bigint (clampSqliteTimestampUs (cq_startTimestampUs query))]),
       (timeColumn @ '' <= ?'', [V_bigint (clampSqliteTimestampUs (cq_endTimestampUs query))])] @
      in_clause ''message_kind'' V_text (cq_messageKinds query) @
      in_clause ''message_type'' V_number (cq_messageTypes query) @
      in_clause ''sender_power_role'' V_text (cq_senderPowerRoles query) @
      in_clause ''sender_data_role'' V_text (cq_senderDataRoles query) @
      in_clause ''sop_kind'' V_text (cq_sopKinds query) @
      in_clause ''event_type'' V_text (cq_eventTypes query))"

definition captured_paging :: "CapturedMessageQuery \<Rightarrow> (string \<times> sql_value list) list" where
  "captured_paging query =
     (let offset = query_offset query in
      (case query_limit query of
         Some n \<Rightarrow> [(''LIMIT ?'', [V_number (of_nat n)])]
       | None \<Rightarrow> if offset > 0 then [(''LIMIT -1'', [])] else []) @
      (if offset > 0 then [(''OFFSET ?'', [V_number (of_nat offset)])] else []))"

definition captured_sql :: "CapturedMessageQuery \<Rightarrow> string \<Rightarrow> string" where
  "captured_sql query orderBy =
     join '' '' ([''SELECT entry_kind, event_type, event_text, event_data, event_wall_clock_ms, flagged, comment, comment_created_at_ms, wall_clock_us, start_timestamp_us, end_timestamp_us, display_timestamp_us, decode_result, sop_kind, message_kind,'',
        ''message_type, message_id, sender_power_role, sender_data_role, pulse_count,'',
        ''raw_pulse_widths, raw_sop, raw_decoded_data, parse_error, created_at_ms'',
        ''FROM captured_messages'',
        ''WHERE '' @ join '' AND '' (map fst (captured_clauses query)),
        ''ORDER BY '' @ orderBy] @
        map fst (captured_paging query))"

definition captured_binds :: "CapturedMessageQuery \<Rightarrow> sql_value list" where
  "captured_binds query = concat (map snd (captured_clauses query)) @ concat (map snd (captured_paging query))"

definition timeline_order :: "CapturedMessageQuery \<Rightarrow> string" where
  "timeline_order query = ''wall_clock_us '' @ sort_direction (cq_desc query) @ '', id '' @ sort_direction (cq_desc query)"

definition timestamp_order :: "CapturedMessageQuery \<Rightarrow> string" where
  "timestamp_order query =
     (if cq_wallClock query then ''wall_clock_us'' else ''start_timestamp_us'') @ '' '' @
     sort_direction (cq_desc query) @ '', id '' @ sort_direction (cq_desc query)"

section \<open>Records\<close>

definition read_analog_record :: "sql_record \<Rightarrow> string + LoggedAnalogSample" where
  "read_analog_record record =
     (let col = map_of record in
      res_bind (toBigIntValue (col ''timestamp_us'') ''analog.timestamp_us'') (\<lambda>timestampUs.
      res_bind (nullable_value toBigIntValue (col ''display_timestamp_us'') ''analog.display_timestamp_us'') (\<lambda>displayTimestampUs.
      res_bind (nullable_value toBigIntValue (col ''wall_clock_us'') ''analog.wall_clock_us'') (\<lambda>wallClockUs.
      res_bind (toNumberValue (col ''vbus_v'') ''analog.vbus_v'') (\<lambda>vbusV.
      res_bind (toNumberValue (col ''ibus_a'') ''analog.ibus_a'') (\<lambda>ibusA.
      res_bind (toNumberValue (col ''created_at_ms'') ''analog.created_at_ms'') (\<lambda>createdAtMs.
        Inr \<lparr>la_timestampUs = timestampUs, la_displayTimestampUs = displayTimestampUs, la_wallClockUs = wallClockUs,
          la_vbusV = vbusV, la_ibusA = ibusA, la_role = text_value (col ''role''), la_createdAtMs = createdAtMs\<rparr>)))))))"

text \<open>The pulse widths as the row holds them: only finite ones are stored.\<close>

definition stored_pulses :: "bytes \<Rightarrow> rat list" where
  "stored_pulses bs = map (\<lambda>v. case v of Some q \<Rightarrow> q | None \<Rightarrow> 0) (decodePulseWidthsLE bs)"

definition read_captured_record :: "sql_record \<Rightarrow> string + LoggedRow" where
  "read_captured_record record =
     (let col = map_of record in
      res_bind (deserializeLoggedEventData (event_value (col ''event_data''))) (\<lambda>eventData.
      res_bind (nullable_value toNumberValue (col ''event_wall_clock_ms'') ''message.event_wall_clock_ms'') (\<lambda>eventWallClockMs.
      res_bind (toNumberValue (col ''flagged'') ''message.flagged'') (\<lambda>flagged.
      res_bind (nullable_value toNumberValue (col ''comment_created_at_ms'') ''message.comment_created_at_ms'') (\<lambda>commentCreatedAtMs.
      res_bind (nullable_value toBigIntValue (col ''wall_clock_us'') ''message.wall_clock_us'') (\<lambda>wallClockUs.
      res_bind (toBigIntValue (col ''start_timestamp_us'') ''message.start_timestamp_us'') (\<lambda>startTimestampUs.
      res_bind (toBigIntValue (col ''end_timestamp_us'') ''message.end_timestamp_us'') (\<lambda>endTimestampUs.
      res_bind (nullable_value toBigIntValue (col ''display_timestamp_us'') ''message.display_timestamp_us'') (\<lambda>displayTimestampUs.
      res_bind (toNumberValue (col ''decode_result'') ''message.decode_result'') (\<lambda>decodeResult.
      res_bind (nullable_value toNumberValue (col ''message_type'') ''message.message_type'') (\<lambda>messageType.
      res_bind (nullable_value toNumberValue (col ''message_id'') ''message.message_id'') (\<lambda>messageId.
      res_bind (toNumberValue (col ''pulse_count'') ''message.pulse_count'') (\<lambda>pulseCount.
      res_bind (toBlobValue (col ''raw_pulse_widths'') ''message.raw_pulse_widths'') (\<lambda>pulses.
      res_bind (toBlobValue (col ''raw_sop'') ''message.raw_sop'') (\<lambda>rawSop.
      res_bind (toBlobValue (col ''raw_decoded_data'') ''message.raw_decoded_data'') (\<lambda>rawDecodedData.
      res_bind (toNumberValue (col ''created_at_ms'') ''message.created_at_ms'') (\<lambda>createdAtMs.
        Inr \<lparr>lr_entryKind = (if text_value (col ''entry_kind'') = Some ''event'' then EK_event else EK_message),
          lr_eventType = text_value (col ''event_type''), lr_eventText = text_value (col ''event_text''),
          lr_eventData = eventData, lr_eventWallClockMs = eventWallClockMs, lr_flagged = (flagged \<noteq> 0),
          lr_comment = text_value (col ''comment''), lr_commentCreatedAtMs = commentCreatedAtMs,
          lr_wallClockUs = wallClockUs, lr_startTimestampUs = startTimestampUs, lr_endTimestampUs = endTimestampUs,
          lr_displayTimestampUs = displayTimestampUs, lr_decodeResult = decodeResult,
          lr_sopKind = text_value (col ''sop_kind''), lr_messageKind = text_value (col ''message_kind''),
          lr_messageType = messageType, lr_messageId = messageId,
          lr_senderPowerRole = text_value (col ''sender_power_role''),
          lr_senderDataRole = text_value (col ''sender_data_role''), lr_pulseCount = pulseCount,
          lr_rawPulseWidths = stored_pulses pulses, lr_rawSop = rawSop, lr_rawDecodedData = rawDecodedData,
          lr_parseError = text_value (col ''parse_error''), lr_createdAtMs = createdAtMs\<rparr>)))))))))))))))))"

section \<open>Insertion\<close>

definition analog_columns :: "string list" where
  "analog_columns = [''timestamp_us'', ''display_timestamp_us'', ''wall_clock_us'', ''vbus_v'', ''ibus_a'', ''role'',
     ''created_at_ms'']"

definition analog_row_binds :: "LoggedAnalogSample \<Rightarrow> sql_value list" where
  "analog_row_binds row =
     [V_bigint (la_timestampUs row), nullable_bind V_bigint (la_displayTimestampUs row),
      nullable_bind V_bigint (la_wallClockUs row), V_number (la_vbusV row), V_number (la_ibusA row),
      nullable_bind V_text (la_role row), V_number (la_createdAtMs row)]"

definition captured_columns :: "string list" where
  "captured_columns = [''entry_kind'', ''event_type'', ''event_text'', ''event_data'', ''event_wall_clock_ms'', ''flagged'',
     ''comment'', ''comment_created_at_ms'', ''wall_clock_us'', ''start_timestamp_us'', ''end_timestamp_us'',
     ''display_timestamp_us'', ''decode_result'', ''sop_kind'', ''message_kind'', ''message_type'', ''message_id'',
     ''sender_power_role'', ''sender_data_role'', ''pulse_count'', ''raw_pulse_widths'', ''raw_sop'', ''raw_decoded_data'',
     ''parse_error'', ''created_at_ms'']"

definition event_data_bind :: "LoggedEventDataSection list option \<Rightarrow> sql_value" where
  "event_data_bind eventData = (if eventData = None then V_null else V_json (event_data_json eventData))"

definition captured_row_binds :: "LoggedRow \<Rightarrow> sql_value list" where
  "captured_row_binds row =
     [V_text (entry_kind_text (lr_entryKind row)), nullable_bind V_text (lr_eventType row),
      nullable_bind V_text (lr_eventText row), event_data_bind (lr_eventData row),
      nullable_bind V_number (lr_eventWallClockMs row), V_number (if lr_flagged row then 1 else 0),
      nullable_bind V_text (lr_comment row), nullable_bind V_number (lr_commentCreatedAtMs row),
      nullable_bind V_bigint (lr_wallClockUs row), V_bigint (lr_startTimestampUs row), V_bigint (lr_endTimestampUs row),
      nullable_bind V_bigint (lr_displayTimestampUs row), V_number (lr_decodeResult row),
      nullable_bind V_text (lr_sopKind row), nullable_bind V_text (lr_messageKind row),
      nullable_bind V_number (lr_messageType row), nullable_bind V_number (lr_messageId row),
      nullable_bind V_text (lr_senderPowerRole row), nullable_bind V_text (lr_senderDataRole row),
      V_number (lr_pulseCount row), V_blob (encodePulseWidthsLE (lr_rawPulseWidths row)), V_blob (lr_rawSop row),
      V_blob (lr_rawDecodedData row), nullable_bind V_text (lr_parseError row), V_number (lr_createdAtMs row)]"

definition insert_sql :: "string \<Rightarrow> string list \<Rightarrow> string" where
  "insert_sql table columns =
     ''INSERT INTO '' @ table @ ''('' @ join '','' columns @ '') VALUES('' @ join '', '' (map (\<lambda>c. ''?'') columns) @ '')''"

end
