(* ===== verification/Log_Store.thy ===== *)
theory Log_Store
  imports Log_Queries
begin

text \<open>
  The log store, class \<open>SQLiteWasmStore\<close>: rows wait in memory until a flush commits them, retention trims the
  oldest, and queries merge what is committed with what is waiting. SQLite is a parameter, a record of what
  the store asks of a database handle; when it cannot be opened the rows are kept in lists. An operation is
  a function on the store's state that ends in an exception or a value. A flush commits without yielding, so
  it is one step here; the flush timer is a flag and its expiry an operation.
\<close>

section \<open>Texts\<close>

definition to_lower_char :: "char \<Rightarrow> char" where
  "to_lower_char c = (if 65 \<le> (of_char c :: nat) \<and> (of_char c :: nat) \<le> 90 then char_of ((of_char c :: nat) + 32) else c)"

definition to_lower_text :: "string \<Rightarrow> string" where
  "to_lower_text s = map to_lower_char s"

fun split_char :: "char \<Rightarrow> string \<Rightarrow> string list" where
  "split_char sep [] = [[]]"
| "split_char sep (c # s) =
     (if c = sep then [] # split_char sep s
      else case split_char sep s of [] \<Rightarrow> [[c]] | part # parts \<Rightarrow> (c # part) # parts)"

section \<open>State\<close>

record 'd sqlite =
  sq_memory :: "string + 'd"
  sq_opfs :: "(string + 'd) option"
  sq_vfs :: "'d \<Rightarrow> string option"
  sq_exec :: "string \<Rightarrow> sql_value list \<Rightarrow> 'd \<Rightarrow> (string + unit) \<times> 'd"
  sq_step :: "string \<Rightarrow> sql_value list \<Rightarrow> 'd \<Rightarrow> (string + unit) \<times> 'd"
  sq_prepare :: "string \<Rightarrow> 'd \<Rightarrow> string + unit"
  sq_selectObjects :: "string \<Rightarrow> sql_value list \<Rightarrow> 'd \<Rightarrow> string + sql_record list"
  sq_selectValue :: "string \<Rightarrow> 'd \<Rightarrow> string + sql_value option"

record memory_rows =
  mr_analogSamples :: "LoggedAnalogSample list"
  mr_capturedMessages :: "LoggedRow list"

datatype backend_kind = Backend_sqlite_opfs | Backend_sqlite_memory | Backend_memory_fallback

record 'd log_store =
  st_config :: DRPDLoggingConfig
  st_initialized :: bool
  st_trimmedAnalog :: rat
  st_trimmedMessages :: rat
  st_committedAnalog :: int
  st_committedMessages :: int
  st_db :: "'d option"
  st_memory :: "memory_rows option"
  st_backend :: backend_kind
  st_pendingAnalog :: "(LoggedAnalogSample \<times> nat) list"
  st_pendingMessages :: "(LoggedRow \<times> nat) list"
  st_nextSequence :: nat
  st_flushTimer :: bool
  st_flushCount :: nat
  st_lastAnalogRows :: nat
  st_lastMessageRows :: nat

type_synonym ('a, 'd) store_io = "'d log_store \<Rightarrow> (string + 'a) \<times> 'd log_store"

definition new_log_store :: "partial_config \<Rightarrow> 'd log_store" where
  "new_log_store config =
     \<lparr>st_config = store_config config, st_initialized = False, st_trimmedAnalog = 0, st_trimmedMessages = 0,
      st_committedAnalog = 0, st_committedMessages = 0, st_db = None, st_memory = None,
      st_backend = Backend_memory_fallback, st_pendingAnalog = [], st_pendingMessages = [], st_nextSequence = 1,
      st_flushTimer = False, st_flushCount = 0, st_lastAnalogRows = 0, st_lastMessageRows = 0\<rparr>"

section \<open>Steps\<close>

definition done_with :: "'a \<Rightarrow> ('a, 'd) store_io" where
  "done_with x st = (Inr x, st)"

definition and_then :: "('a, 'd) store_io \<Rightarrow> ('a \<Rightarrow> ('b, 'd) store_io) \<Rightarrow> ('b, 'd) store_io" where
  "and_then m f st = (case m st of (Inl e, st') \<Rightarrow> (Inl e, st') | (Inr x, st') \<Rightarrow> f x st')"

definition change :: "('d log_store \<Rightarrow> 'd log_store) \<Rightarrow> (unit, 'd) store_io" where
  "change f st = (Inr (), f st)"

definition ensureInitialized :: "(unit, 'd) store_io" where
  "ensureInitialized st =
     (if st_initialized st then (Inr (), st) else (Inl ''DRPD logging store is not initialized'', st))"

text \<open>A call on the open database.\<close>

definition on_db :: "('d \<Rightarrow> (string + 'a) \<times> 'd) \<Rightarrow> ('a, 'd) store_io" where
  "on_db f st =
     (case st_db st of
        None \<Rightarrow> (Inl ''DRPD SQLite database is not open'', st)
      | Some d \<Rightarrow> (case f d of (r, d') \<Rightarrow> (r, st\<lparr>st_db := Some d'\<rparr>)))"

definition exec_sql :: "'d sqlite \<Rightarrow> string \<Rightarrow> sql_value list \<Rightarrow> (unit, 'd) store_io" where
  "exec_sql sq sql binds = on_db (sq_exec sq sql binds)"

definition select_objects :: "'d sqlite \<Rightarrow> string \<Rightarrow> sql_value list \<Rightarrow> (sql_record list, 'd) store_io" where
  "select_objects sq sql binds = on_db (\<lambda>d. (sq_selectObjects sq sql binds d, d))"

text \<open>A rowCount is an integer.\<close>

definition selectCount :: "'d sqlite \<Rightarrow> string \<Rightarrow> (int, 'd) store_io" where
  "selectCount sq sql = and_then (on_db (\<lambda>d. (sq_selectValue sq sql d, d)))
     (\<lambda>val st. (res_bind (toNumberValue (Some (if null_value val then V_number 0 else the val)) ''count'')
        (\<lambda>q. Inr \<lfloor>q\<rfloor>), st))"

section \<open>Retention\<close>

definition trim_size :: "rat \<Rightarrow> rat \<Rightarrow> rat \<Rightarrow> rat" where
  "trim_size rowCount limit batch = min rowCount (max (rowCount - limit) batch)"

definition count_analog_sql :: string where "count_analog_sql = ''SELECT COUNT(*) FROM analog_samples''"
definition count_messages_sql :: string where "count_messages_sql = ''SELECT COUNT(*) FROM captured_messages''"

definition trimAnalogSamplesIfNeededSql :: "'d sqlite \<Rightarrow> (int, 'd) store_io" where
  "trimAnalogSamplesIfNeededSql sq = and_then (selectCount sq count_analog_sql) (\<lambda>rowCount st.
     if of_int rowCount - lc_maxAnalogSamples (st_config st) \<le> 0 then (Inr 0, st)
     else let trimSize = trim_size (of_int rowCount) (lc_maxAnalogSamples (st_config st)) (lc_retentionTrimBatchSize (st_config st))
       in and_then (exec_sql sq
            ''DELETE FROM analog_samples WHERE id IN (SELECT id FROM analog_samples ORDER BY timestamp_us ASC, id ASC LIMIT ?)''
            [V_number trimSize])
          (\<lambda>_ st'. (Inr \<lfloor>trimSize\<rfloor>, st'\<lparr>st_trimmedAnalog := st_trimmedAnalog st' + trimSize\<rparr>)) st)"

definition trimCapturedMessagesIfNeededSql :: "'d sqlite \<Rightarrow> (int, 'd) store_io" where
  "trimCapturedMessagesIfNeededSql sq = and_then (selectCount sq count_messages_sql) (\<lambda>rowCount st.
     if of_int rowCount - lc_maxCapturedMessages (st_config st) \<le> 0 then (Inr 0, st)
     else let trimSize = trim_size (of_int rowCount) (lc_maxCapturedMessages (st_config st)) (lc_retentionTrimBatchSize (st_config st))
       in and_then (exec_sql sq
            ''DELETE FROM captured_messages WHERE id IN (SELECT id FROM captured_messages ORDER BY start_timestamp_us ASC, id ASC LIMIT ?)''
            [V_number trimSize])
          (\<lambda>_ st'. (Inr \<lfloor>trimSize\<rfloor>, st'\<lparr>st_trimmedMessages := st_trimmedMessages st' + trimSize\<rparr>)) st)"

definition enforceRetentionCore :: "'d sqlite \<Rightarrow> (int \<times> int, 'd) store_io" where
  "enforceRetentionCore sq = and_then (trimAnalogSamplesIfNeededSql sq) (\<lambda>analog.
     and_then (trimCapturedMessagesIfNeededSql sq) (\<lambda>messages. done_with (analog, messages)))"

definition count_trimmed :: "int \<times> int \<Rightarrow> 'd log_store \<Rightarrow> 'd log_store" where
  "count_trimmed trimmed st = st
     \<lparr>st_committedAnalog := max 0 (st_committedAnalog st - fst trimmed),
      st_committedMessages := max 0 (st_committedMessages st - snd trimmed)\<rparr>"

text \<open>The same on the lists; the captured messages are in timeline order.\<close>

definition trimAnalogSamplesIfNeededMemory :: "'d log_store \<Rightarrow> 'd log_store" where
  "trimAnalogSamplesIfNeededMemory st =
     (case st_memory st of
        None \<Rightarrow> st
      | Some rows \<Rightarrow>
          let rowCount = of_nat (length (mr_analogSamples rows)); limit = lc_maxAnalogSamples (st_config st) in
          if rowCount - limit \<le> 0 then st
          else let trimSize = trim_size rowCount limit (lc_retentionTrimBatchSize (st_config st)) in
            st\<lparr>st_memory := Some (rows\<lparr>mr_analogSamples := drop (nat \<lfloor>trimSize\<rfloor>) (mr_analogSamples rows)\<rparr>),
               st_trimmedAnalog := st_trimmedAnalog st + trimSize\<rparr>)"

definition trimCapturedMessagesIfNeededMemory :: "'d log_store \<Rightarrow> 'd log_store" where
  "trimCapturedMessagesIfNeededMemory st =
     (case st_memory st of
        None \<Rightarrow> st
      | Some rows \<Rightarrow>
          let rowCount = of_nat (length (mr_capturedMessages rows)); limit = lc_maxCapturedMessages (st_config st) in
          if rowCount - limit \<le> 0 then st
          else let trimSize = trim_size rowCount limit (lc_retentionTrimBatchSize (st_config st)) in
            st\<lparr>st_memory := Some (rows\<lparr>mr_capturedMessages := drop (nat \<lfloor>trimSize\<rfloor>) (mr_capturedMessages rows)\<rparr>),
               st_trimmedMessages := st_trimmedMessages st + trimSize\<rparr>)"

section \<open>Flushing\<close>

fun step_all :: "'d sqlite \<Rightarrow> string \<Rightarrow> sql_value list list \<Rightarrow> (unit, 'd) store_io" where
  "step_all sq sql [] = done_with ()"
| "step_all sq sql (binds # later) = and_then (on_db (sq_step sq sql binds)) (\<lambda>_. step_all sq sql later)"

definition commit_rows ::
  "'d sqlite \<Rightarrow> (LoggedAnalogSample \<times> nat) list \<Rightarrow> (LoggedRow \<times> nat) list \<Rightarrow> (unit, 'd) store_io" where
  "commit_rows sq analogBatch messageBatch =
     and_then (exec_sql sq ''BEGIN'' []) (\<lambda>_.
     and_then (step_all sq (insert_sql ''analog_samples'' analog_columns) (map (analog_row_binds \<circ> fst) analogBatch)) (\<lambda>_.
     and_then (step_all sq (insert_sql ''captured_messages'' captured_columns) (map (captured_row_binds \<circ> fst) messageBatch)) (\<lambda>_.
       exec_sql sq ''COMMIT'' [])))"

definition flushPendingBatches ::
  "'d sqlite \<Rightarrow> (LoggedAnalogSample \<times> nat) list \<Rightarrow> (LoggedRow \<times> nat) list \<Rightarrow> (unit, 'd) store_io" where
  "flushPendingBatches sq analogBatch messageBatch st =
     (if analogBatch = [] \<and> messageBatch = [] then (Inr (), st)
      else if st_db st = None then (Inl ''DRPD SQLite database is not open'', st)
      else (case commit_rows sq analogBatch messageBatch st of
        (Inl e, st1) \<Rightarrow>
          let st2 = snd (exec_sql sq ''ROLLBACK'' [] st1) in
          (Inl e, st2\<lparr>st_pendingAnalog := analogBatch @ st_pendingAnalog st2,
                     st_pendingMessages := messageBatch @ st_pendingMessages st2\<rparr>)
      | (Inr u, st1) \<Rightarrow>
          let st2 = st1\<lparr>st_committedAnalog := st_committedAnalog st1 + int (length analogBatch),
                       st_committedMessages := st_committedMessages st1 + int (length messageBatch)\<rparr> in
          and_then (enforceRetentionCore sq) (\<lambda>trimmed st3.
            (Inr (), (count_trimmed trimmed st3)\<lparr>st_flushCount := st_flushCount st3 + 1,
               st_lastAnalogRows := length analogBatch, st_lastMessageRows := length messageBatch\<rparr>)) st2))"

text \<open>No row is added while a flush runs, so what is left after it is nothing.\<close>

definition flush_store :: "'d sqlite \<Rightarrow> (unit, 'd) store_io" where
  "flush_store sq = and_then ensureInitialized (\<lambda>_ st.
     if st_memory st \<noteq> None then (Inr (), st)
     else if st_pendingAnalog st = [] \<and> st_pendingMessages st = [] then (Inr (), st)
     else flushPendingBatches sq (st_pendingAnalog st) (st_pendingMessages st)
       (st\<lparr>st_flushTimer := False, st_pendingAnalog := [], st_pendingMessages := []\<rparr>))"

definition LOG_FLUSH_MESSAGE_BATCH_SIZE :: nat where "LOG_FLUSH_MESSAGE_BATCH_SIZE = 256"
definition LOG_FLUSH_ANALOG_BATCH_SIZE :: nat where "LOG_FLUSH_ANALOG_BATCH_SIZE = 512"

definition scheduleFlush :: "'d sqlite \<Rightarrow> 'd log_store \<Rightarrow> 'd log_store" where
  "scheduleFlush sq st =
     (if length (st_pendingMessages st) \<ge> LOG_FLUSH_MESSAGE_BATCH_SIZE \<or>
         length (st_pendingAnalog st) \<ge> LOG_FLUSH_ANALOG_BATCH_SIZE then snd (flush_store sq st)
      else st\<lparr>st_flushTimer := True\<rparr>)"

definition flush_timer_expires :: "'d sqlite \<Rightarrow> 'd log_store \<Rightarrow> 'd log_store" where
  "flush_timer_expires sq st = (if st_flushTimer st then snd (flush_store sq (st\<lparr>st_flushTimer := False\<rparr>)) else st)"

section \<open>Insertion\<close>

definition insertAnalogSample :: "'d sqlite \<Rightarrow> LoggedAnalogSample \<Rightarrow> (unit, 'd) store_io" where
  "insertAnalogSample sq sample = and_then ensureInitialized (\<lambda>_ st.
     let normalizedSample = normalizeAnalogSampleForStorage sample in
     case st_memory st of
       Some rows \<Rightarrow> (Inr (), trimAnalogSamplesIfNeededMemory
         (st\<lparr>st_memory := Some (rows\<lparr>mr_analogSamples := mr_analogSamples rows @ [normalizedSample]\<rparr>)\<rparr>))
     | None \<Rightarrow> (Inr (), scheduleFlush sq (st\<lparr>st_pendingAnalog := st_pendingAnalog st @ [(normalizedSample, st_nextSequence st)],
         st_nextSequence := st_nextSequence st + 1\<rparr>)))"

definition insertCapturedMessage :: "'d sqlite \<Rightarrow> LoggedRow \<Rightarrow> (unit, 'd) store_io" where
  "insertCapturedMessage sq message = and_then ensureInitialized (\<lambda>_ st.
     let normalizedMessage = normalizeCapturedMessageForStorage message in
     case st_memory st of
       Some rows \<Rightarrow> (Inr (), trimCapturedMessagesIfNeededMemory
         (st\<lparr>st_memory := Some (rows\<lparr>mr_capturedMessages :=
            insertCapturedMessageInTimelineOrder (mr_capturedMessages rows) normalizedMessage\<rparr>)\<rparr>))
     | None \<Rightarrow> (Inr (), scheduleFlush sq (st\<lparr>st_pendingMessages := st_pendingMessages st @ [(normalizedMessage, st_nextSequence st)],
         st_nextSequence := st_nextSequence st + 1\<rparr>)))"

section \<open>Opening and closing\<close>

definition LOG_SCHEMA_VERSION :: int where "LOG_SCHEMA_VERSION = 9"
definition SQLITE_DB_FILENAME :: string where "SQLITE_DB_FILENAME = ''/drpd/drpd-logging.sqlite3''"

text \<open>The schema without the line breaks of its text.\<close>

definition kind_definition :: string where
  "kind_definition = ''TEXT NOT NULL DEFAULT '' @ [CHR 0x27] @ ''message'' @ [CHR 0x27]"

definition analog_table :: string where
  "analog_table = ''CREATE TABLE IF NOT EXISTS analog_samples (id INTEGER PRIMARY KEY AUTOINCREMENT, timestamp_us INTEGER NOT NULL, '' @
     ''display_timestamp_us INTEGER, wall_clock_us INTEGER, vbus_v REAL NOT NULL, ibus_a REAL NOT NULL, role TEXT, '' @
     ''created_at_ms INTEGER NOT NULL);''"

definition captured_table :: string where
  "captured_table = ''CREATE TABLE IF NOT EXISTS captured_messages (id INTEGER PRIMARY KEY AUTOINCREMENT, entry_kind '' @
     kind_definition @ '', event_type TEXT, event_text TEXT, event_data TEXT, '' @
     ''event_wall_clock_ms INTEGER, flagged INTEGER NOT NULL DEFAULT 0, comment TEXT, comment_created_at_ms INTEGER, '' @
     ''wall_clock_us INTEGER, start_timestamp_us INTEGER NOT NULL, end_timestamp_us INTEGER NOT NULL, '' @
     ''display_timestamp_us INTEGER, decode_result INTEGER NOT NULL, sop_kind TEXT, message_kind TEXT, '' @
     ''message_type INTEGER, message_id INTEGER, sender_power_role TEXT, sender_data_role TEXT, '' @
     ''pulse_count INTEGER NOT NULL, raw_pulse_widths BLOB NOT NULL, raw_sop BLOB NOT NULL, '' @
     ''raw_decoded_data BLOB NOT NULL, parse_error TEXT, created_at_ms INTEGER NOT NULL);''"

definition index_statement :: "string \<Rightarrow> string \<Rightarrow> string" where
  "index_statement name target = ''CREATE INDEX IF NOT EXISTS '' @ name @ '' ON '' @ target @ '';''"

definition LOG_SCHEMA_STATEMENTS :: "string list" where
  "LOG_SCHEMA_STATEMENTS =
     [analog_table, captured_table,
      ''CREATE TABLE IF NOT EXISTS logging_metadata (key TEXT PRIMARY KEY, value TEXT NOT NULL);'',
      index_statement ''idx_analog_samples_timestamp'' ''analog_samples(timestamp_us)'',
      index_statement ''idx_analog_samples_wall_clock'' ''analog_samples(wall_clock_us)'',
      index_statement ''idx_captured_messages_start_ts'' ''captured_messages(start_timestamp_us)'',
      index_statement ''idx_captured_messages_wall_clock'' ''captured_messages(wall_clock_us)'',
      index_statement ''idx_captured_messages_timeline'' ''captured_messages(wall_clock_us, id)'',
      index_statement ''idx_captured_messages_event_start_ts'' ''captured_messages(event_type, start_timestamp_us)'',
      index_statement ''idx_captured_messages_kind'' ''captured_messages(message_kind)'',
      index_statement ''idx_captured_messages_sender_power'' ''captured_messages(sender_power_role)'',
      index_statement ''idx_captured_messages_sender_data'' ''captured_messages(sender_data_role)'']"

definition ADDED_COLUMNS :: "(string \<times> string \<times> string) list" where
  "ADDED_COLUMNS =
     [(''analog_samples'', ''display_timestamp_us'', ''INTEGER''), (''analog_samples'', ''wall_clock_us'', ''INTEGER''),
      (''captured_messages'', ''entry_kind'', kind_definition),
      (''captured_messages'', ''event_type'', ''TEXT''), (''captured_messages'', ''event_text'', ''TEXT''),
      (''captured_messages'', ''event_data'', ''TEXT''), (''captured_messages'', ''event_wall_clock_ms'', ''INTEGER''),
      (''captured_messages'', ''flagged'', ''INTEGER NOT NULL DEFAULT 0''), (''captured_messages'', ''comment'', ''TEXT''),
      (''captured_messages'', ''comment_created_at_ms'', ''INTEGER''),
      (''captured_messages'', ''wall_clock_us'', ''INTEGER''), (''captured_messages'', ''display_timestamp_us'', ''INTEGER'')]"

definition openDatabase :: "'d sqlite \<Rightarrow> storage_backend \<Rightarrow> string + 'd" where
  "openDatabase sq backend =
     (if backend = Backend_memory then sq_memory sq
      else case sq_opfs sq of Some (Inr d) \<Rightarrow> Inr d | _ \<Rightarrow> sq_memory sq)"

definition dbVfsLooksLikeOpfs :: "'d sqlite \<Rightarrow> 'd \<Rightarrow> bool" where
  "dbVfsLooksLikeOpfs sq d = (map_option to_lower_text (sq_vfs sq d) = Some ''opfs'')"

definition ensureColumnExists :: "'d sqlite \<Rightarrow> string \<Rightarrow> string \<Rightarrow> string \<Rightarrow> (unit, 'd) store_io" where
  "ensureColumnExists sq tableName columnName columnDefinition =
     and_then (select_objects sq (''PRAGMA table_info('' @ tableName @ '')'') []) (\<lambda>columns.
       if \<exists>column \<in> set columns. map_of column ''name'' = Some (V_text columnName) then done_with ()
       else exec_sql sq (''ALTER TABLE '' @ tableName @ '' ADD COLUMN '' @ columnName @ '' '' @ columnDefinition) [])"

text \<open>A step whose error is dropped, and steps in a row.\<close>

definition best_effort :: "(unit, 'd) store_io \<Rightarrow> (unit, 'd) store_io" where
  "best_effort step st = (Inr (), snd (step st))"

fun run_all :: "(unit, 'd) store_io list \<Rightarrow> (unit, 'd) store_io" where
  "run_all [] = done_with ()"
| "run_all (step # steps) = and_then step (\<lambda>_. run_all steps)"

definition refresh_counts :: "'d sqlite \<Rightarrow> (unit, 'd) store_io" where
  "refresh_counts sq = and_then (selectCount sq count_analog_sql) (\<lambda>analog.
     and_then (selectCount sq count_messages_sql) (\<lambda>messages.
       change (\<lambda>st. st\<lparr>st_committedAnalog := analog, st_committedMessages := messages\<rparr>)))"

definition prepareStatements :: "'d sqlite \<Rightarrow> (unit, 'd) store_io" where
  "prepareStatements sq = run_all
     [on_db (\<lambda>d. (sq_prepare sq (insert_sql ''analog_samples'' analog_columns) d, d)),
      on_db (\<lambda>d. (sq_prepare sq (insert_sql ''captured_messages'' captured_columns) d, d))]"

definition setup_steps :: "'d sqlite \<Rightarrow> (unit, 'd) store_io list" where
  "setup_steps sq =
     [exec_sql sq ''PRAGMA busy_timeout = 5000;'' [],
      best_effort (exec_sql sq ''PRAGMA journal_mode = WAL;'' []),
      best_effort (exec_sql sq ''PRAGMA synchronous = NORMAL;'' [])] @
     map (\<lambda>statement. exec_sql sq statement []) LOG_SCHEMA_STATEMENTS @
     map (\<lambda>(tableName, columnName, columnDefinition). ensureColumnExists sq tableName columnName columnDefinition)
       ADDED_COLUMNS @
     [exec_sql sq ''INSERT OR REPLACE INTO logging_metadata(key, value) VALUES(?, ?)''
        [V_text ''schema_version'', V_text (js_String LOG_SCHEMA_VERSION 0)],
      and_then (enforceRetentionCore sq) (\<lambda>_. done_with ()),
      refresh_counts sq,
      prepareStatements sq]"

definition open_store :: "'d sqlite \<Rightarrow> (unit, 'd) store_io" where
  "open_store sq st =
     (case openDatabase sq (lc_storageBackend (st_config st)) of
        Inl e \<Rightarrow> (Inl e, st)
      | Inr d \<Rightarrow> run_all (setup_steps sq)
          (st\<lparr>st_db := Some d,
              st_backend := (if dbVfsLooksLikeOpfs sq d then Backend_sqlite_opfs else Backend_sqlite_memory)\<rparr>))"

text \<open>The engine may not load at all. Rows of an earlier fallback stay when the database opens.\<close>

definition init_store :: "'d sqlite \<Rightarrow> bool \<Rightarrow> 'd log_store \<Rightarrow> 'd log_store" where
  "init_store sq loaded st =
     (if st_initialized st then st
      else (case (if loaded then open_store sq st else (Inl ''sqlite-wasm is not available'', st)) of
        (Inr _, st') \<Rightarrow> st'\<lparr>st_initialized := True\<rparr>
      | (Inl _, st') \<Rightarrow> st'\<lparr>st_flushTimer := False, st_db := None,
           st_memory := Some \<lparr>mr_analogSamples = [], mr_capturedMessages = []\<rparr>,
           st_backend := Backend_memory_fallback, st_initialized := True\<rparr>))"

definition close_store :: "'d sqlite \<Rightarrow> (unit, 'd) store_io" where
  "close_store sq st =
     (if \<not> st_initialized st then (Inr (), st)
      else (case flush_store sq st of
        (r, st') \<Rightarrow> (r, st'\<lparr>st_flushTimer := False, st_db := None, st_initialized := False\<rparr>)))"

section \<open>Annotations\<close>

record CapturedMessageAnnotations =
  an_flagged :: bool
  an_comment :: "string option"
  an_commentCreatedAtMs :: "rat option"

text \<open>What a selection key selects: the message or the mark with these times.\<close>

datatype selection = Select_message int int "rat option" | Select_mark int "rat option"

definition signed_digits :: "string \<Rightarrow> bool" where
  "signed_digits s \<longleftrightarrow> (let t = (if take 1 s = ''-'' then drop 1 s else s) in t \<noteq> [] \<and> list_all js_digit t)"

definition signed_value :: "string \<Rightarrow> int" where
  "signed_value s = (if take 1 s = ''-'' then - digits_value (drop 1 s) 0 else digits_value s 0)"

definition parse_selection :: "string \<Rightarrow> selection option" where
  "parse_selection key =
     (case split_char (CHR '':'') key of
        [kind, a, b, c] \<Rightarrow>
          if kind = ''message'' \<and> signed_digits a \<and> signed_digits b \<and> c \<noteq> [] \<and> list_all js_digit c
          then Some (Select_message (signed_value a) (signed_value b) (js_Number c))
          else if kind = ''event'' \<and> signed_digits a \<and> b \<noteq> [] \<and> list_all js_digit b \<and> c = ''mark''
          then Some (Select_mark (signed_value a) (js_Number b))
          else None
      | _ \<Rightarrow> None)"

fun selects :: "selection \<Rightarrow> LoggedRow \<Rightarrow> bool" where
  "selects (Select_message startUs endUs createdAt) row =
     (lr_entryKind row = EK_message \<and> lr_startTimestampUs row = startUs \<and> lr_endTimestampUs row = endUs \<and>
      Some (lr_createdAtMs row) = createdAt)"
| "selects (Select_mark startUs createdAt) row =
     (lr_entryKind row = EK_event \<and> lr_eventType row = Some ''mark'' \<and> lr_startTimestampUs row = startUs \<and>
      Some (lr_createdAtMs row) = createdAt)"

definition annotate :: "CapturedMessageAnnotations \<Rightarrow> LoggedRow \<Rightarrow> LoggedRow" where
  "annotate annotations row = row
     \<lparr>lr_flagged := an_flagged annotations, lr_comment := an_comment annotations,
      lr_commentCreatedAtMs := an_commentCreatedAtMs annotations\<rparr>"

text \<open>The first row in place; no row, no change.\<close>

fun update_first :: "('a \<Rightarrow> bool) \<Rightarrow> ('a \<Rightarrow> 'a) \<Rightarrow> 'a list \<Rightarrow> 'a list option" where
  "update_first P f [] = None"
| "update_first P f (x # xs) = (if P x then Some (f x # xs) else map_option ((#) x) (update_first P f xs))"

definition annotation_binds :: "CapturedMessageAnnotations \<Rightarrow> sql_value list" where
  "annotation_binds annotations =
     [V_number (if an_flagged annotations then 1 else 0), nullable_bind V_text (an_comment annotations),
      nullable_bind V_number (an_commentCreatedAtMs annotations)]"

fun annotation_statement :: "selection \<Rightarrow> string \<times> sql_value list" where
  "annotation_statement (Select_message startUs endUs createdAt) =
     (''UPDATE captured_messages SET flagged = ?, comment = ?, comment_created_at_ms = ? WHERE entry_kind = ? AND start_timestamp_us = ? AND end_timestamp_us = ? AND created_at_ms = ?'',
      [V_text ''message'', V_bigint startUs, V_bigint endUs, nullable_bind V_number createdAt])"
| "annotation_statement (Select_mark startUs createdAt) =
     (''UPDATE captured_messages SET flagged = ?, comment = ?, comment_created_at_ms = ? WHERE entry_kind = ? AND event_type = ? AND start_timestamp_us = ? AND created_at_ms = ?'',
      [V_text ''event'', V_text ''mark'', V_bigint startUs, nullable_bind V_number createdAt])"

definition updateCapturedMessageAnnotations ::
  "'d sqlite \<Rightarrow> string \<Rightarrow> CapturedMessageAnnotations \<Rightarrow> (bool, 'd) store_io" where
  "updateCapturedMessageAnnotations sq selectionKey annotations =
     and_then (flush_store sq) (\<lambda>_ st.
       case parse_selection selectionKey of
         None \<Rightarrow> (Inr False, st)
       | Some sel \<Rightarrow>
           (case st_memory st of
              Some rows \<Rightarrow>
                (case update_first (selects sel) (annotate annotations) (mr_capturedMessages rows) of
                   None \<Rightarrow> (Inr False, st)
                 | Some rows' \<Rightarrow> (Inr True, st\<lparr>st_memory := Some (rows\<lparr>mr_capturedMessages := rows'\<rparr>)\<rparr>))
            | None \<Rightarrow>
                (let (sql, binds) = annotation_statement sel in
                 and_then (on_db (sq_step sq sql (annotation_binds annotations @ binds))) (\<lambda>_. done_with True) st)))"

section \<open>Clearing, retention and counts\<close>

datatype LogClearScope = Scope_analog | Scope_messages | Scope_all

definition clears_analog :: "LogClearScope \<Rightarrow> bool" where
  "clears_analog scope \<longleftrightarrow> scope = Scope_analog \<or> scope = Scope_all"

definition clears_messages :: "LogClearScope \<Rightarrow> bool" where
  "clears_messages scope \<longleftrightarrow> scope = Scope_messages \<or> scope = Scope_all"

definition clear_table :: "'d sqlite \<Rightarrow> bool \<Rightarrow> string \<Rightarrow> string \<Rightarrow> ('d log_store \<Rightarrow> 'd log_store) \<Rightarrow> (int, 'd) store_io" where
  "clear_table sq wanted count_sql delete_sql reset =
     (if \<not> wanted then done_with 0
      else and_then (selectCount sq count_sql) (\<lambda>deleted.
           and_then (exec_sql sq delete_sql []) (\<lambda>_.
           and_then (change reset) (\<lambda>_. done_with deleted))))"

text \<open>The rows deleted from both tables.\<close>

definition clear_store :: "'d sqlite \<Rightarrow> LogClearScope \<Rightarrow> (int \<times> int, 'd) store_io" where
  "clear_store sq scope =
     and_then (flush_store sq) (\<lambda>_ st.
       case st_memory st of
         Some rows \<Rightarrow>
           (Inr (if clears_analog scope then int (length (mr_analogSamples rows)) else 0,
                 if clears_messages scope then int (length (mr_capturedMessages rows)) else 0),
            st\<lparr>st_memory := Some
               \<lparr>mr_analogSamples = (if clears_analog scope then [] else mr_analogSamples rows),
                mr_capturedMessages = (if clears_messages scope then [] else mr_capturedMessages rows)\<rparr>\<rparr>)
       | None \<Rightarrow>
           and_then (flush_store sq) (\<lambda>_.
           and_then (clear_table sq (clears_analog scope) count_analog_sql ''DELETE FROM analog_samples''
             (\<lambda>st. st\<lparr>st_committedAnalog := 0\<rparr>)) (\<lambda>analogDeleted.
           and_then (clear_table sq (clears_messages scope) count_messages_sql ''DELETE FROM captured_messages''
             (\<lambda>st. st\<lparr>st_committedMessages := 0\<rparr>)) (\<lambda>messagesDeleted.
             done_with (analogDeleted, messagesDeleted)))) st)"

definition enforceRetention :: "'d sqlite \<Rightarrow> (unit, 'd) store_io" where
  "enforceRetention sq = and_then ensureInitialized (\<lambda>_ st.
     if st_memory st \<noteq> None
     then (Inr (), trimCapturedMessagesIfNeededMemory (trimAnalogSamplesIfNeededMemory st))
     else and_then (flush_store sq) (\<lambda>_. and_then (enforceRetentionCore sq) (\<lambda>trimmed. change (count_trimmed trimmed))) st)"

definition getCounts :: "(int \<times> int, 'd) store_io" where
  "getCounts = and_then ensureInitialized (\<lambda>_ st.
     (case st_memory st of
        Some rows \<Rightarrow> (Inr (int (length (mr_analogSamples rows)), int (length (mr_capturedMessages rows))), st)
      | None \<Rightarrow> (Inr (st_committedAnalog st + int (length (st_pendingAnalog st)),
                  st_committedMessages st + int (length (st_pendingMessages st))), st)))"

record store_diagnostics =
  sd_loggingStarted :: bool
  sd_backend :: backend_kind
  sd_persistent :: bool
  sd_sqlite :: bool
  sd_opfs :: bool
  sd_clockSyncConfigured :: bool
  sd_clockSyncResyncIntervalMs :: "rat option"
  sd_pendingAnalogRows :: nat
  sd_pendingMessageRows :: nat
  sd_flushCount :: nat
  sd_lastFlushAnalogRows :: nat
  sd_lastFlushMessageRows :: nat

definition getDiagnostics :: "'d log_store \<Rightarrow> store_diagnostics" where
  "getDiagnostics st =
     \<lparr>sd_loggingStarted = st_initialized st, sd_backend = st_backend st,
      sd_persistent = (st_backend st = Backend_sqlite_opfs),
      sd_sqlite = (st_backend st = Backend_sqlite_opfs \<or> st_backend st = Backend_sqlite_memory),
      sd_opfs = (st_backend st = Backend_sqlite_opfs), sd_clockSyncConfigured = lc_clockSyncEnabled (st_config st),
      sd_clockSyncResyncIntervalMs = lc_clockSyncResyncIntervalMs (st_config st),
      sd_pendingAnalogRows = length (st_pendingAnalog st), sd_pendingMessageRows = length (st_pendingMessages st),
      sd_flushCount = st_flushCount st, sd_lastFlushAnalogRows = st_lastAnalogRows st,
      sd_lastFlushMessageRows = st_lastMessageRows st\<rparr>"

definition getTrimStats :: "'d log_store \<Rightarrow> rat \<times> rat" where
  "getTrimStats st = (st_trimmedAnalog st, st_trimmedMessages st)"

end
