(* ===== verification/Log_Store_Queries.thy ===== *)
theory Log_Store_Queries
  imports Log_Store
begin

text \<open>
  Reading the store: queries of analog samples and captured messages, which put the committed rows and the
  waiting ones together, the bounds of the timeline, and the export as JSON or CSV. A query of the
  database leaves the store as it is.
\<close>

section \<open>Matching rows\<close>

definition analog_timestamp :: "bool \<Rightarrow> LoggedAnalogSample \<Rightarrow> int option" where
  "analog_timestamp wallClock row = (if wallClock then la_wallClockUs row else Some (la_timestampUs row))"

definition row_timestamp :: "bool \<Rightarrow> LoggedRow \<Rightarrow> int option" where
  "row_timestamp wallClock row = (if wallClock then lr_wallClockUs row else Some (lr_startTimestampUs row))"

definition in_time_range :: "int option \<Rightarrow> int \<Rightarrow> int \<Rightarrow> bool" where
  "in_time_range timestampUs startUs endUs \<longleftrightarrow> (case timestampUs of None \<Rightarrow> False | Some t \<Rightarrow> startUs \<le> t \<and> t \<le> endUs)"

definition text_allowed :: "string list \<Rightarrow> string option \<Rightarrow> bool" where
  "text_allowed vals val \<longleftrightarrow> vals = [] \<or> (case val of None \<Rightarrow> False | Some s \<Rightarrow> s \<noteq> [] \<and> s \<in> set vals)"

definition number_allowed :: "rat list \<Rightarrow> rat option \<Rightarrow> bool" where
  "number_allowed vals val \<longleftrightarrow> vals = [] \<or> (case val of None \<Rightarrow> False | Some q \<Rightarrow> q \<in> set vals)"

definition matches_query :: "CapturedMessageQuery \<Rightarrow> LoggedRow \<Rightarrow> bool" where
  "matches_query query row \<longleftrightarrow>
     in_time_range (row_timestamp (cq_wallClock query) row) (cq_startTimestampUs query) (cq_endTimestampUs query) \<and>
     text_allowed (cq_messageKinds query) (lr_messageKind row) \<and>
     number_allowed (cq_messageTypes query) (lr_messageType row) \<and>
     text_allowed (cq_senderPowerRoles query) (lr_senderPowerRole row) \<and>
     text_allowed (cq_senderDataRoles query) (lr_senderDataRole row) \<and>
     text_allowed (cq_sopKinds query) (lr_sopKind row) \<and>
     text_allowed (cq_eventTypes query) (lr_eventType row)"

definition time_or_zero :: "int option \<Rightarrow> int" where
  "time_or_zero timestampUs = (case timestampUs of None \<Rightarrow> 0 | Some t \<Rightarrow> t)"

definition sign_of :: "int \<Rightarrow> int \<Rightarrow> int" where
  "sign_of l r = (if l < r then - 1 else if l > r then 1 else 0)"

definition directed :: "bool \<Rightarrow> int \<Rightarrow> int" where
  "directed desc cmp = (if desc then - cmp else cmp)"

text \<open>Comparison by time, and by time with the order of arrival between equal times.\<close>

definition by_time :: "('a \<Rightarrow> int option) \<Rightarrow> bool \<Rightarrow> 'a \<Rightarrow> 'a \<Rightarrow> int" where
  "by_time key desc l r = directed desc (sign_of (time_or_zero (key l)) (time_or_zero (key r)))"

definition by_time_and_sequence :: "('a \<Rightarrow> int option) \<Rightarrow> bool \<Rightarrow> 'a \<times> nat \<Rightarrow> 'a \<times> nat \<Rightarrow> int" where
  "by_time_and_sequence key desc l r =
     (let cmp = sign_of (time_or_zero (key (fst l))) (time_or_zero (key (fst r))) in
      directed desc (if cmp \<noteq> 0 then cmp else int (snd l) - int (snd r)))"

definition by_sequence :: "bool \<Rightarrow> 'a \<times> nat \<Rightarrow> 'a \<times> nat \<Rightarrow> int" where
  "by_sequence desc l r = directed desc (int (snd l) - int (snd r))"

definition take_limit :: "nat option \<Rightarrow> 'a list \<Rightarrow> 'a list" where
  "take_limit limit rows = (case limit of None \<Rightarrow> rows | Some n \<Rightarrow> take n rows)"

section \<open>Committed rows\<close>

fun read_records :: "(sql_record \<Rightarrow> string + 'a) \<Rightarrow> sql_record list \<Rightarrow> string + 'a list" where
  "read_records reader [] = Inr []"
| "read_records reader (record # records) =
     res_bind (reader record) (\<lambda>row. res_bind (read_records reader records) (\<lambda>rows. Inr (row # rows)))"

definition with_store :: "(string + 'a) \<Rightarrow> ('a, 'd) store_io" where
  "with_store res st = (res, st)"

definition queryCommittedAnalogSamples ::
  "'d sqlite \<Rightarrow> AnalogSampleQuery \<Rightarrow> (LoggedAnalogSample list, 'd) store_io" where
  "queryCommittedAnalogSamples sq query =
     and_then (select_objects sq (analog_sql query) (analog_binds query)) (\<lambda>records.
       with_store (read_records read_analog_record records))"

definition queryCommittedCapturedMessagesWithOrder ::
  "'d sqlite \<Rightarrow> CapturedMessageQuery \<Rightarrow> string \<Rightarrow> (LoggedRow list, 'd) store_io" where
  "queryCommittedCapturedMessagesWithOrder sq query orderBy =
     and_then (select_objects sq (captured_sql query orderBy) (captured_binds query)) (\<lambda>records.
       with_store (read_records read_captured_record records))"

definition queryCommittedCapturedMessages ::
  "'d sqlite \<Rightarrow> CapturedMessageQuery \<Rightarrow> (LoggedRow list, 'd) store_io" where
  "queryCommittedCapturedMessages sq query = queryCommittedCapturedMessagesWithOrder sq query (timeline_order query)"

definition queryCommittedCapturedMessagesByTimestamp ::
  "'d sqlite \<Rightarrow> CapturedMessageQuery \<Rightarrow> (LoggedRow list, 'd) store_io" where
  "queryCommittedCapturedMessagesByTimestamp sq query =
     queryCommittedCapturedMessagesWithOrder sq query (timestamp_order query)"

section \<open>Analog samples\<close>

definition more_rows :: "nat \<Rightarrow> js_number option \<Rightarrow> js_number option" where
  "more_rows n limit =
     (case limit of Some (Decimal m d) \<Rightarrow> if m > 0 then Some (Decimal (m + int n * 10 ^ d) d) else limit | _ \<Rightarrow> limit)"

definition queryAnalogSamples :: "'d sqlite \<Rightarrow> AnalogSampleQuery \<Rightarrow> (LoggedAnalogSample list, 'd) store_io" where
  "queryAnalogSamples sq query = and_then ensureInitialized (\<lambda>_ st.
     let time = analog_timestamp (aq_wallClock query);
         wanted = (\<lambda>row. in_time_range (time row) (aq_startTimestampUs query) (aq_endTimestampUs query));
         limit = positive_whole (aq_limit query) in
     case st_memory st of
       Some rows \<Rightarrow>
         (Inr (take_limit limit (js_sort (by_time time (aq_desc query)) (filter wanted (mr_analogSamples rows)))), st)
     | None \<Rightarrow>
         let pendingRows = map fst (js_sort (by_time_and_sequence time (aq_desc query))
               (filter (\<lambda>s. wanted (fst s)) (st_pendingAnalog st)))
         in and_then (queryCommittedAnalogSamples sq (query\<lparr>aq_limit := more_rows (length pendingRows) (aq_limit query)\<rparr>))
              (\<lambda>committedRows. done_with (take_limit limit
                 (js_sort (by_time time (aq_desc query)) (committedRows @ pendingRows)))) st)"

section \<open>Captured messages\<close>

definition filterPendingCapturedMessages :: "CapturedMessageQuery \<Rightarrow> 'd log_store \<Rightarrow> LoggedRow list" where
  "filterPendingCapturedMessages query st =
     map fst (js_sort (by_sequence (cq_desc query)) (filter (\<lambda>m. matches_query query (fst m)) (st_pendingMessages st)))"

definition unfiltered_full_range :: "CapturedMessageQuery \<Rightarrow> bool" where
  "unfiltered_full_range query \<longleftrightarrow>
     cq_startTimestampUs query = 0 \<and> cq_endTimestampUs query = SQLITE_MAX_TIMESTAMP_US \<and> \<not> cq_wallClock query \<and>
     cq_messageKinds query = [] \<and> cq_messageTypes query = [] \<and> cq_senderPowerRoles query = [] \<and>
     cq_senderDataRoles query = [] \<and> cq_sopKinds query = [] \<and> cq_eventTypes query = []"

definition whole_number :: "nat \<Rightarrow> js_number" where "whole_number n = Decimal (int n) 0"

definition with_page :: "nat \<Rightarrow> nat option \<Rightarrow> CapturedMessageQuery \<Rightarrow> CapturedMessageQuery" where
  "with_page offset limit query =
     query\<lparr>cq_offset := Some (whole_number offset), cq_limit := map_option whole_number limit\<rparr>"

definition without_page :: "CapturedMessageQuery \<Rightarrow> CapturedMessageQuery" where
  "without_page query = query\<lparr>cq_offset := None, cq_limit := None\<rparr>"

text \<open>A page of the whole log, from the oldest row and from the newest.\<close>

definition ascending_page ::
  "'d sqlite \<Rightarrow> CapturedMessageQuery \<Rightarrow> nat \<Rightarrow> LoggedRow list \<Rightarrow> (LoggedRow list, 'd) store_io" where
  "ascending_page sq query committed pendingRows =
     (let offset = query_offset query; limit = query_limit query in
      if committed \<le> offset then done_with (take_limit limit (drop (offset - committed) pendingRows))
      else if (case limit of None \<Rightarrow> False | Some n \<Rightarrow> offset + n \<le> committed)
      then queryCommittedCapturedMessages sq query
      else and_then (queryCommittedCapturedMessages sq (with_page offset (Some (committed - offset)) query))
        (\<lambda>committedRows. done_with (committedRows @
           take_limit (map_option (\<lambda>n. n - length committedRows) limit) pendingRows)))"

definition descending_page ::
  "'d sqlite \<Rightarrow> CapturedMessageQuery \<Rightarrow> LoggedRow list \<Rightarrow> (LoggedRow list, 'd) store_io" where
  "descending_page sq query pendingRows =
     (let offset = query_offset query; limit = query_limit query in
      if length pendingRows \<le> offset
      then queryCommittedCapturedMessages sq (with_page (offset - length pendingRows) limit query)
      else let page = take_limit limit (drop offset pendingRows) in
        if (case limit of None \<Rightarrow> False | Some n \<Rightarrow> n \<le> length page) then done_with page
        else and_then (queryCommittedCapturedMessages sq
               (with_page 0 (map_option (\<lambda>n. n - length page) limit) query))
             (\<lambda>later. done_with (page @ later)))"

definition queryCapturedMessages :: "'d sqlite \<Rightarrow> CapturedMessageQuery \<Rightarrow> (LoggedRow list, 'd) store_io" where
  "queryCapturedMessages sq query = and_then ensureInitialized (\<lambda>_ st.
     let offset = query_offset query; limit = query_limit query in
     case st_memory st of
       Some rows \<Rightarrow>
         let matching = filter (matches_query query) (mr_capturedMessages rows) in
         (Inr (take_limit limit (drop offset (if cq_desc query then rev matching else matching))), st)
     | None \<Rightarrow>
         let pendingRows = filterPendingCapturedMessages query st in
         if pendingRows = [] then queryCommittedCapturedMessages sq query st
         else if unfiltered_full_range query \<and> (offset > 0 \<or> limit \<noteq> None) then
           (if cq_desc query then descending_page sq query pendingRows st
            else ascending_page sq query (nat (st_committedMessages st)) pendingRows st)
         else and_then (queryCommittedCapturedMessages sq (without_page query)) (\<lambda>committedRows.
           let mergedRows = (if cq_desc query then pendingRows @ committedRows else committedRows @ pendingRows)
           in done_with (take_limit limit (drop offset mergedRows))) st)"

section \<open>Bounds of the timeline\<close>

definition full_range_analog :: "bool \<Rightarrow> AnalogSampleQuery" where
  "full_range_analog desc =
     \<lparr>aq_startTimestampUs = 0, aq_endTimestampUs = SQLITE_MAX_TIMESTAMP_US, aq_wallClock = False, aq_desc = desc,
      aq_limit = Some (whole_number 1)\<rparr>"

definition full_range_captured :: "bool \<Rightarrow> bool \<Rightarrow> js_number option \<Rightarrow> CapturedMessageQuery" where
  "full_range_captured wallClock desc limit =
     \<lparr>cq_startTimestampUs = 0, cq_endTimestampUs = SQLITE_MAX_TIMESTAMP_US, cq_wallClock = wallClock, cq_desc = desc,
      cq_messageKinds = [], cq_messageTypes = [], cq_senderPowerRoles = [], cq_senderDataRoles = [], cq_sopKinds = [],
      cq_eventTypes = [], cq_offset = None, cq_limit = limit\<rparr>"

definition queryCapturedMessageTimeBound :: "'d sqlite \<Rightarrow> bool \<Rightarrow> bool \<Rightarrow> (LoggedRow list, 'd) store_io" where
  "queryCapturedMessageTimeBound sq wallClock desc st =
     (let query = full_range_captured wallClock desc (Some (whole_number 1)); time = row_timestamp wallClock in
      case st_memory st of
        Some rows \<Rightarrow>
          (Inr (take 1 (js_sort (by_time time desc) (filter (\<lambda>row. time row \<noteq> None) (mr_capturedMessages rows)))), st)
      | None \<Rightarrow>
          let pendingRows = map fst (js_sort (by_time_and_sequence time desc)
                (filter (\<lambda>m. time (fst m) \<noteq> None) (st_pendingMessages st)))
          in and_then (queryCommittedCapturedMessagesByTimestamp sq query) (\<lambda>committedRows.
               done_with (take 1 (js_sort (by_time time desc) (committedRows @ take 1 pendingRows)))) st)"

record DRPDLoggingTimeBounds =
  tb_firstAnalogSample :: "LoggedAnalogSample option"
  tb_lastAnalogSample :: "LoggedAnalogSample option"
  tb_firstDeviceMessage :: "LoggedRow option"
  tb_lastDeviceMessage :: "LoggedRow option"
  tb_firstWallClockMessage :: "LoggedRow option"
  tb_lastWallClockMessage :: "LoggedRow option"

definition first_row :: "'a list \<Rightarrow> 'a option" where
  "first_row rows = (case rows of [] \<Rightarrow> None | row # _ \<Rightarrow> Some row)"

definition getTimeBounds :: "'d sqlite \<Rightarrow> (DRPDLoggingTimeBounds, 'd) store_io" where
  "getTimeBounds sq =
     and_then (queryAnalogSamples sq (full_range_analog False)) (\<lambda>firstAnalog.
     and_then (queryAnalogSamples sq (full_range_analog True)) (\<lambda>lastAnalog.
     and_then (queryCapturedMessageTimeBound sq False False) (\<lambda>firstDevice.
     and_then (queryCapturedMessageTimeBound sq False True) (\<lambda>lastDevice.
     and_then (queryCapturedMessageTimeBound sq True False) (\<lambda>firstWallClock.
     and_then (queryCapturedMessageTimeBound sq True True) (\<lambda>lastWallClock.
       done_with \<lparr>tb_firstAnalogSample = first_row firstAnalog, tb_lastAnalogSample = first_row lastAnalog,
         tb_firstDeviceMessage = first_row firstDevice, tb_lastDeviceMessage = first_row lastDevice,
         tb_firstWallClockMessage = first_row firstWallClock, tb_lastWallClockMessage = first_row lastWallClock\<rparr>))))))"

section \<open>Export\<close>

text \<open>\<open>JSON.stringify\<close> without spaces.\<close>

definition json_char :: "char \<Rightarrow> string" where
  "json_char c =
     (let n = of_char c :: nat; backslash = CHR 0x5C in
      if c = quote_char then [backslash, quote_char]
      else if c = backslash then [backslash, backslash]
      else if n = 8 then [backslash, CHR ''b'']
      else if n = 9 then [backslash, CHR ''t'']
      else if n = 10 then [backslash, CHR ''n'']
      else if n = 12 then [backslash, CHR ''f'']
      else if n = 13 then [backslash, CHR ''r'']
      else if n < 32 then [backslash] @ ''u00'' @ [lower_hex_digit (int n div 16), lower_hex_digit (int n mod 16)]
      else [c])"

definition json_string :: "string \<Rightarrow> string" where
  "json_string s = [quote_char] @ concat (map json_char s) @ [quote_char]"

fun json_text :: "json \<Rightarrow> string" where
  "json_text J_null = ''null''"
| "json_text (J_bool b) = (if b then ''true'' else ''false'')"
| "json_text (J_number q) = js_number_text q"
| "json_text (J_string s) = json_string s"
| "json_text (J_array vs) = ''['' @ join '','' (map json_text vs) @ '']''"
| "json_text (J_object props) =
     ''{'' @ join '','' (map (\<lambda>(name, v). json_string name @ '':'' @ json_text v) props) @ ''}''"

record LogExportRequest =
  xr_json :: bool
  xr_includeAnalog :: bool
  xr_includeMessages :: bool
  xr_analogQuery :: "AnalogSampleQuery option"
  xr_messageQuery :: "CapturedMessageQuery option"

text \<open>A payload that is JSON is represented by its value; \<open>JSON.stringify\<close> prints it.\<close>

datatype export_payload = Payload_json json | Payload_csv string

record LogExportResult =
  xs_mimeType :: string
  xs_payload :: export_payload
  xs_analogCount :: nat
  xs_messageCount :: nat

definition toSerializableAnalog :: "LoggedAnalogSample \<Rightarrow> json" where
  "toSerializableAnalog row = J_object
     [(''timestampUs'', bigint_json (la_timestampUs row)),
      (''displayTimestampUs'', nullable_json bigint_json (la_displayTimestampUs row)),
      (''wallClockUs'', nullable_json bigint_json (la_wallClockUs row)),
      (''vbusV'', J_number (la_vbusV row)), (''ibusA'', J_number (la_ibusA row)),
      (''role'', nullable_json J_string (la_role row)), (''createdAtMs'', J_number (la_createdAtMs row))]"

definition toSerializableMessage :: "LoggedRow \<Rightarrow> json" where
  "toSerializableMessage row = serializeMessageLogRow row"

definition optional_text :: "('a \<Rightarrow> string) \<Rightarrow> 'a option \<Rightarrow> string" where
  "optional_text f val = (case val of None \<Rightarrow> [] | Some x \<Rightarrow> f x)"

definition bigint_text :: "int \<Rightarrow> string" where "bigint_text n = js_String n 0"

definition analog_csv_fields :: "LoggedAnalogSample \<Rightarrow> string list" where
  "analog_csv_fields row =
     [bigint_text (la_timestampUs row), optional_text bigint_text (la_displayTimestampUs row),
      optional_text bigint_text (la_wallClockUs row), js_number_text (la_vbusV row), js_number_text (la_ibusA row),
      toCSVField (optional_text id (la_role row)), js_number_text (la_createdAtMs row)]"

definition event_data_text :: "LoggedEventDataSection list option \<Rightarrow> string" where
  "event_data_text eventData = (if eventData = None then [] else json_text (event_data_json eventData))"

definition captured_csv_fields :: "LoggedRow \<Rightarrow> string list" where
  "captured_csv_fields row =
     [entry_kind_text (lr_entryKind row), toCSVField (optional_text id (lr_eventType row)),
      toCSVField (optional_text id (lr_eventText row)), toCSVField (event_data_text (lr_eventData row)),
      optional_text js_number_text (lr_eventWallClockMs row), (if lr_flagged row then ''1'' else ''0''),
      toCSVField (optional_text id (lr_comment row)), optional_text js_number_text (lr_commentCreatedAtMs row),
      optional_text bigint_text (lr_wallClockUs row), bigint_text (lr_startTimestampUs row),
      bigint_text (lr_endTimestampUs row), optional_text bigint_text (lr_displayTimestampUs row),
      js_number_text (lr_decodeResult row), toCSVField (optional_text id (lr_sopKind row)),
      toCSVField (optional_text id (lr_messageKind row)), optional_text js_number_text (lr_messageType row),
      optional_text js_number_text (lr_messageId row), toCSVField (optional_text id (lr_senderPowerRole row)),
      toCSVField (optional_text id (lr_senderDataRole row)), js_number_text (lr_pulseCount row),
      toHex (encodePulseWidthsLE (lr_rawPulseWidths row)), toHex (lr_rawSop row), toHex (lr_rawDecodedData row),
      toCSVField (optional_text id (lr_parseError row)), js_number_text (lr_createdAtMs row)]"

definition captured_csv_header :: "string list" where
  "captured_csv_header = [''entry_kind'', ''event_type'', ''event_text'', ''event_data'', ''event_wall_clock_ms'', ''flagged'',
     ''comment'', ''comment_created_at_ms'', ''wall_clock_us'', ''start_timestamp_us'', ''end_timestamp_us'',
     ''display_timestamp_us'', ''decode_result'', ''sop_kind'', ''message_kind'', ''message_type'', ''message_id'',
     ''sender_power_role'', ''sender_data_role'', ''pulse_count'', ''raw_pulse_widths_hex'', ''raw_sop_hex'',
     ''raw_decoded_data_hex'', ''parse_error'', ''created_at_ms'']"

definition analog_csv_lines :: "LoggedAnalogSample list \<Rightarrow> string list" where
  "analog_csv_lines analog =
     [''analog_samples'', ''timestamp_us,display_timestamp_us,wall_clock_us,vbus_v,ibus_a,role,created_at_ms''] @
     map (\<lambda>row. join '','' (analog_csv_fields row)) analog"

definition captured_csv_lines :: "LoggedRow list \<Rightarrow> string list" where
  "captured_csv_lines messages =
     [''captured_messages'', join '','' captured_csv_header] @ map (\<lambda>row. join '','' (captured_csv_fields row)) messages"

definition csv_payload :: "bool \<Rightarrow> bool \<Rightarrow> LoggedAnalogSample list \<Rightarrow> LoggedRow list \<Rightarrow> string" where
  "csv_payload includeAnalog includeMessages analog messages =
     (let upper = (if includeAnalog then analog_csv_lines analog else []);
          lower = (if includeMessages then (if upper \<noteq> [] then [[]] else []) @ captured_csv_lines messages else [])
      in join [CHR 0x0A] (upper @ lower) @ [CHR 0x0A])"

definition json_payload :: "LoggedAnalogSample list \<Rightarrow> LoggedRow list \<Rightarrow> json" where
  "json_payload analog messages = J_object
     [(''analogSamples'', J_array (map toSerializableAnalog analog)),
      (''capturedMessages'', J_array (map toSerializableMessage messages))]"

definition all_analog :: AnalogSampleQuery where "all_analog = (full_range_analog False)\<lparr>aq_limit := None\<rparr>"

definition exportData :: "'d sqlite \<Rightarrow> LogExportRequest \<Rightarrow> (LogExportResult, 'd) store_io" where
  "exportData sq request =
     and_then (flush_store sq) (\<lambda>_.
     and_then (if xr_includeAnalog request
               then queryAnalogSamples sq (or_default (xr_analogQuery request) all_analog) else done_with []) (\<lambda>analog.
     and_then (if xr_includeMessages request
               then queryCapturedMessages sq (or_default (xr_messageQuery request) (full_range_captured False False None))
               else done_with []) (\<lambda>messages.
       done_with
         \<lparr>xs_mimeType = (if xr_json request then ''application/json'' else ''text/csv''),
          xs_payload = (if xr_json request then Payload_json (json_payload analog messages)
            else Payload_csv (csv_payload (xr_includeAnalog request) (xr_includeMessages request) analog messages)),
          xs_analogCount = length analog, xs_messageCount = length messages\<rparr>)))"

end
