(* ===== verification/Log_Import_Laws.thy ===== *)
theory Log_Import_Laws
  imports Log_Import
begin

text \<open>
  What is exported reads back: the readers of the import undo the printers of the export, field by field, and
  so a file of exported rows imports as those rows.
\<close>

section \<open>Fields\<close>

lemma js_String_nonneg: "0 \<le> n \<Longrightarrow> js_String n 0 = decimal_digits (nat n)"
  using decimal_digits_not_Nil[of "nat n"] by (cases "decimal_digits (nat n)") (simp_all add: js_String_def)

lemma readBigInt_printed: "0 \<le> n \<Longrightarrow> readBigInt label (Some (bigint_json n)) = Inr n"
  using decimal_digits_not_Nil[of "nat n"]
  by (simp add: readBigInt_def bigint_json_def js_String_nonneg decimal_digits_js digits_value_decimal)

lemma readNullable_printed:
  "readNullableString label (Some (nullable_json J_string s)) = Inr s"
  "readNullableNumber label (Some (nullable_json J_number q)) = Inr q"
  "(\<And>x. n = Some x \<Longrightarrow> 0 \<le> x) \<Longrightarrow> readNullableBigInt label (Some (nullable_json bigint_json n)) = Inr n"
  unfolding readNullableString_def readNullableNumber_def readNullableBigInt_def
  by (cases s; cases q; cases n; simp add: nullable_def nullable_json_def nullish_def readString_def readNumber_def
      readBigInt_printed bigint_json_def readBigInt_printed[unfolded bigint_json_def])+

lemma read_each_printed:
  assumes "\<And>l x. x \<in> set xs \<Longrightarrow> reader l (Some (printer x)) = Inr x"
  shows "read_each reader label i (map printer xs) = Inr xs"
  using assms by (induction xs arbitrary: i) auto

lemma readPulseWidths_printed: "readPulseWidths label (Some (J_array (map J_number qs))) = Inr qs"
  by (simp add: readPulseWidths_def read_each_printed readNumber_def)

lemma digit_value_lower: "0 \<le> n \<Longrightarrow> n < 16 \<Longrightarrow> digit_value (lower_hex_digit n) = nat n"
  by (drule (1) less_16_cases, elim disjE) (hypsubst, simp add: lower_hex_digit_def digit_value_def)+

lemma byte_nibbles:
  "0 \<le> uint b div 16" "uint b div 16 < 16" "0 \<le> uint b mod 16" "uint b mod 16 < 16" for b :: byte
proof -
  have "0 \<le> uint b" "uint b < 256"
    using uint_byte_bounds by auto
  then show "0 \<le> uint b div 16" "uint b div 16 < 16" "0 \<le> uint b mod 16" "uint b mod 16 < 16"
    by presburger+
qed

lemma toHex_byte:
  "digit_value (lower_hex_digit (uint b div 16)) = nat (uint b div 16)"
  "digit_value (lower_hex_digit (uint b mod 16)) = nat (uint b mod 16)" for b :: byte
  using byte_nibbles[of b] by (simp_all add: digit_value_lower)

lemma hex_pairs_toHex: "hex_pairs (toHex bs) = bs"
proof (induction bs)
  case (Cons b bs)
  have "int (nat (uint b div 16) * 16 + nat (uint b mod 16)) = uint b"
    using uint_byte_bounds[of b] by simp
  then show ?case
    using Cons by (simp add: toHex_def toHex_byte)
qed (simp add: toHex_def)

lemma toHex_digits: "list_all (\<lambda>c. digit_value c < 16) (toHex bs)"
  by (induction bs) (simp_all add: toHex_def toHex_byte nat_less_iff byte_nibbles)

lemma even_toHex: "length (toHex bs) mod 2 = 0"
  by (induction bs) (auto simp: toHex_def)

lemma readBytes_printed: "readBytes label (coalesce (Some (J_string (toHex bs))) other) = Inr bs"
  using even_toHex[of bs]
  by (simp add: readBytes_def coalesce_def nullish_def hexToBytes_def toHex_digits hex_pairs_toHex)

lemma parse_event_section_printed: "parse_event_section label (Some (event_section_json s)) = Inr s"
proof -
  have "read_each parse_event_entry l 0 (map event_entry_json es) = Inr es" for l es
    by (rule read_each_printed) (simp add: parse_event_entry_def event_entry_json_def text_property_def)
  then show ?thesis
    by (simp add: parse_event_section_def event_section_json_def text_property_def)
qed

lemma parseLoggedEventData_printed: "parseLoggedEventData label (Some (event_data_json d)) = Inr d"
  by (cases d) (simp_all add: parseLoggedEventData_def event_data_json_def nullish_def read_each_printed
      parse_event_section_printed)

lemmas fields_printed = readBigInt_printed readNullable_printed readPulseWidths_printed readBytes_printed
  parseLoggedEventData_printed

section \<open>Rows\<close>

text \<open>A row as the store keeps it.\<close>

definition storable :: "LoggedRow \<Rightarrow> bool" where
  "storable row \<longleftrightarrow> normalizeCapturedMessageForStorage row = row"

lemma clamp_idem: "clampSqliteTimestampUs (clampSqliteTimestampUs n) = clampSqliteTimestampUs n"
  by (simp add: clampSqliteTimestampUs_def clampBigInt_def SQLITE_MAX_TIMESTAMP_US_def)

lemma storable_normalized: "storable (normalizeCapturedMessageForStorage row)"
  by (auto simp: storable_def normalizeCapturedMessageForStorage_def Let_def is_annotatable_def clamp_idem
      clampNullableSqliteTimestampUs_def option.map_comp comp_def)

lemma clamp_fixed: "clampSqliteTimestampUs n = n \<Longrightarrow> 0 \<le> n"
  by (auto simp: clampSqliteTimestampUs_def clampBigInt_def SQLITE_MAX_TIMESTAMP_US_def split: if_splits)

lemma clamp_nonneg: "0 \<le> clampSqliteTimestampUs n"
  by (auto simp: clampSqliteTimestampUs_def clampBigInt_def SQLITE_MAX_TIMESTAMP_US_def)

lemma storable_fields:
  assumes "storable row"
  shows "0 \<le> lr_startTimestampUs row" "0 \<le> lr_endTimestampUs row"
    "lr_wallClockUs row = Some w \<Longrightarrow> 0 \<le> w" "lr_displayTimestampUs row = Some d \<Longrightarrow> 0 \<le> d"
    "lr_entryKind row = EK_message \<Longrightarrow> lr_eventData row = None"
    "\<not> is_annotatable row \<Longrightarrow> \<not> lr_flagged row \<and> lr_comment row = None \<and> lr_commentCreatedAtMs row = None"
proof -
  have f: "lr_startTimestampUs (normalizeCapturedMessageForStorage row) = lr_startTimestampUs row"
    "lr_endTimestampUs (normalizeCapturedMessageForStorage row) = lr_endTimestampUs row"
    "lr_wallClockUs (normalizeCapturedMessageForStorage row) = lr_wallClockUs row"
    "lr_displayTimestampUs (normalizeCapturedMessageForStorage row) = lr_displayTimestampUs row"
    "lr_eventData (normalizeCapturedMessageForStorage row) = lr_eventData row"
    "lr_flagged (normalizeCapturedMessageForStorage row) = lr_flagged row"
    "lr_comment (normalizeCapturedMessageForStorage row) = lr_comment row"
    "lr_commentCreatedAtMs (normalizeCapturedMessageForStorage row) = lr_commentCreatedAtMs row"
    using assms by (simp_all add: storable_def)
  note f = f[unfolded normalizeCapturedMessageForStorage_def Let_def, simplified]
  show "0 \<le> lr_startTimestampUs row"
    using f(1) clamp_fixed by simp
  show "0 \<le> lr_endTimestampUs row"
    using f(2) clamp_nonneg by (metis (full_types))
  show "0 \<le> w" if "lr_wallClockUs row = Some w"
    using f(3) that clamp_fixed by (simp add: clampNullableSqliteTimestampUs_def)
  show "0 \<le> d" if "lr_displayTimestampUs row = Some d"
    using f(4) that clamp_fixed by (simp add: clampNullableSqliteTimestampUs_def)
  show "lr_eventData row = None" if "lr_entryKind row = EK_message"
    using f(5) that by simp
  show "\<not> lr_flagged row \<and> lr_comment row = None \<and> lr_commentCreatedAtMs row = None" if "\<not> is_annotatable row"
    using f(6,7,8) that by simp
qed

lemma find_None_all: "(\<And>x. x \<in> set xs \<Longrightarrow> \<not> P x) \<Longrightarrow> List.find P xs = None"
  by (simp add: find_None_iff)

lemma serialized_fields:
  "property_of (serializeMessageLogRow row) ''entryKind'' = Some (J_string (entry_kind_text (lr_entryKind row)))"
  "property_of (serializeMessageLogRow row) ''eventType'' = Some (nullable_json J_string (lr_eventType row))"
  "property_of (serializeMessageLogRow row) ''eventText'' = Some (nullable_json J_string (lr_eventText row))"
  "property_of (serializeMessageLogRow row) ''eventData'' = Some (event_data_json (lr_eventData row))"
  "property_of (serializeMessageLogRow row) ''eventWallClockMs'' = Some (nullable_json J_number (lr_eventWallClockMs row))"
  "property_of (serializeMessageLogRow row) ''flagged'' = Some (J_bool (lr_flagged row))"
  "property_of (serializeMessageLogRow row) ''comment'' = Some (nullable_json J_string (lr_comment row))"
  "property_of (serializeMessageLogRow row) ''commentCreatedAtMs'' = Some (nullable_json J_number (lr_commentCreatedAtMs row))"
  "property_of (serializeMessageLogRow row) ''wallClockUs'' = Some (nullable_json bigint_json (lr_wallClockUs row))"
  "property_of (serializeMessageLogRow row) ''startTimestampUs'' = Some (bigint_json (lr_startTimestampUs row))"
  "property_of (serializeMessageLogRow row) ''endTimestampUs'' = Some (bigint_json (lr_endTimestampUs row))"
  "property_of (serializeMessageLogRow row) ''displayTimestampUs'' = Some (nullable_json bigint_json (lr_displayTimestampUs row))"
  "property_of (serializeMessageLogRow row) ''decodeResult'' = Some (J_number (lr_decodeResult row))"
  "property_of (serializeMessageLogRow row) ''sopKind'' = Some (nullable_json J_string (lr_sopKind row))"
  "property_of (serializeMessageLogRow row) ''messageKind'' = Some (nullable_json J_string (lr_messageKind row))"
  "property_of (serializeMessageLogRow row) ''messageType'' = Some (nullable_json J_number (lr_messageType row))"
  "property_of (serializeMessageLogRow row) ''messageId'' = Some (nullable_json J_number (lr_messageId row))"
  "property_of (serializeMessageLogRow row) ''senderPowerRole'' = Some (nullable_json J_string (lr_senderPowerRole row))"
  "property_of (serializeMessageLogRow row) ''senderDataRole'' = Some (nullable_json J_string (lr_senderDataRole row))"
  "property_of (serializeMessageLogRow row) ''pulseCount'' = Some (J_number (lr_pulseCount row))"
  "property_of (serializeMessageLogRow row) ''rawPulseWidths'' = Some (J_array (map J_number (lr_rawPulseWidths row)))"
  "property_of (serializeMessageLogRow row) ''rawSopHex'' = Some (J_string (toHex (lr_rawSop row)))"
  "property_of (serializeMessageLogRow row) ''rawDecodedDataHex'' = Some (J_string (toHex (lr_rawDecodedData row)))"
  "property_of (serializeMessageLogRow row) ''parseError'' = Some (nullable_json J_string (lr_parseError row))"
  "property_of (serializeMessageLogRow row) ''createdAtMs'' = Some (J_number (lr_createdAtMs row))"
  by (simp_all add: serializeMessageLogRow_def)

lemma serialized_record: "isRecord (Some (serializeMessageLogRow row))"
  by (simp add: serializeMessageLogRow_def)

lemma serialized_required: "List.find (\<lambda>name. property_of (serializeMessageLogRow row) name = None) REQUIRED_FIELDS = None"
  by (simp add: REQUIRED_FIELDS_def serialized_fields)

lemma normalize_serialized:
  assumes "storable row"
  shows "normalizeCapturedMessage (Some (serializeMessageLogRow row)) index = Inr row"
proof -
  note s = storable_fields[OF assms]
  have k: "readString label (Some (J_string t)) = Inr t" "readNumber label (Some (J_number q)) = Inr q"
    "readOptionalBoolean label (Some (J_bool b)) = Inr b" for label t q b
    by (simp_all add: readString_def readNumber_def readOptionalBoolean_def nullish_def)
  have a: "annotation a x (Inr y) = Inr (if a then y else x)" for a x y
    by (simp add: annotation_def)
  have ann: "\<not> is_annotatable row \<Longrightarrow> lr_flagged row = False \<and> lr_comment row = None \<and> lr_commentCreatedAtMs row = None"
    using s(6) by simp
  note simps = serialized_record serialized_required serialized_fields fields_printed k a s(1-5)
  show ?thesis
  proof (cases "lr_entryKind row")
    case EK_message
    then have "normalizeCapturedMessage (Some (serializeMessageLogRow row)) index = Inr (row\<lparr>lr_eventData := None\<rparr>)"
      unfolding normalizeCapturedMessage_def Let_def read_field_def
      by (simp add: simps entry_kind_text_def)
    with EK_message s(5) show ?thesis by simp
  next
    case EK_event
    show ?thesis
    proof (cases "is_annotatable row")
      case True
      then have "lr_eventType row = Some ''mark''"
        using EK_event by (simp add: is_annotatable_def)
      then show ?thesis
        unfolding normalizeCapturedMessage_def Let_def read_field_def
        using EK_event by (simp add: simps entry_kind_text_def)
    next
      case False
      then have "lr_eventType row \<noteq> Some ''mark''"
        using EK_event by (simp add: is_annotatable_def)
      then have "normalizeCapturedMessage (Some (serializeMessageLogRow row)) index =
          Inr (row\<lparr>lr_flagged := False, lr_comment := None, lr_commentCreatedAtMs := None\<rparr>)"
        unfolding normalizeCapturedMessage_def Let_def read_field_def
        using EK_event by (simp add: simps entry_kind_text_def)
      with ann[OF False] show ?thesis by simp
    qed
  qed
qed

section \<open>Files\<close>

lemma normalize_rows_serialized:
  "\<forall>row \<in> set rows. storable row \<Longrightarrow> normalize_rows (map serializeMessageLogRow rows) index = Inr rows"
  by (induction rows arbitrary: index) (simp_all add: normalize_serialized)

text \<open>C27: what the log exports it imports. For any rows as the store keeps them, the exported JSON, as a list or
  under \<open>capturedMessages\<close>, reads back as exactly those rows: every field, the flags and comments, the event
  data, the pulses and the bytes; and every row a store has taken in is such a row.\<close>

theorem messageLog_roundtrip:
  assumes "rows \<noteq> []"
  defines "kept \<equiv> map normalizeCapturedMessageForStorage rows"
  shows "parseMessageLogImportJson (Some (J_array (map serializeMessageLogRow kept))) = Inr kept \<and>
    parseMessageLogImportJson (Some (J_object [(''analogSamples'', J_array samples),
      (''capturedMessages'', J_array (map serializeMessageLogRow kept))])) = Inr kept"
  using assms normalize_rows_serialized[of kept 0]
  by (auto simp: parseMessageLogImportJson_def import_rows_def storable_normalized)

definition sample_mark :: "LoggedRow" where
  "sample_mark = \<lparr>lr_entryKind = EK_event, lr_eventType = Some ''mark'', lr_eventText = Some ''Mark'',
     lr_eventData = Some [\<lparr>se_title = ''Battery 0'', se_entries = [\<lparr>de_key = ''VID'', de_value = ''0x1234''\<rparr>]\<rparr>],
     lr_eventWallClockMs = Some (3 / 2), lr_flagged = True, lr_comment = Some ''note'', lr_commentCreatedAtMs = None,
     lr_wallClockUs = Some 1500, lr_startTimestampUs = - 7, lr_endTimestampUs = 20, lr_displayTimestampUs = None,
     lr_decodeResult = 0, lr_sopKind = None, lr_messageKind = None, lr_messageType = None, lr_messageId = None,
     lr_senderPowerRole = None, lr_senderDataRole = None, lr_pulseCount = 0, lr_rawPulseWidths = [1 / 2, 100],
     lr_rawSop = [], lr_rawDecodedData = [0xab, 0x0f], lr_parseError = None, lr_createdAtMs = 1\<rparr>"

lemma messageLog_roundtrip_witness:
  "\<exists>row. parseMessageLogImportJson (Some (J_array [serializeMessageLogRow row])) = Inr [row] \<and>
     lr_startTimestampUs row = 0 \<and> lr_comment row = Some ''note'' \<and> lr_rawDecodedData row = [0xab, 0x0f]"
proof -
  have "lr_startTimestampUs (normalizeCapturedMessageForStorage sample_mark) = 0"
      "lr_comment (normalizeCapturedMessageForStorage sample_mark) = Some ''note''"
      "lr_rawDecodedData (normalizeCapturedMessageForStorage sample_mark) = [0xab, 0x0f]"
    by (simp_all add: normalizeCapturedMessageForStorage_def sample_mark_def is_annotatable_def Let_def
        clampSqliteTimestampUs_def clampBigInt_def)
  then show ?thesis
    using messageLog_roundtrip[of "[sample_mark]"] by auto
qed

end
