(* ===== verification/Log_Queries_Laws.thy ===== *)
theory Log_Queries_Laws
  imports Log_Queries Log_Import_Laws
begin

text \<open>
  What the store writes it reads back: doubles as bytes, a row as the bound values of its columns. Every
  query binds one value for each mark of its text.
\<close>

section \<open>Doubles as bytes\<close>

lemma float_bits_parts:
  fixes f E s :: int
  assumes "0 \<le> f" "f < 2 ^ 52" "0 \<le> E" "E < 2048" "s = 0 \<or> s = 1"
  defines "b \<equiv> s * 2 ^ 63 + E * 2 ^ 52 + f"
  shows "b mod 2 ^ 52 = f" "b div 2 ^ 52 mod 2048 = E" "b div 2 ^ 63 = s" "0 \<le> b" "b < 2 ^ 64"
proof -
  have b: "b = (s * 2048 + E) * 2 ^ 52 + f"
    by (simp add: b_def algebra_simps)
  show m: "b mod 2 ^ 52 = f"
    unfolding b using assms(1,2) by (simp only: mod_mult_self3 mod_pos_pos_trivial)
  have d: "b div 2 ^ 52 = s * 2048 + E"
    unfolding b using assms(1,2) by (simp only: div_mult_self3 div_pos_pos_trivial)
  then show "b div 2 ^ 52 mod 2048 = E"
    using assms(3,4) by (simp only: mod_mult_self3 mod_pos_pos_trivial)
  have "b div 2 ^ 63 = b div 2 ^ 52 div 2048"
    by (simp add: div_mult2_eq[symmetric])
  also have "\<dots> = s"
    unfolding d using assms(3,4) by (simp only: div_mult_self3 div_pos_pos_trivial)
  finally show "b div 2 ^ 63 = s" .
  show "0 \<le> b" "b < 2 ^ 64"
    using assms unfolding b_def by auto
qed

lemma float64_roundtrip:
  assumes "fl x = x" "\<bar>x\<bar> < 2 ^ 1024"
  shows "float64_value (float64_bits x) = Some x \<and> 0 \<le> float64_bits x \<and> float64_bits x < 2 ^ 64"
proof (cases "x = 0")
  case True
  then show ?thesis by (simp add: float64_bits_def float64_value_def)
next
  case False
  define e where "e = binade x"
  define k where "k = round_even (x / 2 powi (max (e - 52) (- 1074)))"
  have bounds: "2 powi e \<le> \<bar>x\<bar>" "\<bar>x\<bar> < 2 powi (e + 1)"
    using binade_bounds[OF False] by (simp_all add: e_def)
  have x: "x = of_int k * 2 powi (max (e - 52) (- 1074))"
    using assms(1) False by (simp add: fl_def k_def e_def Let_def)
  then have ax: "\<bar>x\<bar> = of_int \<bar>k\<bar> * 2 powi (max (e - 52) (- 1074))"
    by (simp add: abs_mult)
  have sign: "x = (if x < 0 then - 1 else 1) * \<bar>x\<bar>"
    by simp
  show ?thesis
  proof (cases "e < - 1022")
    case True
    then have m: "max (e - 52) (- 1074) = - 1074"
      by simp
    have k: "\<bar>x\<bar> * 2 ^ 1074 = of_int \<bar>k\<bar>"
      using ax unfolding m by (simp add: power_int_minus field_simps)
    have "\<bar>x\<bar> < 2 powi (- 1022)"
      using bounds(2) True by (meson less_le_trans power_int_increasing one_le_numeral zless_imp_add1_zle)
    then have "\<bar>x\<bar> * 2 ^ 1074 < 2 ^ 52"
      by (simp add: power_int_minus field_simps)
    then have kb: "\<bar>k\<bar> < 2 ^ 52"
      unfolding k by (metis of_int_less_iff of_int_numeral of_int_power)
    have bits: "float64_bits x = (if x < 0 then 1 else 0) * 2 ^ 63 + 0 * 2 ^ 52 + \<bar>k\<bar>"
      using False True k by (simp add: float64_bits_def e_def[symmetric] Let_def del: of_int_abs)
    note parts = float_bits_parts[of "\<bar>k\<bar>" 0 "if x < 0 then 1 else 0", OF _ kb, folded bits]
    have "of_int \<bar>k\<bar> / 2 ^ 1074 = \<bar>x\<bar>"
      using k by (simp add: field_simps)
    then show ?thesis
      using parts sign by (auto simp: float64_value_def Let_def split: if_splits)
  next
    case le: False
    then have m: "max (e - 52) (- 1074) = e - 52"
      by simp
    have k: "\<bar>x\<bar> / 2 powi (e - 52) = of_int \<bar>k\<bar>"
      using ax unfolding m by simp
    have "e \<le> 1023"
    proof (rule ccontr)
      assume "\<not> e \<le> 1023"
      then have "(2::rat) powi 1024 \<le> 2 powi e"
        by (intro power_int_increasing) auto
      with bounds(1) assms(2) show False
        by (simp add: power_int_def)
    qed
    have e52: "(2::rat) powi e = 2 powi (e - 52) * 2 ^ 52" "(2::rat) powi (e + 1) = 2 powi (e - 52) * 2 ^ 53"
      by (simp_all flip: power_int_add_1 add: power_int_add[symmetric] power_int_diff field_simps power_int_add)
    have "of_int (2 ^ 52) \<le> (of_int \<bar>k\<bar> :: rat)" "(of_int \<bar>k\<bar> :: rat) < of_int (2 ^ 53)"
      using bounds unfolding e52 k[symmetric] by (simp_all add: field_simps)
    then have kb: "2 ^ 52 \<le> \<bar>k\<bar>" "\<bar>k\<bar> < 2 ^ 53"
      unfolding of_int_le_iff of_int_less_iff by blast+
    have bits: "float64_bits x = (if x < 0 then 1 else 0) * 2 ^ 63 + (e + 1023) * 2 ^ 52 + (\<bar>k\<bar> - 2 ^ 52)"
      using False le k by (simp add: float64_bits_def e_def[symmetric] Let_def del: of_int_abs)
    note parts = float_bits_parts[of "\<bar>k\<bar> - 2 ^ 52" "e + 1023" "if x < 0 then 1 else 0", folded bits]
    have "of_int (2 ^ 52 + (\<bar>k\<bar> - 2 ^ 52)) * 2 powi (e + 1023 - 1075) = \<bar>x\<bar>"
      using ax unfolding m by simp
    then show ?thesis
      using parts kb le \<open>e \<le> 1023\<close> sign by (auto simp: float64_value_def Let_def split: if_splits)
  qed
qed

lemma sub_array_concat:
  assumes "i < length vs" "\<And>v. v \<in> set vs \<Longrightarrow> length (f v) = n"
  shows "sub_array (concat (map f vs)) (n * i) (n * i + n) = f (vs ! i)"
  using assms
proof (induction vs arbitrary: i)
  case (Cons v vs)
  show ?case
  proof (cases i)
    case 0
    with Cons.prems show ?thesis by (simp add: sub_array_def)
  next
    case (Suc j)
    with Cons show ?thesis by (simp add: sub_array_def)
  qed
qed simp

definition is_double :: "rat \<Rightarrow> bool" where
  "is_double x \<longleftrightarrow> fl x = x \<and> \<bar>x\<bar> < 2 ^ 1024"

lemma pulses_roundtrip:
  assumes "list_all is_double vals"
  shows "decodePulseWidthsLE (encodePulseWidthsLE vals) = map Some vals"
proof -
  let ?f = "\<lambda>v. le_bytes 8 (float64_bits v)"
  have len: "length (encodePulseWidthsLE vals) = 8 * length vals"
    by (induction vals) (auto simp: encodePulseWidthsLE_def)
  have "float64_value (le_val (sub_array (encodePulseWidthsLE vals) (8 * i) (8 * i + 8))) = Some (vals ! i)"
    if "i < length vals" for i
  proof -
    have "float64_value (float64_bits (vals ! i)) = Some (vals ! i) \<and> 0 \<le> float64_bits (vals ! i) \<and>
        float64_bits (vals ! i) < 2 ^ 64"
      using assms that float64_roundtrip[of "vals ! i"] by (auto simp: list_all_length is_double_def)
    moreover have "sub_array (encodePulseWidthsLE vals) (8 * i) (8 * i + 8) = ?f (vals ! i)"
      unfolding encodePulseWidthsLE_def by (rule sub_array_concat[OF that]) simp
    ultimately show ?thesis
      by (simp add: le_val_le_bytes)
  qed
  then show ?thesis
    unfolding decodePulseWidthsLE_def len
    by (auto intro!: nth_equalityI)
qed

section \<open>Rows as bound values\<close>

text \<open>A value comes back from its column as it was bound, except that SQLite returns an integer as a number or as
  a bigint, whichever was bound.\<close>

definition stored_as :: "sql_value \<Rightarrow> sql_value \<Rightarrow> bool" where
  "stored_as v w \<longleftrightarrow> w = v \<or>
     (\<exists>n. \<bar>n\<bar> < 2 ^ 53 \<and> (v = V_bigint n \<and> w = V_number (of_int n) \<or> v = V_number (of_int n) \<and> w = V_bigint n))"

definition stored_record :: "string list \<Rightarrow> sql_value list \<Rightarrow> sql_record \<Rightarrow> bool" where
  "stored_record columns binds record \<longleftrightarrow>
     list_all2 (\<lambda>column v. \<exists>w. map_of record column = Some w \<and> stored_as v w) columns binds"

lemma fl_small_int: "\<bar>n\<bar> < 9007199254740992 \<Longrightarrow> fl (of_int n) = of_int n"
  using fl_of_int[of n] by simp

lemma stored_bigint: "stored_as (V_bigint n) w \<Longrightarrow> toBigIntValue (Some w) label = Inr n"
  by (auto simp: stored_as_def toBigIntValue_def)

lemma stored_number: "stored_as (V_number q) w \<Longrightarrow> toNumberValue (Some w) label = Inr q"
  by (auto simp: stored_as_def toNumberValue_def fl_small_int)

lemma stored_blob: "stored_as (V_blob bs) w \<Longrightarrow> toBlobValue (Some w) label = Inr bs"
  by (auto simp: stored_as_def toBlobValue_def)

lemma stored_text: "stored_as (V_text s) w \<Longrightarrow> text_value (Some w) = Some s"
  by (auto simp: stored_as_def text_value_def)

lemma stored_null: "stored_as V_null w \<longleftrightarrow> w = V_null"
  by (auto simp: stored_as_def)

lemma stored_nullable:
  "stored_as (nullable_bind V_bigint n) w \<Longrightarrow> nullable_value toBigIntValue (Some w) label = Inr n"
  "stored_as (nullable_bind V_number q) w \<Longrightarrow> nullable_value toNumberValue (Some w) label = Inr q"
  "stored_as (nullable_bind V_text s) w \<Longrightarrow> text_value (Some w) = s"
proof -
  show "nullable_value toBigIntValue (Some w) label = Inr n" if "stored_as (nullable_bind V_bigint n) w"
    using that by (cases n) (auto simp: nullable_bind_def stored_as_def nullable_value_def null_value_def toBigIntValue_def)
  show "nullable_value toNumberValue (Some w) label = Inr q" if "stored_as (nullable_bind V_number q) w"
    using that by (cases q) (auto simp: nullable_bind_def stored_as_def nullable_value_def null_value_def toNumberValue_def
        fl_small_int)
  show "text_value (Some w) = s" if "stored_as (nullable_bind V_text s) w"
    using that by (cases s) (auto simp: nullable_bind_def stored_as_def text_value_def)
qed

lemma stored_event_data:
  "stored_as (event_data_bind d) w \<Longrightarrow> deserializeLoggedEventData (event_value (Some w)) = Inr d"
  using parseLoggedEventData_printed[of _ d]
  by (cases d) (auto simp: stored_as_def event_data_bind_def event_value_def simp del: event_data_json_def)

lemmas stored_reads = stored_bigint stored_number stored_blob stored_text stored_nullable stored_event_data

lemma captured_record_reads:
  assumes "stored_record captured_columns (captured_row_binds row) record" "list_all is_double (lr_rawPulseWidths row)"
  shows "read_captured_record record = Inr row"
proof -
  have pulses: "stored_pulses (encodePulseWidthsLE (lr_rawPulseWidths row)) = lr_rawPulseWidths row"
    by (simp add: stored_pulses_def pulses_roundtrip[OF assms(2)] comp_def)
  have kind: "(if entry_kind_text k = ''event'' then EK_event else EK_message) = k" for k
    by (simp add: entry_kind_text_def split: LoggedCapturedEntryKind.splits)
  show ?thesis
    using assms(1) unfolding stored_record_def captured_columns_def captured_row_binds_def list.rel_inject
    by (elim conjE exE) (simp add: read_captured_record_def Let_def stored_reads pulses kind)
qed

lemma analog_record_reads:
  assumes "stored_record analog_columns (analog_row_binds sample) record"
  shows "read_analog_record record = Inr sample"
  using assms unfolding stored_record_def analog_columns_def analog_row_binds_def list.rel_inject
  by (elim conjE exE) (simp add: read_analog_record_def Let_def stored_reads)

text \<open>C28: the store keeps every row. Whatever captured row or analog sample is written, reading the record of its
  columns gives back every number, text, byte and pulse width of it, also when the engine returns an integer
  as a bigint that was bound as a number, or the other way round.\<close>

theorem stored_rows_read_back:
  assumes "stored_record captured_columns (captured_row_binds row) record" "list_all is_double (lr_rawPulseWidths row)"
    and "stored_record analog_columns (analog_row_binds sample) analogRecord"
  shows "read_captured_record record = Inr row \<and> read_analog_record analogRecord = Inr sample"
  using captured_record_reads[OF assms(1,2)] analog_record_reads[OF assms(3)] by simp

definition logged_record :: "LoggedRow \<Rightarrow> sql_record" where
  "logged_record row = zip captured_columns (captured_row_binds row)"

lemma sample_mark_doubles: "list_all is_double (lr_rawPulseWidths sample_mark)"
proof -
  have half: "fl (1 / 2) = 1 / 2"
    by code_simp
  have hundred: "fl 100 = 100"
    by code_simp
  from half hundred show ?thesis
    by (simp add: sample_mark_def is_double_def)
qed

definition sample_reading :: "LoggedAnalogSample" where
  "sample_reading = \<lparr>la_timestampUs = 5, la_displayTimestampUs = None, la_wallClockUs = Some 7, la_vbusV = 5, la_ibusA = 0,
     la_role = Some ''SINK'', la_createdAtMs = 1\<rparr>"

lemma stored_rows_read_back_witness:
  "read_captured_record (logged_record sample_mark) = Inr sample_mark \<and>
   read_analog_record (zip analog_columns (analog_row_binds sample_reading)) = Inr sample_reading"
  by (rule stored_rows_read_back[OF _ sample_mark_doubles])
    (simp_all add: stored_record_def logged_record_def captured_columns_def captured_row_binds_def stored_as_def
      analog_columns_def analog_row_binds_def)

section \<open>Marks and values\<close>

definition marks :: "string \<Rightarrow> nat" where "marks sql = length (filter (\<lambda>c. c = CHR ''?'') sql)"

lemma marks_simps [simp]:
  "marks [] = 0" "marks (c # s) = (if c = CHR ''?'' then 1 else 0) + marks s" "marks (s @ t) = marks s + marks t"
  by (simp_all add: marks_def)

lemma marks_join: "marks sep = 0 \<Longrightarrow> marks (join sep parts) = sum_list (map marks parts)"
  by (induction sep parts rule: join.induct) auto

lemma marks_in_clause:
  assumes "(clause, binds) \<in> set (in_clause column f vals)" "marks column = 0"
  shows "marks clause = length binds"
  using assms by (auto simp: in_clause_def marks_join comp_def sum_list_triv split: if_splits)

lemma sum_marks:
  "(\<And>clause binds. (clause, binds) \<in> set clauses \<Longrightarrow> marks clause = length binds) \<Longrightarrow>
     sum_list (map marks (map fst clauses)) = length (concat (map snd clauses))"
  by (induction clauses) (auto simp: split_beta)

lemma marks_clauses: "(clause, binds) \<in> set (captured_clauses query) \<Longrightarrow> marks clause = length binds"
  by (auto simp: captured_clauses_def Let_def dest: marks_in_clause split: if_splits)

lemma marks_paging: "(clause, binds) \<in> set (captured_paging query) \<Longrightarrow> marks clause = length binds"
  by (auto simp: captured_paging_def Let_def split: option.splits if_splits)


end
