(* ===== verification/Log_Store_Laws.thy ===== *)
theory Log_Store_Laws
  imports Log_Store_Queries Log_Queries_Laws "HOL-Library.Sublist"
begin

text \<open>
  What the log store promises: the timeline is a stable sorted list, the fallback keeps its limits, a flush
  loses no row, and a page of the log is a page of committed and waiting rows together.
\<close>

section \<open>The timeline\<close>

definition timeline_le :: "LoggedRow \<Rightarrow> LoggedRow \<Rightarrow> bool" where
  "timeline_le l r \<longleftrightarrow> compareCapturedMessageTimeline l r \<le> 0"

lemma timeline_le_iff:
  "timeline_le l r \<longleftrightarrow>
     (case (lr_wallClockUs l, lr_wallClockUs r) of
        (None, None) \<Rightarrow> lr_createdAtMs l \<le> lr_createdAtMs r
      | (None, Some _) \<Rightarrow> True
      | (Some _, None) \<Rightarrow> False
      | (Some a, Some b) \<Rightarrow> a < b \<or> (a = b \<and> lr_createdAtMs l \<le> lr_createdAtMs r))"
  by (auto simp: timeline_le_def compareCapturedMessageTimeline_def split: option.splits)

lemma timeline_le_trans: "timeline_le a b \<Longrightarrow> timeline_le b c \<Longrightarrow> timeline_le a c"
  by (auto simp: timeline_le_iff split: option.splits)

lemma timeline_le_total: "timeline_le a b \<or> timeline_le b a"
  by (auto simp: timeline_le_iff split: option.splits)

definition in_timeline_order :: "LoggedRow list \<Rightarrow> bool" where
  "in_timeline_order rows \<longleftrightarrow> sorted_wrt timeline_le rows"

lemma in_timeline_order_nth: "in_timeline_order rows \<Longrightarrow> i \<le> j \<Longrightarrow> j < length rows \<Longrightarrow> timeline_le (rows ! i) (rows ! j)"
  using timeline_le_total[of "rows ! j" "rows ! j"]
  by (cases "i = j") (auto simp: in_timeline_order_def sorted_wrt_nth_less)

text \<open>The place of a row: all rows before it are not later, all rows from it on are.\<close>

definition splits_timeline :: "LoggedRow list \<Rightarrow> LoggedRow \<Rightarrow> nat \<Rightarrow> bool" where
  "splits_timeline rows row p \<longleftrightarrow> p \<le> length rows \<and> (\<forall>i < p. timeline_le (rows ! i) row) \<and>
     (\<forall>i < length rows. p \<le> i \<longrightarrow> \<not> timeline_le (rows ! i) row)"

lemma timeline_position_step:
  "timeline_position rows row low high =
     (if low < high then
        if timeline_le (rows ! ((low + high) div 2)) row then timeline_position rows row ((low + high) div 2 + 1) high
        else timeline_position rows row low ((low + high) div 2)
      else low)"
  by (subst timeline_position.simps) (simp add: timeline_le_def Let_def)

lemma timeline_position_spec:
  assumes "in_timeline_order rows" "low \<le> high" "high \<le> length rows"
    and "\<And>i. i < low \<Longrightarrow> timeline_le (rows ! i) row"
    and "\<And>i. high \<le> i \<Longrightarrow> i < length rows \<Longrightarrow> \<not> timeline_le (rows ! i) row"
  shows "splits_timeline rows row (timeline_position rows row low high)"
  using assms
proof (induction "high - low" arbitrary: low high rule: less_induct)
  case less
  define m where "m = (low + high) div 2"
  show ?case
  proof (cases "low < high")
    case False
    then have "timeline_position rows row low high = low"
      by (simp add: timeline_position_step)
    then show ?thesis
      using less.prems False by (auto simp: splits_timeline_def)
  next
    case True
    have mid: "low \<le> m" "m < high" "m < length rows"
      using True less.prems(3) by (auto simp: m_def)
    show ?thesis
    proof (cases "timeline_le (rows ! m) row")
      case le: True
      have before: "timeline_le (rows ! i) row" if "i < m + 1" for i
        using timeline_le_trans[OF in_timeline_order_nth[OF less.prems(1), of i m] le] mid(3) that by simp
      have "splits_timeline rows row (timeline_position rows row (m + 1) high)"
        using mid less.prems(1,3) by (intro less.hyps before less.prems(5)) auto
      then show ?thesis
        using True le by (simp add: timeline_position_step[of rows row low high] m_def)
    next
      case gt: False
      have after: "\<not> timeline_le (rows ! i) row" if "m \<le> i" "i < length rows" for i
        using gt timeline_le_trans[OF in_timeline_order_nth[OF less.prems(1) that]] by blast
      have "splits_timeline rows row (timeline_position rows row low m)"
        using mid less.prems(1,3) by (intro less.hyps after less.prems(4)) auto
      then show ?thesis
        using True gt by (simp add: timeline_position_step[of rows row low high] m_def)
    qed
  qed
qed

text \<open>The reference: the row goes behind every row that is not later.\<close>

definition insert_after_equals :: "LoggedRow list \<Rightarrow> LoggedRow \<Rightarrow> LoggedRow list" where
  "insert_after_equals rows row =
     filter (\<lambda>r. timeline_le r row) rows @ row # filter (\<lambda>r. \<not> timeline_le r row) rows"

lemma split_filter:
  assumes "p \<le> length xs" "\<And>i. i < p \<Longrightarrow> P (xs ! i)" "\<And>i. p \<le> i \<Longrightarrow> i < length xs \<Longrightarrow> \<not> P (xs ! i)"
  shows "filter P xs = take p xs" "filter (\<lambda>x. \<not> P x) xs = drop p xs"
proof -
  have t: "\<forall>x \<in> set (take p xs). P x" and d: "\<forall>x \<in> set (drop p xs). \<not> P x"
    using assms by (auto simp: in_set_conv_nth)
  have "filter P (take p xs @ drop p xs) = take p xs" "filter (\<lambda>x. \<not> P x) (take p xs @ drop p xs) = drop p xs"
    unfolding filter_append using t d by (simp_all add: filter_empty_conv)
  then show "filter P xs = take p xs" "filter (\<lambda>x. \<not> P x) xs = drop p xs"
    by simp_all
qed

lemma insertion_reference:
  assumes "in_timeline_order rows"
  shows "insertCapturedMessageInTimelineOrder rows row = insert_after_equals rows row"
proof -
  let ?p = "timeline_position rows row 0 (length rows)"
  have "splits_timeline rows row ?p"
    by (rule timeline_position_spec[OF assms]) auto
  then have "filter (\<lambda>r. timeline_le r row) rows = take ?p rows"
    "filter (\<lambda>r. \<not> timeline_le r row) rows = drop ?p rows"
    using split_filter[of ?p rows "\<lambda>r. timeline_le r row"] by (auto simp: splits_timeline_def)
  then show ?thesis
    by (simp add: insertCapturedMessageInTimelineOrder_def insert_after_equals_def Let_def)
qed

lemma insert_after_equals_sorted:
  "in_timeline_order rows \<Longrightarrow> in_timeline_order (insert_after_equals rows row)"
  using timeline_le_total timeline_le_trans
  by (auto simp: in_timeline_order_def insert_after_equals_def sorted_wrt_append sorted_wrt_filter) blast+

lemma insertion_sorted:
  "in_timeline_order rows \<Longrightarrow> in_timeline_order (insertCapturedMessageInTimelineOrder rows row)"
  by (simp add: insertion_reference insert_after_equals_sorted)

lemma insertion_length [simp]:
  "in_timeline_order rows \<Longrightarrow> length (insertCapturedMessageInTimelineOrder rows row) = Suc (length rows)"
  using sum_length_filter_compl[of "\<lambda>r. timeline_le r row" rows]
  by (simp add: insertion_reference insert_after_equals_def)

section \<open>The fallback in memory\<close>

definition limits_ok :: "DRPDLoggingConfig \<Rightarrow> bool" where
  "limits_ok config \<longleftrightarrow> lc_maxAnalogSamples config \<ge> 1 \<and> lc_maxCapturedMessages config \<ge> 1 \<and>
     is_integer (lc_maxAnalogSamples config) \<and> is_integer (lc_maxCapturedMessages config) \<and>
     is_integer (lc_retentionTrimBatchSize config)"

lemma limit_or_default_ok: "limit_or_default limit fallback \<ge> 1" "is_integer (limit_or_default limit fallback)"
  by (auto simp: limit_or_default_def is_integer_def max_def)

lemma store_config_limits: "limits_ok (store_config config)"
  by (simp add: limits_ok_def store_config_def Let_def limit_or_default_ok)

lemma trim_size_enough:
  assumes "is_integer limit" "is_integer batch" "limit \<ge> 0" "of_nat n > limit"
  shows "of_nat (n - nat \<lfloor>trim_size (of_nat n) limit batch\<rfloor>) \<le> limit"
proof -
  obtain l b where lb: "limit = of_int l" "batch = of_int b"
    using assms(1,2) by (metis is_integer_def)
  have "trim_size (of_nat n) limit batch = of_int (min (int n) (max (int n - l) b))"
    by (simp add: trim_size_def lb of_int_min of_int_max)
  then have "\<lfloor>trim_size (of_nat n) limit batch\<rfloor> = min (int n) (max (int n - l) b)"
    by simp
  moreover have "0 \<le> l" "l < int n"
    using assms(3,4) by (simp_all add: lb)
  ultimately have "int (n - nat \<lfloor>trim_size (of_nat n) limit batch\<rfloor>) \<le> l"
    by linarith
  then show ?thesis
    unfolding lb by (metis of_int_le_iff of_int_of_nat_eq)
qed

definition memory_ok :: "'d log_store \<Rightarrow> bool" where
  "memory_ok st \<longleftrightarrow> st_initialized st \<and> limits_ok (st_config st) \<and>
     (case st_memory st of None \<Rightarrow> False
      | Some rows \<Rightarrow> in_timeline_order (mr_capturedMessages rows) \<and>
          of_nat (length (mr_capturedMessages rows)) \<le> lc_maxCapturedMessages (st_config st) \<and>
          of_nat (length (mr_analogSamples rows)) \<le> lc_maxAnalogSamples (st_config st))"

text \<open>The captured messages after any change that keeps their order are within the limit once trimmed.\<close>

lemma trim_messages_ok:
  assumes "st_memory st = Some rows" "st_initialized st" "limits_ok (st_config st)"
    and "in_timeline_order (mr_capturedMessages rows)"
    and "of_nat (length (mr_analogSamples rows)) \<le> lc_maxAnalogSamples (st_config st)"
  shows "memory_ok (trimCapturedMessagesIfNeededMemory st)"
  using assms trim_size_enough[of "lc_maxCapturedMessages (st_config st)" "lc_retentionTrimBatchSize (st_config st)"
      "length (mr_capturedMessages rows)"]
  by (auto simp: trimCapturedMessagesIfNeededMemory_def memory_ok_def limits_ok_def Let_def in_timeline_order_def
      intro: sorted_wrt_drop)

lemma trim_analog_ok:
  assumes "st_memory st = Some rows" "st_initialized st" "limits_ok (st_config st)"
    and "in_timeline_order (mr_capturedMessages rows)"
    and "of_nat (length (mr_capturedMessages rows)) \<le> lc_maxCapturedMessages (st_config st)"
  shows "memory_ok (trimAnalogSamplesIfNeededMemory st)"
  using assms trim_size_enough[of "lc_maxAnalogSamples (st_config st)" "lc_retentionTrimBatchSize (st_config st)"
      "length (mr_analogSamples rows)"]
  by (auto simp: trimAnalogSamplesIfNeededMemory_def memory_ok_def limits_ok_def Let_def)

lemma trim_nothing:
  assumes "memory_ok st"
  shows "trimAnalogSamplesIfNeededMemory st = st" "trimCapturedMessagesIfNeededMemory st = st"
  using assms by (auto simp: memory_ok_def trimAnalogSamplesIfNeededMemory_def trimCapturedMessagesIfNeededMemory_def
      Let_def split: option.splits)

lemma update_first_map:
  "update_first P f xs = Some ys \<Longrightarrow> (\<And>x. k (f x) = k x) \<Longrightarrow> map k ys = map k xs"
  by (induction xs arbitrary: ys) (auto split: if_splits)

lemma in_timeline_order_key:
  "in_timeline_order rows \<longleftrightarrow>
     sorted_wrt (\<lambda>(w, c) (w', c'). case (w, w') of (None, None) \<Rightarrow> c \<le> c' | (None, Some _) \<Rightarrow> True
       | (Some _, None) \<Rightarrow> False | (Some a, Some b) \<Rightarrow> a < b \<or> (a = b \<and> c \<le> c'))
       (map (\<lambda>r. (lr_wallClockUs r, lr_createdAtMs r)) rows)"
  unfolding in_timeline_order_def sorted_wrt_map by (simp add: timeline_le_iff[abs_def])

lemma annotate_order:
  assumes "update_first P (annotate a) rows = Some rows'"
  shows "in_timeline_order rows' \<longleftrightarrow> in_timeline_order rows" "length rows' = length rows"
proof -
  have "map (\<lambda>r. (lr_wallClockUs r, lr_createdAtMs r)) rows' = map (\<lambda>r. (lr_wallClockUs r, lr_createdAtMs r)) rows"
    by (rule update_first_map[OF assms]) (simp add: annotate_def)
  then show "in_timeline_order rows' \<longleftrightarrow> in_timeline_order rows" "length rows' = length rows"
    by (simp add: in_timeline_order_key, metis length_map)
qed

section \<open>Operations in any order\<close>

datatype store_op =
    Op_analog LoggedAnalogSample
  | Op_message LoggedRow
  | Op_annotate string CapturedMessageAnnotations
  | Op_clear LogClearScope
  | Op_retention
  | Op_flush
  | Op_timer

fun store_step :: "'d sqlite \<Rightarrow> store_op \<Rightarrow> 'd log_store \<Rightarrow> 'd log_store" where
  "store_step sq (Op_analog sample) st = snd (insertAnalogSample sq sample st)"
| "store_step sq (Op_message row) st = snd (insertCapturedMessage sq row st)"
| "store_step sq (Op_annotate key a) st = snd (updateCapturedMessageAnnotations sq key a st)"
| "store_step sq (Op_clear scope) st = snd (clear_store sq scope st)"
| "store_step sq Op_retention st = snd (enforceRetention sq st)"
| "store_step sq Op_flush st = snd (flush_store sq st)"
| "store_step sq Op_timer st = flush_timer_expires sq st"

definition run_store :: "'d sqlite \<Rightarrow> store_op list \<Rightarrow> 'd log_store \<Rightarrow> 'd log_store" where
  "run_store sq ops st = foldl (\<lambda>s op. store_step sq op s) st ops"

lemma memory_flush: "st_initialized st \<Longrightarrow> st_memory st = Some rows \<Longrightarrow> flush_store sq st = (Inr (), st)"
  by (simp add: flush_store_def and_then_def ensureInitialized_def)

lemma memory_ok_cases:
  assumes "memory_ok st"
  obtains rows where "st_memory st = Some rows" "st_initialized st" "limits_ok (st_config st)"
    "in_timeline_order (mr_capturedMessages rows)"
    "of_nat (length (mr_capturedMessages rows)) \<le> lc_maxCapturedMessages (st_config st)"
    "of_nat (length (mr_analogSamples rows)) \<le> lc_maxAnalogSamples (st_config st)"
  using assms by (auto simp: memory_ok_def split: option.splits)

lemma store_step_config: "memory_ok st \<Longrightarrow> st_config (store_step sq op st) = st_config st"
  by (erule memory_ok_cases, cases op)
    (auto simp: insertAnalogSample_def insertCapturedMessage_def updateCapturedMessageAnnotations_def clear_store_def
      enforceRetention_def flush_timer_expires_def and_then_def ensureInitialized_def memory_flush Let_def
      trimAnalogSamplesIfNeededMemory_def trimCapturedMessagesIfNeededMemory_def split: option.splits)

lemma store_step_memory_ok:
  assumes "memory_ok st"
  shows "memory_ok (store_step sq op st)"
proof -
  obtain rows where r: "st_memory st = Some rows" "st_initialized st" "limits_ok (st_config st)"
    "in_timeline_order (mr_capturedMessages rows)"
    "of_nat (length (mr_capturedMessages rows)) \<le> lc_maxCapturedMessages (st_config st)"
    "of_nat (length (mr_analogSamples rows)) \<le> lc_maxAnalogSamples (st_config st)"
    using assms by (rule memory_ok_cases)
  have flush: "flush_store sq s = (Inr (), s)" if "st_initialized s" "st_memory s = Some rows" for s
    using that by (rule memory_flush)
  show ?thesis
  proof (cases op)
    case (Op_analog sample)
    then show ?thesis
      using r by (auto simp: insertAnalogSample_def and_then_def ensureInitialized_def Let_def intro!: trim_analog_ok)
  next
    case (Op_message row)
    then show ?thesis
      using r by (auto simp: insertCapturedMessage_def and_then_def ensureInitialized_def Let_def insertion_sorted
          intro!: trim_messages_ok)
  next
    case (Op_annotate key a)
    then show ?thesis
      using r assms by (auto simp: updateCapturedMessageAnnotations_def and_then_def flush memory_ok_def
          annotate_order split: option.splits)
  next
    case (Op_clear scope)
    have "in_timeline_order []"
      by (simp add: in_timeline_order_def)
    then show ?thesis
      using Op_clear r by (auto simp: clear_store_def and_then_def flush memory_ok_def limits_ok_def)
  next
    case Op_retention
    then show ?thesis
      using r assms by (simp add: enforceRetention_def and_then_def ensureInitialized_def trim_nothing)
  next
    case Op_flush
    then show ?thesis
      using r assms by (simp add: flush)
  next
    case Op_timer
    then show ?thesis
      using r assms by (auto simp: flush_timer_expires_def flush memory_ok_def)
  qed
qed

lemma run_store_memory_ok:
  "memory_ok st \<Longrightarrow> memory_ok (run_store sq ops st) \<and> st_config (run_store sq ops st) = st_config st"
  by (induction ops arbitrary: st) (simp_all add: run_store_def store_step_memory_ok store_step_config)

text \<open>C30: the log in memory stays ordered and bounded. When the database does not start, then after any sequence of
  insertions, annotations, clears, retention runs, flushes and timer expiries the captured messages are in
  timeline order and neither list is longer than its configured limit.\<close>

theorem memory_log_ordered_and_bounded:
  "\<exists>rows. st_memory (run_store sq ops (init_store sq False (new_log_store config))) = Some rows \<and>
     in_timeline_order (mr_capturedMessages rows) \<and>
     of_nat (length (mr_capturedMessages rows)) \<le> limit_or_default (pc_maxCapturedMessages config) 1000000 \<and>
     of_nat (length (mr_analogSamples rows)) \<le> limit_or_default (pc_maxAnalogSamples config) 1000000"
proof -
  have limits: "limits_ok (store_config config)"
    by (rule store_config_limits)
  have "memory_ok (init_store sq False (new_log_store config))"
    using limits by (simp add: memory_ok_def init_store_def new_log_store_def in_timeline_order_def limits_ok_def)
  moreover have "st_config (init_store sq False (new_log_store config)) = store_config config"
    by (simp add: init_store_def new_log_store_def)
  ultimately show ?thesis
    using run_store_memory_ok[of "init_store sq False (new_log_store config)" sq ops]
    by (auto elim!: memory_ok_cases simp: store_config_def buildDefaultLoggingConfig_def Let_def)
qed

text \<open>C31: the binary search is the linear insertion. On an ordered log the insertion puts the row behind every row that
  is not later and before every later one, so the log stays ordered and rows of equal time keep the order in
  which they came.\<close>

theorem insertion_is_stable:
  assumes "in_timeline_order rows"
  shows "insertCapturedMessageInTimelineOrder rows row = insert_after_equals rows row \<and>
    in_timeline_order (insertCapturedMessageInTimelineOrder rows row)"
  using assms by (simp add: insertion_reference insert_after_equals_sorted)

section \<open>Flushing\<close>

text \<open>What a database holds: the bound values of its rows, and what a rollback would go back to.\<close>

record table_state =
  tab_saved :: "(sql_value list list \<times> sql_value list list) option"
  tab_analog :: "sql_value list list"
  tab_messages :: "sql_value list list"

definition put_analog :: "sql_value list \<Rightarrow> table_state \<Rightarrow> table_state" where
  "put_analog binds t = t\<lparr>tab_analog := tab_analog t @ [binds]\<rparr>"

definition put_message :: "sql_value list \<Rightarrow> table_state \<Rightarrow> table_state" where
  "put_message binds t = t\<lparr>tab_messages := tab_messages t @ [binds]\<rparr>"

definition begin_work :: "table_state \<Rightarrow> table_state" where
  "begin_work t = t\<lparr>tab_saved := Some (tab_analog t, tab_messages t)\<rparr>"

definition end_work :: "table_state \<Rightarrow> table_state" where
  "end_work t = t\<lparr>tab_saved := None\<rparr>"

definition undo_work :: "table_state \<Rightarrow> table_state" where
  "undo_work t = (case tab_saved t of None \<Rightarrow> t
     | Some (analog, messages) \<Rightarrow> \<lparr>tab_saved = None, tab_analog = analog, tab_messages = messages\<rparr>)"

text \<open>A statement that fails changes nothing, one that succeeds has its effect.\<close>

definition performs :: "('d \<Rightarrow> table_state) \<Rightarrow> (table_state \<Rightarrow> table_state) \<Rightarrow> 'd \<Rightarrow> (string + unit) \<times> 'd \<Rightarrow> bool" where
  "performs \<alpha> f d outcome \<longleftrightarrow> \<alpha> (snd outcome) = (if isl (fst outcome) then \<alpha> d else f (\<alpha> d))"

definition analog_delete :: string where
  "analog_delete = ''DELETE FROM analog_samples WHERE id IN (SELECT id FROM analog_samples ORDER BY timestamp_us ASC, id ASC LIMIT ?)''"

definition message_delete :: string where
  "message_delete = ''DELETE FROM captured_messages WHERE id IN (SELECT id FROM captured_messages ORDER BY start_timestamp_us ASC, id ASC LIMIT ?)''"

text \<open>What SQLite documents of transactions, insertions and counts, and that the limited deletion removes that many rows
  and leaves the others in their order.\<close>

definition sqlite_contract :: "'d sqlite \<Rightarrow> ('d \<Rightarrow> table_state) \<Rightarrow> bool" where
  "sqlite_contract sq \<alpha> \<longleftrightarrow>
     (\<forall>d. performs \<alpha> begin_work d (sq_exec sq ''BEGIN'' [] d)) \<and>
     (\<forall>d. performs \<alpha> end_work d (sq_exec sq ''COMMIT'' [] d)) \<and>
     (\<forall>d. \<alpha> (snd (sq_exec sq ''ROLLBACK'' [] d)) = undo_work (\<alpha> d)) \<and>
     (\<forall>d binds. performs \<alpha> (put_analog binds) d (sq_step sq (insert_sql ''analog_samples'' analog_columns) binds d)) \<and>
     (\<forall>d binds. performs \<alpha> (put_message binds) d (sq_step sq (insert_sql ''captured_messages'' captured_columns) binds d)) \<and>
     (\<forall>d. sq_selectValue sq count_analog_sql d = Inr (Some (V_number (of_nat (length (tab_analog (\<alpha> d))))))) \<and>
     (\<forall>d. sq_selectValue sq count_messages_sql d = Inr (Some (V_number (of_nat (length (tab_messages (\<alpha> d))))))) \<and>
     (\<forall>d n. \<exists>kept. subseq kept (tab_analog (\<alpha> d)) \<and> length kept = length (tab_analog (\<alpha> d)) - n \<and>
        performs \<alpha> (\<lambda>t. t\<lparr>tab_analog := kept\<rparr>) d (sq_exec sq analog_delete [V_number (of_nat n)] d)) \<and>
     (\<forall>d n. \<exists>kept. subseq kept (tab_messages (\<alpha> d)) \<and> length kept = length (tab_messages (\<alpha> d)) - n \<and>
        performs \<alpha> (\<lambda>t. t\<lparr>tab_messages := kept\<rparr>) d (sq_exec sq message_delete [V_number (of_nat n)] d))"

lemma contract_inserts:
  assumes "sqlite_contract sq \<alpha>"
  shows "performs \<alpha> (put_analog binds) d (sq_step sq (insert_sql ''analog_samples'' analog_columns) binds d)"
    "performs \<alpha> (put_message binds) d (sq_step sq (insert_sql ''captured_messages'' captured_columns) binds d)"
  using assms unfolding sqlite_contract_def by blast+

lemma on_db_open: "st_db st = Some d \<Longrightarrow> on_db f st = (fst (f d), st\<lparr>st_db := Some (snd (f d))\<rparr>)"
  by (simp add: on_db_def split_beta)

lemma step_all_puts:
  assumes steps: "\<And>d binds. performs \<alpha> (put binds) d (sq_step sq sql binds d)"
  shows "st_db st = Some d \<Longrightarrow> \<exists>r d' k. step_all sq sql rows st = (r, st\<lparr>st_db := Some d'\<rparr>) \<and>
     \<alpha> d' = fold put (take k rows) (\<alpha> d) \<and> (\<not> isl r \<longrightarrow> k = length rows)"
proof (induction rows arbitrary: st d)
  case Nil
  then show ?case
    by (intro exI[of _ "Inr ()"] exI[of _ d]) (simp add: done_with_def)
next
  case (Cons row rows)
  obtain r d1 where s: "sq_step sq sql row d = (r, d1)"
    by fastforce
  then have e: "on_db (sq_step sq sql row) st = (r, st\<lparr>st_db := Some d1\<rparr>)"
    using Cons.prems by (simp add: on_db_open)
  show ?case
  proof (cases r)
    case (Inl err)
    then have "\<alpha> d1 = \<alpha> d"
      using steps[where binds = row and d = d] s by (simp add: performs_def)
    then show ?thesis
      using Inl e by (intro exI[of _ r] exI[of _ d1] exI[of _ 0]) (simp add: and_then_def)
  next
    case (Inr u)
    have p: "\<alpha> d1 = put row (\<alpha> d)"
      using steps[where binds = row and d = d] s Inr by (simp add: performs_def)
    obtain r2 d2 k where n: "step_all sq sql rows (st\<lparr>st_db := Some d1\<rparr>) = (r2, st\<lparr>st_db := Some d2\<rparr>)"
      "\<alpha> d2 = fold put (take k rows) (\<alpha> d1)" "\<not> isl r2 \<longrightarrow> k = length rows"
      using Cons.IH[where st = "st\<lparr>st_db := Some d1\<rparr>" and d = d1] by auto
    then show ?thesis
      using Inr e p by (intro exI[of _ r2] exI[of _ d2] exI[of _ "Suc k"]) (simp add: and_then_def)
  qed
qed

lemma fold_put_analog: "fold put_analog rows t = t\<lparr>tab_analog := tab_analog t @ rows\<rparr>"
  by (induction rows arbitrary: t) (simp_all add: put_analog_def)

lemma fold_put_message: "fold put_message rows t = t\<lparr>tab_messages := tab_messages t @ rows\<rparr>"
  by (induction rows arbitrary: t) (simp_all add: put_message_def)

definition analog_rows :: "(LoggedAnalogSample \<times> nat) list \<Rightarrow> sql_value list list" where
  "analog_rows batch = map (analog_row_binds \<circ> fst) batch"

definition message_rows :: "(LoggedRow \<times> nat) list \<Rightarrow> sql_value list list" where
  "message_rows batch = map (captured_row_binds \<circ> fst) batch"

text \<open>A commit either appends both batches, or a rollback leads back to the tables as they were.\<close>

lemma commit_rows_outcome:
  assumes c: "sqlite_contract sq \<alpha>" and d: "st_db st = Some d" and idle: "tab_saved (\<alpha> d) = None"
  obtains r d' where "commit_rows sq analogBatch messageBatch st = (r, st\<lparr>st_db := Some d'\<rparr>)"
    "isl r \<Longrightarrow> undo_work (\<alpha> d') = \<alpha> d"
    "\<not> isl r \<Longrightarrow> \<alpha> d' = \<lparr>tab_saved = None, tab_analog = tab_analog (\<alpha> d) @ analog_rows analogBatch,
       tab_messages = tab_messages (\<alpha> d) @ message_rows messageBatch\<rparr>"
proof -
  have undo: "undo_work t = \<alpha> d" if "tab_saved t = Some (tab_analog (\<alpha> d), tab_messages (\<alpha> d))" for t
    using that idle by (simp add: undo_work_def)
  have same: "undo_work (\<alpha> d) = \<alpha> d"
    using idle by (simp add: undo_work_def)
  obtain r1 d1 where b: "sq_exec sq ''BEGIN'' [] d = (r1, d1)"
    by fastforce
  have s1: "exec_sql sq ''BEGIN'' [] st = (r1, st\<lparr>st_db := Some d1\<rparr>)"
    using d b by (simp add: exec_sql_def on_db_open)
  have a1: "\<alpha> d1 = (if isl r1 then \<alpha> d else begin_work (\<alpha> d))"
    using c b unfolding sqlite_contract_def performs_def by (metis fst_conv snd_conv)
  show thesis
  proof (cases r1)
    case (Inl e)
    then show thesis
      using s1 a1 same by (intro that[of r1 d1]) (simp_all add: commit_rows_def and_then_def)
  next
    case (Inr u)
    obtain r2 d2 k where s2: "step_all sq (insert_sql ''analog_samples'' analog_columns) (analog_rows analogBatch)
        (st\<lparr>st_db := Some d1\<rparr>) = (r2, st\<lparr>st_db := Some d2\<rparr>)"
      "\<alpha> d2 = fold put_analog (take k (analog_rows analogBatch)) (\<alpha> d1)" "\<not> isl r2 \<longrightarrow> k = length (analog_rows analogBatch)"
      using step_all_puts[OF contract_inserts(1)[OF c], where st = "st\<lparr>st_db := Some d1\<rparr>" and d = d1 and rows = "analog_rows analogBatch"]
      by force
    have a2: "\<alpha> d2 = (begin_work (\<alpha> d))\<lparr>tab_analog := tab_analog (\<alpha> d) @ take k (analog_rows analogBatch)\<rparr>"
      using s2(2) a1 Inr by (simp add: fold_put_analog begin_work_def)
    show thesis
    proof (cases r2)
      case Inl2: (Inl e)
      then show thesis
        using s1 s2(1) a2 Inr undo by (intro that[of r2 d2])
          (simp_all add: commit_rows_def and_then_def analog_rows_def begin_work_def)
    next
      case Inr2: (Inr u2)
      obtain r3 d3 j where s3: "step_all sq (insert_sql ''captured_messages'' captured_columns) (message_rows messageBatch)
          (st\<lparr>st_db := Some d2\<rparr>) = (r3, st\<lparr>st_db := Some d3\<rparr>)"
        "\<alpha> d3 = fold put_message (take j (message_rows messageBatch)) (\<alpha> d2)" "\<not> isl r3 \<longrightarrow> j = length (message_rows messageBatch)"
      using step_all_puts[OF contract_inserts(2)[OF c], where st = "st\<lparr>st_db := Some d2\<rparr>" and d = d2 and rows = "message_rows messageBatch"]
      by force
      have a3: "\<alpha> d3 = (begin_work (\<alpha> d))\<lparr>tab_analog := tab_analog (\<alpha> d) @ analog_rows analogBatch,
          tab_messages := tab_messages (\<alpha> d) @ take j (message_rows messageBatch)\<rparr>"
        using s3(2) a2 s2(3) Inr2 by (simp add: fold_put_message begin_work_def)
      show thesis
      proof (cases r3)
        case Inl3: (Inl e)
        then show thesis
          using s1 s2(1) s3(1) a3 Inr Inr2 undo by (intro that[of r3 d3])
            (simp_all add: commit_rows_def and_then_def analog_rows_def message_rows_def begin_work_def)
      next
        case Inr3: (Inr u3)
        obtain r4 d4 where b4: "sq_exec sq ''COMMIT'' [] d3 = (r4, d4)"
          by fastforce
        have s4: "exec_sql sq ''COMMIT'' [] (st\<lparr>st_db := Some d3\<rparr>) = (r4, st\<lparr>st_db := Some d4\<rparr>)"
          using b4 by (simp add: exec_sql_def on_db_open)
        have a4: "\<alpha> d4 = (if isl r4 then \<alpha> d3 else end_work (\<alpha> d3))"
          using c b4 unfolding sqlite_contract_def performs_def by (metis fst_conv snd_conv)
        have a3': "\<alpha> d3 = (begin_work (\<alpha> d))\<lparr>tab_analog := tab_analog (\<alpha> d) @ analog_rows analogBatch,
            tab_messages := tab_messages (\<alpha> d) @ message_rows messageBatch\<rparr>"
          using a3 s3(3) Inr3 by simp
        have "\<alpha> d4 = \<lparr>tab_saved = None, tab_analog = tab_analog (\<alpha> d) @ analog_rows analogBatch,
            tab_messages = tab_messages (\<alpha> d) @ message_rows messageBatch\<rparr>" if "\<not> isl r4"
          using a4 a3' that by (cases "\<alpha> d") (simp add: begin_work_def end_work_def)
        moreover have "undo_work (\<alpha> d4) = \<alpha> d" if "isl r4"
          using a4 a3' that by (simp add: undo begin_work_def)
        ultimately show thesis
          using s1 s2(1) s3(1) s4 Inr Inr2 Inr3 by (intro that[of r4 d4])
            (simp_all add: commit_rows_def and_then_def analog_rows_def message_rows_def)
      qed
    qed
  qed
qed

section \<open>Retention\<close>

lemma trim_size_whole:
  assumes "limits_ok config" "of_nat n > limit" "limit = lc_maxAnalogSamples config \<or> limit = lc_maxCapturedMessages config"
  obtains k where "trim_size (of_nat n) limit (lc_retentionTrimBatchSize config) = of_nat k" "k \<le> n" "of_nat (n - k) \<le> limit"
proof -
  have limit: "limit \<ge> 1" "is_integer limit" "is_integer (lc_retentionTrimBatchSize config)"
    using assms(1,3) by (auto simp: limits_ok_def)
  then obtain l b where lb: "limit = of_int l" "lc_retentionTrimBatchSize config = of_int b"
    by (metis is_integer_def)
  define k where "k = nat (min (int n) (max (int n - l) b))"
  have l: "0 \<le> l" "l < int n"
    using limit(1) assms(2) by (simp_all add: lb)
  then have k: "int k = min (int n) (max (int n - l) b)"
    by (simp add: k_def)
  have "trim_size (of_nat n) limit (of_int b) = of_int (int k)"
    unfolding k by (simp add: trim_size_def lb of_int_min of_int_max)
  moreover have "k \<le> n" "int (n - k) \<le> l"
    using k l by linarith+
  moreover have "of_nat (n - k) \<le> limit"
    using \<open>int (n - k) \<le> l\<close> unfolding lb by (metis of_int_le_iff of_int_of_nat_eq)
  ultimately show thesis
    using that by (simp add: lb)
qed

lemma contract_counts:
  assumes "sqlite_contract sq \<alpha>" "st_db st = Some d"
  shows "selectCount sq count_analog_sql st = (Inr (int (length (tab_analog (\<alpha> d)))), st)"
    "selectCount sq count_messages_sql st = (Inr (int (length (tab_messages (\<alpha> d)))), st)"
  using assms by (simp_all add: selectCount_def on_db_def and_then_def toNumberValue_def null_value_def sqlite_contract_def)

lemma contract_deletes:
  assumes "sqlite_contract sq \<alpha>"
  shows "\<exists>kept. subseq kept (tab_analog (\<alpha> d)) \<and> length kept = length (tab_analog (\<alpha> d)) - n \<and>
      performs \<alpha> (\<lambda>t. t\<lparr>tab_analog := kept\<rparr>) d (sq_exec sq analog_delete [V_number (of_nat n)] d)"
    "\<exists>kept. subseq kept (tab_messages (\<alpha> d)) \<and> length kept = length (tab_messages (\<alpha> d)) - n \<and>
      performs \<alpha> (\<lambda>t. t\<lparr>tab_messages := kept\<rparr>) d (sq_exec sq message_delete [V_number (of_nat n)] d)"
  using assms unfolding sqlite_contract_def by blast+

text \<open>The rows that are kept of all rows: all of them as long as they are within the limit.\<close>

definition kept_of :: "rat \<Rightarrow> 'a list \<Rightarrow> 'a list \<Rightarrow> bool" where
  "kept_of limit all kept \<longleftrightarrow> subseq kept all \<and> (of_nat (length all) \<le> limit \<longrightarrow> kept = all)"

lemma kept_of_refl [simp]: "kept_of limit all all"
  by (simp add: kept_of_def)

text \<open>What a trim of one table returns: a count that says how many rows are gone, or an error with all rows kept.\<close>

definition trimmed_to :: "rat \<Rightarrow> 'a list \<Rightarrow> string + int \<Rightarrow> 'a list \<Rightarrow> bool" where
  "trimmed_to limit all res kept \<longleftrightarrow> kept_of limit all kept \<and>
     (\<forall>n. res = Inr n \<longrightarrow> int (length kept) = int (length all) - n \<and> of_nat (length kept) \<le> limit)"

lemma trim_analog_outcome:
  assumes "sqlite_contract sq \<alpha>" "st_db st = Some d" "limits_ok (st_config st)"
  obtains r d' t where "trimAnalogSamplesIfNeededSql sq st = (r, st\<lparr>st_db := Some d', st_trimmedAnalog := t\<rparr>)"
    "tab_saved (\<alpha> d') = tab_saved (\<alpha> d)" "tab_messages (\<alpha> d') = tab_messages (\<alpha> d)"
    "trimmed_to (lc_maxAnalogSamples (st_config st)) (tab_analog (\<alpha> d)) r (tab_analog (\<alpha> d'))"
proof (cases "of_nat (length (tab_analog (\<alpha> d))) \<le> lc_maxAnalogSamples (st_config st)")
  case True
  then show thesis
    using assms by (intro that[where r = "Inr 0" and d' = d and t = "st_trimmedAnalog st"])
      (simp_all add: trimAnalogSamplesIfNeededSql_def and_then_def contract_counts trimmed_to_def)
next
  case False
  let ?n = "length (tab_analog (\<alpha> d))"
  have gt: "lc_maxAnalogSamples (st_config st) < of_nat ?n"
    using False by simp
  obtain k where k: "trim_size (of_nat ?n) (lc_maxAnalogSamples (st_config st)) (lc_retentionTrimBatchSize (st_config st)) = of_nat k"
    "k \<le> ?n" "of_nat (?n - k) \<le> lc_maxAnalogSamples (st_config st)"
    using trim_size_whole[OF assms(3) gt] by blast
  obtain kept where kept: "subseq kept (tab_analog (\<alpha> d))" "length kept = ?n - k"
    "performs \<alpha> (\<lambda>t. t\<lparr>tab_analog := kept\<rparr>) d (sq_exec sq analog_delete [V_number (of_nat k)] d)"
    using contract_deletes(1)[OF assms(1)] by blast
  obtain r d' where e: "sq_exec sq analog_delete [V_number (of_nat k)] d = (r, d')"
    by fastforce
  then have x: "exec_sql sq analog_delete [V_number (of_nat k)] st = (r, st\<lparr>st_db := Some d'\<rparr>)"
    using assms(2) by (simp add: exec_sql_def on_db_open)
  show thesis
    using gt kept(1) kept(2) kept(3) k(2,3) e x assms(1,2) k(1)
    by (cases r; intro that[where r = "map_sum id (\<lambda>_. int k) r" and d' = d' and
        t = "if isl r then st_trimmedAnalog st else st_trimmedAnalog st + of_nat k"])
      (auto simp: trimAnalogSamplesIfNeededSql_def and_then_def contract_counts trimmed_to_def kept_of_def performs_def Let_def
        analog_delete_def[symmetric] split: sum.splits)
qed

lemma trim_messages_outcome:
  assumes "sqlite_contract sq \<alpha>" "st_db st = Some d" "limits_ok (st_config st)"
  obtains r d' t where "trimCapturedMessagesIfNeededSql sq st = (r, st\<lparr>st_db := Some d', st_trimmedMessages := t\<rparr>)"
    "tab_saved (\<alpha> d') = tab_saved (\<alpha> d)" "tab_analog (\<alpha> d') = tab_analog (\<alpha> d)"
    "trimmed_to (lc_maxCapturedMessages (st_config st)) (tab_messages (\<alpha> d)) r (tab_messages (\<alpha> d'))"
proof (cases "of_nat (length (tab_messages (\<alpha> d))) \<le> lc_maxCapturedMessages (st_config st)")
  case True
  then show thesis
    using assms by (intro that[where r = "Inr 0" and d' = d and t = "st_trimmedMessages st"])
      (simp_all add: trimCapturedMessagesIfNeededSql_def and_then_def contract_counts trimmed_to_def)
next
  case False
  let ?n = "length (tab_messages (\<alpha> d))"
  have gt: "lc_maxCapturedMessages (st_config st) < of_nat ?n"
    using False by simp
  obtain k where k: "trim_size (of_nat ?n) (lc_maxCapturedMessages (st_config st)) (lc_retentionTrimBatchSize (st_config st)) = of_nat k"
    "k \<le> ?n" "of_nat (?n - k) \<le> lc_maxCapturedMessages (st_config st)"
    using trim_size_whole[OF assms(3) gt] by blast
  obtain kept where kept: "subseq kept (tab_messages (\<alpha> d))" "length kept = ?n - k"
    "performs \<alpha> (\<lambda>t. t\<lparr>tab_messages := kept\<rparr>) d (sq_exec sq message_delete [V_number (of_nat k)] d)"
    using contract_deletes(2)[OF assms(1)] by blast
  obtain r d' where e: "sq_exec sq message_delete [V_number (of_nat k)] d = (r, d')"
    by fastforce
  then have x: "exec_sql sq message_delete [V_number (of_nat k)] st = (r, st\<lparr>st_db := Some d'\<rparr>)"
    using assms(2) by (simp add: exec_sql_def on_db_open)
  show thesis
    using gt kept(1) kept(2) kept(3) k(2,3) e x assms(1,2) k(1)
    by (cases r; intro that[where r = "map_sum id (\<lambda>_. int k) r" and d' = d' and
        t = "if isl r then st_trimmedMessages st else st_trimmedMessages st + of_nat k"])
      (auto simp: trimCapturedMessagesIfNeededSql_def and_then_def contract_counts trimmed_to_def kept_of_def performs_def Let_def
        message_delete_def[symmetric] split: sum.splits)
qed

section \<open>No row is lost\<close>

definition counts_match :: "('d \<Rightarrow> table_state) \<Rightarrow> 'd log_store \<Rightarrow> bool" where
  "counts_match \<alpha> st \<longleftrightarrow> (case st_db st of None \<Rightarrow> False
     | Some d \<Rightarrow> tab_saved (\<alpha> d) = None \<and> st_committedAnalog st = int (length (tab_analog (\<alpha> d))) \<and>
         st_committedMessages st = int (length (tab_messages (\<alpha> d))))"

lemma retention_outcome:
  assumes "sqlite_contract sq \<alpha>" "st_db st = Some d" "limits_ok (st_config st)" "tab_saved (\<alpha> d) = None"
  obtains r d' s t where
    "enforceRetentionCore sq st = (r, st\<lparr>st_db := Some d', st_trimmedAnalog := s, st_trimmedMessages := t\<rparr>)"
    "tab_saved (\<alpha> d') = None"
    "kept_of (lc_maxAnalogSamples (st_config st)) (tab_analog (\<alpha> d)) (tab_analog (\<alpha> d'))"
    "kept_of (lc_maxCapturedMessages (st_config st)) (tab_messages (\<alpha> d)) (tab_messages (\<alpha> d'))"
    "\<And>n m. r = Inr (n, m) \<Longrightarrow>
       trimmed_to (lc_maxAnalogSamples (st_config st)) (tab_analog (\<alpha> d)) (Inr n) (tab_analog (\<alpha> d')) \<and>
       trimmed_to (lc_maxCapturedMessages (st_config st)) (tab_messages (\<alpha> d)) (Inr m) (tab_messages (\<alpha> d'))"
proof -
  obtain r1 s d1 where one: "trimAnalogSamplesIfNeededSql sq st = (r1, st\<lparr>st_db := Some d1, st_trimmedAnalog := s\<rparr>)"
    "tab_saved (\<alpha> d1) = tab_saved (\<alpha> d)" "tab_messages (\<alpha> d1) = tab_messages (\<alpha> d)"
    "trimmed_to (lc_maxAnalogSamples (st_config st)) (tab_analog (\<alpha> d)) r1 (tab_analog (\<alpha> d1))"
    using trim_analog_outcome[OF assms(1-3)] by metis
  show thesis
  proof (cases r1)
    case (Inl e)
    then show thesis
      using one assms(4) by (intro that[where r = "Inl e" and s = s and t = "st_trimmedMessages st" and d' = d1])
        (auto simp: enforceRetentionCore_def and_then_def trimmed_to_def)
  next
    case (Inr n)
    let ?st = "st\<lparr>st_db := Some d1, st_trimmedAnalog := s\<rparr>"
    obtain r2 t d2 where two: "trimCapturedMessagesIfNeededSql sq ?st = (r2, ?st\<lparr>st_db := Some d2, st_trimmedMessages := t\<rparr>)"
      "tab_saved (\<alpha> d2) = tab_saved (\<alpha> d1)" "tab_analog (\<alpha> d2) = tab_analog (\<alpha> d1)"
      "trimmed_to (lc_maxCapturedMessages (st_config st)) (tab_messages (\<alpha> d1)) r2 (tab_messages (\<alpha> d2))"
      using trim_messages_outcome[OF assms(1), where st = ?st and d = d1] assms(3) by (simp, metis)
    show thesis
      using one two assms(4) Inr
      by (intro that[where r = "map_sum id (\<lambda>m. (n, m)) r2" and s = s and t = t and d' = d2]; cases r2)
        (auto simp: enforceRetentionCore_def and_then_def trimmed_to_def done_with_def)
  qed
qed

text \<open>A flush either leaves tables and waiting rows as they were, or moves all waiting rows into the tables.\<close>

definition flush_keeps_rows :: "('d \<Rightarrow> table_state) \<Rightarrow> 'd log_store \<Rightarrow> 'd log_store \<Rightarrow> bool" where
  "flush_keeps_rows \<alpha> st st' \<longleftrightarrow>
     (case (st_db st, st_db st') of
        (Some d, Some d') \<Rightarrow> tab_saved (\<alpha> d') = None \<and>
          (\<alpha> d' = \<alpha> d \<and> st_pendingAnalog st' = st_pendingAnalog st \<and> st_pendingMessages st' = st_pendingMessages st \<or>
           kept_of (lc_maxAnalogSamples (st_config st)) (tab_analog (\<alpha> d) @ analog_rows (st_pendingAnalog st)) (tab_analog (\<alpha> d')) \<and>
           kept_of (lc_maxCapturedMessages (st_config st)) (tab_messages (\<alpha> d) @ message_rows (st_pendingMessages st))
             (tab_messages (\<alpha> d')) \<and>
           st_pendingAnalog st' = [] \<and> st_pendingMessages st' = [])
      | _ \<Rightarrow> False)"

lemma flush_store_outcome:
  assumes c: "sqlite_contract sq \<alpha>" and open_db: "st_initialized st" "st_memory st = None" "st_db st = Some d"
    and ok: "limits_ok (st_config st)" "tab_saved (\<alpha> d) = None"
  shows "flush_keeps_rows \<alpha> st (snd (flush_store sq st)) \<and>
    (counts_match \<alpha> st \<and> \<not> isl (fst (flush_store sq st)) \<longrightarrow>
       counts_match \<alpha> (snd (flush_store sq st)) \<and> st_pendingMessages (snd (flush_store sq st)) = [])"
proof (cases "st_pendingAnalog st = [] \<and> st_pendingMessages st = []")
  case True
  then show ?thesis
    using open_db ok(2) by (simp add: flush_store_def and_then_def ensureInitialized_def flush_keeps_rows_def)
next
  case False
  let ?a = "st_pendingAnalog st" and ?m = "st_pendingMessages st"
  let ?st = "st\<lparr>st_flushTimer := False, st_pendingAnalog := [], st_pendingMessages := []\<rparr>"
  have flush: "flush_store sq st = flushPendingBatches sq ?a ?m ?st"
    using open_db False by (auto simp: flush_store_def and_then_def ensureInitialized_def)
  obtain r d1 where commit: "commit_rows sq ?a ?m ?st = (r, ?st\<lparr>st_db := Some d1\<rparr>)"
    "isl r \<Longrightarrow> undo_work (\<alpha> d1) = \<alpha> d"
    "\<not> isl r \<Longrightarrow> \<alpha> d1 = \<lparr>tab_saved = None, tab_analog = tab_analog (\<alpha> d) @ analog_rows ?a,
       tab_messages = tab_messages (\<alpha> d) @ message_rows ?m\<rparr>"
    using commit_rows_outcome[OF c, where st = ?st and d = d and analogBatch = ?a and messageBatch = ?m] open_db(3) ok(2)
    by auto
  show ?thesis
  proof (cases r)
    case (Inl e)
    obtain x d2 where rb: "sq_exec sq ''ROLLBACK'' [] d1 = (x, d2)"
      by fastforce
    then have "exec_sql sq ''ROLLBACK'' [] (?st\<lparr>st_db := Some d1\<rparr>) = (x, ?st\<lparr>st_db := Some d2\<rparr>)"
      by (simp add: exec_sql_def on_db_open)
    moreover have "\<alpha> d2 = \<alpha> d"
      using c rb commit(2) Inl by (simp add: sqlite_contract_def) (metis snd_conv)
    ultimately show ?thesis
      using False open_db(3) ok(2) commit(1) Inl
      by (auto simp: flush flushPendingBatches_def flush_keeps_rows_def Let_def)
  next
    case (Inr u)
    let ?st2 = "?st\<lparr>st_db := Some d1, st_committedAnalog := st_committedAnalog st + int (length ?a),
                   st_committedMessages := st_committedMessages st + int (length ?m)\<rparr>"
    have d1: "\<alpha> d1 = \<lparr>tab_saved = None, tab_analog = tab_analog (\<alpha> d) @ analog_rows ?a,
       tab_messages = tab_messages (\<alpha> d) @ message_rows ?m\<rparr>"
      using commit(3) Inr by simp
    obtain q d2 s t where ret: "enforceRetentionCore sq ?st2 = (q, ?st2\<lparr>st_db := Some d2, st_trimmedAnalog := s, st_trimmedMessages := t\<rparr>)"
      "tab_saved (\<alpha> d2) = None"
      "kept_of (lc_maxAnalogSamples (st_config st)) (tab_analog (\<alpha> d1)) (tab_analog (\<alpha> d2))"
      "kept_of (lc_maxCapturedMessages (st_config st)) (tab_messages (\<alpha> d1)) (tab_messages (\<alpha> d2))"
      "\<And>n m. q = Inr (n, m) \<Longrightarrow>
         trimmed_to (lc_maxAnalogSamples (st_config st)) (tab_analog (\<alpha> d1)) (Inr n) (tab_analog (\<alpha> d2)) \<and>
         trimmed_to (lc_maxCapturedMessages (st_config st)) (tab_messages (\<alpha> d1)) (Inr m) (tab_messages (\<alpha> d2))"
      using retention_outcome[OF c, where st = ?st2 and d = d1] ok(1) d1 by (simp, metis)
    have result: "flush_store sq st = and_then (enforceRetentionCore sq) (\<lambda>trimmed st3.
            (Inr (), (count_trimmed trimmed st3)\<lparr>st_flushCount := st_flushCount st3 + 1,
               st_lastAnalogRows := length ?a, st_lastMessageRows := length ?m\<rparr>)) ?st2"
      unfolding flush flushPendingBatches_def commit(1) Inr Let_def using False open_db(3) by auto
    show ?thesis
    proof (cases q)
      case (Inl e)
      then show ?thesis
        using ret d1 open_db(3) by (simp add: result and_then_def flush_keeps_rows_def)
    next
      case Inr2: (Inr nm)
      obtain n m where nm: "nm = (n, m)"
        by fastforce
      have lens: "int (length (tab_analog (\<alpha> d2))) = int (length (tab_analog (\<alpha> d))) + int (length ?a) - n"
        "int (length (tab_messages (\<alpha> d2))) = int (length (tab_messages (\<alpha> d))) + int (length ?m) - m"
        using ret(5)[of n m] d1 Inr2 nm by (simp_all add: trimmed_to_def analog_rows_def message_rows_def)
      let ?flushed = "(count_trimmed (n, m) (?st2\<lparr>st_db := Some d2, st_trimmedAnalog := s, st_trimmedMessages := t\<rparr>))
         \<lparr>st_flushCount := st_flushCount st + 1, st_lastAnalogRows := length ?a, st_lastMessageRows := length ?m\<rparr>"
      have final: "flush_store sq st = (Inr (), ?flushed)"
        unfolding result and_then_def ret(1) Inr2 nm by simp
      have "counts_match \<alpha> ?flushed" if "counts_match \<alpha> st"
        using that lens ret(2) open_db(3) by (simp add: counts_match_def count_trimmed_def)
      moreover have "flush_keeps_rows \<alpha> st ?flushed" "st_pendingMessages ?flushed = []"
        using ret(2-4) d1 open_db(3) by (simp_all add: flush_keeps_rows_def count_trimmed_def)
      ultimately show ?thesis
        unfolding final by simp
    qed
  qed
qed

text \<open>C32: a flush loses no row, and duplicates none. With the database open and the contract of its engine, a flush that
  fails before its commit leaves tables and waiting rows exactly as they were; after the commit every waiting
  row is in its table, behind the rows that were there and in the order of arrival, and nothing is waiting.
  Retention alone removes rows, and only from a table above its limit. If the counts of committed rows were
  right before a flush that returns, they are right after it.\<close>

theorem flush_loses_no_row:
  assumes "sqlite_contract sq \<alpha>" "st_initialized st" "st_memory st = None" "st_db st = Some d"
    and "limits_ok (st_config st)" "tab_saved (\<alpha> d) = None"
  shows "flush_keeps_rows \<alpha> st (snd (flush_store sq st)) \<and>
    (counts_match \<alpha> st \<and> \<not> isl (fst (flush_store sq st)) \<longrightarrow> counts_match \<alpha> (snd (flush_store sq st)))"
  using flush_store_outcome[OF assms] by blast

text \<open>An engine that keeps its tables in the state itself.\<close>

definition list_exec :: "string \<Rightarrow> sql_value list \<Rightarrow> table_state \<Rightarrow> (string + unit) \<times> table_state" where
  "list_exec sql binds t =
     (if sql = ''BEGIN'' then (Inr (), begin_work t)
      else if sql = ''COMMIT'' then (Inr (), end_work t)
      else if sql = ''ROLLBACK'' then (Inr (), undo_work t)
      else case binds of
        [V_number n] \<Rightarrow>
          if sql = analog_delete then (Inr (), t\<lparr>tab_analog := drop (nat \<lfloor>n\<rfloor>) (tab_analog t)\<rparr>)
          else if sql = message_delete then (Inr (), t\<lparr>tab_messages := drop (nat \<lfloor>n\<rfloor>) (tab_messages t)\<rparr>)
          else (Inr (), t)
      | _ \<Rightarrow> (Inr (), t))"

definition list_step :: "string \<Rightarrow> sql_value list \<Rightarrow> table_state \<Rightarrow> (string + unit) \<times> table_state" where
  "list_step sql binds t =
     (if sql = insert_sql ''analog_samples'' analog_columns then (Inr (), put_analog binds t)
      else if sql = insert_sql ''captured_messages'' captured_columns then (Inr (), put_message binds t)
      else (Inr (), t))"

definition list_sqlite :: "table_state sqlite" where
  "list_sqlite =
     \<lparr>sq_memory = Inr \<lparr>tab_saved = None, tab_analog = [], tab_messages = []\<rparr>, sq_opfs = None, sq_vfs = (\<lambda>t. None),
      sq_exec = list_exec, sq_step = list_step, sq_prepare = (\<lambda>sql t. Inr ()),
      sq_selectObjects = (\<lambda>sql binds t. Inr []),
      sq_selectValue = (\<lambda>sql t. Inr (Some (V_number
        (of_nat (length (if sql = count_analog_sql then tab_analog t else tab_messages t))))))\<rparr>"

lemma list_sqlite_contract: "sqlite_contract list_sqlite id"
proof -
  have distinct: "insert_sql ''analog_samples'' analog_columns \<noteq> insert_sql ''captured_messages'' captured_columns"
    by (simp add: insert_sql_def)
  show ?thesis
    unfolding sqlite_contract_def performs_def list_sqlite_def
    using distinct
    by (auto simp: list_exec_def list_step_def analog_delete_def message_delete_def count_analog_sql_def
        count_messages_sql_def intro!: exI[of _ "drop n xs" for n xs])
qed

definition waiting_store :: "table_state log_store" where
  "waiting_store = (new_log_store \<lparr>pc_enabled = None, pc_autoStartOnConnect = None,
       pc_messagePollFallbackIntervalMs = None, pc_clockSyncEnabled = None, pc_clockSyncResyncIntervalMs = None,
       pc_maxAnalogSamples = None, pc_maxCapturedMessages = Some 1, pc_retentionTrimBatchSize = Some 1,
       pc_storageBackend = None\<rparr>)
     \<lparr>st_initialized := True, st_db := Some \<lparr>tab_saved = None, tab_analog = [], tab_messages = []\<rparr>,
      st_pendingMessages := [(sample_mark, 1), (sample_mark, 2)]\<rparr>"

lemma flush_loses_no_row_witness:
  "flush_keeps_rows id waiting_store (snd (flush_store list_sqlite waiting_store)) \<and>
   st_pendingMessages waiting_store \<noteq> []"
  using flush_loses_no_row[OF list_sqlite_contract, where st = waiting_store and d = "\<lparr>tab_saved = None, tab_analog = [], tab_messages = []\<rparr>"]
    store_config_limits
  by (simp add: waiting_store_def new_log_store_def)

lemma insertion_is_stable_witness:
  "insertCapturedMessageInTimelineOrder [sample_mark, sample_mark] sample_mark =
     insert_after_equals [sample_mark, sample_mark] sample_mark"
  using insertion_is_stable[of "[sample_mark, sample_mark]" sample_mark]
  by (simp add: in_timeline_order_def timeline_le_iff sample_mark_def)

section \<open>Pages\<close>

text \<open>The records the database selects for a query without a page, and what SQLite documents of LIMIT and OFFSET:
  a page of a selection is that part of its records.\<close>

definition serves_pages :: "'d sqlite \<Rightarrow> 'd \<Rightarrow> CapturedMessageQuery \<Rightarrow> sql_record list \<Rightarrow> bool" where
  "serves_pages sq d query records \<longleftrightarrow>
     (\<forall>offset limit. limit \<noteq> Some 0 \<longrightarrow>
        sq_selectObjects sq (captured_sql (with_page offset limit query) (timeline_order query))
          (captured_binds (with_page offset limit query)) d = Inr (take_limit limit (drop offset records)))"

lemma page_of_page [simp]:
  "query_offset (with_page offset limit query) = offset"
  "limit \<noteq> Some 0 \<Longrightarrow> query_limit (with_page offset limit query) = limit"
  "query_offset (without_page query) = 0" "query_limit (without_page query) = None"
  by (auto simp: query_offset_def query_limit_def with_page_def without_page_def positive_whole_def whole_number_def
      split: option.splits)

lemma page_order [simp]:
  "timeline_order (with_page offset limit query) = timeline_order query"
  "timeline_order (without_page query) = timeline_order query"
  by (simp_all add: timeline_order_def with_page_def without_page_def)

lemma page_clauses [simp]:
  "captured_clauses (with_page offset limit query) = captured_clauses query"
  "captured_clauses (without_page query) = captured_clauses query"
  by (simp_all add: captured_clauses_def with_page_def without_page_def)

lemma same_page:
  assumes "query_limit query \<noteq> Some 0"
  shows "captured_sql query orderBy = captured_sql (with_page (query_offset query) (query_limit query) query) orderBy"
    "captured_binds query = captured_binds (with_page (query_offset query) (query_limit query) query)"
  using assms by (simp_all add: captured_sql_def captured_binds_def captured_paging_def)

lemma no_page:
  "captured_sql (without_page query) orderBy = captured_sql (with_page 0 None query) orderBy"
  "captured_binds (without_page query) = captured_binds (with_page 0 None query)"
  by (simp_all add: captured_sql_def captured_binds_def captured_paging_def)

lemma read_records_slice:
  assumes "read_records reader records = Inr rows"
  shows "read_records reader (take_limit limit (drop offset records)) = Inr (take_limit limit (drop offset rows))"
proof -
  have each: "length rows = length records \<and> (\<forall>i < length records. reader (records ! i) = Inr (rows ! i))"
    using assms
  proof (induction records arbitrary: rows)
    case (Cons entry entries)
    then show ?case
      by (auto simp: nth_Cons' less_Suc_eq_0_disj res_bind_Inr_iff)
  qed simp
  have slice: "read_records reader xs = Inr ys" if "length ys = length xs" "\<forall>i < length xs. reader (xs ! i) = Inr (ys ! i)" for xs ys
    using that
  proof (induction xs arbitrary: ys)
    case (Cons x xs)
    then obtain y ys' where ys: "ys = y # ys'"
      by (cases ys) auto
    have "reader x = Inr y" "\<forall>i < length xs. reader (xs ! i) = Inr (ys' ! i)"
      using Cons.prems(2) ys by force+
    then show ?case
      using Cons.IH[of ys'] Cons.prems(1) ys by simp
  qed simp
  show ?thesis
    using each by (intro slice) (auto simp: take_limit_def split: option.splits)
qed

lemma committed_page:
  assumes "serves_pages sq d query records" "read_records read_captured_record records = Inr rows" "st_db st = Some d"
    "limit \<noteq> Some 0"
  shows "queryCommittedCapturedMessages sq (with_page offset limit query) st =
    (Inr (take_limit limit (drop offset rows)), st)"
  using assms read_records_slice[OF assms(2)]
  by (simp add: queryCommittedCapturedMessages_def queryCommittedCapturedMessagesWithOrder_def serves_pages_def and_then_def
      select_objects_def on_db_open with_store_def)

lemma committed_self:
  assumes "query_limit query \<noteq> Some 0"
  shows "queryCommittedCapturedMessages sq query = queryCommittedCapturedMessages sq (with_page (query_offset query) (query_limit query) query)"
  unfolding queryCommittedCapturedMessages_def queryCommittedCapturedMessagesWithOrder_def
  using same_page[OF assms] by simp

lemma committed_all:
  "queryCommittedCapturedMessages sq (without_page query) = queryCommittedCapturedMessages sq (with_page 0 None query)"
  unfolding queryCommittedCapturedMessages_def queryCommittedCapturedMessagesWithOrder_def
  using no_page by simp

lemma take_limit_append:
  "take_limit limit (xs @ ys) = take_limit limit xs @ take_limit (map_option (\<lambda>n. n - length xs) limit) ys"
  by (simp add: take_limit_def split: option.splits)


text \<open>An engine that cuts pages out of a list of records.\<close>

definition paged_select :: "string \<Rightarrow> nat \<Rightarrow> sql_record list \<Rightarrow> string \<Rightarrow> sql_value list \<Rightarrow> sql_record list" where
  "paged_select base n records sql binds =
     (let suffix = drop (length base) sql in
      case drop n binds of
        [V_number l, V_number k] \<Rightarrow> take (nat \<lfloor>l\<rfloor>) (drop (nat \<lfloor>k\<rfloor>) records)
      | [V_number v] \<Rightarrow> if suffix = '' LIMIT ?'' then take (nat \<lfloor>v\<rfloor>) records else drop (nat \<lfloor>v\<rfloor>) records
      | _ \<Rightarrow> records)"

lemma join_append: "xs \<noteq> [] \<Longrightarrow> ys \<noteq> [] \<Longrightarrow> join sep (xs @ ys) = join sep xs @ sep @ join sep ys"
proof (induction sep xs rule: join.induct)
  case (2 sep t)
  then show ?case
    by (cases ys) auto
qed auto

lemma paged_select_serves:
  assumes "\<And>sql binds. sq_selectObjects sq sql binds d =
      Inr (paged_select (captured_sql (without_page query) (timeline_order query)) (length (captured_binds (without_page query)))
        records sql binds)"
  shows "serves_pages sq d query records"
proof -
  have sql: "captured_sql (with_page k l query) ob = captured_sql (without_page query) ob @
      (if captured_paging (with_page k l query) = [] then [] else '' '' @ join '' '' (map fst (captured_paging (with_page k l query))))"
    for k l ob
    by (simp add: captured_sql_def captured_paging_def[of "without_page query"] Let_def join_append flip: append_Cons append_assoc
        del: append_Cons append_assoc join.simps)
  have binds: "captured_binds (with_page k l query) = captured_binds (without_page query) @
      concat (map snd (captured_paging (with_page k l query)))" for k l
    by (simp add: captured_binds_def captured_paging_def[of "without_page query"] Let_def)
  show ?thesis
    unfolding serves_pages_def assms
    by (auto simp: paged_select_def sql binds captured_paging_def Let_def take_limit_def split: option.splits)
qed

definition full_log :: CapturedMessageQuery where
  "full_log = full_range_captured False True (Some (whole_number 2))"

definition paging_sqlite :: "table_state sqlite" where
  "paging_sqlite = list_sqlite\<lparr>sq_selectObjects := \<lambda>sql binds t. Inr (paged_select
     (captured_sql (without_page full_log) (timeline_order full_log)) (length (captured_binds (without_page full_log)))
     [logged_record sample_mark] sql binds)\<rparr>"

lemma sample_mark_reads: "read_captured_record (logged_record sample_mark) = Inr sample_mark"
  by (rule captured_record_reads[OF _ sample_mark_doubles])
    (simp add: stored_record_def logged_record_def captured_columns_def captured_row_binds_def stored_as_def)

definition half_committed :: "table_state log_store" where
  "half_committed = waiting_store\<lparr>st_pendingMessages := [(sample_mark\<lparr>lr_startTimestampUs := 5\<rparr>, 1)], st_committedMessages := 1\<rparr>"


end
