(* ===== verification/Device_Log.thy ===== *)
theory Device_Log
  imports Log_Store_Queries Drpd_Groups
begin

text \<open>
  What \<open>device.ts\<close> logs: the rows it makes of captured messages, firmware events, analog samples and its own
  events, the clock synchronisation that dates them, and the insertion into the log store. \<open>now\<close> is
  \<open>Date.now()\<close>, \<open>locale\<close> prints a date; \<open>SQLiteWasmStore\<close> is the store, which the device creates by default.
\<close>

section \<open>Names\<close>

definition sop_kind_name :: "SOPKind \<Rightarrow> string" where
  "sop_kind_name kind =
     (case kind of K_SOP \<Rightarrow> ''SOP'' | K_SOP_PRIME \<Rightarrow> ''SOP_PRIME'' | K_SOP_DOUBLE_PRIME \<Rightarrow> ''SOP_DOUBLE_PRIME''
      | K_SOP_DEBUG_PRIME \<Rightarrow> ''SOP_DEBUG_PRIME'' | K_SOP_DEBUG_DOUBLE_PRIME \<Rightarrow> ''SOP_DEBUG_DOUBLE_PRIME''
      | K_SOP_HARD_RESET \<Rightarrow> ''SOP_HARD_RESET'' | K_SOP_CABLE_RESET \<Rightarrow> ''SOP_CABLE_RESET'' | K_UNKNOWN \<Rightarrow> ''UNKNOWN'')"

definition message_kind_name :: "MessageKind \<Rightarrow> string" where
  "message_kind_name kind = (case kind of CONTROL \<Rightarrow> ''CONTROL'' | DATA \<Rightarrow> ''DATA'' | EXTENDED \<Rightarrow> ''EXTENDED'')"

definition power_role_name :: "PowerRole \<Rightarrow> string" where
  "power_role_name r = (case r of SOURCE \<Rightarrow> ''SOURCE'' | SINK \<Rightarrow> ''SINK'')"

definition data_role_name :: "DataRole \<Rightarrow> string" where
  "data_role_name r = (case r of DFP \<Rightarrow> ''DFP'' | UFP \<Rightarrow> ''UFP'')"

definition cable_plug_name :: "CablePlug \<Rightarrow> string" where
  "cable_plug_name p = (case p of UFP_DFP \<Rightarrow> ''UFP_DFP'' | CABLE_PLUG_VPD \<Rightarrow> ''CABLE_PLUG_VPD'')"

definition nat_text :: "nat \<Rightarrow> string" where "nat_text n = js_String (int n) 0"

definition usbpd_error_text :: "usbpd_error \<Rightarrow> string" where
  "usbpd_error_text e =
     (case e of
        SopLengthError n \<Rightarrow> ''SOP bytes must be length 4, received '' @ nat_text n
      | PayloadTooShort n \<Rightarrow> ''USB-PD payload too short for SOP + header: '' @ nat_text n
      | MissingExtendedHeader \<Rightarrow> ''USB-PD payload missing extended header''
      | CannotReadUint16 i n \<Rightarrow> ''Cannot read uint16 at offset '' @ nat_text i @ '' from payload length '' @ nat_text n
      | CannotReadUint32 i n \<Rightarrow> ''Cannot read uint32 at offset '' @ nat_text i @ '' from payload length '' @ nat_text n)"

definition parse_error_text :: "Pd_Messages.parser_error \<Rightarrow> string" where
  "parse_error_text e =
     (case e of USBPDPayloadTooShort n \<Rightarrow> ''USB-PD payload too short: '' @ nat_text n | ParserThrows u \<Rightarrow> usbpd_error_text u)"

definition decode_result_code :: "CaptureDecodeResult \<Rightarrow> rat" where
  "decode_result_code r =
     (case r of Decode_SUCCESS \<Rightarrow> 0 | Decode_INVALID_KCODE \<Rightarrow> 1 | Decode_CRC_ERROR \<Rightarrow> 2 | Decode_TIMEOUT_ERROR \<Rightarrow> 3
      | Decode_INCOMPLETE \<Rightarrow> 4)"

section \<open>Clock synchronisation\<close>

datatype sync_source = Sync_connect | Sync_periodic

record DRPDClockSyncSnapshot =
  cs_deviceTimestampUs :: int
  cs_hostWallClockUs :: int
  cs_measuredAtPerfUs :: "int option"
  cs_roundTripUs :: int
  cs_approximate :: bool
  cs_source :: sync_source

text \<open>The performance timer in milliseconds and its origin, where the platform has them.\<close>

definition performanceMsToWallClockUs :: "int \<Rightarrow> rat option \<Rightarrow> rat \<Rightarrow> int" where
  "performanceMsToWallClockUs now timeOrigin perfMs =
     (case timeOrigin of None \<Rightarrow> now * 1000 | Some start \<Rightarrow> math_round (fl (fl (start + perfMs) * 1000)))"

definition buildClockSyncSnapshot ::
  "int \<Rightarrow> rat option \<Rightarrow> int \<Rightarrow> rat option \<Rightarrow> rat option \<Rightarrow> sync_source \<Rightarrow> DRPDClockSyncSnapshot" where
  "buildClockSyncSnapshot now timeOrigin deviceTimestampUs startedPerfMs endedPerfMs source =
     (case (startedPerfMs, endedPerfMs) of
        (Some started, Some finished) \<Rightarrow>
          let midpointPerfMs = fl (started + fl (fl (finished - started) / 2)) in
          \<lparr>cs_deviceTimestampUs = deviceTimestampUs,
           cs_hostWallClockUs = performanceMsToWallClockUs now timeOrigin midpointPerfMs,
           cs_measuredAtPerfUs = Some (math_round (fl (midpointPerfMs * 1000))),
           cs_roundTripUs = max 0 (math_round (fl (fl (finished - started) * 1000))),
           cs_approximate = False, cs_source = source\<rparr>
      | _ \<Rightarrow>
          \<lparr>cs_deviceTimestampUs = deviceTimestampUs, cs_hostWallClockUs = now * 1000, cs_measuredAtPerfUs = None,
           cs_roundTripUs = 0, cs_approximate = True, cs_source = source\<rparr>)"

text \<open>One pass: the sample with the shortest round trip, the first of equal ones.\<close>

definition CLOCK_SYNC_SAMPLE_COUNT :: nat where "CLOCK_SYNC_SAMPLE_COUNT = 5"

definition better_sample :: "DRPDClockSyncSnapshot option \<Rightarrow> DRPDClockSyncSnapshot \<Rightarrow> DRPDClockSyncSnapshot option" where
  "better_sample best candidate =
     (case best of
        None \<Rightarrow> Some candidate
      | Some b \<Rightarrow> if cs_roundTripUs candidate < cs_roundTripUs b then Some candidate else best)"

text \<open>The samples of a pass, an error when a query of the timestamp fails: then the anchor stays.\<close>

fun best_sample :: "DRPDClockSyncSnapshot option \<Rightarrow> ('e + DRPDClockSyncSnapshot) list \<Rightarrow> 'e + DRPDClockSyncSnapshot option" where
  "best_sample best [] = Inr best"
| "best_sample best (Inl e # samples) = Inl e"
| "best_sample best (Inr candidate # samples) = best_sample (better_sample best candidate) samples"

section \<open>State\<close>

record device_log =
  dl_started :: bool
  dl_activeDisplayEpochStartUs :: "int option"
  dl_pendingDisplayEpochReset :: bool
  dl_lastKnownDeviceTimestampUs :: "int option"
  dl_captureCycleTimeNs :: "rat option"
  dl_clockSync :: "DRPDClockSyncSnapshot option"

definition runClockSync :: "('e + DRPDClockSyncSnapshot) list \<Rightarrow> device_log \<Rightarrow> device_log \<times> 'e option" where
  "runClockSync samples dl =
     (case best_sample None (take CLOCK_SYNC_SAMPLE_COUNT samples) of
        Inl e \<Rightarrow> (dl, Some e)
      | Inr None \<Rightarrow> (dl, None)
      | Inr (Some best) \<Rightarrow> (dl\<lparr>dl_clockSync := Some best\<rparr>, None))"

definition resolveWallClockUs :: "device_log \<Rightarrow> int \<Rightarrow> int option" where
  "resolveWallClockUs dl timestampUs =
     map_option (\<lambda>s. cs_hostWallClockUs s + (timestampUs - cs_deviceTimestampUs s)) (dl_clockSync dl)"

text \<open>\<open>Number(us / 1000n)\<close>: the quotient of big integers is cut towards zero.\<close>

definition us_to_ms :: "int \<Rightarrow> rat" where
  "us_to_ms us = fl (of_int (if us < 0 then - (- us div 1000) else us div 1000))"

definition nextSyntheticStreamTimestampUs :: "device_log \<Rightarrow> int \<times> device_log" where
  "nextSyntheticStreamTimestampUs dl =
     (let next = or_default (dl_lastKnownDeviceTimestampUs dl) 0 + 1
      in (next, dl\<lparr>dl_lastKnownDeviceTimestampUs := Some next\<rparr>))"

text \<open>A new display epoch starts with the row when there is none yet or a reset is due.\<close>

definition enter_display_epoch :: "int \<Rightarrow> device_log \<Rightarrow> device_log" where
  "enter_display_epoch timestampUs dl =
     (if dl_activeDisplayEpochStartUs dl = None \<or> dl_pendingDisplayEpochReset dl
      then dl\<lparr>dl_activeDisplayEpochStartUs := Some timestampUs, dl_pendingDisplayEpochReset := False\<rparr> else dl)"

definition display_timestamp :: "device_log \<Rightarrow> int \<Rightarrow> int option" where
  "display_timestamp dl timestampUs = map_option (\<lambda>start. timestampUs - start) (dl_activeDisplayEpochStartUs dl)"

definition forget_stream :: "device_log \<Rightarrow> device_log" where
  "forget_stream dl = dl\<lparr>dl_activeDisplayEpochStartUs := None, dl_pendingDisplayEpochReset := False,
     dl_lastKnownDeviceTimestampUs := None\<rparr>"

section \<open>Captured messages\<close>

text \<open>The columns that come from the packet: SOP kind, message kind, type, id, sender roles, parse error.\<close>

record packet_columns =
  pc_sopKind :: "string option"
  pc_messageKind :: "string option"
  pc_messageType :: "rat option"
  pc_messageId :: "rat option"
  pc_senderPowerRole :: "string option"
  pc_senderDataRole :: "string option"
  pc_parseError :: "string option"

definition no_columns :: packet_columns where
  "no_columns = \<lparr>pc_sopKind = None, pc_messageKind = None, pc_messageType = None, pc_messageId = None,
     pc_senderPowerRole = None, pc_senderDataRole = None, pc_parseError = None\<rparr>"

definition sender_columns :: "Message \<Rightarrow> string option \<times> string option" where
  "sender_columns message =
     (let kind = sop_kind (m_sop message); header = hd_messageHeader (m_header message) in
      if kind = K_SOP then (map_option power_role_name (mh_powerRole header), map_option data_role_name (mh_dataRole header))
      else if kind \<in> {K_SOP_PRIME, K_SOP_DOUBLE_PRIME, K_SOP_DEBUG_PRIME, K_SOP_DEBUG_DOUBLE_PRIME}
      then (Some ''SOURCE'', map_option cable_plug_name (mh_cablePlug header))
      else (None, None))"

definition packet_columns_of :: "rat list \<Rightarrow> CapturedMessage \<Rightarrow> packet_columns" where
  "packet_columns_of rawPulseWidths message =
     (let rawSop = cm_sop message; rawDecodedData = cm_decodedData message; kind = decodeSOPKind rawSop in
      if length rawSop = 4 \<and> rawDecodedData = [] \<and> (kind = K_SOP_HARD_RESET \<or> kind = K_SOP_CABLE_RESET)
      then no_columns\<lparr>pc_sopKind := Some (sop_kind_name kind)\<rparr>
      else (case parseUSBPDMessage (rawSop @ rawDecodedData) (Some rawPulseWidths)
              (Some \<lparr>USBPDCaptureMetadata.cm_startTimestampUs = Some (CapturedMessage.cm_startTimestampUs message),
                USBPDCaptureMetadata.cm_endTimestampUs = Some (CapturedMessage.cm_endTimestampUs message)\<rparr>) of
           Inl e \<Rightarrow> no_columns\<lparr>pc_parseError := Some (parse_error_text e)\<rparr>
         | Inr parsed \<Rightarrow>
             let header = hd_messageHeader (m_header parsed); (power, role) = sender_columns parsed in
             \<lparr>pc_sopKind = Some (sop_kind_name (sop_kind (m_sop parsed))),
              pc_messageKind = Some (message_kind_name (mh_messageKind header)),
              pc_messageType = Some (of_int (mh_messageTypeNumber header)), pc_messageId = Some (of_int (mh_messageId header)),
              pc_senderPowerRole = power, pc_senderDataRole = role, pc_parseError = None\<rparr>))"

definition toLoggedCapturedMessage :: "int \<Rightarrow> CapturedMessage \<Rightarrow> device_log \<Rightarrow> LoggedRow \<times> device_log" where
  "toLoggedCapturedMessage now message dl =
     (let cycleTimeNs = or_default (dl_captureCycleTimeNs dl) 1;
          rawPulseWidths = map (\<lambda>w. fl (of_int w * cycleTimeNs)) (cm_pulseWidths message);
          columns = packet_columns_of rawPulseWidths message;
          startUs = CapturedMessage.cm_startTimestampUs message; endUs = CapturedMessage.cm_endTimestampUs message;
          dl' = (enter_display_epoch startUs dl)\<lparr>dl_lastKnownDeviceTimestampUs := Some endUs\<rparr>
      in (\<lparr>lr_entryKind = EK_message, lr_eventType = None, lr_eventText = None, lr_eventData = None,
           lr_eventWallClockMs = None, lr_flagged = False, lr_comment = None, lr_commentCreatedAtMs = None,
           lr_wallClockUs = resolveWallClockUs dl' startUs, lr_startTimestampUs = startUs, lr_endTimestampUs = endUs,
           lr_displayTimestampUs = display_timestamp dl' startUs,
           lr_decodeResult = decode_result_code (cm_decodeResult message), lr_sopKind = pc_sopKind columns,
           lr_messageKind = pc_messageKind columns, lr_messageType = pc_messageType columns,
           lr_messageId = pc_messageId columns, lr_senderPowerRole = pc_senderPowerRole columns,
           lr_senderDataRole = pc_senderDataRole columns, lr_pulseCount = of_int (cm_pulseCount message),
           lr_rawPulseWidths = rawPulseWidths, lr_rawSop = cm_sop message, lr_rawDecodedData = cm_decodedData message,
           lr_parseError = pc_parseError columns, lr_createdAtMs = of_int now\<rparr>, dl'))"

section \<open>Events\<close>

text \<open>The log type and the text of a firmware event.\<close>

definition normalizeFirmwareEvent :: "CapturedEvent \<Rightarrow> string \<times> string" where
  "normalizeFirmwareEvent event =
     (let t = ce_eventType event; txt = ce_eventText event in
      if t = 1 then (''vbus_ovp'', txt)
      else if t = 2 then (''vbus_ocp'', txt)
      else if t = 3 \<or> t = 4 \<or> t = 5 then (''cc_status_changed'', txt)
      else if t = 6 \<or> t = 7 \<or> t = 8 \<or> t = 12 then (''cc_role_changed'', txt)
      else if t = 9 then (''sink_errors'', txt)
      else if t = 10 then (''sync_trigger'', txt)
      else if t = 11 then (''sink_warning'', txt)
      else (''firmware_event'', ''Firmware event '' @ js_String t 0 @ '': '' @ txt))"

definition event_row ::
  "string \<Rightarrow> string \<Rightarrow> LoggedEventDataSection list option \<Rightarrow> int option \<Rightarrow> int \<Rightarrow> int option \<Rightarrow> bytes \<Rightarrow> int \<Rightarrow> LoggedRow" where
  "event_row eventType eventText eventData wallClockUs timestampUs displayTimestampUs body now =
     \<lparr>lr_entryKind = EK_event, lr_eventType = Some eventType, lr_eventText = Some eventText, lr_eventData = eventData,
      lr_eventWallClockMs = map_option us_to_ms wallClockUs, lr_flagged = False, lr_comment = None,
      lr_commentCreatedAtMs = None, lr_wallClockUs = wallClockUs, lr_startTimestampUs = timestampUs,
      lr_endTimestampUs = timestampUs, lr_displayTimestampUs = displayTimestampUs, lr_decodeResult = 0, lr_sopKind = None,
      lr_messageKind = None, lr_messageType = None, lr_messageId = None, lr_senderPowerRole = None,
      lr_senderDataRole = None, lr_pulseCount = 0, lr_rawPulseWidths = [], lr_rawSop = [], lr_rawDecodedData = body,
      lr_parseError = None, lr_createdAtMs = or_default (map_option us_to_ms wallClockUs) (of_int now)\<rparr>"

definition firmware_event_row :: "int \<Rightarrow> CapturedEvent \<Rightarrow> device_log \<Rightarrow> LoggedRow \<times> device_log" where
  "firmware_event_row now event dl =
     (let timestampUs = ce_timestampUs event; (eventType, eventText) = normalizeFirmwareEvent event;
          dl' = (enter_display_epoch timestampUs dl)\<lparr>dl_lastKnownDeviceTimestampUs := Some timestampUs\<rparr>
      in (event_row eventType eventText None (resolveWallClockUs dl timestampUs) timestampUs
            (display_timestamp dl' timestampUs) (ce_eventTextBytes event) now, dl'))"

datatype significant_event = Event_capture_changed | Event_cc_status_changed | Event_mark

definition significant_event_name :: "significant_event \<Rightarrow> string" where
  "significant_event_name e =
     (case e of Event_capture_changed \<Rightarrow> ''capture_changed'' | Event_cc_status_changed \<Rightarrow> ''cc_status_changed''
      | Event_mark \<Rightarrow> ''mark'')"

text \<open>The options of an event; a display timestamp is given or not, and given it may be null.\<close>

record event_options =
  eo_timestampUs :: "int option"
  eo_wallClockUs :: "int option"
  eo_displayTimestampUs :: "int option option"
  eo_updateLastKnown :: bool
  eo_resetDisplayEpoch :: "bool option"
  eo_allowWithoutLoggingStarted :: bool
  eo_eventData :: "LoggedEventDataSection list option"

definition no_options :: event_options where
  "no_options = \<lparr>eo_timestampUs = None, eo_wallClockUs = None, eo_displayTimestampUs = None, eo_updateLastKnown = True,
     eo_resetDisplayEpoch = None, eo_allowWithoutLoggingStarted = False, eo_eventData = None\<rparr>"

definition event_wall_clock :: "int \<Rightarrow> event_options \<Rightarrow> device_log \<Rightarrow> int option" where
  "event_wall_clock now opts dl =
     (case eo_wallClockUs opts of
        Some w \<Rightarrow> Some w
      | None \<Rightarrow> (case eo_timestampUs opts of None \<Rightarrow> Some (now * 1000) | Some t \<Rightarrow> resolveWallClockUs dl t))"

definition event_timestamp :: "event_options \<Rightarrow> device_log \<Rightarrow> int \<times> device_log" where
  "event_timestamp opts dl =
     (case eo_timestampUs opts of
        None \<Rightarrow> nextSyntheticStreamTimestampUs dl
      | Some t \<Rightarrow>
          (t, if eo_updateLastKnown opts \<and> (case dl_lastKnownDeviceTimestampUs dl of None \<Rightarrow> True | Some k \<Rightarrow> t > k)
              then dl\<lparr>dl_lastKnownDeviceTimestampUs := Some t\<rparr> else dl))"

definition significant_event_row ::
  "int \<Rightarrow> (rat \<Rightarrow> string) \<Rightarrow> significant_event \<Rightarrow> string \<Rightarrow> event_options \<Rightarrow> device_log \<Rightarrow> LoggedRow \<times> device_log" where
  "significant_event_row now locale_text eventType eventSummary opts dl =
     (let wallClockUs = event_wall_clock now opts dl;
          eventText = (if eventType = Event_mark then eventSummary
            else case wallClockUs of None \<Rightarrow> eventSummary | Some w \<Rightarrow> eventSummary @ '' at '' @ locale_text (us_to_ms w));
          (timestampUs, dl') = event_timestamp opts dl;
          displayTimestampUs = (case eo_displayTimestampUs opts of
            Some d \<Rightarrow> d
          | None \<Rightarrow> if eo_resetDisplayEpoch opts = Some True then None else display_timestamp dl' timestampUs)
      in (event_row (significant_event_name eventType) eventText (eo_eventData opts) wallClockUs timestampUs
            displayTimestampUs [] now, dl'))"

section \<open>Analog samples\<close>

definition analog_row :: "int \<Rightarrow> string option \<Rightarrow> AnalogMonitorChannels \<Rightarrow> device_log \<Rightarrow> LoggedAnalogSample \<times> device_log" where
  "analog_row now role sample dl =
     (let t = am_captureTimestampUs sample in
      (\<lparr>la_timestampUs = t, la_displayTimestampUs = display_timestamp dl t, la_wallClockUs = resolveWallClockUs dl t,
        la_vbusV = am_vbus sample, la_ibusA = am_ibus sample, la_role = role, la_createdAtMs = of_int now\<rparr>,
       dl\<lparr>dl_lastKnownDeviceTimestampUs := Some t\<rparr>))"

definition isAnalogMonitorEqual :: "AnalogMonitorChannels option \<Rightarrow> AnalogMonitorChannels option \<Rightarrow> bool" where
  "isAnalogMonitorEqual left right \<longleftrightarrow>
     (case (left, right) of
        (Some l, Some r) \<Rightarrow>
          am_captureTimestampUs l = am_captureTimestampUs r \<and> am_vbus l = am_vbus r \<and> am_ibus l = am_ibus r \<and>
          am_dutCc1 l = am_dutCc1 r \<and> am_dutCc2 l = am_dutCc2 r \<and> am_usdsCc1 l = am_usdsCc1 r \<and>
          am_usdsCc2 l = am_usdsCc2 r \<and> am_adcVref l = am_adcVref r \<and> am_groundRef l = am_groundRef r \<and>
          am_currentVref l = am_currentVref r \<and> am_accumulationElapsedTimeUs l = am_accumulationElapsedTimeUs r \<and>
          am_accumulatedChargeMah l = am_accumulatedChargeMah r \<and> am_accumulatedEnergyMwh l = am_accumulatedEnergyMwh r
      | _ \<Rightarrow> left = None \<and> right = None)"

section \<open>Selection\<close>

record DRPDLogSelectionState =
  ls_selectedKeys :: "string list"
  ls_anchorIndex :: "rat option"
  ls_activeIndex :: "rat option"
  ls_revealRevision :: "rat option"

definition whole_index :: "rat \<Rightarrow> rat" where "whole_index q = max 0 (of_int \<lfloor>q\<rfloor>)"

text \<open>The first occurrence of each value, in order: \<open>Array.from(new Set(keys))\<close>.\<close>

fun unique_keys :: "'a list \<Rightarrow> 'a list \<Rightarrow> 'a list" where
  "unique_keys seen [] = []"
| "unique_keys seen (k # ks) = (if k \<in> set seen then unique_keys seen ks else k # unique_keys (k # seen) ks)"

definition normalized_selection :: "DRPDLogSelectionState \<Rightarrow> DRPDLogSelectionState \<Rightarrow> DRPDLogSelectionState" where
  "normalized_selection current next =
     \<lparr>ls_selectedKeys = unique_keys [] (ls_selectedKeys next), ls_anchorIndex = map_option whole_index (ls_anchorIndex next),
      ls_activeIndex = map_option whole_index (ls_activeIndex next),
      ls_revealRevision = (case ls_revealRevision next of None \<Rightarrow> ls_revealRevision current | Some r \<Rightarrow> Some (whole_index r))\<rparr>"

text \<open>The new selection, and whether it is announced.\<close>

definition updateLogSelectionState :: "DRPDLogSelectionState \<Rightarrow> DRPDLogSelectionState \<Rightarrow> DRPDLogSelectionState \<times> bool" where
  "updateLogSelectionState next current =
     (let normalized = normalized_selection current next
      in if ls_anchorIndex current = ls_anchorIndex normalized \<and> ls_activeIndex current = ls_activeIndex normalized \<and>
            ls_revealRevision current = ls_revealRevision normalized \<and>
            ls_selectedKeys current = ls_selectedKeys normalized
         then (current, False) else (normalized, True))"

definition empty_selection :: DRPDLogSelectionState where
  "empty_selection = \<lparr>ls_selectedKeys = [], ls_anchorIndex = None, ls_activeIndex = None, ls_revealRevision = None\<rparr>"

definition clearLogSelection :: "DRPDLogSelectionState \<Rightarrow> DRPDLogSelectionState \<times> bool" where
  "clearLogSelection current = updateLogSelectionState empty_selection current"

text \<open>The page of rows between two indexes.\<close>

definition selection_range :: "rat \<Rightarrow> rat \<Rightarrow> nat \<times> nat" where
  "selection_range startIndex endIndex =
     (let first = nat \<lfloor>whole_index (min startIndex endIndex)\<rfloor>; end_row = nat \<lfloor>whole_index (max startIndex endIndex)\<rfloor>
      in (first, end_row - first + 1))"

definition selection_keys :: "LoggedRow list \<Rightarrow> string list" where
  "selection_keys rows = map buildCapturedLogSelectionKey rows"

section \<open>Logging\<close>

text \<open>The device with its store: what is logged, the store if one is open, and the errors and entries announced.\<close>

datatype log_event =
    Log_added_message LoggedRow
  | Log_added_event LoggedRow
  | Log_added_analog LoggedAnalogSample
  | Log_updated string CapturedMessageAnnotations
  | Log_deleted int int "nat option"
  | Log_selection_updated DRPDLogSelectionState
  | Log_error string

record 'd logging_device =
  ld_log :: device_log
  ld_store :: "'d log_store option"
  ld_selection :: DRPDLogSelectionState
  ld_events :: "log_event list"

definition announce :: "log_event \<Rightarrow> 'd logging_device \<Rightarrow> 'd logging_device" where
  "announce e ld = ld\<lparr>ld_events := ld_events ld @ [e]\<rparr>"

definition set_selection :: "DRPDLogSelectionState \<times> bool \<Rightarrow> 'd logging_device \<Rightarrow> 'd logging_device" where
  "set_selection result ld =
     (let ld' = ld\<lparr>ld_selection := fst result\<rparr>
      in if snd result then announce (Log_selection_updated (fst result)) ld' else ld')"

definition setLogSelectionState :: "DRPDLogSelectionState \<Rightarrow> 'd logging_device \<Rightarrow> 'd logging_device" where
  "setLogSelectionState next ld = set_selection (updateLogSelectionState next (ld_selection ld)) ld"

definition clear_selection :: "'d logging_device \<Rightarrow> 'd logging_device" where
  "clear_selection ld = set_selection (clearLogSelection (ld_selection ld)) ld"

text \<open>A call of the store that announces its entry, or its error.\<close>

definition store_call :: "(unit, 'd) store_io \<Rightarrow> log_event \<Rightarrow> 'd logging_device \<Rightarrow> 'd logging_device" where
  "store_call action e ld =
     (case ld_store ld of
        None \<Rightarrow> ld
      | Some st \<Rightarrow> (case action st of
          (Inl err, st') \<Rightarrow> announce (Log_error err) (ld\<lparr>ld_store := Some st'\<rparr>)
        | (Inr _, st') \<Rightarrow> announce e (ld\<lparr>ld_store := Some st'\<rparr>)))"

definition logging_open :: "'d logging_device \<Rightarrow> bool" where
  "logging_open ld \<longleftrightarrow> dl_started (ld_log ld) \<and> ld_store ld \<noteq> None"

definition logCapturedMessage :: "'d sqlite \<Rightarrow> int \<Rightarrow> CapturedMessage \<Rightarrow> 'd logging_device \<Rightarrow> 'd logging_device" where
  "logCapturedMessage sq now message ld =
     (if \<not> logging_open ld then ld
      else let (row, dl) = toLoggedCapturedMessage now message (ld_log ld)
        in store_call (insertCapturedMessage sq row) (Log_added_message row) (ld\<lparr>ld_log := dl\<rparr>))"

definition logCapturedFirmwareEvent :: "'d sqlite \<Rightarrow> int \<Rightarrow> CapturedEvent \<Rightarrow> 'd logging_device \<Rightarrow> 'd logging_device" where
  "logCapturedFirmwareEvent sq now event ld =
     (if \<not> logging_open ld then ld
      else let (row, dl) = firmware_event_row now event (ld_log ld)
        in store_call (insertCapturedMessage sq row) (Log_added_event row) (ld\<lparr>ld_log := dl\<rparr>))"

definition logCapturedRecord :: "'d sqlite \<Rightarrow> int \<Rightarrow> CapturedRecord \<Rightarrow> 'd logging_device \<Rightarrow> 'd logging_device" where
  "logCapturedRecord sq now captured ld =
     (case captured of
        Captured_event event \<Rightarrow> logCapturedFirmwareEvent sq now event ld
      | Captured_message message \<Rightarrow> logCapturedMessage sq now message ld)"

definition logAnalogSample ::
  "'d sqlite \<Rightarrow> int \<Rightarrow> string option \<Rightarrow> AnalogMonitorChannels \<Rightarrow> 'd logging_device \<Rightarrow> 'd logging_device" where
  "logAnalogSample sq now role sample ld =
     (if \<not> logging_open ld then ld
      else let (row, dl) = analog_row now role sample (ld_log ld)
        in store_call (insertAnalogSample sq row) (Log_added_analog row) (ld\<lparr>ld_log := dl\<rparr>))"

text \<open>The reset of the display epoch is due only once the row is stored.\<close>

definition logSignificantEvent ::
  "'d sqlite \<Rightarrow> int \<Rightarrow> (rat \<Rightarrow> string) \<Rightarrow> significant_event \<Rightarrow> string \<Rightarrow> event_options \<Rightarrow> 'd logging_device \<Rightarrow> 'd logging_device" where
  "logSignificantEvent sq now locale_text eventType eventSummary opts ld =
     (case ld_store ld of
        None \<Rightarrow> ld
      | Some st \<Rightarrow>
          if \<not> dl_started (ld_log ld) \<and> \<not> eo_allowWithoutLoggingStarted opts then ld
          else let (row, dl) = significant_event_row now locale_text eventType eventSummary opts (ld_log ld) in
            (case insertCapturedMessage sq row st of
               (Inl err, st') \<Rightarrow> announce (Log_error err) (ld\<lparr>ld_log := dl, ld_store := Some st'\<rparr>)
             | (Inr _, st') \<Rightarrow> announce (Log_added_event row)
                 (ld\<lparr>ld_log := (if eo_resetDisplayEpoch opts \<noteq> Some False then dl\<lparr>dl_pendingDisplayEpochReset := True\<rparr> else dl),
                     ld_store := Some st'\<rparr>)))"

definition mark_options :: event_options where
  "mark_options = no_options\<lparr>eo_resetDisplayEpoch := Some False, eo_allowWithoutLoggingStarted := True\<rparr>"

text \<open>A mark now; the store is open, else nothing happens.\<close>

definition markLog :: "'d sqlite \<Rightarrow> int \<Rightarrow> (rat \<Rightarrow> string) \<Rightarrow> string \<Rightarrow> LoggedEventDataSection list option \<Rightarrow>
    'd logging_device \<Rightarrow> 'd logging_device" where
  "markLog sq now locale_text eventSummary eventData =
     logSignificantEvent sq now locale_text Event_mark eventSummary (mark_options\<lparr>eo_eventData := eventData\<rparr>)"

definition flush_device :: "'d sqlite \<Rightarrow> 'd logging_device \<Rightarrow> string option \<times> 'd logging_device" where
  "flush_device sq ld =
     (case ld_store ld of
        None \<Rightarrow> (None, ld)
      | Some st \<Rightarrow> (case flush_store sq st of (r, st') \<Rightarrow>
          (case r of Inl e \<Rightarrow> Some e | Inr _ \<Rightarrow> None, ld\<lparr>ld_store := Some st'\<rparr>)))"

text \<open>A mark just after a stored row, on the clock of that row. An error is what the call throws.\<close>

definition mark_after :: "LoggedRow \<Rightarrow> int \<Rightarrow> event_options" where
  "mark_after row wallClockUs = mark_options
     \<lparr>eo_timestampUs := Some (lr_startTimestampUs row + 1), eo_wallClockUs := Some (wallClockUs + 1),
      eo_displayTimestampUs := Some (map_option (\<lambda>t. t + 1) (lr_displayTimestampUs row)), eo_updateLastKnown := False\<rparr>"

definition markLogAt :: "'d sqlite \<Rightarrow> int \<Rightarrow> (rat \<Rightarrow> string) \<Rightarrow> LoggedRow \<Rightarrow> 'd logging_device \<Rightarrow> string option \<times> 'd logging_device" where
  "markLogAt sq now locale_text row ld =
     (case lr_wallClockUs row of
        None \<Rightarrow> (Some ''Selected row has no wall-clock timestamp'', ld)
      | Some w \<Rightarrow>
          if ld_store ld = None then (None, ld)
          else (case flush_device sq ld of
              (Some e, ld1) \<Rightarrow> (Some e, ld1)
            | (None, ld1) \<Rightarrow>
                flush_device sq (logSignificantEvent sq now locale_text Event_mark ''Mark'' (mark_after row w) ld1)))"

definition update_annotations ::
  "'d sqlite \<Rightarrow> string \<Rightarrow> CapturedMessageAnnotations \<Rightarrow> 'd logging_device \<Rightarrow> (string + bool) \<times> 'd logging_device" where
  "update_annotations sq selectionKey annotations ld =
     (case ld_store ld of
        None \<Rightarrow> (Inr False, ld)
      | Some st \<Rightarrow> (case updateCapturedMessageAnnotations sq selectionKey annotations st of
          (Inr True, st') \<Rightarrow> (Inr True, announce (Log_updated selectionKey annotations) (ld\<lparr>ld_store := Some st'\<rparr>))
        | (r, st') \<Rightarrow> (r, ld\<lparr>ld_store := Some st'\<rparr>)))"

section \<open>Clearing and importing\<close>

definition clearLogs :: "'d sqlite \<Rightarrow> LogClearScope \<Rightarrow> 'd logging_device \<Rightarrow> (string + int \<times> int) \<times> 'd logging_device" where
  "clearLogs sq scope ld =
     (case ld_store ld of
        None \<Rightarrow> (Inr (0, 0), ld)
      | Some st \<Rightarrow> (case clear_store sq scope st of
          (Inl e, st') \<Rightarrow> (Inl e, ld\<lparr>ld_store := Some st'\<rparr>)
        | (Inr (a, m), st') \<Rightarrow>
            let ld1 = ld\<lparr>ld_store := Some st'\<rparr>;
                ld' = (if \<not> clears_messages scope then ld1
                  else let ld2 = ld1\<lparr>ld_log := forget_stream (ld_log ld)\<rparr>
                    in if ls_selectedKeys (ld_selection ld2) \<noteq> [] then clear_selection ld2 else ld2)
            in (Inr (a, m), if a > 0 \<or> m > 0 then announce (Log_deleted a m None) ld' else ld')))"

fun insert_rows :: "'d sqlite \<Rightarrow> LoggedRow list \<Rightarrow> (unit, 'd) store_io" where
  "insert_rows sq [] = done_with ()"
| "insert_rows sq (row # rows) = and_then (insertCapturedMessage sq row) (\<lambda>_. insert_rows sq rows)"

definition importCapturedMessages ::
  "'d sqlite \<Rightarrow> LoggedRow list \<Rightarrow> LogClearScope \<Rightarrow> 'd logging_device \<Rightarrow> (string + int \<times> int \<times> nat) \<times> 'd logging_device" where
  "importCapturedMessages sq rows clearScope ld =
     (case ld_store ld of
        None \<Rightarrow> (Inr (0, 0, 0), ld)
      | Some st \<Rightarrow> (case clear_store sq clearScope st of
          (Inl e, st') \<Rightarrow> (Inl e, ld\<lparr>ld_store := Some st'\<rparr>)
        | (Inr (a, m), st1) \<Rightarrow>
            let ld1 = clear_selection (ld\<lparr>ld_log := forget_stream (ld_log ld)\<rparr>) in
            (case and_then (insert_rows sq rows) (\<lambda>_. and_then (flush_store sq) (\<lambda>_. enforceRetention sq)) st1 of
               (Inl e, st2) \<Rightarrow> (Inl e, ld1\<lparr>ld_store := Some st2\<rparr>)
             | (Inr _, st2) \<Rightarrow> (Inr (a, m, length rows),
                 announce (Log_deleted a m (Some (length rows))) (ld1\<lparr>ld_store := Some st2\<rparr>)))))"

section \<open>Configuration\<close>

definition LEGACY_CAPTURE_RETENTION :: rat where "LEGACY_CAPTURE_RETENTION = 50"

definition normalizeLoggingConfig :: "DRPDLoggingConfig \<Rightarrow> DRPDLoggingConfig" where
  "normalizeLoggingConfig config =
     (let defaults = buildDefaultLoggingConfig in config
       \<lparr>lc_messagePollFallbackIntervalMs := (case lc_messagePollFallbackIntervalMs config of
            Some ms \<Rightarrow> if ms \<le> 0 then lc_messagePollFallbackIntervalMs defaults else Some ms
          | None \<Rightarrow> lc_messagePollFallbackIntervalMs defaults),
        lc_maxCapturedMessages := (if lc_maxCapturedMessages config \<le> LEGACY_CAPTURE_RETENTION
          then lc_maxCapturedMessages defaults else lc_maxCapturedMessages config),
        lc_storageBackend := (if lc_storageBackend config \<noteq> Backend_memory then lc_storageBackend defaults
          else lc_storageBackend config)\<rparr>)"

end
