(* ===== verification/Device_State.thy ===== *)
theory Device_State
  imports Device_Log
begin

text \<open>
  The state of the driver, \<open>DRPDDevice\<close> of \<open>device.ts\<close>: what is known of the device, the events that announce a
  change, and the refreshes that read it. A refresh starts with a guard, waits for the device, and applies the
  answer to the state as it is then: the start and the application are separate functions, so that other steps
  come in between. An answer is an error or a value. The objects the code compares by identity are fresh in
  every answer, so they always count as changed.
\<close>

section \<open>State and events\<close>

record DRPDDeviceState =
  dd_role :: "CCBusRole option"
  dd_ccBusRoleStatus :: "CCBusRoleStatus option"
  dd_analogMonitor :: "AnalogMonitorChannels option"
  dd_vbusInfo :: "VBusInfo option"
  dd_captureEnabled :: "OnOffState option"
  dd_triggerInfo :: "TriggerInfo option"
  dd_sinkInfo :: "SinkInfo option"
  dd_sinkPdoList :: "SinkPdo option list option"
  dd_sinkEprEnabled :: "bool option"
  dd_logSelection :: DRPDLogSelectionState

definition initial_state :: DRPDDeviceState where
  "initial_state = \<lparr>dd_role = None, dd_ccBusRoleStatus = None, dd_analogMonitor = None, dd_vbusInfo = None,
     dd_captureEnabled = None, dd_triggerInfo = None, dd_sinkInfo = None, dd_sinkPdoList = None, dd_sinkEprEnabled = None,
     dd_logSelection = empty_selection\<rparr>"

datatype state_field =
    F_role | F_ccBusRoleStatus | F_analogMonitor | F_vbusInfo | F_captureEnabled | F_triggerInfo | F_sinkInfo
  | F_sinkPdoList | F_sinkEprEnabled | F_logSelection

datatype device_event =
    Ev_stateUpdated DRPDDeviceState "state_field list"
  | Ev_roleChanged "CCBusRole option" "CCBusRole option"
  | Ev_ccBusStatusChanged "CCBusRoleStatus option"
  | Ev_vbusChanged "VBusInfo option"
  | Ev_captureStatusChanged "OnOffState option"
  | Ev_analogMonitorChanged "AnalogMonitorChannels option"
  | Ev_triggerChanged "TriggerInfo option"
  | Ev_sinkInfoChanged "SinkInfo option"
  | Ev_sinkPdoListChanged "SinkPdo option list option"
  | Ev_stateError device_error

type_synonym announced = "DRPDDeviceState \<times> device_event list"

text \<open>The snapshot of the state that is given out: the copy of the selection has its keys and its two indexes.\<close>

definition getState :: "DRPDDeviceState \<Rightarrow> DRPDDeviceState" where
  "getState st = st\<lparr>dd_logSelection := (dd_logSelection st)\<lparr>ls_revealRevision := None\<rparr>\<rparr>"

definition is_sink :: "DRPDDeviceState \<Rightarrow> bool" where "is_sink st \<longleftrightarrow> dd_role st = Some Role_SINK"

section \<open>Role\<close>

definition drop_sink :: "DRPDDeviceState \<Rightarrow> DRPDDeviceState" where
  "drop_sink st = st\<lparr>dd_sinkInfo := None, dd_sinkPdoList := None, dd_sinkEprEnabled := None\<rparr>"

definition knows_sink :: "DRPDDeviceState \<Rightarrow> bool" where
  "knows_sink st \<longleftrightarrow> dd_sinkInfo st \<noteq> None \<or> dd_sinkPdoList st \<noteq> None \<or> dd_sinkEprEnabled st \<noteq> None"

text \<open>The new role, its events, and whether the EPR policy is to be refreshed.\<close>

definition updateRole :: "CCBusRole \<Rightarrow> DRPDDeviceState \<Rightarrow> announced \<times> bool" where
  "updateRole role st =
     (if dd_role st = Some role then ((st, []), False)
      else let shouldClearSink = (role \<noteq> Role_SINK);
          st' = (if shouldClearSink then drop_sink st else st)\<lparr>dd_role := Some role\<rparr>;
          changed = Ev_roleChanged (Some role) (dd_role st)
        in if shouldClearSink \<and> knows_sink st
           then ((st', [changed] @
             (if dd_sinkInfo st \<noteq> None then [Ev_sinkInfoChanged None] else []) @
             (if dd_sinkPdoList st \<noteq> None then [Ev_sinkPdoListChanged None] else []) @
             [Ev_stateUpdated (getState st') [F_role, F_sinkInfo, F_sinkPdoList, F_sinkEprEnabled]]), False)
           else ((st', [changed, Ev_stateUpdated (getState st') [F_role]]), role = Role_SINK))"

section \<open>Refreshes\<close>

text \<open>What a status flag asks for, and the answer of the device to it.\<close>

datatype refresh =
    R_role | R_roleStatus | R_vbus | R_captureEnabled | R_trigger | R_sinkInfo | R_sinkPdoList | R_sinkEpr

datatype answer =
    A_role CCBusRole
  | A_roleStatus CCBusRoleStatus
  | A_vbus VBusInfo
  | A_captureEnabled OnOffState
  | A_trigger TriggerInfo
  | A_sinkInfo SinkInfo
  | A_sinkPdoList "SinkPdo option list"
  | A_sinkEpr bool

text \<open>The guard at the start: the sink is asked only while the device is known to be one.\<close>

fun refresh_starts :: "refresh \<Rightarrow> DRPDDeviceState \<Rightarrow> bool" where
  "refresh_starts R_sinkInfo st = is_sink st"
| "refresh_starts R_sinkPdoList st = is_sink st"
| "refresh_starts R_sinkEpr st = is_sink st"
| "refresh_starts _ st = True"

text \<open>Whether an answer is one to that question.\<close>

definition answers :: "refresh \<Rightarrow> answer \<Rightarrow> bool" where
  "answers r a \<longleftrightarrow>
     r = (case a of A_role _ \<Rightarrow> R_role | A_roleStatus _ \<Rightarrow> R_roleStatus | A_vbus _ \<Rightarrow> R_vbus
        | A_captureEnabled _ \<Rightarrow> R_captureEnabled | A_trigger _ \<Rightarrow> R_trigger | A_sinkInfo _ \<Rightarrow> R_sinkInfo
        | A_sinkPdoList _ \<Rightarrow> R_sinkPdoList | A_sinkEpr _ \<Rightarrow> R_sinkEpr)"

definition updated :: "device_event list \<Rightarrow> state_field \<Rightarrow> DRPDDeviceState \<Rightarrow> announced" where
  "updated events field st = (st, events @ [Ev_stateUpdated (getState st) [field]])"

text \<open>What follows a change: a refresh that is started, or the announcement of the change once the log has been
  aligned with the capture mode. When the alignment fails the announcement is dropped, with an event for the
  error where the code catches it.\<close>

datatype follow =
    Start refresh
  | Announce (caught: bool) "device_event list" "state_field list"

text \<open>The application of an answer; the refresh of the EPR policy that a new sink role starts is returned, and so is
  the announcement of the capture mode, which waits for the log.\<close>

fun apply_answer :: "answer \<Rightarrow> DRPDDeviceState \<Rightarrow> announced \<times> follow list" where
  "apply_answer (A_role role) st =
     (let (result, refreshEpr) = updateRole role st in (result, if refreshEpr then [Start R_sinkEpr] else []))"
| "apply_answer (A_roleStatus roleStatus) st =
     (if dd_ccBusRoleStatus st = Some roleStatus then (st, [])
      else updated [Ev_ccBusStatusChanged (Some roleStatus)] F_ccBusRoleStatus
        (st\<lparr>dd_ccBusRoleStatus := Some roleStatus\<rparr>), [])"
| "apply_answer (A_vbus vbusInfo) st =
     (updated [Ev_vbusChanged (Some vbusInfo)] F_vbusInfo (st\<lparr>dd_vbusInfo := Some vbusInfo\<rparr>), [])"
| "apply_answer (A_captureEnabled captureEnabled) st =
     (if dd_captureEnabled st = Some captureEnabled then ((st, []), [])
      else ((st\<lparr>dd_captureEnabled := Some captureEnabled\<rparr>, []),
        [Announce True [Ev_captureStatusChanged (Some captureEnabled)] [F_captureEnabled]]))"
| "apply_answer (A_trigger triggerInfo) st =
     (updated [Ev_triggerChanged (Some triggerInfo)] F_triggerInfo (st\<lparr>dd_triggerInfo := Some triggerInfo\<rparr>), [])"
| "apply_answer (A_sinkInfo sinkInfo) st =
     (updated [Ev_sinkInfoChanged (Some sinkInfo)] F_sinkInfo (st\<lparr>dd_sinkInfo := Some sinkInfo\<rparr>), [])"
| "apply_answer (A_sinkPdoList pdoList) st =
     (updated [Ev_sinkPdoListChanged (Some pdoList)] F_sinkPdoList (st\<lparr>dd_sinkPdoList := Some pdoList\<rparr>), [])"
| "apply_answer (A_sinkEpr sinkEprEnabled) st =
     (if dd_sinkEprEnabled st = Some sinkEprEnabled then (st, [])
      else updated [] F_sinkEprEnabled (st\<lparr>dd_sinkEprEnabled := Some sinkEprEnabled\<rparr>), [])"

text \<open>The refreshes a status read starts, in the order of the flags; all are started before any answer.\<close>

definition status_refreshes :: "DeviceStatusFlags \<Rightarrow> refresh list" where
  "status_refreshes flags =
     (if ds_roleChanged flags then [R_role] else []) @
     (if ds_ccBusStatusChanged flags then [R_roleStatus] else []) @
     (if ds_vbusStatusChanged flags then [R_vbus] else []) @
     (if ds_captureStatusChanged flags then [R_captureEnabled] else []) @
     (if ds_triggerStatusChanged flags then [R_trigger] else []) @
     (if ds_sinkStatusChanged flags then [R_sinkInfo] else []) @
     (if ds_sinkPdoListChanged flags then [R_sinkPdoList] else [])"

section \<open>Refreshing everything\<close>

text \<open>The answers to one full refresh; those of the sink are used only for a sink.\<close>

record full_answers =
  fa_role :: "device_error + CCBusRole"
  fa_roleStatus :: "device_error + CCBusRoleStatus"
  fa_analog :: "device_error + AnalogMonitorChannels"
  fa_vbus :: "device_error + VBusInfo"
  fa_captureEnabled :: "device_error + OnOffState"
  fa_trigger :: "device_error + TriggerInfo"
  fa_sinkInfo :: "device_error + SinkInfo"
  fa_pdoList :: "device_error + SinkPdo option list"
  fa_sinkEpr :: "device_error + bool"

type_synonym draft = "DRPDDeviceState \<times> state_field list \<times> device_event list"

text \<open>One settled result: an error is announced, a value that counts as changed is stored.\<close>

definition settle ::
  "device_error + 'a \<Rightarrow> ('a \<Rightarrow> DRPDDeviceState \<Rightarrow> bool) \<Rightarrow> state_field \<Rightarrow> ('a \<Rightarrow> DRPDDeviceState \<Rightarrow> DRPDDeviceState) \<Rightarrow> draft \<Rightarrow> draft" where
  "settle result same field store d =
     (case d of (st, changed, events) \<Rightarrow>
       (case result of
          Inl e \<Rightarrow> (st, changed, events @ [Ev_stateError e])
        | Inr x \<Rightarrow> if same x st then d else (store x st, changed @ [field], events)))"

definition sink_draft :: "full_answers \<Rightarrow> draft \<Rightarrow> draft" where
  "sink_draft fa d =
     settle (fa_sinkEpr fa) (\<lambda>x st. dd_sinkEprEnabled st = Some x) F_sinkEprEnabled (\<lambda>x st. st\<lparr>dd_sinkEprEnabled := Some x\<rparr>)
      (settle (fa_pdoList fa) (\<lambda>x st. False) F_sinkPdoList (\<lambda>x st. st\<lparr>dd_sinkPdoList := Some x\<rparr>)
       (settle (fa_sinkInfo fa) (\<lambda>x st. False) F_sinkInfo (\<lambda>x st. st\<lparr>dd_sinkInfo := Some x\<rparr>) d))"

definition other_draft :: "full_answers \<Rightarrow> draft \<Rightarrow> draft" where
  "other_draft fa d =
     settle (fa_trigger fa) (\<lambda>x st. False) F_triggerInfo (\<lambda>x st. st\<lparr>dd_triggerInfo := Some x\<rparr>)
      (settle (fa_captureEnabled fa) (\<lambda>x st. dd_captureEnabled st = Some x) F_captureEnabled
         (\<lambda>x st. st\<lparr>dd_captureEnabled := Some x\<rparr>)
       (settle (fa_vbus fa) (\<lambda>x st. False) F_vbusInfo (\<lambda>x st. st\<lparr>dd_vbusInfo := Some x\<rparr>)
        (settle (fa_analog fa) (\<lambda>x st. isAnalogMonitorEqual (dd_analogMonitor st) (Some x)) F_analogMonitor
           (\<lambda>x st. st\<lparr>dd_analogMonitor := Some x\<rparr>)
         (settle (fa_roleStatus fa) (\<lambda>x st. dd_ccBusRoleStatus st = Some x) F_ccBusRoleStatus
           (\<lambda>x st. st\<lparr>dd_ccBusRoleStatus := Some x\<rparr>) d))))"

text \<open>The draft is a copy of the state at the start, \<open>before\<close>; the sink fields of a device that is none are dropped
  if the state at the end, \<open>st\<close>, has one.\<close>

definition refresh_draft :: "full_answers \<Rightarrow> DRPDDeviceState \<Rightarrow> DRPDDeviceState \<Rightarrow> draft" where
  "refresh_draft fa before st =
     (let d1 = settle (fa_role fa) (\<lambda>x st. dd_role st = Some x) F_role (\<lambda>x st. st\<lparr>dd_role := Some x\<rparr>) (before, [], []);
          d2 = other_draft fa d1
      in if is_sink (fst d1) then sink_draft fa d2
         else if knows_sink st
         then (case d2 of (upd, changed, events) \<Rightarrow>
           (drop_sink upd, changed @ [F_sinkInfo, F_sinkPdoList, F_sinkEprEnabled], events))
         else d2)"

definition change_events :: "DRPDDeviceState \<Rightarrow> DRPDDeviceState \<Rightarrow> state_field list \<Rightarrow> device_event list" where
  "change_events previous st changed =
     (if F_role \<in> set changed then [Ev_roleChanged (dd_role st) (dd_role previous)] else []) @
     (if F_ccBusRoleStatus \<in> set changed then [Ev_ccBusStatusChanged (dd_ccBusRoleStatus st)] else []) @
     (if F_analogMonitor \<in> set changed then [Ev_analogMonitorChanged (dd_analogMonitor st)] else []) @
     (if F_vbusInfo \<in> set changed then [Ev_vbusChanged (dd_vbusInfo st)] else []) @
     (if F_captureEnabled \<in> set changed then [Ev_captureStatusChanged (dd_captureEnabled st)] else []) @
     (if F_triggerInfo \<in> set changed then [Ev_triggerChanged (dd_triggerInfo st)] else []) @
     (if F_sinkInfo \<in> set changed then [Ev_sinkInfoChanged (dd_sinkInfo st)] else []) @
     (if F_sinkPdoList \<in> set changed then [Ev_sinkPdoListChanged (dd_sinkPdoList st)] else [])"

text \<open>The end of a full refresh replaces the state by the draft, or leaves it when nothing changed; the changes are
  announced once the log has been aligned.\<close>

definition refreshState :: "full_answers \<Rightarrow> DRPDDeviceState \<Rightarrow> DRPDDeviceState \<Rightarrow> announced \<times> follow list" where
  "refreshState fa before st =
     (case refresh_draft fa before st of (upd, changed, events) \<Rightarrow>
        if changed = [] then ((st, events), [])
        else ((upd, events), [Announce False (change_events st upd changed) changed]))"

section \<open>Disconnection\<close>

definition known_fields :: "DRPDDeviceState \<Rightarrow> state_field list" where
  "known_fields st =
     (if dd_role st \<noteq> None then [F_role] else []) @
     (if dd_ccBusRoleStatus st \<noteq> None then [F_ccBusRoleStatus] else []) @
     (if dd_analogMonitor st \<noteq> None then [F_analogMonitor] else []) @
     (if dd_vbusInfo st \<noteq> None then [F_vbusInfo] else []) @
     (if dd_captureEnabled st \<noteq> None then [F_captureEnabled] else []) @
     (if dd_triggerInfo st \<noteq> None then [F_triggerInfo] else []) @
     (if dd_sinkInfo st \<noteq> None then [F_sinkInfo] else []) @
     (if dd_sinkPdoList st \<noteq> None then [F_sinkPdoList] else []) @
     (if dd_sinkEprEnabled st \<noteq> None then [F_sinkEprEnabled] else [])"

definition disconnect_state :: "DRPDDeviceState \<Rightarrow> announced" where
  "disconnect_state st =
     (if known_fields st = [] then (st, []) else (initial_state, [Ev_stateUpdated (getState initial_state) (known_fields st)]))"

section \<open>Polling\<close>

text \<open>The answer to a poll of the analog monitor, after it has been logged.\<close>

definition apply_analog_poll :: "AnalogMonitorChannels \<Rightarrow> DRPDDeviceState \<Rightarrow> announced" where
  "apply_analog_poll next st =
     (if isAnalogMonitorEqual (dd_analogMonitor st) (Some next) then (st, [])
      else updated [Ev_analogMonitorChanged (Some next)] F_analogMonitor (st\<lparr>dd_analogMonitor := Some next\<rparr>))"

text \<open>A change of the capture that the user asks for, after the device took it.\<close>

definition apply_capture_request :: "OnOffState \<Rightarrow> DRPDDeviceState \<Rightarrow> DRPDDeviceState \<Rightarrow> announced" where
  "apply_capture_request enabled before st =
     (if dd_captureEnabled before = Some enabled then (st, [])
      else updated [Ev_captureStatusChanged (Some enabled)] F_captureEnabled (st\<lparr>dd_captureEnabled := Some enabled\<rparr>))"

definition apply_selection :: "DRPDLogSelectionState \<Rightarrow> DRPDDeviceState \<Rightarrow> announced" where
  "apply_selection next st =
     (case updateLogSelectionState next (dd_logSelection st) of (selection, changed) \<Rightarrow>
        if changed then updated [] F_logSelection (st\<lparr>dd_logSelection := selection\<rparr>) else (st, []))"

section \<open>The driver at work\<close>

text \<open>
  The state with what waits: single refreshes for the device, full ones with the state they started from,
  requests of the user with the capture mode before them, and announcements for the log. The flag tells that
  an alignment of the log has failed.
\<close>

record driver =
  dr_state :: DRPDDeviceState
  dr_waiting :: "refresh list"
  dr_full :: "DRPDDeviceState list"
  dr_requests :: "(OnOffState \<times> DRPDDeviceState) list"
  dr_announce :: "(bool \<times> device_event list \<times> state_field list) list"
  dr_events :: "device_event list"
  dr_lost :: bool

definition put_result :: "announced \<Rightarrow> driver \<Rightarrow> driver" where
  "put_result result d = d\<lparr>dr_state := fst result, dr_events := dr_events d @ snd result\<rparr>"

definition start_refreshes :: "refresh list \<Rightarrow> driver \<Rightarrow> driver" where
  "start_refreshes rs d = d\<lparr>dr_waiting := dr_waiting d @ filter (\<lambda>r. refresh_starts r (dr_state d)) rs\<rparr>"

fun follow_up :: "follow list \<Rightarrow> driver \<Rightarrow> driver" where
  "follow_up [] d = d"
| "follow_up (Start r # fs) d = follow_up fs (start_refreshes [r] d)"
| "follow_up (Announce c events changed # fs) d = follow_up fs (d\<lparr>dr_announce := dr_announce d @ [(c, events, changed)]\<rparr>)"

definition new_driver :: driver where
  "new_driver = \<lparr>dr_state = initial_state, dr_waiting = [], dr_full = [], dr_requests = [], dr_announce = [],
     dr_events = [], dr_lost = False\<rparr>"

inductive driver_step :: "driver \<Rightarrow> driver \<Rightarrow> bool" where
  read_status: "driver_step d (start_refreshes (status_refreshes flags) d)"
| answered: "r \<in> set (dr_waiting d) \<Longrightarrow> answers r a \<Longrightarrow> apply_answer a (dr_state d) = (result, later) \<Longrightarrow>
    driver_step d (follow_up later (put_result result (d\<lparr>dr_waiting := remove1 r (dr_waiting d)\<rparr>)))"
| failed: "r \<in> set (dr_waiting d) \<Longrightarrow>
    driver_step d (put_result (dr_state d, [Ev_stateError e]) (d\<lparr>dr_waiting := remove1 r (dr_waiting d)\<rparr>))"
| start_full: "driver_step d (d\<lparr>dr_full := dr_full d @ [dr_state d]\<rparr>)"
| end_full: "before \<in> set (dr_full d) \<Longrightarrow> refreshState fa before (dr_state d) = (result, later) \<Longrightarrow>
    driver_step d (follow_up later (put_result result (d\<lparr>dr_full := remove1 before (dr_full d)\<rparr>)))"
| request_capture: "driver_step d (d\<lparr>dr_requests := dr_requests d @ [(enabled, dr_state d)]\<rparr>)"
| capture_set: "(enabled, before) \<in> set (dr_requests d) \<Longrightarrow>
    driver_step d (put_result (apply_capture_request enabled before (dr_state d))
      (d\<lparr>dr_requests := remove1 (enabled, before) (dr_requests d)\<rparr>))"
| capture_refused: "(enabled, before) \<in> set (dr_requests d) \<Longrightarrow>
    driver_step d (d\<lparr>dr_requests := remove1 (enabled, before) (dr_requests d)\<rparr>)"
| log_aligned: "dr_announce d = as @ (c, events, changed) # bs \<Longrightarrow>
    driver_step d (put_result (dr_state d, events @ [Ev_stateUpdated (getState (dr_state d)) changed]) (d\<lparr>dr_announce := as @ bs\<rparr>))"
| log_failed: "dr_announce d = as @ (c, events, changed) # bs \<Longrightarrow>
    driver_step d (put_result (dr_state d, if c then [Ev_stateError e] else [])
      (d\<lparr>dr_announce := as @ bs, dr_lost := True\<rparr>))"
| poll_analog: "driver_step d (put_result (apply_analog_poll next (dr_state d)) d)"
| select_rows: "driver_step d (put_result (apply_selection next (dr_state d)) d)"
| disconnect: "driver_step d (put_result (disconnect_state (dr_state d)) d)"

end
