(* ===== verification/Device_State_Laws.thy ===== *)
theory Device_State_Laws
  imports Device_State
begin

text \<open>
  What holds of the driver's state: listeners are told of every change, a full refresh that nothing comes
  between leaves the sink fields to a sink, a disconnection leaves the state of a new driver, and the races
  that break the second when something does come between.
\<close>

section \<open>Role and sink\<close>

definition sink_fields_of_sink :: "DRPDDeviceState \<Rightarrow> bool" where
  "sink_fields_of_sink st \<longleftrightarrow> (knows_sink st \<longrightarrow> is_sink st)"

lemma knows_sink_drop [simp]: "\<not> knows_sink (drop_sink st)"
  by (simp add: knows_sink_def drop_sink_def)

lemma drop_sink_sel [simp]:
  "dd_role (drop_sink st) = dd_role st" "dd_logSelection (drop_sink st) = dd_logSelection st"
  by (simp_all add: drop_sink_def)

lemma knows_sink_role [simp]: "knows_sink (st\<lparr>dd_role := r\<rparr>) = knows_sink st"
  by (simp add: knows_sink_def)

lemma updateRole_role: "dd_role (fst (fst (updateRole role st))) = Some role"
  by (simp add: updateRole_def Let_def)

lemma updateRole_sink:
  assumes "sink_fields_of_sink st" shows "sink_fields_of_sink (fst (fst (updateRole role st)))"
  using assms by (auto simp: updateRole_def Let_def sink_fields_of_sink_def is_sink_def)

lemma updateRole_same: "dd_role st = Some role \<Longrightarrow> updateRole role st = ((st, []), False)"
  by (simp add: updateRole_def)

section \<open>What listeners know\<close>

text \<open>The state a listener holds: the one of the last update it was sent.\<close>

fun shown :: "DRPDDeviceState \<Rightarrow> device_event list \<Rightarrow> DRPDDeviceState" where
  "shown st [] = st"
| "shown st (Ev_stateUpdated st' _ # es) = shown st' es"
| "shown st (_ # es) = shown st es"

lemma shown_append [simp]: "shown st (es @ fs) = shown (shown st es) fs"
  by (induction st es rule: shown.induct) auto

lemma getState_initial [simp]: "getState initial_state = initial_state"
  by (simp add: getState_def initial_state_def empty_selection_def)

text \<open>A result is told when its events bring a listener from the state before it to the state after it.\<close>

definition told :: "DRPDDeviceState \<Rightarrow> announced \<Rightarrow> bool" where
  "told st result \<longleftrightarrow> shown (getState st) (snd result) = getState (fst result)"

definition is_announce :: "follow \<Rightarrow> bool" where "is_announce f \<longleftrightarrow> (case f of Announce _ _ _ \<Rightarrow> True | _ \<Rightarrow> False)"

lemma is_announce_simps [simp]: "\<not> is_announce (Start r)" "is_announce (Announce c es fs)"
  by (simp_all add: is_announce_def)

lemma told_same [simp]: "told st (st, [])" "told st (st, [Ev_stateError e])"
  by (simp_all add: told_def)

lemma told_updated [simp]: "told st (updated es field st')"
  by (simp add: told_def updated_def)

lemma told_updateRole [simp]: "told st (fst (updateRole role st))"
  by (simp add: told_def updateRole_def Let_def)

lemma told_answer: "told st (fst (apply_answer a st)) \<or> list_ex is_announce (snd (apply_answer a st))"
  by (cases a) (simp_all add: split_beta)

lemma told_analog [simp]: "told st (apply_analog_poll next st)"
  by (simp add: apply_analog_poll_def)

lemma told_capture [simp]: "told st (apply_capture_request enabled before st)"
  by (simp add: apply_capture_request_def)

lemma told_selection [simp]: "told st (apply_selection next st)"
  by (simp add: apply_selection_def split_beta)

lemma told_disconnect [simp]: "told st (disconnect_state st)"
  by (simp add: disconnect_state_def told_def)

text \<open>The events of a draft are errors; nothing stored leaves its fields empty.\<close>

definition draft_told :: "DRPDDeviceState \<Rightarrow> draft \<Rightarrow> bool" where
  "draft_told before d \<longleftrightarrow> (\<forall>st. shown st (snd (snd d)) = st) \<and> (fst (snd d) = [] \<longrightarrow> fst d = before)"

lemma draft_told_start: "draft_told before (before, [], [])"
  by (simp add: draft_told_def)

lemma draft_told_settle: "draft_told before d \<Longrightarrow> draft_told before (settle result same field store d)"
  by (auto simp: draft_told_def settle_def split: prod.splits sum.splits)

lemma draft_told_sink: "draft_told before d \<Longrightarrow> draft_told before (sink_draft fa d)"
  by (simp add: sink_draft_def draft_told_settle)

lemma draft_told_other: "draft_told before d \<Longrightarrow> draft_told before (other_draft fa d)"
  by (simp add: other_draft_def draft_told_settle)

lemma draft_told_refresh: "draft_told before (refresh_draft fa before st)"
proof -
  let ?d1 = "settle (fa_role fa) (\<lambda>x st. dd_role st = Some x) F_role (\<lambda>x st. st\<lparr>dd_role := Some x\<rparr>) (before, [], [])"
  have d2: "draft_told before (other_draft fa ?d1)"
    by (intro draft_told_other draft_told_settle draft_told_start)
  obtain upd changed events where e: "other_draft fa ?d1 = (upd, changed, events)" by (cases "other_draft fa ?d1")
  show ?thesis
    using d2 draft_told_sink [OF d2, of fa] unfolding refresh_draft_def Let_def
    by (auto simp: e draft_told_def)
qed

lemma told_refreshState: "told st (fst (refreshState fa before st)) \<or> list_ex is_announce (snd (refreshState fa before st))"
  using draft_told_refresh [of before fa st]
  by (auto simp: refreshState_def draft_told_def told_def split: prod.splits)

section \<open>The driver at work\<close>

text \<open>A listener that follows the updates holds the current state, unless an announcement waits or was lost.\<close>

definition settled :: "driver \<Rightarrow> bool" where
  "settled d \<longleftrightarrow> shown initial_state (dr_events d) = getState (dr_state d) \<or> dr_announce d \<noteq> [] \<or> dr_lost d"

lemma start_refreshes_sel [simp]:
  "dr_state (start_refreshes rs d) = dr_state d" "dr_events (start_refreshes rs d) = dr_events d"
  "dr_announce (start_refreshes rs d) = dr_announce d" "dr_lost (start_refreshes rs d) = dr_lost d"
  by (simp_all add: start_refreshes_def)

lemma follow_up_sel [simp]:
  "dr_state (follow_up fs d) = dr_state d" "dr_events (follow_up fs d) = dr_events d" "dr_lost (follow_up fs d) = dr_lost d"
  by (induction fs d rule: follow_up.induct) simp_all

lemma follow_up_announce: "dr_announce d \<noteq> [] \<or> list_ex is_announce fs \<Longrightarrow> dr_announce (follow_up fs d) \<noteq> []"
  by (induction fs d rule: follow_up.induct) auto

lemma put_result_sel [simp]:
  "dr_state (put_result r d) = fst r" "dr_events (put_result r d) = dr_events d @ snd r"
  "dr_announce (put_result r d) = dr_announce d" "dr_lost (put_result r d) = dr_lost d"
  by (simp_all add: put_result_def)

lemma settled_put:
  assumes "settled d" "told (dr_state d) r" "dr_state d' = dr_state d" "dr_events d' = dr_events d"
    "dr_announce d' = dr_announce d" "dr_lost d' = dr_lost d"
  shows "settled (put_result r d')"
  using assms by (auto simp: settled_def told_def)

lemma settled_follow:
  assumes "settled d" "told (dr_state d) (fst r) \<or> list_ex is_announce (snd r)"
    "dr_state d' = dr_state d" "dr_events d' = dr_events d" "dr_announce d' = dr_announce d" "dr_lost d' = dr_lost d"
  shows "settled (follow_up (snd r) (put_result (fst r) d'))"
  using assms follow_up_announce [of "put_result (fst r) d'" "snd r"] by (auto simp: settled_def told_def)

lemma settled_step:
  assumes "driver_step d d'" "settled d" shows "settled d'"
  using assms
proof (induction rule: driver_step.induct)
  case (answered r d a result later)
  have "settled (follow_up (snd (apply_answer a (dr_state d)))
      (put_result (fst (apply_answer a (dr_state d))) (d\<lparr>dr_waiting := remove1 r (dr_waiting d)\<rparr>)))"
    using answered.prems told_answer by (rule settled_follow) simp_all
  then show ?case using answered.hyps by simp
next
  case (end_full before d fa result later)
  have "settled (follow_up (snd (refreshState fa before (dr_state d)))
      (put_result (fst (refreshState fa before (dr_state d))) (d\<lparr>dr_full := remove1 before (dr_full d)\<rparr>)))"
    using end_full.prems told_refreshState by (rule settled_follow) simp_all
  then show ?case using end_full.hyps by simp
next
  case (capture_set enabled before d)
  show ?case by (rule settled_put [OF capture_set.prems]) simp_all
next
  case (failed r d e)
  show ?case by (rule settled_put [OF failed.prems]) simp_all
next
  case (poll_analog d "next")
  show ?case by (rule settled_put [OF poll_analog.prems]) simp_all
next
  case (select_rows d "next")
  show ?case by (rule settled_put [OF select_rows.prems]) simp_all
next
  case (disconnect d)
  show ?case by (rule settled_put [OF disconnect.prems]) simp_all
qed (auto simp: settled_def)

text \<open>C34: whatever the driver and its user do, in any order of answers, a listener that follows the updates holds
  the snapshot of the current state, once no announcement waits for the log and none was lost to an error of it.\<close>

theorem listeners_see_the_state:
  assumes "driver_step\<^sup>*\<^sup>* new_driver d" "dr_announce d = []" "\<not> dr_lost d"
  shows "shown initial_state (dr_events d) = getState (dr_state d)"
proof -
  have "settled d"
    using assms(1)
  proof (induction rule: rtranclp_induct)
    case base
    show ?case by (simp add: settled_def new_driver_def getState_initial)
  next
    case (step d d')
    then show ?case using settled_step by blast
  qed
  then show ?thesis using assms(2,3) by (simp add: settled_def)
qed

theorem listeners_see_the_state_witness:
  "shown initial_state (dr_events (put_result (apply_selection
      (DRPDLogSelectionState.make [''a''] (Some 1) None None) initial_state) new_driver)) =
    getState (fst (apply_selection (DRPDLogSelectionState.make [''a''] (Some 1) None None) initial_state))"
proof -
  let ?r = "apply_selection (DRPDLogSelectionState.make [''a''] (Some 1) None None) (dr_state new_driver)"
  have step: "driver_step\<^sup>*\<^sup>* new_driver (put_result ?r new_driver)"
    by (rule r_into_rtranclp) (rule select_rows)
  show ?thesis
    using listeners_see_the_state [OF step] by (simp add: new_driver_def)
qed

section \<open>A full refresh\<close>

lemma settle_role:
  "(\<And>x st. dd_role (store x st) = dd_role st) \<Longrightarrow> dd_role (fst (settle result same field store d)) = dd_role (fst d)"
  by (auto simp: settle_def split: prod.splits sum.splits)

lemma settle_sink:
  "(\<And>x st. knows_sink (store x st) = knows_sink st) \<Longrightarrow> knows_sink (fst (settle result same field store d)) = knows_sink (fst d)"
  by (auto simp: settle_def split: prod.splits sum.splits)

lemma knows_sink_other [simp]:
  "knows_sink (st\<lparr>dd_ccBusRoleStatus := a\<rparr>) = knows_sink st" "knows_sink (st\<lparr>dd_analogMonitor := b\<rparr>) = knows_sink st"
  "knows_sink (st\<lparr>dd_vbusInfo := c\<rparr>) = knows_sink st" "knows_sink (st\<lparr>dd_captureEnabled := e\<rparr>) = knows_sink st"
  "knows_sink (st\<lparr>dd_triggerInfo := f\<rparr>) = knows_sink st"
  by (simp_all add: knows_sink_def)

lemma sink_draft_role: "dd_role (fst (sink_draft fa d)) = dd_role (fst d)"
  by (simp add: sink_draft_def settle_role)

lemma other_draft_role: "dd_role (fst (other_draft fa d)) = dd_role (fst d)"
  by (simp add: other_draft_def settle_role)

lemma other_draft_sink: "knows_sink (fst (other_draft fa d)) = knows_sink (fst d)"
  by (simp add: other_draft_def settle_sink)

lemma refresh_draft_sink: "sink_fields_of_sink (fst (refresh_draft fa st st))"
proof -
  let ?d1 = "settle (fa_role fa) (\<lambda>x st. dd_role st = Some x) F_role (\<lambda>x st. st\<lparr>dd_role := Some x\<rparr>) (st, [], [])"
  have know: "knows_sink (fst ?d1) = knows_sink st" by (simp add: settle_sink)
  show ?thesis
    by (auto simp: refresh_draft_def Let_def sink_fields_of_sink_def is_sink_def sink_draft_role other_draft_role
        other_draft_sink know split: prod.splits)
qed

lemma refreshState_state: "fst (fst (refreshState fa st st)) = fst (refresh_draft fa st st)"
  using draft_told_refresh [of st fa st] by (auto simp: refreshState_def draft_told_def split: prod.splits)

text \<open>A full refresh that nothing comes between leaves sink fields only in the state of a sink, whatever the
  state was, whatever the device answered and whichever of its requests failed.\<close>

lemma refreshState_leaves_sink_fields_to_a_sink: "sink_fields_of_sink (fst (fst (refreshState fa st st)))"
  by (simp add: refreshState_state refresh_draft_sink)

section \<open>Disconnection\<close>

lemma disconnect_forgets:
  "known_fields (fst (disconnect_state st)) = []" "fst (disconnect_state (fst (disconnect_state st))) = fst (disconnect_state st)"
  by (simp_all add: disconnect_state_def initial_state_def known_fields_def)

section \<open>Races\<close>

text \<open>The guard of a sink refresh is taken when it starts, so the role that the same status read asks for does not
  reach it: the answers in the order of the requests store sink information beside a role that is none.\<close>

definition asked :: "refresh list \<Rightarrow> driver" where
  "asked rs = new_driver\<lparr>dr_state := initial_state\<lparr>dd_role := Some Role_SINK\<rparr>, dr_waiting := rs\<rparr>"

lemma sink_answer_after_role_change:
  "\<exists>d. driver_step\<^sup>*\<^sup>* (asked [R_role, R_sinkInfo]) d \<and> dr_waiting d = [] \<and> \<not> sink_fields_of_sink (dr_state d)"
proof -
  fix info :: SinkInfo
  let ?d0 = "asked [R_role, R_sinkInfo]"
  let ?r1 = "apply_answer (A_role Role_OBSERVER) (dr_state ?d0)"
  let ?d1 = "follow_up (snd ?r1) (put_result (fst ?r1) (?d0\<lparr>dr_waiting := remove1 R_role (dr_waiting ?d0)\<rparr>))"
  let ?r2 = "apply_answer (A_sinkInfo info) (dr_state ?d1)"
  let ?d2 = "follow_up (snd ?r2) (put_result (fst ?r2) (?d1\<lparr>dr_waiting := remove1 R_sinkInfo (dr_waiting ?d1)\<rparr>))"
  have s1: "driver_step ?d0 ?d1"
    by (rule answered [where a = "A_role Role_OBSERVER"]) (simp_all add: asked_def answers_def)
  have w1: "dr_waiting ?d1 = [R_sinkInfo]"
    by (simp add: asked_def updateRole_def Let_def put_result_def knows_sink_def initial_state_def)
  have s2: "driver_step ?d1 ?d2"
    by (rule answered [where a = "A_sinkInfo info"]) (simp_all only: w1, simp_all add: answers_def)
  have w2: "dr_waiting ?d2 = []"
    using w1 by (simp add: put_result_def)
  have bad: "\<not> sink_fields_of_sink (dr_state ?d2)"
    by (simp add: sink_fields_of_sink_def knows_sink_def is_sink_def updated_def asked_def updateRole_def Let_def
        drop_sink_def initial_state_def new_driver_def)
  show ?thesis
    using s1 s2 w2 bad by (meson r_into_rtranclp rtranclp.rtrancl_into_rtrancl)
qed

text \<open>A full refresh replaces the state by a copy taken before it waited: what was selected meanwhile is lost.\<close>

lemma settle_selection:
  "(\<And>x st. dd_logSelection (store x st) = dd_logSelection st) \<Longrightarrow>
    dd_logSelection (fst (settle result same field store d)) = dd_logSelection (fst d)"
  by (auto simp: settle_def split: prod.splits sum.splits)

lemma drafts_selection:
  "dd_logSelection (fst (sink_draft fa d)) = dd_logSelection (fst d)"
  "dd_logSelection (fst (other_draft fa d)) = dd_logSelection (fst d)"
  by (simp_all add: sink_draft_def other_draft_def settle_selection)

lemma refresh_draft_selection: "dd_logSelection (fst (refresh_draft fa before st)) = dd_logSelection before"
proof -
  let ?d1 = "settle (fa_role fa) (\<lambda>x st. dd_role st = Some x) F_role (\<lambda>x st. st\<lparr>dd_role := Some x\<rparr>) (before, [], [])"
  obtain upd changed events where e: "other_draft fa ?d1 = (upd, changed, events)" by (cases "other_draft fa ?d1")
  have "dd_logSelection upd = dd_logSelection before"
    using drafts_selection(2) [of fa ?d1] by (simp add: e settle_selection)
  then show ?thesis by (simp add: refresh_draft_def Let_def e drafts_selection)
qed

lemma refreshState_loses_selection:
  assumes "fst (snd (refresh_draft fa before st)) \<noteq> []"
  shows "dd_logSelection (fst (fst (refreshState fa before st))) = dd_logSelection before"
  using assms refresh_draft_selection [of fa before st] by (auto simp: refreshState_def split: prod.splits)

end
