(* ===== verification/Device_Session.thy ===== *)
theory Device_Session
  imports Device_State
begin

text \<open>
  The driver at work, \<open>device.ts\<close>: its requests to the device, the scheduling of interrupts, the draining of the
  capture queue, the polling timers, and the opening and closing of the log store. What runs without a wait is
  a function; what waits is a step of a machine, so that other steps come in between.
\<close>

section \<open>Requests\<close>

text \<open>Requests made together: the transport answers them in order; the first to fail gives the error.\<close>

fun io_all :: "('a, 's) device_io list \<Rightarrow> ('a list, 's) device_io" where
  "io_all [] = io_return []"
| "io_all (f # fs) = io_map (io_both f (io_all fs)) (\<lambda>(x, xs). x # xs)"

definition fetchSinkPdoList :: "'s drpd_transport \<Rightarrow> (SinkPdo option list, 's) device_io" where
  "fetchSinkPdoList t =
     io_bind (Sink_getAvailablePdoCount t) (\<lambda>pdoCount.
       io_all (map (\<lambda>index. Sink_getPdoAtIndex t (Decimal (int index) 0)) [0..<nat pdoCount]))"

fun ask_refresh :: "'s drpd_transport \<Rightarrow> refresh \<Rightarrow> (answer, 's) device_io" where
  "ask_refresh t R_role = io_map (CCBus_getRole t) A_role"
| "ask_refresh t R_roleStatus = io_map (CCBus_getRoleStatus t) A_roleStatus"
| "ask_refresh t R_vbus = io_map (VBus_getInfo t) A_vbus"
| "ask_refresh t R_captureEnabled = io_map (Capture_getCaptureEnabled t) A_captureEnabled"
| "ask_refresh t R_trigger = io_map (Trigger_getInfo t) A_trigger"
| "ask_refresh t R_sinkInfo = io_map (Sink_getSinkInfo t) A_sinkInfo"
| "ask_refresh t R_sinkPdoList = io_map (fetchSinkPdoList t) A_sinkPdoList"
| "ask_refresh t R_sinkEpr = io_map (Sink_getEprEnabled t) A_sinkEpr"

section \<open>Draining the capture queue\<close>

definition CAPTURE_DRAIN_MAX_MESSAGES_PER_PASS :: nat where "CAPTURE_DRAIN_MAX_MESSAGES_PER_PASS = 64"

text \<open>A pass: the device, the log, the records processed, the messages and the errors announced, and whether the
  pass yields to another one.\<close>

record ('s, 'd) drain_pass =
  dn_device :: 's
  dn_logging :: "'d logging_device"
  dn_records :: "CapturedRecord list"
  dn_captured :: "CapturedMessage list"
  dn_errors :: "device_error list"
  dn_yielded :: bool

definition drain_error :: "device_error \<Rightarrow> 's \<Rightarrow> ('s, 'd) drain_pass \<Rightarrow> ('s, 'd) drain_pass" where
  "drain_error e s d = d\<lparr>dn_device := s, dn_errors := dn_errors d @ [e]\<rparr>"

definition drain_record ::
  "'d sqlite \<Rightarrow> (nat \<Rightarrow> int) \<Rightarrow> CapturedRecord \<Rightarrow> 's \<Rightarrow> ('s, 'd) drain_pass \<Rightarrow> ('s, 'd) drain_pass" where
  "drain_record sq now captured s d =
     d\<lparr>dn_device := s,
       dn_logging := logCapturedRecord sq (now (length (dn_records d))) captured (dn_logging d),
       dn_records := dn_records d @ [captured],
       dn_captured := (case captured of Captured_message m \<Rightarrow> dn_captured d @ [m] | Captured_event _ \<Rightarrow> dn_captured d)\<rparr>"

text \<open>The two loops: with no record left of the last count, the count is read again.\<close>

function drain_loop ::
  "(bytes \<Rightarrow> string) \<Rightarrow> 'd sqlite \<Rightarrow> (nat \<Rightarrow> int) \<Rightarrow> 's drpd_transport \<Rightarrow> nat \<Rightarrow> ('s, 'd) drain_pass \<Rightarrow> ('s, 'd) drain_pass" where
  "drain_loop decode sq now t remaining d =
     (if remaining = 0 then
        (case Capture_getCapturedMessageCount t (dn_device d) of
           (Inl e, s) \<Rightarrow> drain_error e s d
         | (Inr captureCount, s) \<Rightarrow>
             if captureCount \<le> 0 then d\<lparr>dn_device := s\<rparr>
             else drain_loop decode sq now t (nat captureCount) (d\<lparr>dn_device := s\<rparr>))
      else
        (case Capture_getNextCapturedMessage decode t (dn_device d) of
           (Inl e, s) \<Rightarrow> drain_error e s d
         | (Inr captured, s) \<Rightarrow>
             let d' = drain_record sq now captured s d
             in if length (dn_records d') \<ge> CAPTURE_DRAIN_MAX_MESSAGES_PER_PASS then d'\<lparr>dn_yielded := True\<rparr>
                else drain_loop decode sq now t (remaining - 1) d'))"
  by pat_completeness auto

termination
  by (relation "measures [\<lambda>(_, _, _, _, _, d). CAPTURE_DRAIN_MAX_MESSAGES_PER_PASS - length (dn_records d),
      \<lambda>(_, _, _, _, remaining, _). if remaining = 0 then 1 else 0]")
    (auto simp: drain_record_def)

declare drain_loop.simps [simp del]

text \<open>The cycle time of the capture is read first, when it is not known.\<close>

definition read_cycle_time :: "'s drpd_transport \<Rightarrow> ('s, 'd) drain_pass \<Rightarrow> ('s, 'd) drain_pass" where
  "read_cycle_time t d =
     (if dl_captureCycleTimeNs (ld_log (dn_logging d)) \<noteq> None then d
      else case Capture_getCycleTimeNs t (dn_device d) of
        (Inl e, s) \<Rightarrow> drain_error e s d
      | (Inr ns, s) \<Rightarrow> d\<lparr>dn_device := s,
          dn_logging := (dn_logging d)\<lparr>ld_log := (ld_log (dn_logging d))\<lparr>dl_captureCycleTimeNs := Some ns\<rparr>\<rparr>\<rparr>)"

definition new_pass :: "'s \<Rightarrow> 'd logging_device \<Rightarrow> ('s, 'd) drain_pass" where
  "new_pass s ld = \<lparr>dn_device = s, dn_logging = ld, dn_records = [], dn_captured = [], dn_errors = [], dn_yielded = False\<rparr>"

definition drain_captured ::
  "(bytes \<Rightarrow> string) \<Rightarrow> 'd sqlite \<Rightarrow> (nat \<Rightarrow> int) \<Rightarrow> 's drpd_transport \<Rightarrow> 's \<Rightarrow> 'd logging_device \<Rightarrow> ('s, 'd) drain_pass" where
  "drain_captured decode sq now t s ld = drain_loop decode sq now t 0 (read_cycle_time t (new_pass s ld))"

text \<open>The end of \<open>processDeviceStatusUpdate\<close>: the queue is drained only when the status read says so.\<close>

definition drain_after_status ::
  "DeviceStatusFlags \<Rightarrow> (bytes \<Rightarrow> string) \<Rightarrow> 'd sqlite \<Rightarrow> (nat \<Rightarrow> int) \<Rightarrow> 's drpd_transport \<Rightarrow> 's \<Rightarrow> 'd logging_device \<Rightarrow>
    ('s, 'd) drain_pass" where
  "drain_after_status flags decode sq now t s ld =
     (if ds_messageReceived flags then drain_captured decode sq now t s ld else new_pass s ld)"

section \<open>Interrupts\<close>

text \<open>The scheduling of the status reads: the flag for an interrupt that waits, the read in flight and the timer that
  starts the next one. The number of reads started and the flag \<open>is_unserved\<close> are for the specification: it says
  that an interrupt came, or a pass yielded, since the last read was started.\<close>

record interrupt_state =
  is_pending :: bool
  is_inFlight :: bool
  is_timer :: bool
  is_reads :: nat
  is_unserved :: bool

datatype interrupt_event =
    Interrupt
  | Pass_yields
  | Poll_yields
  | Read_done
  | Timer_fires
  | Disconnected

definition no_interrupts :: interrupt_state where
  "no_interrupts = \<lparr>is_pending = False, is_inFlight = False, is_timer = False, is_reads = 0, is_unserved = False\<rparr>"

definition scheduleInterruptRefresh :: "interrupt_state \<Rightarrow> interrupt_state" where
  "scheduleInterruptRefresh i =
     (if is_inFlight i then i
      else i\<lparr>is_pending := False, is_inFlight := True, is_reads := is_reads i + 1, is_unserved := False\<rparr>)"

text \<open>An event, where it can happen: a pass of the read in flight yields, or one of a poll does, which starts nothing; the
  read ends; the timer fires.\<close>

fun interrupt_step :: "interrupt_event \<Rightarrow> interrupt_state \<Rightarrow> interrupt_state option" where
  "interrupt_step Interrupt i = Some (scheduleInterruptRefresh (i\<lparr>is_pending := True, is_unserved := True\<rparr>))"
| "interrupt_step Pass_yields i =
     (if is_inFlight i then Some (i\<lparr>is_pending := True, is_unserved := True\<rparr>) else None)"
| "interrupt_step Poll_yields i = Some (i\<lparr>is_pending := True\<rparr>)"
| "interrupt_step Read_done i =
     (if is_inFlight i
      then let i' = i\<lparr>is_inFlight := False\<rparr> in Some (if \<not> is_pending i' \<or> is_timer i' then i' else i'\<lparr>is_timer := True\<rparr>)
      else None)"
| "interrupt_step Timer_fires i =
     (if is_timer i then Some (scheduleInterruptRefresh (i\<lparr>is_timer := False\<rparr>)) else None)"
| "interrupt_step Disconnected i = Some (i\<lparr>is_timer := False, is_unserved := False\<rparr>)"

fun interrupt_run :: "interrupt_event list \<Rightarrow> interrupt_state \<Rightarrow> interrupt_state option" where
  "interrupt_run [] i = Some i"
| "interrupt_run (e # es) i = Option.bind (interrupt_step e i) (interrupt_run es)"

section \<open>Polling timers\<close>

text \<open>The three timers with the intervals they run at, and the intervals to start them with.\<close>

record polling =
  pl_isConnected :: bool
  pl_analogMonitorTimer :: "rat option"
  pl_analogMonitorIntervalMs :: rat
  pl_captureDrainTimer :: "rat option"
  pl_captureDrainIntervalMs :: rat
  pl_clockSyncTimer :: "rat option"

definition startAnalogMonitorPolling :: "rat \<Rightarrow> polling \<Rightarrow> polling" where
  "startAnalogMonitorPolling intervalMs p =
     p\<lparr>pl_analogMonitorIntervalMs := intervalMs, pl_analogMonitorTimer := Some intervalMs\<rparr>"

definition setAnalogMonitorPollingInterval :: "rat \<Rightarrow> polling \<Rightarrow> polling" where
  "setAnalogMonitorPollingInterval intervalMs p =
     (let p' = p\<lparr>pl_analogMonitorIntervalMs := intervalMs\<rparr>
      in if pl_analogMonitorTimer p' \<noteq> None then startAnalogMonitorPolling intervalMs p' else p')"

definition startCaptureDrainPolling :: "rat \<Rightarrow> polling \<Rightarrow> polling" where
  "startCaptureDrainPolling intervalMs p =
     p\<lparr>pl_captureDrainIntervalMs := intervalMs, pl_captureDrainTimer := Some intervalMs\<rparr>"

definition setCaptureDrainPollingInterval :: "rat \<Rightarrow> polling \<Rightarrow> polling" where
  "setCaptureDrainPollingInterval intervalMs p =
     (let p' = p\<lparr>pl_captureDrainIntervalMs := intervalMs\<rparr>
      in if pl_captureDrainTimer p' \<noteq> None then startCaptureDrainPolling intervalMs p' else p')"

definition refreshClockSyncScheduling :: "DRPDLoggingConfig \<Rightarrow> polling \<times> device_log \<Rightarrow> polling \<times> device_log" where
  "refreshClockSyncScheduling config = (\<lambda>(p, dl).
     if \<not> pl_isConnected p \<or> \<not> lc_clockSyncEnabled config
     then (p\<lparr>pl_clockSyncTimer := None\<rparr>, if lc_clockSyncEnabled config then dl else dl\<lparr>dl_clockSync := None\<rparr>)
     else (p\<lparr>pl_clockSyncTimer := Some (or_default (lc_clockSyncResyncIntervalMs config) 0)\<rparr>, dl))"

text \<open>The start of \<open>handleConnect\<close>, its end after the connect tasks, and the disconnection, which also forgets the
  stream of timestamps and the clock.\<close>

definition connect_begins :: "polling \<Rightarrow> polling" where "connect_begins p = p\<lparr>pl_isConnected := True\<rparr>"

definition connect_tasks_done :: "DRPDLoggingConfig \<Rightarrow> polling \<times> device_log \<Rightarrow> polling \<times> device_log" where
  "connect_tasks_done config pd =
     (if pl_isConnected (fst pd)
      then apfst (\<lambda>p. startCaptureDrainPolling (pl_captureDrainIntervalMs p)
             (startAnalogMonitorPolling (pl_analogMonitorIntervalMs p) p)) (refreshClockSyncScheduling config pd)
      else pd)"

definition handleDisconnect :: "polling \<times> device_log \<Rightarrow> polling \<times> device_log" where
  "handleDisconnect = (\<lambda>(p, dl).
     (p\<lparr>pl_isConnected := False, pl_clockSyncTimer := None, pl_analogMonitorTimer := None, pl_captureDrainTimer := None\<rparr>,
      dl\<lparr>dl_started := False, dl_activeDisplayEpochStartUs := None, dl_pendingDisplayEpochReset := False,
         dl_lastKnownDeviceTimestampUs := None, dl_captureCycleTimeNs := None, dl_clockSync := None\<rparr>))"

section \<open>Configuring the log\<close>

text \<open>The configuration in force: capture keeps the log enabled.\<close>

definition configured :: "OnOffState option \<Rightarrow> DRPDLoggingConfig \<Rightarrow> DRPDLoggingConfig" where
  "configured captureEnabled config =
     (let c = normalizeLoggingConfig config
      in if captureEnabled = Some OnOff_ON \<and> \<not> lc_enabled c then c\<lparr>lc_enabled := True\<rparr> else c)"

datatype log_action = Stop_logging | Close_store | Start_logging

text \<open>What a change of the configuration does to the log, in order.\<close>

definition configure_actions :: "DRPDLoggingConfig \<Rightarrow> DRPDLoggingConfig \<Rightarrow> bool \<Rightarrow> log_action list" where
  "configure_actions previous config loggingStarted =
     (let storageBackendChanged = (lc_storageBackend previous \<noteq> lc_storageBackend config)
      in if loggingStarted \<or> storageBackendChanged
         then [Stop_logging] @ (if storageBackendChanged then [Close_store] else []) @
           (if lc_enabled config then [Start_logging] else [])
         else [])"

text \<open>The alignment of the log with the capture mode: the configuration that is set first, if any, and whether the
  log is then to be started or stopped when it is not so already.\<close>

definition reconcileCaptureMode ::
  "OnOffState option \<Rightarrow> DRPDLoggingConfig \<Rightarrow> DRPDLoggingConfig option \<times> (bool \<Rightarrow> log_action list)" where
  "reconcileCaptureMode captureEnabled config =
     (case captureEnabled of
        None \<Rightarrow> (None, \<lambda>_. [])
      | Some OnOff_ON \<Rightarrow> (if lc_enabled config then None else Some (config\<lparr>lc_enabled := True\<rparr>),
          \<lambda>loggingStarted. if loggingStarted then [] else [Start_logging])
      | Some OnOff_OFF \<Rightarrow> (None, \<lambda>loggingStarted. if loggingStarted then [Stop_logging] else []))"

text \<open>What a request of the user to capture does to the log before and after the device takes it.\<close>

definition setCaptureEnabled_actions ::
  "OnOffState \<Rightarrow> DRPDLoggingConfig \<Rightarrow> DRPDLoggingConfig option \<times> (bool \<Rightarrow> log_action list) \<times> log_action list" where
  "setCaptureEnabled_actions enabled config =
     (case enabled of
        OnOff_ON \<Rightarrow> (if lc_enabled config then None else Some (config\<lparr>lc_enabled := True\<rparr>),
          \<lambda>loggingStarted. if loggingStarted then [] else [Start_logging], [])
      | OnOff_OFF \<Rightarrow> (None, \<lambda>_. [], [Stop_logging]))"

section \<open>Opening and closing the log store\<close>

text \<open>
  The stores are numbered as they are created. A store that is being opened carries the generation of its start;
  a close makes the ones before it invalid. A start waits for the opening it found or made. A close waits for
  the store it found: \<open>ls_closing\<close> holds those. \<open>ls_overlap\<close> is for the specification: two closes of one store ran at
  the same time.
\<close>

datatype start_task = Waits_for nat | Store_ready

record log_session =
  ls_enabled :: bool
  ls_loggingStarted :: bool
  ls_starting :: "start_task option"
  ls_logStore :: "nat option"
  ls_opening :: "(nat \<times> nat) option"
  ls_generation :: nat
  ls_created :: nat
  ls_closing :: "nat list"
  ls_closed :: "nat list"
  ls_overlap :: bool

definition no_log :: "bool \<Rightarrow> log_session" where
  "no_log enabled = \<lparr>ls_enabled = enabled, ls_loggingStarted = False, ls_starting = None, ls_logStore = None,
     ls_opening = None, ls_generation = 0, ls_created = 0, ls_closing = [], ls_closed = [], ls_overlap = False\<rparr>"

definition ensureLogStoreOpen :: "log_session \<Rightarrow> log_session" where
  "ensureLogStoreOpen l =
     (if ls_logStore l \<noteq> None \<or> ls_opening l \<noteq> None then l
      else l\<lparr>ls_opening := Some (ls_generation l, ls_created l), ls_created := ls_created l + 1\<rparr>)"

definition startLogging :: "log_session \<Rightarrow> log_session" where
  "startLogging l =
     (if ls_loggingStarted l \<or> \<not> ls_enabled l \<or> ls_starting l \<noteq> None then l
      else let l' = ensureLogStoreOpen l in
        l'\<lparr>ls_starting := Some (case ls_logStore l of
           Some _ \<Rightarrow> Store_ready
         | None \<Rightarrow> (case ls_opening l' of Some (_, n) \<Rightarrow> Waits_for n | None \<Rightarrow> Store_ready))\<rparr>)"

definition opened :: "log_session \<Rightarrow> log_session" where
  "opened l =
     (case ls_starting l of
        Some (Waits_for n) \<Rightarrow> l\<lparr>ls_starting := Some Store_ready\<rparr>
      | _ \<Rightarrow> l)"

definition begin_close :: "log_session \<Rightarrow> log_session" where
  "begin_close l =
     (let l' = l\<lparr>ls_generation := ls_generation l + 1\<rparr> in
      (case ls_logStore l of
         None \<Rightarrow> l'
       | Some n \<Rightarrow> l'\<lparr>ls_closing := ls_closing l @ [n], ls_overlap := ls_overlap l \<or> ls_closing l \<noteq> []\<rparr>))"

text \<open>The end of a start that failed: its opening raised an error.\<close>

definition start_failed :: "log_session \<Rightarrow> log_session" where
  "start_failed l =
     (case ls_starting l of
        Some (Waits_for n) \<Rightarrow> (begin_close l)\<lparr>ls_starting := None, ls_loggingStarted := False\<rparr>
      | _ \<Rightarrow> l)"

inductive log_step :: "log_session \<Rightarrow> log_session \<Rightarrow> bool" where
  configure: "log_step l (l\<lparr>ls_enabled := enabled\<rparr>)"
| read_rows: "log_step l (ensureLogStoreOpen l)"
| start: "log_step l (startLogging l)"
| open_installed: "ls_opening l = Some (g, n) \<Longrightarrow> g = ls_generation l \<Longrightarrow>
    log_step l (opened (l\<lparr>ls_opening := None, ls_logStore := Some n\<rparr>))"
| open_invalidated: "ls_opening l = Some (g, n) \<Longrightarrow> g \<noteq> ls_generation l \<Longrightarrow>
    log_step l (opened (l\<lparr>ls_opening := None, ls_closed := ls_closed l @ [n]\<rparr>))"
| open_failed: "ls_opening l = Some (g, n) \<Longrightarrow>
    log_step l (start_failed (l\<lparr>ls_opening := None, ls_closed := ls_closed l @ [n]\<rparr>))"
| start_ends: "ls_starting l = Some Store_ready \<Longrightarrow>
    log_step l (l\<lparr>ls_starting := None, ls_loggingStarted := (ls_loggingStarted l \<or> ls_logStore l \<noteq> None)\<rparr>)"
| stop: "log_step l (l\<lparr>ls_loggingStarted := False\<rparr>)"
| close: "log_step l (begin_close l)"
| close_ends: "n \<in> set (ls_closing l) \<Longrightarrow>
    log_step l (l\<lparr>ls_closing := remove1 n (ls_closing l), ls_closed := ls_closed l @ [n], ls_logStore := None\<rparr>)"

end
