(* ===== verification/Device_Log_Laws.thy ===== *)
theory Device_Log_Laws
  imports Device_Log Log_Store_Laws
begin

text \<open>
  What the logging of the device promises: the order of its own events, marks on the clock of the row they
  belong to, the choice of the clock anchor, and an import that replaces the log.
\<close>

section \<open>The clock anchor\<close>

lemma best_sample_from:
  "best_sample best (map Inr ss) = Inr (foldl better_sample best ss)"
  by (induction ss arbitrary: best) auto

lemma best_sample_error: "best_sample best (map Inr early @ Inl e # rest) = Inl e"
  by (induction early arbitrary: best) auto

lemma better_sample_min:
  "foldl better_sample (Some b) ss = Some c \<Longrightarrow>
     c \<in> set (b # ss) \<and> (\<forall>s \<in> set (b # ss). cs_roundTripUs c \<le> cs_roundTripUs s)"
proof (induction ss arbitrary: b)
  case (Cons s ss)
  have "\<exists>b'. better_sample (Some b) s = Some b' \<and> b' \<in> {b, s} \<and> cs_roundTripUs b' \<le> cs_roundTripUs b \<and>
      cs_roundTripUs b' \<le> cs_roundTripUs s"
    by (simp add: better_sample_def)
  then obtain b' where b': "better_sample (Some b) s = Some b'" "b' \<in> {b, s}" "cs_roundTripUs b' \<le> cs_roundTripUs b"
    "cs_roundTripUs b' \<le> cs_roundTripUs s"
    by blast
  have "foldl better_sample (Some b') ss = Some c"
    using Cons.prems b'(1) by simp
  from Cons.IH[OF this] show ?case
    using b'(2-4) by auto
qed simp

lemma better_sample_Some: "\<exists>c. foldl better_sample (Some b) ss = Some c"
  by (induction ss arbitrary: b) (auto simp: better_sample_def)

text \<open>A clock pass keeps the sample it trusts most. If no query of the timestamp fails, the new anchor is one of
  the five samples and none of them had a shorter round trip; if one fails, the anchor is what it was and the
  error is reported.\<close>

lemma runClockSync_best:
  assumes "samples \<noteq> []" "length samples \<le> CLOCK_SYNC_SAMPLE_COUNT"
  shows "(\<exists>best \<in> set samples. runClockSync (map Inr samples :: (string + DRPDClockSyncSnapshot) list) dl = (dl\<lparr>dl_clockSync := Some best\<rparr>, None) \<and>
      (\<forall>s \<in> set samples. cs_roundTripUs best \<le> cs_roundTripUs s)) \<and>
    (\<forall>early e later. length early < CLOCK_SYNC_SAMPLE_COUNT \<longrightarrow>
      runClockSync (map Inr early @ Inl e # later) dl = (dl, Some (e :: string)))"
proof -
  obtain s ss where ss: "samples = s # ss"
    using assms(1) by (cases samples) auto
  obtain c where c: "foldl better_sample (Some s) ss = Some c"
    using better_sample_Some by blast
  have "runClockSync (map Inr samples :: (string + DRPDClockSyncSnapshot) list) dl = (dl\<lparr>dl_clockSync := Some c\<rparr>, None)"
    using assms(2) c by (simp add: runClockSync_def ss better_sample_def best_sample_from)
  moreover have "c \<in> set samples" "\<forall>s \<in> set samples. cs_roundTripUs c \<le> cs_roundTripUs s"
    using better_sample_min[OF c] by (auto simp: ss)
  moreover have "runClockSync (map Inr early @ Inl e # later) dl = (dl, Some e)" if "length early < CLOCK_SYNC_SAMPLE_COUNT"
    for early and e :: string and later
    using that by (simp add: runClockSync_def take_Cons' best_sample_error)
  ultimately show ?thesis
    by blast
qed

definition fresh_log :: device_log where
  "fresh_log = \<lparr>dl_started = True, dl_activeDisplayEpochStartUs = None, dl_pendingDisplayEpochReset = False,
     dl_lastKnownDeviceTimestampUs = None, dl_captureCycleTimeNs = None, dl_clockSync = None\<rparr>"

section \<open>The store in memory\<close>

text \<open>Inserting a captured message into the list, with the trim that follows.\<close>

lemma insert_memory:
  assumes "memory_ok st" "st_memory st = Some rows"
    and "of_nat (Suc (length (mr_capturedMessages rows))) \<le> lc_maxCapturedMessages (st_config st)"
  shows "insertCapturedMessage sq row st =
    (Inr (), st\<lparr>st_memory := Some (rows\<lparr>mr_capturedMessages :=
       insert_after_equals (mr_capturedMessages rows) (normalizeCapturedMessageForStorage row)\<rparr>)\<rparr>)"
proof -
  have ordered: "in_timeline_order (mr_capturedMessages rows)" and init: "st_initialized st"
    using assms(1,2) by (auto simp: memory_ok_def)
  let ?new = "insert_after_equals (mr_capturedMessages rows) (normalizeCapturedMessageForStorage row)"
  have "length ?new = Suc (length (mr_capturedMessages rows))"
    using insertion_length[OF ordered] by (simp add: insertion_reference[OF ordered])
  then have "trimCapturedMessagesIfNeededMemory (st\<lparr>st_memory := Some (rows\<lparr>mr_capturedMessages := ?new\<rparr>)\<rparr>) =
      st\<lparr>st_memory := Some (rows\<lparr>mr_capturedMessages := ?new\<rparr>)\<rparr>"
    using assms(3) by (simp add: trimCapturedMessagesIfNeededMemory_def Let_def)
  then show ?thesis
    using assms(2) init by (simp add: insertCapturedMessage_def and_then_def ensureInitialized_def
        insertion_reference[OF ordered])
qed

lemma memory_ok_inserted: "memory_ok st \<Longrightarrow> memory_ok (snd (insertCapturedMessage sq row st))"
  using store_step_memory_ok[of st sq "Op_message row"] by simp

lemma mset_insert_after_equals [simp]: "mset (insert_after_equals rows row) = add_mset row (mset rows)"
  by (simp add: insert_after_equals_def)

lemma insert_rows_memory:
  assumes "memory_ok st" "st_memory st = Some rows0"
    and "of_nat (length (mr_capturedMessages rows0) + length rows) \<le> lc_maxCapturedMessages (st_config st)"
  shows "\<exists>kept st'. insert_rows sq rows st = (Inr (), st') \<and> memory_ok st' \<and>
    st_memory st' = Some (rows0\<lparr>mr_capturedMessages := kept\<rparr>) \<and>
    mset kept = mset (mr_capturedMessages rows0) + mset (map normalizeCapturedMessageForStorage rows)"
  using assms
proof (induction rows arbitrary: st rows0)
  case Nil
  then show ?case
    by (auto simp: done_with_def intro!: exI[of _ "mr_capturedMessages rows0"])
next
  case (Cons row rows)
  let ?kept = "insert_after_equals (mr_capturedMessages rows0) (normalizeCapturedMessageForStorage row)"
  let ?st = "st\<lparr>st_memory := Some (rows0\<lparr>mr_capturedMessages := ?kept\<rparr>)\<rparr>"
  have room: "of_nat (Suc (length (mr_capturedMessages rows0))) \<le> lc_maxCapturedMessages (st_config st)"
    using Cons.prems(3) by simp
  have step: "insertCapturedMessage sq row st = (Inr (), ?st)"
    by (rule insert_memory[OF Cons.prems(1,2) room])
  have ok: "memory_ok ?st"
    using memory_ok_inserted[OF Cons.prems(1), of sq row] by (simp add: step)
  have size: "length ?kept = Suc (length (mr_capturedMessages rows0))"
    by (metis mset_insert_after_equals size_add_mset size_mset)
  obtain kept st' where rest: "insert_rows sq rows ?st = (Inr (), st')" "memory_ok st'"
    "st_memory st' = Some (rows0\<lparr>mr_capturedMessages := kept\<rparr>)"
    "mset kept = mset ?kept + mset (map normalizeCapturedMessageForStorage rows)"
    using Cons.IH[OF ok, of "rows0\<lparr>mr_capturedMessages := ?kept\<rparr>"] Cons.prems(3) size by auto
  show ?case
    using rest step by (intro exI[of _ kept] exI[of _ st']) (simp add: and_then_def)
qed

section \<open>Import\<close>


lemma limits_ok_nonneg: "limits_ok config \<Longrightarrow> 0 \<le> lc_maxCapturedMessages config \<and> 0 \<le> lc_maxAnalogSamples config"
  by (auto simp: limits_ok_def)

definition memory_store :: "table_state log_store" where
  "memory_store = init_store list_sqlite False (new_log_store \<lparr>pc_enabled = None, pc_autoStartOnConnect = None,
       pc_messagePollFallbackIntervalMs = None, pc_clockSyncEnabled = None, pc_clockSyncResyncIntervalMs = None,
       pc_maxAnalogSamples = None, pc_maxCapturedMessages = None, pc_retentionTrimBatchSize = None,
       pc_storageBackend = None\<rparr>)"

lemma memory_store_ok:
  "memory_ok memory_store" "st_memory memory_store = Some \<lparr>mr_analogSamples = [], mr_capturedMessages = []\<rparr>"
  "lc_maxCapturedMessages (st_config memory_store) = 1000000"
proof -
  show "st_memory memory_store = Some \<lparr>mr_analogSamples = [], mr_capturedMessages = []\<rparr>"
    by (simp add: memory_store_def init_store_def new_log_store_def)
  show "lc_maxCapturedMessages (st_config memory_store) = 1000000"
    by (simp add: memory_store_def init_store_def new_log_store_def store_config_def buildDefaultLoggingConfig_def
        limit_or_default_def or_default_def)
  show "memory_ok memory_store"
    using store_config_limits limits_ok_nonneg[OF store_config_limits]
    by (simp add: memory_ok_def memory_store_def init_store_def new_log_store_def in_timeline_order_def limits_ok_def)
qed

definition memory_device :: "table_state logging_device" where
  "memory_device = \<lparr>ld_log = fresh_log, ld_store = Some memory_store, ld_selection = empty_selection, ld_events = []\<rparr>"


section \<open>Marks\<close>

text \<open>A mark stays on the clock of its row. In memory, a mark at a row with a wall-clock time is logged one
  microsecond after it on the device clock, the wall clock and the display clock, directly behind the row on
  the timeline, whatever the present anchor of the clocks is; epoch, last timestamp and anchor stay as they are,
  and the text is plain.\<close>

lemma markLogAt_follows_row:
  assumes "memory_ok st" "st_memory st = Some rows" "ld_store ld = Some st" "lr_wallClockUs row = Some w"
    and "of_nat (Suc (length (mr_capturedMessages rows))) \<le> lc_maxCapturedMessages (st_config st)"
  shows "\<exists>mark ld'. markLogAt sq now locale_text row ld = (None, ld') \<and> ld_log ld' = ld_log ld \<and>
    map_option st_memory (ld_store ld') = Some (Some (rows\<lparr>mr_capturedMessages :=
      insert_after_equals (mr_capturedMessages rows) (normalizeCapturedMessageForStorage mark)\<rparr>)) \<and>
    lr_startTimestampUs mark = lr_startTimestampUs row + 1 \<and> lr_wallClockUs mark = Some (w + 1) \<and>
    lr_displayTimestampUs mark = map_option (\<lambda>t. t + 1) (lr_displayTimestampUs row) \<and> lr_eventText mark = Some ''Mark'' \<and>
    lr_eventType mark = Some ''mark'' \<and> timeline_le row mark \<and> \<not> timeline_le mark row"
proof -
  have init: "st_initialized st"
    using assms(1) by (simp add: memory_ok_def)
  define mark where "mark = fst (significant_event_row now locale_text Event_mark ''Mark'' (mark_after row w) (ld_log ld))"
  have log: "significant_event_row now locale_text Event_mark ''Mark'' (mark_after row w) (ld_log ld) = (mark, ld_log ld)"
    by (simp add: mark_def significant_event_row_def mark_after_def event_wall_clock_def event_timestamp_def
        mark_options_def no_options_def Let_def)
  have columns: "lr_startTimestampUs mark = lr_startTimestampUs row + 1" "lr_wallClockUs mark = Some (w + 1)"
    "lr_displayTimestampUs mark = map_option (\<lambda>t. t + 1) (lr_displayTimestampUs row)" "lr_eventText mark = Some ''Mark''"
    "lr_eventType mark = Some ''mark''"
    by (simp_all add: mark_def significant_event_row_def mark_after_def event_wall_clock_def event_timestamp_def
        mark_options_def no_options_def Let_def event_row_def significant_event_name_def)
  let ?st = "st\<lparr>st_memory := Some (rows\<lparr>mr_capturedMessages :=
      insert_after_equals (mr_capturedMessages rows) (normalizeCapturedMessageForStorage mark)\<rparr>)\<rparr>"
  have insert: "insertCapturedMessage sq mark st = (Inr (), ?st)"
    by (rule insert_memory[OF assms(1,2,5)])
  have flush: "flush_store sq st = (Inr (), st)" "flush_store sq ?st = (Inr (), ?st)"
    using init assms(2) by (simp_all add: memory_flush)
  have options: "eo_allowWithoutLoggingStarted (mark_after row w)" "eo_resetDisplayEpoch (mark_after row w) = Some False"
    by (simp_all add: mark_after_def mark_options_def)
  have "markLogAt sq now locale_text row ld = (None, announce (Log_added_event mark) (ld\<lparr>ld_log := ld_log ld, ld_store := Some ?st\<rparr>))"
    using assms(3,4) flush insert log options by (simp add: markLogAt_def flush_device_def logSignificantEvent_def announce_def)
  moreover have "timeline_le row mark" "\<not> timeline_le mark row"
    using assms(4) columns(2) by (simp_all add: timeline_le_iff)
  ultimately show ?thesis
    using columns by (intro exI[of _ mark]) (simp add: announce_def)
qed

end
