(* ===== verification/Device_Session_Laws.thy ===== *)
theory Device_Session_Laws
  imports Device_Session Device_Log_Laws
begin

text \<open>
  What holds of the driver at work: a request gives an answer of its kind; a pass over the capture queue logs what
  it reads, in order, and is bounded; no interrupt is lost; no log store is lost, and none is used whose opening
  was made invalid.
\<close>

section \<open>Requests\<close>

lemma io_map_Inr: "io_map f g s = (Inr y, s') \<longleftrightarrow> (\<exists>x. f s = (Inr x, s') \<and> y = g x)"
  by (auto simp: io_map_def io_bind_def io_return_def split: prod.splits sum.splits)

lemma ask_refresh_answers: "ask_refresh t r s = (Inr a, s') \<Longrightarrow> answers r a"
  by (cases r) (auto simp: io_map_Inr answers_def)

section \<open>The capture queue\<close>

text \<open>The specification of a pass: the records of the device, logged one after the other.\<close>

fun log_records :: "'d sqlite \<Rightarrow> (nat \<Rightarrow> int) \<Rightarrow> nat \<Rightarrow> CapturedRecord list \<Rightarrow> 'd logging_device \<Rightarrow> 'd logging_device" where
  "log_records sq now n [] ld = ld"
| "log_records sq now n (r # rs) ld = log_records sq now (n + 1) rs (logCapturedRecord sq (now n) r ld)"

fun messages_of :: "CapturedRecord list \<Rightarrow> CapturedMessage list" where
  "messages_of [] = []"
| "messages_of (Captured_message m # rs) = m # messages_of rs"
| "messages_of (Captured_event _ # rs) = messages_of rs"

lemma messages_of_append [simp]: "messages_of (rs @ qs) = messages_of rs @ messages_of qs"
  by (induction rs rule: messages_of.induct) simp_all

lemma log_records_append:
  "log_records sq now n (rs @ [r]) ld = logCapturedRecord sq (now (n + length rs)) r (log_records sq now n rs ld)"
  by (induction rs arbitrary: n ld) simp_all

text \<open>What every step of a pass keeps: the log, the announced messages and the bound follow from the records.\<close>

definition pass_ok :: "'d sqlite \<Rightarrow> (nat \<Rightarrow> int) \<Rightarrow> 'd logging_device \<Rightarrow> ('s, 'd) drain_pass \<Rightarrow> bool" where
  "pass_ok sq now ld d \<longleftrightarrow>
     dn_logging d = log_records sq now 0 (dn_records d) ld \<and> dn_captured d = messages_of (dn_records d)"

lemma pass_ok_device [simp]: "pass_ok sq now ld (d\<lparr>dn_device := s\<rparr>) = pass_ok sq now ld d"
  by (simp add: pass_ok_def)

lemma pass_ok_yielded [simp]: "pass_ok sq now ld (d\<lparr>dn_yielded := y\<rparr>) = pass_ok sq now ld d"
  by (simp add: pass_ok_def)

lemma pass_ok_error [simp]: "pass_ok sq now ld (drain_error e s d) = pass_ok sq now ld d"
  by (simp add: pass_ok_def drain_error_def)

lemma pass_ok_record: "pass_ok sq now ld d \<Longrightarrow> pass_ok sq now ld (drain_record sq now captured s d)"
  by (simp add: pass_ok_def drain_record_def log_records_append split: CapturedRecord.splits)

lemma drain_loop_ok: "pass_ok sq now ld d \<Longrightarrow> pass_ok sq now ld (drain_loop decode sq now t remaining d)"
  by (induction decode sq now t remaining d rule: drain_loop.induct)
    (subst drain_loop.simps, auto simp: Let_def pass_ok_record split: prod.splits sum.splits)

text \<open>How a pass ends.\<close>

definition pass_ends :: "'s drpd_transport \<Rightarrow> ('s, 'd) drain_pass \<Rightarrow> ('s, 'd) drain_pass \<Rightarrow> bool" where
  "pass_ends t d d' \<longleftrightarrow>
     (dn_yielded d' \<and> length (dn_records d') = CAPTURE_DRAIN_MAX_MESSAGES_PER_PASS \<and> dn_errors d' = dn_errors d) \<or>
     (\<not> dn_yielded d' \<and> length (dn_records d') < CAPTURE_DRAIN_MAX_MESSAGES_PER_PASS \<and>
       ((\<exists>e. dn_errors d' = dn_errors d @ [e]) \<or>
        dn_errors d' = dn_errors d \<and>
        (\<exists>s c. Capture_getCapturedMessageCount t s = (Inr c, dn_device d') \<and> c \<le> 0)))"

lemma pass_ends_errors: "dn_errors d1 = dn_errors d \<Longrightarrow> pass_ends t d1 d' \<Longrightarrow> pass_ends t d d'"
  by (simp add: pass_ends_def)

lemma drain_loop_ends:
  assumes "length (dn_records d) < CAPTURE_DRAIN_MAX_MESSAGES_PER_PASS" "\<not> dn_yielded d"
  shows "pass_ends t d (drain_loop decode sq now t remaining d)"
  using assms
proof (induction decode sq now t remaining d rule: drain_loop.induct)
  case (1 decode sq now t remaining d)
  show ?case
  proof (cases "remaining = 0")
    case True
    then show ?thesis
      using 1 by (subst drain_loop.simps)
        (auto simp: pass_ends_def drain_error_def split: prod.splits sum.splits)
  next
    case False
    then show ?thesis
      using 1 by (subst drain_loop.simps)
        (auto simp: pass_ends_def drain_error_def drain_record_def Let_def split: prod.splits sum.splits)
  qed
qed

lemma read_cycle_time_new:
  "dn_records (read_cycle_time t (new_pass s ld)) = []" "dn_captured (read_cycle_time t (new_pass s ld)) = []"
  "\<not> dn_yielded (read_cycle_time t (new_pass s ld))"
  by (auto simp: read_cycle_time_def new_pass_def drain_error_def split: prod.splits sum.splits)


section \<open>Interrupts\<close>

definition interrupt_inv :: "interrupt_state \<Rightarrow> bool" where
  "interrupt_inv i \<longleftrightarrow> (is_unserved i \<longrightarrow> is_pending i \<and> (is_inFlight i \<or> is_timer i))"

lemma interrupt_inv_step: "interrupt_step e i = Some i' \<Longrightarrow> interrupt_inv i \<Longrightarrow> interrupt_inv i'"
  by (cases e) (auto simp: interrupt_inv_def scheduleInterruptRefresh_def Let_def split: if_splits)

lemma interrupt_inv_run: "interrupt_run es i = Some i' \<Longrightarrow> interrupt_inv i \<Longrightarrow> interrupt_inv i'"
  by (induction es i rule: interrupt_run.induct) (auto simp: Option.bind_eq_Some_conv interrupt_inv_step)

text \<open>C36: no interrupt is lost: whatever came before, when an interrupt has come since the last status read was
  started, the end of the read in flight and the timer after it start another one.\<close>

theorem interrupt_is_served:
  assumes "interrupt_run es no_interrupts = Some i" "is_unserved i"
  shows "\<exists>i'. interrupt_run (if is_inFlight i then [Read_done, Timer_fires] else [Timer_fires]) i = Some i' \<and>
    is_reads i' = is_reads i + 1 \<and> \<not> is_unserved i'"
proof -
  have "interrupt_inv i"
    using assms(1) by (rule interrupt_inv_run) (simp add: interrupt_inv_def no_interrupts_def)
  then show ?thesis
    using assms(2) by (auto simp: interrupt_inv_def scheduleInterruptRefresh_def Let_def)
qed

theorem interrupt_is_served_witness:
  "\<exists>i i'. interrupt_run [Interrupt, Interrupt, Pass_yields] no_interrupts = Some i \<and>
    interrupt_run [Read_done, Timer_fires] i = Some i' \<and> is_reads i' = 2 \<and> \<not> is_unserved i'"
proof -
  let ?i = "\<lparr>is_pending = True, is_inFlight = True, is_timer = False, is_reads = 1, is_unserved = True\<rparr>"
  have run: "interrupt_run [Interrupt, Interrupt, Pass_yields] no_interrupts = Some ?i"
    by (simp add: no_interrupts_def scheduleInterruptRefresh_def)
  show ?thesis
    using interrupt_is_served [OF run] run by simp
qed

text \<open>A poll that yields starts nothing: the flag waits for another event.\<close>

lemma poll_yield_starts_nothing:
  "interrupt_step Poll_yields no_interrupts = Some (no_interrupts\<lparr>is_pending := True\<rparr>)"
  "interrupt_step Timer_fires (no_interrupts\<lparr>is_pending := True\<rparr>) = None"
  by (simp_all add: no_interrupts_def)

section \<open>Polling\<close>

definition polling_ok :: "polling \<Rightarrow> bool" where
  "polling_ok p \<longleftrightarrow> pl_isConnected p \<or>
     pl_analogMonitorTimer p = None \<and> pl_captureDrainTimer p = None \<and> pl_clockSyncTimer p = None"

lemma polling_ok_steps:
  "polling_ok (fst (handleDisconnect (p, dl)))" "polling_ok (connect_begins p)"
  "polling_ok p \<Longrightarrow> polling_ok (fst (connect_tasks_done config (p, dl)))"
  "polling_ok p \<Longrightarrow> polling_ok (fst (refreshClockSyncScheduling config (p, dl)))"
  "polling_ok p \<Longrightarrow> polling_ok (setAnalogMonitorPollingInterval ms p)"
  "polling_ok p \<Longrightarrow> polling_ok (setCaptureDrainPollingInterval ms p)"
  by (auto simp: polling_ok_def handleDisconnect_def connect_begins_def connect_tasks_done_def refreshClockSyncScheduling_def
      setAnalogMonitorPollingInterval_def setCaptureDrainPollingInterval_def startAnalogMonitorPolling_def
      startCaptureDrainPolling_def Let_def)

lemma configured_capture: "lc_enabled (configured (Some OnOff_ON) config)"
  by (simp add: configured_def Let_def)

section \<open>The log store\<close>

definition log_inv :: "log_session \<Rightarrow> bool" where
  "log_inv l \<longleftrightarrow>
     (\<forall>g n. ls_opening l = Some (g, n) \<longrightarrow> ls_logStore l = None \<and> g \<le> ls_generation l \<and> n < ls_created l) \<and>
     (\<forall>n. ls_logStore l = Some n \<longrightarrow> n < ls_created l) \<and>
     (\<not> ls_overlap l \<longrightarrow> ls_closing l = [] \<or> (\<exists>n. ls_closing l = [n] \<and> ls_logStore l = Some n)) \<and>
     (\<not> ls_overlap l \<longrightarrow>
       (\<forall>n<ls_created l. n \<in> set (ls_closed l) \<or> ls_logStore l = Some n \<or> (\<exists>g. ls_opening l = Some (g, n))))"

lemma opened_sel [simp]:
  "ls_logStore (opened l) = ls_logStore l" "ls_opening (opened l) = ls_opening l" "ls_generation (opened l) = ls_generation l"
  "ls_created (opened l) = ls_created l" "ls_closing (opened l) = ls_closing l" "ls_closed (opened l) = ls_closed l"
  "ls_overlap (opened l) = ls_overlap l"
  by (auto simp: opened_def split: option.splits start_task.splits)

lemma log_inv_opened [simp]: "log_inv (opened l) = log_inv l"
  by (simp add: log_inv_def)

lemma log_inv_fields [simp]:
  "log_inv (l\<lparr>ls_enabled := b\<rparr>) = log_inv l" "log_inv (l\<lparr>ls_loggingStarted := b\<rparr>) = log_inv l"
  "log_inv (l\<lparr>ls_starting := t\<rparr>) = log_inv l"
  by (simp_all add: log_inv_def)

lemma log_inv_ensure: "log_inv l \<Longrightarrow> log_inv (ensureLogStoreOpen l)"
  by (auto simp: log_inv_def ensureLogStoreOpen_def less_Suc_eq)

lemma log_inv_start: "log_inv l \<Longrightarrow> log_inv (startLogging l)"
  by (simp add: startLogging_def Let_def log_inv_ensure)

lemma log_inv_begin_close: "log_inv l \<Longrightarrow> log_inv (begin_close l)"
  by (auto simp: log_inv_def begin_close_def Let_def le_SucI split: option.splits)

lemma log_inv_start_failed: "log_inv l \<Longrightarrow> log_inv (start_failed l)"
  by (auto simp: start_failed_def log_inv_begin_close split: option.splits start_task.splits)

lemma log_inv_installed:
  "log_inv l \<Longrightarrow> ls_opening l = Some (g, n) \<Longrightarrow> log_inv (l\<lparr>ls_opening := None, ls_logStore := Some n\<rparr>)"
  by (auto simp: log_inv_def)

lemma log_inv_dropped:
  "log_inv l \<Longrightarrow> ls_opening l = Some (g, n) \<Longrightarrow> log_inv (l\<lparr>ls_opening := None, ls_closed := ls_closed l @ [n]\<rparr>)"
  by (auto simp: log_inv_def)

lemma log_inv_closed:
  "log_inv l \<Longrightarrow> n \<in> set (ls_closing l) \<Longrightarrow>
    log_inv (l\<lparr>ls_closing := remove1 n (ls_closing l), ls_closed := ls_closed l @ [n], ls_logStore := None\<rparr>)"
  unfolding log_inv_def by auto

lemma log_inv_step: "log_step l l' \<Longrightarrow> log_inv l \<Longrightarrow> log_inv l'"
  by (induction rule: log_step.induct)
    (simp_all add: log_inv_ensure log_inv_start log_inv_installed log_inv_dropped log_inv_start_failed log_inv_begin_close
      log_inv_closed)

lemma log_inv_steps: "log_step\<^sup>*\<^sup>* l l' \<Longrightarrow> log_inv l \<Longrightarrow> log_inv l'"
  by (induction rule: rtranclp_induct) (auto intro: log_inv_step)

lemma log_inv_new: "log_inv (no_log enabled)"
  by (simp add: log_inv_def no_log_def)

text \<open>C37: no log store is lost: every store the driver created is the one in use, the one being opened, or closed,
  as long as no two closes of a store ran at the same time.\<close>

theorem no_log_store_is_lost:
  assumes "log_step\<^sup>*\<^sup>* (no_log enabled) l" "\<not> ls_overlap l" "n < ls_created l"
  shows "n \<in> set (ls_closed l) \<or> ls_logStore l = Some n \<or> (\<exists>g. ls_opening l = Some (g, n))"
  using log_inv_steps [OF assms(1) log_inv_new] assms(2,3) by (auto simp: log_inv_def)

theorem no_log_store_is_lost_witness:
  "\<exists>l. log_step\<^sup>*\<^sup>* (no_log True) l \<and> 0 < ls_created l \<and>
    (0 \<in> set (ls_closed l) \<or> ls_logStore l = Some 0 \<or> (\<exists>g. ls_opening l = Some (g, 0)))"
proof -
  have step: "log_step\<^sup>*\<^sup>* (no_log True) (startLogging (no_log True))"
    by (rule r_into_rtranclp) (rule start)
  have made: "\<not> ls_overlap (startLogging (no_log True))" "0 < ls_created (startLogging (no_log True))"
    by (simp_all add: startLogging_def ensureLogStoreOpen_def no_log_def Let_def)
  show ?thesis
    using no_log_store_is_lost [OF step made] step made(2) by blast
qed

text \<open>A store that can no longer be installed: it is not in use, and its opening, if it goes on, is invalid.\<close>

definition unusable :: "nat \<Rightarrow> log_session \<Rightarrow> bool" where
  "unusable n l \<longleftrightarrow> n < ls_created l \<and> ls_logStore l \<noteq> Some n \<and>
     (\<forall>g m. ls_opening l = Some (g, m) \<longrightarrow> m = n \<longrightarrow> g < ls_generation l)"

lemma unusable_opened [simp]: "unusable n (opened l) = unusable n l"
  by (simp add: unusable_def)

lemma unusable_fields [simp]:
  "unusable n (l\<lparr>ls_enabled := b\<rparr>) = unusable n l" "unusable n (l\<lparr>ls_loggingStarted := b\<rparr>) = unusable n l"
  "unusable n (l\<lparr>ls_starting := t\<rparr>) = unusable n l"
  by (simp_all add: unusable_def)

lemma unusable_ensure: "unusable n l \<Longrightarrow> unusable n (ensureLogStoreOpen l)"
  by (auto simp: unusable_def ensureLogStoreOpen_def)

lemma unusable_start: "unusable n l \<Longrightarrow> unusable n (startLogging l)"
  by (simp add: startLogging_def Let_def unusable_ensure)

lemma unusable_begin_close: "unusable n l \<Longrightarrow> unusable n (begin_close l)"
  by (auto simp: unusable_def begin_close_def Let_def less_SucI split: option.splits)

lemma unusable_start_failed: "unusable n l \<Longrightarrow> unusable n (start_failed l)"
  by (auto simp: start_failed_def unusable_begin_close split: option.splits start_task.splits)

lemma unusable_step: "log_step l l' \<Longrightarrow> unusable n l \<Longrightarrow> unusable n l'"
proof (induction rule: log_step.induct)
  case (open_failed l g m)
  show ?case
    by (rule unusable_start_failed) (use open_failed.prems in \<open>auto simp: unusable_def\<close>)
qed (simp_all add: unusable_ensure unusable_start unusable_begin_close, auto simp: unusable_def)

text \<open>C38: a store whose opening a close has made invalid is never used, whatever happens afterwards.\<close>

theorem invalidated_open_is_never_installed:
  assumes "log_step\<^sup>*\<^sup>* (no_log enabled) l" "ls_opening l = Some (g, n)" "log_step\<^sup>*\<^sup>* (begin_close l) l'"
  shows "ls_logStore l' \<noteq> Some n"
proof -
  have "unusable n (begin_close l)"
    using log_inv_steps [OF assms(1) log_inv_new] assms(2)
    by (auto simp: log_inv_def unusable_def begin_close_def Let_def)
  with assms(3) have "unusable n l'"
    by (induction rule: rtranclp_induct) (auto intro: unusable_step)
  then show ?thesis by (simp add: unusable_def)
qed

theorem invalidated_open_is_never_installed_witness:
  "ls_logStore (opened ((begin_close (startLogging (no_log True)))\<lparr>ls_opening := None, ls_closed := [0]\<rparr>)) \<noteq> Some 0"
proof -
  let ?l = "startLogging (no_log True)"
  have starts: "log_step\<^sup>*\<^sup>* (no_log True) ?l"
    by (rule r_into_rtranclp) (rule start)
  have open0: "ls_opening ?l = Some (0, 0)"
    by (simp add: startLogging_def ensureLogStoreOpen_def no_log_def Let_def)
  have ends: "log_step (begin_close ?l) (opened ((begin_close ?l)\<lparr>ls_opening := None, ls_closed := ls_closed (begin_close ?l) @ [0]\<rparr>))"
    by (rule open_invalidated [where g = 0])
      (simp_all add: begin_close_def startLogging_def ensureLogStoreOpen_def no_log_def Let_def)
  have none: "ls_closed (begin_close ?l) = []"
    by (simp add: begin_close_def startLogging_def ensureLogStoreOpen_def no_log_def Let_def)
  show ?thesis
    using invalidated_open_is_never_installed [OF starts open0 r_into_rtranclp [where r = log_step, OF ends]]
    by (simp add: none)
qed

text \<open>A restart while the close of a disconnection waits leaves the log started without a store: it logs nothing.\<close>

lemma logging_without_store:
  "\<exists>l. log_step\<^sup>*\<^sup>* (no_log True) l \<and> ls_loggingStarted l \<and> ls_logStore l = None \<and> ls_opening l = None"
proof -
  let ?u = "\<lambda>st lg sg op gn cl cd. \<lparr>ls_enabled = True, ls_loggingStarted = lg, ls_starting = sg, ls_logStore = st,
     ls_opening = op, ls_generation = gn, ls_created = 1, ls_closing = cl, ls_closed = cd, ls_overlap = False\<rparr>"
  note defs = no_log_def startLogging_def ensureLogStoreOpen_def opened_def begin_close_def Let_def
  have "log_step (no_log True) (?u None False (Some (Waits_for 0)) (Some (0, 0)) 0 [] [])"
    using start [of "no_log True"] by (simp add: defs)
  moreover have "log_step (?u None False (Some (Waits_for 0)) (Some (0, 0)) 0 [] []) (?u (Some 0) False (Some Store_ready) None 0 [] [])"
    using open_installed [of "?u None False (Some (Waits_for 0)) (Some (0, 0)) 0 [] []" 0 0] by (simp add: defs)
  moreover have "log_step (?u (Some 0) False (Some Store_ready) None 0 [] []) (?u (Some 0) False (Some Store_ready) None 1 [0] [])"
    using close [of "?u (Some 0) False (Some Store_ready) None 0 [] []"] by (simp add: defs)
  moreover have "log_step (?u (Some 0) False (Some Store_ready) None 1 [0] []) (?u (Some 0) True None None 1 [0] [])"
    using start_ends [of "?u (Some 0) False (Some Store_ready) None 1 [0] []"] by simp
  moreover have "log_step (?u (Some 0) True None None 1 [0] []) (?u None True None None 1 [] [0])"
    using close_ends [of 0 "?u (Some 0) True None None 1 [0] []"] by simp
  ultimately have "log_step\<^sup>*\<^sup>* (no_log True) (?u None True None None 1 [] [0])"
    by (meson r_into_rtranclp rtranclp_trans)
  then show ?thesis by (intro exI conjI) (assumption, simp_all)
qed

end
