(* ===== verification/Rack_Document.thy ===== *)
theory Rack_Document
  imports Js_Double "HOL-Library.AList"
begin

text \<open>
  The rack: the widths and weights of its instruments, \<open>features/rack/layout.ts\<close>, and the stored document,
  \<open>lib/rack/loadRack.ts\<close> over the types of \<open>lib/rack/types.ts\<close>. A weight (\<open>flex\<close>) is \<open>None\<close> when the property is
  missing or not finite. The configuration objects of instruments and devices are opaque; \<open>JSON.parse\<close> of what
  \<open>JSON.stringify\<close> wrote gives the stored value, so the storage holds values; stored values have the declared types
  (others make the migration throw, as an invalid text does), and storing does not fail.
\<close>

section \<open>The document\<close>

record InstrumentResizableConfig =
  rz_minUnits :: "rat option"
  rz_minWidth :: "string option"
  rz_minHeight :: "string option"

record 'c RackInstrument =
  ri_id :: string
  ri_instrumentIdentifier :: string
  ri_fullScreen :: "bool option"
  ri_resizable :: "InstrumentResizableConfig option"
  ri_flex :: "rat option"
  ri_config :: "'c option"

record 'c RackDeviceRecord =
  rd_id :: string
  rd_identifier :: string
  rd_displayName :: string
  rd_vendorId :: int
  rd_productId :: int
  rd_serialNumber :: "string option"
  rd_deviceSerialNumber :: "string option"
  rd_firmwareVersion :: "string option"
  rd_hardwareRevision :: "string option"
  rd_productName :: "string option"
  rd_lastConnectedAtMs :: "rat option"
  rd_config :: "'c option"

record 'c RackRow =
  rw_id :: string
  rw_instruments :: "'c RackInstrument list"
  rw_flex :: "rat option"

record 'c RackDefinition =
  rk_id :: string
  rk_name :: string
  rk_hideHeader :: "bool option"
  rk_totalUnits :: rat
  rk_rows :: "'c RackRow list"

record 'c RackDocument =
  do_racks :: "'c RackDefinition list"
  do_pairedDevices :: "'c RackDeviceRecord list"

section \<open>Widths and weights\<close>

definition HORIZONTAL_UNIT_PX :: rat where "HORIZONTAL_UNIT_PX = 20"

definition MAX_ROW_WIDTH_UNITS :: rat where "MAX_ROW_WIDTH_UNITS = 60"

datatype InstrumentWidth = Width_fixed "rat option" | Width_flex

record Instrument =
  in_defaultWidth :: InstrumentWidth
  in_defaultFlex :: rat
  in_minWidth :: string
  in_minHeight :: string

type_synonym instrument_map = "string \<Rightarrow> Instrument option"

definition sanitizeFlex :: "rat option \<Rightarrow> rat option" where
  "sanitizeFlex value = (case value of Some v \<Rightarrow> if v > 0 then Some v else None | None \<Rightarrow> None)"

definition sanitizeFixedWidthUnits :: "rat option \<Rightarrow> rat" where
  "sanitizeFixedWidthUnits units = (case units of Some u \<Rightarrow> if u \<le> 0 then 1 else u | None \<Rightarrow> 1)"

definition resolveInstrumentWidth :: "'c RackInstrument \<Rightarrow> instrument_map \<Rightarrow> rat \<Rightarrow> InstrumentWidth" where
  "resolveInstrumentWidth instrument instrumentMap maxRowWidthUnits =
     (case map_option in_defaultWidth (instrumentMap (ri_instrumentIdentifier instrument)) of
        None \<Rightarrow> Width_fixed (Some maxRowWidthUnits)
      | Some (Width_fixed units) \<Rightarrow> Width_fixed (Some (sanitizeFixedWidthUnits units))
      | Some Width_flex \<Rightarrow> Width_flex)"

fun fixed_units :: "InstrumentWidth \<Rightarrow> rat \<Rightarrow> rat" where
  "fixed_units Width_flex sum_so_far = sum_so_far"
| "fixed_units (Width_fixed units) sum_so_far = fl (sum_so_far + sanitizeFixedWidthUnits units)"

definition allocateRowInstrumentWidths ::
  "'c RackRow \<Rightarrow> instrument_map \<Rightarrow> rat \<Rightarrow> (string \<times> rat) list option" where
  "allocateRowInstrumentWidths row instrumentMap maxRowWidthUnits =
     (let descriptors = map (\<lambda>i. (i, resolveInstrumentWidth i instrumentMap maxRowWidthUnits)) (rw_instruments row);
          fixedWidthSum = foldl (\<lambda>sum_so_far d. fixed_units (snd d) sum_so_far) 0 descriptors;
          flexCount = length (filter (\<lambda>d. snd d = Width_flex) descriptors);
          remainingWidthUnits = fl (maxRowWidthUnits - fixedWidthSum);
          flexWidthUnits = (if flexCount > 0 then fl (remainingWidthUnits / of_nat flexCount) else 0)
      in if fixedWidthSum > maxRowWidthUnits then None
         else if flexCount > 0 \<and> remainingWidthUnits \<le> 0 then None
         else Some (map (\<lambda>(i, w). (ri_id i, case w of Width_fixed units \<Rightarrow> sanitizeFixedWidthUnits units
           | Width_flex \<Rightarrow> flexWidthUnits)) descriptors))"

definition insertInstrumentIntoRowAtIndex :: "'c RackRow \<Rightarrow> 'c RackInstrument \<Rightarrow> int \<Rightarrow> 'c RackRow" where
  "insertInstrumentIntoRowAtIndex row instrument insertIndex =
     (let clampedIndex = nat (max 0 (min insertIndex (int (length (rw_instruments row)))))
      in row\<lparr>rw_instruments := take clampedIndex (rw_instruments row) @ [instrument] @
           drop clampedIndex (rw_instruments row)\<rparr>)"

definition canInsertInstrumentIntoRow :: "'c RackRow \<Rightarrow> 'c RackInstrument \<Rightarrow> int \<Rightarrow> instrument_map \<Rightarrow> rat \<Rightarrow> bool" where
  "canInsertInstrumentIntoRow row instrument insertIndex instrumentMap maxRowWidthUnits \<longleftrightarrow>
     allocateRowInstrumentWidths (insertInstrumentIntoRowAtIndex row instrument insertIndex) instrumentMap maxRowWidthUnits \<noteq> None"

definition resolveInstrumentFlex :: "'c RackInstrument \<Rightarrow> instrument_map \<Rightarrow> rat" where
  "resolveInstrumentFlex instrument instrumentMap =
     (case sanitizeFlex (ri_flex instrument) of
        Some f \<Rightarrow> f
      | None \<Rightarrow> (case map_option in_defaultFlex (instrumentMap (ri_instrumentIdentifier instrument)) of
          Some f \<Rightarrow> f | None \<Rightarrow> 1))"

definition first_some :: "'a option \<Rightarrow> 'a option \<Rightarrow> 'a \<Rightarrow> 'a" where
  "first_some a b c = (case a of Some x \<Rightarrow> x | None \<Rightarrow> (case b of Some x \<Rightarrow> x | None \<Rightarrow> c))"

definition resolveInstrumentMinimumSize :: "'c RackInstrument \<Rightarrow> instrument_map \<Rightarrow> string \<times> string" where
  "resolveInstrumentMinimumSize instrument instrumentMap =
     (let definition = instrumentMap (ri_instrumentIdentifier instrument)
      in (first_some (Option.bind (ri_resizable instrument) rz_minWidth) (map_option in_minWidth definition) ''10rem'',
          first_some (Option.bind (ri_resizable instrument) rz_minHeight) (map_option in_minHeight definition) ''6rem''))"

fun first_occurrences_of :: "'a list \<Rightarrow> 'a list \<Rightarrow> 'a list" where
  "first_occurrences_of seen [] = rev seen"
| "first_occurrences_of seen (x # xs) = first_occurrences_of (if x \<in> set seen then seen else x # seen) xs"

fun comma_joined :: "string list \<Rightarrow> string" where
  "comma_joined [] = []"
| "comma_joined [s] = s"
| "comma_joined (s # ss) = s @ '', '' @ comma_joined ss"

definition resolveRowMinimumHeight :: "'c RackRow \<Rightarrow> instrument_map \<Rightarrow> string option" where
  "resolveRowMinimumHeight row instrumentMap =
     (let minHeights = first_occurrences_of [] (map (\<lambda>i. snd (resolveInstrumentMinimumSize i instrumentMap)) (rw_instruments row))
      in case minHeights of
           [] \<Rightarrow> None
         | [h] \<Rightarrow> Some h
         | _ \<Rightarrow> Some (''max('' @ comma_joined minHeights @ '')''))"

definition resolveRowFlex :: "'c RackRow \<Rightarrow> rat" where
  "resolveRowFlex row = (case sanitizeFlex (rw_flex row) of Some f \<Rightarrow> f | None \<Rightarrow> 1)"

section \<open>The default document\<close>

definition buildDefaultInstrument :: "string \<Rightarrow> string \<Rightarrow> rat \<Rightarrow> 'c RackInstrument" where
  "buildDefaultInstrument i instrumentIdentifier flex =
     \<lparr>ri_id = i, ri_instrumentIdentifier = instrumentIdentifier, ri_fullScreen = None, ri_resizable = None,
      ri_flex = Some flex, ri_config = None\<rparr>"

definition buildDefaultRackDocument :: "'c RackDocument" where
  "buildDefaultRackDocument = \<lparr>do_racks = [
     \<lparr>rk_id = ''bench-rack-a'', rk_name = ''Bench Rack A'', rk_hideHeader = Some False, rk_totalUnits = 9,
      rk_rows = [
        \<lparr>rw_id = ''row-default-trigger'',
         rw_instruments = [buildDefaultInstrument ''inst-default-timestrip'' ''com.mta.drpd.timestrip'' 100],
         rw_flex = Some (fl (3 / 10))\<rparr>,
        \<lparr>rw_id = ''row-default-log'',
         rw_instruments = [
           buildDefaultInstrument ''inst-default-log'' ''com.mta.drpd.usbpd-log'' 3,
           buildDefaultInstrument ''inst-default-detail'' ''com.mta.drpd.message-detail'' 1],
         rw_flex = Some 1\<rparr>]\<rparr>],
     do_pairedDevices = []\<rparr>"

section \<open>The stored document\<close>

text \<open>What is stored: the paired devices and the sizes of the rack's parts, or a document of an older version, whose
  racks may have no rows and may hold devices. A missing part is \<open>None\<close>, and so is one that is no array where the
  code tests for that.\<close>

record PersistedRackSizingInstrument =
  pi_id :: string
  pi_flex :: "rat option"

record PersistedRackSizingRow =
  pw_id :: string
  pw_flex :: "rat option"
  pw_instruments :: "PersistedRackSizingInstrument list option"

record PersistedRackSizingRack =
  pr_id :: string
  pr_rows :: "PersistedRackSizingRow list option"

type_synonym rack_sizing = "PersistedRackSizingRack list option"

record 'c LegacyRack =
  lk_id :: string
  lk_name :: string
  lk_hideHeader :: "bool option"
  lk_totalUnits :: rat
  lk_rows :: "'c RackRow list option"
  lk_devices :: "'c RackDeviceRecord list option"

record 'c PersistedRackStorage =
  ps_pairedDevices :: "'c RackDeviceRecord list option"
  ps_rackSizing :: "rack_sizing option"
  ps_racks :: "'c LegacyRack list option"

definition sanitizePositiveNumber :: "rat option \<Rightarrow> rat option" where
  "sanitizePositiveNumber value = (case value of Some v \<Rightarrow> if v > 0 then Some v else None | None \<Rightarrow> None)"

definition or_else :: "'a option \<Rightarrow> 'a option \<Rightarrow> 'a option" where
  "or_else a b = (case a of Some x \<Rightarrow> Some x | None \<Rightarrow> b)"

definition inferRackRowFlex :: "'c RackRow \<Rightarrow> rat" where
  "inferRackRowFlex row =
     (let instrumentIdentifiers = set (map ri_instrumentIdentifier (rw_instruments row))
      in if ''com.mta.drpd.usbpd-log'' \<in> instrumentIdentifiers \<or> ''com.mta.drpd.message-detail'' \<in> instrumentIdentifiers
         then 1
         else if ''com.mta.drpd.timestrip'' \<in> instrumentIdentifiers then fl (3 / 10) else fl (22 / 100))"

definition inferRackInstrumentFlex :: "string \<Rightarrow> rat option" where
  "inferRackInstrumentFlex instrumentIdentifier = map_of
     [(''com.mta.drpd.vbus'', 10), (''com.mta.drpd.charge-energy'', 7), (''com.mta.drpd.cc-lines'', 7),
      (''com.mta.drpd.device-status'', 10), (''com.mta.drpd.device-status-panel'', 10),
      (''com.mta.drpd.sink-control'', 15), (''com.mta.drpd.trigger'', 18), (''com.mta.drpd.timestrip'', 100),
      (''com.mta.drpd.usbpd-log'', 3), (''com.mta.drpd.message-detail'', 1)] instrumentIdentifier"

text \<open>The time of the last connection is kept when it is a finite number, the rest as it is.\<close>

definition migrateRackDeviceRecord :: "'c RackDeviceRecord \<Rightarrow> 'c RackDeviceRecord" where
  "migrateRackDeviceRecord device = device\<lparr>rd_lastConnectedAtMs :=
     (case rd_lastConnectedAtMs device of Some ms \<Rightarrow> Some ms | None \<Rightarrow> None)\<rparr>"

definition migrateRackInstrument :: "'c RackInstrument \<Rightarrow> 'c RackInstrument" where
  "migrateRackInstrument instrument = instrument\<lparr>ri_flex :=
     or_else (sanitizePositiveNumber (ri_flex instrument)) (inferRackInstrumentFlex (ri_instrumentIdentifier instrument))\<rparr>"

definition migrateRackRow :: "'c RackRow \<Rightarrow> 'c RackRow" where
  "migrateRackRow row =
     \<lparr>rw_id = rw_id row, rw_instruments = map migrateRackInstrument (rw_instruments row),
      rw_flex = or_else (sanitizePositiveNumber (rw_flex row)) (Some (inferRackRowFlex row))\<rparr>"

definition getMigratedRackRows :: "'c LegacyRack \<Rightarrow> 'c RackRow list" where
  "getMigratedRackRows rack =
     (case lk_rows rack of
        None \<Rightarrow> map migrateRackRow (rk_rows (hd (do_racks buildDefaultRackDocument)))
      | Some rows \<Rightarrow> if rows = [] then map migrateRackRow (rk_rows (hd (do_racks buildDefaultRackDocument)))
          else map migrateRackRow rows)"

definition migrateRackDefinition :: "'c LegacyRack \<Rightarrow> 'c RackDefinition" where
  "migrateRackDefinition rack =
     \<lparr>rk_id = lk_id rack, rk_name = lk_name rack, rk_hideHeader = lk_hideHeader rack,
      rk_totalUnits = lk_totalUnits rack, rk_rows = getMigratedRackRows rack\<rparr>"

text \<open>The devices by their id, in the order of the first mention of an id; a later record replaces an earlier one.\<close>

type_synonym 'c device_map = "(string \<times> 'c RackDeviceRecord) list"

definition put_device :: "'c RackDeviceRecord \<Rightarrow> 'c device_map \<Rightarrow> 'c device_map" where
  "put_device device devices = AList.update (rd_id device) (migrateRackDeviceRecord device) devices"

definition getLegacyRackDevices :: "'c LegacyRack \<Rightarrow> 'c RackDeviceRecord list" where
  "getLegacyRackDevices rack = (case lk_devices rack of Some ds \<Rightarrow> ds | None \<Rightarrow> [])"

definition present :: "'a list option \<Rightarrow> 'a list" where
  "present xs = (case xs of Some ys \<Rightarrow> ys | None \<Rightarrow> [])"

definition migrateRackDocument :: "'c RackDeviceRecord list option \<Rightarrow> 'c LegacyRack list \<Rightarrow> 'c RackDocument" where
  "migrateRackDocument pairedDevices racks =
     \<lparr>do_racks = map migrateRackDefinition racks,
      do_pairedDevices = map snd (fold put_device
        (present pairedDevices @ concat (map getLegacyRackDevices racks)) [])\<rparr>"

definition extractRackSizing :: "'c RackDocument \<Rightarrow> rack_sizing" where
  "extractRackSizing document = Some (map (\<lambda>rack.
     \<lparr>pr_id = rk_id rack, pr_rows = Some (map (\<lambda>row.
       \<lparr>pw_id = rw_id row, pw_flex = sanitizePositiveNumber (rw_flex row),
        pw_instruments = Some (map (\<lambda>instrument.
          \<lparr>pi_id = ri_id instrument, pi_flex = sanitizePositiveNumber (ri_flex instrument)\<rparr>) (rw_instruments row))\<rparr>)
       (rk_rows rack))\<rparr>) (do_racks document))"

text \<open>\<open>new Map\<close> of the entries by their id: the last entry of an id counts.\<close>

definition last_with :: "('a \<Rightarrow> string) \<Rightarrow> 'a list \<Rightarrow> string \<Rightarrow> 'a option" where
  "last_with key xs k = List.find (\<lambda>x. key x = k) (rev xs)"

definition applyInstrumentSizing :: "PersistedRackSizingRow option \<Rightarrow> 'c RackInstrument \<Rightarrow> 'c RackInstrument" where
  "applyInstrumentSizing rowSizing instrument =
     instrument\<lparr>ri_flex := or_else (sanitizePositiveNumber
       (Option.bind (last_with pi_id (present (Option.bind rowSizing pw_instruments)) (ri_id instrument)) pi_flex))
       (ri_flex instrument)\<rparr>"

definition applyRowSizing :: "PersistedRackSizingRack option \<Rightarrow> 'c RackRow \<Rightarrow> 'c RackRow" where
  "applyRowSizing rackSizing row =
     (let rowSizing = last_with pw_id (present (Option.bind rackSizing pr_rows)) (rw_id row)
      in row\<lparr>rw_instruments := map (applyInstrumentSizing rowSizing) (rw_instruments row),
             rw_flex := or_else (sanitizePositiveNumber (Option.bind rowSizing pw_flex)) (rw_flex row)\<rparr>)"

definition applyRackSizing :: "'c RackDocument \<Rightarrow> rack_sizing option \<Rightarrow> 'c RackDocument" where
  "applyRackSizing document sizing = document\<lparr>do_racks := map (\<lambda>rack.
     let rackSizing = last_with pr_id (present (Option.bind sizing id)) (rk_id rack)
     in rack\<lparr>rk_rows := map (applyRowSizing rackSizing) (rk_rows rack)\<rparr>) (do_racks document)\<rparr>"

definition migratePersistedRackStorage :: "'c PersistedRackStorage \<Rightarrow> 'c RackDocument" where
  "migratePersistedRackStorage storage =
     (let legacyDocument = map_option (migrateRackDocument (ps_pairedDevices storage)) (ps_racks storage);
          sizing = (case ps_rackSizing storage of Some s \<Rightarrow> Some s | None \<Rightarrow> map_option extractRackSizing legacyDocument);
          devices = (case legacyDocument of Some d \<Rightarrow> do_pairedDevices d | None \<Rightarrow> []) @ present (ps_pairedDevices storage)
      in (applyRackSizing buildDefaultRackDocument sizing)\<lparr>do_pairedDevices := map snd (fold put_device devices [])\<rparr>)"

definition toPersistedRackStorage :: "'c RackDocument \<Rightarrow> 'c PersistedRackStorage" where
  "toPersistedRackStorage document =
     \<lparr>ps_pairedDevices = Some (map migrateRackDeviceRecord (do_pairedDevices document)),
      ps_rackSizing = Some (extractRackSizing document), ps_racks = None\<rparr>"

text \<open>The storage: none in this environment, no document, a text that is no document, or a stored one. Loading also
  stores the document it read.\<close>

datatype 'c rack_storage = Storage_missing | Storage_empty | Storage_invalid | Stored "'c PersistedRackStorage"

definition loadRackDocument :: "'c rack_storage \<Rightarrow> 'c RackDocument \<times> 'c rack_storage" where
  "loadRackDocument storage =
     (case storage of
        Stored data \<Rightarrow> let migrated = migratePersistedRackStorage data
          in (migrated, Stored (toPersistedRackStorage migrated))
      | _ \<Rightarrow> (buildDefaultRackDocument, storage))"

definition saveRackDocument :: "'c RackDocument \<Rightarrow> 'c rack_storage \<Rightarrow> 'c rack_storage" where
  "saveRackDocument document storage =
     (case storage of Storage_missing \<Rightarrow> Storage_missing | _ \<Rightarrow> Stored (toPersistedRackStorage document))"

end
