(* ===== verification/Rack_Document_Laws.thy ===== *)
theory Rack_Document_Laws
  imports Rack_Document
begin

text \<open>
  What the stored rack promises: a document that was saved loads as it was, sizes and devices included, and
  loading is stable. An instrument that is put into a row leaves the others in their order.
\<close>

section \<open>Devices\<close>

lemma migrateRackDeviceRecord_id [simp]: "migrateRackDeviceRecord device = device"
  by (cases "rd_lastConnectedAtMs device") (simp_all add: migrateRackDeviceRecord_def)

lemma update_fresh: "k \<notin> fst ` set al \<Longrightarrow> AList.update k v al = al @ [(k, v)]"
  by (induction al) auto

lemma fold_put_device:
  "distinct (map rd_id ds) \<Longrightarrow> fst ` set al \<inter> rd_id ` set ds = {} \<Longrightarrow>
    fold put_device ds al = al @ map (\<lambda>d. (rd_id d, d)) ds"
proof (induction ds arbitrary: al)
  case (Cons d ds)
  have "put_device d al = al @ [(rd_id d, d)]"
    using Cons.prems by (simp add: put_device_def update_fresh)
  then show ?case
    using Cons by auto
qed simp

lemma paired_devices_kept: "distinct (map rd_id ds) \<Longrightarrow> map snd (fold put_device ds []) = ds"
  by (simp add: fold_put_device comp_def)

lemma keys_put_device: "map fst (put_device d al) = (if rd_id d \<in> fst ` set al then map fst al else map fst al @ [rd_id d])"
  by (simp add: put_device_def AList.update_keys)

lemma put_device_invariant:
  "distinct (map fst al) \<Longrightarrow> \<forall>e \<in> set al. rd_id (snd e) = fst e \<Longrightarrow>
    distinct (map fst (put_device d al)) \<and> (\<forall>e \<in> set (put_device d al). rd_id (snd e) = fst e)"
proof -
  assume al: "distinct (map fst al)" "\<forall>e \<in> set al. rd_id (snd e) = fst e"
  have "\<forall>e \<in> set (AList.update (rd_id d) d al). rd_id (snd e) = fst e"
    using al(2) by (induction al) auto
  then show ?thesis
    using al(1) by (simp add: put_device_def AList.distinct_update)
qed

lemma stored_devices_distinct: "distinct (map rd_id (map snd (fold put_device ds [])))"
proof -
  have inv: "distinct (map fst (fold put_device ds al)) \<and> (\<forall>e \<in> set (fold put_device ds al). rd_id (snd e) = fst e)"
    if "distinct (map fst al)" "\<forall>e \<in> set al. rd_id (snd e) = fst e" for al :: "(string \<times> 'a RackDeviceRecord) list"
    using that
  proof (induction ds arbitrary: al)
    case (Cons d ds)
    show ?case using Cons.IH [of "put_device d al"] put_device_invariant [OF Cons.prems, of d] by auto
  qed simp
  let ?al = "fold put_device ds []"
  have al: "distinct (map fst ?al)" "\<forall>e \<in> set ?al. rd_id (snd e) = fst e"
    using inv [of "[]"] by simp_all
  have "map rd_id (map snd ?al) = map fst ?al"
    using al(2) by simp
  then show ?thesis using al(1) by (simp only:)
qed

section \<open>Sizes\<close>

lemma sanitize_stable:
  "0 < c \<Longrightarrow> sanitizePositiveNumber (or_else (sanitizePositiveNumber x) (Some c)) = or_else (sanitizePositiveNumber x) (Some c)"
  by (auto simp: sanitizePositiveNumber_def or_else_def split: option.splits)

lemma or_else_again: "or_else (or_else x (Some c)) y = or_else x (Some c)"
  by (auto simp: or_else_def split: option.splits)

lemma default_flex_positive: "0 < fl (3 / 10)"
  by code_simp

text \<open>The sizes of a document that came from the default one are found and taken again.\<close>

lemma sizes_kept:
  fixes d :: "'c RackDocument"
  assumes "do_racks d = do_racks (applyRackSizing buildDefaultRackDocument sizing)"
  shows "do_racks (applyRackSizing buildDefaultRackDocument (Some (extractRackSizing d))) = do_racks d"
  using assms
  by (simp add: applyRackSizing_def extractRackSizing_def buildDefaultRackDocument_def buildDefaultInstrument_def
      Let_def applyRowSizing_def applyInstrumentSizing_def last_with_def present_def
      sanitize_stable or_else_again default_flex_positive)

lemma applyRackSizing_devices [simp]:
  "do_pairedDevices (applyRackSizing d sizing) = do_pairedDevices d"
  by (simp add: applyRackSizing_def)

lemma migrate_saved:
  fixes d :: "'c RackDocument"
  assumes "do_racks (applyRackSizing buildDefaultRackDocument (Some (extractRackSizing d))) = do_racks d"
    "distinct (map rd_id (do_pairedDevices d))"
  shows "migratePersistedRackStorage (toPersistedRackStorage d) = d"
proof -
  have "map migrateRackDeviceRecord (do_pairedDevices d) = do_pairedDevices d" by (simp add: map_idI)
  then show ?thesis
    using assms(1) paired_devices_kept [OF assms(2)]
    by (simp add: migratePersistedRackStorage_def toPersistedRackStorage_def present_def Let_def)
qed

text \<open>The racks a user can have: the rows and instruments of the default rack, at weights of their own.\<close>

definition racks_of_weights :: "rat \<Rightarrow> rat \<Rightarrow> rat \<Rightarrow> rat \<Rightarrow> rat \<Rightarrow> 'c RackDefinition list" where
  "racks_of_weights upper strip lower messages detail = [
     \<lparr>rk_id = ''bench-rack-a'', rk_name = ''Bench Rack A'', rk_hideHeader = Some False, rk_totalUnits = 9,
      rk_rows = [
        \<lparr>rw_id = ''row-default-trigger'',
         rw_instruments = [buildDefaultInstrument ''inst-default-timestrip'' ''com.mta.drpd.timestrip'' strip],
         rw_flex = Some upper\<rparr>,
        \<lparr>rw_id = ''row-default-log'',
         rw_instruments = [
           buildDefaultInstrument ''inst-default-log'' ''com.mta.drpd.usbpd-log'' messages,
           buildDefaultInstrument ''inst-default-detail'' ''com.mta.drpd.message-detail'' detail],
         rw_flex = Some lower\<rparr>]\<rparr>]"

lemma weights_restored:
  fixes d :: "'c RackDocument"
  assumes "do_racks d = racks_of_weights upper strip lower messages detail"
    "0 < upper" "0 < strip" "0 < lower" "0 < messages" "0 < detail"
  shows "do_racks (applyRackSizing buildDefaultRackDocument (Some (extractRackSizing d))) = do_racks d"
  using assms
  by (simp add: applyRackSizing_def extractRackSizing_def buildDefaultRackDocument_def buildDefaultInstrument_def
      racks_of_weights_def Let_def applyRowSizing_def applyInstrumentSizing_def last_with_def present_def
      sanitizePositiveNumber_def or_else_def)

text \<open>C40: a rack that is saved loads as it was: a document with the rows and instruments of the default rack at any
  positive weights, and any paired devices with different ids, comes back from the storage unchanged.\<close>

theorem saved_rack_loads_back:
  fixes d :: "'c RackDocument"
  assumes "do_racks d = racks_of_weights upper strip lower messages detail"
    "0 < upper" "0 < strip" "0 < lower" "0 < messages" "0 < detail"
    "distinct (map rd_id (do_pairedDevices d))" "storage \<noteq> Storage_missing"
  shows "fst (loadRackDocument (saveRackDocument d storage)) = d"
  using migrate_saved [OF weights_restored [OF assms(1-6)] assms(7)] assms(8)
  by (cases storage) (simp_all add: loadRackDocument_def saveRackDocument_def Let_def)

text \<open>Loading is stable: whatever is stored, what a load wrote back loads as the same document.\<close>

lemma load_stable: "fst (loadRackDocument (snd (loadRackDocument storage))) = fst (loadRackDocument storage)"
proof (cases storage)
  case (Stored data)
  let ?m = "migratePersistedRackStorage data"
  have "\<exists>ds. do_pairedDevices ?m = map snd (fold put_device ds [])"
    by (simp add: migratePersistedRackStorage_def Let_def del: fold_append) blast
  then have "distinct (map rd_id (do_pairedDevices ?m))"
    using stored_devices_distinct by metis
  moreover have "\<exists>sizing. do_racks ?m = do_racks (applyRackSizing buildDefaultRackDocument sizing)"
    by (simp add: migratePersistedRackStorage_def Let_def) blast
  ultimately have "migratePersistedRackStorage (toPersistedRackStorage ?m) = ?m"
    using migrate_saved sizes_kept by metis
  then show ?thesis by (simp add: Stored loadRackDocument_def Let_def)
qed (simp_all add: loadRackDocument_def)

theorem saved_rack_loads_back_witness:
  "fst (loadRackDocument (saveRackDocument
      (\<lparr>do_racks = racks_of_weights 2 50 (1 / 2) 4 3, do_pairedDevices = []\<rparr> :: unit RackDocument) Storage_empty)) =
    \<lparr>do_racks = racks_of_weights 2 50 (1 / 2) 4 3, do_pairedDevices = []\<rparr>"
  by (rule saved_rack_loads_back [of _ 2 50 "1 / 2" 4 3]) simp_all

section \<open>Rows\<close>

lemma inserted_instrument_found:
  "\<exists>i \<le> length (rw_instruments row).
    rw_instruments (insertInstrumentIntoRowAtIndex row instrument insertIndex) =
      take i (rw_instruments row) @ instrument # drop i (rw_instruments row)"
  by (rule exI [of _ "nat (max 0 (min insertIndex (int (length (rw_instruments row)))))"])
    (auto simp: insertInstrumentIntoRowAtIndex_def Let_def)

lemma allocation_order:
  "allocateRowInstrumentWidths row instrumentMap maxRowWidthUnits = Some ws \<Longrightarrow>
    map fst ws = map ri_id (rw_instruments row)"
  by (auto simp: allocateRowInstrumentWidths_def Let_def split: if_splits)

end
