(* ===== verification/Spec2Isabelle.thy ===== *)
theory Spec2Isabelle
  imports Log_Decode_Laws Winusb_Laws Request_Lock Usbtmc_Laws Firmware_Release_Laws Firmware_Upload_Laws Drpd_Groups_Laws
    Inquiry_Survey_Laws Auth_Workflow_Laws Auth_Verifier_Laws Log_Store_Laws Device_State_Laws Device_Session_Laws
    Rack_Document_Laws
begin

text \<open>
  A verification library for the core logic of the DR.PD frontend (\<open>src/frontend/src\<close>): the browser side of a
  USB Power Delivery analyser. It talks SCPI to the device over WebUSB, captures and decodes USB-PD messages,
  keeps them in a log, runs inquiries and the authentication of a port partner, and updates the firmware.

  \<^bold>\<open>How the parts interact.\<close> A transport (\<open>lib/transport\<close>) carries commands and answers. The command groups
  (\<open>lib/device/drpd/*.ts\<close>) format commands and parse answers. The driver \<open>device.ts\<close> keeps the known state of the
  device, reads it again when an interrupt or a poll says so, drains the capture queue and feeds the log store
  (\<open>logging/sqliteWasmStore.ts\<close>). The decoders (\<open>usb-pd\<close>, \<open>logDecode.ts\<close>) read the captured bytes. The inquiry
  code (\<open>features/rack/inquiries\<close>) asks the port partner through the sink group. The firmware code
  (\<open>lib/firmware\<close>, \<open>firmwareUpdate.ts\<close>) decides on an update and uploads it over the same transport.

  \<^bold>\<open>Conventions.\<close> A theory \<open>X\<close> holds the definitions of a part, \<open>X_Laws\<close> the laws when they are many. Definitions
  keep the names of the source. A function that throws returns a sum, \<open>Inl\<close> the error. A number that holds an
  integer is an \<open>int\<close>, with the 32-bit operators of the language written out (\<open>Drpd_Prelude\<close>); any other number
  is the rational its double holds, with the rounding of each operation written out by \<open>fl\<close> (\<open>Js_Double\<close>), and
  \<open>None\<close> where it may be \<open>NaN\<close> or infinite. A \<open>bigint\<close> is an \<open>int\<close>, a \<open>Uint8Array\<close> a list of 8-bit words, a string
  a list of characters up to code 255. State is passed explicitly; code that waits is a step relation or a
  function of the answers to come, so that other steps can come in between.

  \<^bold>\<open>The theories and the code they model.\<close>
  \<^item> \<open>Drpd_Prelude\<close>, \<open>Js_Double\<close>, \<open>Js_Sort\<close>, \<open>Decimal_Text\<close>: operators, doubles, the stable sort and decimal
    notation of the language, with the laws the rest shares.
  \<^item> \<open>Usbpd_Header\<close>, \<open>Power_Objects\<close>, \<open>Small_Objects\<close>, \<open>Vdm_Objects\<close>, \<open>Data_Blocks\<close> (\<open>usb-pd/header.ts\<close>, \<open>sop.ts\<close>,
    \<open>DataObjects.ts\<close>), \<open>Pd_Messages\<close> and \<open>Pd_Message_Laws\<close> (\<open>message.ts\<close>, \<open>messageBase.ts\<close>, \<open>parser.ts\<close>,
    \<open>messages/*.ts\<close>): headers, data objects and message classes. The laws: every bit of an object is accounted
    for (decoding undoes packing), no constructor throws once the header is read, and the class of a parsed
    message is the one its kind and number select.
  \<^item> \<open>Log_Decode\<close>, \<open>Log_Decode_Laws\<close> (\<open>logDecode.ts\<close>): decoding of a logged row with the rows around it. The chunks
    of an extended message, however interleaved with other packets, reassemble to the message.
  \<^item> \<open>Scpi_Text\<close>, \<open>Scpi_Errors\<close>, \<open>Scpi_Blocks\<close>, \<open>Stream_Framing\<close>, \<open>Transport_Tags\<close>, \<open>Winusb\<close>, \<open>Winusb_Laws\<close>,
    \<open>Usbtmc\<close>, \<open>Usbtmc_Laws\<close>, \<open>Usb_Discovery\<close>, \<open>Request_Lock\<close> (\<open>transport/winusb.ts\<close>, \<open>transport/usbtmc.ts\<close>):
    framing of a byte stream, tags, bulk transfers, aborts and clears, block responses, the discovery of
    endpoints and the request lock. The laws: frames are received in order and none is lost while a request
    waits for its answer, the lock lets one request run at a time and every request in the end, the clear
    handshake ends.
  \<^item> \<open>Scpi_Numbers\<close>, \<open>Scpi_Numbers_Laws\<close>, \<open>Drpd_Tokens\<close>, \<open>Scpi_Parsers\<close>, \<open>Capture_Record\<close>, \<open>Cable_Test\<close>,
    \<open>Drpd_Groups\<close>, \<open>Drpd_Groups_Laws\<close> (\<open>parsers.ts\<close>, \<open>types.ts\<close>, \<open>cableTest.ts\<close> and the files of the command groups):
    number readers, enumerations, response parsers and every method of the groups over the transport's interface.
    A parameter that is sent reads back as it was; a range check fails before anything is sent.
  \<^item> \<open>Crc32\<close>, \<open>Firmware_Image\<close>, \<open>Firmware_Image_Laws\<close>, \<open>Firmware_Upload_Laws\<close> (\<open>firmwareUpdate.ts\<close>) and
    \<open>Firmware_Release\<close>, \<open>Firmware_Release_Laws\<close> (\<open>lib/firmware\<close>): the UF2 image refines a map from addresses to
    bytes, an upload that returns has programmed that map, and an update is offered exactly when the newest
    eligible release is newer.
  \<^item> \<open>Inquiry_Runner\<close>, \<open>Inquiry_Runner_Laws\<close>, \<open>Inquiry_Decode\<close>, \<open>Inquiry_Surveys\<close>, \<open>Inquiry_Survey_Laws\<close>
    (\<open>inquiries/runner.ts\<close>, \<open>decode.ts\<close>, the workflows): one inquiry from its validation to its outcome, and the
    surveys made of them. The runner takes only an answer that belongs to its request, and answers in bounded
    polls; a decoder fails only with an explicit error.
  \<^item> \<open>Auth_Workflow\<close>, \<open>Auth_Workflow_Laws\<close>, \<open>Auth_Verifier\<close>, \<open>Auth_Verifier_Laws\<close> (\<open>authWorkflow.ts\<close>,
    \<open>authVerifier.ts\<close>, \<open>authentication.ts\<close>): the workflow is bounded and reads the whole certificate chain; a
    positive verdict means that every signature, hash and name held.
  \<^item> \<open>Log_Rows\<close>, \<open>Log_Import\<close>, \<open>Log_Import_Laws\<close>, \<open>Log_Queries\<close>, \<open>Log_Queries_Laws\<close>, \<open>Log_Store\<close>,
    \<open>Log_Store_Queries\<close>, \<open>Log_Store_Laws\<close> (\<open>logging/*.ts\<close>, \<open>messageLogImport.ts\<close>): rows, their columns, SQL texts with
    their values, batches, retention, paging and export. No flush loses a row, the timeline stays ordered and
    bounded, a page answers as if all rows had been read, an exported row imports as itself.
  \<^item> \<open>Device_Log\<close>, \<open>Device_Log_Laws\<close>, \<open>Device_State\<close>, \<open>Device_State_Laws\<close>, \<open>Device_Session\<close>, \<open>Device_Session_Laws\<close>
    (\<open>device.ts\<close>): what the driver logs and on which clock; its state and the events that announce it, with all
    orders of answers; interrupts, the drain of the capture queue, timers and the life of the log store.
  \<^item> \<open>Rack_Document\<close>, \<open>Rack_Document_Laws\<close> (\<open>features/rack/layout.ts\<close>, \<open>lib/rack/loadRack.ts\<close>, \<open>lib/rack/types.ts\<close>): widths and
    weights of the instruments of a rack, migration of stored documents; a saved rack loads back as it was.

  \<^bold>\<open>Bounds and fuel.\<close> The loops over data recurse on it or on a measure. A loop over the answers of the device
  recurses on the list of answers to come, and a device that says no more ends it in a state of its own
  (\<open>None\<close> or an event for a blocked transfer), so a law that a run returns is about the answers it is given. The
  receive loop of \<open>Winusb\<close> is a partial function, with \<open>None\<close> for a loop that does not end: it ends on well-formed
  frames (\<open>frames_received\<close>) and there is an input on which the code does not return (\<open>appendRxBytes_hangs\<close>). The
  fuel of \<open>drain\<close> in \<open>Stream_Framing\<close> is the length of the buffer, which is enough, as every message takes a byte or
  more (\<open>drain_fuel\<close>). A pass over the capture queue takes at most 64 records, the cap of the code.

  \<^bold>\<open>Parameters.\<close> Code that is not part of the repository is an argument: WebUSB as the answers of the device, the
  SQLite engine as a record of its operations with the laws of inserting, selecting and deleting that the proofs
  use, the cryptographic operations and the X.509 parser as a record, the text of a date and of a UTF-8 decoding
  as functions, the clocks as values. The locales state such interfaces where a proof uses the laws only, and are
  interpreted on the model's definitions.

  \<^bold>\<open>Not modelled.\<close> The React components and their hooks (\<open>RackView.tsx\<close>, the instruments and overlays, \<open>ui\<close>): they
  render and forward events, on a framework that is not part of the repository. The worker and its proxies
  (\<open>worker/*.ts\<close>): they forward calls between threads. The text of decoded fields (\<open>humanReadableField.ts\<close> and
  the \<open>humanReadable\<close> methods). The calls into WebUSB that select, open and claim a device, fetching releases, and
  debug output. The device registry
  (\<open>deviceRegistry.ts\<close>) and the instrument class beyond what the layout reads. Of \<open>device.ts\<close> the diagnostics, the time limit of the start at connection, and the order of
  the connect tasks.
\<close>

end
